(* ===== verification/P2_Prelude.thy ===== *)
theory P2_Prelude
  imports "HOL-Library.Word" "HOL-Library.Monad_Syntax" "HOL-Library.Multiset"
begin

text \<open>
  Shared material of the development: the names of the machine types the C code uses on a
  64-bit platform, the half-open byte ranges (extents) an address and a length denote, and the
  generic lemmas on options, words and lists that every component needs.
\<close>

unbundle bit_operations_syntax

section \<open>Machine types\<close>

type_synonym u8 = "8 word"
type_synonym u16 = "16 word"
type_synonym u32 = "32 word"
type_synonym u64 = "64 word"

text \<open>Pointers and \<open>uintptr_t\<close> are 64-bit values; \<open>NULL\<close> is the address 0.\<close>

type_synonym addr = "64 word"

abbreviation NULL :: addr where
  "NULL \<equiv> 0"

text \<open>\<open>SIZE_MAX\<close> of \<open>stdint.h\<close>, for a 64-bit \<open>size_t\<close>.\<close>

abbreviation SIZE_MAX :: u64 where
  "SIZE_MAX \<equiv> 18446744073709551615"

text \<open>
  Collections: \<open>frame_intros\<close> holds the introduction rules of "only these bytes changed" facts,
  \<open>model_defs\<close> the definitions a component unfolds to evaluate a closed term.
\<close>

named_theorems frame_intros \<open>rules that bound the bytes an operation may change\<close>
named_theorems model_defs \<open>definitions unfolded to evaluate the model on closed terms\<close>

section \<open>Options\<close>

lemma bind_SomeI: "x = Some y \<Longrightarrow> f y = r \<Longrightarrow> Option.bind x f = r"
  by simp

lemma bind_SomeE:
  assumes "Option.bind x f = Some r"
  obtains y where "x = Some y" and "f y = Some r"
  using assms by (cases x) auto

section \<open>Lists\<close>

lemma distinct_map_middle:
  "distinct (map f (xs @ y # zs)) \<Longrightarrow> p \<in> set xs \<union> set zs \<Longrightarrow> f p \<noteq> f y"
  by (auto simp: image_iff)

text \<open>Blocks of \<open>l\<close> indices in a row cover all indices.\<close>

lemma all_blocks:
  assumes "0 < (l :: nat)"
  shows "(\<forall>i<n. \<forall>b<l. P (i * l + b)) \<longleftrightarrow> (\<forall>i < n * l. P i)"
proof
  assume f: "\<forall>i<n. \<forall>b<l. P (i * l + b)"
  show "\<forall>i < n * l. P i"
  proof (intro allI impI)
    fix i
    assume "i < n * l"
    then have "i div l < n" and "i mod l < l"
      using assms by (simp_all add: div_less_iff_less_mult)
    with f have "P (i div l * l + i mod l)" by blast
    then show "P i" by simp
  qed
next
  assume f: "\<forall>i < n * l. P i"
  have "i * l + b < n * l" if "i < n" "b < l" for i b
  proof -
    have "i * l + b < Suc i * l" using that(2) by simp
    also have "\<dots> \<le> n * l" using that(1) by (intro mult_right_mono) auto
    finally show ?thesis .
  qed
  with f show "\<forall>i<n. \<forall>b<l. P (i * l + b)" by blast
qed

section \<open>Byte ranges\<close>

text \<open>The \<open>n\<close> bytes from address \<open>a\<close>, as natural numbers: no wrap-around is hidden in it.\<close>

definition span_of :: "addr \<Rightarrow> nat \<Rightarrow> nat set" where
  "span_of a n = {unat a ..< unat a + n}"

lemma span_of_0 [simp]: "span_of a 0 = {}"
  by (simp add: span_of_def)

lemma mem_span_of [simp]: "b \<in> span_of a n \<longleftrightarrow> unat a \<le> b \<and> b < unat a + n"
  by (auto simp: span_of_def)

lemma finite_span_of [simp]: "finite (span_of a n)"
  by (simp add: span_of_def)

lemma card_span_of [simp]: "card (span_of a n) = n"
  by (simp add: span_of_def)

lemma span_of_empty_iff [simp]: "span_of a n = {} \<longleftrightarrow> n = 0"
  by (auto simp: span_of_def)

lemma span_of_mono: "k \<le> n \<Longrightarrow> span_of a k \<subseteq> span_of a n"
  by auto

lemma span_of_start: "0 < n \<Longrightarrow> unat a \<in> span_of a n"
  by simp

section \<open>Words\<close>

lemma unat_add_no_wrap:
  fixes a b :: addr
  assumes "unat a + unat b < 2 ^ 64"
  shows "unat (a + b) = unat a + unat b"
  using assms by (simp add: unat_word_ariths)

lemma unat_add_num:
  fixes a :: addr
  assumes "unat a + n < 2 ^ 64"
  shows "unat (a + of_nat n) = unat a + n"
  using assms by (simp add: unat_word_ariths unat_of_nat)

lemma unat_lt_2_64: "unat (a :: addr) < 2 ^ 64"
  using unsigned_less [of a] by simp

lemma addr_eq_iff: "(a :: addr) = b \<longleftrightarrow> unat a = unat b"
  by (simp add: word_unat_eq_iff)

text \<open>A byte of a range that does not wrap is at its start plus an offset.\<close>

lemma span_of_offset:
  assumes "unat (b :: addr) \<in> span_of a n"
  obtains k where "k < n" and "b = a + of_nat k"
proof -
  let ?k = "unat b - unat a"
  have "?k < n" and "unat b = unat a + ?k"
    using assms by auto
  moreover have "b = a + of_nat ?k"
    using assms by (simp add: of_nat_diff)
  ultimately show ?thesis using that by blast
qed

end
