(* ===== verification/C_Memory.thy ===== *)
theory C_Memory
  imports P2_Prelude
begin

text \<open>
  The memory the C code runs on: byte-addressed, little-endian, with the list of the mappings
  that are live (the static storage of the program and what the operating system has handed
  out).  An access outside one live mapping has no defined result: it is \<open>None\<close>, and every
  function of the development that can run into one returns an option.  \<open>memset\<close> and
  \<open>memcpy\<close> are the functions of \<open>string.h\<close> the allocator calls.
\<close>

section \<open>Memory\<close>

record cmem =
  bytes :: "addr \<Rightarrow> u8"
  regions :: "(addr \<times> nat) list"

text \<open>The bytes \<open>a .. a+n-1\<close> lie in one live mapping.\<close>

definition mapped :: "cmem \<Rightarrow> addr \<Rightarrow> nat \<Rightarrow> bool" where
  "mapped m a n =
     list_ex (\<lambda>(b, l). unat b \<le> unat a \<and> unat a + n \<le> unat b + l) (regions m)"

text \<open>The eight bytes of a \<open>size_t\<close> or a pointer, least significant first.\<close>

definition get64 :: "(addr \<Rightarrow> u8) \<Rightarrow> addr \<Rightarrow> u64" where
  "get64 f a =
     ucast (f a) OR push_bit 8 (ucast (f (a + 1))) OR push_bit 16 (ucast (f (a + 2)))
     OR push_bit 24 (ucast (f (a + 3))) OR push_bit 32 (ucast (f (a + 4)))
     OR push_bit 40 (ucast (f (a + 5))) OR push_bit 48 (ucast (f (a + 6)))
     OR push_bit 56 (ucast (f (a + 7)))"

definition put64 :: "(addr \<Rightarrow> u8) \<Rightarrow> addr \<Rightarrow> u64 \<Rightarrow> addr \<Rightarrow> u8" where
  "put64 f a v =
     f(a := ucast v, a + 1 := ucast (drop_bit 8 v), a + 2 := ucast (drop_bit 16 v),
       a + 3 := ucast (drop_bit 24 v), a + 4 := ucast (drop_bit 32 v),
       a + 5 := ucast (drop_bit 40 v), a + 6 := ucast (drop_bit 48 v),
       a + 7 := ucast (drop_bit 56 v))"

definition load64 :: "cmem \<Rightarrow> addr \<Rightarrow> u64 option" where
  "load64 m a = (if mapped m a 8 then Some (get64 (bytes m) a) else None)"

definition store64 :: "cmem \<Rightarrow> addr \<Rightarrow> u64 \<Rightarrow> cmem option" where
  "store64 m a v =
     (if mapped m a 8 then Some (m\<lparr>bytes := put64 (bytes m) a v\<rparr>) else None)"

definition memset :: "cmem \<Rightarrow> addr \<Rightarrow> u8 \<Rightarrow> nat \<Rightarrow> cmem option" where
  "memset m p v n =
     (if mapped m p n
      then Some (m\<lparr>bytes := \<lambda>b. if unat (b - p) < n then v else bytes m b\<rparr>)
      else None)"

text \<open>\<open>memcpy\<close> of overlapping objects is undefined.\<close>

definition memcpy :: "cmem \<Rightarrow> addr \<Rightarrow> addr \<Rightarrow> nat \<Rightarrow> cmem option" where
  "memcpy m d s n =
     (if mapped m d n \<and> mapped m s n
         \<and> (unat d + n \<le> unat s \<or> unat s + n \<le> unat d)
      then Some (m\<lparr>bytes := \<lambda>b. if unat (b - d) < n then bytes m (s + (b - d)) else bytes m b\<rparr>)
      else None)"

section \<open>Narrower accesses\<close>

definition load8 :: "cmem \<Rightarrow> addr \<Rightarrow> u8 option" where
  "load8 m a = (if mapped m a 1 then Some (bytes m a) else None)"

definition get16 :: "(addr \<Rightarrow> u8) \<Rightarrow> addr \<Rightarrow> u16" where
  "get16 f a = ucast (f a) OR push_bit 8 (ucast (f (a + 1)))"

definition load16 :: "cmem \<Rightarrow> addr \<Rightarrow> u16 option" where
  "load16 m a = (if mapped m a 2 then Some (get16 (bytes m) a) else None)"

definition get32 :: "(addr \<Rightarrow> u8) \<Rightarrow> addr \<Rightarrow> u32" where
  "get32 f a =
     ucast (f a) OR push_bit 8 (ucast (f (a + 1))) OR push_bit 16 (ucast (f (a + 2)))
     OR push_bit 24 (ucast (f (a + 3)))"

definition store8 :: "cmem \<Rightarrow> addr \<Rightarrow> u8 \<Rightarrow> cmem option" where
  "store8 m a v = (if mapped m a 1 then Some (m\<lparr>bytes := (bytes m)(a := v)\<rparr>) else None)"

definition store16 :: "cmem \<Rightarrow> addr \<Rightarrow> u16 \<Rightarrow> cmem option" where
  "store16 m a v =
     (if mapped m a 2
      then Some (m\<lparr>bytes := (bytes m)(a := ucast v, a + 1 := ucast (drop_bit 8 v))\<rparr>)
      else None)"

definition put32 :: "(addr \<Rightarrow> u8) \<Rightarrow> addr \<Rightarrow> u32 \<Rightarrow> addr \<Rightarrow> u8" where
  "put32 f a v =
     f(a := ucast v, a + 1 := ucast (drop_bit 8 v), a + 2 := ucast (drop_bit 16 v),
       a + 3 := ucast (drop_bit 24 v))"

definition load32 :: "cmem \<Rightarrow> addr \<Rightarrow> u32 option" where
  "load32 m a = (if mapped m a 4 then Some (get32 (bytes m) a) else None)"

definition store32 :: "cmem \<Rightarrow> addr \<Rightarrow> u32 \<Rightarrow> cmem option" where
  "store32 m a v =
     (if mapped m a 4 then Some (m\<lparr>bytes := put32 (bytes m) a v\<rparr>) else None)"

section \<open>Reading back a word\<close>

lemma put64_bytes:
  "put64 f a v a = ucast v"
  "put64 f a v (a + 1) = ucast (drop_bit 8 v)"
  "put64 f a v (a + 2) = ucast (drop_bit 16 v)"
  "put64 f a v (a + 3) = ucast (drop_bit 24 v)"
  "put64 f a v (a + 4) = ucast (drop_bit 32 v)"
  "put64 f a v (a + 5) = ucast (drop_bit 40 v)"
  "put64 f a v (a + 6) = ucast (drop_bit 48 v)"
  "put64 f a v (a + 7) = ucast (drop_bit 56 v)"
  by (simp_all add: put64_def)

lemma bit_byte_at:
  "bit (push_bit k (ucast (ucast (drop_bit k v) :: u8)) :: u64) n \<longleftrightarrow>
     k \<le> n \<and> n < k + 8 \<and> bit (v :: u64) n"
  by (auto simp: bit_simps not_le dest: bit_imp_le_length)

lemma bit_byte_0: "bit (ucast (ucast v :: u8) :: u64) n \<longleftrightarrow> n < 8 \<and> bit (v :: u64) n"
  by (auto simp: bit_simps dest: bit_imp_le_length)

lemma get64_put64_same [simp]: "get64 (put64 f a v) a = v"
  unfolding get64_def put64_bytes
  by (rule bit_word_eqI) (simp only: bit_or_iff bit_byte_at bit_byte_0, auto)
lemma get64_cong:
  assumes "\<And>k. k < 8 \<Longrightarrow> f (a + of_nat k) = g (a + of_nat k)"
  shows "get64 f a = get64 g a"
  using assms [of 0] assms [of 1] assms [of 2] assms [of 3] assms [of 4] assms [of 5]
    assms [of 6] assms [of 7]
  by (simp add: get64_def)

lemma put64_other:
  assumes "unat b \<notin> span_of a 8" and "unat a + 8 \<le> 2 ^ 64"
  shows "put64 f a v b = f b"
proof -
  have ne: "b \<noteq> a + of_nat k" if "k < 8" for k
    using assms that by (auto simp: unat_add_num)
  show ?thesis
    using ne [of 0] ne [of 1] ne [of 2] ne [of 3] ne [of 4] ne [of 5] ne [of 6] ne [of 7]
    by (simp add: put64_def)
qed

section \<open>What an operation may change\<close>

text \<open>
  \<open>changes S m m'\<close>: the mappings are the same and every byte outside \<open>S\<close> is.  The frame of
  every operation of the allocator is stated with it.
\<close>

definition changes :: "nat set \<Rightarrow> cmem \<Rightarrow> cmem \<Rightarrow> bool" where
  "changes S m m' \<longleftrightarrow>
     regions m' = regions m \<and> (\<forall>b. unat b \<notin> S \<longrightarrow> bytes m' b = bytes m b)"

lemma changes_refl [simp, frame_intros]: "changes S m m"
  by (simp add: changes_def)

lemma changes_trans:
  "changes S m m' \<Longrightarrow> changes T m' m'' \<Longrightarrow> S \<subseteq> U \<Longrightarrow> T \<subseteq> U \<Longrightarrow> changes U m m''"
  unfolding changes_def by (metis subsetD)

lemma changes_mono: "changes S m m' \<Longrightarrow> S \<subseteq> T \<Longrightarrow> changes T m m'"
  by (auto simp: changes_def)

lemma changes_mapped: "changes S m m' \<Longrightarrow> mapped m' a n = mapped m a n"
  by (simp add: changes_def mapped_def)

lemma changes_regions: "changes S m m' \<Longrightarrow> regions m' = regions m"
  by (simp add: changes_def)

lemma changes_byte: "changes S m m' \<Longrightarrow> unat b \<notin> S \<Longrightarrow> bytes m' b = bytes m b"
  by (simp add: changes_def)

lemma changes_load64:
  assumes ch: "changes S m m'" and dj: "span_of a 8 \<inter> S = {}" and nw: "unat a + 8 \<le> 2 ^ 64"
  shows "load64 m' a = load64 m a"
proof -
  have "bytes m' (a + of_nat k) = bytes m (a + of_nat k)" if "k < 8" for k
  proof (rule changes_byte [OF ch])
    have "unat (a + of_nat k) \<in> span_of a 8" using that nw by (simp add: unat_add_num)
    then show "unat (a + of_nat k) \<notin> S" using dj by blast
  qed
  then have "get64 (bytes m') a = get64 (bytes m) a" by (rule get64_cong)
  then show ?thesis by (simp add: load64_def changes_mapped [OF ch])
qed

section \<open>Mapped ranges\<close>

lemma mappedI:
  "(b, l) \<in> set (regions m) \<Longrightarrow> unat b \<le> unat a \<Longrightarrow> unat a + n \<le> unat b + l \<Longrightarrow> mapped m a n"
  by (auto simp: mapped_def list_ex_iff)

lemma mappedE:
  assumes "mapped m a n"
  obtains b l where "(b, l) \<in> set (regions m)" and "unat b \<le> unat a"
    and "unat a + n \<le> unat b + l"
  using assms by (auto simp: mapped_def list_ex_iff)

lemma mapped_sub:
  assumes "mapped m a n" and "unat a \<le> unat b" and "unat b + k \<le> unat a + n"
  shows "mapped m b k"
  using assms(1)
proof (rule mappedE)
  fix c l assume "(c, l) \<in> set (regions m)" "unat c \<le> unat a" "unat a + n \<le> unat c + l"
  with assms(2,3) show ?thesis by (intro mappedI [of c l]) auto
qed

lemma mapped_region: "(a, n) \<in> set (regions m) \<Longrightarrow> mapped m a n"
  by (rule mappedI) auto

lemma mapped_offset:
  "mapped m a n \<Longrightarrow> unat a + n \<le> 2 ^ 64 \<Longrightarrow> 0 < k \<Longrightarrow> i + k \<le> n \<Longrightarrow> mapped m (a + of_nat i) k"
  by (rule mapped_sub [of m a n]) (simp_all add: unat_add_num)

lemma mapped_add8:
  "mapped m a 16 \<Longrightarrow> unat a + 16 \<le> 2 ^ 64 \<Longrightarrow> mapped m a 8 \<and> mapped m (a + 8) 8"
  using mapped_offset [of m a 16 8 8] mapped_offset [of m a 16 8 0] by simp

section \<open>Loads and stores\<close>

lemma load64_mapped: "mapped m a 8 \<Longrightarrow> \<exists>v. load64 m a = Some v"
  by (simp add: load64_def)

lemma load64_SomeD: "load64 m a = Some v \<Longrightarrow> mapped m a 8"
  by (simp add: load64_def split: if_splits)

lemma store64_mapped:
  assumes "mapped m a 8" and "unat a + 8 \<le> 2 ^ 64"
  obtains m' where "store64 m a v = Some m'" and "changes (span_of a 8) m m'"
    and "load64 m' a = Some v"
proof (rule that)
  let ?m' = "m\<lparr>bytes := put64 (bytes m) a v\<rparr>"
  show "store64 m a v = Some ?m'" using assms by (simp add: store64_def)
  show ch: "changes (span_of a 8) m ?m'"
    using assms(2) by (simp add: changes_def put64_other del: mem_span_of)
  show "load64 ?m' a = Some v"
    using assms(1) changes_mapped [OF ch] by (simp add: load64_def)
qed

section \<open>What an operation keeps\<close>

text \<open>
  \<open>keeps S m m'\<close>: on the bytes \<open>S\<close> nothing changes, neither a value nor whether it is mapped.
  It is what is left of \<open>changes\<close> when mappings come and go elsewhere.
\<close>

definition keeps :: "nat set \<Rightarrow> cmem \<Rightarrow> cmem \<Rightarrow> bool" where
  "keeps S m m' \<longleftrightarrow>
     (\<forall>b. unat b \<in> S \<longrightarrow> bytes m' b = bytes m b)
     \<and> (\<forall>a n. 0 < n \<longrightarrow> span_of a n \<subseteq> S \<longrightarrow> mapped m a n \<longrightarrow> mapped m' a n)"

lemma keeps_refl [simp]: "keeps S m m"
  by (simp add: keeps_def)

lemma keeps_empty [simp]: "keeps {} m m'"
  by (simp add: keeps_def)

lemma keeps_trans: "keeps S m m' \<Longrightarrow> keeps S m' m'' \<Longrightarrow> keeps S m m''"
  unfolding keeps_def by metis

lemma keeps_mono: "keeps S m m' \<Longrightarrow> T \<subseteq> S \<Longrightarrow> keeps T m m'"
  unfolding keeps_def by blast

lemma changes_keeps: "changes T m m' \<Longrightarrow> S \<inter> T = {} \<Longrightarrow> keeps S m m'"
  by (auto simp: keeps_def changes_mapped changes_byte disjoint_iff)

lemma keeps_byte: "keeps S m m' \<Longrightarrow> unat b \<in> S \<Longrightarrow> bytes m' b = bytes m b"
  by (simp add: keeps_def)

lemma keeps_mapped: "keeps S m m' \<Longrightarrow> span_of a n \<subseteq> S \<Longrightarrow> 0 < n \<Longrightarrow> mapped m a n \<Longrightarrow> mapped m' a n"
  by (simp add: keeps_def)

lemma keeps_load64:
  assumes k: "keeps S m m'" and s: "span_of a 8 \<subseteq> S" and nw: "unat a + 8 \<le> 2 ^ 64"
    and l: "load64 m a = Some v"
  shows "load64 m' a = Some v"
proof -
  have "bytes m' (a + of_nat j) = bytes m (a + of_nat j)" if "j < 8" for j
    using that nw s by (intro keeps_byte [OF k] subsetD [OF s]) (simp add: unat_add_num)
  then have "get64 (bytes m') a = get64 (bytes m) a" by (rule get64_cong)
  moreover have "mapped m' a 8" using keeps_mapped [OF k s] load64_SomeD [OF l] by simp
  ultimately show ?thesis using l by (simp add: load64_def split: if_splits)
qed

section \<open>memset and memcpy\<close>

lemma unat_diff_span:
  fixes b p :: addr
  assumes "unat p + n \<le> 2 ^ 64"
  shows "unat (b - p) < n \<longleftrightarrow> unat b \<in> span_of p n"
proof
  assume l: "unat (b - p) < n"
  have "unat b = unat (p + of_nat (unat (b - p)))" by simp
  also have "\<dots> = unat p + unat (b - p)"
    using l assms by (subst unat_add_num) auto
  finally show "unat b \<in> span_of p n" using l by simp
next
  assume r: "unat b \<in> span_of p n"
  then have "p \<le> b" by (simp add: word_le_nat_alt)
  then have "unat (b - p) = unat b - unat p" by (rule unat_sub)
  then show "unat (b - p) < n" using r by auto
qed

lemma memset_spec:
  assumes "mapped m p n" and "unat p + n \<le> 2 ^ 64"
  obtains m' where "memset m p v n = Some m'" and "changes (span_of p n) m m'"
    and "\<And>b. unat b \<in> span_of p n \<Longrightarrow> bytes m' b = v"
  using assms by (auto simp: memset_def changes_def unat_diff_span simp del: mem_span_of)

lemma memcpy_spec:
  assumes "mapped m d n" and "mapped m s n" and "unat d + n \<le> 2 ^ 64"
    and "span_of d n \<inter> span_of s n = {} \<or> n = 0"
  obtains m' where "memcpy m d s n = Some m'" and "changes (span_of d n) m m'"
    and "\<And>k. k < n \<Longrightarrow> bytes m' (d + of_nat k) = bytes m (s + of_nat k)"
proof (rule that)
  let ?m' = "m\<lparr>bytes := \<lambda>b. if unat (b - d) < n then bytes m (s + (b - d)) else bytes m b\<rparr>"
  have "n = 0 \<or> unat d + n \<le> unat s \<or> unat s + n \<le> unat d"
  proof (rule ccontr)
    assume "\<not> ?thesis"
    then have "max (unat d) (unat s) \<in> span_of d n \<inter> span_of s n" by auto
    with assms(4) \<open>\<not> ?thesis\<close> show False by blast
  qed
  then show "memcpy m d s n = Some ?m'" using assms(1,2) by (auto simp: memcpy_def)
  show "changes (span_of d n) m ?m'"
    using assms(3) by (simp add: changes_def unat_diff_span del: mem_span_of)
  show "bytes ?m' (d + of_nat k) = bytes m (s + of_nat k)" if "k < n" for k
    using that assms(3) by (simp add: unat_of_nat)
qed

lemma load64_zero:
  assumes "mapped m a 8" and "unat a + 8 \<le> 2 ^ 64" and "\<And>b. unat b \<in> span_of a 8 \<Longrightarrow> bytes m b = 0"
  shows "load64 m a = Some 0"
proof -
  have "get64 (bytes m) a = get64 (\<lambda>_. 0) a"
    using assms(2,3) by (intro get64_cong) (simp add: unat_add_num)
  then show ?thesis using assms(1) by (simp add: load64_def get64_def)
qed

end
