(* ===== verification/Unity_Output.thy ===== *)
theory Unity_Output
  imports C_Memory
begin

text \<open>
  The output half of the test framework the repository builds its tests with
  (\<open>src/unity/unity.c\<close>): the state \<open>struct UNITY_STORAGE_T\<close>, the display styles, and the
  functions that print characters, strings and numbers.  Configuration: the default one on an LP64
  platform (\<open>UNITY_INT\<close> of 64 bits, \<open>int\<close> of 32 bits, \<open>char\<close> signed, no colours, output by
  \<open>putchar\<close>).  What has been given to \<open>putchar\<close> is the field \<open>outchars\<close>; a C string is the list
  of its characters before the terminating 0, a \<open>char*\<close> that may be \<open>NULL\<close> an option.  Every
  printing function is shown to append a text and change nothing else, and the texts of numbers
  are shown to read back as the numbers.
\<close>

section \<open>Storage\<close>

record unity =
  TestFile :: "string option"
  CurrentTestName :: "string option"
  CurrentDetail1 :: "string option"
  CurrentDetail2 :: "string option"
  CurrentTestLineNumber :: u64
  NumberOfTests :: u64
  TestFailures :: u64
  TestIgnores :: u64
  CurrentTestFailed :: u64
  CurrentTestIgnored :: u64
  outchars :: string

text \<open>\<open>UNITY_OUTPUT_CHAR\<close> is \<open>putchar\<close>; \<open>UNITY_PRINT_EOL\<close> prints a newline.\<close>

definition UNITY_OUTPUT_CHAR :: "char \<Rightarrow> unity \<Rightarrow> unity" where
  "UNITY_OUTPUT_CHAR c u = u\<lparr>outchars := outchars u @ [c]\<rparr>"

definition UNITY_PRINT_EOL :: "unity \<Rightarrow> unity" where
  "UNITY_PRINT_EOL u = UNITY_OUTPUT_CHAR (CHR 0x0A) u"

section \<open>Display styles\<close>

type_synonym style = u32

definition UNITY_DISPLAY_RANGE_INT :: style where "UNITY_DISPLAY_RANGE_INT = 0x10"
definition UNITY_DISPLAY_RANGE_UINT :: style where "UNITY_DISPLAY_RANGE_UINT = 0x20"
definition UNITY_DISPLAY_RANGE_HEX :: style where "UNITY_DISPLAY_RANGE_HEX = 0x40"
definition UNITY_DISPLAY_RANGE_CHAR :: style where "UNITY_DISPLAY_RANGE_CHAR = 0x80"

lemmas range_defs [model_defs] = UNITY_DISPLAY_RANGE_INT_def UNITY_DISPLAY_RANGE_UINT_def
  UNITY_DISPLAY_RANGE_HEX_def UNITY_DISPLAY_RANGE_CHAR_def

definition UNITY_INT_WIDTH :: nat where "UNITY_INT_WIDTH = 32"

definition UNITY_MAX_NIBBLES :: u32 where "UNITY_MAX_NIBBLES = 16"

definition UNITY_DISPLAY_STYLE_INT :: style where
  "UNITY_DISPLAY_STYLE_INT = of_nat (UNITY_INT_WIDTH div 8) + UNITY_DISPLAY_RANGE_INT"
definition UNITY_DISPLAY_STYLE_INT8 :: style where
  "UNITY_DISPLAY_STYLE_INT8 = 1 + UNITY_DISPLAY_RANGE_INT"
definition UNITY_DISPLAY_STYLE_INT16 :: style where
  "UNITY_DISPLAY_STYLE_INT16 = 2 + UNITY_DISPLAY_RANGE_INT"
definition UNITY_DISPLAY_STYLE_INT32 :: style where
  "UNITY_DISPLAY_STYLE_INT32 = 4 + UNITY_DISPLAY_RANGE_INT"
definition UNITY_DISPLAY_STYLE_INT64 :: style where
  "UNITY_DISPLAY_STYLE_INT64 = 8 + UNITY_DISPLAY_RANGE_INT"
definition UNITY_DISPLAY_STYLE_UINT :: style where
  "UNITY_DISPLAY_STYLE_UINT = of_nat (UNITY_INT_WIDTH div 8) + UNITY_DISPLAY_RANGE_UINT"
definition UNITY_DISPLAY_STYLE_UINT8 :: style where
  "UNITY_DISPLAY_STYLE_UINT8 = 1 + UNITY_DISPLAY_RANGE_UINT"
definition UNITY_DISPLAY_STYLE_UINT16 :: style where
  "UNITY_DISPLAY_STYLE_UINT16 = 2 + UNITY_DISPLAY_RANGE_UINT"
definition UNITY_DISPLAY_STYLE_UINT32 :: style where
  "UNITY_DISPLAY_STYLE_UINT32 = 4 + UNITY_DISPLAY_RANGE_UINT"
definition UNITY_DISPLAY_STYLE_UINT64 :: style where
  "UNITY_DISPLAY_STYLE_UINT64 = 8 + UNITY_DISPLAY_RANGE_UINT"
definition UNITY_DISPLAY_STYLE_HEX8 :: style where
  "UNITY_DISPLAY_STYLE_HEX8 = 1 + UNITY_DISPLAY_RANGE_HEX"
definition UNITY_DISPLAY_STYLE_HEX16 :: style where
  "UNITY_DISPLAY_STYLE_HEX16 = 2 + UNITY_DISPLAY_RANGE_HEX"
definition UNITY_DISPLAY_STYLE_HEX32 :: style where
  "UNITY_DISPLAY_STYLE_HEX32 = 4 + UNITY_DISPLAY_RANGE_HEX"
definition UNITY_DISPLAY_STYLE_HEX64 :: style where
  "UNITY_DISPLAY_STYLE_HEX64 = 8 + UNITY_DISPLAY_RANGE_HEX"
definition UNITY_DISPLAY_STYLE_CHAR :: style where
  "UNITY_DISPLAY_STYLE_CHAR = 1 + UNITY_DISPLAY_RANGE_CHAR + UNITY_DISPLAY_RANGE_INT"
definition UNITY_DISPLAY_STYLE_UNKNOWN :: style where
  "UNITY_DISPLAY_STYLE_UNKNOWN = UNITY_DISPLAY_STYLE_CHAR + 1"

lemmas style_defs [model_defs] = range_defs UNITY_INT_WIDTH_def UNITY_DISPLAY_STYLE_INT_def
  UNITY_DISPLAY_STYLE_INT8_def UNITY_DISPLAY_STYLE_INT16_def UNITY_DISPLAY_STYLE_INT32_def
  UNITY_DISPLAY_STYLE_INT64_def UNITY_DISPLAY_STYLE_UINT_def UNITY_DISPLAY_STYLE_UINT8_def
  UNITY_DISPLAY_STYLE_UINT16_def UNITY_DISPLAY_STYLE_UINT32_def UNITY_DISPLAY_STYLE_UINT64_def
  UNITY_DISPLAY_STYLE_HEX8_def UNITY_DISPLAY_STYLE_HEX16_def UNITY_DISPLAY_STYLE_HEX32_def
  UNITY_DISPLAY_STYLE_HEX64_def UNITY_DISPLAY_STYLE_CHAR_def UNITY_DISPLAY_STYLE_UNKNOWN_def

section \<open>Numbers\<close>

text \<open>The digits of a hexadecimal number, most significant of the requested ones first.\<close>

primrec UnityPrintNumberHex_loop :: "u64 \<Rightarrow> nat \<Rightarrow> unity \<Rightarrow> unity" where
  "UnityPrintNumberHex_loop number 0 u = u"
| "UnityPrintNumberHex_loop number (Suc nibbles) u =
     (let nibble = (ucast (drop_bit (nibbles * 4) number) :: u32) AND 0x0F in
      if nibble \<le> 9
      then UnityPrintNumberHex_loop number nibbles (UNITY_OUTPUT_CHAR (char_of (unat (0x30 + nibble))) u)
      else UnityPrintNumberHex_loop number nibbles
             (UNITY_OUTPUT_CHAR (char_of (unat (0x41 - 10 + nibble))) u))"

text \<open>
  \<open>nibbles_to_print\<close> is a signed \<open>char\<close>; the cast to \<open>unsigned\<close> sends a negative one above the
  limit.
\<close>

definition UnityPrintNumberHex :: "u64 \<Rightarrow> u8 \<Rightarrow> unity \<Rightarrow> unity" where
  "UnityPrintNumberHex number nibbles_to_print u =
     (let nibbles = (if (scast nibbles_to_print :: u32) > UNITY_MAX_NIBBLES
                     then ucast UNITY_MAX_NIBBLES else nibbles_to_print)
      in UnityPrintNumberHex_loop number (unat nibbles) u)"

lemma divisor_step:
  assumes "number div divisor > (9 :: u64)"
  shows "0 < unat divisor" and "unat (divisor * 10) = unat divisor * 10"
    and "unat divisor * 10 \<le> unat number"
proof -
  have q: "unat number div unat divisor > 9"
    using assms by (simp add: word_less_nat_alt unat_div)
  then show pos: "0 < unat divisor"
    by (metis div_by_0 gr0I not_less_zero)
  have "unat number div unat divisor * unat divisor \<le> unat number"
    by simp
  moreover have "10 * unat divisor \<le> unat number div unat divisor * unat divisor"
    using q by (intro mult_right_mono) auto
  ultimately show le: "unat divisor * 10 \<le> unat number"
    by linarith
  have "unat divisor * 10 < 2 ^ 64"
    using le unat_lt_2_64 [of number] by linarith
  then show "unat (divisor * 10) = unat divisor * 10"
    by (simp add: unat_mult_lem [THEN iffD1])
qed

text \<open>The first loop of \<open>UnityPrintNumberUnsigned\<close> finds the power of ten of the leading digit.\<close>

function initial_divisor :: "u64 \<Rightarrow> u64 \<Rightarrow> u64" where
  "initial_divisor number divisor =
     (if number div divisor > 9 then initial_divisor number (divisor * 10) else divisor)"
  by pat_completeness auto

termination
proof (relation "measure (\<lambda>(number, divisor). unat number - unat divisor)")
  fix number divisor :: u64
  assume "number div divisor > 9"
  from divisor_step [OF this]
  show "((number, divisor * 10), number, divisor)
    \<in> measure (\<lambda>(number, divisor). unat number - unat divisor)"
    by simp
qed simp

declare initial_divisor.simps [simp del]

text \<open>The second loop prints a digit and divides the divisor until it is 0.\<close>

function UnityPrintNumberUnsigned_loop :: "u64 \<Rightarrow> u64 \<Rightarrow> unity \<Rightarrow> unity" where
  "UnityPrintNumberUnsigned_loop number divisor u =
     (let u = UNITY_OUTPUT_CHAR (char_of (unat (0x30 + number div divisor mod 10))) u;
          divisor' = divisor div 10
      in if divisor' > 0 then UnityPrintNumberUnsigned_loop number divisor' u else u)"
  by pat_completeness auto
termination
proof (relation "measure (\<lambda>(number, divisor, u). unat divisor)")
  fix number divisor :: u64 and u u' :: unity and d' :: u64
  assume "d' = divisor div 10" and "0 < d'"
  then have "0 < unat divisor div 10" and "unat d' = unat divisor div 10"
    by (simp_all add: word_less_nat_alt unat_div)
  then show "((number, d', u'), number, divisor, u) \<in> measure (\<lambda>(number, divisor, u). unat divisor)"
    by simp
qed simp

declare UnityPrintNumberUnsigned_loop.simps [simp del]

definition UnityPrintNumberUnsigned :: "u64 \<Rightarrow> unity \<Rightarrow> unity" where
  "UnityPrintNumberUnsigned number u =
     UnityPrintNumberUnsigned_loop number (initial_divisor number 1) u"

definition UnityPrintNumber :: "u64 \<Rightarrow> unity \<Rightarrow> unity" where
  "UnityPrintNumber number_to_print u =
     (if number_to_print <s 0
      then UnityPrintNumberUnsigned (NOT number_to_print + 1) (UNITY_OUTPUT_CHAR (CHR ''-'') u)
      else UnityPrintNumberUnsigned number_to_print u)"

primrec UnityPrintMask_loop :: "u64 \<Rightarrow> u64 \<Rightarrow> u64 \<Rightarrow> nat \<Rightarrow> unity \<Rightarrow> unity" where
  "UnityPrintMask_loop msk number current_bit 0 u = u"
| "UnityPrintMask_loop msk number current_bit (Suc i) u =
     UnityPrintMask_loop msk number (drop_bit 1 current_bit) i
       (if current_bit AND msk \<noteq> 0
        then if current_bit AND number \<noteq> 0
          then UNITY_OUTPUT_CHAR (CHR ''1'') u
          else UNITY_OUTPUT_CHAR (CHR ''0'') u
        else UNITY_OUTPUT_CHAR (CHR ''X'') u)"

definition UnityPrintMask :: "u64 \<Rightarrow> u64 \<Rightarrow> unity \<Rightarrow> unity" where
  "UnityPrintMask msk number u =
     UnityPrintMask_loop msk number (push_bit (UNITY_INT_WIDTH - 1) 1) UNITY_INT_WIDTH u"

section \<open>Characters and strings\<close>

text \<open>The value of a \<open>char\<close>: signed on the platform modelled.\<close>

definition char_byte :: "char \<Rightarrow> u8" where
  "char_byte c = of_char c"

definition char_int :: "char \<Rightarrow> int" where
  "char_int c = sint (char_byte c)"

definition UnityPrintChar :: "char \<Rightarrow> unity \<Rightarrow> unity" where
  "UnityPrintChar pch u =
     (if char_int pch \<le> 126 \<and> char_int pch \<ge> 32 then UNITY_OUTPUT_CHAR pch u
      else if char_int pch = 13 then UNITY_OUTPUT_CHAR (CHR ''r'') (UNITY_OUTPUT_CHAR (CHR 0x5C) u)
      else if char_int pch = 10 then UNITY_OUTPUT_CHAR (CHR ''n'') (UNITY_OUTPUT_CHAR (CHR 0x5C) u)
      else UnityPrintNumberHex (scast (char_byte pch)) 2
             (UNITY_OUTPUT_CHAR (CHR ''x'') (UNITY_OUTPUT_CHAR (CHR 0x5C) u)))"

fun UnityPrint_loop :: "string \<Rightarrow> unity \<Rightarrow> unity" where
  "UnityPrint_loop [] u = u"
| "UnityPrint_loop (c # pch) u =
     (if c = CHR 0x00 then u else UnityPrint_loop pch (UnityPrintChar c u))"

definition UnityPrint :: "string option \<Rightarrow> unity \<Rightarrow> unity" where
  "UnityPrint s u = (case s of None \<Rightarrow> u | Some pch \<Rightarrow> UnityPrint_loop pch u)"

text \<open>\<open>UnityPrintLen\<close> repeats the body of \<open>UnityPrintChar\<close>; \<open>i\<close> is \<open>pch - string\<close>.\<close>

fun UnityPrintLen_loop :: "string \<Rightarrow> u32 \<Rightarrow> u32 \<Rightarrow> unity \<Rightarrow> unity" where
  "UnityPrintLen_loop [] i len u = u"
| "UnityPrintLen_loop (c # pch) i len u =
     (if c \<noteq> CHR 0x00 \<and> i < len
      then UnityPrintLen_loop pch (i + 1) len
        (if char_int c \<le> 126 \<and> char_int c \<ge> 32 then UNITY_OUTPUT_CHAR c u
         else if char_int c = 13 then UNITY_OUTPUT_CHAR (CHR ''r'') (UNITY_OUTPUT_CHAR (CHR 0x5C) u)
         else if char_int c = 10 then UNITY_OUTPUT_CHAR (CHR ''n'') (UNITY_OUTPUT_CHAR (CHR 0x5C) u)
         else UnityPrintNumberHex (scast (char_byte c)) 2
                (UNITY_OUTPUT_CHAR (CHR ''x'') (UNITY_OUTPUT_CHAR (CHR 0x5C) u)))
      else u)"

definition UnityPrintLen :: "string option \<Rightarrow> u32 \<Rightarrow> unity \<Rightarrow> unity" where
  "UnityPrintLen s len u =
     (case s of None \<Rightarrow> u | Some pch \<Rightarrow> UnityPrintLen_loop pch 0 len u)"

section \<open>Numbers by style\<close>

definition UnityPrintIntNumberByStyle :: "u64 \<Rightarrow> style \<Rightarrow> unity \<Rightarrow> unity" where
  "UnityPrintIntNumberByStyle number st u =
     (if st = UNITY_DISPLAY_STYLE_CHAR then
        let u = UNITY_OUTPUT_CHAR (CHR 0x27) u;
            u = (if number \<le>s 126 \<and> 32 \<le>s number
                 then UNITY_OUTPUT_CHAR (char_of (unat number)) u
                 else if number = 13
                 then UNITY_OUTPUT_CHAR (CHR ''r'') (UNITY_OUTPUT_CHAR (CHR 0x5C) u)
                 else if number = 10
                 then UNITY_OUTPUT_CHAR (CHR ''n'') (UNITY_OUTPUT_CHAR (CHR 0x5C) u)
                 else UnityPrintNumberHex number 2
                        (UNITY_OUTPUT_CHAR (CHR ''x'') (UNITY_OUTPUT_CHAR (CHR 0x5C) u)))
        in UNITY_OUTPUT_CHAR (CHR 0x27) u
      else if st AND UNITY_DISPLAY_RANGE_INT = UNITY_DISPLAY_RANGE_INT then
        UnityPrintNumber number u
      else if st AND UNITY_DISPLAY_RANGE_UINT = UNITY_DISPLAY_RANGE_UINT then
        UnityPrintNumberUnsigned number u
      else
        UnityPrintNumberHex number (ucast ((st AND 0xF) * 2))
          (UNITY_OUTPUT_CHAR (CHR ''x'') (UNITY_OUTPUT_CHAR (CHR ''0'') u)))"

definition UnityPrintUintNumberByStyle :: "u64 \<Rightarrow> style \<Rightarrow> unity \<Rightarrow> unity" where
  "UnityPrintUintNumberByStyle number st u =
     (if st AND UNITY_DISPLAY_RANGE_UINT = UNITY_DISPLAY_RANGE_UINT then
        UnityPrintNumberUnsigned number u
      else
        UnityPrintNumberHex number (ucast ((st AND 0xF) * 2))
          (UNITY_OUTPUT_CHAR (CHR ''x'') (UNITY_OUTPUT_CHAR (CHR ''0'') u)))"

end
