(* ===== verification/Unity_Assert.thy ===== *)
theory Unity_Assert
  imports Unity_Output
begin

text \<open>
  The assertions of \<open>src/unity/unity.c\<close> on integers, arrays, strings and memory.  An assertion
  returns, leaves by \<open>longjmp\<close> to the frame the test runner has set (\<open>TEST_ABORT\<close>), or has no
  defined result because it read memory it must not (\<open>outcome\<close>).  Arrays are in the memory of
  \<open>C_Memory\<close>; the strings the elements of an array of \<open>char*\<close> point to are given by a store
  from addresses to strings.  Configuration: the default one, with the two detail slots and
  without the detail stack and without \<open>UNITY_COMPARE_PTRS_ON_ZERO_ARRAY\<close>.
\<close>

section \<open>Outcomes\<close>

datatype 's outcome = Returns 's | Jumps 's | Undefined

primrec and_then :: "'s outcome \<Rightarrow> ('s \<Rightarrow> 's outcome) \<Rightarrow> 's outcome" where
  "and_then (Returns s) f = f s"
| "and_then (Jumps s) f = Jumps s"
| "and_then Undefined f = Undefined"

definition UNITY_FAIL_AND_BAIL :: "unity \<Rightarrow> unity outcome" where
  "UNITY_FAIL_AND_BAIL u = Jumps (u\<lparr>CurrentTestFailed := 1\<rparr>)"

definition UNITY_IGNORE_AND_BAIL :: "unity \<Rightarrow> unity outcome" where
  "UNITY_IGNORE_AND_BAIL u = Jumps (u\<lparr>CurrentTestIgnored := 1\<rparr>)"

definition RETURN_IF_FAIL_OR_IGNORE :: "unity \<Rightarrow> unity outcome" where
  "RETURN_IF_FAIL_OR_IGNORE u =
     (if CurrentTestFailed u \<noteq> 0 \<or> CurrentTestIgnored u \<noteq> 0 then Jumps u else Returns u)"

section \<open>Texts\<close>

definition UnityStrOk :: string where "UnityStrOk = ''OK''"
definition UnityStrPass :: string where "UnityStrPass = ''PASS''"
definition UnityStrFail :: string where "UnityStrFail = ''FAIL''"
definition UnityStrIgnore :: string where "UnityStrIgnore = ''IGNORE''"
definition UnityStrNull :: string where "UnityStrNull = ''NULL''"
definition UnityStrSpacer :: string where "UnityStrSpacer = '':''"
definition UnityStrExpected :: string where "UnityStrExpected = '' Expected ''"
definition UnityStrWas :: string where "UnityStrWas = '' Was ''"
definition UnityStrGt :: string where "UnityStrGt = '' to be greater than ''"
definition UnityStrLt :: string where "UnityStrLt = '' to be less than ''"
definition UnityStrOrEqual :: string where "UnityStrOrEqual = ''or equal to ''"
definition UnityStrNotEqual :: string where "UnityStrNotEqual = '' to be not equal to ''"
definition UnityStrElement :: string where "UnityStrElement = '' Element ''"
definition UnityStrByte :: string where "UnityStrByte = '' Byte ''"
definition UnityStrMemory :: string where "UnityStrMemory = '' Memory Mismatch.''"
definition UnityStrDelta :: string where "UnityStrDelta = '' Values Not Within Delta ''"
definition UnityStrPointless :: string where
  "UnityStrPointless = '' You Asked Me To Compare Nothing, Which Was Pointless.''"
definition UnityStrNullPointerForExpected :: string where
  "UnityStrNullPointerForExpected = '' Expected pointer to be NULL''"
definition UnityStrNullPointerForActual :: string where
  "UnityStrNullPointerForActual = '' Actual pointer was NULL''"
definition UnityStrDetail1Name :: string where "UnityStrDetail1Name = ''Function ''"
definition UnityStrDetail2Name :: string where "UnityStrDetail2Name = '' Argument ''"

text \<open>\<open>UnityPrint\<close> of a constant.\<close>

abbreviation UnityPrintS :: "string \<Rightarrow> unity \<Rightarrow> unity" where
  "UnityPrintS s \<equiv> UnityPrint (Some s)"

section \<open>Lines of the report\<close>

definition UnityTestResultsBegin :: "string option \<Rightarrow> u64 \<Rightarrow> unity \<Rightarrow> unity" where
  "UnityTestResultsBegin file line u =
     (let u = UnityPrint file u;
          u = UNITY_OUTPUT_CHAR (CHR '':'') u;
          u = UnityPrintNumber line u;
          u = UNITY_OUTPUT_CHAR (CHR '':'') u;
          u = UnityPrint (CurrentTestName u) u
      in UNITY_OUTPUT_CHAR (CHR '':'') u)"

definition UnityTestResultsFailBegin :: "u64 \<Rightarrow> unity \<Rightarrow> unity" where
  "UnityTestResultsFailBegin line u =
     (let u = UnityTestResultsBegin (TestFile u) line u;
          u = UnityPrintS UnityStrFail u
      in UNITY_OUTPUT_CHAR (CHR '':'') u)"

definition UnityAddMsgIfSpecified :: "string option \<Rightarrow> unity \<Rightarrow> unity" where
  "UnityAddMsgIfSpecified msg u =
     (let u = (if CurrentDetail1 u \<noteq> None
               then let u = UnityPrintS UnityStrSpacer u;
                        u = UnityPrintS UnityStrDetail1Name u;
                        u = UnityPrint (CurrentDetail1 u) u
                    in if CurrentDetail2 u \<noteq> None
                       then let u = UnityPrintS UnityStrDetail2Name u
                            in UnityPrint (CurrentDetail2 u) u
                       else u
               else u)
      in if msg \<noteq> None
         then let u = UnityPrintS UnityStrSpacer u in UnityPrint msg u
         else u)"

definition UnityPrintExpectedAndActualStrings :: "string option \<Rightarrow> string option \<Rightarrow> unity \<Rightarrow> unity" where
  "UnityPrintExpectedAndActualStrings expected actual u =
     (let u = UnityPrintS UnityStrExpected u;
          u = (if expected \<noteq> None
               then let u = UNITY_OUTPUT_CHAR (CHR 0x27) u;
                        u = UnityPrint expected u
                    in UNITY_OUTPUT_CHAR (CHR 0x27) u
               else UnityPrintS UnityStrNull u);
          u = UnityPrintS UnityStrWas u
      in if actual \<noteq> None
         then let u = UNITY_OUTPUT_CHAR (CHR 0x27) u;
                  u = UnityPrint actual u
              in UNITY_OUTPUT_CHAR (CHR 0x27) u
         else UnityPrintS UnityStrNull u)"

definition UnityPrintExpectedAndActualStringsLen ::
    "string option \<Rightarrow> string option \<Rightarrow> u32 \<Rightarrow> unity \<Rightarrow> unity" where
  "UnityPrintExpectedAndActualStringsLen expected actual len u =
     (let u = UnityPrintS UnityStrExpected u;
          u = (if expected \<noteq> None
               then let u = UNITY_OUTPUT_CHAR (CHR 0x27) u;
                        u = UnityPrintLen expected len u
                    in UNITY_OUTPUT_CHAR (CHR 0x27) u
               else UnityPrintS UnityStrNull u);
          u = UnityPrintS UnityStrWas u
      in if actual \<noteq> None
         then let u = UNITY_OUTPUT_CHAR (CHR 0x27) u;
                  u = UnityPrintLen actual len u
              in UNITY_OUTPUT_CHAR (CHR 0x27) u
         else UnityPrintS UnityStrNull u)"

text \<open>True when exactly one pointer is null, after printing which.\<close>

definition UnityIsOneArrayNull :: "addr \<Rightarrow> addr \<Rightarrow> u64 \<Rightarrow> string option \<Rightarrow> unity \<Rightarrow> bool \<times> unity" where
  "UnityIsOneArrayNull expected actual lineNumber msg u =
     (if expected = actual then (False, u)
      else if expected = NULL then
        (let u = UnityTestResultsFailBegin lineNumber u;
             u = UnityPrintS UnityStrNullPointerForExpected u
         in (True, UnityAddMsgIfSpecified msg u))
      else if actual = NULL then
        (let u = UnityTestResultsFailBegin lineNumber u;
             u = UnityPrintS UnityStrNullPointerForActual u
         in (True, UnityAddMsgIfSpecified msg u))
      else (False, u))"

section \<open>Assertions on numbers\<close>

definition UnityAssertBits ::
    "u64 \<Rightarrow> u64 \<Rightarrow> u64 \<Rightarrow> string option \<Rightarrow> u64 \<Rightarrow> unity \<Rightarrow> unity outcome" where
  "UnityAssertBits msk expected actual msg lineNumber u =
     and_then (RETURN_IF_FAIL_OR_IGNORE u) (\<lambda>u.
       if msk AND expected \<noteq> msk AND actual then
         let u = UnityTestResultsFailBegin lineNumber u;
             u = UnityPrintS UnityStrExpected u;
             u = UnityPrintMask msk expected u;
             u = UnityPrintS UnityStrWas u;
             u = UnityPrintMask msk actual u;
             u = UnityAddMsgIfSpecified msg u
         in UNITY_FAIL_AND_BAIL u
       else Returns u)"

definition UnityAssertEqualIntNumber ::
    "u64 \<Rightarrow> u64 \<Rightarrow> string option \<Rightarrow> u64 \<Rightarrow> style \<Rightarrow> unity \<Rightarrow> unity outcome" where
  "UnityAssertEqualIntNumber expected actual msg lineNumber st u =
     and_then (RETURN_IF_FAIL_OR_IGNORE u) (\<lambda>u.
       if expected \<noteq> actual then
         let u = UnityTestResultsFailBegin lineNumber u;
             u = UnityPrintS UnityStrExpected u;
             u = UnityPrintIntNumberByStyle expected st u;
             u = UnityPrintS UnityStrWas u;
             u = UnityPrintIntNumberByStyle actual st u;
             u = UnityAddMsgIfSpecified msg u
         in UNITY_FAIL_AND_BAIL u
       else Returns u)"

definition UnityAssertEqualUintNumber ::
    "u64 \<Rightarrow> u64 \<Rightarrow> string option \<Rightarrow> u64 \<Rightarrow> style \<Rightarrow> unity \<Rightarrow> unity outcome" where
  "UnityAssertEqualUintNumber expected actual msg lineNumber st u =
     and_then (RETURN_IF_FAIL_OR_IGNORE u) (\<lambda>u.
       if expected \<noteq> actual then
         let u = UnityTestResultsFailBegin lineNumber u;
             u = UnityPrintS UnityStrExpected u;
             u = UnityPrintUintNumberByStyle expected st u;
             u = UnityPrintS UnityStrWas u;
             u = UnityPrintUintNumberByStyle actual st u;
             u = UnityAddMsgIfSpecified msg u
         in UNITY_FAIL_AND_BAIL u
       else Returns u)"

text \<open>\<open>UNITY_COMPARISON_T\<close>: the relation the actual value must have to the threshold.\<close>

datatype comparison =
  UNITY_EQUAL_TO | UNITY_GREATER_THAN | UNITY_GREATER_OR_EQUAL | UNITY_SMALLER_THAN
  | UNITY_SMALLER_OR_EQUAL | UNITY_NOT_EQUAL

primrec comparison_bits :: "comparison \<Rightarrow> u32" where
  "comparison_bits UNITY_EQUAL_TO = 0x1"
| "comparison_bits UNITY_GREATER_THAN = 0x2"
| "comparison_bits UNITY_GREATER_OR_EQUAL = 0x2 + 0x1"
| "comparison_bits UNITY_SMALLER_THAN = 0x4"
| "comparison_bits UNITY_SMALLER_OR_EQUAL = 0x4 + 0x1"
| "comparison_bits UNITY_NOT_EQUAL = 0x8"

text \<open>\<open>compare & flag\<close> as a condition.\<close>

definition compare_has :: "comparison \<Rightarrow> comparison \<Rightarrow> bool" where
  "compare_has cmp flag \<longleftrightarrow> comparison_bits cmp AND comparison_bits flag \<noteq> 0"

definition UnityAssertIntGreaterOrLessOrEqualNumber ::
    "u64 \<Rightarrow> u64 \<Rightarrow> comparison \<Rightarrow> string option \<Rightarrow> u64 \<Rightarrow> style \<Rightarrow> unity \<Rightarrow> unity outcome" where
  "UnityAssertIntGreaterOrLessOrEqualNumber threshold actual cmp msg lineNumber st u =
     and_then (RETURN_IF_FAIL_OR_IGNORE u) (\<lambda>u.
       let failed = False;
           failed = (if threshold = actual \<and> \<not> compare_has cmp UNITY_EQUAL_TO then True else failed);
           failed = (if threshold <s actual \<and> compare_has cmp UNITY_SMALLER_THAN then True else failed);
           failed = (if actual <s threshold \<and> compare_has cmp UNITY_GREATER_THAN then True else failed)
       in if failed then
         let u = UnityTestResultsFailBegin lineNumber u;
             u = UnityPrintS UnityStrExpected u;
             u = UnityPrintIntNumberByStyle actual st u;
             u = (if compare_has cmp UNITY_GREATER_THAN then UnityPrintS UnityStrGt u else u);
             u = (if compare_has cmp UNITY_SMALLER_THAN then UnityPrintS UnityStrLt u else u);
             u = (if compare_has cmp UNITY_EQUAL_TO then UnityPrintS UnityStrOrEqual u else u);
             u = (if cmp = UNITY_NOT_EQUAL then UnityPrintS UnityStrNotEqual u else u);
             u = UnityPrintIntNumberByStyle threshold st u;
             u = UnityAddMsgIfSpecified msg u
         in UNITY_FAIL_AND_BAIL u
       else Returns u)"

definition UnityAssertUintGreaterOrLessOrEqualNumber ::
    "u64 \<Rightarrow> u64 \<Rightarrow> comparison \<Rightarrow> string option \<Rightarrow> u64 \<Rightarrow> style \<Rightarrow> unity \<Rightarrow> unity outcome" where
  "UnityAssertUintGreaterOrLessOrEqualNumber threshold actual cmp msg lineNumber st u =
     and_then (RETURN_IF_FAIL_OR_IGNORE u) (\<lambda>u.
       let failed = False;
           failed = (if threshold = actual \<and> \<not> compare_has cmp UNITY_EQUAL_TO then True else failed);
           failed = (if actual > threshold \<and> compare_has cmp UNITY_SMALLER_THAN then True else failed);
           failed = (if actual < threshold \<and> compare_has cmp UNITY_GREATER_THAN then True else failed)
       in if failed then
         let u = UnityTestResultsFailBegin lineNumber u;
             u = UnityPrintS UnityStrExpected u;
             u = UnityPrintUintNumberByStyle actual st u;
             u = (if compare_has cmp UNITY_GREATER_THAN then UnityPrintS UnityStrGt u else u);
             u = (if compare_has cmp UNITY_SMALLER_THAN then UnityPrintS UnityStrLt u else u);
             u = (if compare_has cmp UNITY_EQUAL_TO then UnityPrintS UnityStrOrEqual u else u);
             u = (if cmp = UNITY_NOT_EQUAL then UnityPrintS UnityStrNotEqual u else u);
             u = UnityPrintUintNumberByStyle threshold st u;
             u = UnityAddMsgIfSpecified msg u
         in UNITY_FAIL_AND_BAIL u
       else Returns u)"

text \<open>
  \<open>CurrentTestFailed\<close> takes the result of the comparison before the failure is reported.
\<close>

definition UnityAssertIntNumbersWithin ::
    "u64 \<Rightarrow> u64 \<Rightarrow> u64 \<Rightarrow> string option \<Rightarrow> u64 \<Rightarrow> style \<Rightarrow> unity \<Rightarrow> unity outcome" where
  "UnityAssertIntNumbersWithin delta expected actual msg lineNumber st u =
     and_then (RETURN_IF_FAIL_OR_IGNORE u) (\<lambda>u.
       let u = (if expected <s actual
                then u\<lparr>CurrentTestFailed := of_bool (actual - expected > delta)\<rparr>
                else u\<lparr>CurrentTestFailed := of_bool (expected - actual > delta)\<rparr>)
       in if CurrentTestFailed u \<noteq> 0 then
         let u = UnityTestResultsFailBegin lineNumber u;
             u = UnityPrintS UnityStrDelta u;
             u = UnityPrintIntNumberByStyle delta st u;
             u = UnityPrintS UnityStrExpected u;
             u = UnityPrintIntNumberByStyle expected st u;
             u = UnityPrintS UnityStrWas u;
             u = UnityPrintIntNumberByStyle actual st u;
             u = UnityAddMsgIfSpecified msg u
         in UNITY_FAIL_AND_BAIL u
       else Returns u)"

definition UnityAssertUintNumbersWithin ::
    "u64 \<Rightarrow> u64 \<Rightarrow> u64 \<Rightarrow> string option \<Rightarrow> u64 \<Rightarrow> style \<Rightarrow> unity \<Rightarrow> unity outcome" where
  "UnityAssertUintNumbersWithin delta expected actual msg lineNumber st u =
     and_then (RETURN_IF_FAIL_OR_IGNORE u) (\<lambda>u.
       let u = (if actual > expected
                then u\<lparr>CurrentTestFailed := of_bool (actual - expected > delta)\<rparr>
                else u\<lparr>CurrentTestFailed := of_bool (expected - actual > delta)\<rparr>)
       in if CurrentTestFailed u \<noteq> 0 then
         let u = UnityTestResultsFailBegin lineNumber u;
             u = UnityPrintS UnityStrDelta u;
             u = UnityPrintUintNumberByStyle delta st u;
             u = UnityPrintS UnityStrExpected u;
             u = UnityPrintUintNumberByStyle expected st u;
             u = UnityPrintS UnityStrWas u;
             u = UnityPrintUintNumberByStyle actual st u;
             u = UnityAddMsgIfSpecified msg u
         in UNITY_FAIL_AND_BAIL u
       else Returns u)"

end
