(* ===== verification/Unity_Arrays.thy ===== *)
theory Unity_Arrays
  imports Unity_Assert
begin

text \<open>
  The assertions of \<open>src/unity/unity.c\<close> that walk over several values: integer arrays, arrays
  within a delta, strings, arrays of strings and raw memory.  An element is read from the memory
  of \<open>C_Memory\<close> through a pointer that is advanced by the size of the element; a read outside
  the mapped memory makes the outcome \<open>Undefined\<close>.
\<close>

section \<open>Flags and pointless comparisons\<close>

datatype array_flags = UNITY_ARRAY_TO_VAL | UNITY_ARRAY_TO_ARRAY | UNITY_ARRAY_UNKNOWN

definition UnityPrintPointlessAndBail :: "u64 \<Rightarrow> string option \<Rightarrow> unity \<Rightarrow> unity outcome" where
  "UnityPrintPointlessAndBail lineNumber msg u =
     (let u = UnityTestResultsFailBegin lineNumber u;
          u = UnityPrintS UnityStrPointless u;
          u = UnityAddMsgIfSpecified msg u
      in UNITY_FAIL_AND_BAIL u)"

section \<open>Elements\<close>

text \<open>
  The size in bytes: \<open>style & 0xF\<close>, where every value but 1, 2 and 8 means 4.
\<close>

definition elem_size :: "style \<Rightarrow> nat" where
  "elem_size st = (let len = st AND 0xF in
     if len = 1 then 1 else if len = 2 then 2 else if len = 8 then 8 else 4)"

text \<open>
  The reads of \<open>UnityAssertEqualIntArray\<close>: a signed load of the size, then a mask for the unsigned
  and hexadecimal styles.
\<close>

definition int_array_elem :: "cmem \<Rightarrow> style \<Rightarrow> addr \<Rightarrow> u64 option" where
  "int_array_elem m st p =
     (let len = st AND 0xF;
          masked = st AND (UNITY_DISPLAY_RANGE_UINT OR UNITY_DISPLAY_RANGE_HEX) \<noteq> 0
      in if len = 1 then
           map_option (\<lambda>b. if masked then scast b AND 0x000000FF else scast b) (load8 m p)
         else if len = 2 then
           map_option (\<lambda>b. if masked then scast b AND 0x0000FFFF else scast b) (load16 m p)
         else if len = 8 then load64 m p
         else map_option (\<lambda>b. if masked then scast b AND 0x00000000FFFFFFFF else scast b) (load32 m p))"

text \<open>
  The reads of \<open>UnityAssertNumbersArrayWithin\<close>: a signed or an unsigned load, as the style says.
\<close>

definition within_array_elem :: "cmem \<Rightarrow> style \<Rightarrow> addr \<Rightarrow> u64 option" where
  "within_array_elem m st p =
     (let len = st AND 0xF;
          signed = (st AND UNITY_DISPLAY_RANGE_INT = UNITY_DISPLAY_RANGE_INT)
      in if len = 1 then map_option (\<lambda>b. if signed then scast b else ucast b) (load8 m p)
         else if len = 2 then map_option (\<lambda>b. if signed then scast b else ucast b) (load16 m p)
         else if len = 8 then load64 m p
         else map_option (\<lambda>b. if signed then scast b else ucast b) (load32 m p))"

text \<open>Before a mismatch is printed in an unsigned style, the sign extension is removed.\<close>

definition strip_sign :: "style \<Rightarrow> u64 \<Rightarrow> u64" where
  "strip_sign st v =
     (if st AND UNITY_DISPLAY_RANGE_UINT \<noteq> 0 \<and> elem_size st < UNITY_INT_WIDTH div 8
      then v AND (push_bit (8 * elem_size st) 1 - 1) else v)"

section \<open>Integer arrays\<close>

primrec UnityAssertEqualIntArray_loop ::
    "cmem \<Rightarrow> u32 \<Rightarrow> string option \<Rightarrow> u64 \<Rightarrow> style \<Rightarrow> array_flags
     \<Rightarrow> nat \<Rightarrow> addr \<Rightarrow> addr \<Rightarrow> unity \<Rightarrow> unity outcome" where
  "UnityAssertEqualIntArray_loop m num_elements msg lineNumber st flags 0 expected actual u =
     Returns u"
| "UnityAssertEqualIntArray_loop m num_elements msg lineNumber st flags (Suc elements) expected actual u =
     (case (int_array_elem m st expected, int_array_elem m st actual) of
        (Some expect_val, Some actual_val) \<Rightarrow>
          if expect_val \<noteq> actual_val then
            let expect_val = strip_sign st expect_val;
                actual_val = strip_sign st actual_val;
                u = UnityTestResultsFailBegin lineNumber u;
                u = UnityPrintS UnityStrElement u;
                u = UnityPrintNumberUnsigned (ucast (num_elements - of_nat elements - 1)) u;
                u = UnityPrintS UnityStrExpected u;
                u = UnityPrintIntNumberByStyle expect_val st u;
                u = UnityPrintS UnityStrWas u;
                u = UnityPrintIntNumberByStyle actual_val st u;
                u = UnityAddMsgIfSpecified msg u
            in UNITY_FAIL_AND_BAIL u
          else
            UnityAssertEqualIntArray_loop m num_elements msg lineNumber st flags elements
              (if flags = UNITY_ARRAY_TO_ARRAY then expected + of_nat (elem_size st) else expected)
              (actual + of_nat (elem_size st)) u
      | _ \<Rightarrow> Undefined)"

definition UnityAssertEqualIntArray ::
    "cmem \<Rightarrow> addr \<Rightarrow> addr \<Rightarrow> u32 \<Rightarrow> string option \<Rightarrow> u64 \<Rightarrow> style \<Rightarrow> array_flags
     \<Rightarrow> unity \<Rightarrow> unity outcome" where
  "UnityAssertEqualIntArray m expected actual num_elements msg lineNumber st flags u =
     and_then (RETURN_IF_FAIL_OR_IGNORE u) (\<lambda>u.
       if num_elements = 0 then UnityPrintPointlessAndBail lineNumber msg u
       else if expected = actual then Returns u
       else let (null, u) = UnityIsOneArrayNull expected actual lineNumber msg u
            in if null then UNITY_FAIL_AND_BAIL u
               else UnityAssertEqualIntArray_loop m num_elements msg lineNumber st flags
                      (unat num_elements) expected actual u)"

text \<open>The comparison of \<open>UnityAssertNumbersArrayWithin\<close>, as it is stored in \<open>CurrentTestFailed\<close>.\<close>

definition beyond_delta :: "style \<Rightarrow> u64 \<Rightarrow> u64 \<Rightarrow> u64 \<Rightarrow> bool" where
  "beyond_delta st delta expect_val actual_val =
     (if st AND UNITY_DISPLAY_RANGE_INT = UNITY_DISPLAY_RANGE_INT
      then if expect_val <s actual_val then actual_val - expect_val > delta
           else expect_val - actual_val > delta
      else if actual_val > expect_val then actual_val - expect_val > delta
           else expect_val - actual_val > delta)"

primrec UnityAssertNumbersArrayWithin_loop ::
    "cmem \<Rightarrow> u64 \<Rightarrow> u32 \<Rightarrow> string option \<Rightarrow> u64 \<Rightarrow> style \<Rightarrow> array_flags
     \<Rightarrow> nat \<Rightarrow> addr \<Rightarrow> addr \<Rightarrow> unity \<Rightarrow> unity outcome" where
  "UnityAssertNumbersArrayWithin_loop m delta num_elements msg lineNumber st flags 0 expected actual u =
     Returns u"
| "UnityAssertNumbersArrayWithin_loop m delta num_elements msg lineNumber st flags (Suc elements)
       expected actual u =
     (case (within_array_elem m st expected, within_array_elem m st actual) of
        (Some expect_val, Some actual_val) \<Rightarrow>
          let u = u\<lparr>CurrentTestFailed := of_bool (beyond_delta st delta expect_val actual_val)\<rparr>
          in if CurrentTestFailed u \<noteq> 0 then
            let expect_val = strip_sign st expect_val;
                actual_val = strip_sign st actual_val;
                u = UnityTestResultsFailBegin lineNumber u;
                u = UnityPrintS UnityStrDelta u;
                u = UnityPrintIntNumberByStyle delta st u;
                u = UnityPrintS UnityStrElement u;
                u = UnityPrintNumberUnsigned (ucast (num_elements - of_nat elements - 1)) u;
                u = UnityPrintS UnityStrExpected u;
                u = UnityPrintIntNumberByStyle expect_val st u;
                u = UnityPrintS UnityStrWas u;
                u = UnityPrintIntNumberByStyle actual_val st u;
                u = UnityAddMsgIfSpecified msg u
            in UNITY_FAIL_AND_BAIL u
          else
            UnityAssertNumbersArrayWithin_loop m delta num_elements msg lineNumber st flags elements
              (if flags = UNITY_ARRAY_TO_ARRAY then expected + of_nat (elem_size st) else expected)
              (actual + of_nat (elem_size st)) u
      | _ \<Rightarrow> Undefined)"

definition UnityAssertNumbersArrayWithin ::
    "cmem \<Rightarrow> u64 \<Rightarrow> addr \<Rightarrow> addr \<Rightarrow> u32 \<Rightarrow> string option \<Rightarrow> u64 \<Rightarrow> style \<Rightarrow> array_flags
     \<Rightarrow> unity \<Rightarrow> unity outcome" where
  "UnityAssertNumbersArrayWithin m delta expected actual num_elements msg lineNumber st flags u =
     and_then (RETURN_IF_FAIL_OR_IGNORE u) (\<lambda>u.
       if num_elements = 0 then UnityPrintPointlessAndBail lineNumber msg u
       else if expected = actual then Returns u
       else let (null, u) = UnityIsOneArrayNull expected actual lineNumber msg u
            in if null then UNITY_FAIL_AND_BAIL u
               else UnityAssertNumbersArrayWithin_loop m delta num_elements msg lineNumber st flags
                      (unat num_elements) expected actual u)"

section \<open>Strings\<close>

text \<open>\<open>s[i]\<close>: the terminator is at index \<open>length s\<close>, and nothing may be read behind it.\<close>

definition char_at :: "string \<Rightarrow> u32 \<Rightarrow> char option" where
  "char_at s i =
     (if unat i < length s then Some (s ! unat i)
      else if unat i = length s then Some (CHR 0x00) else None)"

text \<open>
  The loop of \<open>UnityAssertEqualString\<close>: does it find a difference?  The index is a
  \<open>UNITY_UINT32\<close> and wraps, so the loop of two equal strings of 4 GiB does not end.
\<close>

partial_function (option) strings_differ :: "string \<Rightarrow> string \<Rightarrow> u32 \<Rightarrow> bool option" where
  "strings_differ expected actual i = do {
     e \<leftarrow> char_at expected i;
     a \<leftarrow> char_at actual i;
     if e \<noteq> CHR 0x00 \<or> a \<noteq> CHR 0x00 then
       if e \<noteq> a then Some True else strings_differ expected actual (i + 1)
     else Some False
   }"

declare strings_differ.simps [code]

text \<open>The one of \<open>UnityAssertEqualStringLen\<close>, which also ends at the given length.\<close>

partial_function (option) strings_differ_len ::
    "string \<Rightarrow> string \<Rightarrow> u32 \<Rightarrow> u32 \<Rightarrow> bool option" where
  "strings_differ_len expected actual len i =
     (if i < len then do {
        e \<leftarrow> char_at expected i;
        a \<leftarrow> char_at actual i;
        if e \<noteq> CHR 0x00 \<or> a \<noteq> CHR 0x00 then
          if e \<noteq> a then Some True else strings_differ_len expected actual len (i + 1)
        else Some False
      } else Some False)"

declare strings_differ_len.simps [code]

text \<open>The comparison with null pointers, with the loop \<open>differ\<close> for two strings.\<close>

definition string_test ::
    "(string \<Rightarrow> string \<Rightarrow> bool option) \<Rightarrow> string option \<Rightarrow> string option \<Rightarrow> unity \<Rightarrow> unity option" where
  "string_test differ expected actual u =
     (case (expected, actual) of
        (Some e, Some a) \<Rightarrow> do {
          d \<leftarrow> differ e a;
          Some (if d then u\<lparr>CurrentTestFailed := 1\<rparr> else u)
        }
      | (None, None) \<Rightarrow> Some u
      | _ \<Rightarrow> Some (u\<lparr>CurrentTestFailed := 1\<rparr>))"

definition UnityAssertEqualString ::
    "string option \<Rightarrow> string option \<Rightarrow> string option \<Rightarrow> u64 \<Rightarrow> unity \<Rightarrow> unity outcome" where
  "UnityAssertEqualString expected actual msg lineNumber u =
     and_then (RETURN_IF_FAIL_OR_IGNORE u) (\<lambda>u.
       case string_test (\<lambda>e a. strings_differ e a 0) expected actual u of
         None \<Rightarrow> Undefined
       | Some u \<Rightarrow>
           if CurrentTestFailed u \<noteq> 0 then
             let u = UnityTestResultsFailBegin lineNumber u;
                 u = UnityPrintExpectedAndActualStrings expected actual u;
                 u = UnityAddMsgIfSpecified msg u
             in UNITY_FAIL_AND_BAIL u
           else Returns u)"

definition UnityAssertEqualStringLen ::
    "string option \<Rightarrow> string option \<Rightarrow> u32 \<Rightarrow> string option \<Rightarrow> u64 \<Rightarrow> unity \<Rightarrow> unity outcome" where
  "UnityAssertEqualStringLen expected actual len msg lineNumber u =
     and_then (RETURN_IF_FAIL_OR_IGNORE u) (\<lambda>u.
       case string_test (\<lambda>e a. strings_differ_len e a len 0) expected actual u of
         None \<Rightarrow> Undefined
       | Some u \<Rightarrow>
           if CurrentTestFailed u \<noteq> 0 then
             let u = UnityTestResultsFailBegin lineNumber u;
                 u = UnityPrintExpectedAndActualStringsLen expected actual len u;
                 u = UnityAddMsgIfSpecified msg u
             in UNITY_FAIL_AND_BAIL u
           else Returns u)"

text \<open>
  An array of \<open>char*\<close>: eight bytes each in memory, and \<open>strs\<close> gives the string a non-null
  pointer points to.
\<close>

definition string_of_ptr :: "(addr \<Rightarrow> string) \<Rightarrow> addr \<Rightarrow> string option" where
  "string_of_ptr strs p = (if p = NULL then None else Some (strs p))"

function UnityAssertEqualStringArray_loop ::
    "cmem \<Rightarrow> (addr \<Rightarrow> string) \<Rightarrow> u32 \<Rightarrow> string option \<Rightarrow> u64 \<Rightarrow> array_flags
     \<Rightarrow> u32 \<Rightarrow> addr \<Rightarrow> addr \<Rightarrow> unity \<Rightarrow> unity outcome" where
  "UnityAssertEqualStringArray_loop m strs num_elements msg lineNumber flags j expected actual u =
     (case (load64 m (actual + 8 * ucast j),
            if flags = UNITY_ARRAY_TO_ARRAY then load64 m (expected + 8 * ucast j)
            else Some expected) of
        (Some act, Some expd) \<Rightarrow>
          (case string_test (\<lambda>e a. strings_differ e a 0) (string_of_ptr strs expd)
                  (string_of_ptr strs act) u of
             None \<Rightarrow> Undefined
           | Some u \<Rightarrow>
               if CurrentTestFailed u \<noteq> 0 then
                 let u = UnityTestResultsFailBegin lineNumber u;
                     u = (if num_elements > 1
                          then let u = UnityPrintS UnityStrElement u
                               in UnityPrintNumberUnsigned (ucast j) u
                          else u);
                     u = UnityPrintExpectedAndActualStrings (string_of_ptr strs expd)
                           (string_of_ptr strs act) u;
                     u = UnityAddMsgIfSpecified msg u
                 in UNITY_FAIL_AND_BAIL u
               else if j + 1 < num_elements then
                 UnityAssertEqualStringArray_loop m strs num_elements msg lineNumber flags (j + 1)
                   expected actual u
               else Returns u)
      | _ \<Rightarrow> Undefined)"
  by pat_completeness auto

termination
proof (relation "measure (\<lambda>(m, strs, n, msg, ln, flags, j, e, a, u).
    if j < n then unat n - unat j else 2 ^ 33)")
  fix m :: cmem and strs :: "addr \<Rightarrow> string" and n j :: u32 and msg :: "string option"
    and ln :: u64 and flags :: array_flags and e a :: addr and u u' :: unity
  assume lt: "j + 1 < n"
  have n: "unat n < 2 ^ 32"
    using unsigned_less [of n] by simp
  have "(if j + 1 < n then unat n - unat (j + 1) else 2 ^ 33)
      < (if j < n then unat n - unat j else 2 ^ 33)"
  proof (cases "j < n")
    case True
    then have "unat (j + 1) = Suc (unat j)"
      using n by (simp add: unat_word_ariths word_less_nat_alt)
    then show ?thesis
      using True lt by (simp add: word_less_nat_alt)
  qed (use n lt in simp)
  then show "((m, strs, n, msg, ln, flags, j + 1, e, a, u'), m, strs, n, msg, ln, flags, j, e, a, u)
    \<in> measure (\<lambda>(m, strs, n, msg, ln, flags, j, e, a, u).
        if j < n then unat n - unat j else 2 ^ 33)"
    by simp
qed simp

declare UnityAssertEqualStringArray_loop.simps [simp del]

definition UnityAssertEqualStringArray ::
    "cmem \<Rightarrow> (addr \<Rightarrow> string) \<Rightarrow> addr \<Rightarrow> addr \<Rightarrow> u32 \<Rightarrow> string option \<Rightarrow> u64 \<Rightarrow> array_flags
     \<Rightarrow> unity \<Rightarrow> unity outcome" where
  "UnityAssertEqualStringArray m strs expected actual num_elements msg lineNumber flags u =
     and_then (RETURN_IF_FAIL_OR_IGNORE u) (\<lambda>u.
       if num_elements = 0 then UnityPrintPointlessAndBail lineNumber msg u
       else if expected = actual then Returns u
       else let (null, u) = UnityIsOneArrayNull expected actual lineNumber msg u
            in if null then UNITY_FAIL_AND_BAIL u
               else UnityAssertEqualStringArray_loop m strs num_elements msg lineNumber flags 0
                      expected actual u)"

section \<open>Memory\<close>

text \<open>
  The inner loop over the bytes of one element; when it is through, it goes on with \<open>k\<close>, the rest
  of the outer loop.
\<close>

primrec UnityAssertEqualMemory_bytes ::
    "cmem \<Rightarrow> u32 \<Rightarrow> u32 \<Rightarrow> nat \<Rightarrow> string option \<Rightarrow> u64
     \<Rightarrow> (addr \<Rightarrow> addr \<Rightarrow> unity \<Rightarrow> unity outcome)
     \<Rightarrow> nat \<Rightarrow> addr \<Rightarrow> addr \<Rightarrow> unity \<Rightarrow> unity outcome" where
  "UnityAssertEqualMemory_bytes m len num_elements elements msg lineNumber k 0 ptr_exp ptr_act u =
     k ptr_exp ptr_act u"
| "UnityAssertEqualMemory_bytes m len num_elements elements msg lineNumber k (Suc n) ptr_exp ptr_act u =
     (case (load8 m ptr_exp, load8 m ptr_act) of
        (Some e, Some a) \<Rightarrow>
          if e \<noteq> a then
            let u = UnityTestResultsFailBegin lineNumber u;
                u = UnityPrintS UnityStrMemory u;
                u = (if num_elements > 1
                     then let u = UnityPrintS UnityStrElement u
                          in UnityPrintNumberUnsigned (ucast (num_elements - of_nat elements - 1)) u
                     else u);
                u = UnityPrintS UnityStrByte u;
                u = UnityPrintNumberUnsigned (ucast (len - of_nat n - 1)) u;
                u = UnityPrintS UnityStrExpected u;
                u = UnityPrintIntNumberByStyle (ucast e) UNITY_DISPLAY_STYLE_HEX8 u;
                u = UnityPrintS UnityStrWas u;
                u = UnityPrintIntNumberByStyle (ucast a) UNITY_DISPLAY_STYLE_HEX8 u;
                u = UnityAddMsgIfSpecified msg u
            in UNITY_FAIL_AND_BAIL u
          else UnityAssertEqualMemory_bytes m len num_elements elements msg lineNumber k n
                 (ptr_exp + 1) (ptr_act + 1) u
      | _ \<Rightarrow> Undefined)"

primrec UnityAssertEqualMemory_loop ::
    "cmem \<Rightarrow> addr \<Rightarrow> u32 \<Rightarrow> u32 \<Rightarrow> string option \<Rightarrow> u64 \<Rightarrow> array_flags
     \<Rightarrow> nat \<Rightarrow> addr \<Rightarrow> addr \<Rightarrow> unity \<Rightarrow> unity outcome" where
  "UnityAssertEqualMemory_loop m expected len num_elements msg lineNumber flags 0 ptr_exp ptr_act u =
     Returns u"
| "UnityAssertEqualMemory_loop m expected len num_elements msg lineNumber flags (Suc elements)
       ptr_exp ptr_act u =
     UnityAssertEqualMemory_bytes m len num_elements elements msg lineNumber
       (\<lambda>ptr_exp ptr_act u.
          UnityAssertEqualMemory_loop m expected len num_elements msg lineNumber flags elements
            (if flags = UNITY_ARRAY_TO_VAL then expected else ptr_exp) ptr_act u)
       (unat len) ptr_exp ptr_act u"

definition UnityAssertEqualMemory ::
    "cmem \<Rightarrow> addr \<Rightarrow> addr \<Rightarrow> u32 \<Rightarrow> u32 \<Rightarrow> string option \<Rightarrow> u64 \<Rightarrow> array_flags
     \<Rightarrow> unity \<Rightarrow> unity outcome" where
  "UnityAssertEqualMemory m expected actual len num_elements msg lineNumber flags u =
     and_then (RETURN_IF_FAIL_OR_IGNORE u) (\<lambda>u.
       if num_elements = 0 then UnityPrintPointlessAndBail lineNumber msg u
       else if len = 0 then UnityPrintPointlessAndBail lineNumber msg u
       else if expected = actual then Returns u
       else let (null, u) = UnityIsOneArrayNull expected actual lineNumber msg u
            in if null then UNITY_FAIL_AND_BAIL u
               else UnityAssertEqualMemory_loop m expected len num_elements msg lineNumber flags
                      (unat num_elements) expected actual u)"

section \<open>A number as an array of one element\<close>

text \<open>
  \<open>UnityNumToPtr\<close> stores the number, cut to its size, in the static \<open>union UnityQuickCompare\<close>
  at the address \<open>q\<close> and returns that address.
\<close>

definition UnityNumToPtr :: "addr \<Rightarrow> cmem \<Rightarrow> u64 \<Rightarrow> u8 \<Rightarrow> (cmem \<times> addr) option" where
  "UnityNumToPtr q m num sz =
     (if sz = 1 then map_option (\<lambda>m. (m, q)) (store8 m q (ucast num))
      else if sz = 2 then map_option (\<lambda>m. (m, q)) (store16 m q (ucast num))
      else if sz = 8 then map_option (\<lambda>m. (m, q)) (store64 m q num)
      else map_option (\<lambda>m. (m, q)) (store32 m q (ucast num)))"

end
