(* ===== verification/C_Float.thy ===== *)
theory C_Float
  imports C_Memory "HOL-Library.Log_Nat"
begin

text \<open>
  IEEE 754 arithmetic, as \<open>float\<close> and \<open>double\<close> of C have it on the platforms at hand (no excess
  precision, rounding to the nearest with ties to even).  A value is a rational number, an infinity
  or not a number; the two zeros are one value, since nothing in the code tells them apart: it
  compares, adds, multiplies and divides by numbers other than zero.
\<close>

section \<open>Formats and values\<close>

datatype real_type = C_float | C_double

primrec precision :: "real_type \<Rightarrow> nat" where
  "precision C_float = 24"
| "precision C_double = 53"

text \<open>The exponent of the smallest normal number, and the first that is too large.\<close>

primrec min_exp :: "real_type \<Rightarrow> int" where
  "min_exp C_float = -126"
| "min_exp C_double = -1022"

primrec over_exp :: "real_type \<Rightarrow> int" where
  "over_exp C_float = 128"
| "over_exp C_double = 1024"

datatype c_real = NaN | Inf bool | Fin rat

section \<open>Rounding\<close>

definition expo :: "rat \<Rightarrow> int" where
  "expo x = (case quotient_of x of (n, d) \<Rightarrow>
     let k = bitlen n - bitlen d in if 2 powi k \<le> x then k else k - 1)"

text \<open>The weight of the last digit of a number of this size.\<close>

definition ulp :: "real_type \<Rightarrow> rat \<Rightarrow> rat" where
  "ulp f x = 2 powi (max (expo \<bar>x\<bar>) (min_exp f) - int (precision f) + 1)"

definition round_even :: "rat \<Rightarrow> int" where
  "round_even x = (let n = \<lfloor>x\<rfloor>; r = x - of_int n in
     if r < 1 / 2 then n else if r > 1 / 2 then n + 1 else if even n then n else n + 1)"

definition nearest :: "real_type \<Rightarrow> rat \<Rightarrow> rat" where
  "nearest f x = of_int (round_even (x / ulp f x)) * ulp f x"

definition round_real :: "real_type \<Rightarrow> rat \<Rightarrow> c_real" where
  "round_real f x = (let y = nearest f x in
     if \<bar>y\<bar> \<ge> 2 powi over_exp f then Inf (x < 0) else Fin y)"

section \<open>Operations\<close>

fun c_neg :: "c_real \<Rightarrow> c_real" where
  "c_neg NaN = NaN"
| "c_neg (Inf s) = Inf (\<not> s)"
| "c_neg (Fin x) = Fin (- x)"

fun c_add :: "real_type \<Rightarrow> c_real \<Rightarrow> c_real \<Rightarrow> c_real" where
  "c_add f (Fin x) (Fin y) = round_real f (x + y)"
| "c_add f (Inf s) (Fin y) = Inf s"
| "c_add f (Fin x) (Inf t) = Inf t"
| "c_add f (Inf s) (Inf t) = (if s = t then Inf s else NaN)"
| "c_add f _ _ = NaN"

definition c_sub :: "real_type \<Rightarrow> c_real \<Rightarrow> c_real \<Rightarrow> c_real" where
  "c_sub f x y = c_add f x (c_neg y)"

fun c_mul :: "real_type \<Rightarrow> c_real \<Rightarrow> c_real \<Rightarrow> c_real" where
  "c_mul f (Fin x) (Fin y) = round_real f (x * y)"
| "c_mul f (Inf s) (Fin y) = (if y = 0 then NaN else Inf (s \<noteq> (y < 0)))"
| "c_mul f (Fin x) (Inf t) = (if x = 0 then NaN else Inf (t \<noteq> (x < 0)))"
| "c_mul f (Inf s) (Inf t) = Inf (s \<noteq> t)"
| "c_mul f _ _ = NaN"

text \<open>Division by a number other than zero; that by zero is not needed and left out.\<close>

fun c_div :: "real_type \<Rightarrow> c_real \<Rightarrow> c_real \<Rightarrow> c_real option" where
  "c_div f (Fin x) (Fin y) = (if y = 0 then None else Some (round_real f (x / y)))"
| "c_div f (Inf s) (Fin y) = (if y = 0 then None else Some (Inf (s \<noteq> (y < 0))))"
| "c_div f (Fin x) (Inf t) = Some (Fin 0)"
| "c_div f _ _ = Some NaN"

fun c_less :: "c_real \<Rightarrow> c_real \<Rightarrow> bool" where
  "c_less (Fin x) (Fin y) \<longleftrightarrow> x < y"
| "c_less (Fin x) (Inf t) \<longleftrightarrow> \<not> t"
| "c_less (Inf s) (Fin y) \<longleftrightarrow> s"
| "c_less (Inf s) (Inf t) \<longleftrightarrow> s \<and> \<not> t"
| "c_less _ _ \<longleftrightarrow> False"

fun c_eq :: "c_real \<Rightarrow> c_real \<Rightarrow> bool" where
  "c_eq NaN y \<longleftrightarrow> False"
| "c_eq x y \<longleftrightarrow> x = y"

primrec is_nan :: "c_real \<Rightarrow> bool" where
  "is_nan NaN \<longleftrightarrow> True"
| "is_nan (Inf s) \<longleftrightarrow> False"
| "is_nan (Fin x) \<longleftrightarrow> False"

primrec is_inf :: "c_real \<Rightarrow> bool" where
  "is_inf NaN \<longleftrightarrow> False"
| "is_inf (Inf s) \<longleftrightarrow> True"
| "is_inf (Fin x) \<longleftrightarrow> False"

text \<open>Conversions; that of a number outside the integer type is undefined.\<close>

definition c_of_int :: "real_type \<Rightarrow> int \<Rightarrow> c_real" where
  "c_of_int f n = round_real f (of_int n)"

definition truncate_rat :: "rat \<Rightarrow> int" where
  "truncate_rat x = (if x < 0 then - \<lfloor>- x\<rfloor> else \<lfloor>x\<rfloor>)"

definition int32 :: "int \<Rightarrow> int option" where
  "int32 n = (if - (2 ^ 31) \<le> n \<and> n < 2 ^ 31 then Some n else None)"

fun c_to_int32 :: "c_real \<Rightarrow> int option" where
  "c_to_int32 (Fin x) = int32 (truncate_rat x)"
| "c_to_int32 _ = None"

fun c_convert :: "real_type \<Rightarrow> c_real \<Rightarrow> c_real" where
  "c_convert f (Fin x) = round_real f x"
| "c_convert f x = x"

section \<open>Storage\<close>

definition decode :: "bool \<Rightarrow> int \<Rightarrow> int \<Rightarrow> real_type \<Rightarrow> c_real" where
  "decode s e m f =
     (let p = precision f - 1 in
      if e = 2 * over_exp f - 1 then (if m = 0 then Inf s else NaN)
      else let x = (if e = 0 then of_int m * 2 powi (min_exp f - int p)
                    else of_int (2 ^ p + m) * 2 powi (min_exp f - int p + e - 1))
        in Fin (if s then - x else x))"

definition float_of_bits :: "u32 \<Rightarrow> c_real" where
  "float_of_bits w = decode (bit w 31) (uint (drop_bit 23 w) mod 2 ^ 8) (uint w mod 2 ^ 23) C_float"

definition double_of_bits :: "u64 \<Rightarrow> c_real" where
  "double_of_bits w = decode (bit w 63) (uint (drop_bit 52 w) mod 2 ^ 11) (uint w mod 2 ^ 52) C_double"

end
