(* ===== verification/Unity_Float.thy ===== *)
theory Unity_Float
  imports Unity_Arrays C_Float
begin

text \<open>
  The floating-point part of \<open>src/unity/unity.c\<close>: printing a number, the comparison within a delta,
  and the assertions for \<open>float\<close> and \<open>double\<close>, on the arithmetic of \<open>C_Float\<close>.  The functions for the
  two types are the same text with another type and another precision; here it stands once, with
  the type \<open>f\<close> as an argument, and each function of the source is an instance.  \<open>d\<close> is
  \<open>UNITY_DOUBLE\<close>, the type numbers are printed in: \<open>double\<close> under \<open>UNITY_INCLUDE_DOUBLE\<close>, else
  \<open>float\<close>.  A cast from \<open>UNITY_FLOAT\<close> to \<open>UNITY_DOUBLE\<close> keeps the value.  Configuration:
  \<open>UNITY_EXCLUDE_FLOAT_PRINT\<close>, \<open>UNITY_NAN_NOT_EQUAL_NAN\<close> and \<open>UNITY_ROUND_TIES_AWAY_FROM_ZERO\<close> are not
  defined.
\<close>

section \<open>Texts\<close>

definition UnityStrInf :: string where "UnityStrInf = ''Infinity''"
definition UnityStrNegInf :: string where "UnityStrNegInf = ''Negative Infinity''"
definition UnityStrNaN :: string where "UnityStrNaN = ''NaN''"
definition UnityStrDet :: string where "UnityStrDet = ''Determinate''"
definition UnityStrInvalidFloatTrait :: string where
  "UnityStrInvalidFloatTrait = ''Invalid Float Trait''"
definition UnityStrNot :: string where "UnityStrNot = ''Not ''"

section \<open>Printing\<close>

primrec sig_digits :: "real_type \<Rightarrow> int" where
  "sig_digits C_float = 7"
| "sig_digits C_double = 9"

primrec min_scaled :: "real_type \<Rightarrow> int" where
  "min_scaled C_float = 1000000"
| "min_scaled C_double = 100000000"

primrec max_scaled :: "real_type \<Rightarrow> int" where
  "max_scaled C_float = 10000000"
| "max_scaled C_double = 1000000000"

text \<open>The literals \<open>1.0f\<close>, \<open>10.0f\<close>, \<open>1e10f\<close> and \<open>0.5f\<close> are exact in both types.\<close>

abbreviation (input) e10 :: c_real where
  "e10 \<equiv> Fin 10000000000"

subsection \<open>Scaling\<close>

text \<open>
  The loops of the three cases.  None of them has an obvious bound, so that not ending is the value
  \<open>None\<close>, as are a division by zero and a number that does not fit \<open>UNITY_INT32\<close>.
\<close>

partial_function (option) scale_up :: "real_type \<Rightarrow> c_real \<Rightarrow> int \<Rightarrow> (c_real \<times> int) option" where
  "scale_up d number exponent = do {
     limit \<leftarrow> c_div d (c_of_int d (max_scaled d)) e10;
     if c_less number limit then scale_up d (c_mul d number e10) (exponent - 10)
     else Some (number, exponent)
   }"

declare scale_up.simps [code]

partial_function (option) find_factor ::
    "real_type \<Rightarrow> c_real \<Rightarrow> c_real \<Rightarrow> int \<Rightarrow> (c_real \<times> int) option" where
  "find_factor d number factor exponent =
     (if c_less (c_mul d number factor) (c_of_int d (min_scaled d))
      then find_factor d number (c_mul d factor (Fin 10)) (exponent - 1)
      else Some (factor, exponent))"

declare find_factor.simps [code]

partial_function (option) scale_down :: "real_type \<Rightarrow> c_real \<Rightarrow> int \<Rightarrow> (c_real \<times> int) option" where
  "scale_down d number exponent =
     (if c_less (c_mul d (c_of_int d (min_scaled d)) e10) number
      then do { number \<leftarrow> c_div d number e10; scale_down d number (exponent + 10) }
      else Some (number, exponent))"

declare scale_down.simps [code]

partial_function (option) find_divisor ::
    "real_type \<Rightarrow> c_real \<Rightarrow> c_real \<Rightarrow> int \<Rightarrow> (c_real \<times> int) option" where
  "find_divisor d number divisor exponent = do {
     quotient \<leftarrow> c_div d number divisor;
     if c_less (c_of_int d (max_scaled d)) quotient
     then find_divisor d number (c_mul d divisor (Fin 10)) (exponent + 1)
     else Some (divisor, exponent)
   }"

declare find_divisor.simps [code]

partial_function (option) scale_int ::
    "real_type \<Rightarrow> int \<Rightarrow> c_real \<Rightarrow> int \<Rightarrow> (int \<times> c_real \<times> int) option" where
  "scale_int d n_int factor exponent =
     (if n_int < min_scaled d
      then do { n_int \<leftarrow> int32 (n_int * 10); scale_int d n_int (c_mul d factor (Fin 10)) (exponent - 1) }
      else Some (n_int, factor, exponent))"

declare scale_int.simps [code]

text \<open>A positive number as the scaled number, the integer part split off before, and the exponent.\<close>

definition scale_number :: "real_type \<Rightarrow> c_real \<Rightarrow> (c_real \<times> int \<times> int) option" where
  "scale_number d number =
     (if c_less number (Fin 1) then do {
        (number, exponent) \<leftarrow> scale_up d number 0;
        (factor, exponent) \<leftarrow> find_factor d number (Fin 1) exponent;
        Some (c_mul d number factor, 0, exponent)
      }
      else if c_less (c_of_int d (max_scaled d)) number then do {
        (number, exponent) \<leftarrow> scale_down d number 0;
        (divisor, exponent) \<leftarrow> find_divisor d number (Fin 1) exponent;
        number \<leftarrow> c_div d number divisor;
        Some (number, 0, exponent)
      }
      else do {
        n_int \<leftarrow> c_to_int32 number;
        let number = c_sub d number (c_of_int d n_int);
        (n_int, factor, exponent) \<leftarrow> scale_int d n_int (Fin 1) 0;
        Some (c_mul d number factor, n_int, exponent)
      })"

text \<open>To the nearest integer, to the even one in the middle; the number is not negative.\<close>

definition round_scaled :: "real_type \<Rightarrow> c_real \<Rightarrow> int option" where
  "round_scaled d number = do {
     t \<leftarrow> c_to_int32 (c_add d number number);
     t \<leftarrow> int32 (t + 1);
     let n = t div 2;
     Some (if odd n \<and> c_eq (c_sub d (c_of_int d n) number) (Fin (1 / 2)) then n - 1 else n)
   }"

subsection \<open>Digits\<close>

text \<open>Trailing zeros behind the point.\<close>

function strip_zeros :: "int \<Rightarrow> int \<Rightarrow> int \<times> int" where
  "strip_zeros n decimals =
     (if decimals > 0 \<and> n mod 10 = 0 then strip_zeros (n div 10) (decimals - 1) else (n, decimals))"
  by pat_completeness auto

termination by (relation "measure (\<lambda>(n, decimals). nat decimals)") auto

declare strip_zeros.simps [simp del]

definition digit_char :: "int \<Rightarrow> char" where
  "digit_char n = char_of (48 + nat (n mod 10))"

text \<open>
  \<open>char buf[16]\<close>: the characters written so far, the last one first; a write behind its end is
  undefined.  The loop ends when nothing of the number is left and \<open>k\<close> digits have been written.
\<close>

function build_digits :: "int \<Rightarrow> int \<Rightarrow> char list \<Rightarrow> char list option" where
  "build_digits n k buf =
     (if n \<noteq> 0 \<or> int (length buf) < k
      then if length buf < 16 then build_digits (n div 10) k (digit_char n # buf) else None
      else Some buf)"
  by pat_completeness auto

termination by (relation "measure (\<lambda>(n, k, buf). 16 - length buf)") auto

declare build_digits.simps [simp del]

primrec print_digits :: "int \<Rightarrow> char list \<Rightarrow> unity \<Rightarrow> unity" where
  "print_digits decimals [] u = u"
| "print_digits decimals (c # buf) u =
     print_digits decimals buf (UNITY_OUTPUT_CHAR c
       (if int (Suc (length buf)) = decimals then UNITY_OUTPUT_CHAR (CHR ''.'') u else u))"

primrec print_buf :: "char list \<Rightarrow> unity \<Rightarrow> unity" where
  "print_buf [] u = u"
| "print_buf (c # buf) u = print_buf buf (UNITY_OUTPUT_CHAR c u)"

definition print_exponent :: "int \<Rightarrow> unity \<Rightarrow> unity option" where
  "print_exponent exponent u =
     (if exponent \<noteq> 0 then do {
        let u = UNITY_OUTPUT_CHAR (CHR ''e'') u;
        let (exponent, u) =
          (if exponent < 0 then (- exponent, UNITY_OUTPUT_CHAR (CHR ''-'') u)
           else (exponent, UNITY_OUTPUT_CHAR (CHR ''+'') u));
        buf \<leftarrow> build_digits exponent 2 [];
        Some (print_buf buf u)
      } else Some u)"

text \<open>The number \<open>n * 10^exponent\<close> as digits, in place or with an exponent.\<close>

definition print_scaled :: "real_type \<Rightarrow> int \<Rightarrow> int \<Rightarrow> unity \<Rightarrow> unity option" where
  "print_scaled d n exponent u = do {
     let decimals = (if exponent \<le> 0 \<and> exponent \<ge> - (sig_digits d + 3) then - exponent
                     else sig_digits d - 1);
     let exponent = exponent + decimals;
     let (n, decimals) = strip_zeros n decimals;
     buf \<leftarrow> build_digits n (decimals + 1) [];
     print_exponent exponent (print_digits decimals buf u)
   }"

definition UnityPrintFloat :: "real_type \<Rightarrow> c_real \<Rightarrow> unity \<Rightarrow> unity option" where
  "UnityPrintFloat d number u =
     (if c_eq number (Fin 0) then Some (UnityPrintS ''0'' u)
      else if is_nan number then Some (UnityPrintS UnityStrNaN u)
      else if is_inf number then
        Some (if c_less number (Fin 0) then UnityPrintS UnityStrNegInf u else UnityPrintS UnityStrInf u)
      else do {
        let (number, u) =
          (if c_less number (Fin 0) then (c_neg number, UNITY_OUTPUT_CHAR (CHR ''-'') u) else (number, u));
        (number, n_int, exponent) \<leftarrow> scale_number d number;
        n \<leftarrow> round_scaled d number;
        n \<leftarrow> int32 (n + n_int);
        let (n, exponent) = (if n \<ge> max_scaled d then (min_scaled d, exponent + 1) else (n, exponent));
        print_scaled d n exponent u
      })"

section \<open>Comparison within a delta\<close>

text \<open>\<open>UNITY_FLOAT_PRECISION\<close>, the literal \<open>0.00001f\<close>, and \<open>UNITY_DOUBLE_PRECISION\<close>, \<open>1e-12\<close>.\<close>

definition UNITY_PRECISION :: "real_type \<Rightarrow> c_real" where
  "UNITY_PRECISION f = round_real f (case f of C_float \<Rightarrow> 1 / 10 ^ 5 | C_double \<Rightarrow> 1 / 10 ^ 12)"

definition UNITY_FLOAT_OR_DOUBLE_WITHIN :: "real_type \<Rightarrow> c_real \<Rightarrow> c_real \<Rightarrow> c_real \<Rightarrow> bool" where
  "UNITY_FLOAT_OR_DOUBLE_WITHIN f delta expected actual =
     (if is_inf expected \<and> is_inf actual \<and> c_less expected (Fin 0) = c_less actual (Fin 0) then True
      else if is_nan expected \<and> is_nan actual then True
      else
        let diff = c_sub f actual expected;
            diff = (if c_less diff (Fin 0) then c_neg diff else diff);
            delta = (if c_less delta (Fin 0) then c_neg delta else delta)
        in \<not> (is_nan diff \<or> is_inf diff \<or> c_less delta diff))"

definition UnityFloatsWithin :: "c_real \<Rightarrow> c_real \<Rightarrow> c_real \<Rightarrow> bool" where
  "UnityFloatsWithin = UNITY_FLOAT_OR_DOUBLE_WITHIN C_float"

definition UnityDoublesWithin :: "c_real \<Rightarrow> c_real \<Rightarrow> c_real \<Rightarrow> bool" where
  "UnityDoublesWithin = UNITY_FLOAT_OR_DOUBLE_WITHIN C_double"

definition UNITY_PRINT_EXPECTED_AND_ACTUAL_FLOAT ::
    "real_type \<Rightarrow> c_real \<Rightarrow> c_real \<Rightarrow> unity \<Rightarrow> unity option" where
  "UNITY_PRINT_EXPECTED_AND_ACTUAL_FLOAT d expected actual u = do {
     let u = UnityPrintS UnityStrExpected u;
     u \<leftarrow> UnityPrintFloat d expected u;
     let u = UnityPrintS UnityStrWas u;
     UnityPrintFloat d actual u
   }"

section \<open>Assertions\<close>

text \<open>The end of a failure report: no text when a number could not be printed.\<close>

definition report_and_bail :: "string option \<Rightarrow> unity option \<Rightarrow> unity outcome" where
  "report_and_bail msg r = (case r of
     None \<Rightarrow> Undefined
   | Some u \<Rightarrow> let u = UnityAddMsgIfSpecified msg u in UNITY_FAIL_AND_BAIL u)"

definition UnityAssertRealsWithin ::
    "real_type \<Rightarrow> real_type \<Rightarrow> c_real \<Rightarrow> c_real \<Rightarrow> c_real \<Rightarrow> string option \<Rightarrow> u64
     \<Rightarrow> unity \<Rightarrow> unity outcome" where
  "UnityAssertRealsWithin f d delta expected actual msg lineNumber u =
     and_then (RETURN_IF_FAIL_OR_IGNORE u) (\<lambda>u.
       if \<not> UNITY_FLOAT_OR_DOUBLE_WITHIN f delta expected actual then
         let u = UnityTestResultsFailBegin lineNumber u
         in report_and_bail msg (UNITY_PRINT_EXPECTED_AND_ACTUAL_FLOAT d expected actual u)
       else Returns u)"

definition UnityAssertRealsNotWithin ::
    "real_type \<Rightarrow> real_type \<Rightarrow> c_real \<Rightarrow> c_real \<Rightarrow> c_real \<Rightarrow> string option \<Rightarrow> u64
     \<Rightarrow> unity \<Rightarrow> unity outcome" where
  "UnityAssertRealsNotWithin f d delta expected actual msg lineNumber u =
     and_then (RETURN_IF_FAIL_OR_IGNORE u) (\<lambda>u.
       if UNITY_FLOAT_OR_DOUBLE_WITHIN f delta expected actual then
         report_and_bail msg (do {
           let u = UnityTestResultsFailBegin lineNumber u;
           let u = UnityPrintS UnityStrExpected u;
           u \<leftarrow> UnityPrintFloat d expected u;
           let u = UnityPrintS UnityStrNotEqual u;
           UnityPrintFloat d actual u
         })
       else Returns u)"

definition UnityAssertGreaterOrLessReal ::
    "real_type \<Rightarrow> real_type \<Rightarrow> c_real \<Rightarrow> c_real \<Rightarrow> comparison \<Rightarrow> string option \<Rightarrow> u64
     \<Rightarrow> unity \<Rightarrow> unity outcome" where
  "UnityAssertGreaterOrLessReal f d threshold actual cmp msg lineNumber u =
     and_then (RETURN_IF_FAIL_OR_IGNORE u) (\<lambda>u.
       let failed = False;
           failed = (if \<not> c_less actual threshold \<and> compare_has cmp UNITY_SMALLER_THAN then True
                     else failed);
           failed = (if \<not> c_less threshold actual \<and> compare_has cmp UNITY_GREATER_THAN then True
                     else failed);
           failed = (if compare_has cmp UNITY_EQUAL_TO
                        \<and> UNITY_FLOAT_OR_DOUBLE_WITHIN f (c_mul f threshold (UNITY_PRECISION f)) threshold actual
                     then False else failed)
       in if failed then
         report_and_bail msg (do {
           let u = UnityTestResultsFailBegin lineNumber u;
           let u = UnityPrintS UnityStrExpected u;
           u \<leftarrow> UnityPrintFloat d actual u;
           let u = (if compare_has cmp UNITY_GREATER_THAN then UnityPrintS UnityStrGt u else u);
           let u = (if compare_has cmp UNITY_SMALLER_THAN then UnityPrintS UnityStrLt u else u);
           let u = (if compare_has cmp UNITY_EQUAL_TO then UnityPrintS UnityStrOrEqual u else u);
           UnityPrintFloat d threshold u
         })
       else Returns u)"

subsection \<open>Traits\<close>

datatype float_trait =
  UNITY_FLOAT_IS_NOT_INF | UNITY_FLOAT_IS_INF | UNITY_FLOAT_IS_NOT_NEG_INF | UNITY_FLOAT_IS_NEG_INF
  | UNITY_FLOAT_IS_NOT_NAN | UNITY_FLOAT_IS_NAN | UNITY_FLOAT_IS_NOT_DET | UNITY_FLOAT_IS_DET
  | UNITY_FLOAT_INVALID_TRAIT

primrec trait_code :: "float_trait \<Rightarrow> nat" where
  "trait_code UNITY_FLOAT_IS_NOT_INF = 0"
| "trait_code UNITY_FLOAT_IS_INF = 1"
| "trait_code UNITY_FLOAT_IS_NOT_NEG_INF = 2"
| "trait_code UNITY_FLOAT_IS_NEG_INF = 3"
| "trait_code UNITY_FLOAT_IS_NOT_NAN = 4"
| "trait_code UNITY_FLOAT_IS_NAN = 5"
| "trait_code UNITY_FLOAT_IS_NOT_DET = 6"
| "trait_code UNITY_FLOAT_IS_DET = 7"
| "trait_code UNITY_FLOAT_INVALID_TRAIT = 8"

definition UnityAssertRealSpecial ::
    "real_type \<Rightarrow> c_real \<Rightarrow> string option \<Rightarrow> u64 \<Rightarrow> float_trait \<Rightarrow> unity \<Rightarrow> unity outcome" where
  "UnityAssertRealSpecial d actual msg lineNumber st u =
     (let trait_names = [UnityStrInf, UnityStrNegInf, UnityStrNaN, UnityStrDet];
          should_be_trait = odd (trait_code st);
          trait_index = trait_code st div 2
      in and_then (RETURN_IF_FAIL_OR_IGNORE u) (\<lambda>u.
        let (is_trait, trait_index, trait_names) =
          (if st = UNITY_FLOAT_IS_INF \<or> st = UNITY_FLOAT_IS_NOT_INF
           then (is_inf actual \<and> c_less (Fin 0) actual, trait_index, trait_names)
           else if st = UNITY_FLOAT_IS_NEG_INF \<or> st = UNITY_FLOAT_IS_NOT_NEG_INF
           then (is_inf actual \<and> c_less actual (Fin 0), trait_index, trait_names)
           else if st = UNITY_FLOAT_IS_NAN \<or> st = UNITY_FLOAT_IS_NOT_NAN
           then (is_nan actual, trait_index, trait_names)
           else if st = UNITY_FLOAT_IS_DET \<or> st = UNITY_FLOAT_IS_NOT_DET
           then (\<not> is_inf actual \<and> \<not> is_nan actual, trait_index, trait_names)
           else (\<not> should_be_trait, 0, trait_names[0 := UnityStrInvalidFloatTrait]))
        in if is_trait \<noteq> should_be_trait then
          report_and_bail msg (do {
            let u = UnityTestResultsFailBegin lineNumber u;
            let u = UnityPrintS UnityStrExpected u;
            let u = (if \<not> should_be_trait then UnityPrintS UnityStrNot u else u);
            let u = UnityPrintS (trait_names ! trait_index) u;
            let u = UnityPrintS UnityStrWas u;
            UnityPrintFloat d actual u
          })
        else Returns u))"

subsection \<open>Arrays\<close>

primrec real_size :: "real_type \<Rightarrow> nat" where
  "real_size C_float = 4"
| "real_size C_double = 8"

primrec load_real :: "real_type \<Rightarrow> cmem \<Rightarrow> addr \<Rightarrow> c_real option" where
  "load_real C_float m p = map_option float_of_bits (load32 m p)"
| "load_real C_double m p = map_option double_of_bits (load64 m p)"

primrec UnityAssertWithinRealArray_loop ::
    "real_type \<Rightarrow> real_type \<Rightarrow> cmem \<Rightarrow> c_real \<Rightarrow> u32 \<Rightarrow> string option \<Rightarrow> u64 \<Rightarrow> array_flags
     \<Rightarrow> nat \<Rightarrow> addr \<Rightarrow> addr \<Rightarrow> unity \<Rightarrow> unity outcome" where
  "UnityAssertWithinRealArray_loop f d m in_delta num_elements msg lineNumber flags 0
     ptr_expected ptr_actual u = Returns u"
| "UnityAssertWithinRealArray_loop f d m in_delta num_elements msg lineNumber flags (Suc elements)
     ptr_expected ptr_actual u =
     (case (load_real f m ptr_expected, load_real f m ptr_actual) of
        (Some expected, Some actual) \<Rightarrow>
          let current_element_delta = c_mul f expected (UNITY_PRECISION f);
              current_element_delta =
                (if c_less current_element_delta (Fin 0) then c_neg current_element_delta
                 else current_element_delta)
          in if \<not> UNITY_FLOAT_OR_DOUBLE_WITHIN f (c_add f in_delta current_element_delta) expected actual then
            let u = UnityTestResultsFailBegin lineNumber u;
                u = UnityPrintS UnityStrElement u;
                u = UnityPrintNumberUnsigned (ucast (num_elements - of_nat elements - 1)) u
            in report_and_bail msg (UNITY_PRINT_EXPECTED_AND_ACTUAL_FLOAT d expected actual u)
          else
            UnityAssertWithinRealArray_loop f d m in_delta num_elements msg lineNumber flags elements
              (if flags = UNITY_ARRAY_TO_ARRAY then ptr_expected + of_nat (real_size f) else ptr_expected)
              (ptr_actual + of_nat (real_size f)) u
      | _ \<Rightarrow> Undefined)"

definition UnityAssertWithinRealArray ::
    "real_type \<Rightarrow> real_type \<Rightarrow> cmem \<Rightarrow> c_real \<Rightarrow> addr \<Rightarrow> addr \<Rightarrow> u32 \<Rightarrow> string option \<Rightarrow> u64
     \<Rightarrow> array_flags \<Rightarrow> unity \<Rightarrow> unity outcome" where
  "UnityAssertWithinRealArray f d m delta expected actual num_elements msg lineNumber flags u =
     and_then (RETURN_IF_FAIL_OR_IGNORE u) (\<lambda>u.
       if num_elements = 0 then UnityPrintPointlessAndBail lineNumber msg u
       else if is_inf delta then Returns u
       else if is_nan delta then UnityPrintPointlessAndBail lineNumber msg u
       else if expected = actual then Returns u
       else let (null, u) = UnityIsOneArrayNull expected actual lineNumber msg u
            in if null then UNITY_FAIL_AND_BAIL u
               else let in_delta = (if c_less delta (Fin 0) then c_neg delta else delta)
                    in UnityAssertWithinRealArray_loop f d m in_delta num_elements msg lineNumber flags
                         (unat num_elements) expected actual u)"

text \<open>
  A number as an array of one element, in the storage of \<open>UnityNumToPtr\<close>; the argument is the
  representation of the number.
\<close>

definition UnityFloatToPtr :: "addr \<Rightarrow> cmem \<Rightarrow> u32 \<Rightarrow> (cmem \<times> addr) option" where
  "UnityFloatToPtr q m num = map_option (\<lambda>m. (m, q)) (store32 m q num)"

definition UnityDoubleToPtr :: "addr \<Rightarrow> cmem \<Rightarrow> u64 \<Rightarrow> (cmem \<times> addr) option" where
  "UnityDoubleToPtr q m num = map_option (\<lambda>m. (m, q)) (store64 m q num)"

section \<open>The functions of the source\<close>

definition UnityAssertFloatsWithin ::
    "real_type \<Rightarrow> c_real \<Rightarrow> c_real \<Rightarrow> c_real \<Rightarrow> string option \<Rightarrow> u64 \<Rightarrow> unity \<Rightarrow> unity outcome" where
  "UnityAssertFloatsWithin = UnityAssertRealsWithin C_float"

definition UnityAssertFloatsNotWithin ::
    "real_type \<Rightarrow> c_real \<Rightarrow> c_real \<Rightarrow> c_real \<Rightarrow> string option \<Rightarrow> u64 \<Rightarrow> unity \<Rightarrow> unity outcome" where
  "UnityAssertFloatsNotWithin = UnityAssertRealsNotWithin C_float"

definition UnityAssertGreaterOrLessFloat ::
    "real_type \<Rightarrow> c_real \<Rightarrow> c_real \<Rightarrow> comparison \<Rightarrow> string option \<Rightarrow> u64 \<Rightarrow> unity \<Rightarrow> unity outcome" where
  "UnityAssertGreaterOrLessFloat = UnityAssertGreaterOrLessReal C_float"

definition UnityAssertFloatSpecial ::
    "real_type \<Rightarrow> c_real \<Rightarrow> string option \<Rightarrow> u64 \<Rightarrow> float_trait \<Rightarrow> unity \<Rightarrow> unity outcome" where
  "UnityAssertFloatSpecial = UnityAssertRealSpecial"

definition UnityAssertWithinFloatArray ::
    "real_type \<Rightarrow> cmem \<Rightarrow> c_real \<Rightarrow> addr \<Rightarrow> addr \<Rightarrow> u32 \<Rightarrow> string option \<Rightarrow> u64
     \<Rightarrow> array_flags \<Rightarrow> unity \<Rightarrow> unity outcome" where
  "UnityAssertWithinFloatArray = UnityAssertWithinRealArray C_float"

text \<open>Those for \<open>double\<close> exist only where \<open>UNITY_DOUBLE\<close> is \<open>double\<close>.\<close>

definition UnityAssertDoublesWithin ::
    "c_real \<Rightarrow> c_real \<Rightarrow> c_real \<Rightarrow> string option \<Rightarrow> u64 \<Rightarrow> unity \<Rightarrow> unity outcome" where
  "UnityAssertDoublesWithin = UnityAssertRealsWithin C_double C_double"

definition UnityAssertDoublesNotWithin ::
    "c_real \<Rightarrow> c_real \<Rightarrow> c_real \<Rightarrow> string option \<Rightarrow> u64 \<Rightarrow> unity \<Rightarrow> unity outcome" where
  "UnityAssertDoublesNotWithin = UnityAssertRealsNotWithin C_double C_double"

definition UnityAssertGreaterOrLessDouble ::
    "c_real \<Rightarrow> c_real \<Rightarrow> comparison \<Rightarrow> string option \<Rightarrow> u64 \<Rightarrow> unity \<Rightarrow> unity outcome" where
  "UnityAssertGreaterOrLessDouble = UnityAssertGreaterOrLessReal C_double C_double"

definition UnityAssertDoubleSpecial ::
    "c_real \<Rightarrow> string option \<Rightarrow> u64 \<Rightarrow> float_trait \<Rightarrow> unity \<Rightarrow> unity outcome" where
  "UnityAssertDoubleSpecial = UnityAssertRealSpecial C_double"

definition UnityAssertWithinDoubleArray ::
    "cmem \<Rightarrow> c_real \<Rightarrow> addr \<Rightarrow> addr \<Rightarrow> u32 \<Rightarrow> string option \<Rightarrow> u64
     \<Rightarrow> array_flags \<Rightarrow> unity \<Rightarrow> unity outcome" where
  "UnityAssertWithinDoubleArray = UnityAssertWithinRealArray C_double C_double"

end
