(* ===== verification/C_Float_Correct.thy ===== *)
theory C_Float_Correct
  imports C_Float
begin

text \<open>
  Rounding: it is monotone, symmetric, keeps what is representable and errs by at most half a unit
  of the last digit.
\<close>

section \<open>Powers of two\<close>

abbreviation pow2i :: "int \<Rightarrow> rat" where
  "pow2i k \<equiv> 2 powi k"

lemma pow2i_pos [simp]: "0 < pow2i k"
  by (simp add: zero_less_power_int)

lemma pow2i_less_iff [simp]: "pow2i j < pow2i k \<longleftrightarrow> j < k"
  using power_int_strict_increasing [of j k "2::rat"] power_int_increasing [of k j "2::rat"] by force

lemma pow2i_le_iff [simp]: "pow2i j \<le> pow2i k \<longleftrightarrow> j \<le> k"
  using pow2i_less_iff [of k j] by (simp del: pow2i_less_iff add: not_less [symmetric])

lemma pow2i_add: "pow2i (j + k) = pow2i j * pow2i k"
  by (simp add: power_int_add)

lemma pow2i_diff: "pow2i (j - k) = pow2i j / pow2i k"
  by (simp add: power_int_diff)

lemma pow2i_nat: "0 \<le> k \<Longrightarrow> pow2i k = of_int (2 ^ nat k)"
  by (simp add: power_int_def)

lemma pow2i_Suc: "pow2i (k + 1) = 2 * pow2i k"
  by (simp add: pow2i_add)

section \<open>The exponent\<close>

lemma expo_bounds:
  assumes "0 < x"
  shows "pow2i (expo x) \<le> x" and "x < pow2i (expo x + 1)"
proof -
  obtain n d where q: "quotient_of x = (n, d)" by force
  have d: "0 < d" and x: "x = of_int n / of_int d"
    using quotient_of_denom_pos [OF q] quotient_of_div [OF q] by auto
  have n: "0 < n" using assms d by (simp add: x zero_less_divide_iff)
  have len: "pow2i (bitlen m - 1) \<le> of_int m" "of_int m < pow2i (bitlen m)" if "0 < m" for m
  proof -
    have "0 \<le> bitlen m - 1" using that by (metis bitlen_nonneg bitlen_eq_zero_iff diff_ge_0_iff_ge linorder_not_le order_le_less zless_imp_add1_zle add_0)
    then show "pow2i (bitlen m - 1) \<le> of_int m" "of_int m < pow2i (bitlen m)"
      using bitlen_bounds [OF that] by (simp_all only: pow2i_nat of_int_le_iff of_int_less_iff)
  qed
  let ?k = "bitlen n - bitlen d"
  have "x < pow2i (bitlen n) / pow2i (bitlen d - 1)"
    unfolding x using len [OF n] len [OF d] d n by (intro frac_less) simp_all
  also have "\<dots> = pow2i (bitlen n - (bitlen d - 1))" by (rule pow2i_diff [symmetric])
  also have "bitlen n - (bitlen d - 1) = ?k + 1" by simp
  finally have less: "x < pow2i (?k + 1)" .
  have "?k - 1 = bitlen n - 1 - bitlen d" by simp
  then have "pow2i (?k - 1) = pow2i (bitlen n - 1) / pow2i (bitlen d)" by (simp only: pow2i_diff)
  also have "\<dots> \<le> x" unfolding x using len [OF n] len [OF d] d n by (intro frac_le) simp_all
  finally have "pow2i (?k - 1) \<le> x" .
  with less show "pow2i (expo x) \<le> x" and "x < pow2i (expo x + 1)"
    by (auto simp: expo_def q Let_def)
qed

lemma expo_unique:
  assumes "pow2i k \<le> x" and "x < pow2i (k + 1)"
  shows "expo x = k"
proof -
  have "0 < x" using assms(1) pow2i_pos [of k] by linarith
  note b = expo_bounds [OF this]
  have "pow2i (expo x) < pow2i (k + 1)" "pow2i k < pow2i (expo x + 1)" using assms b by linarith+
  then show ?thesis unfolding pow2i_less_iff by linarith
qed

lemma expo_mono:
  assumes "0 < x" and "x \<le> y"
  shows "expo x \<le> expo y"
proof -
  have "pow2i (expo x) < pow2i (expo y + 1)"
    using expo_bounds(1) [OF assms(1)] expo_bounds(2) [of y] assms by linarith
  then show ?thesis by simp
qed

section \<open>Rounding to an integer\<close>

lemma round_even_unique:
  assumes "\<bar>x - of_int n\<bar> < 1 / 2"
  shows "round_even x = n"
proof -
  have "\<lfloor>x\<rfloor> = n \<or> \<lfloor>x\<rfloor> = n - 1" using assms by linarith
  then show ?thesis using assms by (auto simp: round_even_def Let_def)
qed

lemma round_even_int [simp]: "round_even (of_int n) = n"
  by (rule round_even_unique) simp

lemma round_even_error: "\<bar>of_int (round_even x) - x\<bar> \<le> 1 / 2"
  using floor_correct [of x] by (auto simp: round_even_def Let_def)

lemma round_even_mono:
  assumes "x \<le> y"
  shows "round_even x \<le> round_even y"
proof (cases "\<lfloor>x\<rfloor> = \<lfloor>y\<rfloor>")
  case True
  then show ?thesis using assms by (auto simp: round_even_def Let_def)
next
  case False
  then have "\<lfloor>x\<rfloor> + 1 \<le> \<lfloor>y\<rfloor>" using floor_mono [OF assms] by linarith
  then show ?thesis by (auto simp: round_even_def Let_def)
qed

lemma round_even_minus: "round_even (- x) = - round_even x"
proof (cases "x = of_int \<lfloor>x\<rfloor>")
  case True
  then show ?thesis by (metis of_int_minus round_even_int)
next
  case False
  then have "of_int \<lfloor>x\<rfloor> < x" by (metis of_int_floor_le order_le_less)
  then have "\<lfloor>- x\<rfloor> = - \<lfloor>x\<rfloor> - 1" by linarith
  then show ?thesis by (auto simp: round_even_def Let_def)
qed

section \<open>Rounding to a format\<close>

definition last_place :: "real_type \<Rightarrow> rat \<Rightarrow> int" where
  "last_place f x = max (expo \<bar>x\<bar>) (min_exp f) - int (precision f) + 1"

lemma ulp_pow: "ulp f x = pow2i (last_place f x)"
  by (simp add: ulp_def last_place_def)

lemma ulp_pos [simp]: "0 < ulp f x"
  by (simp add: ulp_pow)

lemma ulp_minus [simp]: "ulp f (- x) = ulp f x"
  by (simp add: ulp_def)

lemma precision_ge: "24 \<le> precision f"
  by (cases f) simp_all

text \<open>A number with at most \<open>precision\<close> binary digits, none below the smallest.\<close>

definition representable :: "real_type \<Rightarrow> rat \<Rightarrow> bool" where
  "representable f x \<longleftrightarrow> (\<exists>n k. x = of_int n * pow2i k \<and> \<bar>n\<bar> < 2 ^ precision f
     \<and> min_exp f - int (precision f) + 1 \<le> k)"

lemma nearest_minus: "nearest f (- x) = - nearest f x"
  by (simp add: nearest_def round_even_minus)

lemma nearest_0 [simp]: "nearest f 0 = 0"
  using round_even_int [of 0] by (simp add: nearest_def)

lemma nearest_multiple:
  assumes "x = of_int n * pow2i k" and "last_place f x \<le> k"
  shows "nearest f x = x"
proof -
  have "x / ulp f x = of_int n * pow2i (k - last_place f x)"
    by (simp add: assms(1) ulp_pow pow2i_diff)
  also have "\<dots> = of_int (n * 2 ^ nat (k - last_place f x))" using assms(2) by (simp add: pow2i_nat)
  finally have "x / ulp f x = of_int (round_even (x / ulp f x))" by (metis round_even_int)
  then show ?thesis using ulp_pos [of f x] by (simp add: nearest_def field_simps)
qed

lemma nearest_representable:
  assumes "representable f x"
  shows "nearest f x = x"
proof (cases "x = 0")
  case False
  obtain n k where x: "x = of_int n * pow2i k" and n: "\<bar>n\<bar> < 2 ^ precision f"
    and k: "min_exp f - int (precision f) + 1 \<le> k"
    using assms by (auto simp: representable_def)
  have "\<bar>x\<bar> = of_int \<bar>n\<bar> * pow2i k" by (simp add: x abs_mult)
  also have "\<dots> < pow2i (int (precision f)) * pow2i k"
    using n by (intro mult_strict_right_mono) (simp_all add: pow2i_nat flip: of_int_less_iff [where 'a = rat])
  finally have "\<bar>x\<bar> < pow2i (int (precision f) + k)" by (simp add: pow2i_add)
  then have "expo \<bar>x\<bar> < int (precision f) + k"
    using expo_bounds(1) [of "\<bar>x\<bar>"] False by (metis order_le_less_trans pow2i_less_iff zero_less_abs_iff)
  then have "last_place f x \<le> k" using k by (simp add: last_place_def)
  then show ?thesis by (rule nearest_multiple [OF x])
qed simp

text \<open>What rounds is below the next power of two, and so is the result, or it is that power.\<close>

lemma scaled_bound:
  assumes "x \<noteq> 0"
  shows "\<bar>x\<bar> < pow2i (max (expo \<bar>x\<bar>) (min_exp f) + 1)"
proof -
  have "\<bar>x\<bar> < pow2i (expo \<bar>x\<bar> + 1)" using expo_bounds(2) assms by simp
  also have "\<dots> \<le> pow2i (max (expo \<bar>x\<bar>) (min_exp f) + 1)" by simp
  finally show ?thesis .
qed

lemma nearest_le_power:
  assumes "x \<le> pow2i k" and "last_place f x \<le> k"
  shows "nearest f x \<le> pow2i k"
proof -
  have k: "pow2i (k - last_place f x) = of_int (2 ^ nat (k - last_place f x))"
    using assms(2) by (intro pow2i_nat) simp
  have "x / ulp f x \<le> pow2i (k - last_place f x)"
    using assms(1) by (simp add: ulp_pow pow2i_diff divide_right_mono)
  then have "round_even (x / ulp f x) \<le> 2 ^ nat (k - last_place f x)"
    unfolding k using round_even_mono round_even_int by metis
  then have "of_int (round_even (x / ulp f x)) \<le> pow2i (k - last_place f x)"
    unfolding k of_int_le_iff .
  then show ?thesis
    using ulp_pos [of f x] by (simp add: nearest_def ulp_pow pow2i_diff field_simps)
qed

lemma power_le_nearest:
  assumes "pow2i k \<le> x" and "last_place f x \<le> k"
  shows "pow2i k \<le> nearest f x"
proof -
  have k: "pow2i (k - last_place f x) = of_int (2 ^ nat (k - last_place f x))"
    using assms(2) by (intro pow2i_nat) simp
  have "pow2i (k - last_place f x) \<le> x / ulp f x"
    using assms(1) by (simp add: ulp_pow pow2i_diff divide_right_mono)
  then have "2 ^ nat (k - last_place f x) \<le> round_even (x / ulp f x)"
    unfolding k using round_even_mono round_even_int by metis
  then have "pow2i (k - last_place f x) \<le> of_int (round_even (x / ulp f x))"
    unfolding k of_int_le_iff .
  then show ?thesis
    using ulp_pos [of f x] by (simp add: nearest_def ulp_pow pow2i_diff field_simps)
qed

lemma nearest_nonneg: "0 \<le> x \<Longrightarrow> 0 \<le> nearest f x"
  using round_even_mono [of 0 "x / ulp f x"] round_even_int [of 0] less_imp_le [OF ulp_pos [of f x]]
  by (auto simp: nearest_def intro!: mult_nonneg_nonneg divide_nonneg_nonneg)

lemma nearest_mono_pos:
  assumes "0 < x" and "x \<le> y"
  shows "nearest f x \<le> nearest f y"
proof -
  let ?e = "\<lambda>x. max (expo \<bar>x\<bar>) (min_exp f)"
  have y: "0 < y" using assms by linarith
  have le: "?e x \<le> ?e y" using expo_mono [of "\<bar>x\<bar>" "\<bar>y\<bar>"] assms y by fastforce
  show ?thesis
  proof (cases "?e x = ?e y")
    case True
    then have u: "ulp f x = ulp f y" by (simp add: ulp_def)
    have "round_even (x / ulp f y) \<le> round_even (y / ulp f y)"
      using assms(2) by (intro round_even_mono divide_right_mono) (simp_all add: less_imp_le)
    then show ?thesis by (simp add: nearest_def u)
  next
    case False
    then have lt: "?e x < ?e y" by (rule order_le_neq_trans [OF le])
    then have ey: "?e y = expo y" using y by linarith
    have p: "1 \<le> int (precision f)" using precision_ge [of f] by simp
    have "x < pow2i (?e x + 1)" using scaled_bound [of x f] assms(1) by simp
    also have "\<dots> \<le> pow2i (?e y)" unfolding pow2i_le_iff using lt by linarith
    finally have x: "x \<le> pow2i (?e y)" by (rule less_imp_le)
    have "last_place f x \<le> ?e y" unfolding last_place_def using lt p by linarith
    with x have "nearest f x \<le> pow2i (?e y)" by (rule nearest_le_power)
    also have "pow2i (?e y) \<le> nearest f y"
    proof (rule power_le_nearest)
      show "pow2i (?e y) \<le> y" unfolding ey by (rule expo_bounds(1) [OF y])
      show "last_place f y \<le> ?e y" unfolding last_place_def using p by linarith
    qed
    finally show ?thesis .
  qed
qed

lemma nearest_mono:
  assumes "x \<le> y"
  shows "nearest f x \<le> nearest f y"
proof -
  consider "0 < x" | "x \<le> 0" "0 \<le> y" | "y < 0" by linarith
  then show ?thesis
  proof cases
    case 1
    then show ?thesis using assms by (rule nearest_mono_pos)
  next
    case 2
    then have "nearest f x \<le> 0" "0 \<le> nearest f y"
      using nearest_nonneg [of "- x" f] nearest_nonneg [of y f] by (simp_all add: nearest_minus)
    then show ?thesis by linarith
  next
    case 3
    then have "nearest f (- y) \<le> nearest f (- x)" using assms by (intro nearest_mono_pos) simp_all
    then show ?thesis by (simp add: nearest_minus)
  qed
qed

lemma nearest_error: "\<bar>nearest f x - x\<bar> \<le> ulp f x / 2"
proof -
  have u: "0 < ulp f x" by simp
  have "nearest f x - x = (of_int (round_even (x / ulp f x)) - x / ulp f x) * ulp f x"
    using u by (simp add: nearest_def left_diff_distrib less_imp_neq [OF u, symmetric])
  then have "\<bar>nearest f x - x\<bar> = \<bar>of_int (round_even (x / ulp f x)) - x / ulp f x\<bar> * ulp f x"
    by (simp only: abs_mult abs_of_pos [OF u])
  also have "\<dots> \<le> 1 / 2 * ulp f x" using round_even_error u by (intro mult_right_mono) (simp_all add: less_imp_le)
  finally show ?thesis by simp
qed

section \<open>Values of a format\<close>

primrec real_value :: "real_type \<Rightarrow> c_real \<Rightarrow> bool" where
  "real_value f NaN \<longleftrightarrow> True"
| "real_value f (Inf s) \<longleftrightarrow> True"
| "real_value f (Fin x) \<longleftrightarrow> representable f x \<and> \<bar>x\<bar> < pow2i (over_exp f)"

lemma over_exp_ge: "128 \<le> over_exp f"
  by (cases f) simp_all

lemma min_exp_le: "min_exp f \<le> - 126"
  by (cases f) simp_all

lemma representable_minus [simp]: "representable f (- x) \<longleftrightarrow> representable f x"
proof -
  have "representable f (- x)" if "representable f x" for x
    using that unfolding representable_def by (metis abs_minus_cancel mult_minus_left of_int_minus)
  from this [of x] this [of "- x"] show ?thesis by auto
qed

lemma representable_scaled:
  assumes "\<bar>n\<bar> \<le> 2 ^ precision f" and k: "min_exp f - int (precision f) + 1 \<le> k"
  shows "representable f (of_int n * pow2i k)"
proof (cases "\<bar>n\<bar> < 2 ^ precision f")
  case True
  then show ?thesis using k by (auto simp: representable_def)
next
  case False
  then have "\<bar>n\<bar> = 2 ^ precision f" using assms by simp
  then have "of_int n = of_int (sgn n) * pow2i (int (precision f))"
    by (metis (no_types, opaque_lifting) of_int_mult of_nat_0_le_iff nat_int pow2i_nat sgn_mult_abs)
  then have "of_int n * pow2i k = of_int (sgn n) * pow2i (int (precision f) + k)" by (simp add: pow2i_add)
  moreover have "\<bar>sgn n\<bar> < 2 ^ precision f"
  proof -
    have "(2::int) ^ 1 < 2 ^ precision f" using precision_ge [of f] by (intro power_strict_increasing) simp_all
    then show ?thesis by (simp add: abs_sgn_eq)
  qed
  moreover have "min_exp f - int (precision f) + 1 \<le> int (precision f) + k" using k by linarith
  ultimately show ?thesis unfolding representable_def by blast
qed

lemma representable_int: "\<bar>n\<bar> \<le> 2 ^ precision f \<Longrightarrow> representable f (of_int n)"
  using representable_scaled [of n f 0] min_exp_le [of f] by simp

lemma representable_pow2i:
  assumes "min_exp f - int (precision f) + 1 \<le> k"
  shows "representable f (pow2i k)"
proof -
  have "(2::int) ^ 0 \<le> 2 ^ precision f" by (intro power_increasing) simp_all
  then show ?thesis using representable_scaled [of 1 f k] assms by simp
qed

text \<open>What is representable and not too large is the result of an operation as it is.\<close>

lemma round_real_exact:
  assumes "real_value f (Fin x)"
  shows "round_real f x = Fin x"
  using assms nearest_representable [of f x] by (simp add: round_real_def Let_def)

lemma round_real_0 [simp]: "round_real f 0 = Fin 0"
  using pow2i_pos [of "over_exp f"] by (simp add: round_real_def not_le)

lemma small_below_overflow:
  assumes "\<bar>x\<bar> \<le> 2 ^ 127"
  shows "\<bar>x\<bar> < pow2i (over_exp f)"
proof -
  have "\<bar>x\<bar> \<le> pow2i 127" using assms by simp
  also have "\<dots> < pow2i (over_exp f)" using over_exp_ge [of f] by (subst pow2i_less_iff) simp
  finally show ?thesis .
qed

lemma real_value_int:
  assumes "\<bar>n\<bar> \<le> 2 ^ precision f"
  shows "real_value f (Fin (of_int n))"
proof -
  have "2 ^ precision f \<le> (2 ^ 127 :: int)" by (cases f) (simp_all only: precision.simps, simp_all)
  with assms have "\<bar>n\<bar> \<le> 2 ^ 127" by (rule order_trans)
  then have "of_int \<bar>n\<bar> \<le> rat_of_int (2 ^ 127)" by (simp only: of_int_le_iff)
  then have "\<bar>rat_of_int n\<bar> \<le> 2 ^ 127" by (simp only: of_int_abs of_int_power of_int_numeral)
  then show ?thesis using representable_int [OF assms] small_below_overflow [of "of_int n" f] by simp
qed

lemma c_of_int_exact: "\<bar>n\<bar> \<le> 2 ^ precision f \<Longrightarrow> c_of_int f n = Fin (of_int n)"
  unfolding c_of_int_def by (intro round_real_exact real_value_int)

text \<open>Conversion between the types keeps what both can hold.\<close>

lemma representable_widen: "representable C_float x \<Longrightarrow> representable C_double x"
proof -
  assume "representable C_float x"
  then obtain n k where "x = of_int n * pow2i k" "\<bar>n\<bar> < 2 ^ 24" "-149 \<le> k"
    by (auto simp: representable_def)
  then show "representable C_double x"
    unfolding representable_def by (intro exI [of _ n] exI [of _ k]) simp
qed

section \<open>The result of rounding\<close>

lemma nearest_is_representable: "representable f (nearest f x)"
proof -
  let ?r = "round_even (x / ulp f x)"
  have "\<bar>x\<bar> \<le> pow2i (last_place f x + int (precision f))"
    using scaled_bound [of x f] by (cases "x = 0") (simp_all add: last_place_def less_imp_le)
  then have "\<bar>x\<bar> \<le> pow2i (int (precision f)) * ulp f x"
    by (simp only: ulp_pow pow2i_add mult.commute)
  then have "x \<le> pow2i (int (precision f)) * ulp f x" "- (pow2i (int (precision f))) * ulp f x \<le> x"
    by (simp_all add: abs_le_iff)
  then have "x / ulp f x \<le> of_int (2 ^ precision f)" "of_int (- (2 ^ precision f)) \<le> x / ulp f x"
    by (simp_all add: pos_divide_le_eq pos_le_divide_eq pow2i_nat)
  then have "?r \<le> 2 ^ precision f" "- (2 ^ precision f) \<le> ?r"
    using round_even_mono round_even_int by metis+
  then have "\<bar>?r\<bar> \<le> 2 ^ precision f" by simp
  moreover have "min_exp f - int (precision f) + 1 \<le> last_place f x" by (simp add: last_place_def)
  ultimately show ?thesis unfolding nearest_def ulp_pow by (rule representable_scaled)
qed

lemma round_real_value: "real_value f (round_real f x)"
  by (simp add: round_real_def Let_def nearest_is_representable not_le)

lemma c_convert_real_value: "real_value f (c_convert f v)"
  by (cases v) (simp_all add: round_real_value)

lemma nearest_le_representable: "x \<le> y \<Longrightarrow> representable f y \<Longrightarrow> nearest f x \<le> y"
  using nearest_mono [of x y f] nearest_representable [of f y] by simp

lemma representable_le_nearest: "y \<le> x \<Longrightarrow> representable f y \<Longrightarrow> y \<le> nearest f x"
  using nearest_mono [of y x f] nearest_representable [of f y] by simp

lemma representable_0 [simp]: "representable f 0"
  using representable_int [of 0 f] by simp

lemma round_real_fin:
  assumes "\<bar>x\<bar> \<le> 2 ^ 127"
  shows "round_real f x = Fin (nearest f x)"
proof -
  have "representable f (pow2i 127)" using min_exp_le [of f] by (intro representable_pow2i) simp
  then have "representable f (2 ^ 127)" by simp
  then have "nearest f \<bar>x\<bar> \<le> 2 ^ 127" using assms by (intro nearest_le_representable)
  moreover have "\<bar>nearest f x\<bar> = nearest f \<bar>x\<bar>"
    using nearest_nonneg [of x f] nearest_nonneg [of "- x" f] by (auto simp: abs_if nearest_minus)
  ultimately have "\<bar>nearest f x\<bar> \<le> 2 ^ 127" by simp
  then have "\<bar>nearest f x\<bar> < pow2i (over_exp f)" by (rule small_below_overflow)
  then show ?thesis by (simp add: round_real_def Let_def)
qed

lemma round_real_below:
  assumes "0 \<le> x" and "x \<le> y" and "real_value f (Fin y)"
  shows "round_real f x = Fin (nearest f x)"
proof -
  have "nearest f x \<le> y" using assms by (intro nearest_le_representable) simp_all
  then have "\<bar>nearest f x\<bar> < pow2i (over_exp f)" using nearest_nonneg [OF assms(1), of f] assms(3) by simp
  then show ?thesis by (simp add: round_real_def Let_def)
qed

section \<open>The relative error\<close>

definition unit_error :: "real_type \<Rightarrow> rat" where
  "unit_error f = pow2i (- int (precision f))"

lemma unit_error_pos [simp]: "0 < unit_error f"
  by (simp add: unit_error_def)

lemma unit_error_nonneg [simp]: "0 \<le> unit_error f"
  by (rule less_imp_le) simp

lemma nearest_relative:
  assumes "pow2i (min_exp f) \<le> x"
  shows "\<bar>nearest f x - x\<bar> \<le> unit_error f * x"
proof -
  have x: "0 < x" using assms pow2i_pos [of "min_exp f"] by linarith
  have "expo (pow2i (min_exp f)) = min_exp f" by (rule expo_unique) simp_all
  then have "min_exp f \<le> expo x" using expo_mono [OF pow2i_pos assms] by simp
  then have "ulp f x = pow2i (expo x + - int (precision f) + 1)" using x by (simp add: ulp_def)
  then have "ulp f x / 2 = pow2i (expo x) * unit_error f"
    unfolding pow2i_Suc unit_error_def by (simp only: pow2i_add)
  also have "\<dots> \<le> x * unit_error f" using expo_bounds(1) [OF x] by (intro mult_right_mono) (simp_all add: less_imp_le)
  finally show ?thesis using nearest_error [of f x] by (simp add: mult.commute)
qed

text \<open>\<open>y\<close> is \<open>x\<close> after \<open>k\<close> roundings.\<close>

definition rounded :: "real_type \<Rightarrow> nat \<Rightarrow> rat \<Rightarrow> rat \<Rightarrow> bool" where
  "rounded f k x y \<longleftrightarrow> \<bar>y - x\<bar> \<le> ((1 + unit_error f) ^ k - 1) * x"

lemma rounded_0: "rounded f 0 x x"
  by (simp add: rounded_def)

lemma rounded_1: "pow2i (min_exp f) \<le> x \<Longrightarrow> rounded f 1 x (nearest f x)"
  using nearest_relative by (simp add: rounded_def)

text \<open>A product with an integer is exact below the normal numbers.\<close>

lemma rounded_times_int:
  assumes "representable f x" and "0 < x" and "0 < c"
  shows "rounded f 1 (x * of_int c) (nearest f (x * of_int c))"
proof (cases "pow2i (min_exp f) \<le> x * of_int c")
  case False
  let ?k = "min_exp f - int (precision f) + 1"
  obtain n k where x: "x = of_int n * pow2i k" and k: "?k \<le> k"
    using assms(1) by (auto simp: representable_def)
  let ?m = "n * 2 ^ nat (k - ?k) * c"
  have "pow2i k = pow2i (k - ?k) * pow2i ?k" by (simp flip: pow2i_add)
  also have "pow2i (k - ?k) = of_int (2 ^ nat (k - ?k))" using k by (intro pow2i_nat) simp
  finally have eq: "x * of_int c = of_int ?m * pow2i ?k" by (simp add: x)
  have "0 < x * of_int c" using assms by simp
  then have "0 < rat_of_int ?m" unfolding eq by (rule zero_less_mult_pos2) (rule pow2i_pos)
  then have "0 < ?m" by (simp only: of_int_0_less_iff)
  have "of_int ?m * pow2i ?k < pow2i (int (precision f) - 1) * pow2i ?k"
    using False unfolding eq by (simp flip: pow2i_add)
  then have "of_int ?m < pow2i (int (precision f) - 1)" by (simp only: mult_less_cancel_right_pos pow2i_pos)
  also have "\<dots> \<le> pow2i (int (precision f))" unfolding pow2i_le_iff by simp
  finally have "of_int ?m < rat_of_int (2 ^ precision f)" by (simp only: pow2i_nat of_nat_0_le_iff nat_int)
  then have "\<bar>?m\<bar> < 2 ^ precision f" using \<open>0 < ?m\<close> by (simp only: of_int_less_iff abs_of_pos)
  then have "representable f (x * of_int c)" unfolding eq by (intro representable_scaled) simp_all
  then have "nearest f (x * of_int c) = x * of_int c" by (rule nearest_representable)
  then show ?thesis using \<open>0 < x * of_int c\<close> by (simp add: rounded_def mult_nonneg_nonneg less_imp_le)
qed (rule rounded_1)

lemma rounded_trans:
  assumes "rounded f k x y" and "rounded f l y z"
  shows "rounded f (k + l) x z"
proof -
  let ?u = "1 + unit_error f"
  have u: "1 \<le> ?u ^ l" using less_imp_le [OF unit_error_pos [of f]] by (intro one_le_power) simp
  have "y \<le> ?u ^ k * x" using assms(1) by (simp add: rounded_def abs_le_iff algebra_simps)
  then have "(?u ^ l - 1) * y \<le> (?u ^ l - 1) * (?u ^ k * x)" using u by (intro mult_left_mono) simp_all
  then have "\<bar>z - y\<bar> + \<bar>y - x\<bar> \<le> (?u ^ l - 1) * (?u ^ k * x) + (?u ^ k - 1) * x"
    using assms by (simp add: rounded_def)
  moreover have "\<bar>z - x\<bar> \<le> \<bar>z - y\<bar> + \<bar>y - x\<bar>" by linarith
  ultimately show ?thesis by (simp add: rounded_def power_add algebra_simps)
qed

lemma rounded_scale:
  assumes "rounded f k x y" and "0 < c"
  shows "rounded f k (x * c) (y * c)"
proof -
  have "\<bar>y * c - x * c\<bar> = \<bar>y - x\<bar> * c"
    using assms(2) by (simp add: abs_mult flip: left_diff_distrib)
  also have "\<dots> \<le> ((1 + unit_error f) ^ k - 1) * x * c"
    using assms by (intro mult_right_mono) (simp_all add: rounded_def)
  finally show ?thesis by (simp add: rounded_def mult.assoc)
qed

end
