(* ===== verification/Unity_Float_Scale.thy ===== *)
theory Unity_Float_Scale
  imports Unity_Float C_Float_Correct
begin

text \<open>
  The scaling of \<open>UnityPrintFloat\<close>: each of its loops ends for every number of the type, after a
  few rounds, with a number between 0 and \<open>max_scaled\<close> that is the given one times a power of ten
  up to the roundings made on the way.
\<close>

section \<open>Constants\<close>

lemma min_scaled_bounds: "1 \<le> min_scaled d" "min_scaled d \<le> 100000000"
  by (cases d; simp)+

lemma one_le_min_scaled: "1 \<le> rat_of_int (min_scaled d)"
  by (cases d) simp_all

lemma max_scaled_eq: "max_scaled d = 10 * min_scaled d"
  by (cases d) simp_all

lemma fits_precision: "\<bar>n\<bar> \<le> 10 * min_scaled d \<Longrightarrow> \<bar>n\<bar> \<le> 2 ^ precision d"
  by (cases d) simp_all

lemma representable_small_int: "\<bar>n\<bar> \<le> 10 * min_scaled d \<Longrightarrow> representable d (of_int n)"
  by (intro representable_int fits_precision)

lemma c_of_int_small: "\<bar>n\<bar> \<le> 10 * min_scaled d \<Longrightarrow> c_of_int d n = Fin (of_int n)"
  by (intro c_of_int_exact fits_precision)

lemma c_of_int_scaled [simp]:
  "c_of_int d (min_scaled d) = Fin (of_int (min_scaled d))"
  "c_of_int d (max_scaled d) = Fin (of_int (max_scaled d))"
  using min_scaled_bounds [of d] by (simp_all add: c_of_int_small max_scaled_eq)

lemma representable_scaled_bounds [simp]:
  "representable d (of_int (min_scaled d))" "representable d (of_int (max_scaled d))"
  using min_scaled_bounds [of d] by (auto simp: max_scaled_eq simp del: of_int_mult intro!: representable_small_int)

text \<open>Powers of ten are exact up to the tenth.\<close>

lemma representable_ten_power:
  assumes "i \<le> 10"
  shows "representable d (10 ^ i)"
proof -
  have "(5::int) ^ i \<le> 5 ^ 10" using assms by (intro power_increasing) simp_all
  also have "\<dots> \<le> 2 ^ precision d" by (cases d) simp_all
  finally have "representable d (of_int (5 ^ i) * pow2i (int i))"
    using min_exp_le [of d] by (intro representable_scaled) simp_all
  moreover have "of_int (5 ^ i) * pow2i (int i) = (10::rat) ^ i"
    by (simp flip: power_mult_distrib)
  ultimately show ?thesis by simp
qed

lemma ten_power_le: "i \<le> 10 \<Longrightarrow> (10::rat) ^ i \<le> 10000000000"
  using power_increasing [of i 10 "10::rat"] by simp

lemma c_mul_ten_power:
  assumes "i < 10"
  shows "c_mul d (Fin (10 ^ i)) (Fin 10) = Fin (10 ^ Suc i)"
proof -
  have "\<bar>10 ^ Suc i\<bar> \<le> (2::rat) ^ 127" using ten_power_le [of "Suc i"] assms by simp
  moreover have "representable d (10 ^ Suc i)" using assms by (intro representable_ten_power) simp
  ultimately have "round_real d (10 ^ Suc i) = Fin (10 ^ Suc i)"
    by (simp only: round_real_fin nearest_representable)
  then show ?thesis by (simp add: mult.commute)
qed

text \<open>\<open>max_scaled / 1e10f\<close>\<close>

definition limit :: "real_type \<Rightarrow> rat" where
  "limit d = nearest d (of_int (max_scaled d) / 10000000000)"

lemma limit_value: "c_div d (c_of_int d (max_scaled d)) e10 = Some (Fin (limit d))"
proof -
  have "\<bar>of_int (max_scaled d) / (10000000000 :: rat)\<bar> \<le> 2 ^ 127" by (cases d) simp_all
  then show ?thesis by (simp add: limit_def round_real_fin)
qed

lemma limit_bounds: "pow2i (- 10) \<le> limit d" "limit d \<le> pow2i (- 3)"
proof -
  have "representable d (pow2i (- 10))" "representable d (pow2i (- 3))"
    using min_exp_le [of d] by (intro representable_pow2i; simp)+
  moreover have "pow2i (- 10) \<le> of_int (max_scaled d) / 10000000000"
    "of_int (max_scaled d) / 10000000000 \<le> pow2i (- 3)"
    by (cases d; simp add: power_int_minus)+
  ultimately show "pow2i (- 10) \<le> limit d" "limit d \<le> pow2i (- 3)"
    unfolding limit_def by (simp_all only: representable_le_nearest nearest_le_representable)
qed

lemma limit_lower: "of_int (min_scaled d) \<le> limit d * 10 ^ 10"
proof -
  have "representable d (pow2i (- 10))" "representable d (pow2i (- 4))"
    using min_exp_le [of d] by (intro representable_pow2i; simp)+
  then have "pow2i (case d of C_float \<Rightarrow> - 10 | C_double \<Rightarrow> - 4) \<le> limit d"
    unfolding limit_def by (intro representable_le_nearest) (cases d; simp add: power_int_minus)+
  then show ?thesis by (cases d) (simp_all add: power_int_minus)
qed

lemma below_limit:
  assumes "representable d x" and "x < limit d"
  shows "x * 10000000000 \<le> of_int (max_scaled d)"
proof (rule ccontr)
  assume "\<not> ?thesis"
  then have "of_int (max_scaled d) / 10000000000 \<le> x" by simp
  then have "limit d \<le> x" unfolding limit_def using assms(1) by (rule nearest_le_representable)
  then show False using assms(2) by simp
qed

section \<open>Small numbers\<close>

lemma expo_times_e10:
  assumes "min_exp d - int (precision d) + 1 \<le> expo x" and "0 < x"
  shows "0 < nearest d (x * 10000000000)"
    and "expo x + 33 \<le> expo (nearest d (x * 10000000000))"
proof -
  have "pow2i (expo x + 33) = pow2i (expo x) * 2 ^ 33" by (simp add: pow2i_add)
  also have "\<dots> \<le> x * 10000000000"
    using expo_bounds(1) [OF assms(2)] assms by (intro mult_mono) (simp_all add: less_imp_le)
  finally have le: "pow2i (expo x + 33) \<le> nearest d (x * 10000000000)"
    by (rule representable_le_nearest) (use assms in \<open>intro representable_pow2i, linarith\<close>)
  then show "0 < nearest d (x * 10000000000)" using pow2i_pos [of "expo x + 33"] by linarith
  have "expo (pow2i (expo x + 33)) = expo x + 33" by (rule expo_unique) simp_all
  then show "expo x + 33 \<le> expo (nearest d (x * 10000000000))" using expo_mono [OF pow2i_pos le] by simp
qed

lemma scale_up_ends:
  assumes "representable d x" and "0 < x" and "min_exp d - int (precision d) + 1 \<le> expo x"
  shows "\<exists>y k. scale_up d (Fin x) e = Some (Fin y, e - 10 * int k) \<and> representable d y
     \<and> rounded d k (x * 10 ^ (10 * k)) y \<and> limit d \<le> y \<and> (k = 0 \<and> y = x \<or> y \<le> of_int (max_scaled d))
     \<and> (k = 0 \<or> 33 * (int k - 1) + expo x \<le> - 3)"
  using assms
proof (induction "nat (- expo x)" arbitrary: x e rule: less_induct)
  case less
  note unf = scale_up.simps [of d "Fin x" e, unfolded limit_value]
  show ?case
  proof (cases "x < limit d")
    case False
    then show ?thesis using less.prems
      by (intro exI [of _ x] exI [of _ 0]) (simp add: unf rounded_0)
  next
    case True
    let ?x = "nearest d (x * 10000000000)"
    have below: "x * 10000000000 \<le> of_int (max_scaled d)" using less.prems(1) True by (rule below_limit)
    have max: "of_int (max_scaled d) \<le> (2::rat) ^ 127" by (cases d) simp_all
    have mul: "c_mul d (Fin x) e10 = Fin ?x"
      using below max less.prems by (simp add: round_real_fin)
    have le_max: "?x \<le> of_int (max_scaled d)"
      using below by (rule nearest_le_representable) simp
    have r: "rounded d 1 (x * 10 ^ 10) ?x"
      using rounded_times_int [of d x 10000000000] less.prems by simp
    have "expo x \<le> expo (pow2i (- 3))"
      using True limit_bounds(2) [of d] less.prems by (intro expo_mono) simp_all
    also have "\<dots> = - 3" by (rule expo_unique) simp_all
    finally have e: "expo x \<le> - 3" .
    note big = expo_times_e10 [OF less.prems(3,2)]
    have "nat (- expo ?x) < nat (- expo x)" using big e by simp
    from less.hyps [OF this nearest_is_representable big(1), of "e - 10"] big less.prems
    obtain y k where IH: "scale_up d (Fin ?x) (e - 10) = Some (Fin y, e - 10 - 10 * int k)"
      "representable d y" "rounded d k (?x * 10 ^ (10 * k)) y" "limit d \<le> y"
      "k = 0 \<and> y = ?x \<or> y \<le> of_int (max_scaled d)" "k = 0 \<or> 33 * (int k - 1) + expo ?x \<le> - 3"
      by auto
    have "rounded d 1 (x * 10 ^ 10 * 10 ^ (10 * k)) (?x * 10 ^ (10 * k))"
      using r by (rule rounded_scale) simp
    from rounded_trans [OF this IH(3)] have "rounded d (Suc k) (x * 10 ^ (10 * Suc k)) y"
      by (simp add: power_add mult.assoc)
    moreover have "scale_up d (Fin x) e = Some (Fin y, e - 10 * int (Suc k))"
      using True IH(1) by (simp add: unf mul del: c_mul.simps)
    moreover have "33 * (int (Suc k) - 1) + expo x \<le> - 3"
      using IH(6) big e by (cases k) (simp_all add: algebra_simps)
    ultimately show ?thesis using IH le_max by (intro exI [of _ y] exI [of _ "Suc k"]) auto
  qed
qed

text \<open>The factor of the last step.\<close>

lemma find_factor_ends:
  assumes "0 < x" and "of_int (min_scaled d) \<le> x * 10 ^ 10" and "i \<le> 10"
    and "x * 10 ^ 10 \<le> 2 ^ 127"
  shows "\<exists>j. i \<le> j \<and> j \<le> 10 \<and> find_factor d (Fin x) (Fin (10 ^ i)) e = Some (Fin (10 ^ j), e - (int j - int i))
     \<and> of_int (min_scaled d) \<le> nearest d (x * 10 ^ j)
     \<and> (j = i \<or> x * 10 ^ j \<le> of_int (max_scaled d))"
  using assms(3)
proof (induction "10 - i" arbitrary: i e rule: less_induct)
  case less
  have "x * 10 ^ i \<le> x * 10 ^ 10" using assms(1) less.prems by (intro mult_left_mono power_increasing) simp_all
  also note assms(4)
  finally have "\<bar>x * 10 ^ i\<bar> \<le> 2 ^ 127" using assms(1) by (subst abs_of_pos) (simp_all only: mult_pos_pos zero_less_power zero_less_numeral)
  then have mul: "c_mul d (Fin x) (Fin (10 ^ i)) = Fin (nearest d (x * 10 ^ i))"
    by (simp add: round_real_fin)
  note unf = find_factor.simps [of d "Fin x" "Fin (10 ^ i)" e, unfolded mul c_of_int_scaled c_less.simps]
  show ?case
  proof (cases "nearest d (x * 10 ^ i) < of_int (min_scaled d)")
    case False
    then show ?thesis using less.prems by (intro exI [of _ i]) (simp add: unf)
  next
    case True
    have "x * 10 ^ i < of_int (min_scaled d)"
      using True by (meson not_less representable_le_nearest representable_scaled_bounds(1))
    then have max: "x * 10 ^ Suc i \<le> of_int (max_scaled d)" by (simp add: max_scaled_eq)
    have "i \<noteq> 10" using \<open>x * 10 ^ i < _\<close> assms(2) by auto
    then have i: "i < 10" using less.prems by simp
    then have "10 - Suc i < 10 - i" "Suc i \<le> 10" by simp_all
    from less.hyps [OF this, of "e - 1"] obtain j where j: "Suc i \<le> j" "j \<le> 10"
      "find_factor d (Fin x) (Fin (10 ^ Suc i)) (e - 1) = Some (Fin (10 ^ j), e - 1 - (int j - int (Suc i)))"
      "of_int (min_scaled d) \<le> nearest d (x * 10 ^ j)" "j = Suc i \<or> x * 10 ^ j \<le> of_int (max_scaled d)"
      by blast
    have "find_factor d (Fin x) (Fin (10 ^ i)) e = Some (Fin (10 ^ j), e - (int j - int i))"
      using True j(3) by (simp only: unf if_True c_mul_ten_power [OF i]) simp
    then show ?thesis using j max by (intro exI [of _ j]) auto
  qed
qed

section \<open>Large numbers\<close>

lemma expo_div_e10:
  assumes "1 \<le> x"
  shows "nearest d (x / 10000000000) \<le> pow2i (expo x - 32)"
proof -
  have x: "0 < x" using assms by simp
  have "x / 10000000000 \<le> pow2i (expo x + 1) / 2 ^ 33"
    using expo_bounds(2) [OF x] by (intro frac_le) (simp_all add: less_imp_le)
  also have "\<dots> = pow2i (expo x + 1 - 33)" by (simp only: pow2i_diff) simp
  finally have le: "x / 10000000000 \<le> pow2i (expo x - 32)" by simp
  have "expo 1 = 0" by (rule expo_unique) simp_all
  then have "0 \<le> expo x" using expo_mono [of 1 x] assms by simp
  then have "representable d (pow2i (expo x - 32))"
    by (intro representable_pow2i) (cases d; simp)
  with le show ?thesis by (rule nearest_le_representable)
qed

text \<open>The number from which the loop divides, \<open>min_scaled * 1e10f\<close>.\<close>

definition upper :: "real_type \<Rightarrow> rat" where
  "upper d = nearest d (of_int (min_scaled d) * 10000000000)"

lemma upper_value: "c_mul d (c_of_int d (min_scaled d)) e10 = Fin (upper d)"
proof -
  have "\<bar>of_int (min_scaled d) * (10000000000 :: rat)\<bar> \<le> 2 ^ 127" by (cases d) simp_all
  then show ?thesis by (simp add: upper_def round_real_fin)
qed

lemma upper_bounds: "pow2i 50 \<le> upper d" "upper d \<le> of_int (max_scaled d) * 10000000000"
proof -
  have "representable d (pow2i 50)" using min_exp_le [of d] by (intro representable_pow2i) simp
  then show "pow2i 50 \<le> upper d"
    unfolding upper_def by (rule representable_le_nearest [rotated]) (cases d; simp)
  have "representable d (pow2i 54)" "representable d (pow2i 60)"
    using min_exp_le [of d] by (intro representable_pow2i; simp)+
  then have "upper d \<le> pow2i (case d of C_float \<Rightarrow> 54 | C_double \<Rightarrow> 60)"
    unfolding upper_def by (intro nearest_le_representable) (cases d; simp)+
  then show "upper d \<le> of_int (max_scaled d) * 10000000000" by (cases d) simp_all
qed

lemma above_upper:
  assumes "representable d x" and "upper d < x"
  shows "of_int (min_scaled d) \<le> nearest d (x / 10000000000)"
proof -
  have "of_int (min_scaled d) * 10000000000 < x"
  proof (rule ccontr)
    assume "\<not> ?thesis"
    then have "nearest d x \<le> upper d" unfolding upper_def by (intro nearest_mono) simp
    then show False using assms by (simp add: nearest_representable)
  qed
  then show ?thesis by (intro representable_le_nearest) simp_all
qed

lemma scale_down_ends:
  assumes "real_value d (Fin x)" and "of_int (min_scaled d) \<le> x"
  shows "\<exists>y k. scale_down d (Fin x) e = Some (Fin y, e + 10 * int k) \<and> real_value d (Fin y)
     \<and> rounded d k (x / 10 ^ (10 * k)) y \<and> of_int (min_scaled d) \<le> y \<and> y \<le> upper d
     \<and> (k = 0 \<or> 32 * (int k - 1) + 50 \<le> expo x)"
  using assms
proof (induction "nat (expo x)" arbitrary: x e rule: less_induct)
  case less
  note unf = scale_down.simps [of d "Fin x" e, unfolded upper_value c_less.simps]
  show ?case
  proof (cases "upper d < x")
    case False
    then show ?thesis using less.prems
      by (intro exI [of _ x] exI [of _ 0]) (simp add: unf rounded_0)
  next
    case True
    let ?x = "nearest d (x / 10000000000)"
    have "0 \<le> x" using less.prems(2) one_le_min_scaled [of d] by linarith
    then have div: "c_div d (Fin x) e10 = Some (Fin ?x)"
      using less.prems(1) round_real_below [of "x / 10000000000" x d] by simp
    have x50: "pow2i 50 \<le> x" using True upper_bounds(1) [of d] by linarith
    have min: "of_int (min_scaled d) \<le> ?x" using less.prems(1) True by (intro above_upper) simp_all
    have one: "1 \<le> x" "1 \<le> ?x"
      using less.prems(2) min one_le_min_scaled [of d] by linarith+
    have "?x \<le> x" using one(1) less.prems(1) by (intro nearest_le_representable) simp_all
    then have val: "real_value d (Fin ?x)"
      using less.prems one by (simp add: nearest_is_representable)
    have "expo (pow2i 50) = 50" by (rule expo_unique) simp_all
    then have e50: "50 \<le> expo x" using expo_mono [OF pow2i_pos x50] by simp
    have "expo ?x \<le> expo (pow2i (expo x - 32))"
      using one expo_div_e10 [OF one(1)] by (intro expo_mono) simp_all
    also have "\<dots> = expo x - 32" by (rule expo_unique) simp_all
    finally have e: "expo ?x \<le> expo x - 32" .
    have "pow2i (min_exp d) \<le> pow2i 0" unfolding pow2i_le_iff using min_exp_le [of d] by simp
    then have "pow2i (min_exp d) \<le> x / 10 ^ 10" using x50 by simp
    then have r: "rounded d 1 (x / 10 ^ 10) ?x" using rounded_1 [of d "x / 10 ^ 10"] by simp
    have "nat (expo ?x) < nat (expo x)" using e e50 by simp
    from less.hyps [OF this val min, of "e + 10"]
    obtain y k where IH: "scale_down d (Fin ?x) (e + 10) = Some (Fin y, e + 10 + 10 * int k)"
      "real_value d (Fin y)" "rounded d k (?x / 10 ^ (10 * k)) y" "of_int (min_scaled d) \<le> y" "y \<le> upper d"
      "k = 0 \<or> 32 * (int k - 1) + 50 \<le> expo ?x"
      by blast
    have "rounded d 1 (x / 10 ^ 10 * (1 / 10 ^ (10 * k))) (?x * (1 / 10 ^ (10 * k)))"
      using r by (rule rounded_scale) simp
    then have "rounded d 1 (x / 10 ^ (10 * Suc k)) (?x / 10 ^ (10 * k))"
      by (simp add: power_add)
    from rounded_trans [OF this IH(3)] have "rounded d (Suc k) (x / 10 ^ (10 * Suc k)) y" by simp
    moreover have "scale_down d (Fin x) e = Some (Fin y, e + 10 * int (Suc k))"
      using True IH(1) by (simp add: unf div del: c_div.simps)
    moreover have "32 * (int (Suc k) - 1) + 50 \<le> expo x"
      using IH(6) e e50 by (cases k) (simp_all add: algebra_simps)
    ultimately show ?thesis using IH by (intro exI [of _ y] exI [of _ "Suc k"]) auto
  qed
qed

lemma find_divisor_ends:
  assumes "1 \<le> x" and "real_value d (Fin x)" and "x \<le> of_int (max_scaled d) * 10 ^ 10" and "i \<le> 10"
  shows "\<exists>j. i \<le> j \<and> j \<le> 10 \<and> find_divisor d (Fin x) (Fin (10 ^ i)) e = Some (Fin (10 ^ j), e + (int j - int i))
     \<and> c_div d (Fin x) (Fin (10 ^ j)) = Some (Fin (nearest d (x / 10 ^ j)))
     \<and> nearest d (x / 10 ^ j) \<le> of_int (max_scaled d)
     \<and> (j = i \<or> of_int (min_scaled d) \<le> x / 10 ^ j)"
  using assms(4)
proof (induction "10 - i" arbitrary: i e rule: less_induct)
  case less
  have "x / 10 ^ i \<le> x" using assms(1) by (simp add: divide_le_eq)
  then have div: "c_div d (Fin x) (Fin (10 ^ i)) = Some (Fin (nearest d (x / 10 ^ i)))"
    using assms(1,2) by (simp add: round_real_below [where y = x] del: real_value.simps)
  note unf = find_divisor.simps [of d "Fin x" "Fin (10 ^ i)" e, unfolded div c_of_int_scaled c_less.simps bind.simps]
  show ?case
  proof (cases "of_int (max_scaled d) < nearest d (x / 10 ^ i)")
    case False
    then show ?thesis using less.prems div by (intro exI [of _ i]) (simp add: unf del: c_div.simps)
  next
    case True
    then have gt: "of_int (max_scaled d) < x / 10 ^ i"
      by (meson not_less nearest_le_representable representable_scaled_bounds(2))
    then have min: "of_int (min_scaled d) \<le> x / 10 ^ Suc i" by (simp add: max_scaled_eq field_simps)
    have "i \<noteq> 10" using gt assms(3) by (auto simp: pos_less_divide_eq)
    then have i: "i < 10" using less.prems by simp
    then have "10 - Suc i < 10 - i" "Suc i \<le> 10" by simp_all
    from less.hyps [OF this, of "e + 1"] obtain j where j: "Suc i \<le> j" "j \<le> 10"
      "find_divisor d (Fin x) (Fin (10 ^ Suc i)) (e + 1) = Some (Fin (10 ^ j), e + 1 + (int j - int (Suc i)))"
      "c_div d (Fin x) (Fin (10 ^ j)) = Some (Fin (nearest d (x / 10 ^ j)))"
      "nearest d (x / 10 ^ j) \<le> of_int (max_scaled d)" "j = Suc i \<or> of_int (min_scaled d) \<le> x / 10 ^ j"
      by blast
    have "find_divisor d (Fin x) (Fin (10 ^ i)) e = Some (Fin (10 ^ j), e + (int j - int i))"
      using True j(3) by (simp only: unf if_True c_mul_ten_power [OF i]) simp
    then show ?thesis using j min by (intro exI [of _ j]) auto
  qed
qed

section \<open>Numbers in between\<close>

lemma next_below_ten_power:
  assumes "n * 10 ^ i < (10::int) ^ s" and "0 < n"
  shows "(n + 1) * 10 ^ i \<le> 10 ^ s"
proof -
  have "1 * 10 ^ i \<le> n * (10::int) ^ i" using assms(2) by (intro mult_right_mono) simp_all
  then have "(10::int) ^ i < 10 ^ s" using assms(1) by linarith
  then have "i \<le> s" by simp
  then have s: "(10::int) ^ s = 10 ^ (s - i) * 10 ^ i" by (simp flip: power_add)
  then have "n < 10 ^ (s - i)" using assms(1) by simp
  then show ?thesis unfolding s by (intro mult_right_mono) simp_all
qed

lemma min_scaled_power: "min_scaled d = 10 ^ nat (sig_digits d - 1)"
  by (cases d) simp_all

lemma scale_int_ends:
  assumes "0 < n" and "n * 10 ^ i \<le> max_scaled d" and "i = 0 \<or> (n + 1) * 10 ^ i \<le> max_scaled d" and "i \<le> 9"
  shows "\<exists>j. i \<le> j \<and> j \<le> 9 \<and> scale_int d (n * 10 ^ i) (Fin (10 ^ i)) (- int i)
       = Some (n * 10 ^ j, Fin (10 ^ j), - int j)
     \<and> min_scaled d \<le> n * 10 ^ j \<and> n * 10 ^ j \<le> max_scaled d \<and> (j = 0 \<or> (n + 1) * 10 ^ j \<le> max_scaled d)"
  using assms(2-4)
proof (induction "10 - i" arbitrary: i rule: less_induct)
  case less
  note unf = scale_int.simps [of d "n * 10 ^ i" "Fin (10 ^ i)" "- int i"]
  show ?case
  proof (cases "n * 10 ^ i < min_scaled d")
    case False
    then show ?thesis using less.prems by (intro exI [of _ i]) (simp add: unf)
  next
    case True
    have "1 * 10 ^ i \<le> n * (10::int) ^ i" using assms(1) by (intro mult_right_mono) simp_all
    then have "(10::int) ^ i < 100000000" using True min_scaled_bounds(2) [of d] by linarith
    also have "100000000 = (10::int) ^ 8" by simp
    finally have i: "i < 8" by (rule power_less_imp_less_exp [rotated]) simp
    have "(n + 1) * 10 ^ i \<le> min_scaled d"
      using True assms(1) unfolding min_scaled_power by (rule next_below_ten_power)
    then have max: "(n + 1) * 10 ^ Suc i \<le> max_scaled d" by (simp add: max_scaled_eq)
    moreover have "n * 10 ^ Suc i \<le> (n + 1) * 10 ^ Suc i" by (intro mult_right_mono) simp_all
    ultimately have le: "n * 10 ^ Suc i \<le> max_scaled d" by linarith
    have "0 \<le> n * 10 ^ Suc i" using assms(1) by simp
    then have fits: "int32 (n * 10 ^ i * 10) = Some (n * 10 ^ Suc i)"
      using le min_scaled_bounds(2) [of d] by (simp add: int32_def max_scaled_eq)
    have "10 - Suc i < 10 - i" "Suc i = 0 \<or> (n + 1) * 10 ^ Suc i \<le> max_scaled d" "Suc i \<le> 9"
      using i max by simp_all
    from less.hyps [OF this(1) le this(2,3)] obtain j where j: "Suc i \<le> j" "j \<le> 9"
      "scale_int d (n * 10 ^ Suc i) (Fin (10 ^ Suc i)) (- int (Suc i)) = Some (n * 10 ^ j, Fin (10 ^ j), - int j)"
      "min_scaled d \<le> n * 10 ^ j" "n * 10 ^ j \<le> max_scaled d" "j = 0 \<or> (n + 1) * 10 ^ j \<le> max_scaled d"
      by blast
    have "c_mul d (Fin (10 ^ i)) (Fin 10) = Fin (10 ^ Suc i)" using i by (intro c_mul_ten_power) simp
    moreover have "- int i - 1 = - int (Suc i)" by simp
    ultimately have "scale_int d (n * 10 ^ i) (Fin (10 ^ i)) (- int i) = Some (n * 10 ^ j, Fin (10 ^ j), - int j)"
      using True j(3) by (simp only: unf if_True fits bind.simps)
    then show ?thesis using j by (intro exI [of _ j]) simp
  qed
qed

section \<open>The three cases\<close>

text \<open>The most roundings there are.\<close>

primrec max_roundings :: "real_type \<Rightarrow> nat" where
  "max_roundings C_float = 6"
| "max_roundings C_double = 34"

lemma rounded_mono:
  assumes "rounded f k x y" and "k \<le> l" and "0 \<le> x"
  shows "rounded f l x y"
proof -
  have "(1 + unit_error f) ^ k \<le> (1 + unit_error f) ^ l" using assms(2) by (intro power_increasing) simp_all
  then have "((1 + unit_error f) ^ k - 1) * x \<le> ((1 + unit_error f) ^ l - 1) * x"
    using assms(3) by (intro mult_right_mono) simp_all
  then show ?thesis using assms(1) by (simp add: rounded_def)
qed

lemma representable_expo:
  assumes "representable d x" and "0 < x"
  shows "min_exp d - int (precision d) + 1 \<le> expo x"
proof -
  obtain n k where x: "x = of_int n * pow2i k" and k: "min_exp d - int (precision d) + 1 \<le> k"
    using assms(1) by (auto simp: representable_def)
  have "0 < rat_of_int n" using assms(2) unfolding x by (rule zero_less_mult_pos2) (rule pow2i_pos)
  then have "1 \<le> rat_of_int n" by simp
  then have "1 * pow2i k \<le> x" unfolding x by (intro mult_right_mono) (simp_all add: less_imp_le)
  then have "expo (pow2i k) \<le> expo x" by (intro expo_mono) simp_all
  moreover have "expo (pow2i k) = k" by (rule expo_unique) simp_all
  ultimately show ?thesis using k by simp
qed

lemma expo_less_over:
  assumes "real_value d (Fin x)" and "0 < x"
  shows "expo x < over_exp d"
  using expo_bounds(1) [OF assms(2)] assms by (auto intro: order_le_less_trans simp flip: pow2i_less_iff)

text \<open>
  What the scaling gives: \<open>y + n\<close> is \<open>x * 10^(-e)\<close> up to the roundings, and between the bounds.
\<close>

definition scaled :: "real_type \<Rightarrow> rat \<Rightarrow> rat \<Rightarrow> int \<Rightarrow> int \<Rightarrow> bool" where
  "scaled d x y n e \<longleftrightarrow> representable d y \<and> 0 \<le> y \<and> 0 \<le> n
     \<and> of_int (min_scaled d) \<le> y + of_int n \<and> y + of_int n \<le> of_int (max_scaled d) \<and> \<bar>e\<bar> \<le> 400
     \<and> rounded d (max_roundings d) (x * 10 powi (- e)) (y + of_int n)"

lemma scale_small:
  assumes "real_value d (Fin x)" and "0 < x" and "x < 1"
  shows "\<exists>y n e. scale_number d (Fin x) = Some (Fin y, n, e) \<and> scaled d x y n e"
proof -
  have rep: "representable d x" using assms(1) by simp
  note e0 = representable_expo [OF rep assms(2)]
  obtain y k where up: "scale_up d (Fin x) 0 = Some (Fin y, - (10 * int k))" "representable d y"
    "rounded d k (x * 10 ^ (10 * k)) y" "limit d \<le> y" "k = 0 \<and> y = x \<or> y \<le> of_int (max_scaled d)"
    "k = 0 \<or> 33 * (int k - 1) + expo x \<le> - 3"
    using scale_up_ends [OF rep assms(2) e0, of 0] by auto
  have k: "k < max_roundings d" using up(6) e0 by (cases d) auto
  have y_le: "y \<le> of_int (max_scaled d)" using up(5) assms(3) one_le_min_scaled [of d] by (auto simp: max_scaled_eq)
  have y_ge: "pow2i (- 10) \<le> y" using limit_bounds(1) [of d] up(4) by linarith
  have y0: "0 < y" using y_ge pow2i_pos [of "- 10"] by linarith
  have "limit d * 10 ^ 10 \<le> y * 10 ^ 10" using up(4) by (intro mult_right_mono) simp_all
  with limit_lower have lo: "of_int (min_scaled d) \<le> y * 10 ^ 10" by (rule order_trans)
  have "y \<le> 1000000000" using y_le by (cases d) simp_all
  then have "y * 10 ^ 10 \<le> 1000000000 * 10 ^ 10" by (intro mult_right_mono) simp_all
  then have hi: "y * 10 ^ 10 \<le> 2 ^ 127" by simp
  obtain j where j: "j \<le> 10" "find_factor d (Fin y) (Fin (10 ^ 0)) (- (10 * int k)) = Some (Fin (10 ^ j), - (10 * int k) - (int j - int 0))"
    "of_int (min_scaled d) \<le> nearest d (y * 10 ^ j)" "j = 0 \<or> y * 10 ^ j \<le> of_int (max_scaled d)"
    using find_factor_ends [OF y0 lo _ hi, of 0 "- (10 * int k)"] by blast
  let ?y = "nearest d (y * 10 ^ j)"
  have le: "y * 10 ^ j \<le> of_int (max_scaled d)" using j(4) y_le by auto
  have "of_int (max_scaled d) \<le> (2::rat) ^ 127" by (cases d) simp_all
  then have mul: "c_mul d (Fin y) (Fin (10 ^ j)) = Fin ?y"
    using le y0 by (simp add: round_real_fin)
  have "rounded d 1 (y * of_int (10 ^ j)) (nearest d (y * of_int (10 ^ j)))"
    using up(2) y0 by (intro rounded_times_int) simp_all
  then have "rounded d 1 (y * 10 ^ j) ?y" by simp
  with rounded_scale [OF up(3), of "10 ^ j"]
  have "rounded d (k + 1) (x * 10 ^ (10 * k) * 10 ^ j) ?y" by (intro rounded_trans [of d k _ "y * 10 ^ j"]) simp_all
  then have "rounded d (max_roundings d) (x * 10 ^ (10 * k) * 10 ^ j) ?y"
    by (rule rounded_mono) (use k assms(2) in simp_all)
  also have "x * 10 ^ (10 * k) * 10 ^ j = x * 10 powi int (10 * k + j)"
    by (simp only: power_int_of_nat) (simp add: power_add)
  also have "int (10 * k + j) = - (- (10 * int k) - int j)" by simp
  finally have r: "rounded d (max_roundings d) (x * 10 powi (- (- (10 * int k) - int j))) ?y" .
  have "scale_number d (Fin x) = Some (Fin ?y, 0, - (10 * int k) - int j)"
    using assms(3) j(2) by (simp add: scale_number_def up(1) mul del: c_mul.simps)
  moreover have "?y \<le> of_int (max_scaled d)" using le by (rule nearest_le_representable) simp
  moreover have "0 \<le> ?y" using y0 by (intro nearest_nonneg) simp
  moreover have "\<bar>- (10 * int k) - int j\<bar> \<le> 400" using k j(1) by (cases d) simp_all
  ultimately show ?thesis
    using r j(3) by (auto simp: scaled_def nearest_is_representable)
qed

lemma scale_large:
  assumes "real_value d (Fin x)" and "of_int (max_scaled d) < x"
  shows "\<exists>y n e. scale_number d (Fin x) = Some (Fin y, n, e) \<and> scaled d x y n e"
proof -
  have "of_int (min_scaled d) \<le> x" and x1: "1 \<le> x"
    using assms(2) one_le_min_scaled [of d] by (simp_all add: max_scaled_eq)
  then obtain y k where down: "scale_down d (Fin x) 0 = Some (Fin y, 10 * int k)" "real_value d (Fin y)"
    "rounded d k (x / 10 ^ (10 * k)) y" "of_int (min_scaled d) \<le> y" "y \<le> upper d"
    "k = 0 \<or> 32 * (int k - 1) + 50 \<le> expo x"
    using scale_down_ends [OF assms(1), of 0] by auto
  have "expo x < over_exp d" using expo_less_over [OF assms(1)] x1 by simp
  then have k: "k < max_roundings d" "k \<le> 32" using down(6) by (cases d; auto)+
  have y1: "1 \<le> y" using down(4) one_le_min_scaled [of d] by linarith
  have "y \<le> of_int (max_scaled d) * 10 ^ 10" using down(5) upper_bounds(2) [of d] by simp
  from find_divisor_ends [OF y1 down(2) this, of 0 "10 * int k"]
  obtain j where j: "j \<le> 10" "find_divisor d (Fin y) (Fin (10 ^ 0)) (10 * int k) = Some (Fin (10 ^ j), 10 * int k + (int j - int 0))"
    "c_div d (Fin y) (Fin (10 ^ j)) = Some (Fin (nearest d (y / 10 ^ j)))"
    "nearest d (y / 10 ^ j) \<le> of_int (max_scaled d)" "j = 0 \<or> of_int (min_scaled d) \<le> y / 10 ^ j"
    by blast
  let ?y = "nearest d (y / 10 ^ j)"
  have ge: "of_int (min_scaled d) \<le> y / 10 ^ j" using j(5) down(4) by auto
  have "pow2i (min_exp d) \<le> pow2i 0" unfolding pow2i_le_iff using min_exp_le [of d] by simp
  then have "pow2i (min_exp d) \<le> y / 10 ^ j" using ge one_le_min_scaled [of d] by simp
  then have "rounded d 1 (y / 10 ^ j) ?y" by (rule rounded_1)
  with rounded_scale [OF down(3), of "1 / 10 ^ j"]
  have "rounded d (k + 1) (x / 10 ^ (10 * k) / 10 ^ j) ?y" by (intro rounded_trans [of d k _ "y / 10 ^ j"]) simp_all
  then have "rounded d (max_roundings d) (x / 10 ^ (10 * k) / 10 ^ j) ?y"
    by (rule rounded_mono) (use k(1) x1 in simp_all)
  also have "x / 10 ^ (10 * k) / 10 ^ j = x * 10 powi (- int (10 * k + j))"
    by (simp only: power_int_minus power_int_of_nat) (simp add: power_add divide_inverse)
  also have "int (10 * k + j) = 10 * int k + int j" by simp
  finally have r: "rounded d (max_roundings d) (x * 10 powi (- (10 * int k + int j))) ?y" .
  have "scale_number d (Fin x) = Some (Fin ?y, 0, 10 * int k + int j)"
    using assms(2) x1 j(2,3) by (simp add: scale_number_def down(1) del: c_div.simps)
  moreover have "of_int (min_scaled d) \<le> ?y" using ge by (rule representable_le_nearest) simp
  moreover have "0 \<le> ?y" using y1 by (intro nearest_nonneg) simp
  moreover have "\<bar>10 * int k + int j\<bar> \<le> 400" using k(2) j(1) by simp
  ultimately show ?thesis
    using r j(4) by (auto simp: scaled_def nearest_is_representable)
qed

text \<open>The part behind the point is representable.\<close>

lemma representable_frac:
  assumes "representable d x" and "1 \<le> x"
  shows "representable d (x - of_int \<lfloor>x\<rfloor>)"
proof -
  obtain n k where x: "x = of_int n * pow2i k" and n: "\<bar>n\<bar> < 2 ^ precision d"
    and k: "min_exp d - int (precision d) + 1 \<le> k"
    using assms(1) by (auto simp: representable_def)
  show ?thesis
  proof (cases "0 \<le> k")
    case True
    then have "x = of_int (n * 2 ^ nat k)" by (simp add: x pow2i_nat)
    then have "x - of_int \<lfloor>x\<rfloor> = 0" by (metis floor_of_int diff_self)
    then show ?thesis by simp
  next
    case False
    let ?m = "n - \<lfloor>x\<rfloor> * 2 ^ nat (- k)"
    have "pow2i (- k) * pow2i k = 1" by (simp flip: pow2i_add)
    then have "of_int (2 ^ nat (- k)) * pow2i k = 1" using False by (simp only: pow2i_nat not_le less_imp_le neg_0_le_iff_le)
    then have eq: "x - of_int \<lfloor>x\<rfloor> = of_int ?m * pow2i k" by (simp add: x algebra_simps)
    have "0 \<le> of_int ?m * pow2i k" unfolding eq [symmetric] by simp
    then have "0 \<le> rat_of_int ?m" by (simp only: zero_le_mult_iff) (use pow2i_pos [of k] in linarith)
    then have "0 \<le> ?m" by (simp only: of_int_0_le_iff)
    moreover have "?m \<le> n" using assms(2) by simp
    ultimately have "\<bar>?m\<bar> \<le> 2 ^ precision d" using n by linarith
    then show ?thesis unfolding eq using k by (rule representable_scaled)
  qed
qed

lemma scale_medium:
  assumes "real_value d (Fin x)" and "1 \<le> x" and "x \<le> of_int (max_scaled d)"
  obtains j where "scale_number d (Fin x)
      = Some (Fin (nearest d ((x - of_int \<lfloor>x\<rfloor>) * 10 ^ j)), \<lfloor>x\<rfloor> * 10 ^ j, - int j)"
    and "j \<le> 9" and "min_scaled d \<le> \<lfloor>x\<rfloor> * 10 ^ j" and "\<lfloor>x\<rfloor> * 10 ^ j \<le> max_scaled d"
    and "j = 0 \<or> (\<lfloor>x\<rfloor> + 1) * 10 ^ j \<le> max_scaled d"
proof -
  have n: "0 < \<lfloor>x\<rfloor>" "\<lfloor>x\<rfloor> \<le> max_scaled d" using assms(2,3) by (simp_all add: floor_le_iff)
  obtain j where j: "j \<le> 9" "scale_int d (\<lfloor>x\<rfloor> * 10 ^ 0) (Fin (10 ^ 0)) (- int 0) = Some (\<lfloor>x\<rfloor> * 10 ^ j, Fin (10 ^ j), - int j)"
    "min_scaled d \<le> \<lfloor>x\<rfloor> * 10 ^ j" "\<lfloor>x\<rfloor> * 10 ^ j \<le> max_scaled d" "j = 0 \<or> (\<lfloor>x\<rfloor> + 1) * 10 ^ j \<le> max_scaled d"
    using scale_int_ends [OF n(1), of 0 d] n(2) by auto
  have trunc: "c_to_int32 (Fin x) = Some \<lfloor>x\<rfloor>"
    using n min_scaled_bounds(2) [of d] assms(2)
    by (simp add: truncate_rat_def int32_def max_scaled_eq flip: floor_less_iff) linarith
  have of_int: "c_of_int d \<lfloor>x\<rfloor> = Fin (of_int \<lfloor>x\<rfloor>)" using n by (intro c_of_int_small) (simp add: max_scaled_eq)
  let ?f = "x - of_int \<lfloor>x\<rfloor>"
  have f: "0 \<le> ?f" "?f < 1" by (simp, linarith)
  have "representable d ?f" using assms(1,2) by (intro representable_frac) simp_all
  moreover have "\<bar>?f\<bar> \<le> 2 ^ 127" using f by simp
  ultimately have sub: "c_sub d (Fin x) (Fin (of_int \<lfloor>x\<rfloor>)) = Fin ?f"
    by (simp add: c_sub_def round_real_fin nearest_representable)
  have "?f * 10 ^ j \<le> 1 * 10 ^ 10" using f j(1) by (intro mult_mono power_increasing) simp_all
  then have "\<bar>?f * 10 ^ j\<bar> \<le> 2 ^ 127" using f(1) by simp
  then have mul: "c_mul d (Fin ?f) (Fin (10 ^ j)) = Fin (nearest d (?f * 10 ^ j))"
    by (simp add: round_real_fin)
  have "scale_number d (Fin x) = Some (Fin (nearest d (?f * 10 ^ j)), \<lfloor>x\<rfloor> * 10 ^ j, - int j)"
    using assms(2,3) j(2) by (simp add: scale_number_def trunc of_int sub mul del: c_mul.simps c_to_int32.simps)
  then show ?thesis using j that by blast
qed

lemma scale_number_scaled:
  assumes "real_value d (Fin x)" and "0 < x"
  shows "\<exists>y n e. scale_number d (Fin x) = Some (Fin y, n, e) \<and> scaled d x y n e"
proof -
  consider "x < 1" | "of_int (max_scaled d) < x" | "1 \<le> x" "x \<le> of_int (max_scaled d)" by linarith
  then show ?thesis
  proof cases
    case 3
    note assms(1) 3
    then obtain j where j: "scale_number d (Fin x)
        = Some (Fin (nearest d ((x - of_int \<lfloor>x\<rfloor>) * 10 ^ j)), \<lfloor>x\<rfloor> * 10 ^ j, - int j)"
      "j \<le> 9" "min_scaled d \<le> \<lfloor>x\<rfloor> * 10 ^ j" "\<lfloor>x\<rfloor> * 10 ^ j \<le> max_scaled d"
      "j = 0 \<or> (\<lfloor>x\<rfloor> + 1) * 10 ^ j \<le> max_scaled d"
      by (rule scale_medium)
    let ?f = "x - of_int \<lfloor>x\<rfloor>" and ?n = "\<lfloor>x\<rfloor> * 10 ^ j"
    let ?y = "nearest d (?f * 10 ^ j)"
    have f: "0 \<le> ?f" "?f < 1" by (simp, linarith)
    have rep: "representable d ?f" using assms(1) 3(1) by (intro representable_frac) simp_all
    have y: "0 \<le> ?y" using f(1) by (intro nearest_nonneg) simp
    have y_le: "?y + of_int ?n \<le> of_int (max_scaled d)"
    proof (cases "j = 0")
      case True
      then show ?thesis using 3(2) rep by (simp add: nearest_representable)
    next
      case False
      have "representable d (10 ^ j)" using j(2) by (intro representable_ten_power) simp
      then have "?y \<le> 10 ^ j" using f by (intro nearest_le_representable) (simp_all add: mult_left_le_one_le)
      moreover have "of_int ((\<lfloor>x\<rfloor> + 1) * 10 ^ j) \<le> rat_of_int (max_scaled d)"
        using j(5) False by (simp only: of_int_le_iff) simp
      ultimately show ?thesis by (simp add: algebra_simps)
    qed
    have err: "\<bar>?y - ?f * 10 ^ j\<bar> \<le> unit_error d * (?f * 10 ^ j)"
    proof (cases "?f = 0")
      case False
      then have "0 < ?f" using f(1) by linarith
      then have "rounded d 1 (?f * of_int (10 ^ j)) (nearest d (?f * of_int (10 ^ j)))"
        using rep by (intro rounded_times_int) simp_all
      then show ?thesis by (simp add: rounded_def)
    qed simp
    have "?f * 10 ^ j \<le> x * 10 ^ j" using 3(1) by (intro mult_right_mono) simp_all
    then have "unit_error d * (?f * 10 ^ j) \<le> unit_error d * (x * 10 ^ j)" by (intro mult_left_mono) simp_all
    with err have "\<bar>?y - ?f * 10 ^ j\<bar> \<le> unit_error d * (x * 10 ^ j)" by linarith
    moreover have "?y + of_int ?n - x * 10 ^ j = ?y - ?f * 10 ^ j" by (simp add: algebra_simps)
    ultimately have "rounded d 1 (x * 10 ^ j) (?y + of_int ?n)" by (simp only: rounded_def) simp
    then have "rounded d (max_roundings d) (x * 10 ^ j) (?y + of_int ?n)"
      by (rule rounded_mono) (use assms(2) in \<open>cases d; simp\<close>)+
    then have r: "rounded d (max_roundings d) (x * 10 powi (- (- int j))) (?y + of_int ?n)" by simp
    have "rat_of_int (min_scaled d) \<le> of_int ?n" using j(3) by (simp only: of_int_le_iff)
    then have "rat_of_int (min_scaled d) \<le> ?y + of_int ?n" using y by linarith
    moreover have "0 \<le> ?n" using 3(1) by simp
    ultimately have "scaled d x ?y ?n (- int j)"
      unfolding scaled_def using y y_le r j(2) nearest_is_representable by simp
    then show ?thesis using j(1) by blast
  qed (use assms in \<open>auto intro: scale_small scale_large\<close>)
qed

section \<open>Rounding to an integer\<close>

lemma representable_double:
  assumes "representable d y"
  shows "representable d (y + y)"
proof -
  obtain n k where y: "y = of_int n * pow2i k" and n: "\<bar>n\<bar> < 2 ^ precision d"
    and k: "min_exp d - int (precision d) + 1 \<le> k"
    using assms by (auto simp: representable_def)
  have "y + y = of_int n * pow2i (k + 1)" by (simp add: y pow2i_Suc)
  then show ?thesis using n k representable_scaled [of n d "k + 1"] by simp
qed

text \<open>The distance to the nearest integer is exact.\<close>

lemma representable_distance:
  assumes "representable d y" and "1 / 2 \<le> y" and "\<bar>of_int n - y\<bar> \<le> 1 / 2"
  shows "representable d (of_int n - y)"
proof -
  obtain m k where y: "y = of_int m * pow2i k" and m: "\<bar>m\<bar> < 2 ^ precision d"
    and k: "min_exp d - int (precision d) + 1 \<le> k"
    using assms(1) by (auto simp: representable_def)
  show ?thesis
  proof (cases "0 \<le> k")
    case True
    then have "y = of_int (m * 2 ^ nat k)" by (simp add: y pow2i_nat)
    then have int: "of_int n - y = of_int (n - m * 2 ^ nat k)" by simp
    then have "\<bar>n - m * 2 ^ nat k\<bar> < 1" using assms(3) by (simp flip: of_int_less_iff [where 'a = rat])
    then have "of_int n - y = 0" using int by simp
    then show ?thesis by simp
  next
    case False
    let ?l = "n * 2 ^ nat (- k) - m"
    have "pow2i (- k) * pow2i k = 1" by (simp flip: pow2i_add)
    then have one: "of_int (2 ^ nat (- k)) * pow2i k = 1" using False by (simp only: pow2i_nat not_le less_imp_le neg_0_le_iff_le)
    then have eq: "of_int n - y = of_int ?l * pow2i k" by (simp add: y algebra_simps)
    have "\<bar>of_int ?l\<bar> * pow2i k \<le> 1 / 2"
      using assms(3) unfolding eq by (simp only: abs_mult abs_of_pos [OF pow2i_pos])
    also have "\<dots> \<le> of_int m * pow2i k" using assms(2) by (simp add: y)
    finally have "\<bar>of_int ?l\<bar> \<le> rat_of_int m" by (simp only: mult_le_cancel_right_pos pow2i_pos)
    then have "\<bar>?l\<bar> \<le> m" by (simp only: of_int_abs [symmetric] of_int_le_iff)
    then have "\<bar>?l\<bar> \<le> 2 ^ precision d" using m by linarith
    then show ?thesis unfolding eq using k by (rule representable_scaled)
  qed
qed

lemma half_up:
  fixes y :: rat
  shows "(\<lfloor>y + y\<rfloor> + 1) div 2 = \<lfloor>y + 1 / 2\<rfloor>"
proof -
  let ?n = "\<lfloor>y + 1 / 2\<rfloor>"
  have "of_int ?n \<le> y + 1 / 2" "y + 1 / 2 < of_int ?n + 1" by linarith+
  then have "of_int (2 * ?n - 1) \<le> y + y" "y + y < of_int (2 * ?n + 1)"
    unfolding of_int_diff of_int_add of_int_mult of_int_numeral of_int_1 by linarith+
  then have "2 * ?n - 1 \<le> \<lfloor>y + y\<rfloor>" "\<lfloor>y + y\<rfloor> < 2 * ?n + 1" by (simp_all only: le_floor_iff floor_less_iff)
  then show ?thesis by linarith
qed

lemma round_scaled_even:
  assumes "representable d y" and "0 \<le> y" and "y \<le> of_int (max_scaled d)"
  shows "round_scaled d (Fin y) = Some (round_even y)"
proof -
  let ?n = "\<lfloor>y + 1 / 2\<rfloor>"
  have max: "of_int (max_scaled d) \<le> (1000000000 :: rat)" by (cases d) simp_all
  then have "\<bar>y + y\<bar> \<le> 2 ^ 127" using assms(2,3) by simp
  then have add: "c_add d (Fin y) (Fin y) = Fin (y + y)"
    unfolding c_add.simps by (subst round_real_fin) (simp_all only: nearest_representable [OF representable_double [OF assms(1)]])
  have "0 \<le> \<lfloor>y + y\<rfloor>" using assms(2) by simp
  moreover have "y + y < of_int 2000000001" using assms(3) max by simp
  then have "\<lfloor>y + y\<rfloor> < 2000000001" by (simp only: floor_less_iff)
  ultimately have t: "c_to_int32 (Fin (y + y)) = Some \<lfloor>y + y\<rfloor>" "int32 (\<lfloor>y + y\<rfloor> + 1) = Some (\<lfloor>y + y\<rfloor> + 1)"
    using assms(2) by (simp_all add: truncate_rat_def int32_def)
  have n: "0 \<le> ?n" "of_int ?n \<le> y + 1 / 2" "y + 1 / 2 < of_int ?n + 1" using assms(2) by (simp, linarith+)
  then have dist: "\<bar>of_int ?n - y\<bar> \<le> 1 / 2" by linarith
  have "y + 1 / 2 < of_int (max_scaled d + 1)" using assms(3) by simp
  then have "?n < max_scaled d + 1" by (simp only: floor_less_iff)
  then have of_n: "c_of_int d ?n = Fin (of_int ?n)" using n(1) by (intro c_of_int_small) (simp add: max_scaled_eq)
  have sub: "c_sub d (Fin (of_int ?n)) (Fin y) = Fin (of_int ?n - y)" if "odd ?n"
  proof -
    have "?n \<noteq> 0" using that by auto
    then have "1 \<le> ?n" using n(1) by linarith
    then have "1 \<le> rat_of_int ?n" by (simp only: of_int_1_le_iff)
    then have "1 / 2 \<le> y" using n(2) by linarith
    then have "representable d (of_int ?n - y)" using assms(1) dist by (intro representable_distance) simp_all
    moreover have "\<bar>of_int ?n - y\<bar> \<le> 2 ^ 127" using dist by simp
    ultimately show ?thesis by (simp only: c_sub_def c_neg.simps c_add.simps diff_conv_add_uminus [symmetric]
          round_real_fin nearest_representable)
  qed
  have "round_scaled d (Fin y) = Some (if odd ?n \<and> of_int ?n - y = 1 / 2 then ?n - 1 else ?n)"
    unfolding round_scaled_def add t bind.simps half_up Let_def of_n
    by (cases "odd ?n") (simp_all only: sub c_eq.simps c_real.inject simp_thms if_False)
  also have "(if odd ?n \<and> of_int ?n - y = 1 / 2 then ?n - 1 else ?n) = round_even y"
  proof (cases "of_int ?n - y = 1 / 2")
    case True
    then have y: "\<lfloor>y\<rfloor> = ?n - 1" by linarith
    have "y - of_int \<lfloor>y\<rfloor> = 1 / 2" unfolding y using True by simp
    then show ?thesis using True y by (simp add: round_even_def Let_def)
  next
    case False
    then have "\<bar>y - of_int ?n\<bar> < 1 / 2" using n(2,3) by linarith
    then show ?thesis using False by (simp add: round_even_unique)
  qed
  finally show ?thesis .
qed

section \<open>The digits and the exponent that are printed\<close>

text \<open>
  \<open>n * 10^e\<close> is the number, up to a unit in the last of the significant digits.
\<close>

definition digits_of :: "real_type \<Rightarrow> rat \<Rightarrow> int \<Rightarrow> int \<Rightarrow> bool" where
  "digits_of d x n e \<longleftrightarrow> min_scaled d \<le> n \<and> n < max_scaled d \<and> \<bar>e\<bar> \<le> 401
     \<and> \<bar>of_int n * 10 powi e - x\<bar> \<le> x / of_int (min_scaled d)"

lemma rounding_budget:
  "((1 + unit_error d) ^ max_roundings d - 1) * (of_int (min_scaled d) + 1 / 2) \<le> 1 / 2"
  by (cases d) (simp_all add: unit_error_def power_int_minus power_divide)

lemma scaled_digits:
  assumes "scaled d x y n e" and "0 < x"
  shows "min_scaled d \<le> round_even y + n" and "round_even y + n \<le> max_scaled d"
    and "\<bar>of_int (round_even y + n) * 10 powi e - x\<bar> \<le> x / of_int (min_scaled d)"
proof -
  let ?N = "round_even y + n" and ?m = "rat_of_int (min_scaled d)"
  have "of_int (min_scaled d - n) \<le> y" "y \<le> of_int (max_scaled d - n)" using assms(1) by (simp_all add: scaled_def)
  then have "min_scaled d - n \<le> round_even y" "round_even y \<le> max_scaled d - n"
    using round_even_mono round_even_int by metis+
  then show "min_scaled d \<le> ?N" "?N \<le> max_scaled d" by simp_all
  define X where "X = x * 10 powi (- e)"
  define eps where "eps = (1 + unit_error d) ^ max_roundings d - 1"
  have X: "0 < X" using assms(2) by (simp add: X_def zero_less_power_int)
  have r: "\<bar>y + of_int n - X\<bar> \<le> eps * X" using assms(1) by (simp add: scaled_def rounded_def X_def eps_def)
  have m: "1 \<le> ?m" by (rule one_le_min_scaled)
  have "?m \<le> y + of_int n" using assms(1) by (simp add: scaled_def)
  then have "?m \<le> (1 + eps) * X" using r by (simp add: algebra_simps)
  then have half: "1 / 2 \<le> (1 + eps) * X / (2 * ?m)" using m by (simp add: field_simps)
  have "\<bar>of_int ?N - X\<bar> \<le> 1 / 2 + eps * X" using r round_even_error [of y] unfolding of_int_add by linarith
  also have "\<dots> \<le> (1 + eps) * X / (2 * ?m) + eps * X" using half by simp
  also have "\<dots> = (1 / 2 + eps * (?m + 1 / 2)) * X / ?m" using m by (simp add: field_simps)
  also have "\<dots> \<le> 1 * X / ?m"
    using rounding_budget [of d] m X by (intro divide_right_mono mult_right_mono) (simp_all add: eps_def)
  finally have "\<bar>of_int ?N - X\<bar> * 10 powi e \<le> X / ?m * 10 powi e" by (intro mult_right_mono) simp_all
  moreover have "X * 10 powi e = x" by (simp add: X_def power_int_minus)
  ultimately have "\<bar>(of_int ?N - X) * 10 powi e\<bar> \<le> x / ?m" by (simp add: abs_mult)
  then show "\<bar>of_int ?N * 10 powi e - x\<bar> \<le> x / ?m"
    using \<open>X * 10 powi e = x\<close> by (simp only: left_diff_distrib)
qed

text \<open>What \<open>UnityPrintFloat\<close> does with a positive number, up to the printing of the digits.\<close>

lemma print_float_positive:
  assumes "real_value d (Fin x)" and "0 < x"
  shows "\<exists>n e. digits_of d x n e \<and> (\<forall>u. UnityPrintFloat d (Fin x) u = print_scaled d n e u)
     \<and> (\<forall>u. UnityPrintFloat d (Fin (- x)) u = print_scaled d n e (UNITY_OUTPUT_CHAR (CHR ''-'') u))"
proof -
  obtain y n e where sc: "scale_number d (Fin x) = Some (Fin y, n, e)" "scaled d x y n e"
    using scale_number_scaled [OF assms] by blast
  let ?N = "round_even y + n"
  note digits = scaled_digits [OF sc(2) assms(2)]
  have "y \<le> of_int (max_scaled d)" using sc(2) by (simp add: scaled_def)
  then have round: "round_scaled d (Fin y) = Some (round_even y)"
    using sc(2) by (intro round_scaled_even) (simp_all add: scaled_def)
  have N: "int32 ?N = Some ?N"
    using digits(1,2) min_scaled_bounds [of d] by (simp add: int32_def max_scaled_eq)
  define N' where "N' = (if ?N \<ge> max_scaled d then min_scaled d else ?N)"
  define e' where "e' = (if ?N \<ge> max_scaled d then e + 1 else e)"
  have "of_int N' * 10 powi e' = (of_int ?N * 10 powi e :: rat)"
    using digits(2) by (auto simp: N'_def e'_def max_scaled_eq power_int_add)
  then have "digits_of d x N' e'"
    using digits sc(2) min_scaled_bounds [of d] by (auto simp: digits_of_def N'_def e'_def max_scaled_eq scaled_def)
  moreover have "\<forall>u. UnityPrintFloat d (Fin x) u = print_scaled d N' e' u"
    using assms(2) by (simp add: UnityPrintFloat_def sc(1) round N N'_def e'_def)
  moreover have "\<forall>u. UnityPrintFloat d (Fin (- x)) u = print_scaled d N' e' (UNITY_OUTPUT_CHAR (CHR ''-'') u)"
    using assms(2) by (simp add: UnityPrintFloat_def sc(1) round N N'_def e'_def)
  ultimately show ?thesis by blast
qed

text \<open>A whole number is split off exactly.\<close>

lemma print_float_whole:
  assumes "0 < n" and "n < max_scaled d"
  shows "\<exists>j. j \<le> 9 \<and> n * 10 ^ j < max_scaled d \<and> UnityPrintFloat d (Fin (of_int n)) u = print_scaled d (n * 10 ^ j) (- int j) u
     \<and> UnityPrintFloat d (Fin (- of_int n)) u = print_scaled d (n * 10 ^ j) (- int j) (UNITY_OUTPUT_CHAR (CHR ''-'') u)"
proof -
  have val: "real_value d (Fin (of_int n))"
    using assms by (intro real_value_int fits_precision) (simp add: max_scaled_eq)
  have "1 \<le> rat_of_int n" "rat_of_int n \<le> of_int (max_scaled d)" using assms by simp_all
  with val obtain j where j: "scale_number d (Fin (of_int n)) = Some (Fin 0, n * 10 ^ j, - int j)"
    "j \<le> 9" "n * 10 ^ j \<le> max_scaled d" "j = 0 \<or> (n + 1) * 10 ^ j \<le> max_scaled d"
    by (rule scale_medium) simp
  have less: "n * 10 ^ j < max_scaled d"
  proof (cases "j = 0")
    case False
    have "n * 10 ^ j < (n + 1) * 10 ^ j" by (intro mult_strict_right_mono) simp_all
    then show ?thesis using j(4) False by linarith
  qed (use assms in simp)
  have "round_even 0 = 0" using round_even_int [of 0] by simp
  then have round: "round_scaled d (Fin 0) = Some 0"
    using one_le_min_scaled [of d] by (subst round_scaled_even) (simp_all add: max_scaled_eq)
  have "0 \<le> n * 10 ^ j" using assms(1) by simp
  then have N: "int32 (n * 10 ^ j) = Some (n * 10 ^ j)"
    using j(3) min_scaled_bounds [of d] by (simp add: int32_def max_scaled_eq)
  have "UnityPrintFloat d (Fin (of_int n)) u = print_scaled d (n * 10 ^ j) (- int j) u"
    using assms(1) less by (simp add: UnityPrintFloat_def j(1) round N)
  moreover have "UnityPrintFloat d (Fin (- of_int n)) u = print_scaled d (n * 10 ^ j) (- int j) (UNITY_OUTPUT_CHAR (CHR ''-'') u)"
    using assms(1) less by (simp add: UnityPrintFloat_def j(1) round N)
  ultimately show ?thesis using j(2) less by blast
qed

end
