(* ===== verification/Unity_Output_Correct.thy ===== *)
theory Unity_Output_Correct
  imports Unity_Output
begin

text \<open>
  What the printing functions of \<open>Unity_Output\<close> print: each appends a text to the output and
  changes no other field.  The texts are reference definitions on numbers (\<open>show_nat\<close>,
  \<open>show_int\<close>, \<open>hex_digits\<close>, \<open>mask_text\<close>) and strings (\<open>esc_char\<close>), with the functions that
  read them back.
\<close>

section \<open>Appending to the output\<close>

definition emit :: "string \<Rightarrow> unity \<Rightarrow> unity" where
  "emit s u = u\<lparr>outchars := outchars u @ s\<rparr>"

named_theorems emits \<open>what a printing function appends to the output\<close>

lemma emit_Nil [simp]: "emit [] u = u"
  by (simp add: emit_def)

lemma emit_emit [simp]: "emit t (emit s u) = emit (s @ t) u"
  by (simp add: emit_def)

lemma emit_fields [simp]:
  "TestFile (emit s u) = TestFile u"
  "CurrentTestName (emit s u) = CurrentTestName u"
  "CurrentDetail1 (emit s u) = CurrentDetail1 u"
  "CurrentDetail2 (emit s u) = CurrentDetail2 u"
  "CurrentTestLineNumber (emit s u) = CurrentTestLineNumber u"
  "NumberOfTests (emit s u) = NumberOfTests u"
  "TestFailures (emit s u) = TestFailures u"
  "TestIgnores (emit s u) = TestIgnores u"
  "CurrentTestFailed (emit s u) = CurrentTestFailed u"
  "CurrentTestIgnored (emit s u) = CurrentTestIgnored u"
  "outchars (emit s u) = outchars u @ s"
  by (simp_all add: emit_def)

lemma emit_if: "(if b then emit s u else emit t u) = emit (if b then s else t) u"
  by simp

lemma emit_char [emits]: "UNITY_OUTPUT_CHAR c u = emit [c] u"
  by (simp add: UNITY_OUTPUT_CHAR_def emit_def)

lemma emit_eol [emits]: "UNITY_PRINT_EOL u = emit [CHR 0x0A] u"
  by (simp add: UNITY_PRINT_EOL_def emits)

section \<open>Decimal numbers\<close>

definition dec_digit :: "nat \<Rightarrow> char" where
  "dec_digit d = char_of (48 + d)"

fun show_nat :: "nat \<Rightarrow> string" where
  "show_nat n = (if n < 10 then [dec_digit n] else show_nat (n div 10) @ [dec_digit (n mod 10)])"

declare show_nat.simps [simp del]

definition show_int :: "int \<Rightarrow> string" where
  "show_int i = (if i < 0 then CHR ''-'' # show_nat (nat (- i)) else show_nat (nat i))"

definition read_nat :: "string \<Rightarrow> nat" where
  "read_nat s = foldl (\<lambda>v c. v * 10 + (of_char c - 48)) 0 s"

definition read_int :: "string \<Rightarrow> int" where
  "read_int s = (case s of c # t \<Rightarrow> if c = CHR ''-'' then - int (read_nat t) else int (read_nat s)
                         | [] \<Rightarrow> 0)"

lemma of_char_dec_digit [simp]: "d < 10 \<Longrightarrow> of_char (dec_digit d) = 48 + d"
  by (simp add: dec_digit_def)

lemma read_nat_snoc [simp]: "read_nat (s @ [c]) = read_nat s * 10 + (of_char c - 48)"
  by (simp add: read_nat_def)

lemma read_show_nat [simp]: "read_nat (show_nat n) = n"
proof (induction n rule: show_nat.induct)
  case (1 n)
  then show ?case
    by (subst show_nat.simps) (auto simp: read_nat_def)
qed

lemma show_nat_digits: "c \<in> set (show_nat n) \<Longrightarrow> of_char c \<in> {48 ..< (58 :: nat)}"
proof (induction n arbitrary: c rule: show_nat.induct)
  case (1 n)
  from "1.prems" show ?case
    by (subst (asm) show_nat.simps) (use "1.IH" in \<open>auto split: if_splits\<close>)
qed

lemma show_nat_not_Nil [simp]: "show_nat n \<noteq> []"
  by (subst show_nat.simps) simp

lemma hd_show_nat: "hd (show_nat n) \<noteq> CHR ''-''"
proof
  assume "hd (show_nat n) = CHR ''-''"
  then have "CHR ''-'' \<in> set (show_nat n)"
    by (metis hd_in_set show_nat_not_Nil)
  from show_nat_digits [OF this] show False by simp
qed

lemma no_leading_zero: "0 < n \<Longrightarrow> hd (show_nat n) \<noteq> CHR ''0''"
proof (induction n rule: show_nat.induct)
  case (1 n)
  show ?case
  proof (cases "n < 10")
    case True
    then have "show_nat n = [dec_digit n]"
      by (subst show_nat.simps) simp
    moreover have "of_char (dec_digit n) \<noteq> (of_char (CHR ''0'') :: nat)"
      using True "1.prems" by simp
    ultimately show ?thesis by (metis list.sel(1))
  next
    case False
    then have "show_nat n = show_nat (n div 10) @ [dec_digit (n mod 10)]"
      by (subst show_nat.simps) simp
    with 1 False show ?thesis by simp
  qed
qed

lemma read_show_int [simp]: "read_int (show_int i) = i"
proof (cases "i < 0")
  case True
  then show ?thesis by (simp add: read_int_def show_int_def)
next
  case False
  obtain c t where s: "show_nat (nat i) = c # t"
    by (metis show_nat_not_Nil neq_Nil_conv)
  have "c \<noteq> CHR ''-''"
    using hd_show_nat [of "nat i"] s by simp
  then show ?thesis
    using False s read_show_nat [of "nat i"] by (simp add: read_int_def show_int_def)
qed

text \<open>The \<open>k + 1\<close> low digits of a number, leading zeros included.\<close>

primrec low_digits :: "nat \<Rightarrow> nat \<Rightarrow> string" where
  "low_digits 0 n = [dec_digit (n mod 10)]"
| "low_digits (Suc k) n = dec_digit (n div 10 ^ Suc k mod 10) # low_digits k n"

lemma low_digits_snoc: "low_digits (Suc k) n = low_digits k (n div 10) @ [dec_digit (n mod 10)]"
  by (induction k) (simp_all add: div_mult2_eq [symmetric] mult.commute mult.left_commute)

lemma show_nat_low_digits:
  assumes "10 ^ k \<le> n \<or> k = 0" and "n < 10 ^ Suc k"
  shows "show_nat n = low_digits k n"
  using assms
proof (induction k arbitrary: n)
  case 0
  then show ?case by (subst show_nat.simps) simp
next
  case (Suc k)
  from Suc.prems have big: "\<not> n < 10"
    by (metis Suc_neq_Zero le_trans linorder_not_le one_le_numeral one_le_power
        power_Suc nat_mult_le_cancel_disj mult.right_neutral)
  have "10 ^ k \<le> n div 10" and "n div 10 < 10 ^ Suc k"
    using Suc.prems by (simp_all add: less_eq_div_iff_mult_less_eq div_less_iff_less_mult mult.commute)
  with Suc.IH have "show_nat (n div 10) = low_digits k (n div 10)"
    by blast
  then show ?case
    using big by (subst show_nat.simps) (simp only: low_digits_snoc if_False)
qed

lemma initial_divisor_spec:
  assumes "unat divisor = 10 ^ k" and "10 ^ k \<le> unat number \<or> k = 0"
  shows "\<exists>j. unat (initial_divisor number divisor) = 10 ^ j \<and> (10 ^ j \<le> unat number \<or> j = 0)
    \<and> unat number < 10 ^ Suc j"
  using assms
proof (induction number divisor arbitrary: k rule: initial_divisor.induct)
  case (1 number divisor)
  show ?case
  proof (cases "number div divisor > 9")
    case True
    have "unat (divisor * 10) = 10 ^ Suc k"
      using divisor_step [OF True] "1.prems" by simp
    moreover have "10 ^ Suc k \<le> unat number"
      using divisor_step [OF True] "1.prems" by simp
    ultimately show ?thesis
      using "1.IH" [OF True, of "Suc k"] True by (subst initial_divisor.simps) auto
  next
    case False
    then have "unat number div 10 ^ k \<le> 9"
      using "1.prems" by (simp add: word_less_nat_alt unat_div)
    then have "unat number < 10 ^ Suc k"
      by (metis (no_types, lifting) div_less_iff_less_mult eval_nat_numeral(3) le_imp_less_Suc
          mult.commute numeral_nat(3) power_Suc semiring_norm(26,27,28) zero_less_numeral zero_less_power numeral_plus_one Suc_eq_plus1 BitM_plus_one numeral_eq_Suc pred_numeral_simps)
    then show ?thesis
      using False "1.prems" by (subst initial_divisor.simps) auto
  qed
qed

lemma unsigned_digit: "unat (0x30 + number div divisor mod 10 :: u64)
    = 48 + unat number div unat divisor mod 10"
proof -
  have "unat number div unat divisor < 2 ^ 64"
    using unat_lt_2_64 [of number] div_le_dividend [of "unat number" "unat divisor"] by linarith
  then show ?thesis
    by (simp add: unat_word_ariths unat_div unat_mod)
qed

lemma UnityPrintNumberUnsigned_loop_emits:
  "unat divisor = 10 ^ k \<Longrightarrow>
     UnityPrintNumberUnsigned_loop number divisor u = emit (low_digits k (unat number)) u"
proof (induction k arbitrary: divisor u)
  case 0
  then have "divisor = 1"
    by (simp add: word_unat_eq_iff)
  then show ?case
    by (subst UnityPrintNumberUnsigned_loop.simps)
      (simp add: emits unsigned_digit [of number 1, simplified] dec_digit_def)
next
  case (Suc k)
  have d: "unat (divisor div 10) = 10 ^ k"
    using Suc.prems by (simp add: unat_div)
  then have "divisor div 10 > 0"
    by (simp add: word_less_nat_alt)
  then show ?case
    using Suc.IH [OF d] Suc.prems
    by (subst UnityPrintNumberUnsigned_loop.simps)
      (simp add: emits unsigned_digit dec_digit_def Let_def)
qed

lemma UnityPrintNumberUnsigned_emits [emits]:
  "UnityPrintNumberUnsigned number u = emit (show_nat (unat number)) u"
proof -
  obtain j where j: "unat (initial_divisor number 1) = 10 ^ j"
      "10 ^ j \<le> unat number \<or> j = 0" "unat number < 10 ^ Suc j"
    using initial_divisor_spec [of 1 0 number] by auto
  show ?thesis
    using show_nat_low_digits [OF j(2,3)] UnityPrintNumberUnsigned_loop_emits [OF j(1)]
    by (simp add: UnityPrintNumberUnsigned_def)
qed

lemma unat_minus_negative:
  fixes w :: u64
  assumes "sint w < 0"
  shows "unat (NOT w + 1) = nat (- sint w)"
proof -
  have "NOT w + 1 = - w"
    by (simp add: minus_eq_not_minus_1 [of w] not_diff_distrib)
  moreover have "uint (- w) = - sint w"
  proof -
    have "- w = word_of_int (- sint w)"
      by (simp add: wi_hom_neg [symmetric])
    moreover have "0 \<le> - sint w" and "- sint w < 2 ^ 64"
      using assms sint_ge [of w] by (simp_all)
    ultimately show ?thesis
      by (simp only: uint_word_of_int_eq take_bit_int_eq_self len_num1 len_bit0)
        (simp add: take_bit_int_eq_self)
  qed
  ultimately show ?thesis
    by (metis unat_eq_nat_uint)
qed

lemma UnityPrintNumber_emits [emits]:
  "UnityPrintNumber number u = emit (show_int (sint number)) u"
proof (cases "sint number < 0")
  case True
  then have "unat (NOT number + 1) = nat (- sint number)"
    by (rule unat_minus_negative)
  then show ?thesis
    using True by (simp add: UnityPrintNumber_def emits show_int_def word_sless_alt)
next
  case False
  then have "unat number = nat (sint number)"
    using sint_lt [of number]
    by (simp add: unat_eq_nat_uint not_less uint_sint take_bit_int_eq_self)
  then show ?thesis
    using False by (simp add: UnityPrintNumber_def emits show_int_def word_sless_alt)
qed

section \<open>Hexadecimal numbers and masks\<close>

definition hex_digit :: "nat \<Rightarrow> char" where
  "hex_digit d = (if d \<le> 9 then char_of (48 + d) else char_of (55 + d))"

primrec hex_digits :: "nat \<Rightarrow> nat \<Rightarrow> string" where
  "hex_digits 0 n = []"
| "hex_digits (Suc k) n = hex_digit (n div 16 ^ k mod 16) # hex_digits k n"

definition hex_value :: "char \<Rightarrow> nat" where
  "hex_value c = (if of_char c \<le> (57 :: nat) then of_char c - 48 else of_char c - 55)"

definition read_hex :: "string \<Rightarrow> nat" where
  "read_hex s = foldl (\<lambda>v c. v * 16 + hex_value c) 0 s"

lemma hex_value_digit [simp]: "d < 16 \<Longrightarrow> hex_value (hex_digit d) = d"
  by (auto simp: hex_value_def hex_digit_def)

lemma read_hex_acc:
  "foldl (\<lambda>v c. v * 16 + hex_value c) a (hex_digits k n) = a * 16 ^ k + n mod 16 ^ k"
proof (induction k arbitrary: a)
  case 0
  show ?case by simp
next
  case (Suc k)
  have "n mod 16 ^ Suc k = n div 16 ^ k mod 16 * 16 ^ k + n mod 16 ^ k"
    using mod_mult2_eq [of n "16 ^ k" 16] by (simp add: mult.commute)
  moreover have "foldl (\<lambda>v c. v * 16 + hex_value c) a (hex_digits (Suc k) n)
      = (a * 16 + n div 16 ^ k mod 16) * 16 ^ k + n mod 16 ^ k"
    by (simp add: Suc.IH)
  ultimately show ?case
    by (simp add: algebra_simps)
qed

lemma read_hex_digits [simp]: "read_hex (hex_digits k n) = n mod 16 ^ k"
  by (simp add: read_hex_def read_hex_acc)

lemma length_hex_digits [simp]: "length (hex_digits k n) = k"
  by (induction k) simp_all

lemma nibble_value:
  "unat ((ucast (drop_bit (k * 4) number :: u64) :: u32) AND 0x0F) = unat number div 16 ^ k mod 16"
proof -
  let ?d = "drop_bit (k * 4) number"
  have "(ucast ?d :: u32) AND 0x0F = take_bit 4 (ucast ?d)"
    by (simp add: take_bit_eq_mask mask_eq_exp_minus_1)
  then have "unat ((ucast ?d :: u32) AND 0x0F) = take_bit 4 (take_bit 32 (unat ?d))"
    by (simp only: unsigned_take_bit_eq unsigned_ucast_eq) simp
  also have "\<dots> = unat ?d mod 16"
    by (simp add: take_bit_eq_mod mod_mod_cancel)
  also have "unat ?d = unat number div 16 ^ k"
  proof -
    have "unat ?d = drop_bit (k * 4) (unat number)"
      using unat_lt_2_64 [of number] by (simp add: unsigned_drop_bit_eq take_bit_nat_eq_self)
    then show ?thesis
      by (simp add: drop_bit_eq_div power_mult mult.commute [of k])
  qed
  finally show ?thesis .
qed

lemma UnityPrintNumberHex_loop_emits:
  "UnityPrintNumberHex_loop number k u = emit (hex_digits k (unat number)) u"
proof (induction k arbitrary: u)
  case 0
  show ?case by simp
next
  case (Suc k)
  let ?n = "(ucast (drop_bit (k * 4) number) :: u32) AND 0x0F"
  have lt: "unat ?n < 16"
    unfolding nibble_value by simp
  have "unat (0x30 + ?n) = 48 + unat ?n" and "unat (0x41 - 10 + ?n) = 55 + unat ?n"
    using lt by (simp_all add: unat_word_ariths)
  then show ?case
    unfolding UnityPrintNumberHex_loop.simps Let_def
    by (simp add: Suc.IH emits hex_digit_def word_le_nat_alt nibble_value)
qed

lemma sint_small:
  assumes "unat (k :: u8) < 128"
  shows "sint k = uint k"
proof -
  have "uint k = int (unat k)"
    by simp
  then have "uint k < 128"
    using assms by linarith
  moreover have "- 128 \<le> uint k"
    by (rule order_trans [of _ 0]) simp_all
  ultimately show ?thesis
    by (simp add: sint_uint signed_take_bit_int_eq_self_iff)
qed

lemma sint_large:
  assumes "128 \<le> unat (k :: u8)"
  shows "sint k = uint k - 256"
proof -
  have "uint k = int (unat k)"
    by simp
  then have ge: "128 \<le> uint k"
    using assms by linarith
  have lt: "uint k < 256"
    using unsigned_less [of k] by simp
  have "sint k = take_bit 8 (uint k) - 256 * of_bool (bit (uint k) 7)"
    by (simp add: sint_uint signed_take_bit_eq_take_bit_minus)
  moreover have "take_bit 8 (uint k) = uint k"
    using lt by (simp add: take_bit_int_eq_self)
  moreover have "bit (uint k) 7"
  proof -
    have "uint k div 128 = 1"
      using ge lt by simp
    then show ?thesis by (simp add: bit_iff_odd)
  qed
  ultimately show ?thesis by simp
qed

lemma nibbles_above: "(scast (k :: u8) :: u32) > 16 \<longleftrightarrow> unat k > 16"
proof -
  have u: "uint (scast k :: u32) = take_bit 32 (sint k)"
    by (simp only: scast_eq uint_word_of_int_eq) simp
  have k: "uint k = int (unat k)"
    by simp
  have lt: "uint k < 256"
    using unsigned_less [of k] by simp
  have "uint (scast k :: u32) > 16 \<longleftrightarrow> unat k > 16"
  proof (cases "unat k < 128")
    case True
    then have "uint (scast k :: u32) = uint k"
      using u lt by (simp add: sint_small take_bit_int_eq_self)
    then show ?thesis using k by linarith
  next
    case False
    then have "sint k = uint k - 256"
      by (simp add: sint_large)
    then have "take_bit 32 (sint k) = take_bit 32 (uint k - 256 + 2 ^ 32)"
      by (simp only: take_bit_eq_mod mod_add_self2)
    also have "\<dots> = uint k - 256 + 2 ^ 32"
    proof (rule take_bit_int_eq_self)
      show "0 \<le> uint k - 256 + 2 ^ 32" and "uint k - 256 + 2 ^ 32 < 2 ^ 32"
        using lt by (auto intro: add_nonneg_nonneg)
    qed
    finally have "uint (scast k :: u32) = 4294967040 + uint k"
      using u by simp
    moreover have "0 \<le> uint k"
      by simp
    ultimately have "uint (scast k :: u32) > 16"
      by linarith
    then show ?thesis using False by simp
  qed
  then show ?thesis
    by (simp add: word_less_def)
qed

lemma UnityPrintNumberHex_emits [emits]:
  "UnityPrintNumberHex number k u = emit (hex_digits (min (unat k) 16) (unat number)) u"
  by (simp add: UnityPrintNumberHex_def UNITY_MAX_NIBBLES_def UnityPrintNumberHex_loop_emits
      nibbles_above min_def)

primrec mask_text :: "nat \<Rightarrow> u64 \<Rightarrow> u64 \<Rightarrow> string" where
  "mask_text 0 m n = []"
| "mask_text (Suc k) m n =
     (if bit m k then if bit n k then CHR ''1'' else CHR ''0'' else CHR ''X'') # mask_text k m n"

lemma UnityPrintMask_loop_emits:
  "i < 64 \<Longrightarrow> UnityPrintMask_loop m n (2 ^ i) (Suc i) u = emit (mask_text (Suc i) m n) u"
proof (induction i arbitrary: u)
  case 0
  then show ?case
    using and_exp_eq_0_iff_not_bit [of m 0] and_exp_eq_0_iff_not_bit [of n 0]
    by (simp add: emits and.commute [of 1])
next
  case (Suc i)
  have "drop_bit (Suc 0) (2 ^ Suc i) = (2 ^ i :: u64)"
    using Suc.prems by (intro bit_word_eqI) (auto simp: bit_simps simp del: power_Suc)
  then show ?case
    using Suc.IH Suc.prems and_exp_eq_0_iff_not_bit [of m "Suc i"]
      and_exp_eq_0_iff_not_bit [of n "Suc i"]
    by (subst UnityPrintMask_loop.simps) (simp add: emits and.commute [of "2 * 2 ^ i"])
qed

lemma UnityPrintMask_emits [emits]: "UnityPrintMask m n u = emit (mask_text 32 m n) u"
  using UnityPrintMask_loop_emits [of 31 m n u]
  by (simp add: UnityPrintMask_def UNITY_INT_WIDTH_def push_bit_of_1)

section \<open>Characters and strings\<close>

text \<open>A printable character as it is, the others as escapes.\<close>

definition esc_char :: "char \<Rightarrow> string" where
  "esc_char c =
     (if (32 :: nat) \<le> of_char c \<and> of_char c \<le> (126 :: nat) then [c]
      else if c = CHR 0x0D then [CHR 0x5C, CHR ''r'']
      else if c = CHR 0x0A then [CHR 0x5C, CHR ''n'']
      else CHR 0x5C # CHR ''x'' # hex_digits 2 (of_char c))"

definition esc_string :: "string \<Rightarrow> string" where
  "esc_string s = concat (map esc_char s)"

text \<open>The C string a buffer holds ends before its first 0 character.\<close>

abbreviation c_string :: "string \<Rightarrow> string" where
  "c_string s \<equiv> takeWhile (\<lambda>c. c \<noteq> CHR 0x00) s"

abbreviation opt_text :: "string option \<Rightarrow> string" where
  "opt_text s \<equiv> (case s of None \<Rightarrow> [] | Some t \<Rightarrow> esc_string (c_string t))"

lemma esc_string_simps [simp]:
  "esc_string [] = []" "esc_string (c # s) = esc_char c @ esc_string s"
  "esc_string (s @ t) = esc_string s @ esc_string t"
  by (simp_all add: esc_string_def)

lemma uint_char_byte: "uint (char_byte c) = of_char c"
proof -
  have "uint (of_nat (of_char c) :: u8) = int (of_char c :: nat)"
    by (simp add: uint_nat unat_of_nat)
  then show ?thesis
    by (simp add: char_byte_def of_nat_of_char)
qed

lemma char_int_eq:
  "char_int c = (if of_char c < (128 :: int) then of_char c else of_char c - 256)"
proof -
  let ?b = "char_byte c"
  have r: "0 \<le> uint ?b" "uint ?b < 256"
    using unsigned_less [of ?b] by simp_all
  have "char_int c = take_bit 8 (uint ?b) - 256 * of_bool (bit (uint ?b) 7)"
    by (simp add: char_int_def sint_uint signed_take_bit_eq_take_bit_minus)
  moreover have "take_bit 8 (uint ?b) = uint ?b"
    using r by (simp add: take_bit_int_eq_self)
  moreover have "bit (uint ?b) 7 \<longleftrightarrow> 128 \<le> uint ?b"
  proof -
    have "uint ?b div 128 \<in> {0, 1}" and "128 \<le> uint ?b \<longleftrightarrow> uint ?b div 128 = 1"
      using r by auto
    then show ?thesis by (auto simp: bit_iff_odd)
  qed
  ultimately show ?thesis
    by (simp add: uint_char_byte)
qed

lemma of_char_int: "(of_char c :: int) = int (of_char c)"
  by (simp add: of_nat_of_char)

lemma char_int_nat:
  "char_int c = (if of_char c < (128 :: nat) then int (of_char c) else int (of_char c) - 256)"
  unfolding char_int_eq of_char_int by (simp del: of_nat_of_char)

lemma unat_char_byte: "unat (char_byte c) = of_char c"
  by (metis nat_int of_char_int uint_char_byte unat_eq_nat_uint)

lemma char_int_printable:
  "char_int c \<le> 126 \<and> 32 \<le> char_int c \<longleftrightarrow> (32 :: nat) \<le> of_char c \<and> of_char c \<le> (126 :: nat)"
proof -
  define n :: nat where "n = of_char c"
  have "n < 256"
    by (simp add: n_def nat_of_char_less_256)
  then show ?thesis
    unfolding char_int_nat n_def [symmetric] by auto
qed

lemma char_int_13: "char_int c = 13 \<longleftrightarrow> c = CHR 0x0D"
  and char_int_10: "char_int c = 10 \<longleftrightarrow> c = CHR 0x0A"
proof -
  define n :: nat where "n = of_char c"
  have lt: "n < 256"
    by (simp add: n_def nat_of_char_less_256)
  have "c = CHR 0x0D \<longleftrightarrow> n = 13" and "c = CHR 0x0A \<longleftrightarrow> n = 10"
    using of_char_eq_iff [of c "CHR 0x0D", where ?'a = nat]
      of_char_eq_iff [of c "CHR 0x0A", where ?'a = nat]
    by (simp_all add: n_def)
  with lt show "char_int c = 13 \<longleftrightarrow> c = CHR 0x0D" and "char_int c = 10 \<longleftrightarrow> c = CHR 0x0A"
    unfolding char_int_nat n_def [symmetric] by auto
qed

lemma hex_digits_2: "hex_digits 2 n = hex_digits 2 (n mod 256)"
proof -
  have "n mod 256 div 16 = n div 16 mod 16"
    using mod_mult2_eq [of n 16 16] by simp
  moreover have "n mod 256 mod 16 = n mod 16"
    by (simp add: mod_mod_cancel)
  ultimately show ?thesis
    by (simp add: numeral_2_eq_2)
qed

lemma unat_low_byte: "unat (ucast (w :: u64) :: u8) = unat w mod 256"
  by (simp add: unsigned_ucast_eq take_bit_eq_mod)

lemma hex_of_char: "hex_digits 2 (unat (scast (char_byte c) :: u64)) = hex_digits 2 (of_char c)"
proof -
  have "ucast (scast (char_byte c) :: u64) = char_byte c"
    by (rule bit_word_eqI) (auto simp: bit_simps)
  then have "unat (scast (char_byte c) :: u64) mod 256 = unat (char_byte c)"
    by (metis unat_low_byte)
  also have "\<dots> = of_char c"
    by (rule unat_char_byte)
  finally show ?thesis
    by (metis hex_digits_2)
qed

lemma UnityPrintChar_emits [emits]: "UnityPrintChar c u = emit (esc_char c) u"
  by (simp add: UnityPrintChar_def char_int_printable char_int_13 char_int_10 emits esc_char_def
      hex_of_char)

lemma UnityPrint_loop_emits: "UnityPrint_loop s u = emit (esc_string (c_string s)) u"
  by (induction s u rule: UnityPrint_loop.induct) (simp_all add: emits)

lemma UnityPrint_emits: "UnityPrint s u = emit (opt_text s) u"
  by (simp add: UnityPrint_def UnityPrint_loop_emits split: option.split)

text \<open>\<open>UnityPrintLen\<close> stops at the terminator or after \<open>length\<close> characters.\<close>

lemma UnityPrintLen_loop_emits:
  "UnityPrintLen_loop s i len u = emit (esc_string (take (unat len - unat i) (c_string s))) u"
proof (induction s i len u rule: UnityPrintLen_loop.induct)
  case (1 i len u)
  show ?case by simp
next
  case (2 c pch i len u)
  show ?case
  proof (cases "c \<noteq> CHR 0x00 \<and> i < len")
    case True
    have "unat len < 4294967296"
      using unsigned_less [of len] by simp
    with True have "unat (i + 1) = Suc (unat i)" and "unat len - unat i = Suc (unat len - Suc (unat i))"
      by (auto simp: word_less_nat_alt unat_word_ariths)
    moreover have "UnityPrintLen_loop (c # pch) i len u
        = UnityPrintLen_loop pch (i + 1) len (UnityPrintChar c u)"
      using True by (simp add: UnityPrintChar_def)
    ultimately show ?thesis
      using 2 True by (simp add: emits UnityPrintChar_def [symmetric])
  next
    case False
    then show ?thesis
      by (cases "c = CHR 0x00") (simp_all add: word_less_nat_alt)
  qed
qed

lemma UnityPrintLen_emits [emits]:
  "UnityPrintLen s len u =
     emit (case s of None \<Rightarrow> [] | Some t \<Rightarrow> esc_string (take (unat len) (c_string t))) u"
  by (simp add: UnityPrintLen_def UnityPrintLen_loop_emits split: option.split)

section \<open>Numbers by style\<close>

definition char_text :: "u64 \<Rightarrow> string" where
  "char_text number =
     (if number \<le>s 126 \<and> 32 \<le>s number then [char_of (unat number)]
      else if number = 13 then [CHR 0x5C, CHR ''r'']
      else if number = 10 then [CHR 0x5C, CHR ''n'']
      else CHR 0x5C # CHR ''x'' # hex_digits 2 (unat number))"

definition hex_text :: "u64 \<Rightarrow> style \<Rightarrow> string" where
  "hex_text number st =
     CHR ''0'' # CHR ''x'' # hex_digits (min (unat (ucast ((st AND 0xF) * 2) :: u8)) 16) (unat number)"

definition int_text :: "u64 \<Rightarrow> style \<Rightarrow> string" where
  "int_text number st =
     (if st = UNITY_DISPLAY_STYLE_CHAR then [CHR 0x27] @ char_text number @ [CHR 0x27]
      else if st AND UNITY_DISPLAY_RANGE_INT = UNITY_DISPLAY_RANGE_INT then show_int (sint number)
      else if st AND UNITY_DISPLAY_RANGE_UINT = UNITY_DISPLAY_RANGE_UINT
      then show_nat (unat number)
      else hex_text number st)"

definition uint_text :: "u64 \<Rightarrow> style \<Rightarrow> string" where
  "uint_text number st =
     (if st AND UNITY_DISPLAY_RANGE_UINT = UNITY_DISPLAY_RANGE_UINT
      then show_nat (unat number) else hex_text number st)"

lemma UnityPrintIntNumberByStyle_emits [emits]:
  "UnityPrintIntNumberByStyle number st u = emit (int_text number st) u"
  by (simp add: UnityPrintIntNumberByStyle_def int_text_def char_text_def hex_text_def emits Let_def)

lemma UnityPrintUintNumberByStyle_emits [emits]:
  "UnityPrintUintNumberByStyle number st u = emit (uint_text number st) u"
  by (simp add: UnityPrintUintNumberByStyle_def uint_text_def hex_text_def emits)

end
