(* ===== verification/Unity_Contract.thy ===== *)
theory Unity_Contract
  imports Unity_Arrays Unity_Output_Correct
begin

text \<open>
  What every assertion of the framework promises, as a locale: in a test that has already failed
  or been ignored it jumps at once; otherwise it returns with the state unchanged when its
  condition holds, and jumps with the test marked as failed and a report appended when it does
  not.  The assertions on numbers are interpreted here with their conditions as statements about
  integers.
\<close>

section \<open>Reports\<close>

definition begin_text :: "string option \<Rightarrow> u64 \<Rightarrow> string option \<Rightarrow> string" where
  "begin_text file line name =
     opt_text file @ '':'' @ show_int (sint line) @ '':'' @ opt_text name @ '':''"

definition fail_text :: "u64 \<Rightarrow> unity \<Rightarrow> string" where
  "fail_text line u = begin_text (TestFile u) line (CurrentTestName u) @ ''FAIL:''"

definition msg_text :: "string option \<Rightarrow> unity \<Rightarrow> string" where
  "msg_text msg u =
     (case CurrentDetail1 u of None \<Rightarrow> []
      | Some d1 \<Rightarrow> '':Function '' @ esc_string (c_string d1) @
         (case CurrentDetail2 u of None \<Rightarrow> []
          | Some d2 \<Rightarrow> '' Argument '' @ esc_string (c_string d2))) @
     (case msg of None \<Rightarrow> [] | Some t \<Rightarrow> '':'' @ esc_string (c_string t))"

lemmas str_defs [model_defs] = UnityStrOk_def UnityStrPass_def UnityStrFail_def UnityStrIgnore_def
  UnityStrNull_def UnityStrSpacer_def UnityStrExpected_def UnityStrWas_def UnityStrGt_def
  UnityStrLt_def UnityStrOrEqual_def UnityStrNotEqual_def UnityStrElement_def UnityStrByte_def
  UnityStrMemory_def UnityStrDelta_def UnityStrPointless_def UnityStrNullPointerForExpected_def
  UnityStrNullPointerForActual_def UnityStrDetail1Name_def UnityStrDetail2Name_def

lemma text_emit [simp]:
  "fail_text line (emit s u) = fail_text line u" "msg_text msg (emit s u) = msg_text msg u"
  by (simp_all add: fail_text_def msg_text_def split: option.split)

lemma text_failed [simp]:
  "fail_text line (u\<lparr>CurrentTestFailed := v\<rparr>) = fail_text line u"
  "msg_text msg (u\<lparr>CurrentTestFailed := v\<rparr>) = msg_text msg u"
  by (simp_all add: fail_text_def msg_text_def split: option.split)

text \<open>A constant of printable characters is printed as it is.\<close>

definition plain :: "string \<Rightarrow> bool" where
  "plain s \<longleftrightarrow> list_all (\<lambda>c. (32 :: nat) \<le> of_char c \<and> of_char c \<le> (126 :: nat)) s"

lemma esc_plain: "plain s \<Longrightarrow> esc_string (c_string s) = s"
  by (induction s) (auto simp: plain_def esc_char_def)

lemma print_plain: "plain s \<Longrightarrow> UnityPrint (Some s) u = emit s u"
  by (simp add: UnityPrint_emits esc_plain)

lemma plain_strs [simp]:
  "plain UnityStrOk" "plain UnityStrPass" "plain UnityStrFail" "plain UnityStrIgnore"
  "plain UnityStrNull" "plain UnityStrSpacer" "plain UnityStrExpected" "plain UnityStrWas"
  "plain UnityStrGt" "plain UnityStrLt" "plain UnityStrOrEqual" "plain UnityStrNotEqual"
  "plain UnityStrElement" "plain UnityStrByte" "plain UnityStrMemory" "plain UnityStrDelta"
  "plain UnityStrPointless" "plain UnityStrNullPointerForExpected"
  "plain UnityStrNullPointerForActual" "plain UnityStrDetail1Name" "plain UnityStrDetail2Name"
  by (simp_all add: plain_def str_defs)

lemmas print_const = print_plain [OF plain_strs(1)] print_plain [OF plain_strs(2)]
  print_plain [OF plain_strs(3)] print_plain [OF plain_strs(4)] print_plain [OF plain_strs(5)]
  print_plain [OF plain_strs(6)] print_plain [OF plain_strs(7)] print_plain [OF plain_strs(8)]
  print_plain [OF plain_strs(9)] print_plain [OF plain_strs(10)] print_plain [OF plain_strs(11)]
  print_plain [OF plain_strs(12)] print_plain [OF plain_strs(13)] print_plain [OF plain_strs(14)]
  print_plain [OF plain_strs(15)] print_plain [OF plain_strs(16)] print_plain [OF plain_strs(17)]
  print_plain [OF plain_strs(18)] print_plain [OF plain_strs(19)] print_plain [OF plain_strs(20)]
  print_plain [OF plain_strs(21)]

lemma UnityTestResultsBegin_emits [emits]:
  "UnityTestResultsBegin file line u = emit (begin_text file line (CurrentTestName u)) u"
  by (simp add: UnityTestResultsBegin_def begin_text_def emits UnityPrint_emits)

lemma UnityTestResultsFailBegin_emits [emits]:
  "UnityTestResultsFailBegin line u = emit (fail_text line u) u"
  unfolding UnityTestResultsFailBegin_def
  by (simp add: fail_text_def emits print_const) (simp add: UnityStrFail_def)?

lemma UnityAddMsgIfSpecified_emits [emits]:
  "UnityAddMsgIfSpecified msg u = emit (msg_text msg u) u"
  by (simp add: UnityAddMsgIfSpecified_def msg_text_def print_const UnityPrint_emits str_defs
      esc_char_def split: option.split)

section \<open>The contract\<close>

definition idle :: "unity \<Rightarrow> bool" where
  "idle u \<longleftrightarrow> CurrentTestFailed u = 0 \<and> CurrentTestIgnored u = 0"

definition failed :: "string \<Rightarrow> unity \<Rightarrow> unity" where
  "failed s u = (emit s u)\<lparr>CurrentTestFailed := 1\<rparr>"

lemma guard_idle [simp]: "idle u \<Longrightarrow> RETURN_IF_FAIL_OR_IGNORE u = Returns u"
  by (simp add: idle_def RETURN_IF_FAIL_OR_IGNORE_def)

lemma guard_busy [simp]: "\<not> idle u \<Longrightarrow> RETURN_IF_FAIL_OR_IGNORE u = Jumps u"
  by (simp add: idle_def RETURN_IF_FAIL_OR_IGNORE_def)

lemma bail_emit [simp]: "UNITY_FAIL_AND_BAIL (emit s u) = Jumps (failed s u)"
  by (simp add: UNITY_FAIL_AND_BAIL_def failed_def)

lemma failed_emit [simp]: "failed t (emit s u) = failed (s @ t) u"
  by (simp add: failed_def)

lemma failed_set [simp]: "failed s (u\<lparr>CurrentTestFailed := v\<rparr>) = failed s u"
  by (simp add: failed_def emit_def)

lemma emit_set_failed [simp]:
  "emit s (u\<lparr>CurrentTestFailed := v\<rparr>) = (emit s u)\<lparr>CurrentTestFailed := v\<rparr>"
  by (simp add: emit_def)

lemma bail_set_failed [simp]:
  "UNITY_FAIL_AND_BAIL ((emit s u)\<lparr>CurrentTestFailed := v\<rparr>) = Jumps (failed s u)"
  by (simp add: UNITY_FAIL_AND_BAIL_def failed_def)

lemma idle_unset [simp]: "idle u \<Longrightarrow> u\<lparr>CurrentTestFailed := 0\<rparr> = u"
  by (simp add: idle_def)

lemma idle_not_failed: "idle u \<Longrightarrow> CurrentTestFailed u = 0"
  by (simp add: idle_def)

locale unity_assertion =
  fixes ready :: bool and holds :: bool and check :: "unity \<Rightarrow> unity outcome"
  assumes busy: "\<not> idle u \<Longrightarrow> check u = Jumps u"
    and passes: "idle u \<Longrightarrow> ready \<Longrightarrow> holds \<Longrightarrow> check u = Returns u"
    and fails: "idle u \<Longrightarrow> ready \<Longrightarrow> \<not> holds \<Longrightarrow> \<exists>s. check u = Jumps (failed s u)"
begin

lemma defined: "ready \<Longrightarrow> check u \<noteq> Undefined"
  using busy [of u] passes [of u] fails [of u] by (cases "idle u"; cases holds) auto

lemma returns_iff: "ready \<Longrightarrow> idle u \<Longrightarrow> check u = Returns u' \<longleftrightarrow> holds \<and> u' = u"
  using passes [of u] fails [of u] by (cases holds) auto

lemma jump_cases:
  assumes "ready" and "check u = Jumps u'"
  obtains "\<not> idle u" and "u' = u" | s where "idle u" and "u' = failed s u"
proof (cases "idle u")
  case False
  with busy [OF False] assms(2) that(1) show ?thesis by simp
next
  case True
  show ?thesis
  proof (cases holds)
    case True
    with passes [OF \<open>idle u\<close> assms(1)] assms(2) show ?thesis by simp
  next
    case False
    from fails [OF \<open>idle u\<close> assms(1) False] assms(2) that(2) \<open>idle u\<close> show ?thesis by auto
  qed
qed

lemma keeps_counters:
  assumes "ready" and "check u = Jumps u'"
  shows "NumberOfTests u' = NumberOfTests u" and "TestFailures u' = TestFailures u"
    and "TestIgnores u' = TestIgnores u" and "CurrentTestIgnored u' = CurrentTestIgnored u"
    and "\<exists>s. outchars u' = outchars u @ s" and "\<not> idle u'"
  by (rule jump_cases [OF assms]; auto simp: failed_def idle_def)+

end

section \<open>Assertions on numbers\<close>

lemma UnityAssertEqualIntNumber_run:
  "UnityAssertEqualIntNumber expected actual msg line st u =
     (if \<not> idle u then Jumps u else if expected = actual then Returns u
      else Jumps (failed (fail_text line u @ UnityStrExpected @ int_text expected st @ UnityStrWas
        @ int_text actual st @ msg_text msg u) u))"
  unfolding UnityAssertEqualIntNumber_def
  by (cases "idle u") (simp_all add: print_const emits)

lemma UnityAssertEqualUintNumber_run:
  "UnityAssertEqualUintNumber expected actual msg line st u =
     (if \<not> idle u then Jumps u else if expected = actual then Returns u
      else Jumps (failed (fail_text line u @ UnityStrExpected @ uint_text expected st @ UnityStrWas
        @ uint_text actual st @ msg_text msg u) u))"
  unfolding UnityAssertEqualUintNumber_def
  by (cases "idle u") (simp_all add: print_const emits)


text \<open>The condition each comparison stands for, on integers.\<close>

primrec compare_holds :: "comparison \<Rightarrow> int \<Rightarrow> int \<Rightarrow> bool" where
  "compare_holds UNITY_EQUAL_TO t a = True"
| "compare_holds UNITY_GREATER_THAN t a = (a > t)"
| "compare_holds UNITY_GREATER_OR_EQUAL t a = (a \<ge> t)"
| "compare_holds UNITY_SMALLER_THAN t a = (a < t)"
| "compare_holds UNITY_SMALLER_OR_EQUAL t a = (a \<le> t)"
| "compare_holds UNITY_NOT_EQUAL t a = (a \<noteq> t)"

lemma compare_has_simps [simp]:
  "compare_has c UNITY_EQUAL_TO \<longleftrightarrow>
     c \<in> {UNITY_EQUAL_TO, UNITY_GREATER_OR_EQUAL, UNITY_SMALLER_OR_EQUAL}"
  "compare_has c UNITY_GREATER_THAN \<longleftrightarrow> c \<in> {UNITY_GREATER_THAN, UNITY_GREATER_OR_EQUAL}"
  "compare_has c UNITY_SMALLER_THAN \<longleftrightarrow> c \<in> {UNITY_SMALLER_THAN, UNITY_SMALLER_OR_EQUAL}"
  by (cases c; simp add: compare_has_def)+

text \<open>The flag \<open>failed\<close> both comparison assertions compute, on integers.\<close>

lemma compare_flag:
  "(t = a \<and> \<not> compare_has c UNITY_EQUAL_TO) \<or> (t < a \<and> compare_has c UNITY_SMALLER_THAN)
     \<or> (a < t \<and> compare_has c UNITY_GREATER_THAN) \<longleftrightarrow> \<not> compare_holds c t a"
  for t a :: int
  by (cases c) auto

lemma int_flag:
  fixes t a :: u64
  shows "(t = a \<and> \<not> compare_has c UNITY_EQUAL_TO) \<or> (t <s a \<and> compare_has c UNITY_SMALLER_THAN)
     \<or> (a <s t \<and> compare_has c UNITY_GREATER_THAN) \<longleftrightarrow> \<not> compare_holds c (sint t) (sint a)"
proof -
  have "t = a \<longleftrightarrow> sint t = sint a"
    by (auto intro: signed_word_eqI)
  then show ?thesis
    using compare_flag [of "sint t" "sint a" c] by (simp only: word_sless_alt)
qed

lemma uint_flag:
  fixes t a :: u64
  shows "(t = a \<and> \<not> compare_has c UNITY_EQUAL_TO) \<or> (t < a \<and> compare_has c UNITY_SMALLER_THAN)
     \<or> (a < t \<and> compare_has c UNITY_GREATER_THAN) \<longleftrightarrow> \<not> compare_holds c (uint t) (uint a)"
  using compare_flag [of "uint t" "uint a" c]
  by (simp only: word_less_def word_uint_eq_iff)

definition compare_text :: "comparison \<Rightarrow> string" where
  "compare_text c =
     (if compare_has c UNITY_GREATER_THAN then UnityStrGt else [])
     @ (if compare_has c UNITY_SMALLER_THAN then UnityStrLt else [])
     @ (if compare_has c UNITY_EQUAL_TO then UnityStrOrEqual else [])
     @ (if c = UNITY_NOT_EQUAL then UnityStrNotEqual else [])"

lemma emit_cond: "(if b then emit s u else u) = emit (if b then s else []) u"
  by simp

lemma flag_or: "(if c3 then True else if c2 then True else if c1 then True else False)
    = (c1 \<or> c2 \<or> c3)"
  by simp

lemma UnityAssertIntGreaterOrLess_run:
  "UnityAssertIntGreaterOrLessOrEqualNumber t a c msg line st u =
     (if \<not> idle u then Jumps u else if compare_holds c (sint t) (sint a) then Returns u
      else Jumps (failed (fail_text line u @ UnityStrExpected @ int_text a st @ compare_text c
        @ int_text t st @ msg_text msg u) u))"
  unfolding UnityAssertIntGreaterOrLessOrEqualNumber_def Let_def flag_or int_flag
  by (cases "idle u")
    (simp_all add: print_const emits emit_cond compare_text_def
      del: compare_has_simps)

lemma UnityAssertUintGreaterOrLess_run:
  "UnityAssertUintGreaterOrLessOrEqualNumber t a c msg line st u =
     (if \<not> idle u then Jumps u else if compare_holds c (uint t) (uint a) then Returns u
      else Jumps (failed (fail_text line u @ UnityStrExpected @ uint_text a st @ compare_text c
        @ uint_text t st @ msg_text msg u) u))"
  unfolding UnityAssertUintGreaterOrLessOrEqualNumber_def Let_def flag_or uint_flag
  by (cases "idle u")
    (simp_all add: print_const emits emit_cond compare_text_def
      del: compare_has_simps)

section \<open>Values within a delta\<close>

text \<open>The unsigned difference of the larger and the smaller value is their distance.\<close>

lemma uint_sub_sless:
  fixes a b :: u64
  assumes "b <=s a"
  shows "uint (a - b) = sint a - sint b"
proof -
  have "a - b = word_of_int (sint a - sint b)"
    by simp
  moreover have "0 \<le> sint a - sint b"
    using assms by (simp add: word_sle_eq)
  moreover have "sint a - sint b < 2 ^ 64"
    using sint_lt [of a] sint_ge [of b] by simp
  ultimately show ?thesis
    by (simp only: uint_word_of_int_eq) (simp add: take_bit_int_eq_self)
qed

lemma signed_distance:
  fixes e a d :: u64
  shows "(if e <s a then a - e > d else e - a > d) \<longleftrightarrow> \<not> \<bar>sint a - sint e\<bar> \<le> uint d"
proof (cases "e <s a")
  case True
  then have "sint e < sint a" and "e <=s a"
    by (simp_all add: word_sless_alt word_sle_eq)
  then show ?thesis
    using True uint_sub_sless [of e a] by (simp add: word_less_def not_le)
next
  case False
  then have "sint a \<le> sint e" and "a <=s e"
    by (simp_all add: word_sless_alt word_sle_eq)
  then show ?thesis
    using False uint_sub_sless [of a e] by (simp add: word_less_def not_le)
qed

lemma unsigned_distance:
  fixes e a d :: u64
  shows "(if a > e then a - e > d else e - a > d) \<longleftrightarrow> \<not> \<bar>uint a - uint e\<bar> \<le> uint d"
  using uint_minus_simple_alt [of e a] uint_minus_simple_alt [of a e]
  by (auto simp: word_less_def word_le_def not_less)

lemma UnityAssertIntNumbersWithin_run:
  "UnityAssertIntNumbersWithin delta e a msg line st u =
     (if \<not> idle u then Jumps u else if \<bar>sint a - sint e\<bar> \<le> uint delta then Returns u
      else Jumps (failed (fail_text line u @ UnityStrDelta @ int_text delta st
        @ UnityStrExpected @ int_text e st @ UnityStrWas @ int_text a st @ msg_text msg u) u))"
proof -
  have c: "(if e <s a then u\<lparr>CurrentTestFailed := of_bool (a - e > delta)\<rparr>
      else u\<lparr>CurrentTestFailed := of_bool (e - a > delta)\<rparr>)
    = u\<lparr>CurrentTestFailed := of_bool (\<not> \<bar>sint a - sint e\<bar> \<le> uint delta)\<rparr>" for u
    using signed_distance [of e a delta] by (cases "e <s a") (simp_all only: if_True if_False)
  show ?thesis
    unfolding UnityAssertIntNumbersWithin_def c Let_def
    by (cases "idle u"; cases "\<bar>sint a - sint e\<bar> \<le> uint delta")
      (simp_all add: print_const emits)
qed

lemma UnityAssertUintNumbersWithin_run:
  "UnityAssertUintNumbersWithin delta e a msg line st u =
     (if \<not> idle u then Jumps u else if \<bar>uint a - uint e\<bar> \<le> uint delta then Returns u
      else Jumps (failed (fail_text line u @ UnityStrDelta @ uint_text delta st
        @ UnityStrExpected @ uint_text e st @ UnityStrWas @ uint_text a st @ msg_text msg u) u))"
proof -
  have c: "(if a > e then u\<lparr>CurrentTestFailed := of_bool (a - e > delta)\<rparr>
      else u\<lparr>CurrentTestFailed := of_bool (e - a > delta)\<rparr>)
    = u\<lparr>CurrentTestFailed := of_bool (\<not> \<bar>uint a - uint e\<bar> \<le> uint delta)\<rparr>" for u
    using unsigned_distance [of e a delta] by (cases "a > e") (simp_all only: if_True if_False)
  show ?thesis
    unfolding UnityAssertUintNumbersWithin_def c Let_def
    by (cases "idle u"; cases "\<bar>uint a - uint e\<bar> \<le> uint delta")
      (simp_all add: print_const emits)
qed

lemma UnityAssertBits_run:
  "UnityAssertBits msk e a msg line u =
     (if \<not> idle u then Jumps u else if msk AND e = msk AND a then Returns u
      else Jumps (failed (fail_text line u @ UnityStrExpected @ mask_text 32 msk e @ UnityStrWas
        @ mask_text 32 msk a @ msg_text msg u) u))"
  unfolding UnityAssertBits_def
  by (cases "idle u"; cases "msk AND e = msk AND a")
    (simp_all add: print_const emits)

section \<open>The contract of the assertions on numbers\<close>

lemma assertionI:
  assumes "\<And>u. check u = (if \<not> idle u then Jumps u else if holds then Returns u
      else Jumps (failed (report u) u))"
  shows "unity_assertion True holds check"
  using assms by unfold_locales auto

interpretation bits: unity_assertion True "msk AND e = msk AND a" "UnityAssertBits msk e a msg line"
  for msk e a msg line by (rule assertionI) (rule UnityAssertBits_run)

interpretation equal_int: unity_assertion True "e = a" "UnityAssertEqualIntNumber e a msg line st"
  for e a msg line st by (rule assertionI) (rule UnityAssertEqualIntNumber_run)

interpretation equal_uint: unity_assertion True "e = a" "UnityAssertEqualUintNumber e a msg line st"
  for e a msg line st by (rule assertionI) (rule UnityAssertEqualUintNumber_run)

interpretation compare_int: unity_assertion True "compare_holds c (sint t) (sint a)"
    "UnityAssertIntGreaterOrLessOrEqualNumber t a c msg line st"
  for t a c msg line st by (rule assertionI) (rule UnityAssertIntGreaterOrLess_run)

interpretation compare_uint: unity_assertion True "compare_holds c (uint t) (uint a)"
    "UnityAssertUintGreaterOrLessOrEqualNumber t a c msg line st"
  for t a c msg line st by (rule assertionI) (rule UnityAssertUintGreaterOrLess_run)

interpretation within_int: unity_assertion True "\<bar>sint a - sint e\<bar> \<le> uint delta"
    "UnityAssertIntNumbersWithin delta e a msg line st"
  for delta e a msg line st by (rule assertionI) (rule UnityAssertIntNumbersWithin_run)

interpretation within_uint: unity_assertion True "\<bar>uint a - uint e\<bar> \<le> uint delta"
    "UnityAssertUintNumbersWithin delta e a msg line st"
  for delta e a msg line st by (rule assertionI) (rule UnityAssertUintNumbersWithin_run)

end
