(* ===== verification/Unity_Float_Text.thy ===== *)
theory Unity_Float_Text
  imports Unity_Float_Scale Unity_Contract
begin

text \<open>
  The text \<open>UnityPrintFloat\<close> prints: reading it as a decimal number gives back exactly the digits and
  the exponent the scaling has found, and for a whole number it is its decimal representation.
\<close>

section \<open>Digits with leading zeros\<close>

text \<open>At least \<open>k\<close> digits.\<close>

function pad_digits :: "nat \<Rightarrow> nat \<Rightarrow> string" where
  "pad_digits k n = (if n = 0 \<and> k = 0 then [] else pad_digits (k - 1) (n div 10) @ [dec_digit (n mod 10)])"
  by pat_completeness auto

termination by (relation "measure (\<lambda>(k, n). k + n)") auto

declare pad_digits.simps [simp del]

lemma digit_char_int [simp]: "digit_char (int n) = dec_digit (n mod 10)"
  by (simp add: digit_char_def dec_digit_def nat_mod_as_int)

lemma build_digits_pad:
  assumes "n < 10 ^ (16 - length buf)" and "k \<le> 16"
  shows "build_digits (int n) k buf = Some (pad_digits (nat (k - int (length buf))) n @ buf)"
  using assms
proof (induction "int n" k buf arbitrary: n rule: build_digits.induct)
  case (1 k buf)
  show ?case
  proof (cases "n \<noteq> 0 \<or> int (length buf) < k")
    case True
    have room: "length buf < 16"
    proof (rule ccontr)
      assume "\<not> length buf < 16"
      then show False using True 1(2,3) by auto
    qed
    have div: "int n div 10 = int (n div 10)" by simp
    have "10 ^ (16 - length buf) = 10 * (10::nat) ^ (16 - length (digit_char (int n) # buf))"
      using room by (simp flip: power_Suc add: Suc_diff_Suc)
    then have less: "n div 10 < 10 ^ (16 - length (digit_char (int n) # buf))"
      using 1(2) by (simp add: div_less_iff_less_mult mult.commute)
    have "build_digits (int n) k buf = build_digits (int (n div 10)) k (digit_char (int n) # buf)"
      using True room by (subst build_digits.simps) (simp add: div)
    also have "\<dots> = Some (pad_digits (nat (k - int (length (digit_char (int n) # buf)))) (n div 10) @ digit_char (int n) # buf)"
      using True room div less 1(3) by (intro 1(1)) simp_all
    also have "\<dots> = Some (pad_digits (nat (k - int (length buf))) n @ buf)"
    proof -
      have "nat (k - int (length (digit_char (int n) # buf))) = nat (k - int (length buf)) - 1" by simp
      moreover have "\<not> (n = 0 \<and> nat (k - int (length buf)) = 0)" using True by auto
      ultimately show ?thesis by (simp only: pad_digits.simps [of "nat (k - int (length buf))"] if_False digit_char_int append_assoc append.simps)
    qed
    finally show ?thesis .
  next
    case False
    then show ?thesis by (subst build_digits.simps, subst pad_digits.simps) simp
  qed
qed

lemma read_pad_digits [simp]: "read_nat (pad_digits k n) = n"
proof (induction k n rule: pad_digits.induct)
  case (1 k n)
  then show ?case by (subst pad_digits.simps) (auto simp: read_nat_def)
qed

lemma length_pad_digits: "k \<le> length (pad_digits k n)"
proof (induction k n rule: pad_digits.induct)
  case (1 k n)
  then show ?case by (subst pad_digits.simps) auto
qed

lemma pad_digits_digits: "c \<in> set (pad_digits k n) \<Longrightarrow> of_char c \<in> {48 ..< (58 :: nat)}"
proof (induction k n arbitrary: c rule: pad_digits.induct)
  case (1 k n)
  from "1.prems" show ?case
    by (subst (asm) pad_digits.simps) (use "1.IH" in \<open>auto split: if_splits\<close>)
qed

lemma pad_digits_show: "n \<noteq> 0 \<Longrightarrow> k \<le> 1 \<Longrightarrow> pad_digits k n = show_nat n"
proof (induction n arbitrary: k rule: show_nat.induct)
  case (1 n)
  have "k - 1 = 0" using 1(3) by simp
  show ?case
  proof (cases "n < 10")
    case True
    then have "pad_digits 0 (n div 10) = []" by (subst pad_digits.simps) simp
    then show ?thesis using True 1(2) \<open>k - 1 = 0\<close> by (subst pad_digits.simps, subst show_nat.simps) simp
  next
    case False
    then show ?thesis using 1 \<open>k - 1 = 0\<close> by (subst pad_digits.simps, subst show_nat.simps) simp
  qed
qed

section \<open>The parts of the text\<close>

primrec with_point :: "int \<Rightarrow> string \<Rightarrow> string" where
  "with_point k [] = []"
| "with_point k (c # s) = (if int (Suc (length s)) = k then [CHR ''.''] else []) @ c # with_point k s"

lemma print_digits_emits: "print_digits k s u = emit (with_point k s) u"
  by (induction s arbitrary: u) (auto simp: emits)

lemma print_buf_emits: "print_buf s u = emit s u"
  by (induction s arbitrary: u) (simp_all add: emits)

lemma with_point_after: "int (length s) < k \<or> k \<le> 0 \<Longrightarrow> with_point k s = s"
  by (induction s) auto

lemma with_point_append: "with_point (int (length t)) (s @ t) = s @ (if t = [] then [] else CHR ''.'' # t)"
proof (induction s)
  case Nil
  show ?case by (cases t) (simp_all add: with_point_after)
qed auto

definition exponent_text :: "int \<Rightarrow> string" where
  "exponent_text e = (if e = 0 then [] else CHR ''e'' # (if e < 0 then CHR ''-'' else CHR ''+'') # pad_digits 2 (nat \<bar>e\<bar>))"

lemma print_exponent_emits:
  assumes "\<bar>e\<bar> < 10 ^ 16"
  shows "print_exponent e u = Some (emit (exponent_text e) u)"
proof -
  have "build_digits \<bar>e\<bar> 2 [] = Some (pad_digits 2 (nat \<bar>e\<bar>))"
    using build_digits_pad [of "nat \<bar>e\<bar>" "[]" 2] assms by (simp add: nat_less_iff)
  then show ?thesis
    by (auto simp: print_exponent_def exponent_text_def emits print_buf_emits)
qed

lemma strip_zeros_spec:
  assumes "strip_zeros n k = (n', k')" and "0 \<le> k" and "0 \<le> n"
  shows "0 \<le> k' \<and> k' \<le> k \<and> 0 \<le> n' \<and> n' \<le> n \<and> n = n' * 10 ^ nat (k - k')"
  using assms
proof (induction n k arbitrary: n' k' rule: strip_zeros.induct)
  case (1 n k)
  show ?case
  proof (cases "k > 0 \<and> n mod 10 = 0")
    case True
    then have "strip_zeros (n div 10) (k - 1) = (n', k')" using 1(2) by (subst (asm) strip_zeros.simps) simp
    then have IH: "0 \<le> k' \<and> k' \<le> k - 1 \<and> 0 \<le> n' \<and> n' \<le> n div 10 \<and> n div 10 = n' * 10 ^ nat (k - 1 - k')"
      using True 1(4) by (intro 1(1)) simp_all
    then have "nat (k - k') = Suc (nat (k - 1 - k'))" by arith
    moreover have "n = n div 10 * 10" using True by auto
    ultimately show ?thesis using IH 1(4) by auto
  next
    case False
    then show ?thesis using 1(2-4) by (subst (asm) strip_zeros.simps) auto
  qed
qed

lemma strip_zeros_power: "strip_zeros (n * 10 ^ j) (int j) = (n, 0)"
proof (induction j)
  case 0
  show ?case by (subst strip_zeros.simps) simp
next
  case (Suc j)
  then show ?case by (subst strip_zeros.simps) simp
qed

section \<open>The text of a scaled number\<close>

definition decimals_of :: "real_type \<Rightarrow> int \<Rightarrow> int" where
  "decimals_of d e = (if e \<le> 0 \<and> e \<ge> - (sig_digits d + 3) then - e else sig_digits d - 1)"

definition float_text :: "real_type \<Rightarrow> int \<Rightarrow> int \<Rightarrow> string" where
  "float_text d n e = (case strip_zeros n (decimals_of d e) of (n, k) \<Rightarrow>
     with_point k (pad_digits (Suc (nat k)) (nat n)) @ exponent_text (e + decimals_of d e))"

lemma decimals_bounds: "0 \<le> decimals_of d e" "decimals_of d e \<le> 12"
  by (cases d; auto simp: decimals_of_def)+

lemma print_scaled_emits:
  assumes "0 \<le> n" and "n < max_scaled d" and "\<bar>e\<bar> \<le> 401"
  shows "print_scaled d n e u = Some (emit (float_text d n e) u)"
proof -
  let ?k = "decimals_of d e"
  obtain n' k' where st: "strip_zeros n ?k = (n', k')" by force
  note spec = strip_zeros_spec [OF st decimals_bounds(1) assms(1)]
  have k': "k' \<le> 12" using spec decimals_bounds(2) [of d e] by linarith
  have "max_scaled d \<le> 10 ^ 16" by (cases d) simp_all
  then have "nat n' < 10 ^ 16" using spec assms(2) by (simp add: nat_less_iff)
  then have "build_digits (int (nat n')) (k' + 1) [] = Some (pad_digits (nat (k' + 1 - int (length ([] :: string)))) (nat n') @ [])"
    using k' by (intro build_digits_pad) simp_all
  then have digits: "build_digits n' (k' + 1) [] = Some (pad_digits (Suc (nat k')) (nat n'))"
    using spec by (simp add: nat_add_distrib)
  have "\<bar>e + ?k\<bar> < 10 ^ 16" using assms(3) decimals_bounds [of d e] by simp
  from print_exponent_emits [OF this] show ?thesis
    unfolding print_scaled_def Let_def decimals_of_def [symmetric] float_text_def st
    by (simp add: digits print_digits_emits)
qed

section \<open>Reading a decimal number\<close>

definition read_unsigned :: "string \<Rightarrow> rat" where
  "read_unsigned s =
     (let m = takeWhile (\<lambda>c. c \<noteq> CHR ''e'') s;
          x = drop (Suc (length m)) s;
          a = takeWhile (\<lambda>c. c \<noteq> CHR ''.'') m;
          b = drop (Suc (length a)) m;
          e = (case x of [] \<Rightarrow> 0
               | c # t \<Rightarrow> if c = CHR ''-'' then - int (read_nat t) else int (read_nat t))
      in of_nat (read_nat (a @ b)) * 10 powi (e - int (length b)))"

definition read_decimal :: "string \<Rightarrow> rat" where
  "read_decimal s = (case s of c # t \<Rightarrow> if c = CHR ''-'' then - read_unsigned t else read_unsigned s
                     | [] \<Rightarrow> 0)"

lemma digit_not_sign:
  assumes "of_char c \<in> {48 ..< (58 :: nat)}"
  shows "c \<noteq> CHR ''e''" and "c \<noteq> CHR ''.''" and "c \<noteq> CHR ''-''"
  using assms by auto

text \<open>Digits with a point before the last \<open>k\<close> of them, and an exponent.\<close>

lemma read_unsigned_text:
  assumes "\<And>c. c \<in> set s \<Longrightarrow> of_char c \<in> {48 ..< (58 :: nat)}" and "k < length s"
  shows "read_unsigned (with_point (int k) s @ exponent_text e) = of_nat (read_nat s) * 10 powi (e - int k)"
proof -
  let ?a = "take (length s - k) s" and ?b = "drop (length s - k) s"
  have b: "length ?b = k" "?b = [] \<longleftrightarrow> k = 0" using assms(2) by auto
  have point: "with_point (int k) s = ?a @ (if k = 0 then [] else CHR ''.'' # ?b)"
    using with_point_append [of ?b ?a] b by simp
  have ab: "\<forall>c\<in>set ?a. c \<noteq> CHR ''e'' \<and> c \<noteq> CHR ''.''" "\<forall>c\<in>set ?b. c \<noteq> CHR ''e''"
    using assms(1) digit_not_sign by (metis in_set_takeD, metis in_set_dropD)
  have m: "takeWhile (\<lambda>c. c \<noteq> CHR ''e'') (with_point (int k) s @ exponent_text e) = with_point (int k) s"
    unfolding point using ab by (auto simp: exponent_text_def takeWhile_append)
  have x: "drop (Suc (length (with_point (int k) s))) (with_point (int k) s @ exponent_text e) = drop 1 (exponent_text e)"
    by simp
  have a: "takeWhile (\<lambda>c. c \<noteq> CHR ''.'') (with_point (int k) s) = ?a"
    unfolding point using ab by (auto simp: takeWhile_append)
  have "drop (Suc (length ?a)) (with_point (int k) s) = ?b" unfolding point using b by auto
  moreover have "(case drop 1 (exponent_text e) of [] \<Rightarrow> 0
      | c # t \<Rightarrow> if c = CHR ''-'' then - int (read_nat t) else int (read_nat t)) = e"
    by (auto simp: exponent_text_def)
  ultimately show ?thesis unfolding read_unsigned_def m x a Let_def using b by simp
qed

lemma read_float_text:
  assumes "0 \<le> n"
  shows "read_unsigned (float_text d n e) = of_int n * 10 powi e"
    and "\<exists>c t. float_text d n e = c # t \<and> c \<noteq> CHR ''-''"
proof -
  let ?k = "decimals_of d e"
  obtain n' k' where st: "strip_zeros n ?k = (n', k')" by force
  note spec = strip_zeros_spec [OF st decimals_bounds(1) assms]
  let ?s = "pad_digits (Suc (nat k')) (nat n')"
  have len: "nat k' < length ?s" using length_pad_digits [of "Suc (nat k')" "nat n'"] by simp
  have shape: "float_text d n e = with_point (int (nat k')) ?s @ exponent_text (e + ?k)"
    unfolding float_text_def st using spec by simp
  have "read_unsigned (float_text d n e) = of_nat (nat n') * 10 powi (e + ?k - k')"
    unfolding shape using len spec pad_digits_digits by (subst read_unsigned_text) simp_all
  also have "\<dots> = of_int n' * 10 ^ nat (?k - k') * 10 powi e"
  proof -
    have add: "(10::rat) powi (i + j) = 10 powi i * 10 powi j" for i j by (simp add: power_int_add)
    have "e + ?k - k' = int (nat (?k - k')) + e" using spec by simp
    then have "10 powi (e + ?k - k') = (10 ^ nat (?k - k') * 10 powi e :: rat)"
      by (simp only: add power_int_of_nat)
    then show ?thesis using spec by simp
  qed
  also have "\<dots> = of_int n * 10 powi e" using spec by simp
  finally show "read_unsigned (float_text d n e) = of_int n * 10 powi e" .
  obtain c t where s: "?s = c # t" using len by (cases ?s) auto
  have "c \<noteq> CHR ''-''" using pad_digits_digits [of c "Suc (nat k')" "nat n'"] s digit_not_sign by simp
  moreover have "\<not> int (Suc (length t)) = int (nat k')" using len unfolding s int_int_eq by simp
  ultimately show "\<exists>c t. float_text d n e = c # t \<and> c \<noteq> CHR ''-''" unfolding shape s by simp
qed

section \<open>What is printed\<close>

lemma plain_real_strs [simp]:
  "plain UnityStrInf" "plain UnityStrNegInf" "plain UnityStrNaN" "plain UnityStrDet"
  "plain UnityStrInvalidFloatTrait" "plain UnityStrNot"
  by (simp_all add: plain_def UnityStrInf_def UnityStrNegInf_def UnityStrNaN_def UnityStrDet_def
      UnityStrInvalidFloatTrait_def UnityStrNot_def)

lemma print_zero [emits]: "UnityPrintFloat d (Fin 0) u = Some (emit ''0'' u)"
  by (simp add: UnityPrintFloat_def print_plain plain_def)

lemma print_special [emits]:
  "UnityPrintFloat d NaN u = Some (emit UnityStrNaN u)"
  "UnityPrintFloat d (Inf s) u = Some (emit (if s then UnityStrNegInf else UnityStrInf) u)"
  by (simp_all add: UnityPrintFloat_def print_plain)

text \<open>The text of a number other than zero, as its sign, its digits and its exponent.\<close>

definition signed_text :: "bool \<Rightarrow> string \<Rightarrow> string" where
  "signed_text s t = (if s then CHR ''-'' # t else t)"

lemma read_signed_text:
  assumes "0 \<le> n"
  shows "read_decimal (signed_text s (float_text d n e)) = (if s then - (of_int n * 10 powi e) else of_int n * 10 powi e)"
proof -
  obtain c t where "float_text d n e = c # t" "c \<noteq> CHR ''-''" using read_float_text(2) [OF assms] by blast
  then show ?thesis using read_float_text(1) [OF assms, of d e] by (simp add: signed_text_def read_decimal_def)
qed

lemma print_float_text:
  assumes "real_value d (Fin x)" and "x \<noteq> 0"
  shows "\<exists>n e. digits_of d \<bar>x\<bar> n e
     \<and> (\<forall>u. UnityPrintFloat d (Fin x) u = Some (emit (signed_text (x < 0) (float_text d n e)) u))"
proof -
  have "real_value d (Fin \<bar>x\<bar>)" "0 < \<bar>x\<bar>" using assms by (auto simp: abs_if)
  from print_float_positive [OF this] obtain n e where digits: "digits_of d \<bar>x\<bar> n e"
    and pos: "\<And>u. UnityPrintFloat d (Fin \<bar>x\<bar>) u = print_scaled d n e u"
    and neg: "\<And>u. UnityPrintFloat d (Fin (- \<bar>x\<bar>)) u = print_scaled d n e (UNITY_OUTPUT_CHAR (CHR ''-'') u)"
    by blast
  have "0 \<le> n" "n < max_scaled d" "\<bar>e\<bar> \<le> 401" using digits min_scaled_bounds(1) [of d] by (simp_all add: digits_of_def)
  note print = print_scaled_emits [OF this]
  have "UnityPrintFloat d (Fin x) u = Some (emit (signed_text (x < 0) (float_text d n e)) u)" for u
  proof (cases "x < 0")
    case True
    then have "Fin x = Fin (- \<bar>x\<bar>)" by simp
    then show ?thesis using True by (simp only: neg print emits emit_emit signed_text_def if_True append.simps)
  next
    case False
    then have "Fin x = Fin \<bar>x\<bar>" by simp
    then show ?thesis using False by (simp only: pos print signed_text_def if_False)
  qed
  with digits show ?thesis by blast
qed

text \<open>It reads back as the number, up to one part in \<open>min_scaled\<close>.\<close>

lemma print_float_reads:
  assumes "real_value d (Fin x)"
  shows "\<exists>t. (\<forall>u. UnityPrintFloat d (Fin x) u = Some (emit t u)) \<and> \<bar>read_decimal t - x\<bar> \<le> \<bar>x\<bar> / of_int (min_scaled d)"
proof (cases "x = 0")
  case True
  have "read_decimal ''0'' = 0" by (simp add: read_decimal_def read_unsigned_def read_nat_def)
  then show ?thesis using True by (intro exI [of _ "''0''"]) (simp add: emits)
next
  case False
  obtain n e where digits: "digits_of d \<bar>x\<bar> n e"
    and print: "\<forall>u. UnityPrintFloat d (Fin x) u = Some (emit (signed_text (x < 0) (float_text d n e)) u)"
    using print_float_text [OF assms False] by blast
  have "0 \<le> n" using digits min_scaled_bounds(1) [of d] by (simp add: digits_of_def)
  then have "\<bar>read_decimal (signed_text (x < 0) (float_text d n e)) - x\<bar> = \<bar>of_int n * 10 powi e - \<bar>x\<bar>\<bar>"
    by (auto simp: read_signed_text abs_if)
  also have "\<dots> \<le> \<bar>x\<bar> / of_int (min_scaled d)" using digits by (simp add: digits_of_def)
  finally show ?thesis using print by blast
qed

lemma print_float_emits:
  assumes "real_value d v"
  obtains t where "\<And>u. UnityPrintFloat d v u = Some (emit t u)"
proof (cases v)
  case (Fin x)
  then show ?thesis using print_float_reads [of d x] assms that by blast
qed (use that in \<open>simp_all add: emits\<close>)

text \<open>
  A text that stands for a value: a number with a relative error of at most one part in a million
  (\<open>float\<close>, 7 significant digits) or in a hundred million (\<open>double\<close>, 9 digits), or the name of an
  infinity or of NaN.  In units of the last digit that is one for the digits 1000000 and nearly ten for
  9999999: for small and large numbers the scaling loops round several times.
\<close>

primrec text_of_real :: "real_type \<Rightarrow> c_real \<Rightarrow> string \<Rightarrow> bool" where
  "text_of_real d (Fin x) t \<longleftrightarrow> \<bar>read_decimal t - x\<bar> \<le> \<bar>x\<bar> / 10 ^ nat (sig_digits d - 1)"
| "text_of_real d (Inf s) t \<longleftrightarrow> t = (if s then ''Negative Infinity'' else ''Infinity'')"
| "text_of_real d NaN t \<longleftrightarrow> t = ''NaN''"

lemma print_float_text_of_real:
  assumes "real_value d v"
  shows "\<exists>t. (\<forall>u. UnityPrintFloat d v u = Some (emit t u)) \<and> text_of_real d v t"
proof (cases v)
  case (Fin x)
  then show ?thesis using print_float_reads [of d x] assms by (auto simp: min_scaled_power)
qed (auto simp: emits UnityStrNaN_def UnityStrInf_def UnityStrNegInf_def)

text \<open>A whole number is printed as \<open>UnityPrintNumber\<close> prints it.\<close>

lemma float_text_whole:
  assumes "0 < n" and "j \<le> 9"
  shows "float_text d (n * 10 ^ j) (- int j) = show_int n"
proof -
  have "decimals_of d (- int j) = int j" using assms(2) by (cases d) (simp_all add: decimals_of_def)
  moreover have "nat n \<noteq> 0" using assms(1) by simp
  ultimately show ?thesis using assms(1)
    by (simp add: float_text_def strip_zeros_power exponent_text_def with_point_after pad_digits_show show_int_def)
qed

lemma print_float_int:
  assumes "\<bar>n\<bar> < max_scaled d"
  shows "UnityPrintFloat d (Fin (of_int n)) u = Some (emit (show_int n) u)"
proof (cases "n = 0")
  case True
  have "dec_digit 0 = CHR ''0''" by code_simp
  then have "show_int 0 = ''0''" by (simp add: show_int_def show_nat.simps)
  then show ?thesis using True by (simp add: emits)
next
  case False
  then obtain j where j: "j \<le> 9" "\<bar>n\<bar> * 10 ^ j < max_scaled d"
    "UnityPrintFloat d (Fin (of_int \<bar>n\<bar>)) u = print_scaled d (\<bar>n\<bar> * 10 ^ j) (- int j) u"
    "UnityPrintFloat d (Fin (- of_int \<bar>n\<bar>)) u = print_scaled d (\<bar>n\<bar> * 10 ^ j) (- int j) (UNITY_OUTPUT_CHAR (CHR ''-'') u)"
    using print_float_whole [of "\<bar>n\<bar>" d u] assms by auto
  have emits': "print_scaled d (\<bar>n\<bar> * 10 ^ j) (- int j) u' = Some (emit (show_int \<bar>n\<bar>) u')" for u'
    using print_scaled_emits [of "\<bar>n\<bar> * 10 ^ j" d "- int j" u'] float_text_whole [of "\<bar>n\<bar>" j d] j(1,2) False by simp
  show ?thesis
  proof (cases "n < 0")
    case True
    then have "rat_of_int n = - of_int \<bar>n\<bar>" by simp
    moreover have "show_int n = CHR ''-'' # show_int \<bar>n\<bar>" using True by (simp add: show_int_def)
    ultimately show ?thesis by (simp only: j(4) emits' emits emit_emit append.simps)
  next
    case False
    then have "\<bar>n\<bar> = n" by simp
    then show ?thesis using j(3) emits' by simp
  qed
qed

end
