(* ===== verification/Unity_Arrays_Correct.thy ===== *)
theory Unity_Arrays_Correct
  imports Unity_Contract
begin

text \<open>
  The assertions over several values meet the contract of \<open>Unity_Contract\<close>: on readable operands
  an array assertion passes exactly when every element does, a string assertion exactly when the
  strings are the same, a memory assertion exactly when the bytes are.
\<close>

section \<open>Null and empty operands\<close>

lemma UnityPrintPointlessAndBail_run:
  "\<exists>s. UnityPrintPointlessAndBail line msg u = Jumps (failed s u)"
  by (simp add: UnityPrintPointlessAndBail_def print_const emits) blast

lemma UnityIsOneArrayNull_run:
  "UnityIsOneArrayNull e a line msg u =
     (if e = a \<or> e \<noteq> NULL \<and> a \<noteq> NULL then (False, u)
      else (True, emit (fail_text line u @
        (if e = NULL then UnityStrNullPointerForExpected else UnityStrNullPointerForActual)
        @ msg_text msg u) u))"
  by (simp add: UnityIsOneArrayNull_def print_const emits)

text \<open>The checks all array assertions begin with.\<close>

lemma array_prologue:
  fixes loop :: "unity \<Rightarrow> unity outcome"
  assumes def: "check u = and_then (RETURN_IF_FAIL_OR_IGNORE u) (\<lambda>u.
      if none then UnityPrintPointlessAndBail line msg u
      else if e = a then Returns u
      else let (null, u) = UnityIsOneArrayNull e a line msg u
           in if null then UNITY_FAIL_AND_BAIL u else loop u)"
    and "idle u"
    and loop: "\<not> none \<Longrightarrow> e \<noteq> a \<Longrightarrow> e \<noteq> NULL \<Longrightarrow> a \<noteq> NULL \<Longrightarrow>
      (if eq then loop u = Returns u else \<exists>s. loop u = Jumps (failed s u))"
  shows "if \<not> none \<and> (e = a \<or> e \<noteq> NULL \<and> a \<noteq> NULL \<and> eq) then check u = Returns u
    else \<exists>s. check u = Jumps (failed s u)"
proof -
  have "check u = (if none then UnityPrintPointlessAndBail line msg u
      else if e = a then Returns u
      else if e \<noteq> NULL \<and> a \<noteq> NULL then loop u
      else Jumps (failed (fail_text line u @
        (if e = NULL then UnityStrNullPointerForExpected else UnityStrNullPointerForActual)
        @ msg_text msg u) u))"
    using assms(2) by (simp add: def UnityIsOneArrayNull_run)
  then show ?thesis
    using loop UnityPrintPointlessAndBail_run [of line msg u] by (cases eq) auto
qed

section \<open>Integer arrays\<close>

definition expected_at :: "array_flags \<Rightarrow> style \<Rightarrow> addr \<Rightarrow> nat \<Rightarrow> addr" where
  "expected_at flags st p i =
     (if flags = UNITY_ARRAY_TO_ARRAY then p + of_nat (i * elem_size st) else p)"

definition actual_at :: "style \<Rightarrow> addr \<Rightarrow> nat \<Rightarrow> addr" where
  "actual_at st p i = p + of_nat (i * elem_size st)"

lemma at_0 [simp]: "expected_at flags st p 0 = p" "actual_at st p 0 = p"
  by (simp_all add: expected_at_def actual_at_def)

lemma at_Suc:
  "expected_at flags st p (Suc i)
     = expected_at flags st (if flags = UNITY_ARRAY_TO_ARRAY then p + of_nat (elem_size st) else p) i"
  "actual_at st p (Suc i) = actual_at st (p + of_nat (elem_size st)) i"
  by (simp_all add: expected_at_def actual_at_def)

text \<open>Every element of the two arrays can be read with \<open>rd\<close>.\<close>

definition array_readable ::
    "(addr \<Rightarrow> u64 option) \<Rightarrow> style \<Rightarrow> array_flags \<Rightarrow> addr \<Rightarrow> addr \<Rightarrow> nat \<Rightarrow> bool" where
  "array_readable rd st flags e a n \<longleftrightarrow>
     (\<forall>i<n. rd (expected_at flags st e i) \<noteq> None \<and> rd (actual_at st a i) \<noteq> None)"

definition array_all ::
    "(u64 \<Rightarrow> u64 \<Rightarrow> bool) \<Rightarrow> (addr \<Rightarrow> u64 option) \<Rightarrow> style \<Rightarrow> array_flags \<Rightarrow> addr \<Rightarrow> addr \<Rightarrow> nat \<Rightarrow> bool" where
  "array_all R rd st flags e a n \<longleftrightarrow>
     (\<forall>i<n. R (the (rd (expected_at flags st e i))) (the (rd (actual_at st a i))))"

lemma array_readable_Suc [simp]:
  "array_readable rd st flags e a (Suc n) \<longleftrightarrow>
     rd e \<noteq> None \<and> rd a \<noteq> None \<and>
     array_readable rd st flags (if flags = UNITY_ARRAY_TO_ARRAY then e + of_nat (elem_size st) else e)
       (a + of_nat (elem_size st)) n"
  by (auto simp: array_readable_def All_less_Suc2 at_Suc)

lemma array_all_Suc [simp]:
  "array_all R rd st flags e a (Suc n) \<longleftrightarrow>
     R (the (rd e)) (the (rd a)) \<and>
     array_all R rd st flags (if flags = UNITY_ARRAY_TO_ARRAY then e + of_nat (elem_size st) else e)
       (a + of_nat (elem_size st)) n"
  by (auto simp: array_all_def All_less_Suc2 at_Suc)

lemma array_all_0 [simp]: "array_all R rd st flags e a 0"
  by (simp add: array_all_def)

lemma UnityAssertEqualIntArray_loop_run:
  assumes "array_readable (int_array_elem m st) st flags e a k"
  shows "if array_all (=) (int_array_elem m st) st flags e a k
    then UnityAssertEqualIntArray_loop m n msg line st flags k e a u = Returns u
    else \<exists>s. UnityAssertEqualIntArray_loop m n msg line st flags k e a u = Jumps (failed s u)"
  using assms
proof (induction k arbitrary: e a)
  case 0
  show ?case by simp
next
  case (Suc k)
  then obtain x y where xy: "int_array_elem m st e = Some x" "int_array_elem m st a = Some y"
    by auto
  show ?case
  proof (cases "x = y")
    case True
    then show ?thesis
      using Suc.IH [OF Suc.prems [unfolded array_readable_Suc, THEN conjunct2, THEN conjunct2]] xy
      by simp
  next
    case False
    then show ?thesis
      using xy by (simp add: print_const emits Let_def) blast
  qed
qed

lemma UnityAssertNumbersArrayWithin_loop_run:
  assumes "array_readable (within_array_elem m st) st flags e a k" and "idle u"
  shows "if array_all (\<lambda>x y. \<not> beyond_delta st d x y) (within_array_elem m st) st flags e a k
    then UnityAssertNumbersArrayWithin_loop m d n msg line st flags k e a u = Returns u
    else \<exists>s. UnityAssertNumbersArrayWithin_loop m d n msg line st flags k e a u = Jumps (failed s u)"
  using assms
proof (induction k arbitrary: e a)
  case 0
  show ?case by simp
next
  case (Suc k)
  then obtain x y where xy: "within_array_elem m st e = Some x" "within_array_elem m st a = Some y"
    by auto
  show ?case
  proof (cases "beyond_delta st d x y")
    case False
    then show ?thesis
      using Suc.IH [OF Suc.prems(1) [unfolded array_readable_Suc, THEN conjunct2, THEN conjunct2]
          Suc.prems(2)] xy Suc.prems(2)
      by (simp add: idle_not_failed)
  next
    case True
    then show ?thesis
      using xy by (simp add: print_const emits Let_def) blast
  qed
qed

text \<open>When the arrays are compared at all.\<close>

definition array_holds :: "bool \<Rightarrow> addr \<Rightarrow> addr \<Rightarrow> bool \<Rightarrow> bool" where
  "array_holds none e a eq \<longleftrightarrow> \<not> none \<and> (e = a \<or> e \<noteq> NULL \<and> a \<noteq> NULL \<and> eq)"

definition array_ready :: "addr \<Rightarrow> addr \<Rightarrow> bool \<Rightarrow> bool" where
  "array_ready e a rdy \<longleftrightarrow> e = a \<or> e = NULL \<or> a = NULL \<or> rdy"

lemma array_assertionI:
  assumes def: "\<And>u. check u = and_then (RETURN_IF_FAIL_OR_IGNORE u) (\<lambda>u.
      if none then UnityPrintPointlessAndBail line msg u
      else if e = a then Returns u
      else let (null, u) = UnityIsOneArrayNull e a line msg u
           in if null then UNITY_FAIL_AND_BAIL u else loop u)"
    and loop: "\<And>u. idle u \<Longrightarrow> \<not> none \<Longrightarrow> rdy \<Longrightarrow>
      if eq then loop u = Returns u else \<exists>s. loop u = Jumps (failed s u)"
  shows "unity_assertion (array_ready e a rdy) (array_holds none e a eq) check"
proof
  show "check u = Jumps u" if "\<not> idle u" for u
    using that by (simp add: def)
next
  fix u
  assume "idle u" and "array_ready e a rdy"
  then have "if \<not> none \<and> (e = a \<or> e \<noteq> NULL \<and> a \<noteq> NULL \<and> eq) then check u = Returns u
    else \<exists>s. check u = Jumps (failed s u)"
    by (intro array_prologue [OF def]) (use loop in \<open>auto simp: array_ready_def\<close>)
  then show "array_holds none e a eq \<Longrightarrow> check u = Returns u"
    and "\<not> array_holds none e a eq \<Longrightarrow> \<exists>s. check u = Jumps (failed s u)"
    by (auto simp: array_holds_def split: if_splits)
qed

interpretation equal_int_array: unity_assertion
    "array_ready e a (array_readable (int_array_elem m st) st flags e a (unat n))"
    "array_holds (n = 0) e a (array_all (=) (int_array_elem m st) st flags e a (unat n))"
    "UnityAssertEqualIntArray m e a n msg line st flags"
  for m e a n msg line st flags
  by (rule array_assertionI [OF UnityAssertEqualIntArray_def], rule UnityAssertEqualIntArray_loop_run)

interpretation within_array: unity_assertion
    "array_ready e a (array_readable (within_array_elem m st) st flags e a (unat n))"
    "array_holds (n = 0) e a
       (array_all (\<lambda>x y. \<not> beyond_delta st d x y) (within_array_elem m st) st flags e a (unat n))"
    "UnityAssertNumbersArrayWithin m d e a n msg line st flags"
  for m d e a n msg line st flags
  by (rule array_assertionI [OF UnityAssertNumbersArrayWithin_def],
      rule UnityAssertNumbersArrayWithin_loop_run)

section \<open>Strings\<close>

text \<open>A C string: no 0 before its end.\<close>

definition c_str :: "string \<Rightarrow> bool" where
  "c_str s \<longleftrightarrow> CHR 0x00 \<notin> set s"

lemma char_at_of_nat:
  assumes "i \<le> length s" and "i < 2 ^ 32"
  shows "char_at s (of_nat i) = Some (if i < length s then s ! i else CHR 0x00)"
  using assms by (auto simp: char_at_def unat_of_nat)

lemma c_str_nth: "c_str s \<Longrightarrow> i < length s \<Longrightarrow> s ! i \<noteq> CHR 0x00"
  by (auto simp: c_str_def in_set_conv_nth)

lemma strings_differ_run:
  assumes "c_str e" and "c_str a" and "min (length e) (length a) < 2 ^ 32"
    and "i \<le> length e" and "i \<le> length a"
  shows "strings_differ e a (of_nat i) = Some (drop i e \<noteq> drop i a)"
  using assms(4,5)
proof (induction "length e - i" arbitrary: i)
  case 0
  then have "drop i e \<noteq> drop i a \<longleftrightarrow> i < length a" by auto
  moreover have "char_at e (of_nat i) = Some (CHR 0x00)"
    and "char_at a (of_nat i) = Some (if i < length a then a ! i else CHR 0x00)"
    using 0 assms(3) by (simp_all add: char_at_of_nat)
  ultimately show ?case
    using c_str_nth [OF assms(2), of i] by (subst strings_differ.simps) auto
next
  case (Suc k)
  then have lt: "i < length e" by simp
  have ce: "char_at e (of_nat i) = Some (e ! i)"
    and ca: "char_at a (of_nat i) = Some (if i < length a then a ! i else CHR 0x00)"
    using Suc lt assms(3) by (simp_all add: char_at_of_nat)
  have ne: "e ! i \<noteq> CHR 0x00"
    using lt by (rule c_str_nth [OF assms(1)])
  show ?case
  proof (cases "i < length a \<and> e ! i = a ! i")
    case True
    then have "drop i e \<noteq> drop i a \<longleftrightarrow> drop (Suc i) e \<noteq> drop (Suc i) a"
      using lt by (simp add: Cons_nth_drop_Suc [symmetric])
    moreover have "strings_differ e a (of_nat (Suc i)) = Some (drop (Suc i) e \<noteq> drop (Suc i) a)"
      using Suc True by (intro Suc.hyps) auto
    ultimately show ?thesis
      using True ce ca ne by (subst strings_differ.simps) (simp add: add.commute)
  next
    case False
    then have "drop i e \<noteq> drop i a"
      using lt by (cases "i < length a") (auto simp: Cons_nth_drop_Suc [symmetric])
    then show ?thesis
      using False ce ca ne by (subst strings_differ.simps) auto
  qed
qed

lemma strings_differ_len_run:
  assumes "c_str e" and "c_str a" and "i \<le> length e" and "i \<le> length a" and "i \<le> unat len"
  shows "strings_differ_len e a len (of_nat i)
    = Some (take (unat len - i) (drop i e) \<noteq> take (unat len - i) (drop i a))"
  using assms(3-)
proof (induction "unat len - i" arbitrary: i)
  case 0
  have "unat len < 2 ^ 32"
    using unsigned_less [of len] by simp
  with 0 have "\<not> (of_nat i :: u32) < len"
    by (simp add: word_less_nat_alt unat_of_nat)
  then show ?case
    using 0 by (subst strings_differ_len.simps) simp
next
  case (Suc k)
  have small: "unat len < 2 ^ 32"
    using unsigned_less [of len] by simp
  then have i: "i < unat len" "i < 2 ^ 32" "(of_nat i :: u32) < len"
    using Suc.hyps(2) by (auto simp: word_less_nat_alt unat_of_nat)
  have ce: "char_at e (of_nat i) = Some (if i < length e then e ! i else CHR 0x00)"
    and ca: "char_at a (of_nat i) = Some (if i < length a then a ! i else CHR 0x00)"
    using Suc.prems i by (simp_all add: char_at_of_nat)
  have ne: "i < length e \<Longrightarrow> e ! i \<noteq> CHR 0x00" "i < length a \<Longrightarrow> a ! i \<noteq> CHR 0x00"
    using assms(1,2) by (simp_all add: c_str_nth)
  have j: "unat len - i = Suc (unat len - Suc i)"
    using i(1) by simp
  show ?case
  proof (cases "i < length e \<and> i < length a \<and> e ! i = a ! i")
    case True
    then have "take (unat len - i) (drop i e) \<noteq> take (unat len - i) (drop i a) \<longleftrightarrow>
        take (unat len - Suc i) (drop (Suc i) e) \<noteq> take (unat len - Suc i) (drop (Suc i) a)"
      using j by (simp add: Cons_nth_drop_Suc [symmetric])
    moreover have "strings_differ_len e a len (of_nat (Suc i)) = Some
        (take (unat len - Suc i) (drop (Suc i) e) \<noteq> take (unat len - Suc i) (drop (Suc i) a))"
      using Suc True i by (intro Suc.hyps(1)) auto
    ultimately show ?thesis
      using True ce ca ne i by (subst strings_differ_len.simps) (simp add: add.commute)
  next
    case False
    then show ?thesis
      using j ce ca ne i Suc.prems
      by (subst strings_differ_len.simps)
        (cases "i < length e"; cases "i < length a";
          auto simp: Cons_nth_drop_Suc [symmetric])
  qed
qed

definition strings_text :: "string option \<Rightarrow> string option \<Rightarrow> string" where
  "strings_text e a =
     UnityStrExpected @ (if e \<noteq> None then [CHR 0x27] @ opt_text e @ [CHR 0x27] else UnityStrNull)
     @ UnityStrWas @ (if a \<noteq> None then [CHR 0x27] @ opt_text a @ [CHR 0x27] else UnityStrNull)"

lemma strings_report:
  "UnityPrintExpectedAndActualStrings e a u = emit (strings_text e a) u"
  by (auto simp: UnityPrintExpectedAndActualStrings_def strings_text_def print_const emits
      UnityPrint_emits esc_plain)

abbreviation len_text :: "u32 \<Rightarrow> string option \<Rightarrow> string" where
  "len_text len s \<equiv> (case s of None \<Rightarrow> [] | Some t \<Rightarrow> esc_string (take (unat len) (c_string t)))"

definition strings_len_text :: "string option \<Rightarrow> string option \<Rightarrow> u32 \<Rightarrow> string" where
  "strings_len_text e a len =
     UnityStrExpected @ (if e \<noteq> None then [CHR 0x27] @ len_text len e @ [CHR 0x27] else UnityStrNull)
     @ UnityStrWas @ (if a \<noteq> None then [CHR 0x27] @ len_text len a @ [CHR 0x27] else UnityStrNull)"

lemma strings_len_report:
  "UnityPrintExpectedAndActualStringsLen e a len u = emit (strings_len_text e a len) u"
  by (auto simp: UnityPrintExpectedAndActualStringsLen_def strings_len_text_def print_const emits
      UnityPrint_emits esc_plain)

lemma string_test_run:
  assumes "idle u" and "\<And>e a. expected = Some e \<Longrightarrow> actual = Some a \<Longrightarrow> differ e a = Some (\<not> same e a)"
  shows "string_test differ expected actual u = Some (u\<lparr>CurrentTestFailed :=
    of_bool (\<not> (case (expected, actual) of (Some e, Some a) \<Rightarrow> same e a | (None, None) \<Rightarrow> True | _ \<Rightarrow> False))\<rparr>)"
  using assms by (auto simp: string_test_def split: option.split)

text \<open>
  Two operands the comparison is defined for: null, or C strings of which one is shorter than
  4 GiB.
\<close>

definition strings_ready :: "string option \<Rightarrow> string option \<Rightarrow> bool" where
  "strings_ready e a \<longleftrightarrow>
     (case (e, a) of (Some x, Some y) \<Rightarrow> c_str x \<and> c_str y \<and> min (length x) (length y) < 2 ^ 32
      | _ \<Rightarrow> True)"

lemma string_test_equal:
  assumes "idle u" and "strings_ready e a"
  shows "string_test (\<lambda>x y. strings_differ x y 0) e a u
    = Some (u\<lparr>CurrentTestFailed := of_bool (e \<noteq> a)\<rparr>)"
proof -
  have "strings_differ x y 0 = Some (\<not> x = y)" if "e = Some x" "a = Some y" for x y
    using strings_differ_run [of x y 0] assms(2) that by (simp add: strings_ready_def)
  from string_test_run [OF assms(1) this] show ?thesis
    by (auto split: option.splits)
qed

interpretation equal_string: unity_assertion "strings_ready e a" "e = a"
    "UnityAssertEqualString e a msg line"
  for e a msg line
proof
  fix u
  show "\<not> idle u \<Longrightarrow> UnityAssertEqualString e a msg line u = Jumps u"
    by (simp add: UnityAssertEqualString_def)
  show "UnityAssertEqualString e a msg line u = Returns u"
    if "idle u" "strings_ready e a" "e = a"
    using that by (simp add: UnityAssertEqualString_def string_test_equal idle_not_failed)
  show "\<exists>s. UnityAssertEqualString e a msg line u = Jumps (failed s u)"
    if "idle u" "strings_ready e a" "e \<noteq> a"
    using that
    by (simp add: UnityAssertEqualString_def string_test_equal emits print_const
        strings_report) blast
qed

definition strings_len_ready :: "string option \<Rightarrow> string option \<Rightarrow> bool" where
  "strings_len_ready e a \<longleftrightarrow> pred_option c_str e \<and> pred_option c_str a"

text \<open>The first \<open>len\<close> characters are the same, or both pointers are null.\<close>

definition same_prefix :: "u32 \<Rightarrow> string option \<Rightarrow> string option \<Rightarrow> bool" where
  "same_prefix len e a \<longleftrightarrow> map_option (take (unat len)) e = map_option (take (unat len)) a"

lemma string_test_len:
  assumes "idle u" and "strings_len_ready e a"
  shows "string_test (\<lambda>x y. strings_differ_len x y len 0) e a u
    = Some (u\<lparr>CurrentTestFailed := of_bool (\<not> same_prefix len e a)\<rparr>)"
proof -
  have "strings_differ_len x y len 0 = Some (\<not> take (unat len) x = take (unat len) y)"
    if "e = Some x" "a = Some y" for x y
    using strings_differ_len_run [of x y 0 len] assms(2) that by (simp add: strings_len_ready_def)
  from string_test_run [OF assms(1) this] show ?thesis
    by (auto simp: same_prefix_def split: option.splits)
qed

interpretation equal_string_len: unity_assertion "strings_len_ready e a" "same_prefix len e a"
    "UnityAssertEqualStringLen e a len msg line"
  for e a len msg line
proof
  fix u
  show "\<not> idle u \<Longrightarrow> UnityAssertEqualStringLen e a len msg line u = Jumps u"
    by (simp add: UnityAssertEqualStringLen_def)
  show "UnityAssertEqualStringLen e a len msg line u = Returns u"
    if "idle u" "strings_len_ready e a" "same_prefix len e a"
    using that by (simp add: UnityAssertEqualStringLen_def string_test_len idle_not_failed)
  show "\<exists>s. UnityAssertEqualStringLen e a len msg line u = Jumps (failed s u)"
    if "idle u" "strings_len_ready e a" "\<not> same_prefix len e a"
    using that
    by (simp add: UnityAssertEqualStringLen_def string_test_len emits print_const
        strings_len_report) blast
qed

section \<open>Arrays of strings\<close>

definition string_array_ready ::
    "cmem \<Rightarrow> (addr \<Rightarrow> string) \<Rightarrow> array_flags \<Rightarrow> addr \<Rightarrow> addr \<Rightarrow> nat \<Rightarrow> bool" where
  "string_array_ready m strs flags e a i \<longleftrightarrow>
     (case (if flags = UNITY_ARRAY_TO_ARRAY then load64 m (e + 8 * of_nat i) else Some e,
            load64 m (a + 8 * of_nat i)) of
        (Some p, Some q) \<Rightarrow> strings_ready (string_of_ptr strs p) (string_of_ptr strs q)
      | _ \<Rightarrow> False)"

definition string_array_same ::
    "cmem \<Rightarrow> (addr \<Rightarrow> string) \<Rightarrow> array_flags \<Rightarrow> addr \<Rightarrow> addr \<Rightarrow> nat \<Rightarrow> bool" where
  "string_array_same m strs flags e a i \<longleftrightarrow>
     string_of_ptr strs
       (the (if flags = UNITY_ARRAY_TO_ARRAY then load64 m (e + 8 * of_nat i) else Some e))
     = string_of_ptr strs (the (load64 m (a + 8 * of_nat i)))"

lemma ucast_of_nat_u32:
  assumes "i < 2 ^ 32"
  shows "(ucast (of_nat i :: u32) :: u64) = of_nat i"
  using assms by (simp add: word_unat_eq_iff unsigned_ucast_eq unat_of_nat take_bit_nat_eq_self)

lemma all_from: "(\<forall>k. i \<le> k \<longrightarrow> k < n \<longrightarrow> P k) \<longleftrightarrow> P i \<and> (\<forall>k. Suc i \<le> k \<longrightarrow> k < n \<longrightarrow> P k)"
  if "i < (n :: nat)"
proof -
  have split: "i \<le> k \<longleftrightarrow> k = i \<or> Suc i \<le> k" for k
    by auto
  show ?thesis
    unfolding split using that by auto
qed

lemma UnityAssertEqualStringArray_loop_run:
  assumes "i < unat n" and "idle u"
    and "\<forall>k. i \<le> k \<longrightarrow> k < unat n \<longrightarrow> string_array_ready m strs flags e a k"
  shows "if \<forall>k. i \<le> k \<longrightarrow> k < unat n \<longrightarrow> string_array_same m strs flags e a k
    then UnityAssertEqualStringArray_loop m strs n msg line flags (of_nat i) e a u = Returns u
    else \<exists>s. UnityAssertEqualStringArray_loop m strs n msg line flags (of_nat i) e a u
      = Jumps (failed s u)"
  using assms(1,3)
proof (induction "unat n - i" arbitrary: i)
  case 0
  then show ?case by simp
next
  case (Suc d)
  have n: "unat n < 2 ^ 32"
    using unsigned_less [of n] by simp
  then have i: "(ucast (of_nat i :: u32) :: u64) = of_nat i"
    using Suc.prems(1) by (intro ucast_of_nat_u32) simp
  have "string_array_ready m strs flags e a i"
    using Suc.prems by simp
  then obtain p q where
      p: "(if flags = UNITY_ARRAY_TO_ARRAY then load64 m (e + 8 * of_nat i) else Some e) = Some p"
      and q: "load64 m (a + 8 * of_nat i) = Some q"
      and ready: "strings_ready (string_of_ptr strs p) (string_of_ptr strs q)"
    by (auto simp: string_array_ready_def simp del: split_paired_Ex split: option.splits if_split_asm)
  have same: "string_array_same m strs flags e a i \<longleftrightarrow> string_of_ptr strs p = string_of_ptr strs q"
    using p q by (simp add: string_array_same_def)
  note test = string_test_equal [OF assms(2) ready]
  note unfold = UnityAssertEqualStringArray_loop.simps
    [of m strs n msg line flags "of_nat i" e a u, unfolded i p q]
  have more: "(of_nat i + 1 :: u32) < n \<longleftrightarrow> Suc i < unat n"
    using n Suc.prems(1) by (simp add: word_less_nat_alt unat_word_ariths unat_of_nat mod_Suc)
  show ?case
  proof (cases "string_of_ptr strs p = string_of_ptr strs q")
    case False
    then show ?thesis
      using same Suc.prems(1) unfolding unfold
      by (auto simp: test print_const emits strings_report Let_def emit_cond)
  next
    case True
    then have pass: "UnityAssertEqualStringArray_loop m strs n msg line flags (of_nat i) e a u
      = (if Suc i < unat n
         then UnityAssertEqualStringArray_loop m strs n msg line flags (of_nat (Suc i)) e a u
         else Returns u)"
      using more assms(2) unfolding unfold
      by (simp add: test [unfolded True] idle_not_failed add.commute)
    show ?thesis
    proof (cases "Suc i < unat n")
      case True
      have d: "d = unat n - Suc i"
        using Suc.hyps(2) by simp
      have "\<forall>k. Suc i \<le> k \<longrightarrow> k < unat n \<longrightarrow> string_array_ready m strs flags e a k"
        using Suc.prems(2) by simp
      from Suc.hyps(1) [OF d True this] show ?thesis
        using True same \<open>string_of_ptr strs p = string_of_ptr strs q\<close>
        unfolding all_from [OF Suc.prems(1)] pass by (simp cong: if_cong)
    next
      case False
      then have only: "\<And>k. i \<le> k \<Longrightarrow> k < unat n \<Longrightarrow> k = i"
        by simp
      show ?thesis
        using pass False same \<open>string_of_ptr strs p = string_of_ptr strs q\<close> by (auto dest: only)
    qed
  qed
qed

interpretation equal_string_array: unity_assertion
    "array_ready e a (\<forall>k < unat n. string_array_ready m strs flags e a k)"
    "array_holds (n = 0) e a (\<forall>k < unat n. string_array_same m strs flags e a k)"
    "UnityAssertEqualStringArray m strs e a n msg line flags"
  for m strs e a n msg line flags
proof (rule array_assertionI [OF UnityAssertEqualStringArray_def])
  fix u
  assume "idle u" and "n \<noteq> 0" and "\<forall>k < unat n. string_array_ready m strs flags e a k"
  then show "if \<forall>k < unat n. string_array_same m strs flags e a k
    then UnityAssertEqualStringArray_loop m strs n msg line flags 0 e a u = Returns u
    else \<exists>s. UnityAssertEqualStringArray_loop m strs n msg line flags 0 e a u = Jumps (failed s u)"
    using UnityAssertEqualStringArray_loop_run [of 0 n u m strs flags e a msg line]
    by (simp add: unat_gt_0 cong: if_cong)
qed

section \<open>Memory\<close>

lemma UnityAssertEqualMemory_bytes_run:
  assumes "\<forall>i<n. mapped m (pe + of_nat i) 1 \<and> mapped m (pa + of_nat i) 1"
  shows "if \<forall>i<n. bytes m (pe + of_nat i) = bytes m (pa + of_nat i)
    then UnityAssertEqualMemory_bytes m len num el msg line k n pe pa u
      = k (pe + of_nat n) (pa + of_nat n) u
    else \<exists>s. UnityAssertEqualMemory_bytes m len num el msg line k n pe pa u = Jumps (failed s u)"
  using assms
proof (induction n arbitrary: pe pa)
  case 0
  show ?case by simp
next
  case (Suc n)
  have first: "load8 m pe = Some (bytes m pe)" "load8 m pa = Some (bytes m pa)"
    using Suc.prems by (auto simp: load8_def All_less_Suc2)
  have rest: "\<forall>i<n. mapped m (pe + 1 + of_nat i) 1 \<and> mapped m (pa + 1 + of_nat i) 1"
    using Suc.prems by (auto simp: All_less_Suc2 add.assoc)
  show ?case
  proof (cases "bytes m pe = bytes m pa")
    case True
    then show ?thesis
      using Suc.IH [OF rest] first by (simp add: All_less_Suc2 add.assoc cong: if_cong)
  next
    case False
    then show ?thesis
      using first by (simp add: All_less_Suc2 print_const emits emit_cond Let_def) blast
  qed
qed

text \<open>Where element \<open>i\<close> of the expected side is read.\<close>

definition memory_at :: "array_flags \<Rightarrow> addr \<Rightarrow> u32 \<Rightarrow> nat \<Rightarrow> addr" where
  "memory_at flags p len i = (if flags = UNITY_ARRAY_TO_VAL then p else p + of_nat (i * unat len))"

definition memory_ready :: "cmem \<Rightarrow> array_flags \<Rightarrow> addr \<Rightarrow> addr \<Rightarrow> u32 \<Rightarrow> nat \<Rightarrow> bool" where
  "memory_ready m flags e a len n \<longleftrightarrow>
     (\<forall>i<n. \<forall>b<unat len. mapped m (memory_at flags e len i + of_nat b) 1
        \<and> mapped m (a + of_nat (i * unat len) + of_nat b) 1)"

definition memory_same :: "cmem \<Rightarrow> array_flags \<Rightarrow> addr \<Rightarrow> addr \<Rightarrow> u32 \<Rightarrow> nat \<Rightarrow> bool" where
  "memory_same m flags e a len n \<longleftrightarrow>
     (\<forall>i<n. \<forall>b<unat len. bytes m (memory_at flags e len i + of_nat b)
        = bytes m (a + of_nat (i * unat len) + of_nat b))"

lemma memory_at_0 [simp]: "memory_at flags p len 0 = p"
  by (simp add: memory_at_def)

lemma memory_at_Suc:
  "memory_at flags p len (Suc i)
     = memory_at flags (if flags = UNITY_ARRAY_TO_VAL then p else p + of_nat (unat len)) len i"
  by (simp add: memory_at_def)

lemma memory_Suc:
  "memory_ready m flags e a len (Suc n) \<longleftrightarrow>
     (\<forall>b<unat len. mapped m (e + of_nat b) 1 \<and> mapped m (a + of_nat b) 1) \<and>
     memory_ready m flags (if flags = UNITY_ARRAY_TO_VAL then e else e + of_nat (unat len))
       (a + of_nat (unat len)) len n"
  "memory_same m flags e a len (Suc n) \<longleftrightarrow>
     (\<forall>b<unat len. bytes m (e + of_nat b) = bytes m (a + of_nat b)) \<and>
     memory_same m flags (if flags = UNITY_ARRAY_TO_VAL then e else e + of_nat (unat len))
       (a + of_nat (unat len)) len n"
  by (simp_all add: memory_ready_def memory_same_def All_less_Suc2 memory_at_Suc add.assoc distrib_right)

lemma then_rest:
  assumes "if A then X = Y else \<exists>s. X = Jumps (failed s u)"
    and "if B then Y = Returns u else \<exists>s. Y = Jumps (failed s u)"
  shows "if A \<and> B then X = Returns u else \<exists>s. X = Jumps (failed s u)"
  using assms by (cases A; cases B) auto

lemma UnityAssertEqualMemory_loop_run:
  assumes "memory_ready m flags pe pa len n" and "flags = UNITY_ARRAY_TO_VAL \<longrightarrow> pe = e"
  shows "if memory_same m flags pe pa len n
    then UnityAssertEqualMemory_loop m e len num msg line flags n pe pa u = Returns u
    else \<exists>s. UnityAssertEqualMemory_loop m e len num msg line flags n pe pa u = Jumps (failed s u)"
  using assms
proof (induction n arbitrary: pe pa)
  case 0
  show ?case by (simp add: memory_same_def)
next
  case (Suc n)
  let ?pe = "if flags = UNITY_ARRAY_TO_VAL then e else pe + of_nat (unat len)"
  have next_pe: "(if flags = UNITY_ARRAY_TO_VAL then pe else pe + of_nat (unat len)) = ?pe"
    using Suc.prems(2) by simp
  have ih: "if memory_same m flags ?pe (pa + of_nat (unat len)) len n
    then UnityAssertEqualMemory_loop m e len num msg line flags n ?pe (pa + of_nat (unat len)) u
      = Returns u
    else \<exists>s. UnityAssertEqualMemory_loop m e len num msg line flags n ?pe (pa + of_nat (unat len)) u
      = Jumps (failed s u)"
    using Suc.prems(1) unfolding memory_Suc next_pe by (intro Suc.IH) auto
  have now: "\<forall>b<unat len. mapped m (pe + of_nat b) 1 \<and> mapped m (pa + of_nat b) 1"
    using Suc.prems(1) unfolding memory_Suc by blast
  show ?case
    unfolding memory_Suc next_pe UnityAssertEqualMemory_loop.simps
    by (rule then_rest [OF UnityAssertEqualMemory_bytes_run [OF now, where k =
        "\<lambda>ptr_exp ptr_act u. UnityAssertEqualMemory_loop m e len num msg line flags n
            (if flags = UNITY_ARRAY_TO_VAL then e else ptr_exp) ptr_act u"] ih])
qed

interpretation equal_memory: unity_assertion
    "array_ready e a (memory_ready m flags e a len (unat n))"
    "array_holds (n = 0 \<or> len = 0) e a (memory_same m flags e a len (unat n))"
    "UnityAssertEqualMemory m e a len n msg line flags"
  for m e a len n msg line flags
proof (rule array_assertionI)
  fix u
  show "UnityAssertEqualMemory m e a len n msg line flags u =
    and_then (RETURN_IF_FAIL_OR_IGNORE u) (\<lambda>u.
      if n = 0 \<or> len = 0 then UnityPrintPointlessAndBail line msg u
      else if e = a then Returns u
      else let (null, u) = UnityIsOneArrayNull e a line msg u
           in if null then UNITY_FAIL_AND_BAIL u
              else UnityAssertEqualMemory_loop m e len n msg line flags (unat n) e a u)"
    unfolding UnityAssertEqualMemory_def by (cases "n = 0") simp_all
qed (rule UnityAssertEqualMemory_loop_run, simp_all)

text \<open>With arrays on both sides, the bytes of all elements are compared in one run.\<close>

lemma memory_same_array:
  assumes "flags \<noteq> UNITY_ARRAY_TO_VAL" and "0 < unat len"
  shows "memory_same m flags e a len n \<longleftrightarrow>
    (\<forall>i < n * unat len. bytes m (e + of_nat i) = bytes m (a + of_nat i))"
  using assms all_blocks [OF assms(2), where P = "\<lambda>i. bytes m (e + of_nat i) = bytes m (a + of_nat i)"]
  by (simp add: memory_same_def memory_at_def add.assoc)

end
