(* ===== verification/Unity_Float_Correct.thy ===== *)
theory Unity_Float_Correct
  imports Unity_Float_Text Unity_Arrays_Correct
begin

text \<open>
  The assertions on \<open>float\<close> and \<open>double\<close>: the comparison within a delta, the contract of
  \<open>Unity_Contract\<close> for every assertion function, and the values that are read from memory.
\<close>

section \<open>Values in memory\<close>

lemma representable_decode:
  assumes "0 \<le> m" and "m \<le> 2 ^ precision f" and "0 \<le> k"
  shows "representable f (of_int m * 2 powi (min_exp f - int (precision f - 1) + k))"
  using assms precision_ge [of f] by (intro representable_scaled) (simp_all add: of_nat_diff)

lemma decode_value:
  assumes m: "0 \<le> m" "m < 2 ^ (precision f - 1)" and e: "0 \<le> e" "e \<le> 2 * over_exp f - 1"
  shows "real_value f (decode s e m f)"
proof -
  let ?p = "precision f - 1"
  have p: "2 * 2 ^ ?p = (2 :: int) ^ precision f" by (cases f) simp_all
  define x :: rat where "x = (if e = 0 then of_int m * 2 powi (min_exp f - int ?p)
      else of_int (2 ^ ?p + m) * 2 powi (min_exp f - int ?p + e - 1))"
  have rep: "representable f x"
  proof (cases "e = 0")
    case True
    then show ?thesis using representable_decode [of m f 0] m p by (simp add: x_def)
  next
    case False
    have "representable f (of_int (2 ^ ?p + m) * 2 powi (min_exp f - int ?p + (e - 1)))"
      using m e p False by (intro representable_decode) simp_all
    then show ?thesis using False by (simp only: x_def if_False add_diff_eq)
  qed
  have "\<bar>x\<bar> < pow2i (over_exp f)" if top: "e \<noteq> 2 * over_exp f - 1"
  proof (cases "e = 0")
    case True
    have "of_int m < rat_of_int (2 ^ ?p)" using m(2) by (simp only: of_int_less_iff)
    then have "of_int m * pow2i (min_exp f - int ?p) < pow2i (int ?p) * pow2i (min_exp f - int ?p)"
      by (intro mult_strict_right_mono) (simp_all add: pow2i_nat)
    also have "\<dots> = pow2i (min_exp f)" unfolding pow2i_add [symmetric] by simp
    also have "\<dots> < pow2i (over_exp f)" unfolding pow2i_less_iff using min_exp_le [of f] over_exp_ge [of f] by simp
    finally show ?thesis using True m(1) by (simp add: x_def abs_mult)
  next
    case False
    have "of_int (2 ^ ?p + m) < rat_of_int (2 * 2 ^ ?p)" using m(2) by (simp only: of_int_less_iff)
    then have "of_int (2 ^ ?p + m) < pow2i (int ?p + 1)" by (simp add: pow2i_Suc)
    then have "of_int (2 ^ ?p + m) * pow2i (min_exp f - int ?p + e - 1)
        < pow2i (int ?p + 1) * pow2i (min_exp f - int ?p + e - 1)"
      by (intro mult_strict_right_mono) simp_all
    also have "\<dots> = pow2i (min_exp f + e)" unfolding pow2i_add [symmetric] by simp
    also have "\<dots> \<le> pow2i (over_exp f)" unfolding pow2i_le_iff using top e(2) by (cases f) simp_all
    finally show ?thesis using False m(1) by (simp add: x_def abs_mult)
  qed
  moreover have "decode s e m f = (if e = 2 * over_exp f - 1 then if m = 0 then Inf s else NaN
      else Fin (if s then - x else x))"
    by (simp only: decode_def Let_def x_def)
  ultimately show ?thesis using rep by simp
qed

lemma float_of_bits_value [simp]: "real_value C_float (float_of_bits w)"
  unfolding float_of_bits_def
proof (rule decode_value)
  have "uint (drop_bit 23 w) mod 2 ^ 8 < 2 ^ 8" by simp
  then show "uint (drop_bit 23 w) mod 2 ^ 8 \<le> 2 * over_exp C_float - 1" by simp
qed simp_all

lemma double_of_bits_value [simp]: "real_value C_double (double_of_bits w)"
  unfolding double_of_bits_def
proof (rule decode_value)
  have "uint (drop_bit 52 w) mod 2 ^ 11 < 2 ^ 11" by simp
  then show "uint (drop_bit 52 w) mod 2 ^ 11 \<le> 2 * over_exp C_double - 1" by simp
qed simp_all

lemma load_real_value: "load_real f m p = Some v \<Longrightarrow> real_value f v"
  by (cases f) auto

text \<open>A \<open>float\<close> is a \<open>double\<close>.\<close>

lemma real_value_widen: "real_value C_float v \<Longrightarrow> real_value C_double v"
proof (cases v)
  case (Fin x)
  assume "real_value C_float v"
  then have "representable C_double x" "\<bar>x\<bar> < pow2i 128" using Fin by (simp_all add: representable_widen)
  moreover have "pow2i 128 < pow2i 1024" unfolding pow2i_less_iff by simp
  ultimately have "\<bar>x\<bar> < pow2i 1024" by linarith
  then show ?thesis using Fin \<open>representable C_double x\<close> by simp
qed simp_all

section \<open>Comparison within a delta\<close>

abbreviation real_within :: "real_type \<Rightarrow> c_real \<Rightarrow> c_real \<Rightarrow> c_real \<Rightarrow> bool" where
  "real_within \<equiv> UNITY_FLOAT_OR_DOUBLE_WITHIN"

lemma abs_real: "(if c_less (Fin x) (Fin 0) then c_neg (Fin x) else Fin x) = Fin \<bar>x\<bar>"
  by (simp add: abs_if)

lemma c_sub_fin: "c_sub f (Fin a) (Fin e) = round_real f (a - e)"
  by (simp add: c_sub_def)

text \<open>Two finite numbers are within a delta exactly when their rounded distance is.\<close>

lemma within_finite:
  "real_within f (Fin d) (Fin e) (Fin a) \<longleftrightarrow> \<bar>nearest f (a - e)\<bar> < pow2i (over_exp f) \<and> \<bar>nearest f (a - e)\<bar> \<le> \<bar>d\<bar>"
proof (cases "\<bar>nearest f (a - e)\<bar> \<ge> pow2i (over_exp f)")
  case True
  then have "c_sub f (Fin a) (Fin e) = Inf (a - e < 0)" by (simp add: c_sub_fin round_real_def Let_def)
  then show ?thesis using True by (simp add: UNITY_FLOAT_OR_DOUBLE_WITHIN_def Let_def)
next
  case False
  then have "c_sub f (Fin a) (Fin e) = Fin (nearest f (a - e))" by (simp add: c_sub_fin round_real_def Let_def)
  then show ?thesis using False
    by (simp add: UNITY_FLOAT_OR_DOUBLE_WITHIN_def Let_def abs_real del: c_less.simps c_neg.simps) (simp add: not_less)
qed

lemma within_nan:
  "real_within f d NaN NaN" "real_within f d NaN (Inf s) = False" "real_within f d NaN (Fin x) = False"
  "real_within f d (Inf s) NaN = False" "real_within f d (Fin x) NaN = False"
  by (simp_all add: UNITY_FLOAT_OR_DOUBLE_WITHIN_def c_sub_def Let_def)

lemma within_inf:
  "real_within f d (Inf s) (Inf t) \<longleftrightarrow> s = t"
  "real_within f d (Inf s) (Fin x) = False" "real_within f d (Fin x) (Inf s) = False"
  by (cases s; cases t; simp add: UNITY_FLOAT_OR_DOUBLE_WITHIN_def c_sub_def Let_def)+

lemma abs_nearest: "\<bar>nearest f x\<bar> = nearest f \<bar>x\<bar>"
  using nearest_nonneg [of x f] nearest_nonneg [of "- x" f] by (auto simp: abs_if nearest_minus)

text \<open>A distance that is not above the delta passes, whatever the rounding.\<close>

lemma within_complete:
  assumes "real_value f (Fin d)" and "\<bar>a - e\<bar> \<le> \<bar>d\<bar>"
  shows "real_within f (Fin d) (Fin e) (Fin a)"
proof -
  have "representable f \<bar>d\<bar>" using assms(1) by (auto simp: abs_if)
  with assms(2) have "nearest f \<bar>a - e\<bar> \<le> \<bar>d\<bar>" by (rule nearest_le_representable)
  then show ?thesis using assms(1) by (simp add: within_finite abs_nearest)
qed

text \<open>What passes is within the delta up to half a unit in the last place.\<close>

lemma representable_multiple:
  assumes "representable f x"
  shows "\<exists>n. x = of_int n * pow2i (min_exp f - int (precision f) + 1)"
proof -
  let ?k = "min_exp f - int (precision f) + 1"
  obtain n k where x: "x = of_int n * pow2i k" and k: "?k \<le> k" using assms by (auto simp: representable_def)
  have "pow2i k = pow2i (k - ?k) * pow2i ?k" by (simp flip: pow2i_add)
  also have "pow2i (k - ?k) = of_int (2 ^ nat (k - ?k))" using k by (intro pow2i_nat) simp
  finally have "x = of_int (n * 2 ^ nat (k - ?k)) * pow2i ?k" by (simp add: x)
  then show ?thesis by blast
qed

lemma difference_relative:
  assumes "representable f a" and "representable f e"
  shows "\<bar>a - e\<bar> * (1 - unit_error f) \<le> nearest f \<bar>a - e\<bar>"
proof (cases "pow2i (min_exp f) \<le> \<bar>a - e\<bar>")
  case True
  from nearest_relative [OF this] show ?thesis by (simp add: algebra_simps)
next
  case False
  let ?k = "min_exp f - int (precision f) + 1"
  obtain n m where "a = of_int n * pow2i ?k" "e = of_int m * pow2i ?k"
    using representable_multiple assms by blast
  then have eq: "a - e = of_int (n - m) * pow2i ?k" by (simp add: algebra_simps)
  have "\<bar>a - e\<bar> = of_int \<bar>n - m\<bar> * pow2i ?k" unfolding eq by (simp add: abs_mult)
  moreover have "pow2i (min_exp f) \<le> pow2i (int (precision f)) * pow2i ?k"
    unfolding pow2i_add [symmetric] pow2i_le_iff by simp
  ultimately have "of_int \<bar>n - m\<bar> * pow2i ?k < pow2i (int (precision f)) * pow2i ?k" using False by linarith
  then have "of_int \<bar>n - m\<bar> < pow2i (int (precision f))" by (simp only: mult_less_cancel_right_pos pow2i_pos)
  then have "of_int \<bar>n - m\<bar> < rat_of_int (2 ^ precision f)" by (simp only: pow2i_nat of_nat_0_le_iff nat_int)
  then have "\<bar>n - m\<bar> \<le> 2 ^ precision f" by (simp only: of_int_less_iff less_imp_le)
  then have "representable f (a - e)" unfolding eq by (intro representable_scaled) simp_all
  then have "representable f \<bar>a - e\<bar>" using representable_minus [of f "a - e"]
    by (cases "a - e < 0") (simp_all only: abs_if if_True if_False)
  then have "nearest f \<bar>a - e\<bar> = \<bar>a - e\<bar>" by (rule nearest_representable)
  then show ?thesis by (simp add: mult_left_le)
qed

lemma within_sound:
  assumes "real_value f (Fin e)" and "real_value f (Fin a)" and "real_within f (Fin d) (Fin e) (Fin a)"
  shows "\<bar>a - e\<bar> * (1 - unit_error f) \<le> \<bar>d\<bar>"
  using difference_relative [of f a e] assms by (simp add: within_finite abs_nearest)

text \<open>A delta that is not a number is never exceeded.\<close>

lemma within_nan_delta:
  "real_within f NaN (Fin e) (Fin a) \<longleftrightarrow> \<bar>nearest f (a - e)\<bar> < pow2i (over_exp f)"
  by (auto simp: UNITY_FLOAT_OR_DOUBLE_WITHIN_def c_sub_fin round_real_def Let_def abs_if)

section \<open>The contract of the assertions\<close>

lemma report_and_bail_emit [simp]: "report_and_bail msg (Some (emit s u)) = Jumps (failed (s @ msg_text msg u) u)"
  by (simp add: report_and_bail_def emits)

lemma print_expected_and_actual:
  assumes "real_value d e" and "real_value d a"
  shows "\<exists>s. \<forall>u. UNITY_PRINT_EXPECTED_AND_ACTUAL_FLOAT d e a u = Some (emit s u)"
proof -
  obtain s t where "\<And>u. UnityPrintFloat d e u = Some (emit s u)" "\<And>u. UnityPrintFloat d a u = Some (emit t u)"
    using print_float_emits assms by metis
  then have "\<forall>u. UNITY_PRINT_EXPECTED_AND_ACTUAL_FLOAT d e a u = Some (emit (UnityStrExpected @ s @ UnityStrWas @ t) u)"
    by (simp add: UNITY_PRINT_EXPECTED_AND_ACTUAL_FLOAT_def print_const)
  then show ?thesis by blast
qed

text \<open>
  An assertion is one that goes on in the two branches of a condition: it returns, or its report
  can be printed.
\<close>

lemma guarded_assertionI:
  assumes "\<And>u. check u = and_then (RETURN_IF_FAIL_OR_IGNORE u) (\<lambda>u. if holds then Returns u else rest u)"
    and "\<And>u. ready \<Longrightarrow> idle u \<Longrightarrow> \<not> holds \<Longrightarrow> \<exists>s. rest u = Jumps (failed s u)"
  shows "unity_assertion ready holds check"
  using assms(2) by unfold_locales (auto simp: assms(1))

definition printable :: "real_type \<Rightarrow> c_real \<Rightarrow> c_real \<Rightarrow> bool" where
  "printable d e a \<longleftrightarrow> real_value d e \<and> real_value d a"

interpretation within_real: unity_assertion "printable d e a" "real_within f delta e a"
    "UnityAssertRealsWithin f d delta e a msg line"
  for f d delta e a msg line
proof (rule guarded_assertionI)
  show "UnityAssertRealsWithin f d delta e a msg line u = and_then (RETURN_IF_FAIL_OR_IGNORE u)
      (\<lambda>u. if real_within f delta e a then Returns u
        else report_and_bail msg (UNITY_PRINT_EXPECTED_AND_ACTUAL_FLOAT d e a (UnityTestResultsFailBegin line u)))" for u
    by (cases "real_within f delta e a") (simp_all add: UnityAssertRealsWithin_def Let_def)
next
  fix u
  assume "printable d e a"
  then obtain s where "\<forall>u. UNITY_PRINT_EXPECTED_AND_ACTUAL_FLOAT d e a u = Some (emit s u)"
    using print_expected_and_actual [of d e a] by (auto simp: printable_def)
  then show "\<exists>s. report_and_bail msg (UNITY_PRINT_EXPECTED_AND_ACTUAL_FLOAT d e a (UnityTestResultsFailBegin line u))
      = Jumps (failed s u)"
    by (simp add: emits) blast
qed

interpretation not_within_real: unity_assertion "printable d e a" "\<not> real_within f delta e a"
    "UnityAssertRealsNotWithin f d delta e a msg line"
  for f d delta e a msg line
proof (rule guarded_assertionI)
  show "UnityAssertRealsNotWithin f d delta e a msg line u = and_then (RETURN_IF_FAIL_OR_IGNORE u)
      (\<lambda>u. if \<not> real_within f delta e a then Returns u
        else report_and_bail msg (do {
           let u = UnityTestResultsFailBegin line u;
           let u = UnityPrintS UnityStrExpected u;
           u \<leftarrow> UnityPrintFloat d e u;
           let u = UnityPrintS UnityStrNotEqual u;
           UnityPrintFloat d a u
         }))" for u
    by (cases "real_within f delta e a") (simp_all add: UnityAssertRealsNotWithin_def Let_def)
next
  fix u
  assume "printable d e a"
  then obtain s t where "\<And>u. UnityPrintFloat d e u = Some (emit s u)" "\<And>u. UnityPrintFloat d a u = Some (emit t u)"
    using print_float_emits [of d] by (metis printable_def)
  then show "\<exists>s. report_and_bail msg (do {
           let u = UnityTestResultsFailBegin line u;
           let u = UnityPrintS UnityStrExpected u;
           u \<leftarrow> UnityPrintFloat d e u;
           let u = UnityPrintS UnityStrNotEqual u;
           UnityPrintFloat d a u
         }) = Jumps (failed s u)"
    by (simp add: emits print_const) blast
qed

text \<open>The relation of \<open>UnityAssertGreaterOrLessFloat\<close>, with equality up to the precision.\<close>

definition real_compare :: "real_type \<Rightarrow> comparison \<Rightarrow> c_real \<Rightarrow> c_real \<Rightarrow> bool" where
  "real_compare f cmp t a \<longleftrightarrow>
     (compare_has cmp UNITY_SMALLER_THAN \<longrightarrow> c_less a t) \<and> (compare_has cmp UNITY_GREATER_THAN \<longrightarrow> c_less t a)
     \<or> compare_has cmp UNITY_EQUAL_TO \<and> real_within f (c_mul f t (UNITY_PRECISION f)) t a"

lemma compare_real_flag:
  "(if c3 then False else (if c2 then True else if c1 then True else False)) = (\<not> ((\<not> c1 \<and> \<not> c2) \<or> c3))"
  by simp

interpretation compare_real: unity_assertion "printable d t a" "real_compare f cmp t a"
    "UnityAssertGreaterOrLessReal f d t a cmp msg line"
  for f d t a cmp msg line
proof (rule guarded_assertionI)
  have holds: "real_compare f cmp t a \<longleftrightarrow> (\<not> (\<not> c_less a t \<and> compare_has cmp UNITY_SMALLER_THAN)
       \<and> \<not> (\<not> c_less t a \<and> compare_has cmp UNITY_GREATER_THAN))
      \<or> compare_has cmp UNITY_EQUAL_TO \<and> real_within f (c_mul f t (UNITY_PRECISION f)) t a"
    unfolding real_compare_def by blast
  show "UnityAssertGreaterOrLessReal f d t a cmp msg line u = and_then (RETURN_IF_FAIL_OR_IGNORE u)
      (\<lambda>u. if real_compare f cmp t a then Returns u
        else report_and_bail msg (do {
           let u = UnityTestResultsFailBegin line u;
           let u = UnityPrintS UnityStrExpected u;
           u \<leftarrow> UnityPrintFloat d a u;
           let u = (if compare_has cmp UNITY_GREATER_THAN then UnityPrintS UnityStrGt u else u);
           let u = (if compare_has cmp UNITY_SMALLER_THAN then UnityPrintS UnityStrLt u else u);
           let u = (if compare_has cmp UNITY_EQUAL_TO then UnityPrintS UnityStrOrEqual u else u);
           UnityPrintFloat d t u
         }))" for u
    unfolding UnityAssertGreaterOrLessReal_def Let_def compare_real_flag holds [symmetric] if_not_P
    by (cases "real_compare f cmp t a") simp_all
next
  fix u
  assume "printable d t a"
  then obtain r s where "\<And>u. UnityPrintFloat d a u = Some (emit r u)" "\<And>u. UnityPrintFloat d t u = Some (emit s u)"
    using print_float_emits [of d] by (metis printable_def)
  then show "\<exists>s. report_and_bail msg (do {
           let u = UnityTestResultsFailBegin line u;
           let u = UnityPrintS UnityStrExpected u;
           u \<leftarrow> UnityPrintFloat d a u;
           let u = (if compare_has cmp UNITY_GREATER_THAN then UnityPrintS UnityStrGt u else u);
           let u = (if compare_has cmp UNITY_SMALLER_THAN then UnityPrintS UnityStrLt u else u);
           let u = (if compare_has cmp UNITY_EQUAL_TO then UnityPrintS UnityStrOrEqual u else u);
           UnityPrintFloat d t u
         }) = Jumps (failed s u)"
    by (simp add: emits print_const emit_cond Let_def del: compare_has_simps) blast
qed

text \<open>The traits.\<close>

primrec has_trait :: "float_trait \<Rightarrow> c_real \<Rightarrow> bool" where
  "has_trait UNITY_FLOAT_IS_NOT_INF a \<longleftrightarrow> a \<noteq> Inf False"
| "has_trait UNITY_FLOAT_IS_INF a \<longleftrightarrow> a = Inf False"
| "has_trait UNITY_FLOAT_IS_NOT_NEG_INF a \<longleftrightarrow> a \<noteq> Inf True"
| "has_trait UNITY_FLOAT_IS_NEG_INF a \<longleftrightarrow> a = Inf True"
| "has_trait UNITY_FLOAT_IS_NOT_NAN a \<longleftrightarrow> a \<noteq> NaN"
| "has_trait UNITY_FLOAT_IS_NAN a \<longleftrightarrow> a = NaN"
| "has_trait UNITY_FLOAT_IS_NOT_DET a \<longleftrightarrow> (\<forall>x. a \<noteq> Fin x)"
| "has_trait UNITY_FLOAT_IS_DET a \<longleftrightarrow> (\<exists>x. a = Fin x)"
| "has_trait UNITY_FLOAT_INVALID_TRAIT a \<longleftrightarrow> False"

definition trait_name :: "float_trait \<Rightarrow> string" where
  "trait_name st = (if odd (trait_code st) then [] else UnityStrNot) @
     (if st = UNITY_FLOAT_INVALID_TRAIT then UnityStrInvalidFloatTrait
      else [UnityStrInf, UnityStrNegInf, UnityStrNaN, UnityStrDet] ! (trait_code st div 2))"

lemma trait_tests:
  "is_inf a \<and> c_less (Fin 0) a \<longleftrightarrow> a = Inf False" "is_inf a \<and> c_less a (Fin 0) \<longleftrightarrow> a = Inf True"
  "is_nan a \<longleftrightarrow> a = NaN" "\<not> is_inf a \<and> a \<noteq> NaN \<longleftrightarrow> (\<exists>x. a = Fin x)"
  by (cases a; simp)+

lemma UnityAssertRealSpecial_run:
  assumes "\<And>u. UnityPrintFloat d a u = Some (emit t u)"
  shows "UnityAssertRealSpecial d a msg line st u =
     (if \<not> idle u then Jumps u else if has_trait st a then Returns u
      else Jumps (failed (fail_text line u @ UnityStrExpected @ trait_name st @ UnityStrWas @ t @ msg_text msg u) u))"
  unfolding UnityAssertRealSpecial_def assms
  by (cases "idle u"; cases st)
    (auto simp: Let_def trait_name_def trait_tests emits print_const print_plain
      simp del: is_nan.simps is_inf.simps c_less.simps)

interpretation special_real: unity_assertion "real_value d a" "has_trait st a" "UnityAssertRealSpecial d a msg line st"
  for d a msg line st
proof (unfold_locales, goal_cases)
  case (1 u)
  then show ?case by (simp add: UnityAssertRealSpecial_def)
next
  case (2 u)
  obtain t where "\<And>u. UnityPrintFloat d a u = Some (emit t u)" using print_float_emits 2(2) by blast
  from UnityAssertRealSpecial_run [OF this] show ?case using 2 by simp
next
  case (3 u)
  obtain t where "\<And>u. UnityPrintFloat d a u = Some (emit t u)" using print_float_emits 3(2) by blast
  from UnityAssertRealSpecial_run [OF this] show ?case using 3 by auto
qed

section \<open>Arrays\<close>

text \<open>The test of one element: the delta grows with the expected value.\<close>

definition element_within :: "real_type \<Rightarrow> c_real \<Rightarrow> c_real \<Rightarrow> c_real \<Rightarrow> bool" where
  "element_within f in_delta e a =
     (let c = c_mul f e (UNITY_PRECISION f)
      in real_within f (c_add f in_delta (if c_less c (Fin 0) then c_neg c else c)) e a)"

text \<open>The elements that are compared, \<open>n\<close> of them.\<close>

definition elems_ready :: "real_type \<Rightarrow> cmem \<Rightarrow> addr \<Rightarrow> array_flags \<Rightarrow> nat \<Rightarrow> bool" where
  "elems_ready f m p flags n \<longleftrightarrow> (\<forall>i<n. load_real f m (if flags = UNITY_ARRAY_TO_ARRAY then p + of_nat (real_size f * i) else p) \<noteq> None)"

definition elem :: "real_type \<Rightarrow> cmem \<Rightarrow> addr \<Rightarrow> array_flags \<Rightarrow> nat \<Rightarrow> c_real" where
  "elem f m p flags i = the (load_real f m (if flags = UNITY_ARRAY_TO_ARRAY then p + of_nat (real_size f * i) else p))"

lemma elems_step:
  "elem f m p flags (Suc i) = elem f m (if flags = UNITY_ARRAY_TO_ARRAY then p + of_nat (real_size f) else p) flags i"
  "elems_ready f m p flags (Suc n) \<longleftrightarrow> load_real f m p \<noteq> None
     \<and> elems_ready f m (if flags = UNITY_ARRAY_TO_ARRAY then p + of_nat (real_size f) else p) flags n"
  by (auto simp: elem_def elems_ready_def All_less_Suc2 algebra_simps)

lemma elem_0: "load_real f m p = Some v \<Longrightarrow> elem f m p flags 0 = v"
  by (simp add: elem_def)

lemma UnityAssertWithinRealArray_loop_run:
  assumes "elems_ready f m e flags n" and "elems_ready f m a UNITY_ARRAY_TO_ARRAY n"
    and wide: "\<And>v. real_value f v \<Longrightarrow> real_value d v" and "idle u"
  shows "if \<forall>i<n. element_within f in_delta (elem f m e flags i) (elem f m a UNITY_ARRAY_TO_ARRAY i)
    then UnityAssertWithinRealArray_loop f d m in_delta N msg line flags n e a u = Returns u
    else \<exists>s. UnityAssertWithinRealArray_loop f d m in_delta N msg line flags n e a u = Jumps (failed s u)"
  using assms(1,2)
proof (induction n arbitrary: e a)
  case (Suc n)
  let ?e = "if flags = UNITY_ARRAY_TO_ARRAY then e + of_nat (real_size f) else e"
  let ?a = "a + of_nat (real_size f)"
  obtain v w where vw: "load_real f m e = Some v" "load_real f m a = Some w"
    using Suc.prems by (auto simp: elems_step)
  have real: "real_value d v" "real_value d w" using vw wide load_real_value by blast+
  obtain s where print: "\<forall>u. UNITY_PRINT_EXPECTED_AND_ACTUAL_FLOAT d v w u = Some (emit s u)"
    using print_expected_and_actual [OF real] by blast
  have all: "(\<forall>i<Suc n. element_within f in_delta (elem f m e flags i) (elem f m a UNITY_ARRAY_TO_ARRAY i))
     \<longleftrightarrow> element_within f in_delta v w
       \<and> (\<forall>i<n. element_within f in_delta (elem f m ?e flags i) (elem f m ?a UNITY_ARRAY_TO_ARRAY i))"
    using vw by (simp add: All_less_Suc2 elems_step elem_0)
  show ?case
  proof (cases "element_within f in_delta v w")
    case True
    then have "UnityAssertWithinRealArray_loop f d m in_delta N msg line flags (Suc n) e a u
        = UnityAssertWithinRealArray_loop f d m in_delta N msg line flags n ?e ?a u"
      using vw by (simp add: element_within_def Let_def)
    then show ?thesis using True Suc.IH [of ?e ?a] Suc.prems unfolding all by (simp add: elems_step)
  next
    case False
    then have "\<exists>s. UnityAssertWithinRealArray_loop f d m in_delta N msg line flags (Suc n) e a u = Jumps (failed s u)"
      using vw by (simp add: element_within_def Let_def print emits print_const) blast
    then show ?thesis using False unfolding all by simp
  qed
qed simp

text \<open>When a comparison of arrays is defined, and when it passes.\<close>

definition real_array_ready :: "real_type \<Rightarrow> cmem \<Rightarrow> c_real \<Rightarrow> addr \<Rightarrow> addr \<Rightarrow> u32 \<Rightarrow> array_flags \<Rightarrow> bool" where
  "real_array_ready f m delta e a n flags \<longleftrightarrow>
     n \<noteq> 0 \<and> \<not> is_inf delta \<and> \<not> is_nan delta \<and> e \<noteq> a \<and> e \<noteq> NULL \<and> a \<noteq> NULL \<longrightarrow>
     elems_ready f m e flags (unat n) \<and> elems_ready f m a UNITY_ARRAY_TO_ARRAY (unat n)"

definition real_array_holds :: "real_type \<Rightarrow> cmem \<Rightarrow> c_real \<Rightarrow> addr \<Rightarrow> addr \<Rightarrow> u32 \<Rightarrow> array_flags \<Rightarrow> bool" where
  "real_array_holds f m delta e a n flags \<longleftrightarrow>
     n \<noteq> 0 \<and> (is_inf delta \<or> \<not> is_nan delta \<and> (e = a \<or> e \<noteq> NULL \<and> a \<noteq> NULL
       \<and> (\<forall>i<unat n. element_within f (if c_less delta (Fin 0) then c_neg delta else delta)
            (elem f m e flags i) (elem f m a UNITY_ARRAY_TO_ARRAY i))))"

lemma real_array_assertion:
  assumes wide: "\<And>v. real_value f v \<Longrightarrow> real_value d v"
  shows "unity_assertion (real_array_ready f m delta e a n flags) (real_array_holds f m delta e a n flags)
    (UnityAssertWithinRealArray f d m delta e a n msg line flags)"
proof (unfold_locales, goal_cases)
  case (1 u)
  then show ?case by (simp add: UnityAssertWithinRealArray_def)
next
  case (2 u)
  show ?case
  proof (cases "is_inf delta \<or> e = a")
    case False
    let ?d = "if c_less delta (Fin 0) then c_neg delta else delta"
    have "UnityAssertWithinRealArray_loop f d m ?d n msg line flags (unat n) e a u = Returns u"
      using UnityAssertWithinRealArray_loop_run [where f = f and d = d and m = m and e = e and a = a and flags = flags
        and n = "unat n" and in_delta = ?d and N = n and msg = msg and line = line and u = u, OF _ _ wide] 2 False
      by (simp add: real_array_ready_def real_array_holds_def split del: if_split)
    then show ?thesis using 2 False
      by (simp add: UnityAssertWithinRealArray_def real_array_holds_def UnityIsOneArrayNull_def)
  qed (use 2 in \<open>auto simp: UnityAssertWithinRealArray_def real_array_holds_def\<close>)
next
  case (3 u)
  consider "n = 0 \<or> is_nan delta \<and> \<not> is_inf delta" | "n \<noteq> 0" "\<not> is_nan delta" "\<not> is_inf delta" "e \<noteq> a" "e = NULL \<or> a = NULL"
    | "n \<noteq> 0" "\<not> is_nan delta" "\<not> is_inf delta" "e \<noteq> a" "e \<noteq> NULL" "a \<noteq> NULL"
    using 3(3) by (auto simp: real_array_holds_def)
  then show ?case
  proof cases
    case 3
    let ?d = "if c_less delta (Fin 0) then c_neg delta else delta"
    have "\<exists>s. UnityAssertWithinRealArray_loop f d m ?d n msg line flags (unat n) e a u = Jumps (failed s u)"
      using UnityAssertWithinRealArray_loop_run [where f = f and d = d and m = m and e = e and a = a and flags = flags
        and n = "unat n" and in_delta = ?d and N = n and msg = msg and line = line and u = u, OF _ _ wide] \<open>idle u\<close> 3
        \<open>real_array_ready f m delta e a n flags\<close> \<open>\<not> real_array_holds f m delta e a n flags\<close>
      by (auto simp: real_array_ready_def real_array_holds_def split: if_splits)
    then show ?thesis using 3 \<open>idle u\<close>
      by (simp add: UnityAssertWithinRealArray_def UnityIsOneArrayNull_def)
  qed (use 3 in \<open>auto simp: UnityAssertWithinRealArray_def UnityPrintPointlessAndBail_def UnityIsOneArrayNull_def print_const emits\<close>)
qed

interpretation float_array: unity_assertion "real_array_ready C_float m delta e a n flags"
    "real_array_holds C_float m delta e a n flags" "UnityAssertWithinFloatArray d m delta e a n msg line flags"
  for d m delta e a n flags msg line
  unfolding UnityAssertWithinFloatArray_def
  by (rule real_array_assertion) (cases d; simp add: real_value_widen)

interpretation double_array: unity_assertion "real_array_ready C_double m delta e a n flags"
    "real_array_holds C_double m delta e a n flags" "UnityAssertWithinDoubleArray m delta e a n msg line flags"
  for m delta e a n flags msg line
  unfolding UnityAssertWithinDoubleArray_def by (rule real_array_assertion) simp

end
