(* ===== verification/Unity_Elements.thy ===== *)
theory Unity_Elements
  imports Unity_Arrays_Correct
begin

text \<open>
  The elements \<open>UnityAssertEqualIntArray\<close> compares are, up to the extension to 64 bits, the bytes
  of the arrays: two elements are equal exactly when their bytes are, whatever the style.
\<close>

section \<open>The bytes of a loaded value\<close>

lemma byte_of_get16: "ucast (drop_bit (8 * k) (get16 f a)) = f (a + of_nat k)" if "k < 2"
proof -
  consider "k = 0" | "k = 1" using \<open>k < 2\<close> by linarith
  then show ?thesis
    by cases (rule bit_word_eqI; auto simp: get16_def bit_simps dest: bit_imp_le_length)+
qed

lemma byte_of_get32: "ucast (drop_bit (8 * k) (get32 f a)) = f (a + of_nat k)" if "k < 4"
proof -
  consider "k = 0" | "k = 1" | "k = 2" | "k = 3" using \<open>k < 4\<close> by linarith
  then show ?thesis
    by cases (rule bit_word_eqI; auto simp: get32_def bit_simps dest: bit_imp_le_length)+
qed

lemma byte_of_get64: "ucast (drop_bit (8 * k) (get64 f a)) = f (a + of_nat k)" if "k < 8"
proof -
  consider "k = 0" | "k = 1" | "k = 2" | "k = 3" | "k = 4" | "k = 5" | "k = 6" | "k = 7" 
  using \<open>k < 8\<close> by linarith
  then show ?thesis
    by cases (rule bit_word_eqI; auto simp: get64_def bit_simps dest: bit_imp_le_length)+
qed

lemma extend_low: 
  "ucast (scast (w :: u8) :: u64) = w" 
  "ucast (scast (x :: u16) :: u64) = x" 
  "ucast (scast (y :: u32) :: u64) = y" 
  by (rule bit_word_eqI; auto simp: bit_simps)+
lemma extend_low_masked: 
  "ucast ((scast (w :: u8) :: u64) AND 0xFF) = w" 
  "ucast ((scast (x :: u16) :: u64) AND 0xFFFF) = x" 
  "ucast ((scast (y :: u32) :: u64) AND 0xFFFFFFFF) = y" 
proof -
  have m: "(0xFF :: u64) = mask 8" "(0xFFFF :: u64) = mask 16" "(0xFFFFFFFF :: u64) = mask 32"
    by (simp_all add: mask_eq_exp_minus_1)
  show   "ucast ((scast (w :: u8) :: u64) AND 0xFF) = w" 
  "ucast ((scast (x :: u16) :: u64) AND 0xFFFF) = x" 
  "ucast ((scast (y :: u32) :: u64) AND 0xFFFFFFFF) = y" 
  unfolding m   by (rule bit_word_eqI; auto simp: bit_simps)+
qed

section \<open>Elements and bytes\<close>

lemma low_byte_of_ucast:
  "k < 1 \<Longrightarrow> ucast (drop_bit (8 * k) (x :: u64)) = (ucast (drop_bit (8 * k) (ucast x :: u8)) :: u8)"
  "k < 2 \<Longrightarrow> ucast (drop_bit (8 * k) (x :: u64)) = (ucast (drop_bit (8 * k) (ucast x :: u16)) :: u8)"
  "k < 4 \<Longrightarrow> ucast (drop_bit (8 * k) (x :: u64)) = (ucast (drop_bit (8 * k) (ucast x :: u32)) :: u8)"
  by (rule bit_word_eqI; auto simp: bit_simps)+

lemma int_array_elem_bytes:
  assumes "int_array_elem m st p = Some x" and "k < elem_size st"
  shows "bytes m (p + of_nat k) = ucast (drop_bit (8 * k) x)"
proof -
  consider (1) "st AND 0xF = 1" | (2) "st AND 0xF = 2" | (8) "st AND 0xF = 8"
    | (4) "st AND 0xF \<noteq> 1" "st AND 0xF \<noteq> 2" "st AND 0xF \<noteq> 8"
    by blast
  then show ?thesis
  proof cases
    case 1
    then have "ucast x = bytes m p" and "k < 1"
      using assms by (auto simp: int_array_elem_def elem_size_def load8_def extend_low
          extend_low_masked Let_def split: if_splits)
    then show ?thesis by (subst low_byte_of_ucast(1)) simp_all
  next
    case 2
    then have "ucast x = get16 (bytes m) p" and "k < 2"
      using assms by (auto simp: int_array_elem_def elem_size_def load16_def extend_low
          extend_low_masked Let_def split: if_splits)
    then show ?thesis by (subst low_byte_of_ucast(2)) (simp_all add: byte_of_get16)
  next
    case 8
    then have "x = get64 (bytes m) p" and "k < 8"
      using assms by (auto simp: int_array_elem_def elem_size_def load64_def Let_def split: if_splits)
    then show ?thesis by (simp add: byte_of_get64)
  next
    case 4
    then have "ucast x = get32 (bytes m) p" and "k < 4"
      using assms by (auto simp: int_array_elem_def elem_size_def load32_def extend_low
          extend_low_masked Let_def split: if_splits)
    then show ?thesis by (subst low_byte_of_ucast(3)) (simp_all add: byte_of_get32)
  qed
qed

lemma get16_cong:
  assumes "\<And>k. k < 2 \<Longrightarrow> f (a + of_nat k) = g (b + of_nat k)"
  shows "get16 f a = get16 g b"
  using assms [of 0] assms [of 1] by (simp add: get16_def)

lemma get32_cong:
  assumes "\<And>k. k < 4 \<Longrightarrow> f (a + of_nat k) = g (b + of_nat k)"
  shows "get32 f a = get32 g b"
  using assms [of 0] assms [of 1] assms [of 2] assms [of 3] by (simp add: get32_def)

lemma get64_cong2:
  assumes "\<And>k. k < 8 \<Longrightarrow> f (a + of_nat k) = g (b + of_nat k)"
  shows "get64 f a = get64 g b"
  using assms [of 0] assms [of 1] assms [of 2] assms [of 3] assms [of 4] assms [of 5]
    assms [of 6] assms [of 7]
  by (simp add: get64_def)

lemma int_array_elem_cong:
  assumes "int_array_elem m st p = Some x" and "int_array_elem m st q = Some y"
    and same: "\<And>k. k < elem_size st \<Longrightarrow> bytes m (p + of_nat k) = bytes m (q + of_nat k)"
  shows "x = y"
proof -
  consider (1) "st AND 0xF = 1" | (2) "st AND 0xF = 2" | (8) "st AND 0xF = 8"
    | (4) "st AND 0xF \<noteq> 1" "st AND 0xF \<noteq> 2" "st AND 0xF \<noteq> 8"
    by blast
  then show ?thesis
  proof cases
    case 1
    then have "bytes m p = bytes m q"
      using same [of 0] by (simp add: elem_size_def)
    then show ?thesis
      using 1 assms(1,2) by (auto simp: int_array_elem_def load8_def Let_def split: if_splits)
  next
    case 2
    then have "get16 (bytes m) p = get16 (bytes m) q"
      using same by (intro get16_cong) (simp add: elem_size_def)
    then show ?thesis
      using 2 assms(1,2) by (auto simp: int_array_elem_def load16_def Let_def split: if_splits)
  next
    case 8
    then have "get64 (bytes m) p = get64 (bytes m) q"
      using same by (intro get64_cong2) (simp add: elem_size_def)
    then show ?thesis
      using 8 assms(1,2) by (auto simp: int_array_elem_def load64_def Let_def split: if_splits)
  next
    case 4
    then have "get32 (bytes m) p = get32 (bytes m) q"
      using same by (intro get32_cong) (simp add: elem_size_def)
    then show ?thesis
      using 4 assms(1,2) by (auto simp: int_array_elem_def load32_def Let_def split: if_splits)
  qed
qed

lemma elem_size_pos [simp]: "0 < elem_size st"
  by (simp add: elem_size_def Let_def)

text \<open>
  Which byte of the expected side the byte \<open>i\<close> of the actual array is compared with: that of the same
  array place, or that of the one expected element.
\<close>

definition expected_byte :: "array_flags \<Rightarrow> style \<Rightarrow> nat \<Rightarrow> nat" where
  "expected_byte flags st i = (if flags = UNITY_ARRAY_TO_ARRAY then i else i mod elem_size st)"

definition expected_len :: "array_flags \<Rightarrow> style \<Rightarrow> nat \<Rightarrow> nat" where
  "expected_len flags st n = (if flags = UNITY_ARRAY_TO_ARRAY then n * elem_size st else elem_size st)"

lemma expected_array [simp]:
  "expected_byte UNITY_ARRAY_TO_ARRAY st i = i" "expected_len UNITY_ARRAY_TO_ARRAY st n = n * elem_size st"
  by (simp_all add: expected_byte_def expected_len_def)

lemma expected_at_byte:
  "k < elem_size st \<Longrightarrow>
     expected_at flags st e i + of_nat k = e + of_nat (expected_byte flags st (i * elem_size st + k))"
  by (simp add: expected_at_def expected_byte_def add.assoc)

lemma int_arrays_equal_iff_bytes:
  assumes "array_readable (int_array_elem m st) st flags e a n"
  shows "array_all (=) (int_array_elem m st) st flags e a n \<longleftrightarrow>
    (\<forall>i < n * elem_size st. bytes m (e + of_nat (expected_byte flags st i)) = bytes m (a + of_nat i))"
proof -
  have elem: "the (int_array_elem m st p) = the (int_array_elem m st q) \<longleftrightarrow>
      (\<forall>k < elem_size st. bytes m (p + of_nat k) = bytes m (q + of_nat k))"
    if d: "int_array_elem m st p \<noteq> None" "int_array_elem m st q \<noteq> None" for p q
  proof -
    obtain x y where xy: "int_array_elem m st p = Some x" "int_array_elem m st q = Some y"
      using d by blast
    show ?thesis
      unfolding xy option.sel
      using int_array_elem_bytes [OF xy(1)] int_array_elem_bytes [OF xy(2)]
        int_array_elem_cong [OF xy] by auto
  qed
  have "(the (int_array_elem m st (expected_at flags st e i))
        = the (int_array_elem m st (actual_at st a i))) \<longleftrightarrow>
      (\<forall>k < elem_size st. bytes m (e + of_nat (expected_byte flags st (i * elem_size st + k)))
        = bytes m (a + of_nat (i * elem_size st + k)))" if "i < n" for i
  proof -
    have actual: "actual_at st a i + of_nat k = a + of_nat (i * elem_size st + k)" for k
      by (simp add: actual_at_def add.assoc)
    have "int_array_elem m st (expected_at flags st e i) \<noteq> None" "int_array_elem m st (actual_at st a i) \<noteq> None"
      using assms that unfolding array_readable_def by blast+
    from elem [OF this] show ?thesis unfolding actual by (auto simp only: expected_at_byte)
  qed
  then have "array_all (=) (int_array_elem m st) st flags e a n \<longleftrightarrow>
    (\<forall>i<n. \<forall>k < elem_size st. bytes m (e + of_nat (expected_byte flags st (i * elem_size st + k)))
      = bytes m (a + of_nat (i * elem_size st + k)))"
    unfolding array_all_def by simp
  then show ?thesis
    using all_blocks [OF elem_size_pos, where P =
        "\<lambda>i. bytes m (e + of_nat (expected_byte flags st i)) = bytes m (a + of_nat i)"]
    by blast
qed

end
