(* ===== verification/Unity_Control.thy ===== *)
theory Unity_Control
  imports Unity_Elements
begin

text \<open>
  The control functions of \<open>src/unity/unity.c\<close>: beginning and ending a run, failing, ignoring and
  commenting a test, the default test runner, and the macros of \<open>unity.h\<close> the repository's tests
  use.  A test function works on its own world \<open>'w\<close> beside the framework's state.
  \<open>TEST_PROTECT\<close> is \<open>setjmp\<close>: a jump out of the protected code continues behind it.
\<close>

section \<open>Control functions\<close>

definition UnityConcludeTest :: "unity \<Rightarrow> unity" where
  "UnityConcludeTest u =
     (let u = (if CurrentTestIgnored u \<noteq> 0 then u\<lparr>TestIgnores := TestIgnores u + 1\<rparr>
               else if CurrentTestFailed u = 0
               then let u = UnityTestResultsBegin (TestFile u) (CurrentTestLineNumber u) u
                    in UnityPrintS UnityStrPass u
               else u\<lparr>TestFailures := TestFailures u + 1\<rparr>);
          u = u\<lparr>CurrentTestFailed := 0\<rparr>;
          u = u\<lparr>CurrentTestIgnored := 0\<rparr>
      in UNITY_PRINT_EOL u)"

definition UnityFail :: "string option \<Rightarrow> u64 \<Rightarrow> unity \<Rightarrow> unity outcome" where
  "UnityFail msg line u =
     and_then (RETURN_IF_FAIL_OR_IGNORE u) (\<lambda>u.
       let u = UnityTestResultsBegin (TestFile u) line u;
           u = UnityPrintS UnityStrFail u;
           u = UnityAddMsgIfSpecified msg u
       in UNITY_FAIL_AND_BAIL u)"

definition UnityIgnore :: "string option \<Rightarrow> u64 \<Rightarrow> unity \<Rightarrow> unity outcome" where
  "UnityIgnore msg line u =
     and_then (RETURN_IF_FAIL_OR_IGNORE u) (\<lambda>u.
       let u = UnityTestResultsBegin (TestFile u) line u;
           u = UnityPrintS UnityStrIgnore u;
           u = (if msg \<noteq> None
                then let u = UNITY_OUTPUT_CHAR (CHR '':'') u;
                         u = UNITY_OUTPUT_CHAR (CHR '' '') u
                     in UnityPrint msg u
                else u)
       in UNITY_IGNORE_AND_BAIL u)"

definition UnityMessage :: "string option \<Rightarrow> u64 \<Rightarrow> unity \<Rightarrow> unity" where
  "UnityMessage msg line u =
     (let u = UnityTestResultsBegin (TestFile u) line u;
          u = UnityPrintS ''INFO'' u;
          u = (if msg \<noteq> None
               then let u = UNITY_OUTPUT_CHAR (CHR '':'') u;
                        u = UNITY_OUTPUT_CHAR (CHR '' '') u
                    in UnityPrint msg u
               else u)
      in UNITY_PRINT_EOL u)"

definition UnitySetTestFile :: "string option \<Rightarrow> unity \<Rightarrow> unity" where
  "UnitySetTestFile filename u = u\<lparr>TestFile := filename\<rparr>"

definition UNITY_CLR_DETAILS :: "unity \<Rightarrow> unity" where
  "UNITY_CLR_DETAILS u = u\<lparr>CurrentDetail1 := None, CurrentDetail2 := None\<rparr>"

definition UNITY_SET_DETAIL :: "string option \<Rightarrow> unity \<Rightarrow> unity" where
  "UNITY_SET_DETAIL d1 u = u\<lparr>CurrentDetail1 := d1, CurrentDetail2 := None\<rparr>"

definition UNITY_SET_DETAILS :: "string option \<Rightarrow> string option \<Rightarrow> unity \<Rightarrow> unity" where
  "UNITY_SET_DETAILS d1 d2 u = u\<lparr>CurrentDetail1 := d1, CurrentDetail2 := d2\<rparr>"

definition UnityBegin :: "string option \<Rightarrow> unity \<Rightarrow> unity" where
  "UnityBegin filename u = UNITY_CLR_DETAILS
     (u\<lparr>TestFile := filename, CurrentTestName := None, CurrentTestLineNumber := 0,
        NumberOfTests := 0, TestFailures := 0, TestIgnores := 0, CurrentTestFailed := 0,
        CurrentTestIgnored := 0\<rparr>)"

definition UnityStrBreaker :: string where "UnityStrBreaker = ''-----------------------''"
definition UnityStrResultsTests :: string where "UnityStrResultsTests = '' Tests ''"
definition UnityStrResultsFailures :: string where "UnityStrResultsFailures = '' Failures ''"
definition UnityStrResultsIgnored :: string where "UnityStrResultsIgnored = '' Ignored ''"

text \<open>The result is an \<open>int\<close>: the low 32 bits of the number of failures.\<close>

definition UnityEnd :: "unity \<Rightarrow> u32 \<times> unity" where
  "UnityEnd u =
     (let u = UNITY_PRINT_EOL u;
          u = UnityPrintS UnityStrBreaker u;
          u = UNITY_PRINT_EOL u;
          u = UnityPrintNumber (NumberOfTests u) u;
          u = UnityPrintS UnityStrResultsTests u;
          u = UnityPrintNumber (TestFailures u) u;
          u = UnityPrintS UnityStrResultsFailures u;
          u = UnityPrintNumber (TestIgnores u) u;
          u = UnityPrintS UnityStrResultsIgnored u;
          u = UNITY_PRINT_EOL u;
          u = (if TestFailures u = 0 then UnityPrintS UnityStrOk u
               else UnityPrintS UnityStrFail u);
          u = UNITY_PRINT_EOL u
      in (ucast (TestFailures u), u))"

section \<open>The test runner\<close>

definition TEST_PROTECT :: "('s \<Rightarrow> 's outcome) \<Rightarrow> 's \<Rightarrow> 's option" where
  "TEST_PROTECT body s =
     (case body s of Returns s \<Rightarrow> Some s | Jumps s \<Rightarrow> Some s | Undefined \<Rightarrow> None)"

type_synonym 'w test_function = "'w \<times> unity \<Rightarrow> ('w \<times> unity) outcome"

definition UnityDefaultTestRun ::
    "'w test_function \<Rightarrow> 'w test_function \<Rightarrow> 'w test_function \<Rightarrow> string \<Rightarrow> u32
     \<Rightarrow> 'w \<times> unity \<Rightarrow> ('w \<times> unity) option" where
  "UnityDefaultTestRun setUp tearDown TestFunc FuncName FuncLineNum s = do {
     let u = (snd s)\<lparr>CurrentTestName := Some FuncName, CurrentTestLineNumber := scast FuncLineNum\<rparr>;
     let u = u\<lparr>NumberOfTests := NumberOfTests u + 1\<rparr>;
     let u = UNITY_CLR_DETAILS u;
     s \<leftarrow> TEST_PROTECT (\<lambda>s. and_then (setUp s) TestFunc) (fst s, u);
     s \<leftarrow> TEST_PROTECT tearDown s;
     Some (fst s, UnityConcludeTest (snd s))
   }"

section \<open>Macros\<close>

definition UNITY_TEST_ASSERT :: "bool \<Rightarrow> u64 \<Rightarrow> string option \<Rightarrow> unity \<Rightarrow> unity outcome" where
  "UNITY_TEST_ASSERT condition line message u =
     (if condition then Returns u else UnityFail message line u)"

definition TEST_ASSERT_TRUE :: "bool \<Rightarrow> u64 \<Rightarrow> unity \<Rightarrow> unity outcome" where
  "TEST_ASSERT_TRUE condition line = UNITY_TEST_ASSERT condition line (Some '' Expected TRUE Was FALSE'')"

definition TEST_ASSERT_NULL :: "addr \<Rightarrow> u64 \<Rightarrow> unity \<Rightarrow> unity outcome" where
  "TEST_ASSERT_NULL pointer line = UNITY_TEST_ASSERT (pointer = NULL) line (Some '' Expected NULL'')"

definition TEST_ASSERT_NOT_NULL :: "addr \<Rightarrow> u64 \<Rightarrow> unity \<Rightarrow> unity outcome" where
  "TEST_ASSERT_NOT_NULL pointer line =
     UNITY_TEST_ASSERT (pointer \<noteq> NULL) line (Some '' Expected Non-NULL'')"

text \<open>An \<open>int\<close> argument is widened to \<open>UNITY_INT\<close> with its sign.\<close>

definition TEST_ASSERT_EQUAL_INT :: "u32 \<Rightarrow> u32 \<Rightarrow> u64 \<Rightarrow> unity \<Rightarrow> unity outcome" where
  "TEST_ASSERT_EQUAL_INT expected actual line =
     UnityAssertEqualIntNumber (scast expected) (scast actual) None line UNITY_DISPLAY_STYLE_INT"

definition TEST_ASSERT_EQUAL_UINT64 :: "u64 \<Rightarrow> u64 \<Rightarrow> u64 \<Rightarrow> unity \<Rightarrow> unity outcome" where
  "TEST_ASSERT_EQUAL_UINT64 expected actual line =
     UnityAssertEqualIntNumber expected actual None line UNITY_DISPLAY_STYLE_UINT64"

definition TEST_ASSERT_EQUAL_HEX8 :: "u8 \<Rightarrow> u8 \<Rightarrow> u64 \<Rightarrow> unity \<Rightarrow> unity outcome" where
  "TEST_ASSERT_EQUAL_HEX8 expected actual line =
     UnityAssertEqualUintNumber (ucast expected) (ucast actual) None line UNITY_DISPLAY_STYLE_HEX8"

definition TEST_ASSERT_EQUAL_PTR :: "addr \<Rightarrow> addr \<Rightarrow> u64 \<Rightarrow> unity \<Rightarrow> unity outcome" where
  "TEST_ASSERT_EQUAL_PTR expected actual line =
     UnityAssertEqualIntNumber expected actual None line UNITY_DISPLAY_STYLE_HEX64"

section \<open>The contract of the macros\<close>

lemma UnityFail_run:
  "UnityFail msg line u =
     (if \<not> idle u then Jumps u
      else Jumps (failed (begin_text (TestFile u) line (CurrentTestName u) @ UnityStrFail
        @ msg_text msg u) u))"
  by (cases "idle u") (simp_all add: UnityFail_def print_const emits)

interpretation fail: unity_assertion True False "UnityFail msg line" for msg line
  by unfold_locales (auto simp: UnityFail_run)

text \<open>A condition that holds is not looked at in a test that has failed: only a false one jumps.\<close>

lemma test_assert_cases:
  "UNITY_TEST_ASSERT c line msg u =
     (if c then Returns u else if \<not> idle u then Jumps u
      else Jumps (failed (begin_text (TestFile u) line (CurrentTestName u) @ UnityStrFail
        @ msg_text msg u) u))"
  by (simp add: UNITY_TEST_ASSERT_def UnityFail_run)

lemma ucast_u8_inject [simp]: "(ucast (a :: u8) :: u64) = ucast b \<longleftrightarrow> a = b"
proof
  assume "(ucast a :: u64) = ucast b"
  then have "(ucast (ucast a :: u64) :: u8) = ucast (ucast b :: u64)"
    by simp
  moreover have "(ucast (ucast w :: u64) :: u8) = w" for w :: u8
    by (rule bit_word_eqI) (auto simp: bit_simps)
  ultimately show "a = b" by metis
qed simp

lemma scast_u32_inject [simp]: "(scast (a :: u32) :: u64) = scast b \<longleftrightarrow> a = b"
  by (metis extend_low(3))

interpretation assert_equal_int: unity_assertion True "e = a" "TEST_ASSERT_EQUAL_INT e a line"
  for e a line
  using equal_int.unity_assertion_axioms [of "scast e" "scast a"]
  by (simp add: TEST_ASSERT_EQUAL_INT_def)

interpretation assert_equal_hex8: unity_assertion True "e = a" "TEST_ASSERT_EQUAL_HEX8 e a line"
  for e a line
  using equal_uint.unity_assertion_axioms [of "ucast e" "ucast a"]
  by (simp add: TEST_ASSERT_EQUAL_HEX8_def)

interpretation assert_equal_uint64: unity_assertion True "e = a" "TEST_ASSERT_EQUAL_UINT64 e a line"
  for e a line
  unfolding TEST_ASSERT_EQUAL_UINT64_def by (rule equal_int.unity_assertion_axioms)

interpretation assert_equal_ptr: unity_assertion True "e = a" "TEST_ASSERT_EQUAL_PTR e a line"
  for e a line
  unfolding TEST_ASSERT_EQUAL_PTR_def by (rule equal_int.unity_assertion_axioms)

section \<open>One test\<close>

text \<open>
  What a test function may do to the framework's state: write the flags, the details and the
  output, but not the counters.  Every function that only calls assertions does.
\<close>

definition same_counters :: "unity \<Rightarrow> unity \<Rightarrow> bool" where
  "same_counters u u' \<longleftrightarrow> NumberOfTests u' = NumberOfTests u \<and> TestFailures u' = TestFailures u
     \<and> TestIgnores u' = TestIgnores u \<and> TestFile u' = TestFile u
     \<and> (\<exists>s. outchars u' = outchars u @ s)"

lemma same_counters_trans: "same_counters u v \<Longrightarrow> same_counters v w \<Longrightarrow> same_counters u w"
  by (auto simp: same_counters_def)

definition well_mannered :: "'w test_function \<Rightarrow> bool" where
  "well_mannered f \<longleftrightarrow>
     (\<forall>w u. (\<exists>w' u'. (f (w, u) = Returns (w', u') \<or> f (w, u) = Jumps (w', u'))
        \<and> same_counters u u'))"

datatype verdict = Passed | Failed | Ignored

definition verdict_of :: "unity \<Rightarrow> verdict" where
  "verdict_of u = (if CurrentTestIgnored u \<noteq> 0 then Ignored
                   else if CurrentTestFailed u = 0 then Passed else Failed)"

lemma UnityConcludeTest_counts:
  "NumberOfTests (UnityConcludeTest u) = NumberOfTests u"
  "TestFailures (UnityConcludeTest u) = TestFailures u + of_bool (verdict_of u = Failed)"
  "TestIgnores (UnityConcludeTest u) = TestIgnores u + of_bool (verdict_of u = Ignored)"
  "idle (UnityConcludeTest u)"
  "TestFile (UnityConcludeTest u) = TestFile u"
  by (auto simp: UnityConcludeTest_def verdict_of_def print_const emits idle_def Let_def)

lemma TEST_PROTECT_well_mannered:
  assumes "well_mannered f"
  obtains w' u' where "TEST_PROTECT f (w, u) = Some (w', u')" and "same_counters u u'"
proof -
  obtain w' u' where "f (w, u) = Returns (w', u') \<or> f (w, u) = Jumps (w', u')" "same_counters u u'"
    using assms unfolding well_mannered_def by blast
  with that [of w' u'] show ?thesis
    by (auto simp: TEST_PROTECT_def)
qed

lemma well_mannered_then:
  assumes "well_mannered f" and "well_mannered g"
  shows "well_mannered (\<lambda>s. and_then (f s) g)"
  unfolding well_mannered_def
proof (intro allI)
  fix w u
  obtain w' u' where f: "f (w, u) = Returns (w', u') \<or> f (w, u) = Jumps (w', u')" "same_counters u u'"
    using assms(1) unfolding well_mannered_def by blast
  obtain w2 u2 where g: "g (w', u') = Returns (w2, u2) \<or> g (w', u') = Jumps (w2, u2)"
      "same_counters u' u2"
    using assms(2) unfolding well_mannered_def by blast
  show "\<exists>w' u'. (and_then (f (w, u)) g = Returns (w', u') \<or> and_then (f (w, u)) g = Jumps (w', u'))
      \<and> same_counters u u'"
    using f g same_counters_trans [OF f(2) g(2)] by (metis and_then.simps(1,2))
qed


text \<open>
  A test in its world: what is left of \<open>UnityDefaultTestRun\<close> before \<open>UnityConcludeTest\<close>.
\<close>

definition test_body ::
    "'w test_function \<Rightarrow> 'w test_function \<Rightarrow> 'w test_function \<Rightarrow> string \<Rightarrow> u32
     \<Rightarrow> 'w \<times> unity \<Rightarrow> ('w \<times> unity) option" where
  "test_body setUp tearDown f name line s = do {
     s \<leftarrow> TEST_PROTECT (\<lambda>s. and_then (setUp s) f)
       (fst s, UNITY_CLR_DETAILS ((snd s)\<lparr>CurrentTestName := Some name,
          CurrentTestLineNumber := scast line, NumberOfTests := NumberOfTests (snd s) + 1\<rparr>));
     TEST_PROTECT tearDown s
   }"

lemma UnityDefaultTestRun_body:
  "UnityDefaultTestRun setUp tearDown f name line s =
     map_option (map_prod id UnityConcludeTest) (test_body setUp tearDown f name line s)"
  by (simp add: UnityDefaultTestRun_def test_body_def map_option_bind map_conv_bind_option Let_def
      prod.case_eq_if map_prod_def split: bind_splits)

lemma test_body_counts:
  assumes "well_mannered setUp" and "well_mannered tearDown" and "well_mannered f"
  obtains w' u' where "test_body setUp tearDown f name line (w, u) = Some (w', u')"
    and "NumberOfTests u' = NumberOfTests u + 1" and "TestFailures u' = TestFailures u"
    and "TestIgnores u' = TestIgnores u" and "TestFile u' = TestFile u"
proof -
  let ?u = "UNITY_CLR_DETAILS (u\<lparr>CurrentTestName := Some name, CurrentTestLineNumber := scast line,
    NumberOfTests := NumberOfTests u + 1\<rparr>)"
  obtain w1 u1 where 1: "TEST_PROTECT (\<lambda>s. and_then (setUp s) f) (w, ?u) = Some (w1, u1)"
      "same_counters ?u u1"
    using TEST_PROTECT_well_mannered [OF well_mannered_then [OF assms(1,3)]] by blast
  obtain w2 u2 where 2: "TEST_PROTECT tearDown (w1, u1) = Some (w2, u2)" "same_counters u1 u2"
    using TEST_PROTECT_well_mannered [OF assms(2)] by blast
  from same_counters_trans [OF 1(2) 2(2)] that [of w2 u2] 1(1) 2(1) show ?thesis
    by (simp add: test_body_def same_counters_def UNITY_CLR_DETAILS_def)
qed

section \<open>A suite of tests\<close>

text \<open>The calls of \<open>RUN_TEST\<close> of a test program, one after the other.\<close>

type_synonym 'w test = "'w test_function \<times> string \<times> u32"

primrec run_tests ::
    "'w test_function \<Rightarrow> 'w test_function \<Rightarrow> 'w test list \<Rightarrow> 'w \<times> unity \<Rightarrow> ('w \<times> unity) option" where
  "run_tests setUp tearDown [] s = Some s"
| "run_tests setUp tearDown (t # ts) s =
     (case t of (f, name, line) \<Rightarrow>
        Option.bind (UnityDefaultTestRun setUp tearDown f name line s)
          (run_tests setUp tearDown ts))"

primrec verdicts ::
    "'w test_function \<Rightarrow> 'w test_function \<Rightarrow> 'w test list \<Rightarrow> 'w \<times> unity \<Rightarrow> verdict list" where
  "verdicts setUp tearDown [] s = []"
| "verdicts setUp tearDown (t # ts) s =
     (case t of (f, name, line) \<Rightarrow>
        (case test_body setUp tearDown f name line s of
           None \<Rightarrow> []
         | Some s' \<Rightarrow> verdict_of (snd s')
             # verdicts setUp tearDown ts (map_prod id UnityConcludeTest s')))"

lemma run_tests_counts:
  assumes "well_mannered setUp" and "well_mannered tearDown"
    and "\<forall>t \<in> set ts. well_mannered (fst t)" and "idle u"
  shows "\<exists>w' u'. run_tests setUp tearDown ts (w, u) = Some (w', u') \<and> idle u'
    \<and> TestFile u' = TestFile u
    \<and> NumberOfTests u' = NumberOfTests u + of_nat (length ts)
    \<and> TestFailures u' = TestFailures u
        + of_nat (count_list (verdicts setUp tearDown ts (w, u)) Failed)
    \<and> TestIgnores u' = TestIgnores u
        + of_nat (count_list (verdicts setUp tearDown ts (w, u)) Ignored)
    \<and> length (verdicts setUp tearDown ts (w, u)) = length ts"
  using assms(3,4)
proof (induction ts arbitrary: w u)
  case Nil
  then show ?case by simp
next
  case (Cons t ts)
  obtain f name line where t: "t = (f, name, line)" by (cases t)
  then have "well_mannered f" using Cons.prems by simp
  from test_body_counts [OF assms(1,2) this]
  obtain w1 u1 where 1: "test_body setUp tearDown f name line (w, u) = Some (w1, u1)"
      "NumberOfTests u1 = NumberOfTests u + 1" "TestFailures u1 = TestFailures u"
      "TestIgnores u1 = TestIgnores u" "TestFile u1 = TestFile u"
    by blast
  have "\<forall>t \<in> set ts. well_mannered (fst t)"
    using Cons.prems by simp
  from Cons.IH [OF this UnityConcludeTest_counts(4) [of u1], of w1]
  show ?case
    using 1 by (auto simp: t UnityDefaultTestRun_body UnityConcludeTest_counts add.assoc)
qed

section \<open>Tests made of assertions\<close>

text \<open>An assertion as a statement of a test function, and several in a row.\<close>

definition assert_here :: "(unity \<Rightarrow> unity outcome) \<Rightarrow> 'w test_function" where
  "assert_here check s =
     (case check (snd s) of Returns u \<Rightarrow> Returns (fst s, u) | Jumps u \<Rightarrow> Jumps (fst s, u)
      | Undefined \<Rightarrow> Undefined)"

primrec all_checks :: "(unity \<Rightarrow> unity outcome) list \<Rightarrow> 'w test_function" where
  "all_checks [] s = Returns s"
| "all_checks (c # cs) s = and_then (assert_here c s) (all_checks cs)"

context unity_assertion
begin

lemma assert_here_cases:
  assumes "ready"
  shows "\<exists>s. assert_here check (w, u) =
      (if \<not> idle u then Jumps (w, u) else if holds then Returns (w, u) else Jumps (w, failed s u))"
  using busy [of u] passes [of u] fails [of u] assms
  by (cases "idle u"; cases holds) (auto simp: assert_here_def)

end

lemma same_counters_failed [simp]: "same_counters u (failed s u)" "same_counters u u"
  by (simp_all add: same_counters_def failed_def)

text \<open>
  A test whose statements are assertions: it ends, and afterwards the flag says whether one of the
  conditions was false.
\<close>

lemma all_checks_run:
  assumes "\<forall>(h, c) \<in> set hcs. unity_assertion True h c" and "idle u"
  shows "if \<forall>(h, c) \<in> set hcs. h then all_checks (map snd hcs) (w, u) = Returns (w, u)
    else \<exists>s. all_checks (map snd hcs) (w, u) = Jumps (w, failed s u)"
  using assms
proof (induction hcs)
  case Nil
  then show ?case by simp
next
  case (Cons hc hcs)
  obtain h c where hc: "hc = (h, c)" by (cases hc)
  then have "unity_assertion True h c" using Cons.prems by simp
  from unity_assertion.assert_here_cases [OF this, of w u]
  obtain s where here: "assert_here c (w, u) =
      (if \<not> idle u then Jumps (w, u) else if h then Returns (w, u) else Jumps (w, failed s u))"
    by blast
  show ?case
  proof (cases h)
    case True
    then show ?thesis
      using Cons here by (simp add: hc)
  next
    case False
    then show ?thesis
      using Cons.prems here by (auto simp: hc)
  qed
qed

lemma checks_test_body:
  assumes "\<forall>(h, c) \<in> set hcs. unity_assertion True h c" and "idle u"
  obtains u' where "test_body Returns Returns (all_checks (map snd hcs)) name line (w, u) = Some (w, u')"
    and "verdict_of u' = (if \<forall>(h, c) \<in> set hcs. h then Passed else Failed)"
    and "NumberOfTests u' = NumberOfTests u + 1" and "TestFailures u' = TestFailures u"
    and "TestIgnores u' = TestIgnores u"
proof -
  let ?u = "UNITY_CLR_DETAILS (u\<lparr>CurrentTestName := Some name, CurrentTestLineNumber := scast line,
    NumberOfTests := NumberOfTests u + 1\<rparr>)"
  have u: "idle ?u" "verdict_of ?u = Passed" "verdict_of (failed s ?u) = Failed" for s
    using assms(2) by (simp_all add: idle_def UNITY_CLR_DETAILS_def verdict_of_def failed_def)
  show ?thesis
    using all_checks_run [OF assms(1) u(1), of w] that u(2,3)
    by (cases "\<forall>(h, c) \<in> set hcs. h")
      (auto simp: test_body_def TEST_PROTECT_def failed_def UNITY_CLR_DETAILS_def)
qed

section \<open>A state to show the properties on\<close>

definition fresh_unity :: unity where
  "fresh_unity = \<lparr>TestFile = Some ''t.c'', CurrentTestName = Some ''t'', CurrentDetail1 = None,
     CurrentDetail2 = None, CurrentTestLineNumber = 0, NumberOfTests = 0, TestFailures = 0,
     TestIgnores = 0, CurrentTestFailed = 0, CurrentTestIgnored = 0, outchars = []\<rparr>"

lemma idle_fresh [simp]: "idle fresh_unity"
  by (simp add: idle_def fresh_unity_def)

lemma TestFailures_fresh: "TestFailures fresh_unity = 0"
  by (simp add: fresh_unity_def)

end
