(* ===== verification/Unity_Macros.thy ===== *)
theory Unity_Macros
  imports Unity_Control
begin

text \<open>
  The assertion macros of \<open>src/unity/unity_internals.h\<close> (\<open>UNITY_TEST_ASSERT_...\<close>) on integers,
  pointers, arrays, strings and memory, in the configuration with 64-bit support: each casts its
  arguments to the width in its name and calls the assertion function.  A number is given as the
  64-bit value of the macro argument, an array as its address in the memory \<open>m\<close>.
\<close>

section \<open>Casts\<close>

text \<open>
  A value cut to a narrower type and widened to \<open>UNITY_INT\<close> or \<open>UNITY_UINT\<close> again: with its sign
  from a signed type, with zeros from an unsigned one.
\<close>

definition as_INT8 :: "u64 \<Rightarrow> u64" where "as_INT8 x = scast (ucast x :: u8)"
definition as_INT16 :: "u64 \<Rightarrow> u64" where "as_INT16 x = scast (ucast x :: u16)"
definition as_INT32 :: "u64 \<Rightarrow> u64" where "as_INT32 x = scast (ucast x :: u32)"
definition as_UINT8 :: "u64 \<Rightarrow> u64" where "as_UINT8 x = ucast (ucast x :: u8)"
definition as_UINT16 :: "u64 \<Rightarrow> u64" where "as_UINT16 x = ucast (ucast x :: u16)"
definition as_UINT32 :: "u64 \<Rightarrow> u64" where "as_UINT32 x = ucast (ucast x :: u32)"

text \<open>
  The comparison of an array with one number: \<open>UnityNumToPtr\<close> stores the number in static storage
  of the framework at \<open>q\<close>, which no test reads.
\<close>

definition equal_each ::
    "addr \<Rightarrow> cmem \<Rightarrow> u64 \<Rightarrow> u8 \<Rightarrow> addr \<Rightarrow> u32 \<Rightarrow> string option \<Rightarrow> u64 \<Rightarrow> style
     \<Rightarrow> unity \<Rightarrow> unity outcome" where
  "equal_each q m num sz actual num_elements msg line st u =
     (case UnityNumToPtr q m num sz of
        None \<Rightarrow> Undefined
      | Some (m, p) \<Rightarrow>
          UnityAssertEqualIntArray m p actual num_elements msg line st UNITY_ARRAY_TO_VAL u)"

section \<open>Conditions\<close>

definition UNITY_TEST_FAIL :: "u64 \<Rightarrow> string option \<Rightarrow> unity \<Rightarrow> unity outcome" where
  "UNITY_TEST_FAIL line message = UnityFail message line"

definition UNITY_TEST_IGNORE :: "u64 \<Rightarrow> string option \<Rightarrow> unity \<Rightarrow> unity outcome" where
  "UNITY_TEST_IGNORE line message = UnityIgnore message line"

definition UNITY_TEST_ASSERT_NULL :: "addr \<Rightarrow> u64 \<Rightarrow> string option \<Rightarrow> unity \<Rightarrow> unity outcome" where
  "UNITY_TEST_ASSERT_NULL pointer line message = UNITY_TEST_ASSERT (pointer = NULL) line message"

definition UNITY_TEST_ASSERT_NOT_NULL :: "addr \<Rightarrow> u64 \<Rightarrow> string option \<Rightarrow> unity \<Rightarrow> unity outcome" where
  "UNITY_TEST_ASSERT_NOT_NULL pointer line message = UNITY_TEST_ASSERT (pointer \<noteq> NULL) line message"

text \<open>\<open>pointer[0]\<close> of a null pointer is undefined.\<close>

definition first_char :: "string option \<Rightarrow> (char \<Rightarrow> unity outcome) \<Rightarrow> unity outcome" where
  "first_char pointer k = (case Option.bind pointer (\<lambda>s. char_at s 0) of
     None \<Rightarrow> Undefined | Some c \<Rightarrow> k c)"

definition UNITY_TEST_ASSERT_EMPTY ::
    "string option \<Rightarrow> u64 \<Rightarrow> string option \<Rightarrow> unity \<Rightarrow> unity outcome" where
  "UNITY_TEST_ASSERT_EMPTY pointer line message u =
     first_char pointer (\<lambda>c. UNITY_TEST_ASSERT (c = CHR 0x00) line message u)"

definition UNITY_TEST_ASSERT_NOT_EMPTY ::
    "string option \<Rightarrow> u64 \<Rightarrow> string option \<Rightarrow> unity \<Rightarrow> unity outcome" where
  "UNITY_TEST_ASSERT_NOT_EMPTY pointer line message u =
     first_char pointer (\<lambda>c. UNITY_TEST_ASSERT (c \<noteq> CHR 0x00) line message u)"

section \<open>Numbers, arrays, strings and memory\<close>

subsection \<open>Equality\<close>

definition UNITY_TEST_ASSERT_EQUAL_INT ::
    "u64 \<Rightarrow> u64 \<Rightarrow> u64 \<Rightarrow> string option \<Rightarrow> unity \<Rightarrow> unity outcome" where
  "UNITY_TEST_ASSERT_EQUAL_INT expected actual line message =
     UnityAssertEqualIntNumber expected actual message line UNITY_DISPLAY_STYLE_INT"

definition UNITY_TEST_ASSERT_EQUAL_INT8 ::
    "u64 \<Rightarrow> u64 \<Rightarrow> u64 \<Rightarrow> string option \<Rightarrow> unity \<Rightarrow> unity outcome" where
  "UNITY_TEST_ASSERT_EQUAL_INT8 expected actual line message =
     UnityAssertEqualIntNumber (as_INT8 expected) (as_INT8 actual) message line UNITY_DISPLAY_STYLE_INT8"

definition UNITY_TEST_ASSERT_EQUAL_INT16 ::
    "u64 \<Rightarrow> u64 \<Rightarrow> u64 \<Rightarrow> string option \<Rightarrow> unity \<Rightarrow> unity outcome" where
  "UNITY_TEST_ASSERT_EQUAL_INT16 expected actual line message =
     UnityAssertEqualIntNumber (as_INT16 expected) (as_INT16 actual) message line UNITY_DISPLAY_STYLE_INT16"

definition UNITY_TEST_ASSERT_EQUAL_INT32 ::
    "u64 \<Rightarrow> u64 \<Rightarrow> u64 \<Rightarrow> string option \<Rightarrow> unity \<Rightarrow> unity outcome" where
  "UNITY_TEST_ASSERT_EQUAL_INT32 expected actual line message =
     UnityAssertEqualIntNumber (as_INT32 expected) (as_INT32 actual) message line UNITY_DISPLAY_STYLE_INT32"

definition UNITY_TEST_ASSERT_EQUAL_UINT ::
    "u64 \<Rightarrow> u64 \<Rightarrow> u64 \<Rightarrow> string option \<Rightarrow> unity \<Rightarrow> unity outcome" where
  "UNITY_TEST_ASSERT_EQUAL_UINT expected actual line message =
     UnityAssertEqualUintNumber expected actual message line UNITY_DISPLAY_STYLE_UINT"

definition UNITY_TEST_ASSERT_EQUAL_UINT8 ::
    "u64 \<Rightarrow> u64 \<Rightarrow> u64 \<Rightarrow> string option \<Rightarrow> unity \<Rightarrow> unity outcome" where
  "UNITY_TEST_ASSERT_EQUAL_UINT8 expected actual line message =
     UnityAssertEqualUintNumber (as_UINT8 expected) (as_UINT8 actual) message line UNITY_DISPLAY_STYLE_UINT8"

definition UNITY_TEST_ASSERT_EQUAL_UINT16 ::
    "u64 \<Rightarrow> u64 \<Rightarrow> u64 \<Rightarrow> string option \<Rightarrow> unity \<Rightarrow> unity outcome" where
  "UNITY_TEST_ASSERT_EQUAL_UINT16 expected actual line message =
     UnityAssertEqualUintNumber (as_UINT16 expected) (as_UINT16 actual) message line UNITY_DISPLAY_STYLE_UINT16"

definition UNITY_TEST_ASSERT_EQUAL_UINT32 ::
    "u64 \<Rightarrow> u64 \<Rightarrow> u64 \<Rightarrow> string option \<Rightarrow> unity \<Rightarrow> unity outcome" where
  "UNITY_TEST_ASSERT_EQUAL_UINT32 expected actual line message =
     UnityAssertEqualUintNumber (as_UINT32 expected) (as_UINT32 actual) message line UNITY_DISPLAY_STYLE_UINT32"

definition UNITY_TEST_ASSERT_EQUAL_HEX8 ::
    "u64 \<Rightarrow> u64 \<Rightarrow> u64 \<Rightarrow> string option \<Rightarrow> unity \<Rightarrow> unity outcome" where
  "UNITY_TEST_ASSERT_EQUAL_HEX8 expected actual line message =
     UnityAssertEqualUintNumber (as_UINT8 expected) (as_UINT8 actual) message line UNITY_DISPLAY_STYLE_HEX8"

definition UNITY_TEST_ASSERT_EQUAL_HEX16 ::
    "u64 \<Rightarrow> u64 \<Rightarrow> u64 \<Rightarrow> string option \<Rightarrow> unity \<Rightarrow> unity outcome" where
  "UNITY_TEST_ASSERT_EQUAL_HEX16 expected actual line message =
     UnityAssertEqualUintNumber (as_UINT16 expected) (as_UINT16 actual) message line UNITY_DISPLAY_STYLE_HEX16"

definition UNITY_TEST_ASSERT_EQUAL_HEX32 ::
    "u64 \<Rightarrow> u64 \<Rightarrow> u64 \<Rightarrow> string option \<Rightarrow> unity \<Rightarrow> unity outcome" where
  "UNITY_TEST_ASSERT_EQUAL_HEX32 expected actual line message =
     UnityAssertEqualUintNumber (as_UINT32 expected) (as_UINT32 actual) message line UNITY_DISPLAY_STYLE_HEX32"

definition UNITY_TEST_ASSERT_EQUAL_CHAR ::
    "u64 \<Rightarrow> u64 \<Rightarrow> u64 \<Rightarrow> string option \<Rightarrow> unity \<Rightarrow> unity outcome" where
  "UNITY_TEST_ASSERT_EQUAL_CHAR expected actual line message =
     UnityAssertEqualIntNumber (as_INT8 expected) (as_INT8 actual) message line UNITY_DISPLAY_STYLE_CHAR"

subsection \<open>Bits\<close>

definition UNITY_TEST_ASSERT_BITS ::
    "u64 \<Rightarrow> u64 \<Rightarrow> u64 \<Rightarrow> u64 \<Rightarrow> string option \<Rightarrow> unity \<Rightarrow> unity outcome" where
  "UNITY_TEST_ASSERT_BITS msk expected actual line message =
     UnityAssertBits msk expected actual message line"

subsection \<open>Inequality\<close>

definition UNITY_TEST_ASSERT_NOT_EQUAL_INT ::
    "u64 \<Rightarrow> u64 \<Rightarrow> u64 \<Rightarrow> string option \<Rightarrow> unity \<Rightarrow> unity outcome" where
  "UNITY_TEST_ASSERT_NOT_EQUAL_INT threshold actual line message =
     UnityAssertIntGreaterOrLessOrEqualNumber threshold actual UNITY_NOT_EQUAL message line UNITY_DISPLAY_STYLE_INT"

definition UNITY_TEST_ASSERT_NOT_EQUAL_INT8 ::
    "u64 \<Rightarrow> u64 \<Rightarrow> u64 \<Rightarrow> string option \<Rightarrow> unity \<Rightarrow> unity outcome" where
  "UNITY_TEST_ASSERT_NOT_EQUAL_INT8 threshold actual line message =
     UnityAssertIntGreaterOrLessOrEqualNumber (as_INT8 threshold) (as_INT8 actual) UNITY_NOT_EQUAL message line UNITY_DISPLAY_STYLE_INT8"

definition UNITY_TEST_ASSERT_NOT_EQUAL_INT16 ::
    "u64 \<Rightarrow> u64 \<Rightarrow> u64 \<Rightarrow> string option \<Rightarrow> unity \<Rightarrow> unity outcome" where
  "UNITY_TEST_ASSERT_NOT_EQUAL_INT16 threshold actual line message =
     UnityAssertIntGreaterOrLessOrEqualNumber (as_INT16 threshold) (as_INT16 actual) UNITY_NOT_EQUAL message line UNITY_DISPLAY_STYLE_INT16"

definition UNITY_TEST_ASSERT_NOT_EQUAL_INT32 ::
    "u64 \<Rightarrow> u64 \<Rightarrow> u64 \<Rightarrow> string option \<Rightarrow> unity \<Rightarrow> unity outcome" where
  "UNITY_TEST_ASSERT_NOT_EQUAL_INT32 threshold actual line message =
     UnityAssertIntGreaterOrLessOrEqualNumber (as_INT32 threshold) (as_INT32 actual) UNITY_NOT_EQUAL message line UNITY_DISPLAY_STYLE_INT32"

definition UNITY_TEST_ASSERT_NOT_EQUAL_UINT ::
    "u64 \<Rightarrow> u64 \<Rightarrow> u64 \<Rightarrow> string option \<Rightarrow> unity \<Rightarrow> unity outcome" where
  "UNITY_TEST_ASSERT_NOT_EQUAL_UINT threshold actual line message =
     UnityAssertUintGreaterOrLessOrEqualNumber threshold actual UNITY_NOT_EQUAL message line UNITY_DISPLAY_STYLE_UINT"

definition UNITY_TEST_ASSERT_NOT_EQUAL_UINT8 ::
    "u64 \<Rightarrow> u64 \<Rightarrow> u64 \<Rightarrow> string option \<Rightarrow> unity \<Rightarrow> unity outcome" where
  "UNITY_TEST_ASSERT_NOT_EQUAL_UINT8 threshold actual line message =
     UnityAssertUintGreaterOrLessOrEqualNumber (as_UINT8 threshold) (as_UINT8 actual) UNITY_NOT_EQUAL message line UNITY_DISPLAY_STYLE_UINT8"

definition UNITY_TEST_ASSERT_NOT_EQUAL_UINT16 ::
    "u64 \<Rightarrow> u64 \<Rightarrow> u64 \<Rightarrow> string option \<Rightarrow> unity \<Rightarrow> unity outcome" where
  "UNITY_TEST_ASSERT_NOT_EQUAL_UINT16 threshold actual line message =
     UnityAssertUintGreaterOrLessOrEqualNumber (as_UINT16 threshold) (as_UINT16 actual) UNITY_NOT_EQUAL message line UNITY_DISPLAY_STYLE_UINT16"

definition UNITY_TEST_ASSERT_NOT_EQUAL_UINT32 ::
    "u64 \<Rightarrow> u64 \<Rightarrow> u64 \<Rightarrow> string option \<Rightarrow> unity \<Rightarrow> unity outcome" where
  "UNITY_TEST_ASSERT_NOT_EQUAL_UINT32 threshold actual line message =
     UnityAssertUintGreaterOrLessOrEqualNumber (as_UINT32 threshold) (as_UINT32 actual) UNITY_NOT_EQUAL message line UNITY_DISPLAY_STYLE_UINT32"

definition UNITY_TEST_ASSERT_NOT_EQUAL_HEX8 ::
    "u64 \<Rightarrow> u64 \<Rightarrow> u64 \<Rightarrow> string option \<Rightarrow> unity \<Rightarrow> unity outcome" where
  "UNITY_TEST_ASSERT_NOT_EQUAL_HEX8 threshold actual line message =
     UnityAssertUintGreaterOrLessOrEqualNumber (as_UINT8 threshold) (as_UINT8 actual) UNITY_NOT_EQUAL message line UNITY_DISPLAY_STYLE_HEX8"

definition UNITY_TEST_ASSERT_NOT_EQUAL_HEX16 ::
    "u64 \<Rightarrow> u64 \<Rightarrow> u64 \<Rightarrow> string option \<Rightarrow> unity \<Rightarrow> unity outcome" where
  "UNITY_TEST_ASSERT_NOT_EQUAL_HEX16 threshold actual line message =
     UnityAssertUintGreaterOrLessOrEqualNumber (as_UINT16 threshold) (as_UINT16 actual) UNITY_NOT_EQUAL message line UNITY_DISPLAY_STYLE_HEX16"

definition UNITY_TEST_ASSERT_NOT_EQUAL_HEX32 ::
    "u64 \<Rightarrow> u64 \<Rightarrow> u64 \<Rightarrow> string option \<Rightarrow> unity \<Rightarrow> unity outcome" where
  "UNITY_TEST_ASSERT_NOT_EQUAL_HEX32 threshold actual line message =
     UnityAssertUintGreaterOrLessOrEqualNumber (as_UINT32 threshold) (as_UINT32 actual) UNITY_NOT_EQUAL message line UNITY_DISPLAY_STYLE_HEX32"

definition UNITY_TEST_ASSERT_NOT_EQUAL_CHAR ::
    "u64 \<Rightarrow> u64 \<Rightarrow> u64 \<Rightarrow> string option \<Rightarrow> unity \<Rightarrow> unity outcome" where
  "UNITY_TEST_ASSERT_NOT_EQUAL_CHAR threshold actual line message =
     UnityAssertIntGreaterOrLessOrEqualNumber (as_INT8 threshold) (as_INT8 actual) UNITY_NOT_EQUAL message line UNITY_DISPLAY_STYLE_CHAR"

subsection \<open>Greater\<close>

definition UNITY_TEST_ASSERT_GREATER_THAN_INT ::
    "u64 \<Rightarrow> u64 \<Rightarrow> u64 \<Rightarrow> string option \<Rightarrow> unity \<Rightarrow> unity outcome" where
  "UNITY_TEST_ASSERT_GREATER_THAN_INT threshold actual line message =
     UnityAssertIntGreaterOrLessOrEqualNumber threshold actual UNITY_GREATER_THAN message line UNITY_DISPLAY_STYLE_INT"

definition UNITY_TEST_ASSERT_GREATER_THAN_INT8 ::
    "u64 \<Rightarrow> u64 \<Rightarrow> u64 \<Rightarrow> string option \<Rightarrow> unity \<Rightarrow> unity outcome" where
  "UNITY_TEST_ASSERT_GREATER_THAN_INT8 threshold actual line message =
     UnityAssertIntGreaterOrLessOrEqualNumber (as_INT8 threshold) (as_INT8 actual) UNITY_GREATER_THAN message line UNITY_DISPLAY_STYLE_INT8"

definition UNITY_TEST_ASSERT_GREATER_THAN_INT16 ::
    "u64 \<Rightarrow> u64 \<Rightarrow> u64 \<Rightarrow> string option \<Rightarrow> unity \<Rightarrow> unity outcome" where
  "UNITY_TEST_ASSERT_GREATER_THAN_INT16 threshold actual line message =
     UnityAssertIntGreaterOrLessOrEqualNumber (as_INT16 threshold) (as_INT16 actual) UNITY_GREATER_THAN message line UNITY_DISPLAY_STYLE_INT16"

definition UNITY_TEST_ASSERT_GREATER_THAN_INT32 ::
    "u64 \<Rightarrow> u64 \<Rightarrow> u64 \<Rightarrow> string option \<Rightarrow> unity \<Rightarrow> unity outcome" where
  "UNITY_TEST_ASSERT_GREATER_THAN_INT32 threshold actual line message =
     UnityAssertIntGreaterOrLessOrEqualNumber (as_INT32 threshold) (as_INT32 actual) UNITY_GREATER_THAN message line UNITY_DISPLAY_STYLE_INT32"

definition UNITY_TEST_ASSERT_GREATER_THAN_UINT ::
    "u64 \<Rightarrow> u64 \<Rightarrow> u64 \<Rightarrow> string option \<Rightarrow> unity \<Rightarrow> unity outcome" where
  "UNITY_TEST_ASSERT_GREATER_THAN_UINT threshold actual line message =
     UnityAssertUintGreaterOrLessOrEqualNumber threshold actual UNITY_GREATER_THAN message line UNITY_DISPLAY_STYLE_UINT"

definition UNITY_TEST_ASSERT_GREATER_THAN_UINT8 ::
    "u64 \<Rightarrow> u64 \<Rightarrow> u64 \<Rightarrow> string option \<Rightarrow> unity \<Rightarrow> unity outcome" where
  "UNITY_TEST_ASSERT_GREATER_THAN_UINT8 threshold actual line message =
     UnityAssertUintGreaterOrLessOrEqualNumber (as_UINT8 threshold) (as_UINT8 actual) UNITY_GREATER_THAN message line UNITY_DISPLAY_STYLE_UINT8"

definition UNITY_TEST_ASSERT_GREATER_THAN_UINT16 ::
    "u64 \<Rightarrow> u64 \<Rightarrow> u64 \<Rightarrow> string option \<Rightarrow> unity \<Rightarrow> unity outcome" where
  "UNITY_TEST_ASSERT_GREATER_THAN_UINT16 threshold actual line message =
     UnityAssertUintGreaterOrLessOrEqualNumber (as_UINT16 threshold) (as_UINT16 actual) UNITY_GREATER_THAN message line UNITY_DISPLAY_STYLE_UINT16"

definition UNITY_TEST_ASSERT_GREATER_THAN_UINT32 ::
    "u64 \<Rightarrow> u64 \<Rightarrow> u64 \<Rightarrow> string option \<Rightarrow> unity \<Rightarrow> unity outcome" where
  "UNITY_TEST_ASSERT_GREATER_THAN_UINT32 threshold actual line message =
     UnityAssertUintGreaterOrLessOrEqualNumber (as_UINT32 threshold) (as_UINT32 actual) UNITY_GREATER_THAN message line UNITY_DISPLAY_STYLE_UINT32"

definition UNITY_TEST_ASSERT_GREATER_THAN_HEX8 ::
    "u64 \<Rightarrow> u64 \<Rightarrow> u64 \<Rightarrow> string option \<Rightarrow> unity \<Rightarrow> unity outcome" where
  "UNITY_TEST_ASSERT_GREATER_THAN_HEX8 threshold actual line message =
     UnityAssertUintGreaterOrLessOrEqualNumber (as_UINT8 threshold) (as_UINT8 actual) UNITY_GREATER_THAN message line UNITY_DISPLAY_STYLE_HEX8"

definition UNITY_TEST_ASSERT_GREATER_THAN_HEX16 ::
    "u64 \<Rightarrow> u64 \<Rightarrow> u64 \<Rightarrow> string option \<Rightarrow> unity \<Rightarrow> unity outcome" where
  "UNITY_TEST_ASSERT_GREATER_THAN_HEX16 threshold actual line message =
     UnityAssertUintGreaterOrLessOrEqualNumber (as_UINT16 threshold) (as_UINT16 actual) UNITY_GREATER_THAN message line UNITY_DISPLAY_STYLE_HEX16"

definition UNITY_TEST_ASSERT_GREATER_THAN_HEX32 ::
    "u64 \<Rightarrow> u64 \<Rightarrow> u64 \<Rightarrow> string option \<Rightarrow> unity \<Rightarrow> unity outcome" where
  "UNITY_TEST_ASSERT_GREATER_THAN_HEX32 threshold actual line message =
     UnityAssertUintGreaterOrLessOrEqualNumber (as_UINT32 threshold) (as_UINT32 actual) UNITY_GREATER_THAN message line UNITY_DISPLAY_STYLE_HEX32"

definition UNITY_TEST_ASSERT_GREATER_THAN_CHAR ::
    "u64 \<Rightarrow> u64 \<Rightarrow> u64 \<Rightarrow> string option \<Rightarrow> unity \<Rightarrow> unity outcome" where
  "UNITY_TEST_ASSERT_GREATER_THAN_CHAR threshold actual line message =
     UnityAssertIntGreaterOrLessOrEqualNumber (as_INT8 threshold) (as_INT8 actual) UNITY_GREATER_THAN message line UNITY_DISPLAY_STYLE_CHAR"

subsection \<open>Smaller\<close>

definition UNITY_TEST_ASSERT_SMALLER_THAN_INT ::
    "u64 \<Rightarrow> u64 \<Rightarrow> u64 \<Rightarrow> string option \<Rightarrow> unity \<Rightarrow> unity outcome" where
  "UNITY_TEST_ASSERT_SMALLER_THAN_INT threshold actual line message =
     UnityAssertIntGreaterOrLessOrEqualNumber threshold actual UNITY_SMALLER_THAN message line UNITY_DISPLAY_STYLE_INT"

definition UNITY_TEST_ASSERT_SMALLER_THAN_INT8 ::
    "u64 \<Rightarrow> u64 \<Rightarrow> u64 \<Rightarrow> string option \<Rightarrow> unity \<Rightarrow> unity outcome" where
  "UNITY_TEST_ASSERT_SMALLER_THAN_INT8 threshold actual line message =
     UnityAssertIntGreaterOrLessOrEqualNumber (as_INT8 threshold) (as_INT8 actual) UNITY_SMALLER_THAN message line UNITY_DISPLAY_STYLE_INT8"

definition UNITY_TEST_ASSERT_SMALLER_THAN_INT16 ::
    "u64 \<Rightarrow> u64 \<Rightarrow> u64 \<Rightarrow> string option \<Rightarrow> unity \<Rightarrow> unity outcome" where
  "UNITY_TEST_ASSERT_SMALLER_THAN_INT16 threshold actual line message =
     UnityAssertIntGreaterOrLessOrEqualNumber (as_INT16 threshold) (as_INT16 actual) UNITY_SMALLER_THAN message line UNITY_DISPLAY_STYLE_INT16"

definition UNITY_TEST_ASSERT_SMALLER_THAN_INT32 ::
    "u64 \<Rightarrow> u64 \<Rightarrow> u64 \<Rightarrow> string option \<Rightarrow> unity \<Rightarrow> unity outcome" where
  "UNITY_TEST_ASSERT_SMALLER_THAN_INT32 threshold actual line message =
     UnityAssertIntGreaterOrLessOrEqualNumber (as_INT32 threshold) (as_INT32 actual) UNITY_SMALLER_THAN message line UNITY_DISPLAY_STYLE_INT32"

definition UNITY_TEST_ASSERT_SMALLER_THAN_UINT ::
    "u64 \<Rightarrow> u64 \<Rightarrow> u64 \<Rightarrow> string option \<Rightarrow> unity \<Rightarrow> unity outcome" where
  "UNITY_TEST_ASSERT_SMALLER_THAN_UINT threshold actual line message =
     UnityAssertUintGreaterOrLessOrEqualNumber threshold actual UNITY_SMALLER_THAN message line UNITY_DISPLAY_STYLE_UINT"

definition UNITY_TEST_ASSERT_SMALLER_THAN_UINT8 ::
    "u64 \<Rightarrow> u64 \<Rightarrow> u64 \<Rightarrow> string option \<Rightarrow> unity \<Rightarrow> unity outcome" where
  "UNITY_TEST_ASSERT_SMALLER_THAN_UINT8 threshold actual line message =
     UnityAssertUintGreaterOrLessOrEqualNumber (as_UINT8 threshold) (as_UINT8 actual) UNITY_SMALLER_THAN message line UNITY_DISPLAY_STYLE_UINT8"

definition UNITY_TEST_ASSERT_SMALLER_THAN_UINT16 ::
    "u64 \<Rightarrow> u64 \<Rightarrow> u64 \<Rightarrow> string option \<Rightarrow> unity \<Rightarrow> unity outcome" where
  "UNITY_TEST_ASSERT_SMALLER_THAN_UINT16 threshold actual line message =
     UnityAssertUintGreaterOrLessOrEqualNumber (as_UINT16 threshold) (as_UINT16 actual) UNITY_SMALLER_THAN message line UNITY_DISPLAY_STYLE_UINT16"

definition UNITY_TEST_ASSERT_SMALLER_THAN_UINT32 ::
    "u64 \<Rightarrow> u64 \<Rightarrow> u64 \<Rightarrow> string option \<Rightarrow> unity \<Rightarrow> unity outcome" where
  "UNITY_TEST_ASSERT_SMALLER_THAN_UINT32 threshold actual line message =
     UnityAssertUintGreaterOrLessOrEqualNumber (as_UINT32 threshold) (as_UINT32 actual) UNITY_SMALLER_THAN message line UNITY_DISPLAY_STYLE_UINT32"

definition UNITY_TEST_ASSERT_SMALLER_THAN_HEX8 ::
    "u64 \<Rightarrow> u64 \<Rightarrow> u64 \<Rightarrow> string option \<Rightarrow> unity \<Rightarrow> unity outcome" where
  "UNITY_TEST_ASSERT_SMALLER_THAN_HEX8 threshold actual line message =
     UnityAssertUintGreaterOrLessOrEqualNumber (as_UINT8 threshold) (as_UINT8 actual) UNITY_SMALLER_THAN message line UNITY_DISPLAY_STYLE_HEX8"

definition UNITY_TEST_ASSERT_SMALLER_THAN_HEX16 ::
    "u64 \<Rightarrow> u64 \<Rightarrow> u64 \<Rightarrow> string option \<Rightarrow> unity \<Rightarrow> unity outcome" where
  "UNITY_TEST_ASSERT_SMALLER_THAN_HEX16 threshold actual line message =
     UnityAssertUintGreaterOrLessOrEqualNumber (as_UINT16 threshold) (as_UINT16 actual) UNITY_SMALLER_THAN message line UNITY_DISPLAY_STYLE_HEX16"

definition UNITY_TEST_ASSERT_SMALLER_THAN_HEX32 ::
    "u64 \<Rightarrow> u64 \<Rightarrow> u64 \<Rightarrow> string option \<Rightarrow> unity \<Rightarrow> unity outcome" where
  "UNITY_TEST_ASSERT_SMALLER_THAN_HEX32 threshold actual line message =
     UnityAssertUintGreaterOrLessOrEqualNumber (as_UINT32 threshold) (as_UINT32 actual) UNITY_SMALLER_THAN message line UNITY_DISPLAY_STYLE_HEX32"

definition UNITY_TEST_ASSERT_SMALLER_THAN_CHAR ::
    "u64 \<Rightarrow> u64 \<Rightarrow> u64 \<Rightarrow> string option \<Rightarrow> unity \<Rightarrow> unity outcome" where
  "UNITY_TEST_ASSERT_SMALLER_THAN_CHAR threshold actual line message =
     UnityAssertIntGreaterOrLessOrEqualNumber (as_INT8 threshold) (as_INT8 actual) UNITY_SMALLER_THAN message line UNITY_DISPLAY_STYLE_CHAR"

subsection \<open>Greater or equal\<close>

definition UNITY_TEST_ASSERT_GREATER_OR_EQUAL_INT ::
    "u64 \<Rightarrow> u64 \<Rightarrow> u64 \<Rightarrow> string option \<Rightarrow> unity \<Rightarrow> unity outcome" where
  "UNITY_TEST_ASSERT_GREATER_OR_EQUAL_INT threshold actual line message =
     UnityAssertIntGreaterOrLessOrEqualNumber threshold actual UNITY_GREATER_OR_EQUAL message line UNITY_DISPLAY_STYLE_INT"

definition UNITY_TEST_ASSERT_GREATER_OR_EQUAL_INT8 ::
    "u64 \<Rightarrow> u64 \<Rightarrow> u64 \<Rightarrow> string option \<Rightarrow> unity \<Rightarrow> unity outcome" where
  "UNITY_TEST_ASSERT_GREATER_OR_EQUAL_INT8 threshold actual line message =
     UnityAssertIntGreaterOrLessOrEqualNumber (as_INT8 threshold) (as_INT8 actual) UNITY_GREATER_OR_EQUAL message line UNITY_DISPLAY_STYLE_INT8"

definition UNITY_TEST_ASSERT_GREATER_OR_EQUAL_INT16 ::
    "u64 \<Rightarrow> u64 \<Rightarrow> u64 \<Rightarrow> string option \<Rightarrow> unity \<Rightarrow> unity outcome" where
  "UNITY_TEST_ASSERT_GREATER_OR_EQUAL_INT16 threshold actual line message =
     UnityAssertIntGreaterOrLessOrEqualNumber (as_INT16 threshold) (as_INT16 actual) UNITY_GREATER_OR_EQUAL message line UNITY_DISPLAY_STYLE_INT16"

definition UNITY_TEST_ASSERT_GREATER_OR_EQUAL_INT32 ::
    "u64 \<Rightarrow> u64 \<Rightarrow> u64 \<Rightarrow> string option \<Rightarrow> unity \<Rightarrow> unity outcome" where
  "UNITY_TEST_ASSERT_GREATER_OR_EQUAL_INT32 threshold actual line message =
     UnityAssertIntGreaterOrLessOrEqualNumber (as_INT32 threshold) (as_INT32 actual) UNITY_GREATER_OR_EQUAL message line UNITY_DISPLAY_STYLE_INT32"

definition UNITY_TEST_ASSERT_GREATER_OR_EQUAL_UINT ::
    "u64 \<Rightarrow> u64 \<Rightarrow> u64 \<Rightarrow> string option \<Rightarrow> unity \<Rightarrow> unity outcome" where
  "UNITY_TEST_ASSERT_GREATER_OR_EQUAL_UINT threshold actual line message =
     UnityAssertUintGreaterOrLessOrEqualNumber threshold actual UNITY_GREATER_OR_EQUAL message line UNITY_DISPLAY_STYLE_UINT"

definition UNITY_TEST_ASSERT_GREATER_OR_EQUAL_UINT8 ::
    "u64 \<Rightarrow> u64 \<Rightarrow> u64 \<Rightarrow> string option \<Rightarrow> unity \<Rightarrow> unity outcome" where
  "UNITY_TEST_ASSERT_GREATER_OR_EQUAL_UINT8 threshold actual line message =
     UnityAssertUintGreaterOrLessOrEqualNumber (as_UINT8 threshold) (as_UINT8 actual) UNITY_GREATER_OR_EQUAL message line UNITY_DISPLAY_STYLE_UINT8"

definition UNITY_TEST_ASSERT_GREATER_OR_EQUAL_UINT16 ::
    "u64 \<Rightarrow> u64 \<Rightarrow> u64 \<Rightarrow> string option \<Rightarrow> unity \<Rightarrow> unity outcome" where
  "UNITY_TEST_ASSERT_GREATER_OR_EQUAL_UINT16 threshold actual line message =
     UnityAssertUintGreaterOrLessOrEqualNumber (as_UINT16 threshold) (as_UINT16 actual) UNITY_GREATER_OR_EQUAL message line UNITY_DISPLAY_STYLE_UINT16"

definition UNITY_TEST_ASSERT_GREATER_OR_EQUAL_UINT32 ::
    "u64 \<Rightarrow> u64 \<Rightarrow> u64 \<Rightarrow> string option \<Rightarrow> unity \<Rightarrow> unity outcome" where
  "UNITY_TEST_ASSERT_GREATER_OR_EQUAL_UINT32 threshold actual line message =
     UnityAssertUintGreaterOrLessOrEqualNumber (as_UINT32 threshold) (as_UINT32 actual) UNITY_GREATER_OR_EQUAL message line UNITY_DISPLAY_STYLE_UINT32"

definition UNITY_TEST_ASSERT_GREATER_OR_EQUAL_HEX8 ::
    "u64 \<Rightarrow> u64 \<Rightarrow> u64 \<Rightarrow> string option \<Rightarrow> unity \<Rightarrow> unity outcome" where
  "UNITY_TEST_ASSERT_GREATER_OR_EQUAL_HEX8 threshold actual line message =
     UnityAssertUintGreaterOrLessOrEqualNumber (as_UINT8 threshold) (as_UINT8 actual) UNITY_GREATER_OR_EQUAL message line UNITY_DISPLAY_STYLE_HEX8"

definition UNITY_TEST_ASSERT_GREATER_OR_EQUAL_HEX16 ::
    "u64 \<Rightarrow> u64 \<Rightarrow> u64 \<Rightarrow> string option \<Rightarrow> unity \<Rightarrow> unity outcome" where
  "UNITY_TEST_ASSERT_GREATER_OR_EQUAL_HEX16 threshold actual line message =
     UnityAssertUintGreaterOrLessOrEqualNumber (as_UINT16 threshold) (as_UINT16 actual) UNITY_GREATER_OR_EQUAL message line UNITY_DISPLAY_STYLE_HEX16"

definition UNITY_TEST_ASSERT_GREATER_OR_EQUAL_HEX32 ::
    "u64 \<Rightarrow> u64 \<Rightarrow> u64 \<Rightarrow> string option \<Rightarrow> unity \<Rightarrow> unity outcome" where
  "UNITY_TEST_ASSERT_GREATER_OR_EQUAL_HEX32 threshold actual line message =
     UnityAssertUintGreaterOrLessOrEqualNumber (as_UINT32 threshold) (as_UINT32 actual) UNITY_GREATER_OR_EQUAL message line UNITY_DISPLAY_STYLE_HEX32"

definition UNITY_TEST_ASSERT_GREATER_OR_EQUAL_CHAR ::
    "u64 \<Rightarrow> u64 \<Rightarrow> u64 \<Rightarrow> string option \<Rightarrow> unity \<Rightarrow> unity outcome" where
  "UNITY_TEST_ASSERT_GREATER_OR_EQUAL_CHAR threshold actual line message =
     UnityAssertIntGreaterOrLessOrEqualNumber (as_INT8 threshold) (as_INT8 actual) UNITY_GREATER_OR_EQUAL message line UNITY_DISPLAY_STYLE_CHAR"

subsection \<open>Smaller or equal\<close>

definition UNITY_TEST_ASSERT_SMALLER_OR_EQUAL_INT ::
    "u64 \<Rightarrow> u64 \<Rightarrow> u64 \<Rightarrow> string option \<Rightarrow> unity \<Rightarrow> unity outcome" where
  "UNITY_TEST_ASSERT_SMALLER_OR_EQUAL_INT threshold actual line message =
     UnityAssertIntGreaterOrLessOrEqualNumber threshold actual UNITY_SMALLER_OR_EQUAL message line UNITY_DISPLAY_STYLE_INT"

definition UNITY_TEST_ASSERT_SMALLER_OR_EQUAL_INT8 ::
    "u64 \<Rightarrow> u64 \<Rightarrow> u64 \<Rightarrow> string option \<Rightarrow> unity \<Rightarrow> unity outcome" where
  "UNITY_TEST_ASSERT_SMALLER_OR_EQUAL_INT8 threshold actual line message =
     UnityAssertIntGreaterOrLessOrEqualNumber (as_INT8 threshold) (as_INT8 actual) UNITY_SMALLER_OR_EQUAL message line UNITY_DISPLAY_STYLE_INT8"

definition UNITY_TEST_ASSERT_SMALLER_OR_EQUAL_INT16 ::
    "u64 \<Rightarrow> u64 \<Rightarrow> u64 \<Rightarrow> string option \<Rightarrow> unity \<Rightarrow> unity outcome" where
  "UNITY_TEST_ASSERT_SMALLER_OR_EQUAL_INT16 threshold actual line message =
     UnityAssertIntGreaterOrLessOrEqualNumber (as_INT16 threshold) (as_INT16 actual) UNITY_SMALLER_OR_EQUAL message line UNITY_DISPLAY_STYLE_INT16"

definition UNITY_TEST_ASSERT_SMALLER_OR_EQUAL_INT32 ::
    "u64 \<Rightarrow> u64 \<Rightarrow> u64 \<Rightarrow> string option \<Rightarrow> unity \<Rightarrow> unity outcome" where
  "UNITY_TEST_ASSERT_SMALLER_OR_EQUAL_INT32 threshold actual line message =
     UnityAssertIntGreaterOrLessOrEqualNumber (as_INT32 threshold) (as_INT32 actual) UNITY_SMALLER_OR_EQUAL message line UNITY_DISPLAY_STYLE_INT32"

definition UNITY_TEST_ASSERT_SMALLER_OR_EQUAL_UINT ::
    "u64 \<Rightarrow> u64 \<Rightarrow> u64 \<Rightarrow> string option \<Rightarrow> unity \<Rightarrow> unity outcome" where
  "UNITY_TEST_ASSERT_SMALLER_OR_EQUAL_UINT threshold actual line message =
     UnityAssertUintGreaterOrLessOrEqualNumber threshold actual UNITY_SMALLER_OR_EQUAL message line UNITY_DISPLAY_STYLE_UINT"

definition UNITY_TEST_ASSERT_SMALLER_OR_EQUAL_UINT8 ::
    "u64 \<Rightarrow> u64 \<Rightarrow> u64 \<Rightarrow> string option \<Rightarrow> unity \<Rightarrow> unity outcome" where
  "UNITY_TEST_ASSERT_SMALLER_OR_EQUAL_UINT8 threshold actual line message =
     UnityAssertUintGreaterOrLessOrEqualNumber (as_UINT8 threshold) (as_UINT8 actual) UNITY_SMALLER_OR_EQUAL message line UNITY_DISPLAY_STYLE_UINT8"

definition UNITY_TEST_ASSERT_SMALLER_OR_EQUAL_UINT16 ::
    "u64 \<Rightarrow> u64 \<Rightarrow> u64 \<Rightarrow> string option \<Rightarrow> unity \<Rightarrow> unity outcome" where
  "UNITY_TEST_ASSERT_SMALLER_OR_EQUAL_UINT16 threshold actual line message =
     UnityAssertUintGreaterOrLessOrEqualNumber (as_UINT16 threshold) (as_UINT16 actual) UNITY_SMALLER_OR_EQUAL message line UNITY_DISPLAY_STYLE_UINT16"

definition UNITY_TEST_ASSERT_SMALLER_OR_EQUAL_UINT32 ::
    "u64 \<Rightarrow> u64 \<Rightarrow> u64 \<Rightarrow> string option \<Rightarrow> unity \<Rightarrow> unity outcome" where
  "UNITY_TEST_ASSERT_SMALLER_OR_EQUAL_UINT32 threshold actual line message =
     UnityAssertUintGreaterOrLessOrEqualNumber (as_UINT32 threshold) (as_UINT32 actual) UNITY_SMALLER_OR_EQUAL message line UNITY_DISPLAY_STYLE_UINT32"

definition UNITY_TEST_ASSERT_SMALLER_OR_EQUAL_HEX8 ::
    "u64 \<Rightarrow> u64 \<Rightarrow> u64 \<Rightarrow> string option \<Rightarrow> unity \<Rightarrow> unity outcome" where
  "UNITY_TEST_ASSERT_SMALLER_OR_EQUAL_HEX8 threshold actual line message =
     UnityAssertUintGreaterOrLessOrEqualNumber (as_UINT8 threshold) (as_UINT8 actual) UNITY_SMALLER_OR_EQUAL message line UNITY_DISPLAY_STYLE_HEX8"

definition UNITY_TEST_ASSERT_SMALLER_OR_EQUAL_HEX16 ::
    "u64 \<Rightarrow> u64 \<Rightarrow> u64 \<Rightarrow> string option \<Rightarrow> unity \<Rightarrow> unity outcome" where
  "UNITY_TEST_ASSERT_SMALLER_OR_EQUAL_HEX16 threshold actual line message =
     UnityAssertUintGreaterOrLessOrEqualNumber (as_UINT16 threshold) (as_UINT16 actual) UNITY_SMALLER_OR_EQUAL message line UNITY_DISPLAY_STYLE_HEX16"

definition UNITY_TEST_ASSERT_SMALLER_OR_EQUAL_HEX32 ::
    "u64 \<Rightarrow> u64 \<Rightarrow> u64 \<Rightarrow> string option \<Rightarrow> unity \<Rightarrow> unity outcome" where
  "UNITY_TEST_ASSERT_SMALLER_OR_EQUAL_HEX32 threshold actual line message =
     UnityAssertUintGreaterOrLessOrEqualNumber (as_UINT32 threshold) (as_UINT32 actual) UNITY_SMALLER_OR_EQUAL message line UNITY_DISPLAY_STYLE_HEX32"

definition UNITY_TEST_ASSERT_SMALLER_OR_EQUAL_CHAR ::
    "u64 \<Rightarrow> u64 \<Rightarrow> u64 \<Rightarrow> string option \<Rightarrow> unity \<Rightarrow> unity outcome" where
  "UNITY_TEST_ASSERT_SMALLER_OR_EQUAL_CHAR threshold actual line message =
     UnityAssertIntGreaterOrLessOrEqualNumber (as_INT8 threshold) (as_INT8 actual) UNITY_SMALLER_OR_EQUAL message line UNITY_DISPLAY_STYLE_CHAR"

subsection \<open>Within a delta\<close>

definition UNITY_TEST_ASSERT_INT_WITHIN ::
    "u64 \<Rightarrow> u64 \<Rightarrow> u64 \<Rightarrow> u64 \<Rightarrow> string option \<Rightarrow> unity \<Rightarrow> unity outcome" where
  "UNITY_TEST_ASSERT_INT_WITHIN delta expected actual line message =
     UnityAssertIntNumbersWithin delta expected actual message line UNITY_DISPLAY_STYLE_INT"

definition UNITY_TEST_ASSERT_INT8_WITHIN ::
    "u64 \<Rightarrow> u64 \<Rightarrow> u64 \<Rightarrow> u64 \<Rightarrow> string option \<Rightarrow> unity \<Rightarrow> unity outcome" where
  "UNITY_TEST_ASSERT_INT8_WITHIN delta expected actual line message =
     UnityAssertIntNumbersWithin (as_UINT8 delta) (as_INT8 expected) (as_INT8 actual) message line UNITY_DISPLAY_STYLE_INT8"

definition UNITY_TEST_ASSERT_INT16_WITHIN ::
    "u64 \<Rightarrow> u64 \<Rightarrow> u64 \<Rightarrow> u64 \<Rightarrow> string option \<Rightarrow> unity \<Rightarrow> unity outcome" where
  "UNITY_TEST_ASSERT_INT16_WITHIN delta expected actual line message =
     UnityAssertIntNumbersWithin (as_UINT16 delta) (as_INT16 expected) (as_INT16 actual) message line UNITY_DISPLAY_STYLE_INT16"

definition UNITY_TEST_ASSERT_INT32_WITHIN ::
    "u64 \<Rightarrow> u64 \<Rightarrow> u64 \<Rightarrow> u64 \<Rightarrow> string option \<Rightarrow> unity \<Rightarrow> unity outcome" where
  "UNITY_TEST_ASSERT_INT32_WITHIN delta expected actual line message =
     UnityAssertIntNumbersWithin (as_UINT32 delta) (as_INT32 expected) (as_INT32 actual) message line UNITY_DISPLAY_STYLE_INT32"

definition UNITY_TEST_ASSERT_UINT_WITHIN ::
    "u64 \<Rightarrow> u64 \<Rightarrow> u64 \<Rightarrow> u64 \<Rightarrow> string option \<Rightarrow> unity \<Rightarrow> unity outcome" where
  "UNITY_TEST_ASSERT_UINT_WITHIN delta expected actual line message =
     UnityAssertUintNumbersWithin delta expected actual message line UNITY_DISPLAY_STYLE_UINT"

definition UNITY_TEST_ASSERT_UINT8_WITHIN ::
    "u64 \<Rightarrow> u64 \<Rightarrow> u64 \<Rightarrow> u64 \<Rightarrow> string option \<Rightarrow> unity \<Rightarrow> unity outcome" where
  "UNITY_TEST_ASSERT_UINT8_WITHIN delta expected actual line message =
     UnityAssertUintNumbersWithin (as_UINT8 delta) (as_UINT8 expected) (as_UINT8 actual) message line UNITY_DISPLAY_STYLE_UINT8"

definition UNITY_TEST_ASSERT_UINT16_WITHIN ::
    "u64 \<Rightarrow> u64 \<Rightarrow> u64 \<Rightarrow> u64 \<Rightarrow> string option \<Rightarrow> unity \<Rightarrow> unity outcome" where
  "UNITY_TEST_ASSERT_UINT16_WITHIN delta expected actual line message =
     UnityAssertUintNumbersWithin (as_UINT16 delta) (as_UINT16 expected) (as_UINT16 actual) message line UNITY_DISPLAY_STYLE_UINT16"

definition UNITY_TEST_ASSERT_UINT32_WITHIN ::
    "u64 \<Rightarrow> u64 \<Rightarrow> u64 \<Rightarrow> u64 \<Rightarrow> string option \<Rightarrow> unity \<Rightarrow> unity outcome" where
  "UNITY_TEST_ASSERT_UINT32_WITHIN delta expected actual line message =
     UnityAssertUintNumbersWithin (as_UINT32 delta) (as_UINT32 expected) (as_UINT32 actual) message line UNITY_DISPLAY_STYLE_UINT32"

definition UNITY_TEST_ASSERT_HEX8_WITHIN ::
    "u64 \<Rightarrow> u64 \<Rightarrow> u64 \<Rightarrow> u64 \<Rightarrow> string option \<Rightarrow> unity \<Rightarrow> unity outcome" where
  "UNITY_TEST_ASSERT_HEX8_WITHIN delta expected actual line message =
     UnityAssertUintNumbersWithin (as_UINT8 delta) (as_UINT8 expected) (as_UINT8 actual) message line UNITY_DISPLAY_STYLE_HEX8"

definition UNITY_TEST_ASSERT_HEX16_WITHIN ::
    "u64 \<Rightarrow> u64 \<Rightarrow> u64 \<Rightarrow> u64 \<Rightarrow> string option \<Rightarrow> unity \<Rightarrow> unity outcome" where
  "UNITY_TEST_ASSERT_HEX16_WITHIN delta expected actual line message =
     UnityAssertUintNumbersWithin (as_UINT16 delta) (as_UINT16 expected) (as_UINT16 actual) message line UNITY_DISPLAY_STYLE_HEX16"

definition UNITY_TEST_ASSERT_HEX32_WITHIN ::
    "u64 \<Rightarrow> u64 \<Rightarrow> u64 \<Rightarrow> u64 \<Rightarrow> string option \<Rightarrow> unity \<Rightarrow> unity outcome" where
  "UNITY_TEST_ASSERT_HEX32_WITHIN delta expected actual line message =
     UnityAssertUintNumbersWithin (as_UINT32 delta) (as_UINT32 expected) (as_UINT32 actual) message line UNITY_DISPLAY_STYLE_HEX32"

definition UNITY_TEST_ASSERT_CHAR_WITHIN ::
    "u64 \<Rightarrow> u64 \<Rightarrow> u64 \<Rightarrow> u64 \<Rightarrow> string option \<Rightarrow> unity \<Rightarrow> unity outcome" where
  "UNITY_TEST_ASSERT_CHAR_WITHIN delta expected actual line message =
     UnityAssertIntNumbersWithin (as_UINT8 delta) (as_INT8 expected) (as_INT8 actual) message line UNITY_DISPLAY_STYLE_CHAR"

subsection \<open>Arrays within a delta\<close>

definition UNITY_TEST_ASSERT_INT_ARRAY_WITHIN ::
    "cmem \<Rightarrow> u64 \<Rightarrow> addr \<Rightarrow> addr \<Rightarrow> u64 \<Rightarrow> u64 \<Rightarrow> string option \<Rightarrow> unity \<Rightarrow> unity outcome" where
  "UNITY_TEST_ASSERT_INT_ARRAY_WITHIN m delta expected actual num_elements line message =
     UnityAssertNumbersArrayWithin m delta expected actual (ucast num_elements) message line UNITY_DISPLAY_STYLE_INT UNITY_ARRAY_TO_ARRAY"

definition UNITY_TEST_ASSERT_INT8_ARRAY_WITHIN ::
    "cmem \<Rightarrow> u64 \<Rightarrow> addr \<Rightarrow> addr \<Rightarrow> u64 \<Rightarrow> u64 \<Rightarrow> string option \<Rightarrow> unity \<Rightarrow> unity outcome" where
  "UNITY_TEST_ASSERT_INT8_ARRAY_WITHIN m delta expected actual num_elements line message =
     UnityAssertNumbersArrayWithin m (as_UINT8 delta) expected actual (ucast num_elements) message line UNITY_DISPLAY_STYLE_INT8 UNITY_ARRAY_TO_ARRAY"

definition UNITY_TEST_ASSERT_INT16_ARRAY_WITHIN ::
    "cmem \<Rightarrow> u64 \<Rightarrow> addr \<Rightarrow> addr \<Rightarrow> u64 \<Rightarrow> u64 \<Rightarrow> string option \<Rightarrow> unity \<Rightarrow> unity outcome" where
  "UNITY_TEST_ASSERT_INT16_ARRAY_WITHIN m delta expected actual num_elements line message =
     UnityAssertNumbersArrayWithin m (as_UINT16 delta) expected actual (ucast num_elements) message line UNITY_DISPLAY_STYLE_INT16 UNITY_ARRAY_TO_ARRAY"

definition UNITY_TEST_ASSERT_INT32_ARRAY_WITHIN ::
    "cmem \<Rightarrow> u64 \<Rightarrow> addr \<Rightarrow> addr \<Rightarrow> u64 \<Rightarrow> u64 \<Rightarrow> string option \<Rightarrow> unity \<Rightarrow> unity outcome" where
  "UNITY_TEST_ASSERT_INT32_ARRAY_WITHIN m delta expected actual num_elements line message =
     UnityAssertNumbersArrayWithin m (as_UINT32 delta) expected actual (ucast num_elements) message line UNITY_DISPLAY_STYLE_INT32 UNITY_ARRAY_TO_ARRAY"

definition UNITY_TEST_ASSERT_UINT_ARRAY_WITHIN ::
    "cmem \<Rightarrow> u64 \<Rightarrow> addr \<Rightarrow> addr \<Rightarrow> u64 \<Rightarrow> u64 \<Rightarrow> string option \<Rightarrow> unity \<Rightarrow> unity outcome" where
  "UNITY_TEST_ASSERT_UINT_ARRAY_WITHIN m delta expected actual num_elements line message =
     UnityAssertNumbersArrayWithin m delta expected actual (ucast num_elements) message line UNITY_DISPLAY_STYLE_UINT UNITY_ARRAY_TO_ARRAY"

definition UNITY_TEST_ASSERT_UINT8_ARRAY_WITHIN ::
    "cmem \<Rightarrow> u64 \<Rightarrow> addr \<Rightarrow> addr \<Rightarrow> u64 \<Rightarrow> u64 \<Rightarrow> string option \<Rightarrow> unity \<Rightarrow> unity outcome" where
  "UNITY_TEST_ASSERT_UINT8_ARRAY_WITHIN m delta expected actual num_elements line message =
     UnityAssertNumbersArrayWithin m (as_UINT8 delta) expected actual (ucast num_elements) message line UNITY_DISPLAY_STYLE_UINT8 UNITY_ARRAY_TO_ARRAY"

definition UNITY_TEST_ASSERT_UINT16_ARRAY_WITHIN ::
    "cmem \<Rightarrow> u64 \<Rightarrow> addr \<Rightarrow> addr \<Rightarrow> u64 \<Rightarrow> u64 \<Rightarrow> string option \<Rightarrow> unity \<Rightarrow> unity outcome" where
  "UNITY_TEST_ASSERT_UINT16_ARRAY_WITHIN m delta expected actual num_elements line message =
     UnityAssertNumbersArrayWithin m (as_UINT16 delta) expected actual (ucast num_elements) message line UNITY_DISPLAY_STYLE_UINT16 UNITY_ARRAY_TO_ARRAY"

definition UNITY_TEST_ASSERT_UINT32_ARRAY_WITHIN ::
    "cmem \<Rightarrow> u64 \<Rightarrow> addr \<Rightarrow> addr \<Rightarrow> u64 \<Rightarrow> u64 \<Rightarrow> string option \<Rightarrow> unity \<Rightarrow> unity outcome" where
  "UNITY_TEST_ASSERT_UINT32_ARRAY_WITHIN m delta expected actual num_elements line message =
     UnityAssertNumbersArrayWithin m (as_UINT32 delta) expected actual (ucast num_elements) message line UNITY_DISPLAY_STYLE_UINT32 UNITY_ARRAY_TO_ARRAY"

definition UNITY_TEST_ASSERT_HEX8_ARRAY_WITHIN ::
    "cmem \<Rightarrow> u64 \<Rightarrow> addr \<Rightarrow> addr \<Rightarrow> u64 \<Rightarrow> u64 \<Rightarrow> string option \<Rightarrow> unity \<Rightarrow> unity outcome" where
  "UNITY_TEST_ASSERT_HEX8_ARRAY_WITHIN m delta expected actual num_elements line message =
     UnityAssertNumbersArrayWithin m (as_UINT8 delta) expected actual (ucast num_elements) message line UNITY_DISPLAY_STYLE_HEX8 UNITY_ARRAY_TO_ARRAY"

definition UNITY_TEST_ASSERT_HEX16_ARRAY_WITHIN ::
    "cmem \<Rightarrow> u64 \<Rightarrow> addr \<Rightarrow> addr \<Rightarrow> u64 \<Rightarrow> u64 \<Rightarrow> string option \<Rightarrow> unity \<Rightarrow> unity outcome" where
  "UNITY_TEST_ASSERT_HEX16_ARRAY_WITHIN m delta expected actual num_elements line message =
     UnityAssertNumbersArrayWithin m (as_UINT16 delta) expected actual (ucast num_elements) message line UNITY_DISPLAY_STYLE_HEX16 UNITY_ARRAY_TO_ARRAY"

definition UNITY_TEST_ASSERT_HEX32_ARRAY_WITHIN ::
    "cmem \<Rightarrow> u64 \<Rightarrow> addr \<Rightarrow> addr \<Rightarrow> u64 \<Rightarrow> u64 \<Rightarrow> string option \<Rightarrow> unity \<Rightarrow> unity outcome" where
  "UNITY_TEST_ASSERT_HEX32_ARRAY_WITHIN m delta expected actual num_elements line message =
     UnityAssertNumbersArrayWithin m (as_UINT32 delta) expected actual (ucast num_elements) message line UNITY_DISPLAY_STYLE_HEX32 UNITY_ARRAY_TO_ARRAY"

definition UNITY_TEST_ASSERT_CHAR_ARRAY_WITHIN ::
    "cmem \<Rightarrow> u64 \<Rightarrow> addr \<Rightarrow> addr \<Rightarrow> u64 \<Rightarrow> u64 \<Rightarrow> string option \<Rightarrow> unity \<Rightarrow> unity outcome" where
  "UNITY_TEST_ASSERT_CHAR_ARRAY_WITHIN m delta expected actual num_elements line message =
     UnityAssertNumbersArrayWithin m (as_UINT8 delta) expected actual (ucast num_elements) message line UNITY_DISPLAY_STYLE_CHAR UNITY_ARRAY_TO_ARRAY"

subsection \<open>Equality\<close>

definition UNITY_TEST_ASSERT_EQUAL_PTR ::
    "addr \<Rightarrow> addr \<Rightarrow> u64 \<Rightarrow> string option \<Rightarrow> unity \<Rightarrow> unity outcome" where
  "UNITY_TEST_ASSERT_EQUAL_PTR expected actual line message =
     UnityAssertEqualIntNumber expected actual message line UNITY_DISPLAY_STYLE_HEX64"

subsection \<open>Strings and memory\<close>

definition UNITY_TEST_ASSERT_EQUAL_STRING ::
    "string option \<Rightarrow> string option \<Rightarrow> u64 \<Rightarrow> string option \<Rightarrow> unity \<Rightarrow> unity outcome" where
  "UNITY_TEST_ASSERT_EQUAL_STRING expected actual line message =
     UnityAssertEqualString expected actual message line"

definition UNITY_TEST_ASSERT_EQUAL_STRING_LEN ::
    "string option \<Rightarrow> string option \<Rightarrow> u64 \<Rightarrow> u64 \<Rightarrow> string option \<Rightarrow> unity \<Rightarrow> unity outcome" where
  "UNITY_TEST_ASSERT_EQUAL_STRING_LEN expected actual len line message =
     UnityAssertEqualStringLen expected actual (ucast len) message line"

definition UNITY_TEST_ASSERT_EQUAL_MEMORY ::
    "cmem \<Rightarrow> addr \<Rightarrow> addr \<Rightarrow> u64 \<Rightarrow> u64 \<Rightarrow> string option \<Rightarrow> unity \<Rightarrow> unity outcome" where
  "UNITY_TEST_ASSERT_EQUAL_MEMORY m expected actual len line message =
     UnityAssertEqualMemory m expected actual (ucast len) 1 message line UNITY_ARRAY_TO_ARRAY"

subsection \<open>Arrays\<close>

definition UNITY_TEST_ASSERT_EQUAL_INT_ARRAY ::
    "cmem \<Rightarrow> addr \<Rightarrow> addr \<Rightarrow> u64 \<Rightarrow> u64 \<Rightarrow> string option \<Rightarrow> unity \<Rightarrow> unity outcome" where
  "UNITY_TEST_ASSERT_EQUAL_INT_ARRAY m expected actual num_elements line message =
     UnityAssertEqualIntArray m expected actual (ucast num_elements) message line UNITY_DISPLAY_STYLE_INT UNITY_ARRAY_TO_ARRAY"

definition UNITY_TEST_ASSERT_EQUAL_INT8_ARRAY ::
    "cmem \<Rightarrow> addr \<Rightarrow> addr \<Rightarrow> u64 \<Rightarrow> u64 \<Rightarrow> string option \<Rightarrow> unity \<Rightarrow> unity outcome" where
  "UNITY_TEST_ASSERT_EQUAL_INT8_ARRAY m expected actual num_elements line message =
     UnityAssertEqualIntArray m expected actual (ucast num_elements) message line UNITY_DISPLAY_STYLE_INT8 UNITY_ARRAY_TO_ARRAY"

definition UNITY_TEST_ASSERT_EQUAL_INT16_ARRAY ::
    "cmem \<Rightarrow> addr \<Rightarrow> addr \<Rightarrow> u64 \<Rightarrow> u64 \<Rightarrow> string option \<Rightarrow> unity \<Rightarrow> unity outcome" where
  "UNITY_TEST_ASSERT_EQUAL_INT16_ARRAY m expected actual num_elements line message =
     UnityAssertEqualIntArray m expected actual (ucast num_elements) message line UNITY_DISPLAY_STYLE_INT16 UNITY_ARRAY_TO_ARRAY"

definition UNITY_TEST_ASSERT_EQUAL_INT32_ARRAY ::
    "cmem \<Rightarrow> addr \<Rightarrow> addr \<Rightarrow> u64 \<Rightarrow> u64 \<Rightarrow> string option \<Rightarrow> unity \<Rightarrow> unity outcome" where
  "UNITY_TEST_ASSERT_EQUAL_INT32_ARRAY m expected actual num_elements line message =
     UnityAssertEqualIntArray m expected actual (ucast num_elements) message line UNITY_DISPLAY_STYLE_INT32 UNITY_ARRAY_TO_ARRAY"

definition UNITY_TEST_ASSERT_EQUAL_UINT_ARRAY ::
    "cmem \<Rightarrow> addr \<Rightarrow> addr \<Rightarrow> u64 \<Rightarrow> u64 \<Rightarrow> string option \<Rightarrow> unity \<Rightarrow> unity outcome" where
  "UNITY_TEST_ASSERT_EQUAL_UINT_ARRAY m expected actual num_elements line message =
     UnityAssertEqualIntArray m expected actual (ucast num_elements) message line UNITY_DISPLAY_STYLE_UINT UNITY_ARRAY_TO_ARRAY"

definition UNITY_TEST_ASSERT_EQUAL_UINT8_ARRAY ::
    "cmem \<Rightarrow> addr \<Rightarrow> addr \<Rightarrow> u64 \<Rightarrow> u64 \<Rightarrow> string option \<Rightarrow> unity \<Rightarrow> unity outcome" where
  "UNITY_TEST_ASSERT_EQUAL_UINT8_ARRAY m expected actual num_elements line message =
     UnityAssertEqualIntArray m expected actual (ucast num_elements) message line UNITY_DISPLAY_STYLE_UINT8 UNITY_ARRAY_TO_ARRAY"

definition UNITY_TEST_ASSERT_EQUAL_UINT16_ARRAY ::
    "cmem \<Rightarrow> addr \<Rightarrow> addr \<Rightarrow> u64 \<Rightarrow> u64 \<Rightarrow> string option \<Rightarrow> unity \<Rightarrow> unity outcome" where
  "UNITY_TEST_ASSERT_EQUAL_UINT16_ARRAY m expected actual num_elements line message =
     UnityAssertEqualIntArray m expected actual (ucast num_elements) message line UNITY_DISPLAY_STYLE_UINT16 UNITY_ARRAY_TO_ARRAY"

definition UNITY_TEST_ASSERT_EQUAL_UINT32_ARRAY ::
    "cmem \<Rightarrow> addr \<Rightarrow> addr \<Rightarrow> u64 \<Rightarrow> u64 \<Rightarrow> string option \<Rightarrow> unity \<Rightarrow> unity outcome" where
  "UNITY_TEST_ASSERT_EQUAL_UINT32_ARRAY m expected actual num_elements line message =
     UnityAssertEqualIntArray m expected actual (ucast num_elements) message line UNITY_DISPLAY_STYLE_UINT32 UNITY_ARRAY_TO_ARRAY"

definition UNITY_TEST_ASSERT_EQUAL_HEX8_ARRAY ::
    "cmem \<Rightarrow> addr \<Rightarrow> addr \<Rightarrow> u64 \<Rightarrow> u64 \<Rightarrow> string option \<Rightarrow> unity \<Rightarrow> unity outcome" where
  "UNITY_TEST_ASSERT_EQUAL_HEX8_ARRAY m expected actual num_elements line message =
     UnityAssertEqualIntArray m expected actual (ucast num_elements) message line UNITY_DISPLAY_STYLE_HEX8 UNITY_ARRAY_TO_ARRAY"

definition UNITY_TEST_ASSERT_EQUAL_HEX16_ARRAY ::
    "cmem \<Rightarrow> addr \<Rightarrow> addr \<Rightarrow> u64 \<Rightarrow> u64 \<Rightarrow> string option \<Rightarrow> unity \<Rightarrow> unity outcome" where
  "UNITY_TEST_ASSERT_EQUAL_HEX16_ARRAY m expected actual num_elements line message =
     UnityAssertEqualIntArray m expected actual (ucast num_elements) message line UNITY_DISPLAY_STYLE_HEX16 UNITY_ARRAY_TO_ARRAY"

definition UNITY_TEST_ASSERT_EQUAL_HEX32_ARRAY ::
    "cmem \<Rightarrow> addr \<Rightarrow> addr \<Rightarrow> u64 \<Rightarrow> u64 \<Rightarrow> string option \<Rightarrow> unity \<Rightarrow> unity outcome" where
  "UNITY_TEST_ASSERT_EQUAL_HEX32_ARRAY m expected actual num_elements line message =
     UnityAssertEqualIntArray m expected actual (ucast num_elements) message line UNITY_DISPLAY_STYLE_HEX32 UNITY_ARRAY_TO_ARRAY"

definition UNITY_TEST_ASSERT_EQUAL_PTR_ARRAY ::
    "cmem \<Rightarrow> addr \<Rightarrow> addr \<Rightarrow> u64 \<Rightarrow> u64 \<Rightarrow> string option \<Rightarrow> unity \<Rightarrow> unity outcome" where
  "UNITY_TEST_ASSERT_EQUAL_PTR_ARRAY m expected actual num_elements line message =
     UnityAssertEqualIntArray m expected actual (ucast num_elements) message line UNITY_DISPLAY_STYLE_HEX64 UNITY_ARRAY_TO_ARRAY"

definition UNITY_TEST_ASSERT_EQUAL_STRING_ARRAY ::
    "cmem \<Rightarrow> (addr \<Rightarrow> string) \<Rightarrow> addr \<Rightarrow> addr \<Rightarrow> u64 \<Rightarrow> u64 \<Rightarrow> string option \<Rightarrow> unity \<Rightarrow> unity outcome" where
  "UNITY_TEST_ASSERT_EQUAL_STRING_ARRAY m strs expected actual num_elements line message =
     UnityAssertEqualStringArray m strs expected actual (ucast num_elements) message line UNITY_ARRAY_TO_ARRAY"

definition UNITY_TEST_ASSERT_EQUAL_MEMORY_ARRAY ::
    "cmem \<Rightarrow> addr \<Rightarrow> addr \<Rightarrow> u64 \<Rightarrow> u64 \<Rightarrow> u64 \<Rightarrow> string option \<Rightarrow> unity \<Rightarrow> unity outcome" where
  "UNITY_TEST_ASSERT_EQUAL_MEMORY_ARRAY m expected actual len num_elements line message =
     UnityAssertEqualMemory m expected actual (ucast len) (ucast num_elements) message line UNITY_ARRAY_TO_ARRAY"

definition UNITY_TEST_ASSERT_EQUAL_CHAR_ARRAY ::
    "cmem \<Rightarrow> addr \<Rightarrow> addr \<Rightarrow> u64 \<Rightarrow> u64 \<Rightarrow> string option \<Rightarrow> unity \<Rightarrow> unity outcome" where
  "UNITY_TEST_ASSERT_EQUAL_CHAR_ARRAY m expected actual num_elements line message =
     UnityAssertEqualIntArray m expected actual (ucast num_elements) message line UNITY_DISPLAY_STYLE_CHAR UNITY_ARRAY_TO_ARRAY"

subsection \<open>Arrays against one value\<close>

definition UNITY_TEST_ASSERT_EACH_EQUAL_INT ::
    "addr \<Rightarrow> cmem \<Rightarrow> u64 \<Rightarrow> addr \<Rightarrow> u64 \<Rightarrow> u64 \<Rightarrow> string option \<Rightarrow> unity \<Rightarrow> unity outcome" where
  "UNITY_TEST_ASSERT_EACH_EQUAL_INT q m expected actual num_elements line message =
     equal_each q m expected 4 actual (ucast num_elements) message line UNITY_DISPLAY_STYLE_INT"

definition UNITY_TEST_ASSERT_EACH_EQUAL_INT8 ::
    "addr \<Rightarrow> cmem \<Rightarrow> u64 \<Rightarrow> addr \<Rightarrow> u64 \<Rightarrow> u64 \<Rightarrow> string option \<Rightarrow> unity \<Rightarrow> unity outcome" where
  "UNITY_TEST_ASSERT_EACH_EQUAL_INT8 q m expected actual num_elements line message =
     equal_each q m (as_INT8 expected) 1 actual (ucast num_elements) message line UNITY_DISPLAY_STYLE_INT8"

definition UNITY_TEST_ASSERT_EACH_EQUAL_INT16 ::
    "addr \<Rightarrow> cmem \<Rightarrow> u64 \<Rightarrow> addr \<Rightarrow> u64 \<Rightarrow> u64 \<Rightarrow> string option \<Rightarrow> unity \<Rightarrow> unity outcome" where
  "UNITY_TEST_ASSERT_EACH_EQUAL_INT16 q m expected actual num_elements line message =
     equal_each q m (as_INT16 expected) 2 actual (ucast num_elements) message line UNITY_DISPLAY_STYLE_INT16"

definition UNITY_TEST_ASSERT_EACH_EQUAL_INT32 ::
    "addr \<Rightarrow> cmem \<Rightarrow> u64 \<Rightarrow> addr \<Rightarrow> u64 \<Rightarrow> u64 \<Rightarrow> string option \<Rightarrow> unity \<Rightarrow> unity outcome" where
  "UNITY_TEST_ASSERT_EACH_EQUAL_INT32 q m expected actual num_elements line message =
     equal_each q m (as_INT32 expected) 4 actual (ucast num_elements) message line UNITY_DISPLAY_STYLE_INT32"

definition UNITY_TEST_ASSERT_EACH_EQUAL_UINT ::
    "addr \<Rightarrow> cmem \<Rightarrow> u64 \<Rightarrow> addr \<Rightarrow> u64 \<Rightarrow> u64 \<Rightarrow> string option \<Rightarrow> unity \<Rightarrow> unity outcome" where
  "UNITY_TEST_ASSERT_EACH_EQUAL_UINT q m expected actual num_elements line message =
     equal_each q m expected 4 actual (ucast num_elements) message line UNITY_DISPLAY_STYLE_UINT"

definition UNITY_TEST_ASSERT_EACH_EQUAL_UINT8 ::
    "addr \<Rightarrow> cmem \<Rightarrow> u64 \<Rightarrow> addr \<Rightarrow> u64 \<Rightarrow> u64 \<Rightarrow> string option \<Rightarrow> unity \<Rightarrow> unity outcome" where
  "UNITY_TEST_ASSERT_EACH_EQUAL_UINT8 q m expected actual num_elements line message =
     equal_each q m (as_UINT8 expected) 1 actual (ucast num_elements) message line UNITY_DISPLAY_STYLE_UINT8"

definition UNITY_TEST_ASSERT_EACH_EQUAL_UINT16 ::
    "addr \<Rightarrow> cmem \<Rightarrow> u64 \<Rightarrow> addr \<Rightarrow> u64 \<Rightarrow> u64 \<Rightarrow> string option \<Rightarrow> unity \<Rightarrow> unity outcome" where
  "UNITY_TEST_ASSERT_EACH_EQUAL_UINT16 q m expected actual num_elements line message =
     equal_each q m (as_UINT16 expected) 2 actual (ucast num_elements) message line UNITY_DISPLAY_STYLE_UINT16"

definition UNITY_TEST_ASSERT_EACH_EQUAL_UINT32 ::
    "addr \<Rightarrow> cmem \<Rightarrow> u64 \<Rightarrow> addr \<Rightarrow> u64 \<Rightarrow> u64 \<Rightarrow> string option \<Rightarrow> unity \<Rightarrow> unity outcome" where
  "UNITY_TEST_ASSERT_EACH_EQUAL_UINT32 q m expected actual num_elements line message =
     equal_each q m (as_UINT32 expected) 4 actual (ucast num_elements) message line UNITY_DISPLAY_STYLE_UINT32"

definition UNITY_TEST_ASSERT_EACH_EQUAL_HEX8 ::
    "addr \<Rightarrow> cmem \<Rightarrow> u64 \<Rightarrow> addr \<Rightarrow> u64 \<Rightarrow> u64 \<Rightarrow> string option \<Rightarrow> unity \<Rightarrow> unity outcome" where
  "UNITY_TEST_ASSERT_EACH_EQUAL_HEX8 q m expected actual num_elements line message =
     equal_each q m (as_INT8 expected) 1 actual (ucast num_elements) message line UNITY_DISPLAY_STYLE_HEX8"

definition UNITY_TEST_ASSERT_EACH_EQUAL_HEX16 ::
    "addr \<Rightarrow> cmem \<Rightarrow> u64 \<Rightarrow> addr \<Rightarrow> u64 \<Rightarrow> u64 \<Rightarrow> string option \<Rightarrow> unity \<Rightarrow> unity outcome" where
  "UNITY_TEST_ASSERT_EACH_EQUAL_HEX16 q m expected actual num_elements line message =
     equal_each q m (as_INT16 expected) 2 actual (ucast num_elements) message line UNITY_DISPLAY_STYLE_HEX16"

definition UNITY_TEST_ASSERT_EACH_EQUAL_HEX32 ::
    "addr \<Rightarrow> cmem \<Rightarrow> u64 \<Rightarrow> addr \<Rightarrow> u64 \<Rightarrow> u64 \<Rightarrow> string option \<Rightarrow> unity \<Rightarrow> unity outcome" where
  "UNITY_TEST_ASSERT_EACH_EQUAL_HEX32 q m expected actual num_elements line message =
     equal_each q m (as_INT32 expected) 4 actual (ucast num_elements) message line UNITY_DISPLAY_STYLE_HEX32"

definition UNITY_TEST_ASSERT_EACH_EQUAL_PTR ::
    "addr \<Rightarrow> cmem \<Rightarrow> u64 \<Rightarrow> addr \<Rightarrow> u64 \<Rightarrow> u64 \<Rightarrow> string option \<Rightarrow> unity \<Rightarrow> unity outcome" where
  "UNITY_TEST_ASSERT_EACH_EQUAL_PTR q m expected actual num_elements line message =
     equal_each q m expected 8 actual (ucast num_elements) message line UNITY_DISPLAY_STYLE_HEX64"

definition UNITY_TEST_ASSERT_EACH_EQUAL_STRING ::
    "cmem \<Rightarrow> (addr \<Rightarrow> string) \<Rightarrow> addr \<Rightarrow> addr \<Rightarrow> u64 \<Rightarrow> u64 \<Rightarrow> string option \<Rightarrow> unity \<Rightarrow> unity outcome" where
  "UNITY_TEST_ASSERT_EACH_EQUAL_STRING m strs expected actual num_elements line message =
     UnityAssertEqualStringArray m strs expected actual (ucast num_elements) message line UNITY_ARRAY_TO_VAL"

definition UNITY_TEST_ASSERT_EACH_EQUAL_MEMORY ::
    "cmem \<Rightarrow> addr \<Rightarrow> addr \<Rightarrow> u64 \<Rightarrow> u64 \<Rightarrow> u64 \<Rightarrow> string option \<Rightarrow> unity \<Rightarrow> unity outcome" where
  "UNITY_TEST_ASSERT_EACH_EQUAL_MEMORY m expected actual len num_elements line message =
     UnityAssertEqualMemory m expected actual (ucast len) (ucast num_elements) message line UNITY_ARRAY_TO_VAL"

definition UNITY_TEST_ASSERT_EACH_EQUAL_CHAR ::
    "addr \<Rightarrow> cmem \<Rightarrow> u64 \<Rightarrow> addr \<Rightarrow> u64 \<Rightarrow> u64 \<Rightarrow> string option \<Rightarrow> unity \<Rightarrow> unity outcome" where
  "UNITY_TEST_ASSERT_EACH_EQUAL_CHAR q m expected actual num_elements line message =
     equal_each q m (as_INT8 expected) 1 actual (ucast num_elements) message line UNITY_DISPLAY_STYLE_CHAR"

subsection \<open>Equality\<close>

definition UNITY_TEST_ASSERT_EQUAL_INT64 ::
    "u64 \<Rightarrow> u64 \<Rightarrow> u64 \<Rightarrow> string option \<Rightarrow> unity \<Rightarrow> unity outcome" where
  "UNITY_TEST_ASSERT_EQUAL_INT64 expected actual line message =
     UnityAssertEqualIntNumber expected actual message line UNITY_DISPLAY_STYLE_INT64"

definition UNITY_TEST_ASSERT_EQUAL_UINT64 ::
    "u64 \<Rightarrow> u64 \<Rightarrow> u64 \<Rightarrow> string option \<Rightarrow> unity \<Rightarrow> unity outcome" where
  "UNITY_TEST_ASSERT_EQUAL_UINT64 expected actual line message =
     UnityAssertEqualIntNumber expected actual message line UNITY_DISPLAY_STYLE_UINT64"

definition UNITY_TEST_ASSERT_EQUAL_HEX64 ::
    "u64 \<Rightarrow> u64 \<Rightarrow> u64 \<Rightarrow> string option \<Rightarrow> unity \<Rightarrow> unity outcome" where
  "UNITY_TEST_ASSERT_EQUAL_HEX64 expected actual line message =
     UnityAssertEqualIntNumber expected actual message line UNITY_DISPLAY_STYLE_HEX64"

subsection \<open>Arrays\<close>

definition UNITY_TEST_ASSERT_EQUAL_INT64_ARRAY ::
    "cmem \<Rightarrow> addr \<Rightarrow> addr \<Rightarrow> u64 \<Rightarrow> u64 \<Rightarrow> string option \<Rightarrow> unity \<Rightarrow> unity outcome" where
  "UNITY_TEST_ASSERT_EQUAL_INT64_ARRAY m expected actual num_elements line message =
     UnityAssertEqualIntArray m expected actual (ucast num_elements) message line UNITY_DISPLAY_STYLE_INT64 UNITY_ARRAY_TO_ARRAY"

definition UNITY_TEST_ASSERT_EQUAL_UINT64_ARRAY ::
    "cmem \<Rightarrow> addr \<Rightarrow> addr \<Rightarrow> u64 \<Rightarrow> u64 \<Rightarrow> string option \<Rightarrow> unity \<Rightarrow> unity outcome" where
  "UNITY_TEST_ASSERT_EQUAL_UINT64_ARRAY m expected actual num_elements line message =
     UnityAssertEqualIntArray m expected actual (ucast num_elements) message line UNITY_DISPLAY_STYLE_UINT64 UNITY_ARRAY_TO_ARRAY"

definition UNITY_TEST_ASSERT_EQUAL_HEX64_ARRAY ::
    "cmem \<Rightarrow> addr \<Rightarrow> addr \<Rightarrow> u64 \<Rightarrow> u64 \<Rightarrow> string option \<Rightarrow> unity \<Rightarrow> unity outcome" where
  "UNITY_TEST_ASSERT_EQUAL_HEX64_ARRAY m expected actual num_elements line message =
     UnityAssertEqualIntArray m expected actual (ucast num_elements) message line UNITY_DISPLAY_STYLE_HEX64 UNITY_ARRAY_TO_ARRAY"

subsection \<open>Arrays against one value\<close>

definition UNITY_TEST_ASSERT_EACH_EQUAL_INT64 ::
    "addr \<Rightarrow> cmem \<Rightarrow> u64 \<Rightarrow> addr \<Rightarrow> u64 \<Rightarrow> u64 \<Rightarrow> string option \<Rightarrow> unity \<Rightarrow> unity outcome" where
  "UNITY_TEST_ASSERT_EACH_EQUAL_INT64 q m expected actual num_elements line message =
     equal_each q m expected 8 actual (ucast num_elements) message line UNITY_DISPLAY_STYLE_INT64"

definition UNITY_TEST_ASSERT_EACH_EQUAL_UINT64 ::
    "addr \<Rightarrow> cmem \<Rightarrow> u64 \<Rightarrow> addr \<Rightarrow> u64 \<Rightarrow> u64 \<Rightarrow> string option \<Rightarrow> unity \<Rightarrow> unity outcome" where
  "UNITY_TEST_ASSERT_EACH_EQUAL_UINT64 q m expected actual num_elements line message =
     equal_each q m expected 8 actual (ucast num_elements) message line UNITY_DISPLAY_STYLE_UINT64"

definition UNITY_TEST_ASSERT_EACH_EQUAL_HEX64 ::
    "addr \<Rightarrow> cmem \<Rightarrow> u64 \<Rightarrow> addr \<Rightarrow> u64 \<Rightarrow> u64 \<Rightarrow> string option \<Rightarrow> unity \<Rightarrow> unity outcome" where
  "UNITY_TEST_ASSERT_EACH_EQUAL_HEX64 q m expected actual num_elements line message =
     equal_each q m expected 8 actual (ucast num_elements) message line UNITY_DISPLAY_STYLE_HEX64"

subsection \<open>Within a delta\<close>

definition UNITY_TEST_ASSERT_INT64_WITHIN ::
    "u64 \<Rightarrow> u64 \<Rightarrow> u64 \<Rightarrow> u64 \<Rightarrow> string option \<Rightarrow> unity \<Rightarrow> unity outcome" where
  "UNITY_TEST_ASSERT_INT64_WITHIN delta expected actual line message =
     UnityAssertIntNumbersWithin delta expected actual message line UNITY_DISPLAY_STYLE_INT64"

definition UNITY_TEST_ASSERT_UINT64_WITHIN ::
    "u64 \<Rightarrow> u64 \<Rightarrow> u64 \<Rightarrow> u64 \<Rightarrow> string option \<Rightarrow> unity \<Rightarrow> unity outcome" where
  "UNITY_TEST_ASSERT_UINT64_WITHIN delta expected actual line message =
     UnityAssertUintNumbersWithin delta expected actual message line UNITY_DISPLAY_STYLE_UINT64"

definition UNITY_TEST_ASSERT_HEX64_WITHIN ::
    "u64 \<Rightarrow> u64 \<Rightarrow> u64 \<Rightarrow> u64 \<Rightarrow> string option \<Rightarrow> unity \<Rightarrow> unity outcome" where
  "UNITY_TEST_ASSERT_HEX64_WITHIN delta expected actual line message =
     UnityAssertUintNumbersWithin delta expected actual message line UNITY_DISPLAY_STYLE_HEX64"

subsection \<open>Inequality\<close>

definition UNITY_TEST_ASSERT_NOT_EQUAL_INT64 ::
    "u64 \<Rightarrow> u64 \<Rightarrow> u64 \<Rightarrow> string option \<Rightarrow> unity \<Rightarrow> unity outcome" where
  "UNITY_TEST_ASSERT_NOT_EQUAL_INT64 threshold actual line message =
     UnityAssertIntGreaterOrLessOrEqualNumber threshold actual UNITY_NOT_EQUAL message line UNITY_DISPLAY_STYLE_INT64"

definition UNITY_TEST_ASSERT_NOT_EQUAL_UINT64 ::
    "u64 \<Rightarrow> u64 \<Rightarrow> u64 \<Rightarrow> string option \<Rightarrow> unity \<Rightarrow> unity outcome" where
  "UNITY_TEST_ASSERT_NOT_EQUAL_UINT64 threshold actual line message =
     UnityAssertUintGreaterOrLessOrEqualNumber threshold actual UNITY_NOT_EQUAL message line UNITY_DISPLAY_STYLE_UINT64"

definition UNITY_TEST_ASSERT_NOT_EQUAL_HEX64 ::
    "u64 \<Rightarrow> u64 \<Rightarrow> u64 \<Rightarrow> string option \<Rightarrow> unity \<Rightarrow> unity outcome" where
  "UNITY_TEST_ASSERT_NOT_EQUAL_HEX64 threshold actual line message =
     UnityAssertUintGreaterOrLessOrEqualNumber threshold actual UNITY_NOT_EQUAL message line UNITY_DISPLAY_STYLE_HEX64"

subsection \<open>Greater\<close>

definition UNITY_TEST_ASSERT_GREATER_THAN_INT64 ::
    "u64 \<Rightarrow> u64 \<Rightarrow> u64 \<Rightarrow> string option \<Rightarrow> unity \<Rightarrow> unity outcome" where
  "UNITY_TEST_ASSERT_GREATER_THAN_INT64 threshold actual line message =
     UnityAssertIntGreaterOrLessOrEqualNumber threshold actual UNITY_GREATER_THAN message line UNITY_DISPLAY_STYLE_INT64"

definition UNITY_TEST_ASSERT_GREATER_THAN_UINT64 ::
    "u64 \<Rightarrow> u64 \<Rightarrow> u64 \<Rightarrow> string option \<Rightarrow> unity \<Rightarrow> unity outcome" where
  "UNITY_TEST_ASSERT_GREATER_THAN_UINT64 threshold actual line message =
     UnityAssertUintGreaterOrLessOrEqualNumber threshold actual UNITY_GREATER_THAN message line UNITY_DISPLAY_STYLE_UINT64"

definition UNITY_TEST_ASSERT_GREATER_THAN_HEX64 ::
    "u64 \<Rightarrow> u64 \<Rightarrow> u64 \<Rightarrow> string option \<Rightarrow> unity \<Rightarrow> unity outcome" where
  "UNITY_TEST_ASSERT_GREATER_THAN_HEX64 threshold actual line message =
     UnityAssertUintGreaterOrLessOrEqualNumber threshold actual UNITY_GREATER_THAN message line UNITY_DISPLAY_STYLE_HEX64"

subsection \<open>Greater or equal\<close>

definition UNITY_TEST_ASSERT_GREATER_OR_EQUAL_INT64 ::
    "u64 \<Rightarrow> u64 \<Rightarrow> u64 \<Rightarrow> string option \<Rightarrow> unity \<Rightarrow> unity outcome" where
  "UNITY_TEST_ASSERT_GREATER_OR_EQUAL_INT64 threshold actual line message =
     UnityAssertIntGreaterOrLessOrEqualNumber threshold actual UNITY_GREATER_OR_EQUAL message line UNITY_DISPLAY_STYLE_INT64"

definition UNITY_TEST_ASSERT_GREATER_OR_EQUAL_UINT64 ::
    "u64 \<Rightarrow> u64 \<Rightarrow> u64 \<Rightarrow> string option \<Rightarrow> unity \<Rightarrow> unity outcome" where
  "UNITY_TEST_ASSERT_GREATER_OR_EQUAL_UINT64 threshold actual line message =
     UnityAssertUintGreaterOrLessOrEqualNumber threshold actual UNITY_GREATER_OR_EQUAL message line UNITY_DISPLAY_STYLE_UINT64"

definition UNITY_TEST_ASSERT_GREATER_OR_EQUAL_HEX64 ::
    "u64 \<Rightarrow> u64 \<Rightarrow> u64 \<Rightarrow> string option \<Rightarrow> unity \<Rightarrow> unity outcome" where
  "UNITY_TEST_ASSERT_GREATER_OR_EQUAL_HEX64 threshold actual line message =
     UnityAssertUintGreaterOrLessOrEqualNumber threshold actual UNITY_GREATER_OR_EQUAL message line UNITY_DISPLAY_STYLE_HEX64"

subsection \<open>Smaller\<close>

definition UNITY_TEST_ASSERT_SMALLER_THAN_INT64 ::
    "u64 \<Rightarrow> u64 \<Rightarrow> u64 \<Rightarrow> string option \<Rightarrow> unity \<Rightarrow> unity outcome" where
  "UNITY_TEST_ASSERT_SMALLER_THAN_INT64 threshold actual line message =
     UnityAssertIntGreaterOrLessOrEqualNumber threshold actual UNITY_SMALLER_THAN message line UNITY_DISPLAY_STYLE_INT64"

definition UNITY_TEST_ASSERT_SMALLER_THAN_UINT64 ::
    "u64 \<Rightarrow> u64 \<Rightarrow> u64 \<Rightarrow> string option \<Rightarrow> unity \<Rightarrow> unity outcome" where
  "UNITY_TEST_ASSERT_SMALLER_THAN_UINT64 threshold actual line message =
     UnityAssertUintGreaterOrLessOrEqualNumber threshold actual UNITY_SMALLER_THAN message line UNITY_DISPLAY_STYLE_UINT64"

definition UNITY_TEST_ASSERT_SMALLER_THAN_HEX64 ::
    "u64 \<Rightarrow> u64 \<Rightarrow> u64 \<Rightarrow> string option \<Rightarrow> unity \<Rightarrow> unity outcome" where
  "UNITY_TEST_ASSERT_SMALLER_THAN_HEX64 threshold actual line message =
     UnityAssertUintGreaterOrLessOrEqualNumber threshold actual UNITY_SMALLER_THAN message line UNITY_DISPLAY_STYLE_HEX64"

subsection \<open>Smaller or equal\<close>

definition UNITY_TEST_ASSERT_SMALLER_OR_EQUAL_INT64 ::
    "u64 \<Rightarrow> u64 \<Rightarrow> u64 \<Rightarrow> string option \<Rightarrow> unity \<Rightarrow> unity outcome" where
  "UNITY_TEST_ASSERT_SMALLER_OR_EQUAL_INT64 threshold actual line message =
     UnityAssertIntGreaterOrLessOrEqualNumber threshold actual UNITY_SMALLER_OR_EQUAL message line UNITY_DISPLAY_STYLE_INT64"

definition UNITY_TEST_ASSERT_SMALLER_OR_EQUAL_UINT64 ::
    "u64 \<Rightarrow> u64 \<Rightarrow> u64 \<Rightarrow> string option \<Rightarrow> unity \<Rightarrow> unity outcome" where
  "UNITY_TEST_ASSERT_SMALLER_OR_EQUAL_UINT64 threshold actual line message =
     UnityAssertUintGreaterOrLessOrEqualNumber threshold actual UNITY_SMALLER_OR_EQUAL message line UNITY_DISPLAY_STYLE_UINT64"

definition UNITY_TEST_ASSERT_SMALLER_OR_EQUAL_HEX64 ::
    "u64 \<Rightarrow> u64 \<Rightarrow> u64 \<Rightarrow> string option \<Rightarrow> unity \<Rightarrow> unity outcome" where
  "UNITY_TEST_ASSERT_SMALLER_OR_EQUAL_HEX64 threshold actual line message =
     UnityAssertUintGreaterOrLessOrEqualNumber threshold actual UNITY_SMALLER_OR_EQUAL message line UNITY_DISPLAY_STYLE_HEX64"

subsection \<open>Arrays within a delta\<close>

definition UNITY_TEST_ASSERT_INT64_ARRAY_WITHIN ::
    "cmem \<Rightarrow> u64 \<Rightarrow> addr \<Rightarrow> addr \<Rightarrow> u64 \<Rightarrow> u64 \<Rightarrow> string option \<Rightarrow> unity \<Rightarrow> unity outcome" where
  "UNITY_TEST_ASSERT_INT64_ARRAY_WITHIN m delta expected actual num_elements line message =
     UnityAssertNumbersArrayWithin m delta expected actual (ucast num_elements) message line UNITY_DISPLAY_STYLE_INT64 UNITY_ARRAY_TO_ARRAY"

definition UNITY_TEST_ASSERT_UINT64_ARRAY_WITHIN ::
    "cmem \<Rightarrow> u64 \<Rightarrow> addr \<Rightarrow> addr \<Rightarrow> u64 \<Rightarrow> u64 \<Rightarrow> string option \<Rightarrow> unity \<Rightarrow> unity outcome" where
  "UNITY_TEST_ASSERT_UINT64_ARRAY_WITHIN m delta expected actual num_elements line message =
     UnityAssertNumbersArrayWithin m delta expected actual (ucast num_elements) message line UNITY_DISPLAY_STYLE_UINT64 UNITY_ARRAY_TO_ARRAY"

definition UNITY_TEST_ASSERT_HEX64_ARRAY_WITHIN ::
    "cmem \<Rightarrow> u64 \<Rightarrow> addr \<Rightarrow> addr \<Rightarrow> u64 \<Rightarrow> u64 \<Rightarrow> string option \<Rightarrow> unity \<Rightarrow> unity outcome" where
  "UNITY_TEST_ASSERT_HEX64_ARRAY_WITHIN m delta expected actual num_elements line message =
     UnityAssertNumbersArrayWithin m delta expected actual (ucast num_elements) message line UNITY_DISPLAY_STYLE_HEX64 UNITY_ARRAY_TO_ARRAY"

end
