(* ===== verification/Unity_Float_Macros.thy ===== *)
theory Unity_Float_Macros
  imports Unity_Float Unity_Macros
begin

text \<open>
  The macros on \<open>float\<close> and \<open>double\<close>: those of \<open>src/unity/unity_internals.h\<close>, which cast their
  arguments to the type and call the assertion function, and those of \<open>src/unity/unity.h\<close> that test
  code uses, with and without a message.  An argument is a number of any floating-point type; a cast
  rounds it.  \<open>d\<close> is \<open>UNITY_DOUBLE\<close>.  The number an array is compared with is given by its
  representation, since its bytes are stored.  Where a type is excluded, each of its macros fails the
  test with one message.
\<close>

section \<open>Excluded types\<close>

definition UnityStrErrFloat :: string where "UnityStrErrFloat = ''Unity Floating Point Disabled''"
definition UnityStrErrDouble :: string where "UnityStrErrDouble = ''Unity Double Precision Disabled''"

definition FLOAT_DISABLED :: "u64 \<Rightarrow> unity \<Rightarrow> unity outcome" where
  "FLOAT_DISABLED line = UNITY_TEST_FAIL line (Some UnityStrErrFloat)"

definition DOUBLE_DISABLED :: "u64 \<Rightarrow> unity \<Rightarrow> unity outcome" where
  "DOUBLE_DISABLED line = UNITY_TEST_FAIL line (Some UnityStrErrDouble)"

section \<open>\<open>float\<close>\<close>

definition UNITY_TEST_ASSERT_FLOAT_WITHIN ::
    "real_type \<Rightarrow> c_real \<Rightarrow> c_real \<Rightarrow> c_real \<Rightarrow> u64 \<Rightarrow> string option \<Rightarrow> unity \<Rightarrow> unity outcome" where
  "UNITY_TEST_ASSERT_FLOAT_WITHIN d delta expected actual line message =
     UnityAssertFloatsWithin d (c_convert C_float delta) (c_convert C_float expected) (c_convert C_float actual) message line"

definition UNITY_TEST_ASSERT_FLOAT_NOT_WITHIN ::
    "real_type \<Rightarrow> c_real \<Rightarrow> c_real \<Rightarrow> c_real \<Rightarrow> u64 \<Rightarrow> string option \<Rightarrow> unity \<Rightarrow> unity outcome" where
  "UNITY_TEST_ASSERT_FLOAT_NOT_WITHIN d delta expected actual line message =
     UnityAssertFloatsNotWithin d (c_convert C_float delta) (c_convert C_float expected) (c_convert C_float actual) message line"

definition UNITY_TEST_ASSERT_EQUAL_FLOAT ::
    "real_type \<Rightarrow> c_real \<Rightarrow> c_real \<Rightarrow> u64 \<Rightarrow> string option \<Rightarrow> unity \<Rightarrow> unity outcome" where
  "UNITY_TEST_ASSERT_EQUAL_FLOAT d expected actual line message =
     UNITY_TEST_ASSERT_FLOAT_WITHIN d (c_mul C_float (c_convert C_float expected) (c_convert C_float (UNITY_PRECISION C_float))) (c_convert C_float expected) (c_convert C_float actual) line message"

definition UNITY_TEST_ASSERT_NOT_EQUAL_FLOAT ::
    "real_type \<Rightarrow> c_real \<Rightarrow> c_real \<Rightarrow> u64 \<Rightarrow> string option \<Rightarrow> unity \<Rightarrow> unity outcome" where
  "UNITY_TEST_ASSERT_NOT_EQUAL_FLOAT d expected actual line message =
     UNITY_TEST_ASSERT_FLOAT_NOT_WITHIN d (c_mul C_float (c_convert C_float expected) (c_convert C_float (UNITY_PRECISION C_float))) (c_convert C_float expected) (c_convert C_float actual) line message"

definition UNITY_TEST_ASSERT_FLOAT_ARRAY_WITHIN ::
    "real_type \<Rightarrow> cmem \<Rightarrow> c_real \<Rightarrow> addr \<Rightarrow> addr \<Rightarrow> u64 \<Rightarrow> u64 \<Rightarrow> string option \<Rightarrow> unity \<Rightarrow> unity outcome" where
  "UNITY_TEST_ASSERT_FLOAT_ARRAY_WITHIN d m delta expected actual num_elements line message =
     UnityAssertWithinFloatArray d m (c_convert C_float delta) expected actual (ucast num_elements) message line UNITY_ARRAY_TO_ARRAY"

definition UNITY_TEST_ASSERT_EQUAL_FLOAT_ARRAY ::
    "real_type \<Rightarrow> cmem \<Rightarrow> addr \<Rightarrow> addr \<Rightarrow> u64 \<Rightarrow> u64 \<Rightarrow> string option \<Rightarrow> unity \<Rightarrow> unity outcome" where
  "UNITY_TEST_ASSERT_EQUAL_FLOAT_ARRAY d m expected actual num_elements line message =
     UnityAssertWithinFloatArray d m (Fin 0) expected actual (ucast num_elements) message line UNITY_ARRAY_TO_ARRAY"

definition UNITY_TEST_ASSERT_EACH_EQUAL_FLOAT ::
    "real_type \<Rightarrow> addr \<Rightarrow> cmem \<Rightarrow> u32 \<Rightarrow> addr \<Rightarrow> u64 \<Rightarrow> u64 \<Rightarrow> string option \<Rightarrow> unity \<Rightarrow> unity outcome" where
  "UNITY_TEST_ASSERT_EACH_EQUAL_FLOAT d q m expected actual num_elements line message u =
     (case UnityFloatToPtr q m expected of
        None \<Rightarrow> Undefined
      | Some (m, p) \<Rightarrow> UnityAssertWithinFloatArray d m (Fin 0) p actual (ucast num_elements) message line UNITY_ARRAY_TO_VAL u)"

definition UNITY_TEST_ASSERT_GREATER_THAN_FLOAT ::
    "real_type \<Rightarrow> c_real \<Rightarrow> c_real \<Rightarrow> u64 \<Rightarrow> string option \<Rightarrow> unity \<Rightarrow> unity outcome" where
  "UNITY_TEST_ASSERT_GREATER_THAN_FLOAT d threshold actual line message =
     UnityAssertGreaterOrLessFloat d (c_convert C_float threshold) (c_convert C_float actual) UNITY_GREATER_THAN message line"

definition UNITY_TEST_ASSERT_GREATER_OR_EQUAL_FLOAT ::
    "real_type \<Rightarrow> c_real \<Rightarrow> c_real \<Rightarrow> u64 \<Rightarrow> string option \<Rightarrow> unity \<Rightarrow> unity outcome" where
  "UNITY_TEST_ASSERT_GREATER_OR_EQUAL_FLOAT d threshold actual line message =
     UnityAssertGreaterOrLessFloat d (c_convert C_float threshold) (c_convert C_float actual) UNITY_GREATER_OR_EQUAL message line"

definition UNITY_TEST_ASSERT_LESS_THAN_FLOAT ::
    "real_type \<Rightarrow> c_real \<Rightarrow> c_real \<Rightarrow> u64 \<Rightarrow> string option \<Rightarrow> unity \<Rightarrow> unity outcome" where
  "UNITY_TEST_ASSERT_LESS_THAN_FLOAT d threshold actual line message =
     UnityAssertGreaterOrLessFloat d (c_convert C_float threshold) (c_convert C_float actual) UNITY_SMALLER_THAN message line"

definition UNITY_TEST_ASSERT_LESS_OR_EQUAL_FLOAT ::
    "real_type \<Rightarrow> c_real \<Rightarrow> c_real \<Rightarrow> u64 \<Rightarrow> string option \<Rightarrow> unity \<Rightarrow> unity outcome" where
  "UNITY_TEST_ASSERT_LESS_OR_EQUAL_FLOAT d threshold actual line message =
     UnityAssertGreaterOrLessFloat d (c_convert C_float threshold) (c_convert C_float actual) UNITY_SMALLER_OR_EQUAL message line"

definition UNITY_TEST_ASSERT_FLOAT_IS_INF ::
    "real_type \<Rightarrow> c_real \<Rightarrow> u64 \<Rightarrow> string option \<Rightarrow> unity \<Rightarrow> unity outcome" where
  "UNITY_TEST_ASSERT_FLOAT_IS_INF d actual line message =
     UnityAssertFloatSpecial d (c_convert C_float actual) message line UNITY_FLOAT_IS_INF"

definition UNITY_TEST_ASSERT_FLOAT_IS_NEG_INF ::
    "real_type \<Rightarrow> c_real \<Rightarrow> u64 \<Rightarrow> string option \<Rightarrow> unity \<Rightarrow> unity outcome" where
  "UNITY_TEST_ASSERT_FLOAT_IS_NEG_INF d actual line message =
     UnityAssertFloatSpecial d (c_convert C_float actual) message line UNITY_FLOAT_IS_NEG_INF"

definition UNITY_TEST_ASSERT_FLOAT_IS_NAN ::
    "real_type \<Rightarrow> c_real \<Rightarrow> u64 \<Rightarrow> string option \<Rightarrow> unity \<Rightarrow> unity outcome" where
  "UNITY_TEST_ASSERT_FLOAT_IS_NAN d actual line message =
     UnityAssertFloatSpecial d (c_convert C_float actual) message line UNITY_FLOAT_IS_NAN"

definition UNITY_TEST_ASSERT_FLOAT_IS_DETERMINATE ::
    "real_type \<Rightarrow> c_real \<Rightarrow> u64 \<Rightarrow> string option \<Rightarrow> unity \<Rightarrow> unity outcome" where
  "UNITY_TEST_ASSERT_FLOAT_IS_DETERMINATE d actual line message =
     UnityAssertFloatSpecial d (c_convert C_float actual) message line UNITY_FLOAT_IS_DET"

definition UNITY_TEST_ASSERT_FLOAT_IS_NOT_INF ::
    "real_type \<Rightarrow> c_real \<Rightarrow> u64 \<Rightarrow> string option \<Rightarrow> unity \<Rightarrow> unity outcome" where
  "UNITY_TEST_ASSERT_FLOAT_IS_NOT_INF d actual line message =
     UnityAssertFloatSpecial d (c_convert C_float actual) message line UNITY_FLOAT_IS_NOT_INF"

definition UNITY_TEST_ASSERT_FLOAT_IS_NOT_NEG_INF ::
    "real_type \<Rightarrow> c_real \<Rightarrow> u64 \<Rightarrow> string option \<Rightarrow> unity \<Rightarrow> unity outcome" where
  "UNITY_TEST_ASSERT_FLOAT_IS_NOT_NEG_INF d actual line message =
     UnityAssertFloatSpecial d (c_convert C_float actual) message line UNITY_FLOAT_IS_NOT_NEG_INF"

definition UNITY_TEST_ASSERT_FLOAT_IS_NOT_NAN ::
    "real_type \<Rightarrow> c_real \<Rightarrow> u64 \<Rightarrow> string option \<Rightarrow> unity \<Rightarrow> unity outcome" where
  "UNITY_TEST_ASSERT_FLOAT_IS_NOT_NAN d actual line message =
     UnityAssertFloatSpecial d (c_convert C_float actual) message line UNITY_FLOAT_IS_NOT_NAN"

definition UNITY_TEST_ASSERT_FLOAT_IS_NOT_DETERMINATE ::
    "real_type \<Rightarrow> c_real \<Rightarrow> u64 \<Rightarrow> string option \<Rightarrow> unity \<Rightarrow> unity outcome" where
  "UNITY_TEST_ASSERT_FLOAT_IS_NOT_DETERMINATE d actual line message =
     UnityAssertFloatSpecial d (c_convert C_float actual) message line UNITY_FLOAT_IS_NOT_DET"

section \<open>\<open>double\<close>\<close>

definition UNITY_TEST_ASSERT_DOUBLE_WITHIN ::
    "c_real \<Rightarrow> c_real \<Rightarrow> c_real \<Rightarrow> u64 \<Rightarrow> string option \<Rightarrow> unity \<Rightarrow> unity outcome" where
  "UNITY_TEST_ASSERT_DOUBLE_WITHIN delta expected actual line message =
     UnityAssertDoublesWithin (c_convert C_double delta) (c_convert C_double expected) (c_convert C_double actual) message line"

definition UNITY_TEST_ASSERT_DOUBLE_NOT_WITHIN ::
    "c_real \<Rightarrow> c_real \<Rightarrow> c_real \<Rightarrow> u64 \<Rightarrow> string option \<Rightarrow> unity \<Rightarrow> unity outcome" where
  "UNITY_TEST_ASSERT_DOUBLE_NOT_WITHIN delta expected actual line message =
     UnityAssertDoublesNotWithin (c_convert C_double delta) (c_convert C_double expected) (c_convert C_double actual) message line"

definition UNITY_TEST_ASSERT_EQUAL_DOUBLE ::
    "c_real \<Rightarrow> c_real \<Rightarrow> u64 \<Rightarrow> string option \<Rightarrow> unity \<Rightarrow> unity outcome" where
  "UNITY_TEST_ASSERT_EQUAL_DOUBLE expected actual line message =
     UNITY_TEST_ASSERT_DOUBLE_WITHIN (c_mul C_double (c_convert C_double expected) (c_convert C_double (UNITY_PRECISION C_double))) (c_convert C_double expected) (c_convert C_double actual) line message"

definition UNITY_TEST_ASSERT_NOT_EQUAL_DOUBLE ::
    "c_real \<Rightarrow> c_real \<Rightarrow> u64 \<Rightarrow> string option \<Rightarrow> unity \<Rightarrow> unity outcome" where
  "UNITY_TEST_ASSERT_NOT_EQUAL_DOUBLE expected actual line message =
     UNITY_TEST_ASSERT_DOUBLE_NOT_WITHIN (c_mul C_double (c_convert C_double expected) (c_convert C_double (UNITY_PRECISION C_double))) (c_convert C_double expected) (c_convert C_double actual) line message"

definition UNITY_TEST_ASSERT_DOUBLE_ARRAY_WITHIN ::
    "cmem \<Rightarrow> c_real \<Rightarrow> addr \<Rightarrow> addr \<Rightarrow> u64 \<Rightarrow> u64 \<Rightarrow> string option \<Rightarrow> unity \<Rightarrow> unity outcome" where
  "UNITY_TEST_ASSERT_DOUBLE_ARRAY_WITHIN m delta expected actual num_elements line message =
     UnityAssertWithinDoubleArray m (c_convert C_double delta) expected actual (ucast num_elements) message line UNITY_ARRAY_TO_ARRAY"

definition UNITY_TEST_ASSERT_EQUAL_DOUBLE_ARRAY ::
    "cmem \<Rightarrow> addr \<Rightarrow> addr \<Rightarrow> u64 \<Rightarrow> u64 \<Rightarrow> string option \<Rightarrow> unity \<Rightarrow> unity outcome" where
  "UNITY_TEST_ASSERT_EQUAL_DOUBLE_ARRAY m expected actual num_elements line message =
     UnityAssertWithinDoubleArray m (Fin 0) expected actual (ucast num_elements) message line UNITY_ARRAY_TO_ARRAY"

definition UNITY_TEST_ASSERT_EACH_EQUAL_DOUBLE ::
    "addr \<Rightarrow> cmem \<Rightarrow> u64 \<Rightarrow> addr \<Rightarrow> u64 \<Rightarrow> u64 \<Rightarrow> string option \<Rightarrow> unity \<Rightarrow> unity outcome" where
  "UNITY_TEST_ASSERT_EACH_EQUAL_DOUBLE q m expected actual num_elements line message u =
     (case UnityDoubleToPtr q m expected of
        None \<Rightarrow> Undefined
      | Some (m, p) \<Rightarrow> UnityAssertWithinDoubleArray m (Fin 0) p actual (ucast num_elements) message line UNITY_ARRAY_TO_VAL u)"

definition UNITY_TEST_ASSERT_GREATER_THAN_DOUBLE ::
    "c_real \<Rightarrow> c_real \<Rightarrow> u64 \<Rightarrow> string option \<Rightarrow> unity \<Rightarrow> unity outcome" where
  "UNITY_TEST_ASSERT_GREATER_THAN_DOUBLE threshold actual line message =
     UnityAssertGreaterOrLessDouble (c_convert C_double threshold) (c_convert C_double actual) UNITY_GREATER_THAN message line"

definition UNITY_TEST_ASSERT_GREATER_OR_EQUAL_DOUBLE ::
    "c_real \<Rightarrow> c_real \<Rightarrow> u64 \<Rightarrow> string option \<Rightarrow> unity \<Rightarrow> unity outcome" where
  "UNITY_TEST_ASSERT_GREATER_OR_EQUAL_DOUBLE threshold actual line message =
     UnityAssertGreaterOrLessDouble (c_convert C_double threshold) (c_convert C_double actual) UNITY_GREATER_OR_EQUAL message line"

definition UNITY_TEST_ASSERT_LESS_THAN_DOUBLE ::
    "c_real \<Rightarrow> c_real \<Rightarrow> u64 \<Rightarrow> string option \<Rightarrow> unity \<Rightarrow> unity outcome" where
  "UNITY_TEST_ASSERT_LESS_THAN_DOUBLE threshold actual line message =
     UnityAssertGreaterOrLessDouble (c_convert C_double threshold) (c_convert C_double actual) UNITY_SMALLER_THAN message line"

definition UNITY_TEST_ASSERT_LESS_OR_EQUAL_DOUBLE ::
    "c_real \<Rightarrow> c_real \<Rightarrow> u64 \<Rightarrow> string option \<Rightarrow> unity \<Rightarrow> unity outcome" where
  "UNITY_TEST_ASSERT_LESS_OR_EQUAL_DOUBLE threshold actual line message =
     UnityAssertGreaterOrLessDouble (c_convert C_double threshold) (c_convert C_double actual) UNITY_SMALLER_OR_EQUAL message line"

definition UNITY_TEST_ASSERT_DOUBLE_IS_INF ::
    "c_real \<Rightarrow> u64 \<Rightarrow> string option \<Rightarrow> unity \<Rightarrow> unity outcome" where
  "UNITY_TEST_ASSERT_DOUBLE_IS_INF actual line message =
     UnityAssertDoubleSpecial (c_convert C_double actual) message line UNITY_FLOAT_IS_INF"

definition UNITY_TEST_ASSERT_DOUBLE_IS_NEG_INF ::
    "c_real \<Rightarrow> u64 \<Rightarrow> string option \<Rightarrow> unity \<Rightarrow> unity outcome" where
  "UNITY_TEST_ASSERT_DOUBLE_IS_NEG_INF actual line message =
     UnityAssertDoubleSpecial (c_convert C_double actual) message line UNITY_FLOAT_IS_NEG_INF"

definition UNITY_TEST_ASSERT_DOUBLE_IS_NAN ::
    "c_real \<Rightarrow> u64 \<Rightarrow> string option \<Rightarrow> unity \<Rightarrow> unity outcome" where
  "UNITY_TEST_ASSERT_DOUBLE_IS_NAN actual line message =
     UnityAssertDoubleSpecial (c_convert C_double actual) message line UNITY_FLOAT_IS_NAN"

definition UNITY_TEST_ASSERT_DOUBLE_IS_DETERMINATE ::
    "c_real \<Rightarrow> u64 \<Rightarrow> string option \<Rightarrow> unity \<Rightarrow> unity outcome" where
  "UNITY_TEST_ASSERT_DOUBLE_IS_DETERMINATE actual line message =
     UnityAssertDoubleSpecial (c_convert C_double actual) message line UNITY_FLOAT_IS_DET"

definition UNITY_TEST_ASSERT_DOUBLE_IS_NOT_INF ::
    "c_real \<Rightarrow> u64 \<Rightarrow> string option \<Rightarrow> unity \<Rightarrow> unity outcome" where
  "UNITY_TEST_ASSERT_DOUBLE_IS_NOT_INF actual line message =
     UnityAssertDoubleSpecial (c_convert C_double actual) message line UNITY_FLOAT_IS_NOT_INF"

definition UNITY_TEST_ASSERT_DOUBLE_IS_NOT_NEG_INF ::
    "c_real \<Rightarrow> u64 \<Rightarrow> string option \<Rightarrow> unity \<Rightarrow> unity outcome" where
  "UNITY_TEST_ASSERT_DOUBLE_IS_NOT_NEG_INF actual line message =
     UnityAssertDoubleSpecial (c_convert C_double actual) message line UNITY_FLOAT_IS_NOT_NEG_INF"

definition UNITY_TEST_ASSERT_DOUBLE_IS_NOT_NAN ::
    "c_real \<Rightarrow> u64 \<Rightarrow> string option \<Rightarrow> unity \<Rightarrow> unity outcome" where
  "UNITY_TEST_ASSERT_DOUBLE_IS_NOT_NAN actual line message =
     UnityAssertDoubleSpecial (c_convert C_double actual) message line UNITY_FLOAT_IS_NOT_NAN"

definition UNITY_TEST_ASSERT_DOUBLE_IS_NOT_DETERMINATE ::
    "c_real \<Rightarrow> u64 \<Rightarrow> string option \<Rightarrow> unity \<Rightarrow> unity outcome" where
  "UNITY_TEST_ASSERT_DOUBLE_IS_NOT_DETERMINATE actual line message =
     UnityAssertDoubleSpecial (c_convert C_double actual) message line UNITY_FLOAT_IS_NOT_DET"

section \<open>\<open>float\<close>, in tests\<close>

definition TEST_ASSERT_FLOAT_WITHIN ::
    "real_type \<Rightarrow> c_real \<Rightarrow> c_real \<Rightarrow> c_real \<Rightarrow> u64 \<Rightarrow> unity \<Rightarrow> unity outcome" where
  "TEST_ASSERT_FLOAT_WITHIN d delta expected actual line =
     UNITY_TEST_ASSERT_FLOAT_WITHIN d delta expected actual line None"

definition TEST_ASSERT_FLOAT_NOT_WITHIN ::
    "real_type \<Rightarrow> c_real \<Rightarrow> c_real \<Rightarrow> c_real \<Rightarrow> u64 \<Rightarrow> unity \<Rightarrow> unity outcome" where
  "TEST_ASSERT_FLOAT_NOT_WITHIN d delta expected actual line =
     UNITY_TEST_ASSERT_FLOAT_NOT_WITHIN d delta expected actual line None"

definition TEST_ASSERT_EQUAL_FLOAT ::
    "real_type \<Rightarrow> c_real \<Rightarrow> c_real \<Rightarrow> u64 \<Rightarrow> unity \<Rightarrow> unity outcome" where
  "TEST_ASSERT_EQUAL_FLOAT d expected actual line =
     UNITY_TEST_ASSERT_EQUAL_FLOAT d expected actual line None"

definition TEST_ASSERT_NOT_EQUAL_FLOAT ::
    "real_type \<Rightarrow> c_real \<Rightarrow> c_real \<Rightarrow> u64 \<Rightarrow> unity \<Rightarrow> unity outcome" where
  "TEST_ASSERT_NOT_EQUAL_FLOAT d expected actual line =
     UNITY_TEST_ASSERT_NOT_EQUAL_FLOAT d expected actual line None"

definition TEST_ASSERT_FLOAT_ARRAY_WITHIN ::
    "real_type \<Rightarrow> cmem \<Rightarrow> c_real \<Rightarrow> addr \<Rightarrow> addr \<Rightarrow> u64 \<Rightarrow> u64 \<Rightarrow> unity \<Rightarrow> unity outcome" where
  "TEST_ASSERT_FLOAT_ARRAY_WITHIN d m delta expected actual num_elements line =
     UNITY_TEST_ASSERT_FLOAT_ARRAY_WITHIN d m delta expected actual num_elements line None"

definition TEST_ASSERT_EQUAL_FLOAT_ARRAY ::
    "real_type \<Rightarrow> cmem \<Rightarrow> addr \<Rightarrow> addr \<Rightarrow> u64 \<Rightarrow> u64 \<Rightarrow> unity \<Rightarrow> unity outcome" where
  "TEST_ASSERT_EQUAL_FLOAT_ARRAY d m expected actual num_elements line =
     UNITY_TEST_ASSERT_EQUAL_FLOAT_ARRAY d m expected actual num_elements line None"

definition TEST_ASSERT_EACH_EQUAL_FLOAT ::
    "real_type \<Rightarrow> addr \<Rightarrow> cmem \<Rightarrow> u32 \<Rightarrow> addr \<Rightarrow> u64 \<Rightarrow> u64 \<Rightarrow> unity \<Rightarrow> unity outcome" where
  "TEST_ASSERT_EACH_EQUAL_FLOAT d q m expected actual num_elements line =
     UNITY_TEST_ASSERT_EACH_EQUAL_FLOAT d q m expected actual num_elements line None"

definition TEST_ASSERT_GREATER_THAN_FLOAT ::
    "real_type \<Rightarrow> c_real \<Rightarrow> c_real \<Rightarrow> u64 \<Rightarrow> unity \<Rightarrow> unity outcome" where
  "TEST_ASSERT_GREATER_THAN_FLOAT d threshold actual line =
     UNITY_TEST_ASSERT_GREATER_THAN_FLOAT d threshold actual line None"

definition TEST_ASSERT_GREATER_OR_EQUAL_FLOAT ::
    "real_type \<Rightarrow> c_real \<Rightarrow> c_real \<Rightarrow> u64 \<Rightarrow> unity \<Rightarrow> unity outcome" where
  "TEST_ASSERT_GREATER_OR_EQUAL_FLOAT d threshold actual line =
     UNITY_TEST_ASSERT_GREATER_OR_EQUAL_FLOAT d threshold actual line None"

definition TEST_ASSERT_LESS_THAN_FLOAT ::
    "real_type \<Rightarrow> c_real \<Rightarrow> c_real \<Rightarrow> u64 \<Rightarrow> unity \<Rightarrow> unity outcome" where
  "TEST_ASSERT_LESS_THAN_FLOAT d threshold actual line =
     UNITY_TEST_ASSERT_LESS_THAN_FLOAT d threshold actual line None"

definition TEST_ASSERT_LESS_OR_EQUAL_FLOAT ::
    "real_type \<Rightarrow> c_real \<Rightarrow> c_real \<Rightarrow> u64 \<Rightarrow> unity \<Rightarrow> unity outcome" where
  "TEST_ASSERT_LESS_OR_EQUAL_FLOAT d threshold actual line =
     UNITY_TEST_ASSERT_LESS_OR_EQUAL_FLOAT d threshold actual line None"

definition TEST_ASSERT_FLOAT_IS_INF ::
    "real_type \<Rightarrow> c_real \<Rightarrow> u64 \<Rightarrow> unity \<Rightarrow> unity outcome" where
  "TEST_ASSERT_FLOAT_IS_INF d actual line =
     UNITY_TEST_ASSERT_FLOAT_IS_INF d actual line None"

definition TEST_ASSERT_FLOAT_IS_NEG_INF ::
    "real_type \<Rightarrow> c_real \<Rightarrow> u64 \<Rightarrow> unity \<Rightarrow> unity outcome" where
  "TEST_ASSERT_FLOAT_IS_NEG_INF d actual line =
     UNITY_TEST_ASSERT_FLOAT_IS_NEG_INF d actual line None"

definition TEST_ASSERT_FLOAT_IS_NAN ::
    "real_type \<Rightarrow> c_real \<Rightarrow> u64 \<Rightarrow> unity \<Rightarrow> unity outcome" where
  "TEST_ASSERT_FLOAT_IS_NAN d actual line =
     UNITY_TEST_ASSERT_FLOAT_IS_NAN d actual line None"

definition TEST_ASSERT_FLOAT_IS_DETERMINATE ::
    "real_type \<Rightarrow> c_real \<Rightarrow> u64 \<Rightarrow> unity \<Rightarrow> unity outcome" where
  "TEST_ASSERT_FLOAT_IS_DETERMINATE d actual line =
     UNITY_TEST_ASSERT_FLOAT_IS_DETERMINATE d actual line None"

definition TEST_ASSERT_FLOAT_IS_NOT_INF ::
    "real_type \<Rightarrow> c_real \<Rightarrow> u64 \<Rightarrow> unity \<Rightarrow> unity outcome" where
  "TEST_ASSERT_FLOAT_IS_NOT_INF d actual line =
     UNITY_TEST_ASSERT_FLOAT_IS_NOT_INF d actual line None"

definition TEST_ASSERT_FLOAT_IS_NOT_NEG_INF ::
    "real_type \<Rightarrow> c_real \<Rightarrow> u64 \<Rightarrow> unity \<Rightarrow> unity outcome" where
  "TEST_ASSERT_FLOAT_IS_NOT_NEG_INF d actual line =
     UNITY_TEST_ASSERT_FLOAT_IS_NOT_NEG_INF d actual line None"

definition TEST_ASSERT_FLOAT_IS_NOT_NAN ::
    "real_type \<Rightarrow> c_real \<Rightarrow> u64 \<Rightarrow> unity \<Rightarrow> unity outcome" where
  "TEST_ASSERT_FLOAT_IS_NOT_NAN d actual line =
     UNITY_TEST_ASSERT_FLOAT_IS_NOT_NAN d actual line None"

definition TEST_ASSERT_FLOAT_IS_NOT_DETERMINATE ::
    "real_type \<Rightarrow> c_real \<Rightarrow> u64 \<Rightarrow> unity \<Rightarrow> unity outcome" where
  "TEST_ASSERT_FLOAT_IS_NOT_DETERMINATE d actual line =
     UNITY_TEST_ASSERT_FLOAT_IS_NOT_DETERMINATE d actual line None"

definition TEST_ASSERT_FLOAT_WITHIN_MESSAGE ::
    "real_type \<Rightarrow> c_real \<Rightarrow> c_real \<Rightarrow> c_real \<Rightarrow> string option \<Rightarrow> u64 \<Rightarrow> unity \<Rightarrow> unity outcome" where
  "TEST_ASSERT_FLOAT_WITHIN_MESSAGE d delta expected actual message line =
     UNITY_TEST_ASSERT_FLOAT_WITHIN d delta expected actual line message"

definition TEST_ASSERT_EQUAL_FLOAT_MESSAGE ::
    "real_type \<Rightarrow> c_real \<Rightarrow> c_real \<Rightarrow> string option \<Rightarrow> u64 \<Rightarrow> unity \<Rightarrow> unity outcome" where
  "TEST_ASSERT_EQUAL_FLOAT_MESSAGE d expected actual message line =
     UNITY_TEST_ASSERT_EQUAL_FLOAT d expected actual line message"

definition TEST_ASSERT_NOT_EQUAL_FLOAT_MESSAGE ::
    "real_type \<Rightarrow> c_real \<Rightarrow> c_real \<Rightarrow> string option \<Rightarrow> u64 \<Rightarrow> unity \<Rightarrow> unity outcome" where
  "TEST_ASSERT_NOT_EQUAL_FLOAT_MESSAGE d expected actual message line =
     UNITY_TEST_ASSERT_NOT_EQUAL_FLOAT d expected actual line message"

definition TEST_ASSERT_FLOAT_ARRAY_WITHIN_MESSAGE ::
    "real_type \<Rightarrow> cmem \<Rightarrow> c_real \<Rightarrow> addr \<Rightarrow> addr \<Rightarrow> u64 \<Rightarrow> string option \<Rightarrow> u64 \<Rightarrow> unity \<Rightarrow> unity outcome" where
  "TEST_ASSERT_FLOAT_ARRAY_WITHIN_MESSAGE d m delta expected actual num_elements message line =
     UNITY_TEST_ASSERT_FLOAT_ARRAY_WITHIN d m delta expected actual num_elements line message"

definition TEST_ASSERT_EQUAL_FLOAT_ARRAY_MESSAGE ::
    "real_type \<Rightarrow> cmem \<Rightarrow> addr \<Rightarrow> addr \<Rightarrow> u64 \<Rightarrow> string option \<Rightarrow> u64 \<Rightarrow> unity \<Rightarrow> unity outcome" where
  "TEST_ASSERT_EQUAL_FLOAT_ARRAY_MESSAGE d m expected actual num_elements message line =
     UNITY_TEST_ASSERT_EQUAL_FLOAT_ARRAY d m expected actual num_elements line message"

definition TEST_ASSERT_EACH_EQUAL_FLOAT_MESSAGE ::
    "real_type \<Rightarrow> addr \<Rightarrow> cmem \<Rightarrow> u32 \<Rightarrow> addr \<Rightarrow> u64 \<Rightarrow> string option \<Rightarrow> u64 \<Rightarrow> unity \<Rightarrow> unity outcome" where
  "TEST_ASSERT_EACH_EQUAL_FLOAT_MESSAGE d q m expected actual num_elements message line =
     UNITY_TEST_ASSERT_EACH_EQUAL_FLOAT d q m expected actual num_elements line message"

definition TEST_ASSERT_GREATER_THAN_FLOAT_MESSAGE ::
    "real_type \<Rightarrow> c_real \<Rightarrow> c_real \<Rightarrow> string option \<Rightarrow> u64 \<Rightarrow> unity \<Rightarrow> unity outcome" where
  "TEST_ASSERT_GREATER_THAN_FLOAT_MESSAGE d threshold actual message line =
     UNITY_TEST_ASSERT_GREATER_THAN_FLOAT d threshold actual line message"

definition TEST_ASSERT_GREATER_OR_EQUAL_FLOAT_MESSAGE ::
    "real_type \<Rightarrow> c_real \<Rightarrow> c_real \<Rightarrow> string option \<Rightarrow> u64 \<Rightarrow> unity \<Rightarrow> unity outcome" where
  "TEST_ASSERT_GREATER_OR_EQUAL_FLOAT_MESSAGE d threshold actual message line =
     UNITY_TEST_ASSERT_GREATER_OR_EQUAL_FLOAT d threshold actual line message"

definition TEST_ASSERT_LESS_THAN_FLOAT_MESSAGE ::
    "real_type \<Rightarrow> c_real \<Rightarrow> c_real \<Rightarrow> string option \<Rightarrow> u64 \<Rightarrow> unity \<Rightarrow> unity outcome" where
  "TEST_ASSERT_LESS_THAN_FLOAT_MESSAGE d threshold actual message line =
     UNITY_TEST_ASSERT_LESS_THAN_FLOAT d threshold actual line message"

definition TEST_ASSERT_LESS_OR_EQUAL_FLOAT_MESSAGE ::
    "real_type \<Rightarrow> c_real \<Rightarrow> c_real \<Rightarrow> string option \<Rightarrow> u64 \<Rightarrow> unity \<Rightarrow> unity outcome" where
  "TEST_ASSERT_LESS_OR_EQUAL_FLOAT_MESSAGE d threshold actual message line =
     UNITY_TEST_ASSERT_LESS_OR_EQUAL_FLOAT d threshold actual line message"

definition TEST_ASSERT_FLOAT_IS_INF_MESSAGE ::
    "real_type \<Rightarrow> c_real \<Rightarrow> string option \<Rightarrow> u64 \<Rightarrow> unity \<Rightarrow> unity outcome" where
  "TEST_ASSERT_FLOAT_IS_INF_MESSAGE d actual message line =
     UNITY_TEST_ASSERT_FLOAT_IS_INF d actual line message"

definition TEST_ASSERT_FLOAT_IS_NEG_INF_MESSAGE ::
    "real_type \<Rightarrow> c_real \<Rightarrow> string option \<Rightarrow> u64 \<Rightarrow> unity \<Rightarrow> unity outcome" where
  "TEST_ASSERT_FLOAT_IS_NEG_INF_MESSAGE d actual message line =
     UNITY_TEST_ASSERT_FLOAT_IS_NEG_INF d actual line message"

definition TEST_ASSERT_FLOAT_IS_NAN_MESSAGE ::
    "real_type \<Rightarrow> c_real \<Rightarrow> string option \<Rightarrow> u64 \<Rightarrow> unity \<Rightarrow> unity outcome" where
  "TEST_ASSERT_FLOAT_IS_NAN_MESSAGE d actual message line =
     UNITY_TEST_ASSERT_FLOAT_IS_NAN d actual line message"

definition TEST_ASSERT_FLOAT_IS_DETERMINATE_MESSAGE ::
    "real_type \<Rightarrow> c_real \<Rightarrow> string option \<Rightarrow> u64 \<Rightarrow> unity \<Rightarrow> unity outcome" where
  "TEST_ASSERT_FLOAT_IS_DETERMINATE_MESSAGE d actual message line =
     UNITY_TEST_ASSERT_FLOAT_IS_DETERMINATE d actual line message"

definition TEST_ASSERT_FLOAT_IS_NOT_INF_MESSAGE ::
    "real_type \<Rightarrow> c_real \<Rightarrow> string option \<Rightarrow> u64 \<Rightarrow> unity \<Rightarrow> unity outcome" where
  "TEST_ASSERT_FLOAT_IS_NOT_INF_MESSAGE d actual message line =
     UNITY_TEST_ASSERT_FLOAT_IS_NOT_INF d actual line message"

definition TEST_ASSERT_FLOAT_IS_NOT_NEG_INF_MESSAGE ::
    "real_type \<Rightarrow> c_real \<Rightarrow> string option \<Rightarrow> u64 \<Rightarrow> unity \<Rightarrow> unity outcome" where
  "TEST_ASSERT_FLOAT_IS_NOT_NEG_INF_MESSAGE d actual message line =
     UNITY_TEST_ASSERT_FLOAT_IS_NOT_NEG_INF d actual line message"

definition TEST_ASSERT_FLOAT_IS_NOT_NAN_MESSAGE ::
    "real_type \<Rightarrow> c_real \<Rightarrow> string option \<Rightarrow> u64 \<Rightarrow> unity \<Rightarrow> unity outcome" where
  "TEST_ASSERT_FLOAT_IS_NOT_NAN_MESSAGE d actual message line =
     UNITY_TEST_ASSERT_FLOAT_IS_NOT_NAN d actual line message"

definition TEST_ASSERT_FLOAT_IS_NOT_DETERMINATE_MESSAGE ::
    "real_type \<Rightarrow> c_real \<Rightarrow> string option \<Rightarrow> u64 \<Rightarrow> unity \<Rightarrow> unity outcome" where
  "TEST_ASSERT_FLOAT_IS_NOT_DETERMINATE_MESSAGE d actual message line =
     UNITY_TEST_ASSERT_FLOAT_IS_NOT_DETERMINATE d actual line message"

section \<open>\<open>double\<close>, in tests\<close>

definition TEST_ASSERT_DOUBLE_WITHIN ::
    "c_real \<Rightarrow> c_real \<Rightarrow> c_real \<Rightarrow> u64 \<Rightarrow> unity \<Rightarrow> unity outcome" where
  "TEST_ASSERT_DOUBLE_WITHIN delta expected actual line =
     UNITY_TEST_ASSERT_DOUBLE_WITHIN delta expected actual line None"

definition TEST_ASSERT_DOUBLE_NOT_WITHIN ::
    "c_real \<Rightarrow> c_real \<Rightarrow> c_real \<Rightarrow> u64 \<Rightarrow> unity \<Rightarrow> unity outcome" where
  "TEST_ASSERT_DOUBLE_NOT_WITHIN delta expected actual line =
     UNITY_TEST_ASSERT_DOUBLE_NOT_WITHIN delta expected actual line None"

definition TEST_ASSERT_EQUAL_DOUBLE ::
    "c_real \<Rightarrow> c_real \<Rightarrow> u64 \<Rightarrow> unity \<Rightarrow> unity outcome" where
  "TEST_ASSERT_EQUAL_DOUBLE expected actual line =
     UNITY_TEST_ASSERT_EQUAL_DOUBLE expected actual line None"

definition TEST_ASSERT_NOT_EQUAL_DOUBLE ::
    "c_real \<Rightarrow> c_real \<Rightarrow> u64 \<Rightarrow> unity \<Rightarrow> unity outcome" where
  "TEST_ASSERT_NOT_EQUAL_DOUBLE expected actual line =
     UNITY_TEST_ASSERT_NOT_EQUAL_DOUBLE expected actual line None"

definition TEST_ASSERT_DOUBLE_ARRAY_WITHIN ::
    "cmem \<Rightarrow> c_real \<Rightarrow> addr \<Rightarrow> addr \<Rightarrow> u64 \<Rightarrow> u64 \<Rightarrow> unity \<Rightarrow> unity outcome" where
  "TEST_ASSERT_DOUBLE_ARRAY_WITHIN m delta expected actual num_elements line =
     UNITY_TEST_ASSERT_DOUBLE_ARRAY_WITHIN m delta expected actual num_elements line None"

definition TEST_ASSERT_EQUAL_DOUBLE_ARRAY ::
    "cmem \<Rightarrow> addr \<Rightarrow> addr \<Rightarrow> u64 \<Rightarrow> u64 \<Rightarrow> unity \<Rightarrow> unity outcome" where
  "TEST_ASSERT_EQUAL_DOUBLE_ARRAY m expected actual num_elements line =
     UNITY_TEST_ASSERT_EQUAL_DOUBLE_ARRAY m expected actual num_elements line None"

definition TEST_ASSERT_EACH_EQUAL_DOUBLE ::
    "addr \<Rightarrow> cmem \<Rightarrow> u64 \<Rightarrow> addr \<Rightarrow> u64 \<Rightarrow> u64 \<Rightarrow> unity \<Rightarrow> unity outcome" where
  "TEST_ASSERT_EACH_EQUAL_DOUBLE q m expected actual num_elements line =
     UNITY_TEST_ASSERT_EACH_EQUAL_DOUBLE q m expected actual num_elements line None"

definition TEST_ASSERT_GREATER_THAN_DOUBLE ::
    "c_real \<Rightarrow> c_real \<Rightarrow> u64 \<Rightarrow> unity \<Rightarrow> unity outcome" where
  "TEST_ASSERT_GREATER_THAN_DOUBLE threshold actual line =
     UNITY_TEST_ASSERT_GREATER_THAN_DOUBLE threshold actual line None"

definition TEST_ASSERT_GREATER_OR_EQUAL_DOUBLE ::
    "c_real \<Rightarrow> c_real \<Rightarrow> u64 \<Rightarrow> unity \<Rightarrow> unity outcome" where
  "TEST_ASSERT_GREATER_OR_EQUAL_DOUBLE threshold actual line =
     UNITY_TEST_ASSERT_GREATER_OR_EQUAL_DOUBLE threshold actual line None"

definition TEST_ASSERT_LESS_THAN_DOUBLE ::
    "c_real \<Rightarrow> c_real \<Rightarrow> u64 \<Rightarrow> unity \<Rightarrow> unity outcome" where
  "TEST_ASSERT_LESS_THAN_DOUBLE threshold actual line =
     UNITY_TEST_ASSERT_LESS_THAN_DOUBLE threshold actual line None"

definition TEST_ASSERT_LESS_OR_EQUAL_DOUBLE ::
    "c_real \<Rightarrow> c_real \<Rightarrow> u64 \<Rightarrow> unity \<Rightarrow> unity outcome" where
  "TEST_ASSERT_LESS_OR_EQUAL_DOUBLE threshold actual line =
     UNITY_TEST_ASSERT_LESS_OR_EQUAL_DOUBLE threshold actual line None"

definition TEST_ASSERT_DOUBLE_IS_INF ::
    "c_real \<Rightarrow> u64 \<Rightarrow> unity \<Rightarrow> unity outcome" where
  "TEST_ASSERT_DOUBLE_IS_INF actual line =
     UNITY_TEST_ASSERT_DOUBLE_IS_INF actual line None"

definition TEST_ASSERT_DOUBLE_IS_NEG_INF ::
    "c_real \<Rightarrow> u64 \<Rightarrow> unity \<Rightarrow> unity outcome" where
  "TEST_ASSERT_DOUBLE_IS_NEG_INF actual line =
     UNITY_TEST_ASSERT_DOUBLE_IS_NEG_INF actual line None"

definition TEST_ASSERT_DOUBLE_IS_NAN ::
    "c_real \<Rightarrow> u64 \<Rightarrow> unity \<Rightarrow> unity outcome" where
  "TEST_ASSERT_DOUBLE_IS_NAN actual line =
     UNITY_TEST_ASSERT_DOUBLE_IS_NAN actual line None"

definition TEST_ASSERT_DOUBLE_IS_DETERMINATE ::
    "c_real \<Rightarrow> u64 \<Rightarrow> unity \<Rightarrow> unity outcome" where
  "TEST_ASSERT_DOUBLE_IS_DETERMINATE actual line =
     UNITY_TEST_ASSERT_DOUBLE_IS_DETERMINATE actual line None"

definition TEST_ASSERT_DOUBLE_IS_NOT_INF ::
    "c_real \<Rightarrow> u64 \<Rightarrow> unity \<Rightarrow> unity outcome" where
  "TEST_ASSERT_DOUBLE_IS_NOT_INF actual line =
     UNITY_TEST_ASSERT_DOUBLE_IS_NOT_INF actual line None"

definition TEST_ASSERT_DOUBLE_IS_NOT_NEG_INF ::
    "c_real \<Rightarrow> u64 \<Rightarrow> unity \<Rightarrow> unity outcome" where
  "TEST_ASSERT_DOUBLE_IS_NOT_NEG_INF actual line =
     UNITY_TEST_ASSERT_DOUBLE_IS_NOT_NEG_INF actual line None"

definition TEST_ASSERT_DOUBLE_IS_NOT_NAN ::
    "c_real \<Rightarrow> u64 \<Rightarrow> unity \<Rightarrow> unity outcome" where
  "TEST_ASSERT_DOUBLE_IS_NOT_NAN actual line =
     UNITY_TEST_ASSERT_DOUBLE_IS_NOT_NAN actual line None"

definition TEST_ASSERT_DOUBLE_IS_NOT_DETERMINATE ::
    "c_real \<Rightarrow> u64 \<Rightarrow> unity \<Rightarrow> unity outcome" where
  "TEST_ASSERT_DOUBLE_IS_NOT_DETERMINATE actual line =
     UNITY_TEST_ASSERT_DOUBLE_IS_NOT_DETERMINATE actual line None"

definition TEST_ASSERT_DOUBLE_WITHIN_MESSAGE ::
    "c_real \<Rightarrow> c_real \<Rightarrow> c_real \<Rightarrow> string option \<Rightarrow> u64 \<Rightarrow> unity \<Rightarrow> unity outcome" where
  "TEST_ASSERT_DOUBLE_WITHIN_MESSAGE delta expected actual message line =
     UNITY_TEST_ASSERT_DOUBLE_WITHIN delta expected actual line message"

definition TEST_ASSERT_EQUAL_DOUBLE_MESSAGE ::
    "c_real \<Rightarrow> c_real \<Rightarrow> string option \<Rightarrow> u64 \<Rightarrow> unity \<Rightarrow> unity outcome" where
  "TEST_ASSERT_EQUAL_DOUBLE_MESSAGE expected actual message line =
     UNITY_TEST_ASSERT_EQUAL_DOUBLE expected actual line message"

definition TEST_ASSERT_NOT_EQUAL_DOUBLE_MESSAGE ::
    "c_real \<Rightarrow> c_real \<Rightarrow> string option \<Rightarrow> u64 \<Rightarrow> unity \<Rightarrow> unity outcome" where
  "TEST_ASSERT_NOT_EQUAL_DOUBLE_MESSAGE expected actual message line =
     UNITY_TEST_ASSERT_NOT_EQUAL_DOUBLE expected actual line message"

definition TEST_ASSERT_DOUBLE_ARRAY_WITHIN_MESSAGE ::
    "cmem \<Rightarrow> c_real \<Rightarrow> addr \<Rightarrow> addr \<Rightarrow> u64 \<Rightarrow> string option \<Rightarrow> u64 \<Rightarrow> unity \<Rightarrow> unity outcome" where
  "TEST_ASSERT_DOUBLE_ARRAY_WITHIN_MESSAGE m delta expected actual num_elements message line =
     UNITY_TEST_ASSERT_DOUBLE_ARRAY_WITHIN m delta expected actual num_elements line message"

definition TEST_ASSERT_EQUAL_DOUBLE_ARRAY_MESSAGE ::
    "cmem \<Rightarrow> addr \<Rightarrow> addr \<Rightarrow> u64 \<Rightarrow> string option \<Rightarrow> u64 \<Rightarrow> unity \<Rightarrow> unity outcome" where
  "TEST_ASSERT_EQUAL_DOUBLE_ARRAY_MESSAGE m expected actual num_elements message line =
     UNITY_TEST_ASSERT_EQUAL_DOUBLE_ARRAY m expected actual num_elements line message"

definition TEST_ASSERT_EACH_EQUAL_DOUBLE_MESSAGE ::
    "addr \<Rightarrow> cmem \<Rightarrow> u64 \<Rightarrow> addr \<Rightarrow> u64 \<Rightarrow> string option \<Rightarrow> u64 \<Rightarrow> unity \<Rightarrow> unity outcome" where
  "TEST_ASSERT_EACH_EQUAL_DOUBLE_MESSAGE q m expected actual num_elements message line =
     UNITY_TEST_ASSERT_EACH_EQUAL_DOUBLE q m expected actual num_elements line message"

definition TEST_ASSERT_GREATER_THAN_DOUBLE_MESSAGE ::
    "c_real \<Rightarrow> c_real \<Rightarrow> string option \<Rightarrow> u64 \<Rightarrow> unity \<Rightarrow> unity outcome" where
  "TEST_ASSERT_GREATER_THAN_DOUBLE_MESSAGE threshold actual message line =
     UNITY_TEST_ASSERT_GREATER_THAN_DOUBLE threshold actual line message"

definition TEST_ASSERT_GREATER_OR_EQUAL_DOUBLE_MESSAGE ::
    "c_real \<Rightarrow> c_real \<Rightarrow> string option \<Rightarrow> u64 \<Rightarrow> unity \<Rightarrow> unity outcome" where
  "TEST_ASSERT_GREATER_OR_EQUAL_DOUBLE_MESSAGE threshold actual message line =
     UNITY_TEST_ASSERT_GREATER_OR_EQUAL_DOUBLE threshold actual line message"

definition TEST_ASSERT_LESS_THAN_DOUBLE_MESSAGE ::
    "c_real \<Rightarrow> c_real \<Rightarrow> string option \<Rightarrow> u64 \<Rightarrow> unity \<Rightarrow> unity outcome" where
  "TEST_ASSERT_LESS_THAN_DOUBLE_MESSAGE threshold actual message line =
     UNITY_TEST_ASSERT_LESS_THAN_DOUBLE threshold actual line message"

definition TEST_ASSERT_LESS_OR_EQUAL_DOUBLE_MESSAGE ::
    "c_real \<Rightarrow> c_real \<Rightarrow> string option \<Rightarrow> u64 \<Rightarrow> unity \<Rightarrow> unity outcome" where
  "TEST_ASSERT_LESS_OR_EQUAL_DOUBLE_MESSAGE threshold actual message line =
     UNITY_TEST_ASSERT_LESS_OR_EQUAL_DOUBLE threshold actual line message"

definition TEST_ASSERT_DOUBLE_IS_INF_MESSAGE ::
    "c_real \<Rightarrow> string option \<Rightarrow> u64 \<Rightarrow> unity \<Rightarrow> unity outcome" where
  "TEST_ASSERT_DOUBLE_IS_INF_MESSAGE actual message line =
     UNITY_TEST_ASSERT_DOUBLE_IS_INF actual line message"

definition TEST_ASSERT_DOUBLE_IS_NEG_INF_MESSAGE ::
    "c_real \<Rightarrow> string option \<Rightarrow> u64 \<Rightarrow> unity \<Rightarrow> unity outcome" where
  "TEST_ASSERT_DOUBLE_IS_NEG_INF_MESSAGE actual message line =
     UNITY_TEST_ASSERT_DOUBLE_IS_NEG_INF actual line message"

definition TEST_ASSERT_DOUBLE_IS_NAN_MESSAGE ::
    "c_real \<Rightarrow> string option \<Rightarrow> u64 \<Rightarrow> unity \<Rightarrow> unity outcome" where
  "TEST_ASSERT_DOUBLE_IS_NAN_MESSAGE actual message line =
     UNITY_TEST_ASSERT_DOUBLE_IS_NAN actual line message"

definition TEST_ASSERT_DOUBLE_IS_DETERMINATE_MESSAGE ::
    "c_real \<Rightarrow> string option \<Rightarrow> u64 \<Rightarrow> unity \<Rightarrow> unity outcome" where
  "TEST_ASSERT_DOUBLE_IS_DETERMINATE_MESSAGE actual message line =
     UNITY_TEST_ASSERT_DOUBLE_IS_DETERMINATE actual line message"

definition TEST_ASSERT_DOUBLE_IS_NOT_INF_MESSAGE ::
    "c_real \<Rightarrow> string option \<Rightarrow> u64 \<Rightarrow> unity \<Rightarrow> unity outcome" where
  "TEST_ASSERT_DOUBLE_IS_NOT_INF_MESSAGE actual message line =
     UNITY_TEST_ASSERT_DOUBLE_IS_NOT_INF actual line message"

definition TEST_ASSERT_DOUBLE_IS_NOT_NEG_INF_MESSAGE ::
    "c_real \<Rightarrow> string option \<Rightarrow> u64 \<Rightarrow> unity \<Rightarrow> unity outcome" where
  "TEST_ASSERT_DOUBLE_IS_NOT_NEG_INF_MESSAGE actual message line =
     UNITY_TEST_ASSERT_DOUBLE_IS_NOT_NEG_INF actual line message"

definition TEST_ASSERT_DOUBLE_IS_NOT_NAN_MESSAGE ::
    "c_real \<Rightarrow> string option \<Rightarrow> u64 \<Rightarrow> unity \<Rightarrow> unity outcome" where
  "TEST_ASSERT_DOUBLE_IS_NOT_NAN_MESSAGE actual message line =
     UNITY_TEST_ASSERT_DOUBLE_IS_NOT_NAN actual line message"

definition TEST_ASSERT_DOUBLE_IS_NOT_DETERMINATE_MESSAGE ::
    "c_real \<Rightarrow> string option \<Rightarrow> u64 \<Rightarrow> unity \<Rightarrow> unity outcome" where
  "TEST_ASSERT_DOUBLE_IS_NOT_DETERMINATE_MESSAGE actual message line =
     UNITY_TEST_ASSERT_DOUBLE_IS_NOT_DETERMINATE actual line message"

end
