(* ===== verification/Unity_Properties.thy ===== *)
theory Unity_Properties
  imports Unity_Control
begin

text \<open>
  The properties of the test framework: what numbers are printed as, when an assertion lets a test
  pass and what it reports when it does not, and what the counters and the result of a whole run
  say about the tests.
\<close>

section \<open>Numbers on the output\<close>

text \<open>C26. A signed number is printed as a text that reads back as it, the smallest negative number
  included, and nothing but the output changes.\<close>

theorem unity_print_number_roundtrip:
  "\<exists>s. UnityPrintNumber number u = u\<lparr>outchars := outchars u @ s\<rparr> \<and> read_int s = sint number"
  by (rule exI [of _ "show_int (sint number)"])
    (simp only: UnityPrintNumber_emits emit_def read_show_int simp_thms)

text \<open>The two loops that find the leading power of ten and print the digits give the same text
  as the recursive definition of the decimal representation.\<close>

lemma unity_print_unsigned_decimal:
  "UnityPrintNumberUnsigned number u = u\<lparr>outchars := outchars u @ show_nat (unat number)\<rparr>"
  by (simp only: UnityPrintNumberUnsigned_emits emit_def)

text \<open>The hexadecimal printer prints exactly the requested number of nibbles, at most 16, and
  they read back as the low bits of the number.\<close>

lemma unity_print_hex_roundtrip:
  "\<exists>s. UnityPrintNumberHex number k u = u\<lparr>outchars := outchars u @ s\<rparr>
     \<and> length s = min (unat k) 16 \<and> read_hex s = unat number mod 16 ^ min (unat k) 16"
  by (rule exI [of _ "hex_digits (min (unat k) 16) (unat number)"])
    (simp only: UnityPrintNumberHex_emits emit_def read_hex_digits length_hex_digits simp_thms)

text \<open>A length that is not smaller than the string makes \<open>UnityPrintLen\<close> print what
  \<open>UnityPrint\<close> does.\<close>

lemma unity_print_len_is_print:
  assumes "length t \<le> unat len"
  shows "UnityPrintLen (Some t) len u = UnityPrint (Some t) u"
proof -
  have "length (c_string t) \<le> unat len"
    using assms length_takeWhile_le [of _ t] by (rule order_trans [rotated])
  then show ?thesis
    by (simp add: UnityPrintLen_emits UnityPrint_emits)
qed


section \<open>Assertions\<close>

text \<open>The assertion that two integers are equal lets a running test go on when they are, and
  otherwise marks it as failed, prints file, line, test and both values, and leaves it; in a test
  that has failed or been ignored it only leaves.\<close>

lemma unity_equal_int_reports:
  "UnityAssertEqualIntNumber expected actual msg line st u =
     (if \<not> idle u then Jumps u
      else if expected = actual then Returns u
      else Jumps (u\<lparr>CurrentTestFailed := 1, outchars := outchars u
        @ opt_text (TestFile u) @ '':'' @ show_int (sint line) @ '':''
        @ opt_text (CurrentTestName u) @ '':FAIL: Expected '' @ int_text expected st
        @ '' Was '' @ int_text actual st @ msg_text msg u\<rparr>))"
  unfolding UnityAssertEqualIntNumber_run
  by (simp add: failed_def emit_def fail_text_def begin_text_def UnityStrExpected_def UnityStrWas_def)

text \<open>The assertions that a value is within a delta measure the distance of the two numbers as
  integers: no wrap-around makes distant values near or near values distant.\<close>

lemma unity_within_is_distance:
  assumes "idle u"
  shows "(UnityAssertIntNumbersWithin delta e a msg line st u = Returns u
      \<longleftrightarrow> \<bar>sint a - sint e\<bar> \<le> uint delta)
    \<and> (UnityAssertUintNumbersWithin delta e a msg line st u = Returns u
      \<longleftrightarrow> \<bar>uint a - uint e\<bar> \<le> uint delta)"
  using within_int.returns_iff [OF TrueI assms, of delta e a msg line st u]
    within_uint.returns_iff [OF TrueI assms, of delta e a msg line st u]
  by (simp only: simp_thms)


text \<open>The comparison assertions pass exactly when the actual value is in the relation to the
  threshold that the comparison names, for signed and unsigned numbers.\<close>

lemma unity_compare_is_order:
  assumes "idle u"
  shows "(UnityAssertIntGreaterOrLessOrEqualNumber t a c msg line st u = Returns u
      \<longleftrightarrow> compare_holds c (sint t) (sint a))
    \<and> (UnityAssertUintGreaterOrLessOrEqualNumber t a c msg line st u = Returns u
      \<longleftrightarrow> compare_holds c (uint t) (uint a))"
  using compare_int.returns_iff [OF TrueI assms, of t a c msg line st u]
    compare_uint.returns_iff [OF TrueI assms, of t a c msg line st u]
  by (simp only: simp_thms)


text \<open>The bits assertion compares all 64 bits under the mask, but its report shows only the low
  32: for a difference above them the test fails with a report in which both values look the same.\<close>

lemma unity_bits_report_is_cut:
  assumes "idle u" and "take_bit 32 e = take_bit 32 a" and "msk AND e \<noteq> msk AND a"
  shows "\<exists>t. length t = 32 \<and> UnityAssertBits msk e a msg line u
    = Jumps (failed (fail_text line u @ '' Expected '' @ t @ '' Was '' @ t @ msg_text msg u) u)"
proof -
  have "bit e k = bit a k" if "k < 32" for k
    using assms(2) that by (metis bit_take_bit_iff)
  then have "mask_text k msk e = mask_text k msk a" if "k \<le> 32" for k
    using that by (induction k) auto
  moreover have "length (mask_text k m n) = k" for k m n
    by (induction k) auto
  ultimately show ?thesis
    using assms(1,3) by (simp add: UnityAssertBits_run UnityStrExpected_def UnityStrWas_def)
      (rule exI [of _ "mask_text 32 msk a"], simp)
qed

section \<open>Assertions on arrays, memory and strings\<close>

lemma int_array_elem_mapped: "mapped m p (elem_size st) \<Longrightarrow> int_array_elem m st p \<noteq> None"
  by (auto simp: int_array_elem_def elem_size_def load8_def load16_def load32_def load64_def Let_def
      split: if_splits)

lemma mapped_array_readable:
  assumes "mapped m e (expected_len flags st n)" and "unat e + expected_len flags st n \<le> 2 ^ 64"
    and "mapped m a (n * elem_size st)" and "unat a + n * elem_size st \<le> 2 ^ 64"
  shows "array_readable (int_array_elem m st) st flags e a n"
  unfolding array_readable_def
proof (intro allI impI conjI)
  fix i
  assume "i < n"
  then have fits: "i * elem_size st + elem_size st \<le> n * elem_size st"
    by (metis Suc_leI mult_Suc mult_le_mono1 add.commute)
  show "int_array_elem m st (expected_at flags st e i) \<noteq> None"
  proof (cases "flags = UNITY_ARRAY_TO_ARRAY")
    case True
    then show ?thesis
      unfolding expected_at_def if_P [OF True]
      using assms(1,2) True by (intro int_array_elem_mapped mapped_offset [of m e "n * elem_size st"] fits) simp_all
  next
    case False
    then show ?thesis
      using assms(1) by (intro int_array_elem_mapped) (simp add: expected_at_def expected_len_def)
  qed
  show "int_array_elem m st (actual_at st a i) \<noteq> None"
    unfolding actual_at_def
    by (intro int_array_elem_mapped mapped_offset [OF assms(3,4)] fits elem_size_pos)
qed

lemma int_array_flags:
  assumes "idle u" and "e \<noteq> a" and "e \<noteq> NULL" and "a \<noteq> NULL"
    and "mapped m e (expected_len flags st (unat n))" and "unat e + expected_len flags st (unat n) \<le> 2 ^ 64"
    and "mapped m a (unat n * elem_size st)" and "unat a + unat n * elem_size st \<le> 2 ^ 64"
  shows "if n \<noteq> 0 \<and> (\<forall>i < unat n * elem_size st.
        bytes m (e + of_nat (expected_byte flags st i)) = bytes m (a + of_nat i))
    then UnityAssertEqualIntArray m e a n msg line st flags u = Returns u
    else \<exists>s. UnityAssertEqualIntArray m e a n msg line st flags u = Jumps (failed s u)"
proof -
  have r: "array_readable (int_array_elem m st) st flags e a (unat n)"
    using assms(5-8) by (rule mapped_array_readable)
  then have "array_ready e a (array_readable (int_array_elem m st) st flags e a (unat n))"
    by (simp add: array_ready_def)
  from equal_int_array.passes [OF assms(1) this, of msg line] equal_int_array.fails [OF assms(1) this, of msg line]
  show ?thesis
    using assms(2-4) by (auto simp: array_holds_def int_arrays_equal_iff_bytes [OF r])
qed

lemma int_array_bytes:
  assumes "idle u" and "n \<noteq> 0" and "e \<noteq> a" and "e \<noteq> NULL" and "a \<noteq> NULL"
    and "mapped m e (unat n * elem_size st)" and "unat e + unat n * elem_size st \<le> 2 ^ 64"
    and "mapped m a (unat n * elem_size st)" and "unat a + unat n * elem_size st \<le> 2 ^ 64"
  shows "if \<forall>i < unat n * elem_size st. bytes m (e + of_nat i) = bytes m (a + of_nat i)
    then UnityAssertEqualIntArray m e a n msg line st UNITY_ARRAY_TO_ARRAY u = Returns u
    else \<exists>s. UnityAssertEqualIntArray m e a n msg line st UNITY_ARRAY_TO_ARRAY u
      = Jumps (failed s u)"
  using int_array_flags [of u e a m UNITY_ARRAY_TO_ARRAY st n msg line] assms by simp

text \<open>C28. The array assertion on two different readable ranges passes exactly when there is an element
  to compare and every byte of the actual array is the byte of the same place in the expected one,
  or, with the flag for a single value, of the one expected element.  This holds in every display style:
  neither the sign extension of the elements nor the masks of the unsigned styles changes what is
  equal.  Without elements the assertion fails.\<close>

theorem unity_int_array_compares_bytes:
  assumes "idle u" and "e \<noteq> a" and "e \<noteq> NULL" and "a \<noteq> NULL"
    and "mapped m e (expected_len flags st (unat n))" and "unat e + expected_len flags st (unat n) \<le> 2 ^ 64"
    and "mapped m a (unat n * elem_size st)" and "unat a + unat n * elem_size st \<le> 2 ^ 64"
  shows "if n \<noteq> 0 \<and> (\<forall>i < unat n * elem_size st.
        bytes m (e + of_nat (expected_byte flags st i)) = bytes m (a + of_nat i))
    then UnityAssertEqualIntArray m e a n msg line st flags u = Returns u
    else \<exists>s. UnityAssertEqualIntArray m e a n msg line st flags u = Jumps (failed s u)"
  using assms by (rule int_array_flags)

definition demo_mem :: cmem where
  "demo_mem = \<lparr>bytes = (\<lambda>a. if a = 0x1003 then 9 else 7), regions = [(0x1000, 8)]\<rparr>"

lemma unity_int_array_compares_bytes_witness:
  "\<exists>s. UnityAssertEqualIntArray demo_mem 0x1000 0x1002 2 None 7 UNITY_DISPLAY_STYLE_UINT8
     UNITY_ARRAY_TO_ARRAY fresh_unity = Jumps (failed s fresh_unity)"
proof -
  have sz: "elem_size UNITY_DISPLAY_STYLE_UINT8 = 1"
    by (simp add: elem_size_def style_defs)
  have "\<not> (\<forall>i < 2. bytes demo_mem (0x1000 + of_nat i) = bytes demo_mem (0x1002 + of_nat i))"
    by (auto simp: demo_mem_def intro!: exI [of _ 1])
  moreover have "mapped demo_mem 0x1000 2" and "mapped demo_mem 0x1002 2"
    by (simp_all add: demo_mem_def mapped_def)
  ultimately show ?thesis
    using unity_int_array_compares_bytes [where u = fresh_unity and n = 2 and e = "0x1000"
        and a = "0x1002" and m = demo_mem and st = UNITY_DISPLAY_STYLE_UINT8 and msg = None
        and line = 7 and flags = UNITY_ARRAY_TO_ARRAY]
    by (simp add: sz)
qed

text \<open>The memory assertion passes exactly when the two ranges hold the same bytes.\<close>

lemma unity_memory_compares_bytes:
  assumes "idle u" and "n \<noteq> 0" and "len \<noteq> 0" and "e \<noteq> a" and "e \<noteq> NULL" and "a \<noteq> NULL"
    and "mapped m e (unat n * unat len)" and "unat e + unat n * unat len \<le> 2 ^ 64"
    and "mapped m a (unat n * unat len)" and "unat a + unat n * unat len \<le> 2 ^ 64"
  shows "if \<forall>i < unat n * unat len. bytes m (e + of_nat i) = bytes m (a + of_nat i)
    then UnityAssertEqualMemory m e a len n msg line UNITY_ARRAY_TO_ARRAY u = Returns u
    else \<exists>s. UnityAssertEqualMemory m e a len n msg line UNITY_ARRAY_TO_ARRAY u = Jumps (failed s u)"
proof -
  have pos: "0 < unat len"
    using assms(3) by (simp add: unat_gt_0)
  have byte: "mapped m (p + of_nat i) 1"
    if "mapped m p (unat n * unat len)" "unat p + unat n * unat len \<le> 2 ^ 64" "i < unat n * unat len"
    for p i
    using mapped_offset [OF that(1,2), of 1 i] that(3) by simp
  have "memory_ready m UNITY_ARRAY_TO_ARRAY e a len (unat n)"
    unfolding memory_ready_def memory_at_def
    using all_blocks [OF pos, where P = "\<lambda>i. mapped m (e + of_nat i) 1 \<and> mapped m (a + of_nat i) 1"]
      byte [OF assms(7,8)] byte [OF assms(9,10)]
    by (simp add: add.assoc)
  then have "array_ready e a (memory_ready m UNITY_ARRAY_TO_ARRAY e a len (unat n))"
    by (simp add: array_ready_def)
  from equal_memory.passes [OF assms(1) this, of msg line] equal_memory.fails [OF assms(1) this, of msg line]
  show ?thesis
    using assms(2-6) by (auto simp: array_holds_def memory_same_array [OF _ pos])
qed

lemma bytes_demo_mem:
  "bytes demo_mem (0x1000 + of_nat 0) = bytes demo_mem (0x1004 + of_nat 0)"
  "bytes demo_mem (0x1000 + of_nat 1) = bytes demo_mem (0x1004 + of_nat 1)"
  "bytes demo_mem (0x1000 + of_nat 2) = bytes demo_mem (0x1004 + of_nat 2)"
  by (simp_all add: demo_mem_def)

text \<open>The string assertion passes exactly when both pointers are null or both strings are the
  same; it always comes to an end, provided one of two strings is shorter than 4 GiB.\<close>

lemma unity_string_compares:
  assumes "idle u" and "strings_ready e a"
  shows "if e = a then UnityAssertEqualString e a msg line u = Returns u
    else \<exists>s. UnityAssertEqualString e a msg line u = Jumps (failed s u)"
  using equal_string.passes [OF assms] equal_string.fails [OF assms] by simp

section \<open>Runs\<close>

text \<open>C27. A test without set-up whose statements are assertions, each with the contract
  \<open>unity_assertion\<close> for its condition, is counted as passed exactly when every condition holds; when one
  does not, the failure counter, and no other, goes up by one, and the next test starts with clear
  flags.\<close>

theorem unity_test_verdict:
  assumes "\<forall>(h, c) \<in> set hcs. unity_assertion True h c" and "idle u"
  shows "\<exists>u'. UnityDefaultTestRun Returns Returns (all_checks (map snd hcs)) name line (w, u)
      = Some (w, u')
    \<and> NumberOfTests u' = NumberOfTests u + 1
    \<and> TestFailures u' = TestFailures u + of_bool (\<exists>(h, c) \<in> set hcs. \<not> h)
    \<and> TestIgnores u' = TestIgnores u \<and> idle u'"
proof (rule checks_test_body [OF assms, of name line w])
  fix u'
  assume "test_body Returns Returns (all_checks (map snd hcs)) name line (w, u) = Some (w, u')"
    and "verdict_of u' = (if \<forall>(h, c) \<in> set hcs. h then Passed else Failed)"
    and "NumberOfTests u' = NumberOfTests u + 1" and "TestFailures u' = TestFailures u"
    and "TestIgnores u' = TestIgnores u"
  then show ?thesis
    by (auto simp: UnityDefaultTestRun_body UnityConcludeTest_counts split: if_splits)
qed

lemma unity_test_verdict_witness:
  "\<exists>u'. UnityDefaultTestRun Returns Returns
      (all_checks [TEST_ASSERT_EQUAL_INT 1 1 5, TEST_ASSERT_EQUAL_INT 1 2 6]) ''t'' 4 ((), fresh_unity)
      = Some ((), u') \<and> TestFailures u' = 1"
  using unity_test_verdict [of "[(True, TEST_ASSERT_EQUAL_INT 1 1 5), (False, TEST_ASSERT_EQUAL_INT 1 2 6)]"
      fresh_unity "''t''" 4 "()"]
    assert_equal_int.unity_assertion_axioms [of 1 1 5]
    assert_equal_int.unity_assertion_axioms [of 1 2 6]
  by (auto simp: TestFailures_fresh)

text \<open>C40. A run of tests that leave the counters alone ends, counts every test, and its result is
  the number of failed tests: 0 exactly when none has failed, as long as there are fewer than
  \<open>2 ^ 32\<close> tests.\<close>

theorem unity_suite_result:
  assumes "well_mannered setUp" and "well_mannered tearDown"
    and "\<forall>t \<in> set ts. well_mannered (fst t)" and "length ts < 2 ^ 32"
  shows "\<exists>w' u'. run_tests setUp tearDown ts (w, UnityBegin file u) = Some (w', u')
    \<and> unat (NumberOfTests u') = length ts
    \<and> unat (fst (UnityEnd u'))
        = count_list (verdicts setUp tearDown ts (w, UnityBegin file u)) Failed
    \<and> (fst (UnityEnd u') = 0 \<longleftrightarrow> Failed \<notin> set (verdicts setUp tearDown ts (w, UnityBegin file u)))"
proof -
  let ?v = "verdicts setUp tearDown ts (w, UnityBegin file u)"
  have b: "idle (UnityBegin file u)" "NumberOfTests (UnityBegin file u) = 0"
      "TestFailures (UnityBegin file u) = 0"
    by (simp_all add: UnityBegin_def UNITY_CLR_DETAILS_def idle_def)
  from run_tests_counts [OF assms(1-3) b(1), of w]
  obtain w' u' where u': "run_tests setUp tearDown ts (w, UnityBegin file u) = Some (w', u')"
      "NumberOfTests u' = of_nat (length ts)" "TestFailures u' = of_nat (count_list ?v Failed)"
      "length ?v = length ts"
    using b by auto
  have c: "count_list ?v Failed < 2 ^ 32"
    using count_le_length [of ?v Failed] u'(4) assms(4) by simp
  have e: "fst (UnityEnd u') = of_nat (count_list ?v Failed)"
    using u'(3) c by (simp add: UnityEnd_def emits Let_def UnityPrint_emits word_unat_eq_iff
        unsigned_ucast_eq unat_of_nat take_bit_nat_eq_self)
  have f: "unat (fst (UnityEnd u')) = count_list ?v Failed"
    unfolding e using c by (simp add: unat_of_nat)
  have z: "fst (UnityEnd u') = 0 \<longleftrightarrow> Failed \<notin> set ?v"
    using f by (simp add: word_unat_eq_iff count_list_0_iff)
  show ?thesis
    using u'(1,2) f z assms(4) by (simp add: unat_of_nat)
qed

lemma well_mannered_Returns [simp]: "well_mannered Returns"
  by (simp add: well_mannered_def)

lemma unity_suite_result_witness:
  "\<exists>w' u'. run_tests Returns Returns [(Returns, ''t'', 4)] ((), UnityBegin (Some ''t.c'') fresh_unity)
      = Some (w', u') \<and> fst (UnityEnd u') = 0"
  using unity_suite_result [of Returns Returns "[(Returns, ''t'', 4)]" "()" "Some ''t.c''" fresh_unity]
  by (auto simp: test_body_def TEST_PROTECT_def UNITY_CLR_DETAILS_def UnityBegin_def verdict_of_def)

end
