(* ===== verification/Unity_Float_Properties.thy ===== *)
theory Unity_Float_Properties
  imports Unity_Float_Correct Unity_Float_Macros Unity_Properties
begin

text \<open>
  The properties of the floating-point part: what a number is printed as, and when the assertions on
  \<open>float\<close> and \<open>double\<close> let a test pass.
\<close>

section \<open>Numbers on the output\<close>

text \<open>C36. For every representation of a \<open>float\<close> and of a \<open>double\<close> the loops of \<open>UnityPrintFloat\<close> end
  without overflow of an integer or of the buffer, nothing but the output changes, and the text reads
  back as the number with a relative error of at most \<open>10 ^ -6\<close> and \<open>10 ^ -8\<close>; infinities and NaN are
  named.\<close>

theorem unity_print_float_reads:
  "(\<exists>t. UnityPrintFloat C_float (float_of_bits w) u = Some (u\<lparr>outchars := outchars u @ t\<rparr>)
      \<and> text_of_real C_float (float_of_bits w) t)
   \<and> (\<exists>t. UnityPrintFloat C_double (double_of_bits w') u = Some (u\<lparr>outchars := outchars u @ t\<rparr>)
      \<and> text_of_real C_double (double_of_bits w') t)"
  using print_float_text_of_real [OF float_of_bits_value, of w]
    print_float_text_of_real [OF double_of_bits_value, of w']
  unfolding emit_def by blast

text \<open>C37. A whole number below \<open>max_scaled\<close>, ten million for \<open>float\<close>, is printed digit for digit as
  \<open>UnityPrintNumber\<close> prints it: without point, exponent or rounding.\<close>

theorem unity_print_float_whole:
  assumes "\<bar>n\<bar> < max_scaled d"
  shows "UnityPrintFloat d (c_of_int d n) u = Some (UnityPrintNumber (word_of_int n) u)"
proof -
  have "c_of_int d n = Fin (of_int n)" using assms by (intro c_of_int_small) (simp add: max_scaled_eq)
  moreover have "\<bar>n\<bar> < 10 ^ 9" using assms by (cases d) simp_all
  then have "sint (word_of_int n :: u64) = n"
    by (intro signed_take_bit_int_eq_self [THEN trans [OF sint_sbintrunc']]) auto
  ultimately show ?thesis using print_float_int [OF assms] by (simp add: emits)
qed

theorem unity_print_float_whole_witness:
  "UnityPrintFloat C_float (c_of_int C_float (- 120)) fresh_unity
     = Some (UnityPrintNumber (word_of_int (- 120)) fresh_unity)"
  by (rule unity_print_float_whole) simp

section \<open>Assertions\<close>

lemma c_convert_value: "real_value f v \<Longrightarrow> c_convert f v = v"
  by (cases v) (simp_all add: round_real_exact del: real_value.simps)

text \<open>C38. \<open>TEST_ASSERT_FLOAT_WITHIN\<close> passes when the exact distance of two numbers is not above the
  delta, and fails when it is above by more than the rounding of one subtraction; it decides so for
  all finite numbers, subnormal ones and the largest included.\<close>

theorem unity_float_within:
  assumes "idle u" and "real_value C_float (Fin delta)" and "real_value C_float (Fin e)" and "real_value C_float (Fin a)"
  shows "(\<bar>a - e\<bar> \<le> \<bar>delta\<bar> \<longrightarrow> TEST_ASSERT_FLOAT_WITHIN d (Fin delta) (Fin e) (Fin a) line u = Returns u)
    \<and> (\<bar>delta\<bar> < \<bar>a - e\<bar> * (1 - 1 / 2 ^ 24) \<longrightarrow>
       (\<exists>s. TEST_ASSERT_FLOAT_WITHIN d (Fin delta) (Fin e) (Fin a) line u
          = Jumps (u\<lparr>outchars := outchars u @ s, CurrentTestFailed := 1\<rparr>)))"
proof -
  have eq: "TEST_ASSERT_FLOAT_WITHIN d (Fin delta) (Fin e) (Fin a) line
      = UnityAssertRealsWithin C_float d (Fin delta) (Fin e) (Fin a) None line"
    unfolding TEST_ASSERT_FLOAT_WITHIN_def UNITY_TEST_ASSERT_FLOAT_WITHIN_def UnityAssertFloatsWithin_def
      c_convert_value [OF assms(2)] c_convert_value [OF assms(3)] c_convert_value [OF assms(4)] ..
  have "printable d (Fin e) (Fin a)"
    using assms(3,4) real_value_widen by (cases d) (auto simp: printable_def simp del: real_value.simps)
  note run = within_real.passes [OF assms(1) this] within_real.fails [OF assms(1) this]
  have unit: "unit_error C_float = 1 / 2 ^ 24" by (simp add: unit_error_def power_int_minus)
  show ?thesis
    unfolding eq using run within_complete [OF assms(2)] within_sound [OF assms(3,4)]
    by (simp add: unit failed_def emit_def) (metis not_less)
qed

theorem unity_float_within_witness:
  "TEST_ASSERT_FLOAT_WITHIN C_float (Fin 1) (Fin 3) (Fin 4) 7 fresh_unity = Returns fresh_unity"
  using unity_float_within [of fresh_unity 1 3 4 C_float 7] real_value_int [of 1 C_float]
    real_value_int [of 3 C_float] real_value_int [of 4 C_float]
  by (simp add: idle_def fresh_unity_def)

text \<open>C39. A delta that is not a number lets \<open>TEST_ASSERT_FLOAT_WITHIN\<close> pass for any two numbers, unless
  their difference overflows to an infinity, while the assertion on arrays fails with such a delta.\<close>

theorem unity_float_nan_delta:
  assumes "idle u" and "real_value C_float (Fin e)" and "real_value C_float (Fin a)"
  shows "(case c_sub C_float (Fin a) (Fin e) of
      Fin x \<Rightarrow> TEST_ASSERT_FLOAT_WITHIN d NaN (Fin e) (Fin a) line u = Returns u
    | _ \<Rightarrow> \<exists>s. TEST_ASSERT_FLOAT_WITHIN d NaN (Fin e) (Fin a) line u = Jumps (failed s u))
    \<and> (\<exists>s. TEST_ASSERT_FLOAT_ARRAY_WITHIN d m NaN p q n line u = Jumps (failed s u))"
proof
  have "printable d (Fin e) (Fin a)"
    using assms(2,3) real_value_widen by (cases d) (auto simp: printable_def simp del: real_value.simps)
  note run = within_real.passes [OF assms(1) this] within_real.fails [OF assms(1) this]
  have conv: "c_convert C_float NaN = NaN" by simp
  have macro: "TEST_ASSERT_FLOAT_WITHIN d NaN (Fin e) (Fin a) line u
      = UnityAssertRealsWithin C_float d NaN (Fin e) (Fin a) None line u"
    unfolding TEST_ASSERT_FLOAT_WITHIN_def UNITY_TEST_ASSERT_FLOAT_WITHIN_def UnityAssertFloatsWithin_def
      c_convert_value [OF assms(2)] c_convert_value [OF assms(3)] conv ..
  show "case c_sub C_float (Fin a) (Fin e) of
      Fin x \<Rightarrow> TEST_ASSERT_FLOAT_WITHIN d NaN (Fin e) (Fin a) line u = Returns u
    | _ \<Rightarrow> \<exists>s. TEST_ASSERT_FLOAT_WITHIN d NaN (Fin e) (Fin a) line u = Jumps (failed s u)"
  proof (cases "c_sub C_float (Fin a) (Fin e)")
    case (Fin x)
    then have "real_within C_float NaN (Fin e) (Fin a)"
      by (simp add: UNITY_FLOAT_OR_DOUBLE_WITHIN_def Let_def)
    then show ?thesis unfolding macro Fin c_real.case by (rule run(1))
  next
    case (Inf s)
    then have "\<not> real_within C_float NaN (Fin e) (Fin a)"
      by (simp add: UNITY_FLOAT_OR_DOUBLE_WITHIN_def Let_def)
    then show ?thesis unfolding macro Inf c_real.case by (rule run(2))
  next
    case NaN
    then have "\<not> real_within C_float NaN (Fin e) (Fin a)"
      by (simp add: UNITY_FLOAT_OR_DOUBLE_WITHIN_def Let_def)
    then show ?thesis unfolding macro NaN c_real.case by (rule run(2))
  qed
  have "real_array_ready C_float m NaN p q (ucast n) UNITY_ARRAY_TO_ARRAY"
    "\<not> real_array_holds C_float m NaN p q (ucast n) UNITY_ARRAY_TO_ARRAY"
    by (simp_all add: real_array_ready_def real_array_holds_def)
  from float_array.fails [OF assms(1) this]
  show "\<exists>s. TEST_ASSERT_FLOAT_ARRAY_WITHIN d m NaN p q n line u = Jumps (failed s u)"
    by (simp add: TEST_ASSERT_FLOAT_ARRAY_WITHIN_def UNITY_TEST_ASSERT_FLOAT_ARRAY_WITHIN_def)
qed

theorem unity_float_nan_delta_witness:
  "TEST_ASSERT_FLOAT_WITHIN C_float NaN (Fin 3) (Fin 4000) 7 fresh_unity = Returns fresh_unity"
proof -
  have "c_sub C_float (Fin 4000) (Fin 3) = Fin 3997" by code_simp
  then show ?thesis
    using unity_float_nan_delta [of fresh_unity 3 4000 C_float 7] real_value_int [of 3 C_float]
      real_value_int [of 4000 C_float] by simp
qed

text \<open>Every value is equal to itself, infinities and NaN included.\<close>

lemma real_within_same: "real_within f delta v v" if "real_value f v" and "real_value f delta"
proof (cases v)
  case (Fin x)
  show ?thesis using that within_complete [of f _ x x] Fin
    by (cases delta) (auto simp: UNITY_FLOAT_OR_DOUBLE_WITHIN_def c_sub_def Let_def)
qed (simp_all add: within_nan within_inf)

text \<open>When \<open>UnityAssertWithinFloatArray\<close> returns.\<close>

lemma unity_float_array_returns:
  assumes "idle u" and "real_array_ready C_float m delta e a n flags"
  shows "UnityAssertWithinFloatArray d m delta e a n msg line flags u = Returns u'
    \<longleftrightarrow> real_array_holds C_float m delta e a n flags \<and> u' = u"
  using assms(2,1) by (rule float_array.returns_iff)

text \<open>Equality and order of \<open>float\<close> values, up to the precision.\<close>

lemma unity_float_compare_returns:
  assumes "idle u" and "printable d t a"
  shows "UnityAssertGreaterOrLessFloat d t a cmp msg line u = Returns u' \<longleftrightarrow> real_compare C_float cmp t a \<and> u' = u"
  unfolding UnityAssertGreaterOrLessFloat_def using assms(2,1) by (rule compare_real.returns_iff)

lemma unity_float_special_returns:
  assumes "idle u" and "real_value d a"
  shows "UnityAssertFloatSpecial d a msg line st u = Returns u' \<longleftrightarrow> has_trait st a \<and> u' = u"
  unfolding UnityAssertFloatSpecial_def using assms(2,1) by (rule special_real.returns_iff)

text \<open>The number stored by \<open>UnityFloatToPtr\<close> is the one that is compared.\<close>

lemma bit_byte32:
  "bit (push_bit k (ucast (ucast (drop_bit k v) :: u8)) :: u32) n \<longleftrightarrow> k \<le> n \<and> n < k + 8 \<and> bit (v :: u32) n"
  "bit (ucast (ucast v :: u8) :: u32) n \<longleftrightarrow> n < 8 \<and> bit (v :: u32) n"
  by (auto simp: bit_simps not_le dest: bit_imp_le_length)

lemma put32_bytes:
  "put32 f a v a = ucast v" "put32 f a v (a + 1) = ucast (drop_bit 8 v)"
  "put32 f a v (a + 2) = ucast (drop_bit 16 v)" "put32 f a v (a + 3) = ucast (drop_bit 24 v)"
  by (simp_all add: put32_def)

lemma get32_put32_same: "get32 (put32 f a v) a = v"
  unfolding get32_def put32_bytes
  by (rule bit_word_eqI) (simp only: bit_or_iff bit_byte32, auto)

lemma UnityFloatToPtr_load:
  assumes "UnityFloatToPtr q m w = Some (m', p)"
  shows "load_real C_float m' p = Some (float_of_bits w)"
  using assms by (auto simp: UnityFloatToPtr_def load32_def store32_def get32_put32_same mapped_def split: if_splits)

end
