(* ===== verification/Extents.thy ===== *)
theory Extents
  imports P2_Prelude
begin

text \<open>
  Extents: the byte ranges a memory manager owns, as a multiset of (address, length) pairs.
  \<open>disj\<close> says that no byte lies in two of them.  Moving a block between the free lists and the
  live allocations leaves the multiset as it is, so it leaves disjointness as it is.
\<close>

type_synonym extent = "addr \<times> nat"

definition espan :: "extent \<Rightarrow> nat set" where
  "espan c = span_of (fst c) (snd c)"

lemma espan_pair [simp]: "espan (a, n) = span_of a n"
  by (simp add: espan_def)

lemma finite_espan [simp]: "finite (espan c)"
  by (simp add: espan_def)

lemma card_espan [simp]: "card (espan c) = snd c"
  by (simp add: espan_def)

text \<open>How many extents of \<open>M\<close> hold the byte \<open>b\<close>.\<close>

definition cover :: "nat \<Rightarrow> extent multiset \<Rightarrow> nat" where
  "cover b M = size (filter_mset (\<lambda>c. b \<in> espan c) M)"

definition disj :: "extent multiset \<Rightarrow> bool" where
  "disj M \<longleftrightarrow> (\<forall>b. cover b M \<le> 1)"

lemma cover_empty [simp]: "cover b {#} = 0"
  by (simp add: cover_def)

lemma cover_add_mset [simp]:
  "cover b (add_mset c M) = (if b \<in> espan c then 1 else 0) + cover b M"
  by (simp add: cover_def)

lemma cover_union [simp]: "cover b (M + N) = cover b M + cover b N"
  by (simp add: cover_def)

lemma cover_0_iff: "cover b M = 0 \<longleftrightarrow> (\<forall>c \<in># M. b \<notin> espan c)"
  by (auto simp: cover_def filter_mset_eq_mempty_iff)

lemma disj_empty [simp]: "disj {#}"
  by (simp add: disj_def)

lemma disj_add_mset:
  "disj (add_mset c M) \<longleftrightarrow> disj M \<and> (\<forall>d \<in># M. espan c \<inter> espan d = {})"
proof
  assume *: "disj (add_mset c M)"
  have 1: "cover b M \<le> 1" for b
    using * by (auto simp: disj_def split: if_splits elim!: allE [of _ b])
  have 2: "cover b M = 0" if "b \<in> espan c" for b
    using * that by (auto simp: disj_def elim!: allE [of _ b])
  show "disj M \<and> (\<forall>d \<in># M. espan c \<inter> espan d = {})"
    using 1 2 by (auto simp: disj_def cover_0_iff)
next
  assume *: "disj M \<and> (\<forall>d \<in># M. espan c \<inter> espan d = {})"
  then have "cover b M = 0" if "b \<in> espan c" for b
    using that by (auto simp: cover_0_iff)
  with * show "disj (add_mset c M)" by (auto simp: disj_def)
qed

lemma disj_union:
  "disj (M + N) \<longleftrightarrow>
     disj M \<and> disj N \<and> (\<forall>c \<in># M. \<forall>d \<in># N. espan c \<inter> espan d = {})"
  by (induction M) (auto simp: disj_add_mset)

lemma disj_subset: "disj N \<Longrightarrow> M \<subseteq># N \<Longrightarrow> disj M"
  by (metis disj_union subset_mset.add_diff_inverse)

text \<open>Two different occurrences are disjoint; with bytes in them, they start apart.\<close>

lemma disj_pair:
  assumes "disj M" and "{#c, d#} \<subseteq># M"
  shows "espan c \<inter> espan d = {}"
  using disj_subset [OF assms] by (simp add: disj_add_mset)

lemma pair_subset_mset: "c \<in># M \<Longrightarrow> d \<in># M \<Longrightarrow> c \<noteq> d \<Longrightarrow> {#c, d#} \<subseteq># M"
  by (simp add: insert_subset_eq_iff in_diff_count)

lemma disj_members:
  "disj M \<Longrightarrow> c \<in># M \<Longrightarrow> d \<in># M \<Longrightarrow> c \<noteq> d \<Longrightarrow> espan c \<inter> espan d = {}"
  by (rule disj_pair [OF _ pair_subset_mset])

lemma disj_minus: "disj M \<Longrightarrow> disj (M - N)"
  by (rule disj_subset) auto

text \<open>The owner of a byte is unique, so a multiset of disjoint nonempty extents has no repeats.\<close>

lemma disj_owner:
  "disj M \<Longrightarrow> c \<in># M \<Longrightarrow> d \<in># M \<Longrightarrow> b \<in> espan c \<Longrightarrow> b \<in> espan d \<Longrightarrow> c = d"
  using disj_members by blast

lemma disj_count_le_1:
  assumes "disj M" and "0 < snd c"
  shows "count M c \<le> 1"
proof (rule ccontr)
  assume "\<not> ?thesis"
  then have "{#c, c#} \<subseteq># M" by (cases c) (auto simp: subseteq_mset_def)
  then have "espan c \<inter> espan c = {}" by (rule disj_pair [OF assms(1)])
  with assms(2) show False by (simp add: espan_def span_of_def)
qed

text \<open>No other nonempty extent starts where one does.\<close>

lemma disj_new_start:
  assumes "disj (add_mset (a, n) M)" and "0 < n" and "\<And>c. c \<in># M \<Longrightarrow> 0 < snd c"
  shows "a \<notin> fst ` set_mset M"
proof
  assume "a \<in> fst ` set_mset M"
  then obtain c where c: "c \<in># M" "a = fst c" by auto
  then have "unat a \<in> espan c" and "unat a \<in> espan (a, n)"
    using assms(2,3) by (auto simp: espan_def)
  with assms(1) c(1) show False unfolding disj_add_mset by blast
qed

text \<open>A shorter prefix of each extent is disjoint too.\<close>

lemma disj_image_shrink:
  assumes "disj (image_mset f M)" and "\<And>x. x \<in># M \<Longrightarrow> espan (g x) \<subseteq> espan (f x)"
  shows "disj (image_mset g M)"
  using assms
proof (induction M)
  case empty
  then show ?case by simp
next
  case (add x M)
  then have "disj (image_mset g M)" by (auto simp: disj_add_mset)
  with add.prems show ?case by (fastforce simp: disj_add_mset)
qed

section \<open>The bytes owned, in total\<close>

definition total :: "extent multiset \<Rightarrow> nat" where
  "total M = (\<Sum>c \<in># M. snd c)"

lemma total_simps [simp]:
  "total {#} = 0"
  "total (add_mset c M) = snd c + total M"
  "total (M + N) = total M + total N"
  by (simp_all add: total_def)

definition eset :: "extent multiset \<Rightarrow> nat set" where
  "eset M = (\<Union>c \<in> set_mset M. espan c)"

lemma eset_simps [simp]:
  "eset {#} = {}"
  "eset (add_mset c M) = espan c \<union> eset M"
  "eset (M + N) = eset M \<union> eset N"
  by (auto simp: eset_def)

lemma finite_eset [simp]: "finite (eset M)"
  by (induction M) auto

lemma mem_eset: "b \<in> eset M \<longleftrightarrow> (\<exists>c \<in># M. b \<in> espan c)"
  by (auto simp: eset_def)

lemma disj_add_mset_eset: "disj (add_mset c M) \<longleftrightarrow> disj M \<and> espan c \<inter> eset M = {}"
  unfolding disj_add_mset eset_def by blast

lemma disj_union_eset: "disj (M + N) \<longleftrightarrow> disj M \<and> disj N \<and> eset M \<inter> eset N = {}"
  unfolding disj_union eset_def by blast

lemma disj_card_eset: "disj M \<Longrightarrow> card (eset M) = total M"
proof (induction M)
  case empty
  then show ?case by simp
next
  case (add c M)
  then have "espan c \<inter> eset M = {}" and "disj M" by (auto simp: disj_add_mset eset_def)
  with add.IH show ?case by (simp add: card_Un_disjoint)
qed

text \<open>Disjoint extents that stay inside the address space own at most all of it.\<close>

lemma total_bound:
  assumes "disj M" and "\<And>c. c \<in># M \<Longrightarrow> unat (fst c) + snd c \<le> N"
  shows "total M \<le> N"
proof -
  have "eset M \<subseteq> {..<N}"
  proof
    fix b assume "b \<in> eset M"
    then obtain c where "c \<in># M" and "b \<in> espan c" by (auto simp: mem_eset)
    with assms(2) [of c] show "b \<in> {..<N}" by (auto simp: espan_def)
  qed
  then have "card (eset M) \<le> N" using card_mono [of "{..<N}" "eset M"] by simp
  then show ?thesis using disj_card_eset [OF assms(1)] by simp
qed

end
