(* ===== verification/Ps_List.thy ===== *)
theory Ps_List
  imports C_Memory Extents
begin

text \<open>
  The intrusive circular doubly-linked list of ps_list.h.  A \<open>struct ps_list\<close> is sixteen bytes of
  memory, \<open>next\<close> at offset 0 and \<open>previous\<close> at offset 8; a \<open>struct ps_list_head\<close> holds one as its
  first member.  The functions come first, then the macros, which take the offset \<open>off\<close> of the
  list field in the containing structure.  The abstraction \<open>dll m h xs\<close> says that the ring at the
  sentinel \<open>h\<close> holds exactly the nodes \<open>xs\<close>, in this order.
\<close>

section \<open>The two fields\<close>

definition ps_list_next_field :: "cmem \<Rightarrow> addr \<Rightarrow> addr option" where
  "ps_list_next_field m l = load64 m l"

definition ps_list_previous_field :: "cmem \<Rightarrow> addr \<Rightarrow> addr option" where
  "ps_list_previous_field m l = load64 m (l + 8)"

definition ps_list_set_next :: "cmem \<Rightarrow> addr \<Rightarrow> addr \<Rightarrow> cmem option" where
  "ps_list_set_next m l v = store64 m l v"

definition ps_list_set_previous :: "cmem \<Rightarrow> addr \<Rightarrow> addr \<Rightarrow> cmem option" where
  "ps_list_set_previous m l v = store64 m (l + 8) v"

section \<open>The inline functions\<close>

definition ps_list_ll_init :: "cmem \<Rightarrow> addr \<Rightarrow> cmem option" where
  "ps_list_ll_init m list = do {
     m \<leftarrow> ps_list_set_previous m list list;
     ps_list_set_next m list list
   }"

definition ps_list_head_init :: "cmem \<Rightarrow> addr \<Rightarrow> cmem option" where
  "ps_list_head_init m list_head = ps_list_ll_init m list_head"

definition ps_list_ll_empty :: "cmem \<Rightarrow> addr \<Rightarrow> bool option" where
  "ps_list_ll_empty m list = do {
     n \<leftarrow> ps_list_next_field m list;
     Some (n = list)
   }"

definition ps_list_head_empty :: "cmem \<Rightarrow> addr \<Rightarrow> bool option" where
  "ps_list_head_empty m list_head = ps_list_ll_empty m list_head"

definition ps_list_ll_add :: "cmem \<Rightarrow> addr \<Rightarrow> addr \<Rightarrow> cmem option" where
  "ps_list_ll_add m list new_node = do {
     n \<leftarrow> ps_list_next_field m list;
     m \<leftarrow> ps_list_set_next m new_node n;
     m \<leftarrow> ps_list_set_previous m new_node list;
     m \<leftarrow> ps_list_set_next m list new_node;
     n \<leftarrow> ps_list_next_field m new_node;
     ps_list_set_previous m n new_node
   }"

definition ps_list_ll_rem :: "cmem \<Rightarrow> addr \<Rightarrow> cmem option" where
  "ps_list_ll_rem m list = do {
     n \<leftarrow> ps_list_next_field m list;
     p \<leftarrow> ps_list_previous_field m list;
     m \<leftarrow> ps_list_set_previous m n p;
     p \<leftarrow> ps_list_previous_field m list;
     n \<leftarrow> ps_list_next_field m list;
     m \<leftarrow> ps_list_set_next m p n;
     m \<leftarrow> ps_list_set_next m list list;
     ps_list_set_previous m list list
   }"

section \<open>The macros\<close>

definition ps_container :: "addr \<Rightarrow> addr \<Rightarrow> addr" where
  "ps_container intern off = intern - off"

definition ps_list_is_head :: "addr \<Rightarrow> addr \<Rightarrow> addr \<Rightarrow> bool" where
  "ps_list_is_head list_head obj off = (ps_container list_head off = obj)"

definition ps_list_singleton :: "cmem \<Rightarrow> addr \<Rightarrow> addr \<Rightarrow> bool option" where
  "ps_list_singleton m obj off = ps_list_ll_empty m (obj + off)"

definition ps_list_init :: "cmem \<Rightarrow> addr \<Rightarrow> addr \<Rightarrow> cmem option" where
  "ps_list_init m obj off = ps_list_ll_init m (obj + off)"

definition ps_list_next :: "cmem \<Rightarrow> addr \<Rightarrow> addr \<Rightarrow> addr option" where
  "ps_list_next m obj off = do {
     n \<leftarrow> ps_list_next_field m (obj + off);
     Some (ps_container n off)
   }"

definition ps_list_prev :: "cmem \<Rightarrow> addr \<Rightarrow> addr \<Rightarrow> addr option" where
  "ps_list_prev m obj off = do {
     p \<leftarrow> ps_list_previous_field m (obj + off);
     Some (ps_container p off)
   }"

definition ps_list_add :: "cmem \<Rightarrow> addr \<Rightarrow> addr \<Rightarrow> addr \<Rightarrow> cmem option" where
  "ps_list_add m obj n off = ps_list_ll_add m (obj + off) (n + off)"

definition ps_list_append :: "cmem \<Rightarrow> addr \<Rightarrow> addr \<Rightarrow> addr \<Rightarrow> cmem option" where
  "ps_list_append m obj n off = do {
     p \<leftarrow> ps_list_prev m obj off;
     ps_list_add m p n off
   }"

definition ps_list_rem :: "cmem \<Rightarrow> addr \<Rightarrow> addr \<Rightarrow> cmem option" where
  "ps_list_rem m obj off = ps_list_ll_rem m (obj + off)"

definition ps_list_head_add :: "cmem \<Rightarrow> addr \<Rightarrow> addr \<Rightarrow> addr \<Rightarrow> cmem option" where
  "ps_list_head_add m list_head obj off = ps_list_ll_add m list_head (obj + off)"

definition ps_list_head_append :: "cmem \<Rightarrow> addr \<Rightarrow> addr \<Rightarrow> addr \<Rightarrow> cmem option" where
  "ps_list_head_append m list_head obj off = do {
     p \<leftarrow> ps_list_previous_field m list_head;
     ps_list_ll_add m p (obj + off)
   }"

definition ps_list_head_first :: "cmem \<Rightarrow> addr \<Rightarrow> addr \<Rightarrow> addr option" where
  "ps_list_head_first m list_head off = do {
     n \<leftarrow> ps_list_next_field m list_head;
     Some (ps_container n off)
   }"

definition ps_list_head_last :: "cmem \<Rightarrow> addr \<Rightarrow> addr \<Rightarrow> addr option" where
  "ps_list_head_last m list_head off = do {
     p \<leftarrow> ps_list_previous_field m list_head;
     Some (ps_container p off)
   }"

text \<open>
  The two iteration macros, over the loop body as a function of the memory, the iterator and the
  local variables \<open>acc\<close> of the caller.  A ring that never comes back to the sentinel is a loop
  that does not end: the result is then \<open>None\<close>.
\<close>

partial_function (option) ps_list_foreach_loop ::
    "addr \<Rightarrow> addr \<Rightarrow> (cmem \<Rightarrow> addr \<Rightarrow> 'a \<Rightarrow> (cmem \<times> 'a) option) \<Rightarrow>
     cmem \<Rightarrow> addr \<Rightarrow> 'a \<Rightarrow> (cmem \<times> 'a) option" where
  "ps_list_foreach_loop head off body m iter acc =
     (if ps_list_is_head head iter off then Some (m, acc)
      else do {
        (m, acc) \<leftarrow> body m iter acc;
        iter \<leftarrow> ps_list_next m iter off;
        ps_list_foreach_loop head off body m iter acc
      })"

declare ps_list_foreach_loop.simps [code]

definition ps_list_foreach ::
    "addr \<Rightarrow> addr \<Rightarrow> (cmem \<Rightarrow> addr \<Rightarrow> 'a \<Rightarrow> (cmem \<times> 'a) option) \<Rightarrow>
     cmem \<Rightarrow> 'a \<Rightarrow> (cmem \<times> 'a) option" where
  "ps_list_foreach head off body m acc = do {
     iter \<leftarrow> ps_list_head_first m head off;
     ps_list_foreach_loop head off body m iter acc
   }"

partial_function (option) ps_list_foreach_del_loop ::
    "addr \<Rightarrow> addr \<Rightarrow> (cmem \<Rightarrow> addr \<Rightarrow> 'a \<Rightarrow> (cmem \<times> 'a) option) \<Rightarrow>
     cmem \<Rightarrow> addr \<Rightarrow> addr \<Rightarrow> 'a \<Rightarrow> (cmem \<times> 'a) option" where
  "ps_list_foreach_del_loop head off body m iter tmp acc =
     (if ps_list_is_head head iter off then Some (m, acc)
      else do {
        (m, acc) \<leftarrow> body m iter acc;
        tmp' \<leftarrow> ps_list_next m tmp off;
        ps_list_foreach_del_loop head off body m tmp tmp' acc
      })"

declare ps_list_foreach_del_loop.simps [code]

definition ps_list_foreach_del ::
    "addr \<Rightarrow> addr \<Rightarrow> (cmem \<Rightarrow> addr \<Rightarrow> 'a \<Rightarrow> (cmem \<times> 'a) option) \<Rightarrow>
     cmem \<Rightarrow> 'a \<Rightarrow> (cmem \<times> 'a) option" where
  "ps_list_foreach_del head off body m acc = do {
     iter \<leftarrow> ps_list_head_first m head off;
     tmp \<leftarrow> ps_list_next m iter off;
     ps_list_foreach_del_loop head off body m iter tmp acc
   }"

section \<open>The ring of a list\<close>

text \<open>The neighbours in the ring: each node with its successor, the sentinel \<open>h\<close> at both ends.\<close>

definition links :: "'a \<Rightarrow> 'a list \<Rightarrow> ('a \<times> 'a) list" where
  "links h xs = zip (h # xs) (xs @ [h])"

definition linked_by :: "('a \<Rightarrow> 'a option) \<Rightarrow> ('a \<Rightarrow> 'a option) \<Rightarrow> 'a \<Rightarrow> 'a list \<Rightarrow> bool" where
  "linked_by nx pv h xs = (\<forall>(a, b) \<in> set (links h xs). nx a = Some b \<and> pv b = Some a)"

lemma links_fst: "map fst (links h xs) = h # xs"
  by (simp add: links_def)

lemma links_snd: "map snd (links h xs) = xs @ [h]"
  by (simp add: links_def)

lemma links_split:
  "links h (as @ bs) =
     zip (butlast (h # as)) as @ (last (h # as), hd (bs @ [h])) # zip bs (tl (bs @ [h]))"
proof -
  obtain r rs where r: "bs @ [h] = r # rs" by (cases "bs @ [h]") auto
  have "links h (as @ bs) = zip ((h # as) @ bs) (as @ bs @ [h])"
    by (simp add: links_def)
  also have "\<dots> = zip ((butlast (h # as) @ [last (h # as)]) @ bs) (as @ r # rs)"
    by (simp only: append_butlast_last_id [OF list.distinct(2)] r)
  also have "\<dots> = zip (butlast (h # as) @ (last (h # as) # bs)) (as @ r # rs)"
    by simp
  also have "\<dots> = zip (butlast (h # as)) as @ zip (last (h # as) # bs) (r # rs)"
    by (rule zip_append) simp
  finally show ?thesis by (simp add: r)
qed

lemma links_insert:
  "links h (as @ x # bs) =
     zip (butlast (h # as)) as @ (last (h # as), x) # (x, hd (bs @ [h])) # zip bs (tl (bs @ [h]))"
  using links_split [of h as "x # bs"] by (cases bs) auto

text \<open>Away from the joint between \<open>as\<close> and \<open>bs\<close> no pair starts at its left or ends at its right.\<close>

lemma links_rest:
  assumes "distinct (h # as @ bs)"
    and "(a, b) \<in> set (zip (butlast (h # as)) as) \<union> set (zip bs (tl (bs @ [h])))"
  shows "(a, b) \<in> set (links h (as @ bs))" and "a \<noteq> last (h # as)" and "b \<noteq> hd (bs @ [h])"
    and "a \<in> set (h # as @ bs)" and "b \<in> set (h # as @ bs)"
proof -
  let ?L = "zip (butlast (h # as)) as" and ?R = "zip bs (tl (bs @ [h]))"
  show mem: "(a, b) \<in> set (links h (as @ bs))"
    using assms(2) by (auto simp: links_split)
  have "distinct (map fst (links h (as @ bs)))" and "distinct (map snd (links h (as @ bs)))"
    using assms(1) by (simp_all only: links_fst links_snd) auto
  then show "a \<noteq> last (h # as)" and "b \<noteq> hd (bs @ [h])"
    using assms(2) unfolding links_split by (metis distinct_map_middle fst_conv snd_conv)+
  have "a \<in> fst ` set (links h (as @ bs))" and "b \<in> snd ` set (links h (as @ bs))"
    using mem by (force, force)
  then show "a \<in> set (h # as @ bs)" and "b \<in> set (h # as @ bs)"
    unfolding set_map [symmetric] links_fst links_snd by auto
qed

section \<open>The interface the list functions use\<close>

text \<open>
  \<open>field_store\<close> is what the list functions need of the memory: two pointer fields per node that
  can be read and written on a set \<open>S\<close> of nodes (\<open>ok m S\<close>), where a write changes that one field
  of that one node, and a frame \<open>fr S\<close> that bounds what the writes touch.
\<close>

locale field_store =
  fixes nx pv :: "'m \<Rightarrow> 'a \<Rightarrow> 'a option"
    and set_nx set_pv :: "'m \<Rightarrow> 'a \<Rightarrow> 'a \<Rightarrow> 'm option"
    and ok :: "'m \<Rightarrow> 'a set \<Rightarrow> bool"
    and fr :: "'a set \<Rightarrow> 'm \<Rightarrow> 'm \<Rightarrow> bool"
  assumes fr_refl: "fr S m m"
    and fr_trans: "fr S m m' \<Longrightarrow> fr S m' m'' \<Longrightarrow> fr S m m''"
    and set_nx: "ok m S \<Longrightarrow> a \<in> S \<Longrightarrow>
      \<exists>m'. set_nx m a v = Some m' \<and> ok m' S \<and> fr S m m'
        \<and> (\<forall>b \<in> S. nx m' b = (if b = a then Some v else nx m b) \<and> pv m' b = pv m b)"
    and set_pv: "ok m S \<Longrightarrow> a \<in> S \<Longrightarrow>
      \<exists>m'. set_pv m a v = Some m' \<and> ok m' S \<and> fr S m m'
        \<and> (\<forall>b \<in> S. pv m' b = (if b = a then Some v else pv m b) \<and> nx m' b = nx m b)"
begin

text \<open>Four writes splice a node in between two neighbours.\<close>

lemma splice_in:
  assumes ok: "ok m S" and S: "insert new (set (h # as @ bs)) \<subseteq> S"
    and new: "new \<notin> set (h # as @ bs)" and d: "distinct (h # as @ bs)"
    and lk: "linked_by (nx m) (pv m) h (as @ bs)" and l: "l = last (h # as)"
  shows "\<exists>m'. do {
      n \<leftarrow> nx m l; m \<leftarrow> set_nx m new n; m \<leftarrow> set_pv m new l; m \<leftarrow> set_nx m l new;
      n \<leftarrow> nx m new; set_pv m n new } = Some m'
    \<and> ok m' S \<and> fr S m m' \<and> linked_by (nx m') (pv m') h (as @ new # bs)"
proof -
  define r where "r = hd (bs @ [h])"
  have lr: "(l, r) \<in> set (links h (as @ bs))" by (simp add: links_split l r_def)
  then have nl: "nx m l = Some r" and pr: "pv m r = Some l" using lk by (auto simp: linked_by_def)
  have lS: "l \<in> S" and rS: "r \<in> S" and nS: "new \<in> S" and ln: "l \<noteq> new" and rn: "r \<noteq> new"
    using S new by (auto simp: l r_def hd_append split: if_splits)
  obtain m1 where m1: "set_nx m new r = Some m1" "ok m1 S" "fr S m m1"
    "\<And>b. b \<in> S \<Longrightarrow> nx m1 b = (if b = new then Some r else nx m b) \<and> pv m1 b = pv m b"
    using set_nx [OF ok nS] by blast
  obtain m2 where m2: "set_pv m1 new l = Some m2" "ok m2 S" "fr S m1 m2"
    "\<And>b. b \<in> S \<Longrightarrow> pv m2 b = (if b = new then Some l else pv m1 b) \<and> nx m2 b = nx m1 b"
    using set_pv [OF m1(2) nS] by blast
  obtain m3 where m3: "set_nx m2 l new = Some m3" "ok m3 S" "fr S m2 m3"
    "\<And>b. b \<in> S \<Longrightarrow> nx m3 b = (if b = l then Some new else nx m2 b) \<and> pv m3 b = pv m2 b"
    using set_nx [OF m2(2) lS] by blast
  obtain m4 where m4: "set_pv m3 r new = Some m4" "ok m4 S" "fr S m3 m4"
    "\<And>b. b \<in> S \<Longrightarrow> pv m4 b = (if b = r then Some new else pv m3 b) \<and> nx m4 b = nx m3 b"
    using set_pv [OF m3(2) rS] by blast
  have n3: "nx m3 new = Some r" using m3(4) [OF nS] m2(4) [OF nS] m1(4) [OF nS] ln by simp
  have nx4: "nx m4 b = (if b = l then Some new else if b = new then Some r else nx m b)"
    and pv4: "pv m4 b = (if b = r then Some new else if b = new then Some l else pv m b)"
    if "b \<in> S" for b
    using m1(4) [OF that] m2(4) [OF that] m3(4) [OF that] m4(4) [OF that] ln rn by auto
  have "nx m4 a = Some b \<and> pv m4 b = Some a" if ab: "(a, b) \<in> set (links h (as @ new # bs))" for a b
  proof -
    let ?rest = "set (zip (butlast (h # as)) as) \<union> set (zip bs (tl (bs @ [h])))"
    consider "(a, b) = (l, new)" | "(a, b) = (new, r)" | "(a, b) \<in> ?rest"
      using ab by (auto simp: links_insert l r_def)
    then show ?thesis
    proof cases
      case 3
      note lrest = links_rest [OF d this]
      have "a \<in> S" "b \<in> S" "a \<noteq> new" "b \<noteq> new" using lrest(4,5) S new by auto
      with lrest lk show ?thesis by (auto simp: nx4 pv4 linked_by_def l r_def)
    qed (use lS rS nS ln rn in \<open>simp_all add: nx4 pv4\<close>)
  qed
  then have "linked_by (nx m4) (pv m4) h (as @ new # bs)" by (auto simp: linked_by_def)
  moreover have "fr S m m4" using m1(3) m2(3) m3(3) m4(3) fr_trans by blast
  ultimately show ?thesis using m1(1) m2(1) m3(1) m4(1,2) nl n3 by auto
qed

text \<open>The neighbours of a node are joined, and the node becomes a ring of its own.\<close>

lemma splice_out:
  assumes ok: "ok m S" and S: "set (h # as @ x # bs) \<subseteq> S" and d: "distinct (h # as @ x # bs)"
    and lk: "linked_by (nx m) (pv m) h (as @ x # bs)"
  shows "\<exists>m'. do {
      n \<leftarrow> nx m x; p \<leftarrow> pv m x; m \<leftarrow> set_pv m n p; p \<leftarrow> pv m x; n \<leftarrow> nx m x;
      m \<leftarrow> set_nx m p n; m \<leftarrow> set_nx m x x; set_pv m x x } = Some m'
    \<and> ok m' S \<and> fr S m m' \<and> linked_by (nx m') (pv m') h (as @ bs)
    \<and> nx m' x = Some x \<and> pv m' x = Some x"
proof -
  define l where "l = last (h # as)"
  define r where "r = hd (bs @ [h])"
  have "(l, x) \<in> set (links h (as @ x # bs))" "(x, r) \<in> set (links h (as @ x # bs))"
    by (simp_all add: links_insert l_def r_def)
  then have nx: "nx m x = Some r" "pv m x = Some l"
    using lk by (auto simp: linked_by_def)
  have lS: "l \<in> S" and rS: "r \<in> S" and xS: "x \<in> S" and lx: "l \<noteq> x" and rx: "r \<noteq> x"
    using S d by (auto simp: l_def r_def hd_append split: if_splits)
  obtain m1 where m1: "set_pv m r l = Some m1" "ok m1 S" "fr S m m1"
    "\<And>b. b \<in> S \<Longrightarrow> pv m1 b = (if b = r then Some l else pv m b) \<and> nx m1 b = nx m b"
    using set_pv [OF ok rS] by blast
  obtain m2 where m2: "set_nx m1 l r = Some m2" "ok m2 S" "fr S m1 m2"
    "\<And>b. b \<in> S \<Longrightarrow> nx m2 b = (if b = l then Some r else nx m1 b) \<and> pv m2 b = pv m1 b"
    using set_nx [OF m1(2) lS] by blast
  obtain m3 where m3: "set_nx m2 x x = Some m3" "ok m3 S" "fr S m2 m3"
    "\<And>b. b \<in> S \<Longrightarrow> nx m3 b = (if b = x then Some x else nx m2 b) \<and> pv m3 b = pv m2 b"
    using set_nx [OF m2(2) xS] by blast
  obtain m4 where m4: "set_pv m3 x x = Some m4" "ok m4 S" "fr S m3 m4"
    "\<And>b. b \<in> S \<Longrightarrow> pv m4 b = (if b = x then Some x else pv m3 b) \<and> nx m4 b = nx m3 b"
    using set_pv [OF m3(2) xS] by blast
  have re: "pv m1 x = Some l" "nx m1 x = Some r" using m1(4) [OF xS] nx rx by simp_all
  have nx4: "nx m4 b = (if b = x then Some x else if b = l then Some r else nx m b)"
    and pv4: "pv m4 b = (if b = x then Some x else if b = r then Some l else pv m b)"
    if "b \<in> S" for b
    using m1(4) [OF that] m2(4) [OF that] m3(4) [OF that] m4(4) [OF that] lx rx by auto
  have "nx m4 a = Some b \<and> pv m4 b = Some a" if ab: "(a, b) \<in> set (links h (as @ bs))" for a b
  proof -
    let ?rest = "set (zip (butlast (h # as)) as) \<union> set (zip bs (tl (bs @ [h])))"
    have d': "distinct (h # as @ bs)" using d by simp
    consider "(a, b) = (l, r)" | "(a, b) \<in> ?rest"
      using ab by (auto simp: links_split l_def r_def)
    then show ?thesis
    proof cases
      case 2
      note lrest = links_rest [OF d' this]
      have "(a, b) \<in> set (links h (as @ x # bs))" using 2 by (auto simp: links_insert)
      then have old: "nx m a = Some b" "pv m b = Some a" using lk by (auto simp: linked_by_def)
      have "a \<in> S" "b \<in> S" "a \<noteq> x" "b \<noteq> x" using lrest(4,5) S d by auto
      with lrest old show ?thesis by (auto simp: nx4 pv4 l_def r_def)
    qed (use lS rS lx rx in \<open>simp_all add: nx4 pv4\<close>)
  qed
  then have "linked_by (nx m4) (pv m4) h (as @ bs)" by (auto simp: linked_by_def)
  moreover have "fr S m m4" using m1(3) m2(3) m3(3) m4(3) fr_trans by blast
  ultimately show ?thesis using m1(1) m2(1) m3(1) m4(1,2) nx re xS by (auto simp: nx4 pv4)
qed

text \<open>Two writes make a node a ring of its own.\<close>

lemma ring_of_one:
  assumes ok: "ok m S" and "x \<in> S"
  shows "\<exists>m'. do { m \<leftarrow> set_pv m x x; set_nx m x x } = Some m'
    \<and> ok m' S \<and> fr S m m' \<and> linked_by (nx m') (pv m') x []
    \<and> (\<forall>b \<in> S - {x}. nx m' b = nx m b \<and> pv m' b = pv m b)"
proof -
  obtain m1 where m1: "set_pv m x x = Some m1" "ok m1 S" "fr S m m1"
    "\<And>b. b \<in> S \<Longrightarrow> pv m1 b = (if b = x then Some x else pv m b) \<and> nx m1 b = nx m b"
    using set_pv [OF ok assms(2)] by blast
  obtain m2 where m2: "set_nx m1 x x = Some m2" "ok m2 S" "fr S m1 m2"
    "\<And>b. b \<in> S \<Longrightarrow> nx m2 b = (if b = x then Some x else nx m1 b) \<and> pv m2 b = pv m1 b"
    using set_nx [OF m1(2) assms(2)] by blast
  have "fr S m m2" using m1(3) m2(3) by (rule fr_trans)
  with m1 m2 assms(2) show ?thesis by (auto simp: linked_by_def links_def)
qed

text \<open>The ring of \<open>xs\<close> determines \<open>xs\<close>: the neighbours of the sentinel are its ends.\<close>

lemma linked_ends:
  assumes "linked_by (nx m) (pv m) h xs"
  shows "nx m h = Some (hd (xs @ [h]))" and "pv m h = Some (last (h # xs))"
proof -
  have "(h, hd (xs @ [h])) \<in> set (links h xs)" by (cases xs) (auto simp: links_def)
  moreover have "(last (h # xs), h) \<in> set (links h xs)"
    using links_split [of h xs "[]"] by simp
  ultimately show "nx m h = Some (hd (xs @ [h]))" and "pv m h = Some (last (h # xs))"
    using assms by (auto simp: linked_by_def)
qed

lemma linked_step:
  assumes "linked_by (nx m) (pv m) h (as @ x # bs)"
  shows "nx m x = Some (hd (bs @ [h]))" and "pv m x = Some (last (h # as))"
  using assms by (auto simp: linked_by_def links_insert)

end

section \<open>The memory provides the interface\<close>

text \<open>Sixteen mapped bytes per node, no two nodes overlapping.\<close>

definition node_ok :: "cmem \<Rightarrow> addr set \<Rightarrow> bool" where
  "node_ok m S \<longleftrightarrow>
     (\<forall>a \<in> S. mapped m a 16 \<and> unat a + 16 \<le> 2 ^ 64)
     \<and> (\<forall>a \<in> S. \<forall>b \<in> S. a \<noteq> b \<longrightarrow> span_of a 16 \<inter> span_of b 16 = {})"

definition node_bytes :: "addr set \<Rightarrow> nat set" where
  "node_bytes S = (\<Union>a \<in> S. span_of a 16)"

definition node_fr :: "addr set \<Rightarrow> cmem \<Rightarrow> cmem \<Rightarrow> bool" where
  "node_fr S m m' = changes (node_bytes S) m m'"

lemma node_ok_changes: "changes T m m' \<Longrightarrow> node_ok m' S = node_ok m S"
  by (simp add: node_ok_def changes_mapped)

lemma node_ok_subset: "node_ok m T \<Longrightarrow> S \<subseteq> T \<Longrightarrow> node_ok m S"
  unfolding node_ok_def by blast

lemma node_field_spans:
  assumes "unat (a :: addr) + 16 \<le> 2 ^ 64"
  shows "span_of a 16 = span_of a 8 \<union> span_of (a + 8) 8" and "span_of a 8 \<inter> span_of (a + 8) 8 = {}"
    and "unat (a + 8) + 8 \<le> 2 ^ 64"
  using unat_add_num [of a 8] assms by (auto simp: span_of_def)

text \<open>A write inside one field of node \<open>a\<close> leaves every other field of the nodes of \<open>S\<close>.\<close>

lemma field_write_frame:
  assumes ok: "node_ok m S" and a: "a \<in> S" and b: "b \<in> S"
    and ch: "changes (span_of a 8) m m'"
  shows "b \<noteq> a \<Longrightarrow> load64 m' b = load64 m b" and "load64 m' (b + 8) = load64 m (b + 8)"
proof -
  have na: "unat a + 16 \<le> 2 ^ 64" and nb: "unat b + 16 \<le> 2 ^ 64"
    using ok a b by (auto simp: node_ok_def)
  have ne: "a \<noteq> b \<Longrightarrow> span_of a 16 \<inter> span_of b 16 = {}" using ok a b by (auto simp: node_ok_def)
  note fa = node_field_spans [OF na] and fb = node_field_spans [OF nb]
  show "load64 m' b = load64 m b" if "b \<noteq> a"
    using ne fa(1) fb(1) that nb by (intro changes_load64 [OF ch]) (blast, simp)
  have "span_of (b + 8) 8 \<inter> span_of a 8 = {}"
    using ne fa(1,2) fb(1,2) by (cases "a = b") blast+
  then show "load64 m' (b + 8) = load64 m (b + 8)"
    by (rule changes_load64 [OF ch _ fb(3)])
qed

lemma field_write_frame8:
  assumes ok: "node_ok m S" and a: "a \<in> S" and b: "b \<in> S"
    and ch: "changes (span_of (a + 8) 8) m m'"
  shows "b \<noteq> a \<Longrightarrow> load64 m' (b + 8) = load64 m (b + 8)" and "load64 m' b = load64 m b"
proof -
  have na: "unat a + 16 \<le> 2 ^ 64" and nb: "unat b + 16 \<le> 2 ^ 64"
    using ok a b by (auto simp: node_ok_def)
  have ne: "a \<noteq> b \<Longrightarrow> span_of a 16 \<inter> span_of b 16 = {}" using ok a b by (auto simp: node_ok_def)
  note fa = node_field_spans [OF na] and fb = node_field_spans [OF nb]
  show "load64 m' (b + 8) = load64 m (b + 8)" if "b \<noteq> a"
    using ne fa(1) fb(1) that by (intro changes_load64 [OF ch _ fb(3)]) blast
  have "span_of b 8 \<inter> span_of (a + 8) 8 = {}"
    using ne fa(1,2) fb(1,2) by (cases "a = b") blast+
  then show "load64 m' b = load64 m b"
    using nb by (intro changes_load64 [OF ch]) simp_all
qed

lemma ps_list_set_next_spec:
  assumes ok: "node_ok m S" and a: "a \<in> S"
  shows "\<exists>m'. ps_list_set_next m a v = Some m' \<and> node_ok m' S \<and> node_fr S m m'
    \<and> (\<forall>b \<in> S. ps_list_next_field m' b = (if b = a then Some v else ps_list_next_field m b)
          \<and> ps_list_previous_field m' b = ps_list_previous_field m b)"
proof -
  have na: "unat a + 16 \<le> 2 ^ 64" and mp: "mapped m a 16" using ok a by (auto simp: node_ok_def)
  have mp8: "mapped m a 8" and n8: "unat a + 8 \<le> 2 ^ 64" using mapped_add8 [OF mp na] na by auto
  obtain m' where m': "store64 m a v = Some m'" "changes (span_of a 8) m m'" "load64 m' a = Some v"
    using store64_mapped [OF mp8 n8] .
  have "changes (node_bytes S) m m'"
    using node_field_spans(1) [OF na] a by (intro changes_mono [OF m'(2)]) (auto simp: node_bytes_def)
  with m' node_ok_changes [OF m'(2)] field_write_frame [OF ok a _ m'(2)] ok show ?thesis
    by (auto simp: ps_list_set_next_def ps_list_next_field_def ps_list_previous_field_def node_fr_def)
qed

lemma ps_list_set_previous_spec:
  assumes ok: "node_ok m S" and a: "a \<in> S"
  shows "\<exists>m'. ps_list_set_previous m a v = Some m' \<and> node_ok m' S \<and> node_fr S m m'
    \<and> (\<forall>b \<in> S. ps_list_previous_field m' b = (if b = a then Some v else ps_list_previous_field m b)
          \<and> ps_list_next_field m' b = ps_list_next_field m b)"
proof -
  have na: "unat a + 16 \<le> 2 ^ 64" and mp: "mapped m a 16" using ok a by (auto simp: node_ok_def)
  have mp8: "mapped m (a + 8) 8" using mapped_add8 [OF mp na] by simp
  obtain m' where m': "store64 m (a + 8) v = Some m'" "changes (span_of (a + 8) 8) m m'"
      "load64 m' (a + 8) = Some v"
    using store64_mapped [OF mp8 node_field_spans(3) [OF na]] .
  have "changes (node_bytes S) m m'"
    using node_field_spans(1) [OF na] a by (intro changes_mono [OF m'(2)]) (auto simp: node_bytes_def)
  with m' node_ok_changes [OF m'(2)] field_write_frame8 [OF ok a _ m'(2)] ok show ?thesis
    by (auto simp: ps_list_set_previous_def ps_list_next_field_def ps_list_previous_field_def
        node_fr_def)
qed

interpretation psl: field_store ps_list_next_field ps_list_previous_field ps_list_set_next
  ps_list_set_previous node_ok node_fr
proof unfold_locales
  show "node_fr S m m" for S m by (simp add: node_fr_def)
  show "node_fr S m m'' " if "node_fr S m m'" and "node_fr S m' m''" for S m m' m''
    using that unfolding node_fr_def by (rule changes_trans) auto
qed (fact ps_list_set_next_spec ps_list_set_previous_spec)+

section \<open>The list abstraction\<close>

definition dll :: "cmem \<Rightarrow> addr \<Rightarrow> addr list \<Rightarrow> bool" where
  "dll m h xs \<longleftrightarrow> node_ok m (set (h # xs)) \<and> distinct (h # xs)
     \<and> linked_by (ps_list_next_field m) (ps_list_previous_field m) h xs"

lemma dllD:
  assumes "dll m h xs"
  shows "node_ok m (set (h # xs))" and "distinct (h # xs)"
    and "linked_by (ps_list_next_field m) (ps_list_previous_field m) h xs"
  using assms by (auto simp: dll_def)

lemma node_bytes_simps [simp]:
  "node_bytes {} = {}"
  "node_bytes (insert a S) = span_of a 16 \<union> node_bytes S"
  "node_bytes (S \<union> T) = node_bytes S \<union> node_bytes T"
  by (auto simp: node_bytes_def)

lemma node_bytes_mono: "S \<subseteq> T \<Longrightarrow> node_bytes S \<subseteq> node_bytes T"
  by (auto simp: node_bytes_def)

lemma keeps_node_ok:
  assumes k: "keeps (node_bytes S) m m'" and ok: "node_ok m S"
  shows "node_ok m' S"
  unfolding node_ok_def
proof (intro conjI ballI)
  fix a assume a: "a \<in> S"
  then have "span_of a 16 \<subseteq> node_bytes S" and "mapped m a 16"
    using ok unfolding node_bytes_def node_ok_def by auto
  then show "mapped m' a 16" using keeps_mapped [OF k] by simp
  show "unat a + 16 \<le> 2 ^ 64" using ok a by (simp add: node_ok_def)
qed (use ok in \<open>simp add: node_ok_def\<close>)

lemma keeps_fields:
  assumes k: "keeps (node_bytes S) m m'" and ok: "node_ok m S" and a: "a \<in> S"
  shows "ps_list_next_field m a = Some v \<Longrightarrow> ps_list_next_field m' a = Some v"
    and "ps_list_previous_field m a = Some v \<Longrightarrow> ps_list_previous_field m' a = Some v"
proof -
  have na: "unat a + 16 \<le> 2 ^ 64" using ok a by (auto simp: node_ok_def)
  have "span_of a 8 \<union> span_of (a + 8) 8 \<subseteq> node_bytes S"
    using a node_field_spans(1) [OF na] by (auto simp: node_bytes_def simp del: mem_span_of)
  then show "ps_list_next_field m a = Some v \<Longrightarrow> ps_list_next_field m' a = Some v"
    and "ps_list_previous_field m a = Some v \<Longrightarrow> ps_list_previous_field m' a = Some v"
    using na node_field_spans(3) [OF na] keeps_load64 [OF k]
    by (auto simp: ps_list_next_field_def ps_list_previous_field_def)
qed

text \<open>A ring stays as it is when its nodes do.\<close>

lemma dll_keeps:
  assumes "dll m h xs" and k: "keeps (node_bytes (set (h # xs))) m m'"
  shows "dll m' h xs"
proof -
  note d = dllD [OF assms(1)]
  have "linked_by (ps_list_next_field m') (ps_list_previous_field m') h xs"
    unfolding linked_by_def
  proof clarify
    fix a b assume ab: "(a, b) \<in> set (links h xs)"
    then have "a \<in> set (map fst (links h xs))" and "b \<in> set (map snd (links h xs))" by force+
    then have "a \<in> set (h # xs)" and "b \<in> set (h # xs)" unfolding links_fst links_snd by auto
    with ab d(3) show "ps_list_next_field m' a = Some b \<and> ps_list_previous_field m' b = Some a"
      using keeps_fields [OF k d(1)] by (auto simp: linked_by_def)
  qed
  then show ?thesis using d keeps_node_ok [OF k d(1)] by (simp add: dll_def)
qed

lemma dll_frame:
  "dll m h xs \<Longrightarrow> changes T m m' \<Longrightarrow> node_bytes (set (h # xs)) \<inter> T = {} \<Longrightarrow> dll m' h xs"
  by (rule dll_keeps [OF _ changes_keeps])

lemma dll_singleton: "ps_list_head_empty m h = Some (xs = [])" if "dll m h xs"
  using psl.linked_ends(1) [OF dllD(3) [OF that]] dllD(2) [OF that]
  by (cases xs) (auto simp: ps_list_head_empty_def ps_list_ll_empty_def)

lemma dll_first: "dll m h xs \<Longrightarrow> ps_list_next_field m h = Some (hd (xs @ [h]))"
  by (rule psl.linked_ends(1) [OF dllD(3)])

lemma dll_last: "dll m h xs \<Longrightarrow> ps_list_previous_field m h = Some (last (h # xs))"
  by (rule psl.linked_ends(2) [OF dllD(3)])

lemma dll_previous:
  "dll m h (as @ x # bs) \<Longrightarrow> ps_list_previous_field m x = Some (last (h # as))"
  by (rule psl.linked_step(2) [OF dllD(3)])

lemma dll_next: "dll m h (as @ x # bs) \<Longrightarrow> ps_list_next_field m x = Some (hd (bs @ [h]))"
  by (rule psl.linked_step(1) [OF dllD(3)])

lemma ps_list_ll_add_spec:
  assumes d: "dll m h (as @ bs)" and ok: "node_ok m (insert new (set (h # as @ bs)))"
    and new: "new \<notin> set (h # as @ bs)"
  obtains m' where "ps_list_ll_add m (last (h # as)) new = Some m'" and "dll m' h (as @ new # bs)"
    and "changes (node_bytes (insert new (set (h # as @ bs)))) m m'"
proof -
  obtain m' where m': "ps_list_ll_add m (last (h # as)) new = Some m'"
      "node_ok m' (insert new (set (h # as @ bs)))"
      "node_fr (insert new (set (h # as @ bs))) m m'"
      "linked_by (ps_list_next_field m') (ps_list_previous_field m') h (as @ new # bs)"
    using psl.splice_in [OF ok subset_refl new dllD(2,3) [OF d] refl]
    unfolding ps_list_ll_add_def by blast
  have "set (h # as @ new # bs) = insert new (set (h # as @ bs))" by auto
  with m' new dllD(2) [OF d] have "dll m' h (as @ new # bs)" unfolding dll_def by auto
  with m' show ?thesis unfolding node_fr_def by (rule_tac that)
qed

lemma ps_list_ll_rem_spec:
  assumes d: "dll m h (as @ x # bs)"
  obtains m' where "ps_list_ll_rem m x = Some m'" and "dll m' h (as @ bs)"
    and "changes (node_bytes (set (h # as @ x # bs))) m m'"
    and "ps_list_next_field m' x = Some x" and "ps_list_previous_field m' x = Some x"
proof -
  obtain m' where m': "ps_list_ll_rem m x = Some m'"
      "node_ok m' (set (h # as @ x # bs))" "node_fr (set (h # as @ x # bs)) m m'"
      "linked_by (ps_list_next_field m') (ps_list_previous_field m') h (as @ bs)"
      "ps_list_next_field m' x = Some x" "ps_list_previous_field m' x = Some x"
    using psl.splice_out [OF dllD(1) [OF d] subset_refl dllD(2,3) [OF d]]
    unfolding ps_list_ll_rem_def by blast
  have "node_ok m' (set (h # as @ bs))" using m'(2) by (rule node_ok_subset) auto
  with m' dllD(2) [OF d] have "dll m' h (as @ bs)" unfolding dll_def by simp
  with m' show ?thesis unfolding node_fr_def by (rule_tac that)
qed

lemma ps_list_ll_init_spec:
  assumes "node_ok m S" and "x \<in> S"
  obtains m' where "ps_list_ll_init m x = Some m'" and "dll m' x []"
    and "changes (span_of x 16) m m'"
proof -
  have ok: "node_ok m {x}" using assms by (auto elim: node_ok_subset)
  obtain m' where m': "ps_list_ll_init m x = Some m'" "node_ok m' {x}" "node_fr {x} m m'"
      "linked_by (ps_list_next_field m') (ps_list_previous_field m') x []"
    using psl.ring_of_one [OF ok, of x] unfolding ps_list_ll_init_def by blast
  then have "dll m' x []" unfolding dll_def by simp
  with m' show ?thesis unfolding node_fr_def by (intro that) auto
qed

text \<open>Disjoint mapped extents of at least sixteen bytes are separate list nodes.\<close>

lemma extents_node_ok:
  assumes "disj M" and "\<And>c. c \<in># M \<Longrightarrow> mapped m (fst c) (snd c) \<and> unat (fst c) + snd c \<le> 2 ^ 64 \<and> 16 \<le> snd c"
  shows "node_ok m (fst ` set_mset M)"
  unfolding node_ok_def
proof (intro conjI ballI impI)
  fix a assume "a \<in> fst ` set_mset M"
  then obtain c where c: "c \<in># M" "a = fst c" by auto
  from assms(2) [OF c(1)] show "unat a + 16 \<le> 2 ^ 64" by (simp add: c(2))
  from assms(2) [OF c(1)] show "mapped m a 16" by (auto simp: c(2) intro: mapped_sub [of m a "snd c"])
next
  fix a b assume "a \<in> fst ` set_mset M" "b \<in> fst ` set_mset M" "a \<noteq> b"
  then obtain c d where cd: "c \<in># M" "a = fst c" "d \<in># M" "b = fst d" "c \<noteq> d" by auto
  have "espan c \<inter> espan d = {}" by (rule disj_members [OF assms(1) cd(1,3,5)])
  moreover have "span_of a 16 \<subseteq> espan c" and "span_of b 16 \<subseteq> espan d"
    using assms(2) [OF cd(1)] assms(2) [OF cd(3)] by (auto simp: cd espan_def)
  ultimately show "span_of a 16 \<inter> span_of b 16 = {}" by blast
qed

end
