(* ===== verification/Size_Class.thy ===== *)
theory Size_Class
  imports P2_Prelude
begin

text \<open>
  The size arithmetic of p2malloc.h and p2malloc.c: the header size, rounding to pages, and the
  map from a requested size to a free-list index, all on 64-bit \<open>size_t\<close> with its wrap-around.
  The platform is the LP64 one the code is written for: \<open>sizeof(size_t)\<close> is 8 and
  \<open>_Alignof(max_align_t)\<close> is 16.
\<close>

definition sizeof_size_t :: u64 where
  "sizeof_size_t = 8"

definition alignof_max_align_t :: u64 where
  "alignof_max_align_t = 16"

definition P2_HEADER_SIZE :: u64 where
  "P2_HEADER_SIZE =
     (2 * sizeof_size_t + alignof_max_align_t - 1) AND NOT (alignof_max_align_t - 1)"

definition P2_SLAB_MAX :: u64 where
  "P2_SLAB_MAX = 4096 - P2_HEADER_SIZE"

definition NUM_FREELISTS :: nat where
  "NUM_FREELISTS = 8"

definition BASE_SHIFT :: nat where
  "BASE_SHIFT = 5"

definition PAGE_BYTES :: u64 where
  "PAGE_BYTES = 4096"

text \<open>Round \<open>n\<close> up to the next 4096-byte boundary.\<close>

definition page_align :: "u64 \<Rightarrow> u64" where
  "page_align n = (n + 4095) AND NOT 4095"

definition get_freelist_idx :: "u64 \<Rightarrow> int" where
  "get_freelist_idx sz =
     (let swh = sz + P2_HEADER_SIZE in
      if swh > 4096 then -1
      else if swh > 2048 then 7
      else if swh > 1024 then 6
      else if swh > 512 then 5
      else if swh > 256 then 4
      else if swh > 128 then 3
      else if swh > 64 then 2
      else if swh > 32 then 1
      else 0)"

section \<open>The constants\<close>

lemma header_size [simp]: "P2_HEADER_SIZE = 16"
  by (simp add: P2_HEADER_SIZE_def sizeof_size_t_def alignof_max_align_t_def)

lemma slab_max [simp]: "P2_SLAB_MAX = 4080"
  by (simp add: P2_SLAB_MAX_def)

lemma num_freelists [simp]: "NUM_FREELISTS = 8"
  by (simp add: NUM_FREELISTS_def)

lemma page_bytes [simp]: "PAGE_BYTES = 4096"
  by (simp add: PAGE_BYTES_def)

text \<open>The block size of free list \<open>i\<close>, the value its \<open>pow2\<close> field holds.\<close>

definition block_size :: "nat \<Rightarrow> nat" where
  "block_size i = 2 ^ (i + BASE_SHIFT)"

lemma block_size_simps [simp]:
  "block_size 0 = 32" "block_size 1 = 64" "block_size (Suc 0) = 64" "block_size 2 = 128"
  "block_size 3 = 256" "block_size 4 = 512" "block_size 5 = 1024" "block_size 6 = 2048"
  "block_size 7 = 4096"
  by (simp_all add: block_size_def BASE_SHIFT_def)

lemma block_size_pos [simp]: "0 < block_size i"
  by (simp add: block_size_def)

lemma block_size_ge: "32 \<le> block_size i"
proof -
  have "(2::nat) ^ 5 \<le> 2 ^ (i + 5)" by (rule power_increasing) auto
  then show ?thesis by (simp add: block_size_def BASE_SHIFT_def)
qed

lemma lt8_cases:
  assumes "i < (8::nat)"
  obtains "i = 0" | "i = 1" | "i = 2" | "i = 3" | "i = 4" | "i = 5" | "i = 6" | "i = 7"
  using assms by linarith

lemma block_size_le: "i < 8 \<Longrightarrow> block_size i \<le> 4096"
  by (erule lt8_cases) simp_all

lemma block_size_dvd_page: "i < 8 \<Longrightarrow> block_size i dvd 4096"
  by (erule lt8_cases) simp_all

lemma block_size_16: "16 dvd block_size i"
  by (simp add: block_size_def BASE_SHIFT_def power_add)

section \<open>Rounding to pages\<close>

lemma unat_page_align:
  assumes "unat n + 4095 < 2 ^ 64"
  shows "unat (page_align n) = (unat n + 4095) div 4096 * 4096"
proof -
  have m: "(4095 :: u64) = mask 12" by (simp add: mask_eq_exp_minus_1)
  have "page_align n = push_bit 12 (drop_bit 12 (n + 4095))"
    unfolding page_align_def m by (rule bit_word_eqI) (auto simp: bit_simps)
  moreover have "unat (n + 4095) = unat n + 4095"
    using assms by (simp add: unat_word_ariths)
  moreover have "(unat n + 4095) div 4096 * 4096 < 2 ^ 64"
    using assms by simp
  ultimately show ?thesis
    by (simp add: push_bit_eq_mult drop_bit_eq_div unat_word_ariths unat_div)
qed

text \<open>Without wrap-around: the least multiple of a page that holds \<open>n\<close> bytes.\<close>

lemma page_align_bounds:
  assumes "unat n + 4095 < 2 ^ 64"
  shows "unat n \<le> unat (page_align n)" and "unat (page_align n) < unat n + 4096"
    and "4096 dvd unat (page_align n)"
  using div_mult_mod_eq [of "unat n + 4095" 4096] mod_less_divisor [of 4096 "unat n + 4095"]
  unfolding unat_page_align [OF assms] by (linarith, linarith, simp)

text \<open>The last page of sizes wraps to zero.\<close>

lemma page_align_wraps:
  assumes "2 ^ 64 \<le> unat (n :: u64) + 4095"
  shows "page_align n = 0"
proof -
  have m: "(4095 :: u64) = mask 12" by (simp add: mask_eq_exp_minus_1)
  have e: "page_align n = push_bit 12 (drop_bit 12 (n + 4095))"
    unfolding page_align_def m by (rule bit_word_eqI) (auto simp: bit_simps)
  have "unat n < 2 ^ 64" by (rule unat_lt_2_64)
  then have "unat (n + 4095) < 4096"
    using assms by (simp add: unat_word_ariths mod_if) linarith
  then have "unat (drop_bit 12 (n + 4095)) = 0"
    by (simp add: drop_bit_eq_div unat_div)
  then have "drop_bit 12 (n + 4095) = 0" by (simp only: unat_eq_zero)
  then show ?thesis by (simp add: e)
qed

section \<open>Size classes\<close>

lemma unat_swh: "unat (sz :: u64) + 16 < 2 ^ 64 \<Longrightarrow> unat (sz + 16) = unat sz + 16"
  by (simp add: unat_word_ariths)

lemma get_freelist_idx_nat:
  assumes "unat sz + 16 < 2 ^ 64"
  shows "get_freelist_idx sz =
    (if unat sz + 16 > 4096 then -1 else if unat sz + 16 > 2048 then 7
     else if unat sz + 16 > 1024 then 6 else if unat sz + 16 > 512 then 5
     else if unat sz + 16 > 256 then 4 else if unat sz + 16 > 128 then 3
     else if unat sz + 16 > 64 then 2 else if unat sz + 16 > 32 then 1 else 0)"
  unfolding get_freelist_idx_def Let_def header_size word_less_nat_alt unat_swh [OF assms]
  by (simp only: unat_numeral) simp

text \<open>
  The contract of a segregated-fit size map: \<open>idx\<close> gives the first of \<open>n\<close> classes whose block
  holds the request and its header, and the classes double.
\<close>

locale size_classes =
  fixes idx :: "nat \<Rightarrow> nat option" and blk :: "nat \<Rightarrow> nat" and hdr n :: nat
  assumes blk_double: "Suc i < n \<Longrightarrow> blk (Suc i) = 2 * blk i"
    and idx_Some: "idx s = Some i \<Longrightarrow> i < n \<and> s + hdr \<le> blk i \<and> (\<forall>j < i. blk j < s + hdr)"
    and idx_None: "idx s = None \<Longrightarrow> \<forall>j < n. blk j < s + hdr"
begin

lemma idx_unique:
  assumes "i < n" and "s + hdr \<le> blk i" and "\<forall>j < i. blk j < s + hdr"
  shows "idx s = Some i"
proof (cases "idx s")
  case None
  with idx_None [of s] assms show ?thesis by (meson leD)
next
  case (Some k)
  with idx_Some [OF this] assms show ?thesis by (cases i k rule: linorder_cases) (auto dest: leD)
qed

lemma idx_least: "idx s = Some i \<Longrightarrow> i = (LEAST k. s + hdr \<le> blk k)"
  using idx_Some [of s i] by (intro sym [OF Least_equality]) (auto simp: not_less [symmetric])

lemma idx_mono: "idx s = Some i \<Longrightarrow> idx t = Some j \<Longrightarrow> s \<le> t \<Longrightarrow> i \<le> j"
  using idx_Some [of s i] idx_Some [of t j]
  by (metis add_le_mono1 le_less_trans not_le order_trans leD)

text \<open>Every class but the first wastes less than half of its block.\<close>

lemma idx_waste:
  assumes "idx s = Some i" and "0 < i"
  shows "blk i < 2 * (s + hdr)"
proof -
  obtain j where j: "i = Suc j" using assms(2) by (cases i) auto
  with idx_Some [OF assms(1)] have "blk j < s + hdr" and "Suc j < n" by auto
  then show ?thesis using blk_double [of j] by (simp add: j)
qed

end

definition slab_class :: "nat \<Rightarrow> nat option" where
  "slab_class s =
     (if s + 16 < 2 ^ 64 \<and> 0 \<le> get_freelist_idx (of_nat s)
      then Some (nat (get_freelist_idx (of_nat s))) else None)"

lemma all_less_8: "(\<forall>j < (8::nat). P j) \<longleftrightarrow> P 0 \<and> P 1 \<and> P 2 \<and> P 3 \<and> P 4 \<and> P 5 \<and> P 6 \<and> P 7"
  by (auto elim!: lt8_cases)

lemma block_size_mono_less: "i < j \<Longrightarrow> block_size i < block_size j"
  by (simp add: block_size_def)

lemma slab_class_Some:
  assumes "slab_class s = Some i"
  shows "i < 8 \<and> s + 16 \<le> block_size i \<and> (\<forall>j < i. block_size j < s + 16)"
proof -
  have s: "s + 16 < 2 ^ 64" and i: "int i = get_freelist_idx (of_nat s)"
    using assms by (auto simp: slab_class_def split: if_splits)
  have u: "unat (of_nat s :: u64) = s" using s by (simp add: unat_of_nat)
  have fit: "i < 8 \<and> s + 16 \<le> block_size i \<and> (0 < i \<longrightarrow> block_size (i - 1) < s + 16)"
    using i s by (auto simp: get_freelist_idx_nat u split: if_splits)
  have "block_size j \<le> block_size (i - 1)" if "j < i" for j
    using that by (simp add: block_size_def)
  with fit show ?thesis by (metis le_less_trans not_gr_zero not_less_zero)
qed

lemma slab_class_None: "slab_class s = None \<Longrightarrow> 4096 < s + 16"
  by (cases "s + 16 < 2 ^ 64")
    (auto simp: slab_class_def get_freelist_idx_nat unat_of_nat split: if_splits)

interpretation p2sc: size_classes slab_class block_size 16 8
proof unfold_locales
  show "block_size (Suc i) = 2 * block_size i" for i by (simp add: block_size_def)
  show "\<forall>j < 8. block_size j < s + 16" if "slab_class s = None" for s
    using slab_class_None [OF that] block_size_le le_less_trans by blast
qed (rule slab_class_Some)

lemma slab_class_word:
  "unat sz + 16 < 2 ^ 64 \<Longrightarrow>
     slab_class (unat sz) = (if get_freelist_idx sz = -1 then None else Some (nat (get_freelist_idx sz)))"
  by (auto simp: slab_class_def get_freelist_idx_nat split: if_splits)

text \<open>What the allocator uses of the index of a size that passed the overflow guard.\<close>

lemma idx_slab:
  assumes "unat sz \<le> 4080"
  obtains i where "get_freelist_idx sz = int i" and "i < 8" and "unat sz + 16 \<le> block_size i"
proof -
  have nw: "unat sz + 16 < 2 ^ 64" using assms by simp
  have "0 \<le> get_freelist_idx sz" using assms by (simp add: get_freelist_idx_nat)
  then have "slab_class (unat sz) = Some (nat (get_freelist_idx sz))"
    by (simp add: slab_class_word [OF nw])
  from slab_class_Some [OF this] \<open>0 \<le> get_freelist_idx sz\<close> show ?thesis
    by (intro that [of "nat (get_freelist_idx sz)"]) auto
qed

lemma idx_large: "unat sz + 16 < 2 ^ 64 \<Longrightarrow> get_freelist_idx sz = -1 \<longleftrightarrow> 4080 < unat sz"
  by (auto simp: get_freelist_idx_nat)

lemma idx_range: "unat sz + 16 < 2 ^ 64 \<Longrightarrow> get_freelist_idx sz \<in> {-1..7}"
  by (auto simp: get_freelist_idx_nat)

text \<open>Past the guard the sum wraps, and the size is taken for a small one.\<close>

lemma idx_wraps:
  assumes "2 ^ 64 \<le> unat (sz :: u64) + 16"
  shows "get_freelist_idx sz = 0"
proof -
  have "unat sz < 2 ^ 64" by (rule unat_lt_2_64)
  then have "unat (sz + 16) < 32"
    using assms by (simp add: unat_word_ariths mod_if) linarith
  then show ?thesis
    unfolding get_freelist_idx_def Let_def header_size word_less_nat_alt
    by (simp only: unat_numeral) simp
qed

section \<open>Properties\<close>

text \<open>C22. On every size whose sum with the header does not wrap the size map is the smallest-fit map: -1
  exactly for the requests that do not fit a page with their header, else the first class whose block
  holds both, with less than half of the block unused in every class but the first.  For the 16 sizes
  whose sum wraps it is 0, the smallest class.\<close>

theorem get_freelist_idx_smallest_fit:
  "if unat sz + 16 < 2 ^ 64 then
     (get_freelist_idx sz = -1 \<longleftrightarrow> 4096 < unat sz + 16)
     \<and> (\<forall>i. get_freelist_idx sz = int i \<longrightarrow> i < 8 \<and> unat sz + 16 \<le> block_size i
       \<and> (\<forall>j < i. block_size j < unat sz + 16) \<and> (0 < i \<longrightarrow> block_size i < 2 * (unat sz + 16)))
   else get_freelist_idx sz = 0"
proof (cases "unat sz + 16 < 2 ^ 64")
  case True
  have "i < 8 \<and> unat sz + 16 \<le> block_size i \<and> (\<forall>j < i. block_size j < unat sz + 16)
      \<and> (0 < i \<longrightarrow> block_size i < 2 * (unat sz + 16))" if "get_freelist_idx sz = int i" for i
  proof -
    have s: "slab_class (unat sz) = Some i" using slab_class_word [OF True] that by simp
    show ?thesis using slab_class_Some [OF s] p2sc.idx_waste [OF s] by blast
  qed
  then show ?thesis using True idx_large [OF True] by simp
next
  case False
  then show ?thesis using idx_wraps by simp
qed

theorem get_freelist_idx_smallest_fit_witness:
  "get_freelist_idx 300 = 4 \<and> 300 + 16 \<le> block_size 4 \<and> block_size 3 < 300 + 16"
proof -
  have i: "get_freelist_idx 300 = int 4" by (simp add: get_freelist_idx_nat)
  then show ?thesis using get_freelist_idx_smallest_fit [of 300] by force
qed

text \<open>C23. Away from the top of the address space \<open>page_align\<close> gives the least multiple of the page
  size that is not smaller than its argument.\<close>

theorem page_align_least:
  assumes "unat n + 4095 < 2 ^ 64"
  shows "unat (page_align n) = (LEAST m. unat n \<le> m \<and> 4096 dvd m)"
proof (rule sym, rule Least_equality)
  show "unat n \<le> unat (page_align n) \<and> 4096 dvd unat (page_align n)"
    using page_align_bounds [OF assms] by blast
next
  fix m assume m: "unat n \<le> m \<and> 4096 dvd m"
  then obtain k where k: "m = 4096 * k" by (auto elim: dvdE)
  have "unat n \<le> 4096 * k" using m k by simp
  then have "unat n + 4095 < 4096 * (k + 1)" by simp
  then have "(unat n + 4095) div 4096 \<le> k" by (simp add: less_mult_imp_div_less div_less_iff_less_mult mult.commute flip: less_Suc_eq_le)
  then show "unat (page_align n) \<le> m" unfolding unat_page_align [OF assms] k by simp
qed

theorem page_align_least_witness: "unat (page_align 5000) = (LEAST m. 5000 \<le> m \<and> 4096 dvd m)"
  using page_align_least [of 5000] by simp

text \<open>The last 4095 values have no page multiple above them: the sum wraps and the result is 0,
  which is what the large path then asks the operating system for.\<close>

lemma page_align_wraps_to_zero:
  "page_align n = 0 \<longleftrightarrow> n = 0 \<or> 2 ^ 64 \<le> unat n + 4095"
proof (cases "unat n + 4095 < 2 ^ 64")
  case True
  then have "unat n \<le> unat (page_align n)" by (rule page_align_bounds)
  moreover have "page_align 0 = 0" by (simp add: page_align_def)
  ultimately show ?thesis using True by (auto simp: unat_eq_zero)
next
  case False
  then show ?thesis using page_align_wraps [of n] by simp
qed

end
