(* ===== verification/Freelist.thy ===== *)
theory Freelist
  imports Ps_List Size_Class
begin

text \<open>
  The platform layer and the free lists of p2malloc.c: operating-system memory and mutexes, the
  structures \<open>p2freelist_head\<close> and \<open>p2freelist_node\<close>, the static state, initialisation, the
  address-ordered insertion and the carving of a page.  A \<open>None\<close> result is an execution with no
  defined outcome: an access outside mapped memory, a failed \<open>assert\<close>, a mutex operation that is
  undefined or blocks for ever, or a loop that does not end.
\<close>

section \<open>Operating-system memory\<close>

text \<open>
  \<open>mmap\<close> is not part of the code: the kernel is a parameter \<open>os\<close>, its answer to a request of \<open>n\<close>
  bytes in the memory it sees, \<open>None\<close> for \<open>MAP_FAILED\<close>.  An anonymous mapping is zero-filled.
\<close>

type_synonym os = "cmem \<Rightarrow> u64 \<Rightarrow> addr option"

definition os_alloc :: "os \<Rightarrow> cmem \<Rightarrow> u64 \<Rightarrow> addr \<times> cmem" where
  "os_alloc os m n =
     (case os m n of
        None \<Rightarrow> (NULL, m)
      | Some p \<Rightarrow>
          (p, m\<lparr>bytes := \<lambda>b. if unat (b - p) < unat n then 0 else bytes m b,
                regions := (p, unat n) # regions m\<rparr>))"

text \<open>\<open>munmap\<close> of a whole live mapping; the code never unmaps anything else.\<close>

definition os_free :: "cmem \<Rightarrow> addr \<Rightarrow> u64 \<Rightarrow> cmem option" where
  "os_free m p n =
     (if (p, unat n) \<in> set (regions m)
      then Some (m\<lparr>regions := remove1 (p, unat n) (regions m)\<rparr>) else None)"

text \<open>
  What the documentation of \<open>mmap\<close> promises of an anonymous private mapping at an address the
  kernel chooses: a request of length 0 fails; a mapping starts on a page, not at address 0, ends
  inside the address space, and is disjoint from every mapping that is live.
\<close>

definition mmap_ok :: "os \<Rightarrow> cmem \<Rightarrow> bool" where
  "mmap_ok os m \<longleftrightarrow>
     (\<forall>n p. os m n = Some p \<longrightarrow>
        n \<noteq> 0 \<and> p \<noteq> NULL \<and> 4096 dvd unat p \<and> unat p + unat n < 2 ^ 64
        \<and> (\<forall>(b, l) \<in> set (regions m). span_of p (unat n) \<inter> span_of b l = {}))"

section \<open>Mutexes\<close>

datatype p2_mutex = Uninit | Unlocked | Locked

record p2freelist_head =
  pow2 :: u32
  list_head :: addr
  lock :: p2_mutex

definition MUTEX_INIT :: "p2freelist_head \<Rightarrow> p2freelist_head" where
  "MUTEX_INIT fl = fl\<lparr>lock := Unlocked\<rparr>"

definition MUTEX_LOCK :: "p2freelist_head \<Rightarrow> p2freelist_head option" where
  "MUTEX_LOCK fl = (if lock fl = Unlocked then Some (fl\<lparr>lock := Locked\<rparr>) else None)"

definition MUTEX_UNLOCK :: "p2freelist_head \<Rightarrow> p2freelist_head option" where
  "MUTEX_UNLOCK fl = (if lock fl = Locked then Some (fl\<lparr>lock := Unlocked\<rparr>) else None)"

section \<open>The allocation header\<close>

text \<open>\<open>p2header\<close>: \<open>size\<close> at offset 0, \<open>alloc_size\<close> at offset 8, sixteen bytes in all.\<close>

definition hdr_size :: "cmem \<Rightarrow> addr \<Rightarrow> u64 option" where
  "hdr_size m h = load64 m h"

definition hdr_alloc_size :: "cmem \<Rightarrow> addr \<Rightarrow> u64 option" where
  "hdr_alloc_size m h = load64 m (h + 8)"

definition set_hdr_size :: "cmem \<Rightarrow> addr \<Rightarrow> u64 \<Rightarrow> cmem option" where
  "set_hdr_size m h v = store64 m h v"

definition set_hdr_alloc_size :: "cmem \<Rightarrow> addr \<Rightarrow> u64 \<Rightarrow> cmem option" where
  "set_hdr_alloc_size m h v = store64 m (h + 8) v"

definition IS_LARGE :: "cmem \<Rightarrow> addr \<Rightarrow> bool option" where
  "IS_LARGE m h = do { a \<leftarrow> hdr_alloc_size m h; Some (a \<noteq> 0) }"

section \<open>The state\<close>

text \<open>
  The static variables of p2malloc.c and the memory.  A list head lives in memory, because list
  nodes point to it: \<open>list_head\<close> of a free-list record is its address.
\<close>

record p2state =
  mem :: cmem
  init_state :: nat
  allocated :: u64
  totmem :: u64
  freelists :: "p2freelist_head list"

definition fl_at :: "p2state \<Rightarrow> nat \<Rightarrow> p2freelist_head option" where
  "fl_at st i = (if i < length (freelists st) then Some (freelists st ! i) else None)"

definition set_fl :: "p2state \<Rightarrow> nat \<Rightarrow> p2freelist_head \<Rightarrow> p2state" where
  "set_fl st i fl = st\<lparr>freelists := (freelists st)[i := fl]\<rparr>"

function freelists_init_loop :: "nat \<Rightarrow> p2state \<Rightarrow> p2state option" where
  "freelists_init_loop i st =
     (if i < NUM_FREELISTS then do {
        fl \<leftarrow> fl_at st i;
        m \<leftarrow> ps_list_head_init (mem st) (list_head fl);
        let fl = MUTEX_INIT (fl\<lparr>pow2 := push_bit (i + BASE_SHIFT) 1\<rparr>);
        freelists_init_loop (i + 1) (set_fl (st\<lparr>mem := m\<rparr>) i fl)
      } else Some st)"
  by pat_completeness auto
termination
  by (relation "measure (\<lambda>(i, st). NUM_FREELISTS - i)") auto

declare freelists_init_loop.simps [simp del]

definition freelists_init :: "p2state \<Rightarrow> p2state option" where
  "freelists_init st = freelists_init_loop 0 st"

text \<open>
  The compare-and-swap claims the initialisation; a caller that loses it waits for the state to
  become 2, which one thread alone cannot see happen.
\<close>

definition ensure_init :: "p2state \<Rightarrow> p2state option" where
  "ensure_init st =
     (if init_state st = 0 then do {
        st \<leftarrow> freelists_init (st\<lparr>init_state := 1\<rparr>);
        Some (st\<lparr>init_state := 2\<rparr>)
      }
      else if init_state st = 2 then Some st
      else None)"

section \<open>The list macros on free-list nodes\<close>

text \<open>\<open>list\<close> is the first member of \<open>struct p2freelist_node\<close>, and the \<open>_d\<close> macros use that field.\<close>

definition node_list_offset :: addr where
  "node_list_offset = 0"

definition ps_list_is_head_d :: "addr \<Rightarrow> addr \<Rightarrow> bool" where
  "ps_list_is_head_d head obj = ps_list_is_head head obj node_list_offset"

definition ps_list_singleton_d :: "cmem \<Rightarrow> addr \<Rightarrow> bool option" where
  "ps_list_singleton_d m obj = ps_list_singleton m obj node_list_offset"

definition ps_list_init_d :: "cmem \<Rightarrow> addr \<Rightarrow> cmem option" where
  "ps_list_init_d m obj = ps_list_init m obj node_list_offset"

definition ps_list_next_d :: "cmem \<Rightarrow> addr \<Rightarrow> addr option" where
  "ps_list_next_d m obj = ps_list_next m obj node_list_offset"

definition ps_list_prev_d :: "cmem \<Rightarrow> addr \<Rightarrow> addr option" where
  "ps_list_prev_d m obj = ps_list_prev m obj node_list_offset"

definition ps_list_add_d :: "cmem \<Rightarrow> addr \<Rightarrow> addr \<Rightarrow> cmem option" where
  "ps_list_add_d m obj n = ps_list_add m obj n node_list_offset"

definition ps_list_append_d :: "cmem \<Rightarrow> addr \<Rightarrow> addr \<Rightarrow> cmem option" where
  "ps_list_append_d m obj n = ps_list_append m obj n node_list_offset"

definition ps_list_rem_d :: "cmem \<Rightarrow> addr \<Rightarrow> cmem option" where
  "ps_list_rem_d m obj = ps_list_rem m obj node_list_offset"

definition ps_list_head_last_d :: "cmem \<Rightarrow> addr \<Rightarrow> addr option" where
  "ps_list_head_last_d m head = ps_list_head_last m head node_list_offset"

definition ps_list_head_first_d :: "cmem \<Rightarrow> addr \<Rightarrow> addr option" where
  "ps_list_head_first_d m head = ps_list_head_first m head node_list_offset"

definition ps_list_head_add_d :: "cmem \<Rightarrow> addr \<Rightarrow> addr \<Rightarrow> cmem option" where
  "ps_list_head_add_d m head obj = ps_list_head_add m head obj node_list_offset"

definition ps_list_head_append_d :: "cmem \<Rightarrow> addr \<Rightarrow> addr \<Rightarrow> cmem option" where
  "ps_list_head_append_d m head obj = ps_list_head_append m head obj node_list_offset"

definition ps_list_foreach_d ::
    "addr \<Rightarrow> (cmem \<Rightarrow> addr \<Rightarrow> 'a \<Rightarrow> (cmem \<times> 'a) option) \<Rightarrow> cmem \<Rightarrow> 'a \<Rightarrow> (cmem \<times> 'a) option" where
  "ps_list_foreach_d head body m acc = ps_list_foreach head node_list_offset body m acc"

definition ps_list_foreach_del_d ::
    "addr \<Rightarrow> (cmem \<Rightarrow> addr \<Rightarrow> 'a \<Rightarrow> (cmem \<times> 'a) option) \<Rightarrow> cmem \<Rightarrow> 'a \<Rightarrow> (cmem \<times> 'a) option" where
  "ps_list_foreach_del_d head body m acc = ps_list_foreach_del head node_list_offset body m acc"

section \<open>Ordered insertion\<close>

partial_function (option) p2orderedinsert_loop ::
    "addr \<Rightarrow> addr \<Rightarrow> cmem \<Rightarrow> addr \<Rightarrow> cmem option" where
  "p2orderedinsert_loop head node m cursor =
     (if cursor > node then do {
        p \<leftarrow> ps_list_previous_field m (cursor + node_list_offset);
        if p = head then ps_list_ll_add m head (node + node_list_offset)
        else do {
          cursor \<leftarrow> ps_list_prev_d m cursor;
          p2orderedinsert_loop head node m cursor
        }
      } else ps_list_add_d m cursor node)"

declare p2orderedinsert_loop.simps [code]

definition p2orderedinsert :: "cmem \<Rightarrow> addr \<Rightarrow> p2freelist_head \<Rightarrow> cmem option" where
  "p2orderedinsert m node fl = do {
     e \<leftarrow> ps_list_head_empty m (list_head fl);
     if e then ps_list_head_append_d m (list_head fl) node
     else do {
       cursor \<leftarrow> ps_list_head_last_d m (list_head fl);
       p2orderedinsert_loop (list_head fl) node m cursor
     }
   }"

section \<open>Carving a page\<close>

text \<open>
  The \<open>for\<close> loop of \<open>p2malloc\<close> that cuts a page into blocks and puts each at the front of the
  list.  With a step of 0 it would not end.
\<close>

partial_function (option) carve_loop ::
    "addr \<Rightarrow> addr \<Rightarrow> addr \<Rightarrow> cmem \<Rightarrow> addr \<Rightarrow> cmem option" where
  "carve_loop head stop step m a =
     (if a < stop then do {
        m \<leftarrow> ps_list_init_d m a;
        m \<leftarrow> ps_list_head_add_d m head a;
        carve_loop head stop step m (a + step)
      } else Some m)"

declare carve_loop.simps [code]

definition carve_page :: "cmem \<Rightarrow> p2freelist_head \<Rightarrow> addr \<Rightarrow> cmem option" where
  "carve_page m fl page =
     carve_loop (list_head fl) (page + PAGE_BYTES) (scast (pow2 fl)) m page"

end
