(* ===== verification/P2malloc.thy ===== *)
theory P2malloc
  imports Freelist
begin

text \<open>
  The public functions of p2malloc.c.  Each takes the state and returns the result and the new
  state, or \<open>None\<close> where the execution has no defined outcome; those that may ask the operating
  system for memory take the kernel \<open>os\<close> as a parameter.
\<close>

section \<open>Allocation\<close>

definition p2malloc_large :: "os \<Rightarrow> u64 \<Rightarrow> p2state \<Rightarrow> (addr \<times> p2state) option" where
  "p2malloc_large os sz st = (
     let alloc_size = page_align (P2_HEADER_SIZE + sz);
         (hdr, m) = os_alloc os (mem st) alloc_size
     in if hdr = NULL then Some (NULL, st\<lparr>mem := m\<rparr>)
        else do {
          m \<leftarrow> set_hdr_size m hdr sz;
          m \<leftarrow> set_hdr_alloc_size m hdr alloc_size;
          Some (hdr + P2_HEADER_SIZE,
                st\<lparr>mem := m, allocated := allocated st + sz, totmem := totmem st + alloc_size\<rparr>)
        })"

text \<open>An empty list is refilled with a fresh page; the flag says whether there was one.\<close>

definition p2malloc_refill :: "os \<Rightarrow> nat \<Rightarrow> p2state \<Rightarrow> (bool \<times> p2state) option" where
  "p2malloc_refill os idx st = do {
     fl \<leftarrow> fl_at st idx;
     e \<leftarrow> ps_list_head_empty (mem st) (list_head fl);
     if e then (
       let (page, m) = os_alloc os (mem st) PAGE_BYTES
       in if page = NULL then Some (False, st\<lparr>mem := m\<rparr>)
          else let st = st\<lparr>mem := m, totmem := totmem st + PAGE_BYTES\<rparr> in do {
            m \<leftarrow> carve_page (mem st) fl page;
            Some (True, st\<lparr>mem := m\<rparr>)
          })
     else Some (True, st)
   }"

definition p2malloc_slab :: "os \<Rightarrow> u64 \<Rightarrow> nat \<Rightarrow> p2state \<Rightarrow> (addr \<times> p2state) option" where
  "p2malloc_slab os sz idx st = do {
     fl \<leftarrow> fl_at st idx;
     locked \<leftarrow> MUTEX_LOCK fl;
     (ok, st) \<leftarrow> p2malloc_refill os idx (set_fl st idx locked);
     unlocked \<leftarrow> MUTEX_UNLOCK locked;
     if \<not> ok then Some (NULL, set_fl st idx unlocked)
     else do {
       first \<leftarrow> ps_list_head_first_d (mem st) (list_head fl);
       m \<leftarrow> ps_list_rem_d (mem st) first;
       let st = set_fl st idx unlocked;
       m \<leftarrow> set_hdr_size m first sz;
       m \<leftarrow> set_hdr_alloc_size m first 0;
       Some (first + P2_HEADER_SIZE, st\<lparr>mem := m, allocated := allocated st + sz\<rparr>)
     }
   }"

definition p2malloc :: "os \<Rightarrow> u64 \<Rightarrow> p2state \<Rightarrow> (addr \<times> p2state) option" where
  "p2malloc os sz st =
     (if sz = 0 then Some (NULL, st)
      else if sz > SIZE_MAX - P2_HEADER_SIZE then Some (NULL, st)
      else do {
        st \<leftarrow> ensure_init st;
        let idx = get_freelist_idx sz;
        if idx = -1 then p2malloc_large os sz st
        else p2malloc_slab os sz (nat idx) st
      })"

section \<open>Release\<close>

definition p2free :: "addr \<Rightarrow> p2state \<Rightarrow> p2state option" where
  "p2free ptr st =
     (if ptr = NULL then Some st
      else let hdr = ptr - P2_HEADER_SIZE in do {
        large \<leftarrow> IS_LARGE (mem st) hdr;
        if large then do {
          sz \<leftarrow> hdr_size (mem st) hdr;
          alloc_size \<leftarrow> hdr_alloc_size (mem st) hdr;
          m \<leftarrow> os_free (mem st) hdr alloc_size;
          Some (st\<lparr>mem := m, allocated := allocated st - sz, totmem := totmem st - alloc_size\<rparr>)
        }
        else do {
          sz \<leftarrow> hdr_size (mem st) hdr;
          m \<leftarrow> memset (mem st) ptr 0 (unat sizeof_size_t);
          let st = st\<lparr>mem := m, allocated := allocated st - sz\<rparr>;
          let idx = get_freelist_idx sz;
          if \<not> (0 \<le> idx \<and> idx < int NUM_FREELISTS) then None
          else do {
            fl \<leftarrow> fl_at st (nat idx);
            locked \<leftarrow> MUTEX_LOCK fl;
            m \<leftarrow> p2orderedinsert (mem st) hdr locked;
            unlocked \<leftarrow> MUTEX_UNLOCK locked;
            Some (set_fl (st\<lparr>mem := m\<rparr>) (nat idx) unlocked)
          }
        }
      })"

section \<open>Array allocation and resizing\<close>

definition p2calloc :: "os \<Rightarrow> u64 \<Rightarrow> u64 \<Rightarrow> p2state \<Rightarrow> (addr \<times> p2state) option" where
  "p2calloc os nmemb sz st =
     (if nmemb = 0 \<or> sz = 0 then Some (NULL, st)
      else if nmemb > SIZE_MAX div sz then Some (NULL, st)
      else do {
        (p, st) \<leftarrow> p2malloc os (nmemb * sz) st;
        if p \<noteq> NULL then do {
          m \<leftarrow> memset (mem st) p 0 (unat (nmemb * sz));
          Some (p, st\<lparr>mem := m\<rparr>)
        }
        else Some (p, st)
      })"

definition p2realloc :: "os \<Rightarrow> addr \<Rightarrow> u64 \<Rightarrow> p2state \<Rightarrow> (addr \<times> p2state) option" where
  "p2realloc os ptr sz st =
     (if ptr = NULL then p2malloc os sz st
      else if sz = 0 then do { st \<leftarrow> p2free ptr st; Some (NULL, st) }
      else let hdr = ptr - P2_HEADER_SIZE in do {
        old_size \<leftarrow> hdr_size (mem st) hdr;
        large \<leftarrow> IS_LARGE (mem st) hdr;
        if \<not> large \<and> get_freelist_idx sz = get_freelist_idx old_size then do {
          m \<leftarrow> set_hdr_size (mem st) hdr sz;
          Some (ptr, st\<lparr>mem := m, allocated := allocated st - old_size + sz\<rparr>)
        }
        else do {
          (new_ptr, st) \<leftarrow> p2malloc os sz st;
          if new_ptr = NULL then Some (NULL, st)
          else do {
            m \<leftarrow> memcpy (mem st) new_ptr ptr (unat (if old_size < sz then old_size else sz));
            st \<leftarrow> p2free ptr (st\<lparr>mem := m\<rparr>);
            Some (new_ptr, st)
          }
        }
      })"

section \<open>Statistics and reset\<close>

definition p2allocated :: "p2state \<Rightarrow> u64" where
  "p2allocated st = allocated st"

definition p2totmem :: "p2state \<Rightarrow> u64" where
  "p2totmem st = totmem st"

function p2reset_loop :: "nat \<Rightarrow> p2state \<Rightarrow> p2state option" where
  "p2reset_loop i st =
     (if i < NUM_FREELISTS then do {
        fl \<leftarrow> fl_at st i;
        m \<leftarrow> ps_list_head_init (mem st) (list_head fl);
        p2reset_loop (i + 1) (st\<lparr>mem := m\<rparr>)
      } else Some st)"
  by pat_completeness auto
termination
  by (relation "measure (\<lambda>(i, st). NUM_FREELISTS - i)") auto

declare p2reset_loop.simps [simp del]

definition p2reset :: "p2state \<Rightarrow> p2state option" where
  "p2reset st = do {
     st \<leftarrow> (if init_state st = 2 then p2reset_loop 0 st
            else do {
              st \<leftarrow> freelists_init st;
              Some (st\<lparr>init_state := 2\<rparr>)
            });
     Some (st\<lparr>allocated := 0, totmem := 0\<rparr>)
   }"

section \<open>Program start\<close>

text \<open>
  The state at program start: static storage is mapped and zero, with the list heads of the
  \<open>freelists\<close> array at the addresses \<open>hs\<close> the linker chose.
\<close>

definition boot :: "addr list \<Rightarrow> p2state" where
  "boot hs =
     \<lparr>mem = \<lparr>bytes = \<lambda>_. 0, regions = map (\<lambda>h. (h, 16)) hs\<rparr>,
      init_state = 0, allocated = 0, totmem = 0,
      freelists = map (\<lambda>h. \<lparr>pow2 = 0, list_head = h, lock = Uninit\<rparr>) hs\<rparr>"

end
