(* ===== verification/P2_Main.thy ===== *)
theory P2_Main
  imports P2malloc
begin

text \<open>
  main.c: the five integration levels and \<open>main\<close>.  The calls of \<open>printf\<close> only report and are not
  modelled; an \<open>int\<close> in memory is four bytes, least significant first.  A level returns 1 when it
  passes and 0 at its first failed check, like the C function.
\<close>

section \<open>Level 0: one allocation, one release\<close>

definition test_level0 :: "os \<Rightarrow> p2state \<Rightarrow> (int \<times> p2state) option" where
  "test_level0 os st = do {
     (addr, st) \<leftarrow> p2malloc os 100 st;
     if addr = NULL then Some (0, st)
     else do {
       st \<leftarrow> p2free addr st;
       Some (1, st)
     }
   }"

section \<open>Level 1: a million tight cycles\<close>

function level1_loop :: "os \<Rightarrow> nat \<Rightarrow> p2state \<Rightarrow> (int \<times> p2state) option" where
  "level1_loop os i st =
     (if i < 1000000 then do {
        (thing, st) \<leftarrow> p2malloc os 12 st;
        if thing = NULL then Some (0, st)
        else do {
          m \<leftarrow> memset (mem st) thing 0 12;
          st \<leftarrow> p2free thing (st\<lparr>mem := m\<rparr>);
          level1_loop os (i + 1) st
        }
      } else Some (1, st))"
  by pat_completeness auto
termination
  by (relation "measure (\<lambda>(os, i, st). 1000000 - i)") auto

declare level1_loop.simps [simp del]

definition test_level1 :: "os \<Rightarrow> p2state \<Rightarrow> (int \<times> p2state) option" where
  "test_level1 os st = level1_loop os 0 st"

section \<open>Level 2: eight live blocks, released out of order\<close>

text \<open>The array \<open>ptrs\<close> is the list of the pointers stored so far.\<close>

function level2_alloc :: "os \<Rightarrow> nat \<Rightarrow> addr list \<Rightarrow> p2state \<Rightarrow> (int \<times> addr list \<times> p2state) option" where
  "level2_alloc os i ptrs st =
     (if i < 8 then do {
        (p, st) \<leftarrow> p2malloc os 12 st;
        let ptrs = ptrs @ [p];
        if p = NULL then Some (0, ptrs, st)
        else if p2totmem st \<noteq> 4096 then Some (0, ptrs, st)
        else let want = 12 * of_nat (i + 1) in
             if p2allocated st \<noteq> want then Some (0, ptrs, st)
             else level2_alloc os (i + 1) ptrs st
      } else Some (1, ptrs, st))"
  by pat_completeness auto
termination
  by (relation "measure (\<lambda>(os, i, ptrs, st). 8 - i)") auto

declare level2_alloc.simps [simp del]

function level2_write :: "nat \<Rightarrow> addr list \<Rightarrow> p2state \<Rightarrow> p2state option" where
  "level2_write i ptrs st =
     (if i < 8 then do {
        m \<leftarrow> store32 (mem st) (ptrs ! i) 42;
        level2_write (i + 1) ptrs (st\<lparr>mem := m\<rparr>)
      } else Some st)"
  by pat_completeness auto
termination
  by (relation "measure (\<lambda>(i, ptrs, st). 8 - i)") auto

declare level2_write.simps [simp del]

definition level2_free :: "addr list \<Rightarrow> p2state \<Rightarrow> p2state option" where
  "level2_free ptrs st = do {
     st \<leftarrow> p2free (ptrs ! 2) st;
     st \<leftarrow> p2free (ptrs ! 4) st;
     st \<leftarrow> p2free (ptrs ! 5) st;
     st \<leftarrow> p2free (ptrs ! 3) st;
     st \<leftarrow> p2free (ptrs ! 6) st;
     st \<leftarrow> p2free (ptrs ! 0) st;
     st \<leftarrow> p2free (ptrs ! 7) st;
     p2free (ptrs ! 1) st
   }"

function level2_check :: "nat \<Rightarrow> addr list \<Rightarrow> p2state \<Rightarrow> int option" where
  "level2_check i ptrs st =
     (if i < 8 then do {
        v \<leftarrow> load32 (mem st) (ptrs ! i);
        if v = 42 then Some 0 else level2_check (i + 1) ptrs st
      } else Some 1)"
  by pat_completeness auto
termination
  by (relation "measure (\<lambda>(i, ptrs, st). 8 - i)") auto

declare level2_check.simps [simp del]

definition test_level2 :: "os \<Rightarrow> p2state \<Rightarrow> (int \<times> p2state) option" where
  "test_level2 os st = do {
     (ok, ptrs, st) \<leftarrow> level2_alloc os 0 [] st;
     if ok = 0 then Some (0, st)
     else do {
       st \<leftarrow> level2_write 0 ptrs st;
       st \<leftarrow> level2_free ptrs st;
       r \<leftarrow> level2_check 0 ptrs st;
       Some (r, st)
     }
   }"

section \<open>Level 3: a sweep of sizes\<close>

function level3_loop :: "os \<Rightarrow> nat \<Rightarrow> p2state \<Rightarrow> (int \<times> p2state) option" where
  "level3_loop os sz st =
     (if sz < 4092 then do {
        (p, st) \<leftarrow> p2malloc os (of_nat sz) st;
        if p = NULL then Some (0, st) else level3_loop os (sz + 7) st
      } else Some (1, st))"
  by pat_completeness auto
termination
  by (relation "measure (\<lambda>(os, sz, st). 4092 - sz)") auto

declare level3_loop.simps [simp del]

definition test_level3 :: "os \<Rightarrow> p2state \<Rightarrow> (int \<times> p2state) option" where
  "test_level3 os st = level3_loop os 12 st"

section \<open>Level 4: a million blocks of two sizes\<close>

text \<open>The two loops of the level differ in the size of the block only.\<close>

function level4_loop :: "os \<Rightarrow> u64 \<Rightarrow> nat \<Rightarrow> p2state \<Rightarrow> (int \<times> p2state) option" where
  "level4_loop os sz i st =
     (if i < 1000000 then do {
        (thing, st) \<leftarrow> p2malloc os sz st;
        if thing = NULL then Some (0, st)
        else do {
          m \<leftarrow> memset (mem st) thing 0 (unat sz);
          st \<leftarrow> (if 1000 \<le> i then p2free thing (st\<lparr>mem := m\<rparr>) else Some (st\<lparr>mem := m\<rparr>));
          level4_loop os sz (i + 1) st
        }
      } else Some (1, st))"
  by pat_completeness auto
termination
  by (relation "measure (\<lambda>(os, sz, i, st). 1000000 - i)") auto

declare level4_loop.simps [simp del]

definition test_level4 :: "os \<Rightarrow> p2state \<Rightarrow> (int \<times> p2state) option" where
  "test_level4 os st = do {
     (ok, st) \<leftarrow> level4_loop os 12 0 st;
     if ok = 0 then Some (0, st) else level4_loop os 300 0 st
   }"

section \<open>main\<close>

text \<open>The value is the exit status of the program.\<close>

definition main :: "os \<Rightarrow> p2state \<Rightarrow> (int \<times> p2state) option" where
  "main os st = do {
     let pass = 1;
     st \<leftarrow> p2reset st; (r, st) \<leftarrow> test_level0 os st; let pass = pass AND r;
     st \<leftarrow> p2reset st; (r, st) \<leftarrow> test_level1 os st; let pass = pass AND r;
     st \<leftarrow> p2reset st; (r, st) \<leftarrow> test_level2 os st; let pass = pass AND r;
     st \<leftarrow> p2reset st; (r, st) \<leftarrow> test_level3 os st; let pass = pass AND r;
     st \<leftarrow> p2reset st; (r, st) \<leftarrow> test_level4 os st; let pass = pass AND r;
     Some (if pass \<noteq> 0 then 0 else 1, st)
   }"

end
