(* ===== verification/Ps_List_Correct.thy ===== *)
theory Ps_List_Correct
  imports Ps_List
begin

text \<open>
  The iteration macros of ps_list.h on the list abstraction, and the properties of the list as a
  component: insertion and removal undo each other, \<open>ps_list_foreach\<close> visits every node once and in
  order, \<open>ps_list_foreach_del\<close> does so while its body removes the node it is at.
\<close>

section \<open>Iteration\<close>

text \<open>A body that keeps the ring, and computes \<open>f\<close> on the caller's variables.\<close>

definition keeps_ring ::
    "addr \<Rightarrow> addr list \<Rightarrow> addr \<Rightarrow> (cmem \<Rightarrow> addr \<Rightarrow> 'a \<Rightarrow> (cmem \<times> 'a) option) \<Rightarrow> (addr \<Rightarrow> 'a \<Rightarrow> 'a) \<Rightarrow> bool" where
  "keeps_ring h xs off body f \<longleftrightarrow> (\<forall>m x acc. dll m h xs \<longrightarrow> x \<in> set xs \<longrightarrow>
     (\<exists>m'. body m (x - off) acc = Some (m', f (x - off) acc) \<and> dll m' h xs))"

lemma foreach_loop:
  assumes body: "keeps_ring h (as @ bs) off body f" and d: "dll m h (as @ bs)"
  shows "\<exists>m'. ps_list_foreach_loop h off body m (hd (bs @ [h]) - off) acc
      = Some (m', fold (\<lambda>x. f (x - off)) bs acc) \<and> dll m' h (as @ bs)"
  using assms
proof (induction bs arbitrary: as m acc)
  case Nil
  then show ?case by (simp add: ps_list_foreach_loop.simps ps_list_is_head_def ps_container_def)
next
  case (Cons b bs)
  have "h \<noteq> b" using dllD(2) [OF Cons.prems(2)] by auto
  then have nh: "\<not> ps_list_is_head h (b - off) off" by (simp add: ps_list_is_head_def ps_container_def)
  obtain m1 where m1: "body m (b - off) acc = Some (m1, f (b - off) acc)" "dll m1 h (as @ b # bs)"
    using Cons.prems unfolding keeps_ring_def by fastforce
  have nx: "ps_list_next m1 (b - off) off = Some (hd (bs @ [h]) - off)"
    using dll_next [OF m1(2)] by (simp add: ps_list_next_def ps_container_def)
  have "\<exists>m'. ps_list_foreach_loop h off body m1 (hd (bs @ [h]) - off) (f (b - off) acc)
      = Some (m', fold (\<lambda>x. f (x - off)) bs (f (b - off) acc)) \<and> dll m' h ((as @ [b]) @ bs)"
    using Cons.prems(1) m1(2) by (intro Cons.IH) simp_all
  then show ?case using nh m1(1) nx
    by (subst ps_list_foreach_loop.simps) simp
qed

text \<open>A body that takes the node it is called with out of the ring.\<close>

definition removes_node ::
    "addr \<Rightarrow> addr \<Rightarrow> (cmem \<Rightarrow> addr \<Rightarrow> 'a \<Rightarrow> (cmem \<times> 'a) option) \<Rightarrow> (addr \<Rightarrow> 'a \<Rightarrow> 'a) \<Rightarrow> bool" where
  "removes_node h off body f \<longleftrightarrow> (\<forall>m x xs acc. dll m h (x # xs) \<longrightarrow>
     (\<exists>m'. body m (x - off) acc = Some (m', f (x - off) acc) \<and> dll m' h xs))"

lemma foreach_del_loop:
  assumes body: "removes_node h off body f" and d: "dll m h xs"
  shows "\<exists>m'. ps_list_foreach_del_loop h off body m (hd (xs @ [h]) - off)
        (hd (tl (xs @ [h, hd (xs @ [h])])) - off) acc
      = Some (m', fold (\<lambda>x. f (x - off)) xs acc) \<and> dll m' h []"
  using d
proof (induction xs arbitrary: m acc)
  case Nil
  then show ?case by (simp add: ps_list_foreach_del_loop.simps ps_list_is_head_def ps_container_def)
next
  case (Cons x xs)
  have "h \<noteq> x" using dllD(2) [OF Cons.prems] by auto
  then have nh: "\<not> ps_list_is_head h (x - off) off" by (simp add: ps_list_is_head_def ps_container_def)
  obtain m1 where m1: "body m (x - off) acc = Some (m1, f (x - off) acc)" "dll m1 h xs"
    using body Cons.prems unfolding removes_node_def by blast
  have tmp: "hd (xs @ [h, y]) = hd (xs @ [h])" for y by (cases xs) simp_all
  have nx: "ps_list_next m1 (hd (xs @ [h]) - off) off = Some (hd (tl (xs @ [h, hd (xs @ [h])])) - off)"
  proof (cases xs)
    case Nil
    then show ?thesis using dll_first [OF m1(2)] by (simp add: ps_list_next_def ps_container_def)
  next
    case (Cons y ys)
    have "hd (ys @ [h, y]) = hd (ys @ [h])" by (cases ys) simp_all
    then show ?thesis using dll_next [of m1 h "[]" y ys] m1(2) Cons
      by (simp add: ps_list_next_def ps_container_def)
  qed
  show ?case using Cons.IH [OF m1(2), of "f (x - off) acc"] nh m1(1) nx
    by (subst ps_list_foreach_del_loop.simps) (simp add: tmp)
qed

section \<open>A ring in memory\<close>

text \<open>A mapping with an empty ring at its start, and a page beside it, to show the properties at.\<close>

definition ring_memory :: cmem where
  "ring_memory = \<lparr>bytes = put64 (put64 (\<lambda>_. 0) 4096 4096) 4104 4096, regions = [(4096, 256), (8192, 4096)]\<rparr>"

lemma ring_memory_node_ok: "node_ok ring_memory {4096, 4112, 4128}"
  by (auto simp: node_ok_def ring_memory_def mapped_def)

lemma ring_memory_dll: "dll ring_memory 4096 []"
proof -
  have "ps_list_next_field ring_memory 4096 = Some 4096"
    by (simp add: ps_list_next_field_def load64_def mapped_def ring_memory_def get64_def put64_def)
  moreover have "ps_list_previous_field ring_memory 4096 = Some 4096"
    by (simp add: ps_list_previous_field_def load64_def mapped_def ring_memory_def get64_def put64_def)
  ultimately show ?thesis
    using node_ok_subset [OF ring_memory_node_ok, of "{4096}"]
    by (simp add: dll_def linked_by_def links_def)
qed

text \<open>The same mapping with one node and with two.\<close>

lemma ring_memory_two:
  obtains m where "dll m 4096 [4112, 4128]"
proof -
  obtain m1 where m1: "dll m1 4096 [4112]" "changes (node_bytes {4096, 4112}) ring_memory m1"
    using ps_list_ll_add_spec [of ring_memory 4096 "[]" "[]" 4112] ring_memory_dll
      node_ok_subset [OF ring_memory_node_ok, of "{4096, 4112}"] by (auto simp: insert_commute)
  have "node_ok m1 {4096, 4112, 4128}"
    using ring_memory_node_ok node_ok_changes [OF m1(2)] by simp
  then show ?thesis
    using ps_list_ll_add_spec [of m1 4096 "[4112]" "[]" 4128] m1(1) that
    by (auto simp: insert_commute)
qed

section \<open>Properties\<close>

text \<open>C24. Adding a node behind any position of a ring (the sentinel or a node) puts it exactly
  there, and removing it gives the ring back, with the node alone in a ring of its own.\<close>

theorem ps_list_add_rem_roundtrip:
  assumes "dll m h (xs @ ys)" and "node_ok m (insert x (set (h # xs @ ys)))"
    and "x \<notin> set (h # xs @ ys)"
  shows "\<exists>m1 m2. ps_list_ll_add m (last (h # xs)) x = Some m1 \<and> dll m1 h (xs @ x # ys)
    \<and> ps_list_ll_rem m1 x = Some m2 \<and> dll m2 h (xs @ ys) \<and> dll m2 x []"
proof -
  obtain m1 where m1: "ps_list_ll_add m (last (h # xs)) x = Some m1" "dll m1 h (xs @ x # ys)"
    using ps_list_ll_add_spec [OF assms] by blast
  obtain m2 where m2: "ps_list_ll_rem m1 x = Some m2" "dll m2 h (xs @ ys)"
      "changes (node_bytes (set (h # xs @ x # ys))) m1 m2"
      "ps_list_next_field m2 x = Some x" "ps_list_previous_field m2 x = Some x"
    using ps_list_ll_rem_spec [OF m1(2)] .
  have "node_ok m2 {x}"
    using node_ok_subset [OF dllD(1) [OF m1(2)], of "{x}"] node_ok_changes [OF m2(3)] by simp
  then have "dll m2 x []" using m2(4,5) by (simp add: dll_def linked_by_def links_def)
  with m1 m2(1,2) show ?thesis by blast
qed

theorem ps_list_add_rem_roundtrip_witness:
  "\<exists>m1 m2. ps_list_ll_add ring_memory 4096 4112 = Some m1 \<and> dll m1 4096 [4112]
    \<and> ps_list_ll_rem m1 4112 = Some m2 \<and> dll m2 4096 [] \<and> dll m2 4112 []"
  using ps_list_add_rem_roundtrip [of ring_memory 4096 "[]" "[]" 4112] ring_memory_dll
    node_ok_subset [OF ring_memory_node_ok, of "{4096, 4112}"] by (simp add: insert_commute)

text \<open>\<open>ps_list_foreach\<close> ends, and has run its body on exactly the nodes of the ring, each once
  and from first to last, whatever the offset of the list field; a body that keeps the ring leaves
  it as it was.\<close>

lemma ps_list_foreach_visits_in_order:
  assumes "dll m h xs" and "keeps_ring h xs off body f"
  shows "\<exists>m'. ps_list_foreach h off body m acc = Some (m', fold (\<lambda>x. f (x - off)) xs acc) \<and> dll m' h xs"
  using foreach_loop [of h "[]" xs off body f m acc] assms dll_first [OF assms(1)]
  by (simp add: ps_list_foreach_def ps_list_head_first_def ps_container_def)

text \<open>C25. \<open>ps_list_foreach_del\<close> with a body that removes its node ends, visits every node once and
  in order, and leaves the ring empty: the successor it saved survives the removal.\<close>

theorem ps_list_foreach_del_empties:
  assumes "dll m h xs" and "removes_node h off body f"
  shows "\<exists>m'. ps_list_foreach_del h off body m acc = Some (m', fold (\<lambda>x. f (x - off)) xs acc) \<and> dll m' h []"
proof -
  have "ps_list_next m (hd (xs @ [h]) - off) off = Some (hd (tl (xs @ [h, hd (xs @ [h])])) - off)"
  proof (cases xs)
    case Nil
    then show ?thesis using dll_first [OF assms(1)] by (simp add: ps_list_next_def ps_container_def)
  next
    case (Cons y ys)
    have "hd (ys @ [h, y]) = hd (ys @ [h])" by (cases ys) simp_all
    then show ?thesis using dll_next [of m h "[]" y ys] assms(1) Cons
      by (simp add: ps_list_next_def ps_container_def)
  qed
  then show ?thesis using foreach_del_loop [OF assms(2,1), of acc] dll_first [OF assms(1)]
    by (simp add: ps_list_foreach_del_def ps_list_head_first_def ps_container_def)
qed

theorem ps_list_foreach_del_empties_witness:
  "\<exists>m m'. ps_list_foreach_del 4096 8 (\<lambda>m x n. do { m \<leftarrow> ps_list_rem m x 8; Some (m, n + x) }) m 0
     = Some (m', 8224) \<and> ps_list_head_empty m' 4096 = Some True"
proof -
  obtain m where m: "dll m 4096 [4112, 4128]" by (rule ring_memory_two)
  let ?body = "\<lambda>m x n. do { m \<leftarrow> ps_list_rem m x 8; Some (m, n + x) }"
  have "removes_node 4096 8 ?body (\<lambda>x n. n + x)"
    unfolding removes_node_def
  proof (intro allI impI)
    fix m x xs and n :: addr assume "dll m 4096 (x # xs)"
    then have "dll m 4096 ([] @ x # xs)" by simp
    then obtain m1 where "ps_list_ll_rem m x = Some m1" "dll m1 4096 ([] @ xs)"
      by (rule ps_list_ll_rem_spec)
    then show "\<exists>m'. ?body m (x - 8) n = Some (m', n + (x - 8)) \<and> dll m' 4096 xs"
      by (simp add: ps_list_rem_def)
  qed
  from ps_list_foreach_del_empties [OF m this, of 0] obtain m' where
    "ps_list_foreach_del 4096 8 ?body m 0 = Some (m', 8224)" and d: "dll m' 4096 []" by auto
  then show ?thesis using dll_singleton [OF d] by auto
qed

end
