(* ===== verification/Freelist_Correct.thy ===== *)
theory Freelist_Correct
  imports Freelist Ps_List_Correct
begin

text \<open>
  The free-list operations on the list abstraction: ordered insertion is \<open>oinsert\<close>, carving puts
  the blocks of a page in front of the list in descending address order, initialisation makes
  every head an empty ring.  Each lemma also bounds the bytes the operation changes.
\<close>

section \<open>The macros at offset 0\<close>

lemma ps_list_d_simps [simp]:
  "ps_list_init_d m a = ps_list_ll_init m a"
  "ps_list_prev_d m a = ps_list_previous_field m a"
  "ps_list_add_d m a n = ps_list_ll_add m a n"
  "ps_list_rem_d m a = ps_list_ll_rem m a"
  "ps_list_head_last_d m h = ps_list_previous_field m h"
  "ps_list_head_first_d m h = ps_list_next_field m h"
  "ps_list_head_add_d m h a = ps_list_ll_add m h a"
  "ps_list_head_append_d m h a = Option.bind (ps_list_previous_field m h) (\<lambda>p. ps_list_ll_add m p a)"
  by (simp_all add: ps_list_init_d_def ps_list_init_def ps_list_prev_d_def ps_list_prev_def
      ps_list_add_d_def ps_list_add_def ps_list_rem_d_def ps_list_rem_def
      ps_list_head_last_d_def ps_list_head_last_def ps_list_head_first_d_def
      ps_list_head_first_def ps_list_head_add_d_def ps_list_head_add_def
      ps_list_head_append_d_def ps_list_head_append_def node_list_offset_def ps_container_def)

section \<open>Ordered insertion\<close>

text \<open>
  What the search from the back does to a list: it passes the elements above \<open>x\<close> and puts \<open>x\<close>
  after the first one, seen from the back, that is not.
\<close>

fun rinsert :: "'a :: linorder \<Rightarrow> 'a list \<Rightarrow> 'a list" where
  "rinsert x [] = [x]"
| "rinsert x (c # cs) = (if c > x then c # rinsert x cs else x # c # cs)"

definition oinsert :: "'a :: linorder \<Rightarrow> 'a list \<Rightarrow> 'a list" where
  "oinsert x xs = rev (rinsert x (rev xs))"

lemma oinsert_Nil [simp]: "oinsert x [] = [x]"
  by (simp add: oinsert_def)

lemma oinsert_snoc [simp]:
  "oinsert x (xs @ [c]) = (if c > x then oinsert x xs @ [c] else xs @ [c, x])"
  by (simp add: oinsert_def)

lemma mset_oinsert [simp]: "mset (oinsert x xs) = add_mset x (mset xs)"
  by (induction xs rule: rev_induct) auto

lemma set_oinsert [simp]: "set (oinsert x xs) = insert x (set xs)"
  by (metis mset_oinsert set_mset_add_mset_insert set_mset_mset)

text \<open>On a list that is in ascending order it is the insertion of insertion sort.\<close>

lemma sorted_oinsert: "sorted xs \<Longrightarrow> sorted (oinsert x xs)"
  by (induction xs rule: rev_induct) (force simp: sorted_append)+

lemma oinsert_insort: "sorted xs \<Longrightarrow> oinsert x xs = insort x xs"
  using properties_for_sort [of "oinsert x xs" "x # xs"] sorted_oinsert [of xs x]
  by (simp add: sorted_sort_id)

lemma p2orderedinsert_loop_spec:
  assumes "dll m h (pre @ cursor # suf)"
    and "node_ok m (insert node (set (h # pre @ cursor # suf)))"
    and "node \<notin> set (h # pre @ cursor # suf)"
  shows "\<exists>m'. p2orderedinsert_loop h node m cursor = Some m'
    \<and> dll m' h (oinsert node (pre @ [cursor]) @ suf)
    \<and> changes (node_bytes (insert node (set (h # pre @ cursor # suf)))) m m'"
  using assms
proof (induction pre arbitrary: cursor suf rule: rev_induct)
  case Nil
  show ?case
  proof (cases "cursor > node")
    case True
    have "ps_list_previous_field m cursor = Some h"
      using dll_previous [of m h "[]" cursor suf] Nil.prems(1) by simp
    moreover obtain m' where "ps_list_ll_add m h node = Some m'" "dll m' h (node # cursor # suf)"
        "changes (node_bytes (insert node (set (h # cursor # suf)))) m m'"
      using ps_list_ll_add_spec [of m h "[]" "cursor # suf" node] Nil.prems by auto
    ultimately show ?thesis using True
      by (simp add: p2orderedinsert_loop.simps [of h node m cursor] node_list_offset_def
          oinsert_snoc [of node "[]", simplified])
  next
    case False
    obtain m' where "ps_list_ll_add m cursor node = Some m'" "dll m' h (cursor # node # suf)"
        "changes (node_bytes (insert node (set (h # cursor # suf)))) m m'"
      using ps_list_ll_add_spec [of m h "[cursor]" suf node] Nil.prems by auto
    then show ?thesis using False
      by (simp add: p2orderedinsert_loop.simps [of h node m cursor]
          oinsert_snoc [of node "[]", simplified])
  qed
next
  case (snoc c pre)
  show ?case
  proof (cases "cursor > node")
    case True
    have p: "ps_list_previous_field m cursor = Some c"
      using dll_previous [of m h "pre @ [c]" cursor suf] snoc.prems(1) by simp
    have "c \<noteq> h" using dllD(2) [OF snoc.prems(1)] by auto
    moreover have "\<exists>m'. p2orderedinsert_loop h node m c = Some m'
        \<and> dll m' h (oinsert node (pre @ [c]) @ cursor # suf)
        \<and> changes (node_bytes (insert node (set (h # pre @ c # cursor # suf)))) m m'"
      using snoc.IH [of c "cursor # suf"] snoc.prems by simp
    ultimately show ?thesis using True p
      by (auto simp: p2orderedinsert_loop.simps [of h node m cursor] node_list_offset_def
          oinsert_snoc [of node "pre @ [c]", simplified])
  next
    case False
    obtain m' where "ps_list_ll_add m cursor node = Some m'"
        "dll m' h ((pre @ [c, cursor]) @ node # suf)"
        "changes (node_bytes (insert node (set (h # (pre @ [c, cursor]) @ suf)))) m m'"
      using ps_list_ll_add_spec [of m h "pre @ [c, cursor]" suf node] snoc.prems by auto
    then show ?thesis using False
      by (simp add: p2orderedinsert_loop.simps [of h node m cursor]
          oinsert_snoc [of node "pre @ [c]", simplified])
  qed
qed

lemma p2orderedinsert_spec:
  assumes d: "dll m (list_head fl) xs"
    and ok: "node_ok m (insert node (set (list_head fl # xs)))"
    and new: "node \<notin> set (list_head fl # xs)"
  obtains m' where "p2orderedinsert m node fl = Some m'"
    and "dll m' (list_head fl) (oinsert node xs)"
    and "changes (node_bytes (insert node (set (list_head fl # xs)))) m m'"
proof (cases xs rule: rev_cases)
  case Nil
  obtain m' where "ps_list_ll_add m (list_head fl) node = Some m'" "dll m' (list_head fl) [node]"
      "changes (node_bytes (insert node {list_head fl})) m m'"
    using ps_list_ll_add_spec [of m "list_head fl" "[]" "[]" node] assms Nil by auto
  with Nil dll_singleton [OF d] dll_last [OF d] show ?thesis
    by (intro that [of m']) (simp_all add: p2orderedinsert_def)
next
  case (snoc ys y)
  have "\<exists>m'. p2orderedinsert_loop (list_head fl) node m y = Some m'
      \<and> dll m' (list_head fl) (oinsert node (ys @ [y]) @ [])
      \<and> changes (node_bytes (insert node (set (list_head fl # ys @ [y])))) m m'"
    using p2orderedinsert_loop_spec [of m "list_head fl" ys y "[]" node] assms snoc by simp
  with snoc dll_singleton [OF d] dll_last [OF d] show ?thesis
    by (auto simp: p2orderedinsert_def intro: that)
qed

section \<open>Carving\<close>

text \<open>The first \<open>n\<close> blocks of \<open>s\<close> bytes from \<open>a\<close>, in address order.\<close>

fun blocks :: "addr \<Rightarrow> nat \<Rightarrow> nat \<Rightarrow> addr list" where
  "blocks a s 0 = []"
| "blocks a s (Suc n) = a # blocks (a + of_nat s) s n"

lemma length_blocks [simp]: "length (blocks a s n) = n"
  by (induction n arbitrary: a) auto

lemma blocks_nth: "k < n \<Longrightarrow> blocks a s n ! k = a + of_nat (k * s)"
  by (induction n arbitrary: a k) (auto simp: nth_Cons algebra_simps split: nat.splits)

lemma blocks_range:
  assumes "b \<in> set (blocks a s n)" and "unat a + n * s < 2 ^ 64"
  shows "unat a \<le> unat b \<and> unat b + s \<le> unat a + n * s \<and> (\<exists>k < n. unat b = unat a + k * s)"
proof -
  from assms(1) obtain k where k: "k < n" "b = a + of_nat (k * s)"
    by (auto simp: in_set_conv_nth blocks_nth)
  have le: "k * s + s \<le> n * s" using k(1) mult_le_mono1 [of "Suc k" n s] by simp
  with assms(2) have "unat b = unat a + k * s" unfolding k(2) by (intro unat_add_num) simp
  with le k(1) show ?thesis by auto
qed

text \<open>They tile the range: disjoint, inside it, and of its total length.\<close>

definition block_extents :: "nat \<Rightarrow> addr list \<Rightarrow> extent multiset" where
  "block_extents s xs = mset (map (\<lambda>a. (a, s)) xs)"

lemma block_extents_simps [simp]:
  "block_extents s [] = {#}"
  "block_extents s (x # xs) = add_mset (x, s) (block_extents s xs)"
  "block_extents s (xs @ ys) = block_extents s xs + block_extents s ys"
  "block_extents s (rev xs) = block_extents s xs"
  by (simp_all add: block_extents_def rev_map [symmetric])

lemma total_block_extents [simp]: "total (block_extents s xs) = length xs * s"
  by (induction xs) auto

lemma mem_block_extents [simp]: "c \<in># block_extents s xs \<longleftrightarrow> fst c \<in> set xs \<and> snd c = s"
  by (cases c) (auto simp: block_extents_def)

lemma set_block_extents: "set_mset (block_extents s xs) = (\<lambda>a. (a, s)) ` set xs"
  by (simp add: block_extents_def)

lemma block_extents_oinsert [simp]:
  "block_extents s (oinsert x xs) = add_mset (x, s) (block_extents s xs)"
  by (simp add: block_extents_def)

lemma eset_blocks: "unat a + n * s < 2 ^ 64 \<Longrightarrow> eset (block_extents s (blocks a s n)) \<subseteq> span_of a (n * s)"
  by (auto simp: mem_eset espan_def dest!: blocks_range)

lemma disj_blocks: "unat a + n * s < 2 ^ 64 \<Longrightarrow> disj (block_extents s (blocks a s n))"
proof (induction n arbitrary: a)
  case 0
  then show ?case by simp
next
  case (Suc n)
  have a': "unat (a + of_nat s) = unat a + s" using Suc.prems by (intro unat_add_num) simp
  then have "disj (block_extents s (blocks (a + of_nat s) s n))"
    using Suc.prems by (intro Suc.IH) simp
  moreover have "espan (a, s) \<inter> espan c = {}" if "c \<in># block_extents s (blocks (a + of_nat s) s n)" for c
    using that blocks_range [of "fst c" "a + of_nat s" s n] Suc.prems a' by (auto simp: espan_def)
  ultimately show ?case by (auto simp: disj_add_mset)
qed

lemma carve_loop_spec:
  assumes "dll m h xs" and "node_ok m (set (h # xs) \<union> set (blocks a s n))"
    and "distinct (h # blocks a s n @ xs)" and "unat a + n * s < 2 ^ 64" and "0 < s"
  shows "\<exists>m'. carve_loop h (a + of_nat (n * s)) (of_nat s) m a = Some m'
    \<and> dll m' h (rev (blocks a s n) @ xs)
    \<and> changes (node_bytes (set (h # xs) \<union> set (blocks a s n))) m m'"
  using assms
proof (induction n arbitrary: a m xs)
  case 0
  then show ?case by (simp add: carve_loop.simps)
next
  case (Suc n)
  let ?S = "set (h # xs) \<union> set (blocks a s (Suc n))"
  have a': "unat (a + of_nat s) = unat a + s" using Suc.prems(4) by (intro unat_add_num) simp
  have lt: "a < a + of_nat (Suc n * s)"
    using Suc.prems(4,5) unat_add_num [of a "Suc n * s"] by (simp add: word_less_nat_alt)
  have stop: "a + of_nat (Suc n * s) = (a + of_nat s) + of_nat (n * s)" by simp
  obtain m1 where m1: "ps_list_ll_init m a = Some m1" "changes (span_of a 16) m m1"
    using ps_list_ll_init_spec [OF Suc.prems(2), of a] by auto
  have "node_bytes (set (h # xs)) \<inter> span_of a 16 = {}"
    using Suc.prems(2,3) by (auto simp: node_bytes_def node_ok_def simp del: mem_span_of)
  then have d1: "dll m1 h xs" by (rule dll_frame [OF Suc.prems(1) m1(2)])
  have ok1: "node_ok m1 (insert a (set (h # [] @ xs)))"
    unfolding node_ok_changes [OF m1(2)] by (rule node_ok_subset [OF Suc.prems(2)]) auto
  have "dll m1 h ([] @ xs)" and "a \<notin> set (h # [] @ xs)" using d1 Suc.prems(3) by auto
  then obtain m2 where m2: "ps_list_ll_add m1 h a = Some m2" "dll m2 h (a # xs)"
      "changes (node_bytes (insert a (set (h # xs)))) m1 m2"
    using ps_list_ll_add_spec [OF _ ok1] by auto
  have "node_ok m2 (set (h # a # xs) \<union> set (blocks (a + of_nat s) s n))"
    unfolding node_ok_changes [OF m2(3)] node_ok_changes [OF m1(2)]
    by (rule node_ok_subset [OF Suc.prems(2)]) auto
  moreover have "distinct (h # blocks (a + of_nat s) s n @ a # xs)"
    using Suc.prems(3) by auto
  moreover have "unat (a + of_nat s) + n * s < 2 ^ 64" using Suc.prems(4) a' by simp
  ultimately obtain m3 where
    m3: "carve_loop h ((a + of_nat s) + of_nat (n * s)) (of_nat s) m2 (a + of_nat s) = Some m3"
      "dll m3 h (rev (blocks (a + of_nat s) s n) @ a # xs)"
      "changes (node_bytes (set (h # a # xs) \<union> set (blocks (a + of_nat s) s n))) m2 m3"
    using Suc.IH [OF m2(2) _ _ _ Suc.prems(5)] by blast
  have "changes (node_bytes ?S) m m2"
    using m1(2) m2(3) by (rule changes_trans) (auto simp: node_bytes_def simp del: mem_span_of)
  then have "changes (node_bytes ?S) m m3"
    using m3(3) by (rule changes_trans) (auto simp: node_bytes_def simp del: mem_span_of)
  moreover have "carve_loop h (a + of_nat (Suc n * s)) (of_nat s) m a = Some m3"
    using m1(1) m2(1) m3(1) lt unfolding stop
    by (simp add: carve_loop.simps [of h _ _ m a] del: of_nat_mult)
  ultimately show ?case using m3(2) by simp
qed

text \<open>The step is the block size of the list, so a page becomes \<open>4096 / block_size\<close> blocks.\<close>

definition page_blocks :: "addr \<Rightarrow> nat \<Rightarrow> addr list" where
  "page_blocks page i = blocks page (block_size i) (4096 div block_size i)"

lemma scast_pow2:
  assumes "i < 8"
  shows "scast (push_bit (i + BASE_SHIFT) 1 :: u32) = (of_nat (block_size i) :: u64)"
  using assms by (elim lt8_cases) (simp_all add: BASE_SHIFT_def)

lemma blocks_per_page: "i < 8 \<Longrightarrow> 4096 div block_size i * block_size i = 4096"
  using block_size_dvd_page by (simp add: dvd_div_mult_self)

lemma carve_page_spec:
  assumes i: "i < 8" and p2: "pow2 fl = push_bit (i + BASE_SHIFT) 1"
    and "dll m (list_head fl) xs" and "node_ok m (set (list_head fl # xs) \<union> set (page_blocks page i))"
    and "distinct (list_head fl # page_blocks page i @ xs)" and "unat page + 4096 < 2 ^ 64"
  obtains m' where "carve_page m fl page = Some m'"
    and "dll m' (list_head fl) (rev (page_blocks page i) @ xs)"
    and "changes (node_bytes (set (list_head fl # xs) \<union> set (page_blocks page i))) m m'"
proof -
  have "\<exists>m'. carve_loop (list_head fl) (page + of_nat (4096 div block_size i * block_size i))
        (of_nat (block_size i)) m page = Some m'
      \<and> dll m' (list_head fl) (rev (page_blocks page i) @ xs)
      \<and> changes (node_bytes (set (list_head fl # xs) \<union> set (page_blocks page i))) m m'"
    unfolding page_blocks_def
    by (rule carve_loop_spec)
      (use assms blocks_per_page [OF i] in \<open>simp_all add: page_blocks_def\<close>)
  then show ?thesis
    using that unfolding carve_page_def p2 scast_pow2 [OF i] blocks_per_page [OF i] by auto
qed

section \<open>Initialisation\<close>

definition heads :: "p2state \<Rightarrow> addr list" where
  "heads st = map list_head (freelists st)"

lemma length_heads [simp]: "length (heads st) = length (freelists st)"
  by (simp add: heads_def)

lemma heads_nth: "i < length (freelists st) \<Longrightarrow> heads st ! i = list_head (freelists st ! i)"
  by (simp add: heads_def)

text \<open>Initialising head \<open>i\<close> makes it an empty ring and keeps the empty rings of the others.\<close>

lemma head_init_step:
  assumes ok: "node_ok m (set hs)" and d: "distinct hs" and i: "i < length hs"
    and rings: "\<forall>j < i. dll m (hs ! j) []"
  obtains m' where "ps_list_head_init m (hs ! i) = Some m'" and "changes (node_bytes (set hs)) m m'"
    and "\<forall>j < Suc i. dll m' (hs ! j) []"
proof -
  obtain m' where m': "ps_list_ll_init m (hs ! i) = Some m'" "dll m' (hs ! i) []"
      "changes (span_of (hs ! i) 16) m m'"
    using ps_list_ll_init_spec [OF ok, of "hs ! i"] i by auto
  have "dll m' (hs ! j) []" if "j < Suc i" for j
  proof (cases "j = i")
    case False
    then have "j < i" and "hs ! j \<noteq> hs ! i" using that i d by (auto simp: nth_eq_iff_index_eq)
    then have "span_of (hs ! j) 16 \<inter> span_of (hs ! i) 16 = {}" and "dll m (hs ! j) []"
      using ok i rings unfolding node_ok_def by auto
    then show ?thesis by (intro dll_frame [OF _ m'(3)]) (simp_all del: mem_span_of)
  qed (use m'(2) in simp)
  moreover have "changes (node_bytes (set hs)) m m'"
    using nth_mem [OF i]
    by (intro changes_mono [OF m'(3)]) (unfold node_bytes_def, blast)
  ultimately show ?thesis using m'(1) that by (simp add: ps_list_head_init_def)
qed

definition init_head :: "nat \<Rightarrow> p2freelist_head \<Rightarrow> p2freelist_head" where
  "init_head i fl = fl\<lparr>pow2 := push_bit (i + BASE_SHIFT) 1, lock := Unlocked\<rparr>"

lemma list_head_init_head [simp]: "list_head (init_head i fl) = list_head fl"
  by (simp add: init_head_def)

lemma freelists_init_loop_spec:
  assumes "length (freelists st) = 8" and "node_ok (mem st) (set (heads st))"
    and "distinct (heads st)" and "\<forall>j < i. dll (mem st) (heads st ! j) []" and "i \<le> 8"
  shows "\<exists>m. freelists_init_loop i st =
      Some (st\<lparr>mem := m, freelists :=
        map (\<lambda>j. if j < i then freelists st ! j else init_head j (freelists st ! j)) [0..<8]\<rparr>)
    \<and> changes (node_bytes (set (heads st))) (mem st) m
    \<and> (\<forall>j < 8. dll m (heads st ! j) [])"
  using assms
proof (induction "8 - i" arbitrary: i st rule: less_induct)
  case less
  show ?case
  proof (cases "i < 8")
    case False
    then have "map (\<lambda>j. if j < i then freelists st ! j else init_head j (freelists st ! j)) [0..<8]
        = freelists st"
      using less.prems by (intro nth_equalityI) auto
    with False less.prems show ?thesis by (intro exI [of _ "mem st"]) (simp add: freelists_init_loop.simps)
  next
    case True
    define fl where "fl = freelists st ! i"
    have at: "fl_at st i = Some fl" and hd: "heads st ! i = list_head fl"
      using True less.prems(1) by (simp_all add: fl_at_def fl_def heads_nth)
    obtain m where m: "ps_list_head_init (mem st) (list_head fl) = Some m"
        "changes (node_bytes (set (heads st))) (mem st) m" "\<forall>j < Suc i. dll m (heads st ! j) []"
      using head_init_step [OF less.prems(2,3) _ less.prems(4)] True less.prems(1) hd by auto
    define st' where "st' = set_fl (st\<lparr>mem := m\<rparr>) i (init_head i fl)"
    have fls: "freelists st' = (freelists st)[i := init_head i fl]" by (simp add: st'_def set_fl_def)
    have hds: "heads st' = heads st"
      by (simp add: heads_def fls map_update fl_def [symmetric])
        (metis fl_def heads_def heads_nth hd list_update_id)
    have len: "length (freelists st') = 8" and mem': "mem st' = m"
      using less.prems(1) by (simp_all add: st'_def set_fl_def)
    have rec: "freelists_init_loop i st = freelists_init_loop (Suc i) st'"
      using True by (simp add: freelists_init_loop.simps [of i st] at m(1) st'_def init_head_def
          MUTEX_INIT_def)
    have "\<exists>m'. freelists_init_loop (Suc i) st' =
        Some (st'\<lparr>mem := m', freelists :=
          map (\<lambda>j. if j < Suc i then freelists st' ! j else init_head j (freelists st' ! j)) [0..<8]\<rparr>)
      \<and> changes (node_bytes (set (heads st'))) (mem st') m' \<and> (\<forall>j < 8. dll m' (heads st' ! j) [])"
      (is "\<exists>m'. _ = Some (_\<lparr>mem := m', freelists := ?F'\<rparr>) \<and> _")
      using True len m(3) less.prems(2,3)
      by (intro less.hyps) (simp_all add: hds mem' node_ok_changes [OF m(2)])
    then obtain m' where r: "freelists_init_loop (Suc i) st' = Some (st'\<lparr>mem := m', freelists := ?F'\<rparr>)"
      and ch: "changes (node_bytes (set (heads st))) m m'" and "\<forall>j < 8. dll m' (heads st ! j) []"
      unfolding hds mem' by blast
    moreover have "?F' = map (\<lambda>j. if j < i then freelists st ! j else init_head j (freelists st ! j)) [0..<8]"
      using True less.prems(1) by (intro nth_equalityI) (auto simp: fls fl_def nth_list_update less_Suc_eq)
    then have "freelists_init_loop i st = Some (st\<lparr>mem := m', freelists :=
        map (\<lambda>j. if j < i then freelists st ! j else init_head j (freelists st ! j)) [0..<8]\<rparr>)"
      unfolding rec r by (simp add: st'_def set_fl_def)
    moreover have "changes (node_bytes (set (heads st))) (mem st) m'"
      using m(2) ch by (rule changes_trans) auto
    ultimately show ?thesis by blast
  qed
qed

text \<open>Initialisation from scratch, and the reset of the heads alone.\<close>

lemma freelists_init_spec:
  assumes "length (freelists st) = 8" and "node_ok (mem st) (set (heads st))"
    and "distinct (heads st)"
  obtains m where "freelists_init st =
      Some (st\<lparr>mem := m, freelists := map (\<lambda>j. init_head j (freelists st ! j)) [0..<8]\<rparr>)"
    and "changes (node_bytes (set (heads st))) (mem st) m"
    and "\<forall>j < 8. dll m (heads st ! j) []"
  using freelists_init_loop_spec [OF assms, of 0] by (auto simp: freelists_init_def)

section \<open>Properties\<close>

text \<open>Where the search from the back stops.\<close>

lemma oinsert_split:
  "\<exists>as bs. xs = as @ bs \<and> oinsert x xs = as @ x # bs \<and> (\<forall>b \<in> set bs. x < b) \<and> (as = [] \<or> last as \<le> x)"
proof (induction xs rule: rev_induct)
  case (snoc c xs)
  show ?case
  proof (cases "c > x")
    case True
    obtain as bs where ab: "xs = as @ bs" "oinsert x xs = as @ x # bs" "\<forall>b \<in> set bs. x < b"
        "as = [] \<or> last as \<le> x" using snoc by blast
    have "oinsert x (xs @ [c]) = as @ x # (bs @ [c])" using True ab(2) by simp
    moreover have "xs @ [c] = as @ (bs @ [c])" using ab(1) by simp
    moreover have "\<forall>b \<in> set (bs @ [c]). x < b" using True ab(3) by simp
    ultimately show ?thesis using ab(4) by blast
  next
    case False
    then show ?thesis by - (rule exI [of _ "xs @ [c]"], rule exI [of _ "[]"], auto)
  qed
qed simp

text \<open>C20. \<open>p2orderedinsert\<close> always ends and links the node between the nodes above it at the back of
  the list and the last node not above it, whatever the order of the list; in an ascending list that
  is the insertion of insertion sort, and the list stays ascending.\<close>

theorem p2orderedinsert_position:
  assumes "dll m (list_head fl) xs" and "node_ok m (insert node (set (list_head fl # xs)))"
    and "node \<notin> set (list_head fl # xs)"
  shows "\<exists>m' as bs. p2orderedinsert m node fl = Some m' \<and> xs = as @ bs
    \<and> dll m' (list_head fl) (as @ node # bs)
    \<and> (\<forall>b \<in> set bs. node < b) \<and> (as = [] \<or> last as \<le> node)
    \<and> (sorted xs \<longrightarrow> as @ node # bs = insort node xs \<and> sorted (as @ node # bs))"
proof -
  obtain m' where m': "p2orderedinsert m node fl = Some m'" "dll m' (list_head fl) (oinsert node xs)"
    using p2orderedinsert_spec [OF assms] by blast
  obtain as bs where ab: "xs = as @ bs" "oinsert node xs = as @ node # bs" "\<forall>b \<in> set bs. node < b"
      "as = [] \<or> last as \<le> node" using oinsert_split [of xs node] by blast
  have "sorted xs \<longrightarrow> as @ node # bs = insort node xs \<and> sorted (as @ node # bs)"
    using oinsert_insort [of xs node] sorted_oinsert [of xs node] unfolding ab(2) by blast
  with m' ab show ?thesis unfolding ab(2) by blast
qed

theorem p2orderedinsert_position_witness:
  "\<exists>m. p2orderedinsert ring_memory 4112 \<lparr>pow2 = 32, list_head = 4096, lock = Locked\<rparr> = Some m
     \<and> dll m 4096 [4112]"
  using p2orderedinsert_position [of ring_memory "\<lparr>pow2 = 32, list_head = 4096, lock = Locked\<rparr>" "[]" 4112]
    ring_memory_dll node_ok_subset [OF ring_memory_node_ok, of "{4096, 4112}"]
  by (simp add: insert_commute)

text \<open>The blocks of a page and a list head that lies outside it are separate list nodes.\<close>

lemma sorted_blocks: "unat a + n * s < 2 ^ 64 \<Longrightarrow> 0 < s \<Longrightarrow> sorted_wrt (<) (blocks a s n)"
proof (induction n arbitrary: a)
  case (Suc n)
  have a': "unat (a + of_nat s) = unat a + s" using Suc.prems(1) by (intro unat_add_num) simp
  have "a < b" if "b \<in> set (blocks (a + of_nat s) s n)" for b
    using blocks_range [OF that] Suc.prems a' by (simp add: word_less_nat_alt)
  with Suc a' show ?case by simp
qed simp

lemma eset_page_blocks:
  assumes i: "i < 8" and nw: "unat page + 4096 < 2 ^ 64"
  shows "eset (block_extents (block_size i) (page_blocks page i)) = span_of page 4096"
    and "disj (block_extents (block_size i) (page_blocks page i))"
proof -
  let ?M = "block_extents (block_size i) (page_blocks page i)"
  have n: "unat page + 4096 div block_size i * block_size i < 2 ^ 64" using nw blocks_per_page [OF i] by simp
  show dj: "disj ?M" using disj_blocks [OF n] by (simp add: page_blocks_def)
  have sub: "eset ?M \<subseteq> span_of page 4096"
    using eset_blocks [OF n] unfolding page_blocks_def blocks_per_page [OF i] .
  have "card (eset ?M) = card (span_of page 4096)"
    unfolding disj_card_eset [OF dj] using blocks_per_page [OF i] by (simp add: page_blocks_def)
  with sub show "eset ?M = span_of page 4096" by (intro card_subset_eq) simp_all
qed

lemma page_nodes_ok:
  assumes i: "i < 8" and nw: "unat page + 4096 < 2 ^ 64" and mp: "mapped m page 4096"
    and h: "node_ok m {h}" and apart: "span_of h 16 \<inter> span_of page 4096 = {}"
  shows "node_ok m (set [h] \<union> set (page_blocks page i))" and "distinct (h # page_blocks page i @ [])"
proof -
  let ?B = "block_extents (block_size i) (page_blocks page i)" and ?bs = "page_blocks page i"
  note e = eset_page_blocks [OF i nw]
  have dj: "disj (add_mset (h, 16) ?B)"
    unfolding disj_add_mset_eset using e apart by simp
  have blk: "mapped m b (block_size i) \<and> unat b + block_size i \<le> 2 ^ 64" if "b \<in> set ?bs" for b
  proof -
    have "unat page \<le> unat b" and "unat b + block_size i \<le> unat page + 4096"
      using blocks_range [of b page "block_size i" "4096 div block_size i"] that nw
      unfolding page_blocks_def blocks_per_page [OF i] by blast+
    then show ?thesis using mp nw by (auto intro: mapped_sub)
  qed
  have "mapped m (fst c) (snd c) \<and> unat (fst c) + snd c \<le> 2 ^ 64 \<and> 16 \<le> snd c"
    if "c \<in># add_mset (h, 16) ?B" for c
  proof (cases "c = (h, 16)")
    case True
    then show ?thesis using h by (simp add: node_ok_def)
  next
    case False
    then have c: "fst c \<in> set ?bs" "snd c = block_size i" using that by auto
    then show ?thesis using blk [OF c(1)] block_size_ge [of i] by simp
  qed
  then have "node_ok m (fst ` set_mset (add_mset (h, 16) ?B))" by (rule extents_node_ok [OF dj])
  moreover have "fst ` set_mset (add_mset (h, 16) ?B) = set [h] \<union> set ?bs"
    by (simp add: set_block_extents image_image)
  ultimately show "node_ok m (set [h] \<union> set ?bs)" by simp
  have "h \<notin> fst ` set_mset ?B" by (rule disj_new_start [OF dj]) auto
  then have "h \<notin> set ?bs" by (simp add: set_block_extents image_image)
  moreover have "distinct ?bs"
    using sorted_blocks [of page "4096 div block_size i" "block_size i"] nw
    unfolding page_blocks_def blocks_per_page [OF i]
    by (simp add: strict_sorted_iff)
  ultimately show "distinct (h # ?bs @ [])" by simp
qed

text \<open>C21. Carving a fresh page of list \<open>i\<close> ends and puts \<open>4096 / 2^(i+5)\<close> blocks of equal size on the
  list; together they are exactly the bytes of the page, without overlap.  The list starts with the
  block at the highest address: it is in descending, not in ascending address order.\<close>

theorem carve_page_tiles:
  assumes "i < 8" and "pow2 fl = push_bit (i + BASE_SHIFT) 1" and "dll m (list_head fl) []"
    and "mapped m page 4096" and "unat page + 4096 < 2 ^ 64" and "span_of (list_head fl) 16 \<inter> span_of page 4096 = {}"
  shows "\<exists>m' bs. carve_page m fl page = Some m' \<and> dll m' (list_head fl) (rev bs)
    \<and> length bs = 4096 div 2 ^ (i + 5) \<and> sorted_wrt (<) bs
    \<and> disj (block_extents (2 ^ (i + 5)) bs) \<and> eset (block_extents (2 ^ (i + 5)) bs) = span_of page 4096"
proof -
  let ?bs = "page_blocks page i"
  have h: "node_ok m {list_head fl}" using dllD(1) [OF assms(3)] by simp
  note ok = page_nodes_ok [OF assms(1,5,4) h assms(6)] and e = eset_page_blocks [OF assms(1,5)]
  obtain m' where "carve_page m fl page = Some m'" "dll m' (list_head fl) (rev ?bs @ [])"
    using carve_page_spec [OF assms(1,2,3) _ ok(2) assms(5)] ok(1) by auto
  moreover have "sorted_wrt (<) ?bs"
    using sorted_blocks [of page "4096 div block_size i" "block_size i"] assms(5)
    unfolding page_blocks_def blocks_per_page [OF assms(1)] by simp
  moreover have "length ?bs = 4096 div 2 ^ (i + 5)"
    by (simp add: page_blocks_def block_size_def BASE_SHIFT_def)
  moreover have "block_size i = 2 ^ (i + 5)" by (simp add: block_size_def BASE_SHIFT_def)
  ultimately show ?thesis using e by (intro exI [of _ m'] exI [of _ ?bs]) simp
qed

theorem carve_page_tiles_witness:
  "\<exists>m bs. carve_page ring_memory \<lparr>pow2 = 128, list_head = 4096, lock = Locked\<rparr> 8192 = Some m
     \<and> dll m 4096 (rev bs) \<and> length bs = 32"
proof -
  have "mapped ring_memory 8192 4096" by (simp add: mapped_def ring_memory_def)
  moreover have "span_of 4096 16 \<inter> span_of (8192 :: addr) 4096 = {}" by (auto simp: span_of_def)
  ultimately show ?thesis
    using carve_page_tiles [of 2 "\<lparr>pow2 = 128, list_head = 4096, lock = Locked\<rparr>" ring_memory 8192]
      ring_memory_dll by (simp add: BASE_SHIFT_def push_bit_eq_mult del: mem_span_of) blast
qed

end
