(* ===== verification/P2_Inv.thy ===== *)
theory P2_Inv
  imports P2malloc Freelist_Correct
begin

text \<open>
  The invariant of the allocator.  The abstract state \<open>astate\<close> is the address lists of the eight
  free lists and the multiset of live allocations (header address, requested size, \<open>alloc_size\<close>).
  \<open>p2_rel st g\<close> relates a concrete state to it: who owns which bytes (\<open>p2_geom\<close>), the rings in
  memory (\<open>p2_rings\<close>), the headers of the live blocks (\<open>p2_headers\<close>) and the two counters.
\<close>

section \<open>Abstract states\<close>

type_synonym allocation = "addr \<times> u64 \<times> u64"

record astate =
  a_free :: "addr list list"
  a_live :: "allocation multiset"

text \<open>The bytes a live allocation holds: its block, or its own mapping.\<close>

definition live_len :: "u64 \<Rightarrow> u64 \<Rightarrow> nat" where
  "live_len sz al = (if al = 0 then block_size (nat (get_freelist_idx sz)) else unat al)"

definition live_extent :: "allocation \<Rightarrow> extent" where
  "live_extent = (\<lambda>(h, sz, al). (h, live_len sz al))"

lemma live_extent_simp [simp]: "live_extent (h, sz, al) = (h, live_len sz al)"
  by (simp add: live_extent_def)

definition live_extents :: "allocation multiset \<Rightarrow> extent multiset" where
  "live_extents L = image_mset live_extent L"

lemma live_extents_simps [simp]:
  "live_extents {#} = {#}"
  "live_extents (add_mset l L) = add_mset (live_extent l) (live_extents L)"
  by (simp_all add: live_extents_def)

definition ring_extents :: "addr list \<Rightarrow> nat \<Rightarrow> addr list \<Rightarrow> extent multiset" where
  "ring_extents hs i xs = add_mset (hs ! i, 16) (block_extents (block_size i) xs)"

definition extents :: "addr list \<Rightarrow> astate \<Rightarrow> extent multiset" where
  "extents hs g = (\<Sum>i < 8. ring_extents hs i (a_free g ! i)) + live_extents (a_live g)"

text \<open>Without the list heads: what has come from the operating system.\<close>

definition owned :: "astate \<Rightarrow> extent multiset" where
  "owned g = (\<Sum>i < 8. block_extents (block_size i) (a_free g ! i)) + live_extents (a_live g)"

definition requested :: "allocation multiset \<Rightarrow> nat" where
  "requested L = (\<Sum>(h, sz, al) \<in># L. unat sz)"

lemma requested_simps [simp]:
  "requested {#} = 0"
  "requested (add_mset (h, sz, al) L) = unat sz + requested L"
  by (simp_all add: requested_def)

definition valid_live :: "allocation \<Rightarrow> bool" where
  "valid_live = (\<lambda>(h, sz, al). sz \<noteq> 0 \<and>
     (if al = 0 then unat sz \<le> 4080
      else 4080 < unat sz \<and> unat sz + 16 + 4095 < 2 ^ 64 \<and> al = page_align (16 + sz)))"

section \<open>The invariant\<close>

definition p2_geom :: "cmem \<Rightarrow> addr list \<Rightarrow> astate \<Rightarrow> bool" where
  "p2_geom m hs g \<longleftrightarrow>
     length hs = 8 \<and> length (a_free g) = 8 \<and> disj (extents hs g)
     \<and> (\<forall>c \<in># extents hs g. mapped m (fst c) (snd c) \<and> unat (fst c) + snd c < 2 ^ 64)
     \<and> (\<forall>c \<in># owned g. 16 dvd unat (fst c))
     \<and> (\<forall>l \<in># a_live g. valid_live l)"

definition p2_rings :: "cmem \<Rightarrow> addr list \<Rightarrow> addr list list \<Rightarrow> bool" where
  "p2_rings m hs fs \<longleftrightarrow> (\<forall>i < 8. dll m (hs ! i) (fs ! i))"

definition p2_header :: "cmem \<Rightarrow> allocation \<Rightarrow> bool" where
  "p2_header m = (\<lambda>(h, sz, al). load64 m h = Some sz \<and> load64 m (h + 8) = Some al
     \<and> (al \<noteq> 0 \<longrightarrow> (h, unat al) \<in> set (regions m)))"

definition p2_fls :: "p2freelist_head list \<Rightarrow> bool" where
  "p2_fls fls \<longleftrightarrow> length fls = 8
     \<and> (\<forall>i < 8. pow2 (fls ! i) = push_bit (i + BASE_SHIFT) 1 \<and> lock (fls ! i) = Unlocked)"

definition p2_mem :: "cmem \<Rightarrow> addr list \<Rightarrow> astate \<Rightarrow> bool" where
  "p2_mem m hs g \<longleftrightarrow> p2_geom m hs g \<and> p2_rings m hs (a_free g) \<and> (\<forall>l \<in># a_live g. p2_header m l)"

definition p2_rel :: "p2state \<Rightarrow> astate \<Rightarrow> bool" where
  "p2_rel st g \<longleftrightarrow> init_state st = 2 \<and> p2_fls (freelists st) \<and> p2_mem (mem st) (heads st) g
     \<and> allocated st = of_nat (requested (a_live g)) \<and> totmem st = of_nat (total (owned g))"

section \<open>Sums over the eight lists\<close>

lemma mem_sum_mset_iff: "finite A \<Longrightarrow> c \<in># (\<Sum>j \<in> A. F j :: 'a multiset) \<longleftrightarrow> (\<exists>j \<in> A. c \<in># F j)"
  by (induction A rule: finite_induct) auto

lemma sum8_split:
  assumes "i < 8"
  shows "(\<Sum>j < 8. F j :: 'a multiset) = F i + (\<Sum>j \<in> {..<8::nat} - {i}. F j)"
  using assms by (intro sum.remove) auto

lemma sum8_update:
  assumes "i < 8" and "length fs = 8"
  shows "(\<Sum>j < 8. F j (fs[i := x] ! j) :: 'a multiset) = F i x + (\<Sum>j \<in> {..<8} - {i}. F j (fs ! j))"
  using assms by (subst sum8_split [of i]) (auto intro!: arg_cong2 [of _ _ _ _ "(+)"] sum.cong)

text \<open>All extents apart from those of list \<open>i\<close>.\<close>

definition others :: "addr list \<Rightarrow> astate \<Rightarrow> nat \<Rightarrow> extent multiset" where
  "others hs g i = (\<Sum>j \<in> {..<8} - {i}. ring_extents hs j (a_free g ! j)) + live_extents (a_live g)"

lemma extents_split: "i < 8 \<Longrightarrow> extents hs g = ring_extents hs i (a_free g ! i) + others hs g i"
  by (simp add: extents_def others_def sum8_split)

lemma extents_update:
  "i < 8 \<Longrightarrow> length (a_free g) = 8 \<Longrightarrow>
     extents hs (g\<lparr>a_free := (a_free g)[i := xs], a_live := L\<rparr>)
     = ring_extents hs i xs + (\<Sum>j \<in> {..<8} - {i}. ring_extents hs j (a_free g ! j)) + live_extents L"
  using sum8_update [of i "a_free g" "\<lambda>j. ring_extents hs j" xs] by (simp add: extents_def)

lemma owned_split:
  "i < 8 \<Longrightarrow> owned g = block_extents (block_size i) (a_free g ! i)
     + (\<Sum>j \<in> {..<8} - {i}. block_extents (block_size j) (a_free g ! j)) + live_extents (a_live g)"
  by (simp add: owned_def sum8_split)

lemma owned_update:
  "i < 8 \<Longrightarrow> length (a_free g) = 8 \<Longrightarrow>
     owned (g\<lparr>a_free := (a_free g)[i := xs], a_live := L\<rparr>)
     = block_extents (block_size i) xs
       + (\<Sum>j \<in> {..<8} - {i}. block_extents (block_size j) (a_free g ! j)) + live_extents L"
  using sum8_update [of i "a_free g" "\<lambda>j. block_extents (block_size j)" xs] by (simp add: owned_def)

lemma owned_subset: "c \<in># owned g \<Longrightarrow> c \<in># extents hs g"
  by (auto simp: owned_def extents_def ring_extents_def mem_sum_mset_iff)

lemma extents_eq_owned:
  "extents hs g = owned g + (\<Sum>i < 8. {#(hs ! i, 16)#})"
proof -
  have "ring_extents hs i xs = block_extents (block_size i) xs + {#(hs ! i, 16)#}" for i xs
    by (simp add: ring_extents_def)
  then show ?thesis unfolding extents_def owned_def by (simp only: sum.distrib) (simp add: ac_simps)
qed

lemma total_extents: "total (extents hs g) = total (owned g) + 128"
proof -
  have "total (\<Sum>i < k. {#(hs ! i, 16)#}) = k * 16" for k :: nat
    by (induction k) simp_all
  from this [of 8] show ?thesis by (simp add: extents_eq_owned)
qed

section \<open>Consequences of the geometry\<close>

lemma live_len_ge:
  assumes "valid_live (h, sz, al)"
  shows "unat sz + 16 \<le> live_len sz al"
proof (cases "al = 0")
  case True
  with assms have "unat sz \<le> 4080" by (simp add: valid_live_def)
  then show ?thesis by (rule idx_slab) (simp add: live_len_def True)
next
  case False
  have nw: "unat sz + 16 + 4095 < 2 ^ 64" and al: "al = page_align (16 + sz)"
    using assms False by (auto simp: valid_live_def)
  have "unat (16 + sz) = unat sz + 16" using nw unat_swh [of sz] by (simp add: add.commute)
  then show ?thesis using page_align_bounds(1) [of "16 + sz"] nw False
    by (simp add: live_len_def al)
qed

lemma geomD:
  assumes "p2_geom m hs g"
  shows "length hs = 8" and "length (a_free g) = 8" and "disj (extents hs g)"
    and "c \<in># extents hs g \<Longrightarrow> mapped m (fst c) (snd c)"
    and "c \<in># extents hs g \<Longrightarrow> unat (fst c) + snd c < 2 ^ 64"
    and "c \<in># owned g \<Longrightarrow> 16 dvd unat (fst c)"
    and "l \<in># a_live g \<Longrightarrow> valid_live l"
  using assms by (auto simp: p2_geom_def)

lemma ring_extents_ge16: "c \<in># ring_extents hs i xs \<Longrightarrow> 16 \<le> snd c"
  using block_size_ge [of i] by (auto simp: ring_extents_def)

lemma extents_ge16:
  assumes "p2_geom m hs g" and "c \<in># extents hs g"
  shows "16 \<le> snd c"
proof -
  have "c \<in># ring_extents hs i (a_free g ! i) \<Longrightarrow> 16 \<le> snd c" for i
    by (rule ring_extents_ge16)
  moreover have "16 \<le> snd (live_extent l)" if "l \<in># a_live g" for l
    using live_len_ge geomD(7) [OF assms(1) that] by (cases l) (force simp: live_extent_def)
  ultimately show ?thesis
    using assms(2) by (auto simp: extents_def mem_sum_mset_iff live_extents_def)
qed

lemma node_bytes_extents:
  assumes "\<And>c. c \<in># M \<Longrightarrow> 16 \<le> snd c"
  shows "node_bytes (fst ` set_mset M) \<subseteq> eset M"
  using assms by (fastforce simp: node_bytes_def mem_eset espan_def)

lemma ring_nodes: "fst ` set_mset (ring_extents hs i xs) = set (hs ! i # xs)"
  by (simp add: ring_extents_def set_block_extents image_image)

lemma ring_node_bytes: "node_bytes (set (hs ! i # xs)) \<subseteq> eset (ring_extents hs i xs)"
  using node_bytes_extents [of "ring_extents hs i xs"] ring_extents_ge16 unfolding ring_nodes by blast

lemma disj_block_extents_distinct: "disj (block_extents s xs) \<Longrightarrow> 0 < s \<Longrightarrow> distinct xs"
proof (induction xs)
  case (Cons x xs)
  then have "x \<notin> set xs" by (auto simp: disj_add_mset set_block_extents simp del: mem_span_of)
  with Cons show ?case by (simp add: disj_add_mset)
qed simp

text \<open>What a list owns is disjoint from what everything else owns.\<close>

lemma ring_others_disjoint:
  assumes "p2_geom m hs g" and "i < 8"
  shows "eset (ring_extents hs i (a_free g ! i)) \<inter> eset (others hs g i) = {}"
    and "disj (ring_extents hs i (a_free g ! i))" and "disj (others hs g i)"
  using geomD(3) [OF assms(1)] extents_split [OF assms(2), of hs g]
  by (fastforce simp: disj_union mem_eset simp del: mem_span_of)+

lemma ring_in_others:
  "j < 8 \<Longrightarrow> j \<noteq> i \<Longrightarrow> eset (ring_extents hs j (a_free g ! j)) \<subseteq> eset (others hs g i)"
  by (fastforce simp: others_def eset_def mem_sum_mset_iff)

lemma live_in_others: "eset (live_extents (a_live g)) \<subseteq> eset (others hs g i)"
  by (simp add: others_def)

section \<open>Frames\<close>

lemma header_in_extent:
  assumes "valid_live (h, sz, al)"
  shows "span_of h 16 \<subseteq> espan (live_extent (h, sz, al))"
  using live_len_ge [OF assms] by (auto simp: espan_def)

lemma span16_parts:
  "unat (h :: addr) + 16 \<le> 2 ^ 64 \<Longrightarrow> span_of h 8 \<subseteq> span_of h 16 \<and> span_of (h + 8) 8 \<subseteq> span_of h 16"
  using node_field_spans(1) [of h] by (simp del: mem_span_of)

lemma p2_header_keeps:
  assumes h: "p2_header m (h, sz, al)" and k: "keeps (span_of h 16) m m'"
    and nw: "unat h + 16 \<le> 2 ^ 64"
    and r: "al \<noteq> 0 \<Longrightarrow> (h, unat al) \<in> set (regions m')"
  shows "p2_header m' (h, sz, al)"
  using h r keeps_load64 [OF k _ _, of h sz] keeps_load64 [OF k _ _, of "h + 8" al]
    span16_parts [OF nw] node_field_spans(3) [OF nw] nw
  by (auto simp: p2_header_def simp del: mem_span_of)

lemma p2_rings_update:
  assumes "p2_rings m hs fs" and "length fs = 8"
    and "keeps (eset (\<Sum>j \<in> {..<8} - {i}. ring_extents hs j (fs ! j))) m m'"
    and "dll m' (hs ! i) xs"
  shows "p2_rings m' hs (fs[i := xs])"
  unfolding p2_rings_def
proof (intro allI impI)
  fix j :: nat assume j: "j < 8"
  show "dll m' (hs ! j) (fs[i := xs] ! j)"
  proof (cases "j = i")
    case False
    have "eset (ring_extents hs j (fs ! j)) \<subseteq> eset (\<Sum>j \<in> {..<8} - {i}. ring_extents hs j (fs ! j))"
      using j False by (fastforce simp: eset_def mem_sum_mset_iff)
    then have "keeps (node_bytes (set (hs ! j # fs ! j))) m m'"
      by (intro keeps_mono [OF assms(3)] order_trans [OF ring_node_bytes])
    with assms(1) j False show ?thesis by (auto simp: p2_rings_def intro: dll_keeps)
  qed (use assms(2,4) j in simp)
qed

lemma p2_rings_keeps:
  assumes "p2_rings m hs fs" and "keeps (eset (\<Sum>j < 8. ring_extents hs j (fs ! j))) m m'"
  shows "p2_rings m' hs fs"
  unfolding p2_rings_def
proof (intro allI impI)
  fix j :: nat assume j: "j < 8"
  have "eset (ring_extents hs j (fs ! j)) \<subseteq> eset (\<Sum>j < 8. ring_extents hs j (fs ! j))"
    using j by (fastforce simp: eset_def mem_sum_mset_iff)
  then have "keeps (node_bytes (set (hs ! j # fs ! j))) m m'"
    by (intro keeps_mono [OF assms(2)] order_trans [OF ring_node_bytes])
  with assms(1) j show "dll m' (hs ! j) (fs ! j)" by (auto simp: p2_rings_def intro: dll_keeps)
qed

lemma p2_headers_keeps:
  assumes "\<forall>l \<in># L. p2_header m l \<and> valid_live l \<and> unat (fst l) + snd (live_extent l) < 2 ^ 64"
    and "keeps (eset (live_extents L)) m m'"
    and "\<And>h sz al. (h, sz, al) \<in># L \<Longrightarrow> al \<noteq> 0 \<Longrightarrow> (h, unat al) \<in> set (regions m')"
  shows "\<forall>l \<in># L. p2_header m' l"
proof
  fix l assume l: "l \<in># L"
  obtain h sz al where hl: "l = (h, sz, al)" by (cases l)
  have v: "valid_live (h, sz, al)" and nw: "unat h + live_len sz al < 2 ^ 64"
    using assms(1) l by (auto simp: hl)
  have "espan (live_extent l) \<subseteq> eset (live_extents L)"
    using l by (auto simp: eset_def live_extents_def)
  then have k: "keeps (span_of h 16) m m'"
    unfolding hl by (intro keeps_mono [OF assms(2)] order_trans [OF header_in_extent [OF v]])
  moreover have "p2_header m (h, sz, al)" using assms(1) l by (simp add: hl)
  moreover have "unat h + 16 \<le> 2 ^ 64" using live_len_ge [OF v] nw by linarith
  moreover have "al \<noteq> 0 \<Longrightarrow> (h, unat al) \<in> set (regions m')" using assms(3) l by (simp add: hl)
  ultimately show "p2_header m' l" unfolding hl using k p2_header_keeps by blast
qed

lemma live_no_wrap:
  assumes "p2_geom m hs g" and "l \<in># a_live g"
  shows "unat (fst l) + snd (live_extent l) < 2 ^ 64" and "mapped m (fst l) (snd (live_extent l))"
proof -
  have "live_extent l \<in># extents hs g" using assms(2) by (simp add: extents_def live_extents_def)
  with geomD(4,5) [OF assms(1) this] show "unat (fst l) + snd (live_extent l) < 2 ^ 64"
    and "mapped m (fst l) (snd (live_extent l))"
    by (cases l; simp)+
qed

lemma p2_geom_same:
  assumes "p2_geom m hs g" and "extents hs g' = extents hs g" and "owned g' = owned g"
    and "length (a_free g') = 8" and "\<forall>l \<in># a_live g'. valid_live l"
    and "\<And>a n. 0 < n \<Longrightarrow> mapped m a n \<Longrightarrow> mapped m' a n"
  shows "p2_geom m' hs g'"
proof -
  have "mapped m' (fst c) (snd c)" if "c \<in># extents hs g" for c
  proof (rule assms(6))
    show "0 < snd c" using extents_ge16 [OF assms(1) that] by simp
  qed (rule geomD(4) [OF assms(1) that])
  then show ?thesis using assms(1-5) unfolding p2_geom_def by auto
qed

section \<open>Headers\<close>

lemma set_header_spec:
  assumes mp: "mapped m x 16" and nw: "unat x + 16 \<le> 2 ^ 64"
  obtains m1 m2 where "set_hdr_size m x sz = Some m1" and "set_hdr_alloc_size m1 x al = Some m2"
    and "changes (span_of x 16) m m2" and "load64 m2 x = Some sz" and "load64 m2 (x + 8) = Some al"
proof -
  note parts = node_field_spans [OF nw]
  have mp8: "mapped m x 8" "mapped m (x + 8) 8" and n8: "unat x + 8 \<le> 2 ^ 64"
    using mapped_add8 [OF mp nw] nw by auto
  obtain m1 where m1: "store64 m x sz = Some m1" "changes (span_of x 8) m m1" "load64 m1 x = Some sz"
    using store64_mapped [OF mp8(1) n8] .
  have "mapped m1 (x + 8) 8" using mp8(2) changes_mapped [OF m1(2)] by simp
  then obtain m2 where m2: "store64 m1 (x + 8) al = Some m2" "changes (span_of (x + 8) 8) m1 m2"
      "load64 m2 (x + 8) = Some al"
    using store64_mapped [OF _ parts(3)] by blast
  have "changes (span_of x 16) m m2"
    using m1(2) m2(2) by (rule changes_trans) (use parts(1) in blast)+
  moreover have "load64 m2 x = Some sz"
    using changes_load64 [OF m2(2) parts(2) n8] m1(3) by simp
  ultimately show ?thesis
    using that m1(1) m2(1,3) unfolding set_hdr_size_def set_hdr_alloc_size_def by blast
qed

end
