(* ===== verification/P2_Blocks.thy ===== *)
theory P2_Blocks
  imports P2_Inv
begin

text \<open>
  The five ways a block changes hands, on the abstract state and in memory: a block is taken from
  a list or given back to it, a list is refilled with the blocks of a fresh page, a mapping of its
  own is made for a large request or returned.
\<close>

definition a_take :: "astate \<Rightarrow> nat \<Rightarrow> u64 \<Rightarrow> astate" where
  "a_take g i sz = g\<lparr>a_free := (a_free g)[i := tl (a_free g ! i)],
     a_live := add_mset (hd (a_free g ! i), sz, 0) (a_live g)\<rparr>"

definition a_give :: "astate \<Rightarrow> nat \<Rightarrow> allocation \<Rightarrow> astate" where
  "a_give g i l = g\<lparr>a_free := (a_free g)[i := oinsert (fst l) (a_free g ! i)],
     a_live := a_live g - {#l#}\<rparr>"

definition a_refill :: "astate \<Rightarrow> nat \<Rightarrow> addr \<Rightarrow> astate" where
  "a_refill g i p = g\<lparr>a_free := (a_free g)[i := rev (page_blocks p i)], a_live := a_live g\<rparr>"

definition a_map :: "astate \<Rightarrow> allocation \<Rightarrow> astate" where
  "a_map g l = g\<lparr>a_live := add_mset l (a_live g)\<rparr>"

definition a_unmap :: "astate \<Rightarrow> allocation \<Rightarrow> astate" where
  "a_unmap g l = g\<lparr>a_live := a_live g - {#l#}\<rparr>"

lemma a_ops_simps [simp]:
  "a_live (a_take g i sz) = add_mset (hd (a_free g ! i), sz, 0) (a_live g)"
  "a_live (a_give g i l) = a_live g - {#l#}"
  "a_live (a_refill g i p) = a_live g"
  "a_live (a_map g l) = add_mset l (a_live g)"
  "a_live (a_unmap g l) = a_live g - {#l#}"
  "a_free (a_take g i sz) = (a_free g)[i := tl (a_free g ! i)]"
  "a_free (a_give g i l) = (a_free g)[i := oinsert (fst l) (a_free g ! i)]"
  "a_free (a_refill g i p) = (a_free g)[i := rev (page_blocks p i)]"
  "a_free (a_map g l) = a_free g"
  "a_free (a_unmap g l) = a_free g"
  by (simp_all add: a_take_def a_give_def a_refill_def a_map_def a_unmap_def)

section \<open>Ownership is conserved\<close>

lemma live_len_slab [simp]: "get_freelist_idx sz = int i \<Longrightarrow> live_len sz 0 = block_size i"
  by (simp add: live_len_def)

lemma extents_take:
  assumes "i < 8" and "length (a_free g) = 8" and "a_free g ! i \<noteq> []" and "get_freelist_idx sz = int i"
  shows "extents hs (a_take g i sz) = extents hs g" and "owned (a_take g i sz) = owned g"
  using assms by (cases "a_free g ! i"; simp add: a_take_def extents_update owned_update
      extents_split [of i] owned_split [of i] others_def ring_extents_def)+

lemma extents_give:
  assumes "i < 8" and "length (a_free g) = 8" and "(h, sz, 0) \<in># a_live g"
    and "get_freelist_idx sz = int i"
  shows "extents hs (a_give g i (h, sz, 0)) = extents hs g"
    and "owned (a_give g i (h, sz, 0)) = owned g"
  using assms by (auto dest!: multi_member_split simp: a_give_def extents_update owned_update
      extents_split [of i] owned_split [of i] others_def ring_extents_def)

lemma extents_refill:
  assumes "i < 8" and "length (a_free g) = 8" and "a_free g ! i = []"
  shows "extents hs (a_refill g i p) = extents hs g + block_extents (block_size i) (page_blocks p i)"
    and "owned (a_refill g i p) = owned g + block_extents (block_size i) (page_blocks p i)"
  using assms by (simp_all add: a_refill_def extents_update owned_update
      extents_split [of i] owned_split [of i] others_def ring_extents_def)

lemma extents_map [simp]:
  "extents hs (a_map g l) = add_mset (live_extent l) (extents hs g)"
  "owned (a_map g l) = add_mset (live_extent l) (owned g)"
  by (simp_all add: extents_def owned_def)

lemma extents_unmap:
  assumes "l \<in># a_live g"
  shows "extents hs g = add_mset (live_extent l) (extents hs (a_unmap g l))"
    and "owned g = add_mset (live_extent l) (owned (a_unmap g l))"
  using assms by (auto dest!: multi_member_split simp: extents_def owned_def)

section \<open>A block is taken from its list\<close>

lemma p2_memD:
  assumes "p2_mem m hs g"
  shows "p2_geom m hs g" and "p2_rings m hs (a_free g)" and "l \<in># a_live g \<Longrightarrow> p2_header m l"
  using assms by (auto simp: p2_mem_def)

lemma live_facts:
  assumes "p2_mem m hs g" and "l \<in># a_live g"
  shows "p2_header m l \<and> valid_live l \<and> unat (fst l) + snd (live_extent l) < 2 ^ 64"
  using p2_memD [OF assms(1)] assms(2) geomD(7) live_no_wrap by blast

lemma large_region: "p2_header m (h, sz, al) \<Longrightarrow> al \<noteq> 0 \<Longrightarrow> (h, unat al) \<in> set (regions m)"
  by (simp add: p2_header_def)

text \<open>
  The step all list operations share: only bytes of list \<open>i\<close> change (and perhaps bytes nobody
  else owns), so the other rings and the live headers stay.
\<close>

lemma p2_mem_ring_step:
  assumes pm: "p2_mem m hs g" and i: "i < 8" and k: "keeps (eset (others hs g i)) m m'"
    and ring: "dll m' (hs ! i) xs" and mapped: "\<And>a n. 0 < n \<Longrightarrow> mapped m a n \<Longrightarrow> mapped m' a n"
    and reg: "set (regions m) \<subseteq> set (regions m')"
  shows "p2_rings m' hs ((a_free g)[i := xs])" and "\<forall>l \<in># a_live g. p2_header m' l"
proof -
  have "keeps (eset (\<Sum>j \<in> {..<8} - {i}. ring_extents hs j (a_free g ! j))) m m'"
    by (rule keeps_mono [OF k]) (simp add: others_def)
  then show "p2_rings m' hs ((a_free g)[i := xs])"
    using p2_memD(1,2) [OF pm] geomD(2) ring by (intro p2_rings_update)
  show "\<forall>l \<in># a_live g. p2_header m' l"
  proof (rule p2_headers_keeps)
    show "\<forall>l \<in># a_live g. p2_header m l \<and> valid_live l \<and> unat (fst l) + snd (live_extent l) < 2 ^ 64"
      using live_facts [OF pm] by blast
    show "keeps (eset (live_extents (a_live g))) m m'"
      by (rule keeps_mono [OF k live_in_others])
    show "(h, unat al) \<in> set (regions m')" if "(h, sz, al) \<in># a_live g" "al \<noteq> 0" for h sz al
      using large_region [OF p2_memD(3) [OF pm that(1)] that(2)] reg by blast
  qed
qed

lemma take_spec:
  assumes pm: "p2_mem m hs g" and i: "i < 8" and fr: "a_free g ! i = x # xs"
    and idx: "get_freelist_idx sz = int i" and sz: "sz \<noteq> 0" "unat sz \<le> 4080"
  obtains m1 m2 m3 where "ps_list_ll_rem m x = Some m1" and "set_hdr_size m1 x sz = Some m2"
    and "set_hdr_alloc_size m2 x 0 = Some m3" and "p2_mem m3 hs (a_take g i sz)"
    and "keeps (eset (live_extents (a_live g))) m m3" and "regions m3 = regions m"
proof -
  note geom = p2_memD(1) [OF pm] and g = geomD [OF p2_memD(1) [OF pm]]
  have d: "dll m (hs ! i) ([] @ x # xs)" using p2_memD(2) [OF pm] i fr by (auto simp: p2_rings_def)
  obtain m1 where m1: "ps_list_ll_rem m x = Some m1" "dll m1 (hs ! i) xs"
      "changes (node_bytes (set (hs ! i # x # xs))) m m1"
    using ps_list_ll_rem_spec [OF d] by auto
  have "node_ok m (set (hs ! i # x # xs))" using dllD(1) [OF d] by simp
  then have x: "mapped m1 x 16" "unat x + 16 \<le> 2 ^ 64" and
    apart: "node_bytes (set (hs ! i # xs)) \<inter> span_of x 16 = {}"
    using dllD(2) [OF d] changes_mapped [OF m1(3)]
    by (auto simp: node_ok_def node_bytes_def simp del: mem_span_of)
  obtain m2 m3 where m3: "set_hdr_size m1 x sz = Some m2" "set_hdr_alloc_size m2 x 0 = Some m3"
      "changes (span_of x 16) m1 m3" "load64 m3 x = Some sz" "load64 m3 (x + 8) = Some 0"
    using set_header_spec [OF x] .
  have "changes (eset (ring_extents hs i (a_free g ! i))) m m3"
    using m1(3) m3(3) ring_node_bytes [of hs i "x # xs"] unfolding fr
    by (rule changes_trans) (use ring_node_bytes [of hs i "x # xs"] in \<open>auto simp del: mem_span_of\<close>)
  note ch = this
  then have k: "keeps (eset (others hs g i)) m m3"
    using ring_others_disjoint(1) [OF geom i] by (intro changes_keeps) blast+
  have ring: "dll m3 (hs ! i) xs" by (rule dll_frame [OF m1(2) m3(3) apart])
  note step = p2_mem_ring_step [OF pm i k ring]
  have mp: "mapped m3 a n = mapped m a n" for a n by (rule changes_mapped [OF ch])
  have rg: "regions m3 = regions m" by (rule changes_regions [OF ch])
  have "p2_geom m3 hs (a_take g i sz)"
    using extents_take [OF i g(2) _ idx] g(2,7) sz fr mp
    by (intro p2_geom_same [OF geom]) (auto simp: valid_live_def)
  moreover have "p2_rings m3 hs (a_free (a_take g i sz))"
    using step(1) mp rg fr by simp
  moreover have "\<forall>l \<in># a_live (a_take g i sz). p2_header m3 l"
    using step(2) mp rg fr m3(4,5) by (simp add: p2_header_def)
  ultimately have "p2_mem m3 hs (a_take g i sz)" by (simp add: p2_mem_def)
  moreover have "keeps (eset (live_extents (a_live g))) m m3" by (rule keeps_mono [OF k live_in_others])
  ultimately show ?thesis using that m1(1) m3(1,2) rg by blast
qed

section \<open>A block is given back\<close>

text \<open>Everything that neither list \<open>i\<close> nor the live block \<open>l\<close> owns.\<close>

definition bystanders :: "addr list \<Rightarrow> astate \<Rightarrow> nat \<Rightarrow> allocation \<Rightarrow> extent multiset" where
  "bystanders hs g i l = (\<Sum>j \<in> {..<8} - {i}. ring_extents hs j (a_free g ! j))
     + live_extents (a_live g - {#l#})"

lemma extents_bystanders:
  assumes "i < 8" and "l \<in># a_live g"
  shows "extents hs g = add_mset (live_extent l) (ring_extents hs i (a_free g ! i)) + bystanders hs g i l"
  using assms by (auto dest!: multi_member_split simp: extents_split others_def bystanders_def)

lemma bystanders_disjoint:
  assumes "p2_geom m hs g" and "i < 8" and "l \<in># a_live g"
  shows "eset (add_mset (live_extent l) (ring_extents hs i (a_free g ! i)))
      \<inter> eset (bystanders hs g i l) = {}"
    and "disj (add_mset (live_extent l) (ring_extents hs i (a_free g ! i)))"
    and "espan (live_extent l) \<inter> eset (ring_extents hs i (a_free g ! i)) = {}"
  using geomD(3) [OF assms(1)]
  unfolding extents_bystanders [OF assms(2,3)] disj_union_eset disj_add_mset_eset by blast+

lemma header_payload:
  assumes "valid_live (h, sz, al)" and "unat h + live_len sz al < 2 ^ 64"
  shows "unat (h + 16) = unat h + 16" and "span_of (h + 16) (unat sz) \<subseteq> span_of h (live_len sz al)"
    and "span_of h 16 \<inter> span_of (h + 16) n = {}" and "unat (h + 16) + unat sz < 2 ^ 64"
proof -
  show u: "unat (h + 16) = unat h + 16"
    using live_len_ge [OF assms(1)] assms(2) unat_add_num [of h 16] by simp
  then show "span_of (h + 16) (unat sz) \<subseteq> span_of h (live_len sz al)"
    and "span_of h 16 \<inter> span_of (h + 16) n = {}" and "unat (h + 16) + unat sz < 2 ^ 64"
    using live_len_ge [OF assms(1)] assms(2) by auto
qed

lemma p2_mem_release:
  assumes pm: "p2_mem m hs g" and i: "i < 8" and l: "l \<in># a_live g"
    and k: "keeps (eset (bystanders hs g i l)) m m'" and ring: "dll m' (hs ! i) xs"
    and reg: "regions m' = regions m"
  shows "p2_rings m' hs ((a_free g)[i := xs])" and "\<forall>l' \<in># a_live g - {#l#}. p2_header m' l'"
proof -
  have "keeps (eset (\<Sum>j \<in> {..<8} - {i}. ring_extents hs j (a_free g ! j))) m m'"
    by (rule keeps_mono [OF k]) (simp add: bystanders_def)
  then show "p2_rings m' hs ((a_free g)[i := xs])"
    using p2_memD(1,2) [OF pm] geomD(2) ring by (intro p2_rings_update)
  show "\<forall>l' \<in># a_live g - {#l#}. p2_header m' l'"
  proof (rule p2_headers_keeps)
    show "\<forall>l' \<in># a_live g - {#l#}. p2_header m l' \<and> valid_live l'
        \<and> unat (fst l') + snd (live_extent l') < 2 ^ 64"
      using live_facts [OF pm] in_diffD by fast
    show "keeps (eset (live_extents (a_live g - {#l#}))) m m'"
      by (rule keeps_mono [OF k]) (simp add: bystanders_def)
    show "(h, unat al) \<in> set (regions m')" if "(h, sz, al) \<in># a_live g - {#l#}" "al \<noteq> 0" for h sz al
      using large_region [OF p2_memD(3) [OF pm in_diffD [OF that(1)]] that(2)] reg by simp
  qed
qed

lemma give_spec:
  assumes pm: "p2_mem m hs g" and i: "i < 8" and l: "(h, sz, 0) \<in># a_live g"
    and idx: "get_freelist_idx sz = int i" and fl: "list_head fl = hs ! i"
  obtains m1 m2 where "memset m (h + 16) 0 8 = Some m1" and "p2orderedinsert m1 h fl = Some m2"
    and "p2_mem m2 hs (a_give g i (h, sz, 0))"
    and "keeps (eset (live_extents (a_live g - {#(h, sz, 0)#}))) m m2"
    and "load64 m2 (h + 16) = Some 0" and "regions m2 = regions m"
    and "changes (span_of (h + 16) 8 \<union> node_bytes (insert h (set (hs ! i # a_free g ! i)))) m m2"
proof -
  let ?l = "(h, sz, 0) :: allocation" and ?xs = "a_free g ! i" and ?bs = "block_size i"
  let ?own = "add_mset (h, ?bs) (ring_extents hs i ?xs)"
  note geom = p2_memD(1) [OF pm] and g = geomD [OF p2_memD(1) [OF pm]]
  have le: "live_extent ?l = (h, ?bs)" using idx by simp
  note by_dj = bystanders_disjoint [OF geom i l, unfolded le]
  have nw: "unat h + ?bs < 2 ^ 64" and mp: "mapped m h ?bs"
    using live_no_wrap [OF geom l] idx by simp_all
  have hu: "unat (h + 16) = unat h + 16"
    using nw block_size_ge [of i] unat_add_num [of h 16] by simp
  have mp16: "mapped m (h + 16) 8" using mp block_size_ge [of i] hu by (auto elim: mapped_sub)
  have n16: "unat (h + 16) + 8 \<le> 2 ^ 64" using nw block_size_ge [of i] hu by simp
  have in_block: "span_of (h + 16) 8 \<subseteq> span_of h ?bs" using hu block_size_ge [of i] by auto
  obtain m1 where m1: "memset m (h + 16) 0 8 = Some m1" "changes (span_of (h + 16) 8) m m1"
      "\<And>b. unat b \<in> span_of (h + 16) 8 \<Longrightarrow> bytes m1 b = 0"
    using memset_spec [OF mp16 n16] by blast
  have d: "dll m (hs ! i) ?xs" using p2_memD(2) [OF pm] i by (simp add: p2_rings_def)
  have "node_bytes (set (hs ! i # ?xs)) \<inter> span_of (h + 16) 8 = {}"
    using ring_node_bytes [of hs i ?xs] by_dj(3) in_block unfolding espan_pair by blast
  then have d1: "dll m1 (hs ! i) ?xs" by (rule dll_frame [OF d m1(2)])
  have nodes: "fst ` set_mset ?own = insert h (set (hs ! i # ?xs))"
    by (simp add: ring_nodes del: list.set)
  have "node_ok m1 (fst ` set_mset ?own)"
  proof (rule extents_node_ok [OF by_dj(2)])
    fix c assume "c \<in># ?own"
    then have c: "c \<in># extents hs g" unfolding extents_bystanders [OF i l] le by auto
    then show "mapped m1 (fst c) (snd c) \<and> unat (fst c) + snd c \<le> 2 ^ 64 \<and> 16 \<le> snd c"
      using g(4,5) [OF c] extents_ge16 [OF geom c] changes_mapped [OF m1(2)] by auto
  qed
  then have ok: "node_ok m1 (insert h (set (hs ! i # ?xs)))" unfolding nodes .
  have "unat h \<in> span_of h ?bs" by simp
  have "h \<notin> fst ` set_mset (ring_extents hs i ?xs)"
    using disj_new_start [OF by_dj(2)] ring_extents_ge16 [of _ hs i ?xs] by force
  then have new: "h \<notin> set (hs ! i # ?xs)" unfolding ring_nodes .
  obtain m2 where m2: "p2orderedinsert m1 h fl = Some m2" "dll m2 (hs ! i) (oinsert h ?xs)"
      "changes (node_bytes (insert h (set (hs ! i # ?xs)))) m1 m2"
    using p2orderedinsert_spec [of m1 fl ?xs h] d1 ok new unfolding fl by blast
  have nb: "node_bytes (insert h (set (hs ! i # ?xs))) \<subseteq> eset ?own"
    using node_bytes_extents [of ?own] ring_extents_ge16 [of _ hs i ?xs] block_size_ge [of i]
    unfolding nodes by force
  have ch: "changes (eset ?own) m m2"
    using m1(2) m2(3) by (rule changes_trans) (use in_block nb in auto)
  have k: "keeps (eset (bystanders hs g i ?l)) m m2"
    using by_dj(1) by (intro changes_keeps [OF ch]) blast
  have rg: "regions m2 = regions m" by (rule changes_regions [OF ch])
  note rel = p2_mem_release [OF pm i l k m2(2) rg]
  have "p2_geom m2 hs (a_give g i ?l)"
    using extents_give [OF i g(2) l idx] g(2,7) changes_mapped [OF ch]
    by (intro p2_geom_same [OF geom]) (auto dest: in_diffD)
  with rel have "p2_mem m2 hs (a_give g i ?l)" by (simp add: p2_mem_def)
  moreover have "keeps (eset (live_extents (a_live g - {#?l#}))) m m2"
    by (rule keeps_mono [OF k]) (simp add: bystanders_def)
  moreover have "load64 m2 (h + 16) = Some 0"
  proof -
    have "span_of (h + 16) 8 \<inter> span_of h 16 = {}" using hu by auto
    moreover have "span_of (h + 16) 8 \<inter> node_bytes (set (hs ! i # ?xs)) = {}"
      using \<open>node_bytes (set (hs ! i # ?xs)) \<inter> span_of (h + 16) 8 = {}\<close> by blast
    ultimately have "span_of (h + 16) 8 \<inter> node_bytes (insert h (set (hs ! i # ?xs))) = {}"
      by (simp only: node_bytes_simps) blast
    then have "load64 m2 (h + 16) = load64 m1 (h + 16)" by (rule changes_load64 [OF m2(3) _ n16])
    moreover have "mapped m1 (h + 16) 8" using mp16 changes_mapped [OF m1(2)] by simp
    ultimately show ?thesis using load64_zero [OF _ n16 m1(3)] by simp
  qed
  moreover have "changes (span_of (h + 16) 8 \<union> node_bytes (insert h (set (hs ! i # ?xs)))) m m2"
    using m1(2) m2(3) by (rule changes_trans) blast+
  ultimately show ?thesis using that m1(1) m2(1) rg by blast
qed

section \<open>Memory from the operating system\<close>

definition maps_fresh :: "cmem \<Rightarrow> addr \<Rightarrow> nat \<Rightarrow> cmem \<Rightarrow> bool" where
  "maps_fresh m p n m' \<longleftrightarrow> regions m' = (p, n) # regions m
     \<and> (\<forall>b. bytes m' b = (if unat b \<in> span_of p n then 0 else bytes m b))
     \<and> (\<forall>(b, l) \<in> set (regions m). span_of p n \<inter> span_of b l = {})"

lemma os_alloc_spec:
  assumes ok: "mmap_ok os m" and p: "os m n = Some p"
  obtains m1 where "os_alloc os m n = (p, m1)" and "p \<noteq> NULL" and "0 < unat n"
    and "4096 dvd unat p" and "unat p + unat n < 2 ^ 64" and "maps_fresh m p (unat n) m1"
proof -
  let ?m1 = "m\<lparr>bytes := \<lambda>b. if unat (b - p) < unat n then 0 else bytes m b,
      regions := (p, unat n) # regions m\<rparr>"
  have n: "n \<noteq> 0" and "p \<noteq> NULL" and "4096 dvd unat p" and nw: "unat p + unat n < 2 ^ 64"
    and fresh: "\<forall>(b, l) \<in> set (regions m). span_of p (unat n) \<inter> span_of b l = {}"
    using ok p unfolding mmap_ok_def by blast+
  moreover have "os_alloc os m n = (p, ?m1)" using p by (simp add: os_alloc_def)
  moreover have "unat (b - p) < unat n \<longleftrightarrow> unat b \<in> span_of p (unat n)" for b
    using nw by (intro unat_diff_span) simp
  then have "maps_fresh m p (unat n) ?m1" using fresh by (simp add: maps_fresh_def del: mem_span_of)
  moreover have "0 < unat n" using n by (simp add: unat_gt_0)
  ultimately show ?thesis using that by blast
qed

lemma maps_fresh_zero: "maps_fresh m p n m' \<Longrightarrow> unat b \<in> span_of p n \<Longrightarrow> bytes m' b = 0"
  by (simp add: maps_fresh_def)

lemma maps_fresh_regions: "maps_fresh m p n m' \<Longrightarrow> regions m' = (p, n) # regions m"
  by (simp add: maps_fresh_def)

lemma maps_fresh_mono: "maps_fresh m p n m' \<Longrightarrow> mapped m a k \<Longrightarrow> mapped m' a k"
  by (auto simp: maps_fresh_def elim!: mappedE intro: mappedI)

lemma maps_fresh_mapped: "maps_fresh m p n m' \<Longrightarrow> mapped m' p n"
  by (intro mapped_region) (simp add: maps_fresh_def)

lemma maps_fresh_keeps: "maps_fresh m p n m' \<Longrightarrow> S \<inter> span_of p n = {} \<Longrightarrow> keeps S m m'"
  using maps_fresh_mono [of m p n m'] unfolding keeps_def maps_fresh_def by auto

lemma maps_fresh_apart:
  assumes "maps_fresh m p n m'" and "mapped m a k"
  shows "span_of a k \<inter> span_of p n = {}"
  using assms(2)
proof (rule mappedE)
  fix b l assume b: "(b, l) \<in> set (regions m)" "unat b \<le> unat a" "unat a + k \<le> unat b + l"
  then have "span_of a k \<subseteq> span_of b l" by auto
  moreover have "span_of p n \<inter> span_of b l = {}" using assms(1) b(1) unfolding maps_fresh_def by blast
  ultimately show ?thesis by blast
qed

text \<open>What is owned is mapped, so it lies outside a fresh mapping.\<close>

lemma extents_fresh:
  assumes geom: "p2_geom m hs g" and "maps_fresh m p n m'"
  shows "eset (extents hs g) \<inter> span_of p n = {}"
  using geomD(4) [OF geom] maps_fresh_apart [OF assms(2)] unfolding eset_def espan_def by blast

lemma refill_spec:
  assumes pm: "p2_mem m hs g" and i: "i < 8" and fr: "a_free g ! i = []"
    and ok: "mmap_ok os m" and p: "os m PAGE_BYTES = Some p"
    and p2: "pow2 fl = push_bit (i + BASE_SHIFT) 1" and fl: "list_head fl = hs ! i"
  obtains m1 m2 where "os_alloc os m PAGE_BYTES = (p, m1)" and "p \<noteq> NULL"
    and "carve_page m1 fl p = Some m2" and "p2_mem m2 hs (a_refill g i p)"
    and "keeps (eset (live_extents (a_live g))) m m2" and "regions m2 = (p, 4096) # regions m"
proof -
  let ?new = "block_extents (block_size i) (page_blocks p i)"
  note geom = p2_memD(1) [OF pm] and g = geomD [OF p2_memD(1) [OF pm]]
  obtain m1 where m1': "os_alloc os m PAGE_BYTES = (p, m1)" "p \<noteq> NULL" "0 < unat PAGE_BYTES"
      "4096 dvd unat p" "unat p + unat PAGE_BYTES < 2 ^ 64" "maps_fresh m p (unat PAGE_BYTES) m1"
    using os_alloc_spec [OF ok p] .
  have "unat PAGE_BYTES = 4096" by simp
  note m1 = m1'(1,2,4-6) [unfolded this]
  note m1_mono = maps_fresh_mono [OF m1(5)] and m1_keeps = maps_fresh_keeps [OF m1(5)]
  have fresh: "eset (extents hs g) \<inter> span_of p 4096 = {}" by (rule extents_fresh [OF geom m1(5)])
  have nwb: "unat p + 4096 div block_size i * block_size i < 2 ^ 64"
    using m1(4) blocks_per_page [OF i] by simp
  have new_sub: "eset ?new \<subseteq> span_of p 4096"
    using eset_blocks [OF nwb] unfolding page_blocks_def blocks_per_page [OF i] .
  have dj: "disj (extents hs g + ?new)"
    unfolding disj_union_eset using g(3) fresh new_sub disj_blocks [OF nwb]
    by (auto simp: page_blocks_def)
  have new_ok: "mapped m1 (fst c) (snd c) \<and> unat (fst c) + snd c < 2 ^ 64 \<and> 16 \<le> snd c
      \<and> 16 dvd unat (fst c)" if c: "c \<in># ?new" for c
  proof -
    have s: "snd c = block_size i" and "fst c \<in> set (blocks p (block_size i) (4096 div block_size i))"
      using c by (auto simp: page_blocks_def)
    from blocks_range [OF this(2) nwb] obtain k where k: "unat p \<le> unat (fst c)"
      "unat (fst c) + block_size i \<le> unat p + 4096" "unat (fst c) = unat p + k * block_size i"
      unfolding blocks_per_page [OF i] by blast
    have "16 dvd unat p" using m1(3) by (rule dvd_trans [rotated]) simp
    with k s m1(4) maps_fresh_mapped [OF m1(5)] block_size_ge [of i] block_size_16 [of i] show ?thesis
      by (auto intro: mapped_sub)
  qed
  have all_ok: "mapped m1 (fst c) (snd c) \<and> unat (fst c) + snd c < 2 ^ 64 \<and> 16 \<le> snd c"
    if "c \<in># extents hs g + ?new" for c
  proof (cases "c \<in># ?new")
    case False
    with that have c: "c \<in># extents hs g" by auto
    show ?thesis using g(4,5) [OF c] m1_mono extents_ge16 [OF geom c] by blast
  qed (use new_ok in blast)
  have ring_sub: "ring_extents hs i [] + ?new \<subseteq># extents hs g + ?new"
    using extents_split [OF i, of hs g] fr by simp
  have nodes: "fst ` set_mset (ring_extents hs i [] + ?new) = set [hs ! i] \<union> set (page_blocks p i)"
    by (simp add: image_Un ring_nodes set_block_extents image_image)
  have "node_ok m1 (fst ` set_mset (ring_extents hs i [] + ?new))"
    using disj_subset [OF dj ring_sub] all_ok mset_subset_eqD [OF ring_sub]
    by (intro extents_node_ok) (auto intro: less_imp_le)
  then have ok1: "node_ok m1 (set (list_head fl # []) \<union> set (page_blocks p i))"
    unfolding nodes fl .
  have "disj (ring_extents hs i [] + ?new)" by (rule disj_subset [OF dj ring_sub])
  then have dj1: "disj (add_mset (hs ! i, 16) ?new)" by (simp add: ring_extents_def)
  then have "disj ?new" unfolding disj_add_mset by blast
  then have "distinct (page_blocks p i)" by (rule disj_block_extents_distinct) simp
  moreover have "hs ! i \<notin> fst ` set_mset ?new"
    by (rule disj_new_start [OF dj1]) auto
  then have "hs ! i \<notin> set (page_blocks p i)" by (simp add: set_block_extents image_image)
  ultimately have dist: "distinct (list_head fl # page_blocks p i @ [])" by (simp add: fl)
  have ring_in: "eset (ring_extents hs i []) \<subseteq> eset (extents hs g)"
    using extents_split [OF i, of hs g] fr by simp
  have "keeps (node_bytes (set (hs ! i # []))) m m1"
    by (rule keeps_mono [OF m1_keeps [OF fresh]]) (rule order_trans [OF ring_node_bytes ring_in])
  moreover have "dll m (hs ! i) (a_free g ! i)" using p2_memD(2) [OF pm] i by (simp add: p2_rings_def)
  then have "dll m (hs ! i) []" unfolding fr .
  ultimately have d1: "dll m1 (list_head fl) []" unfolding fl by (rule dll_keeps [rotated])
  obtain m2 where m2: "carve_page m1 fl p = Some m2" "dll m2 (hs ! i) (rev (page_blocks p i))"
      "changes (node_bytes (set [hs ! i] \<union> set (page_blocks p i))) m1 m2"
    by (rule carve_page_spec [OF i p2 d1 ok1 dist m1(4)]) (simp add: fl)
  have nb: "node_bytes (set [hs ! i] \<union> set (page_blocks p i)) \<subseteq> eset (ring_extents hs i [] + ?new)"
  proof -
    have "16 \<le> snd c" if "c \<in># ring_extents hs i [] + ?new" for c
      using all_ok [OF mset_subset_eqD [OF ring_sub that]] by blast
    then have "node_bytes (fst ` set_mset (ring_extents hs i [] + ?new))
        \<subseteq> eset (ring_extents hs i [] + ?new)" by (rule node_bytes_extents)
    then show ?thesis unfolding nodes .
  qed
  have others_dj: "eset (others hs g i) \<inter> eset (ring_extents hs i [] + ?new) = {}"
    using ring_others_disjoint(1) [OF geom i] fresh new_sub extents_split [OF i, of hs g]
    unfolding fr by (auto simp del: mem_span_of)
  have "keeps (eset (others hs g i)) m m1"
    using fresh extents_split [OF i, of hs g] by (intro m1_keeps) auto
  moreover have "keeps (eset (others hs g i)) m1 m2"
    using others_dj nb by (intro changes_keeps [OF m2(3)]) blast
  ultimately have k: "keeps (eset (others hs g i)) m m2" by (rule keeps_trans)
  have rg: "regions m2 = (p, 4096) # regions m" using changes_regions [OF m2(3)] maps_fresh_regions [OF m1(5)] by simp
  have mp: "mapped m2 a n = mapped m1 a n" for a n by (rule changes_mapped [OF m2(3)])
  have "p2_rings m2 hs ((a_free g)[i := rev (page_blocks p i)])"
    and "\<forall>l \<in># a_live g. p2_header m2 l"
    using p2_mem_ring_step [OF pm i k m2(2)] m1_mono mp rg by auto
  moreover have "p2_geom m2 hs (a_refill g i p)"
    unfolding p2_geom_def extents_refill [OF i g(2) fr]
    using dj all_ok new_ok g(1,2,6,7) mp by auto
  moreover have "keeps (eset (live_extents (a_live g))) m m2"
    by (rule keeps_mono [OF k live_in_others])
  ultimately show ?thesis using that m1(1,2) m2(1) rg by (simp add: p2_mem_def)
qed

section \<open>A mapping of its own\<close>

lemma map_spec:
  assumes pm: "p2_mem m hs g" and sz: "4080 < unat sz" "unat sz + 16 < 2 ^ 64"
    and al: "al = page_align (16 + sz)" and ok: "mmap_ok os m" and p: "os m al = Some p"
  obtains m1 m2 m3 where "os_alloc os m al = (p, m1)" and "p \<noteq> NULL" and "set_hdr_size m1 p sz = Some m2"
    and "set_hdr_alloc_size m2 p al = Some m3" and "p2_mem m3 hs (a_map g (p, sz, al))"
    and "keeps (eset (live_extents (a_live g))) m m3" and "valid_live (p, sz, al)" and "al \<noteq> 0"
    and "regions m3 = (p, unat al) # regions m"
proof -
  note geom = p2_memD(1) [OF pm] and g = geomD [OF p2_memD(1) [OF pm]]
  obtain m1 where m1: "os_alloc os m al = (p, m1)" "p \<noteq> NULL" "0 < unat al" "4096 dvd unat p"
      "unat p + unat al < 2 ^ 64" "maps_fresh m p (unat al) m1"
    using os_alloc_spec [OF ok p] .
  have al0: "al \<noteq> 0" using m1(3) by auto
  have sw: "unat (16 + sz) = unat sz + 16" using sz(2) unat_swh by (simp add: add.commute)
  have nw: "unat sz + 16 + 4095 < 2 ^ 64"
    using page_align_wraps [of "16 + sz"] al0 al sw by (metis not_less)
  have sz0: "sz \<noteq> 0" using sz(1) by auto
  have v: "valid_live (p, sz, al)" using sz al al0 nw sz0 by (simp add: valid_live_def)
  have ge: "unat sz + 16 \<le> unat al" using live_len_ge [OF v] al0 by (simp add: live_len_def)
  have le: "live_extent (p, sz, al) = (p, unat al)" using al0 by (simp add: live_len_def)
  have "mapped m1 p 16" using maps_fresh_mapped [OF m1(6)] ge by (auto intro: mapped_sub)
  moreover have n16: "unat p + 16 \<le> 2 ^ 64" using m1(5) ge by simp
  ultimately obtain m2 m3 where m3: "set_hdr_size m1 p sz = Some m2" "set_hdr_alloc_size m2 p al = Some m3"
      "changes (span_of p 16) m1 m3" "load64 m3 p = Some sz" "load64 m3 (p + 8) = Some al"
    by (rule set_header_spec)
  have fresh: "eset (extents hs g) \<inter> span_of p (unat al) = {}" by (rule extents_fresh [OF geom m1(6)])
  have sub: "span_of p 16 \<subseteq> span_of p (unat al)" using ge by (intro span_of_mono) simp
  have k: "keeps (eset (extents hs g)) m m3"
    using maps_fresh_keeps [OF m1(6) fresh] changes_keeps [OF m3(3)] fresh sub
    by (blast intro: keeps_trans)
  have rg: "regions m3 = (p, unat al) # regions m"
    using changes_regions [OF m3(3)] maps_fresh_regions [OF m1(6)] by simp
  have mp: "mapped m3 a n = mapped m1 a n" for a n by (rule changes_mapped [OF m3(3)])
  have kl: "keeps (eset (live_extents (a_live g))) m m3"
    by (rule keeps_mono [OF k]) (simp add: extents_def)
  have "p2_rings m3 hs (a_free g)"
    by (rule p2_rings_keeps [OF p2_memD(2) [OF pm] keeps_mono [OF k]]) (simp add: extents_def)
  moreover have "\<forall>l \<in># a_live g. p2_header m3 l"
    using live_facts [OF pm] large_region [OF p2_memD(3) [OF pm]] rg
    by (intro p2_headers_keeps [OF _ kl]) auto
  moreover have "p2_header m3 (p, sz, al)" using m3(4,5) rg by (simp add: p2_header_def)
  moreover have "p2_geom m3 hs (a_map g (p, sz, al))"
  proof -
    have "disj (add_mset (p, unat al) (extents hs g))"
      using g(3) fresh by (auto simp: disj_add_mset_eset simp del: mem_span_of)
    moreover have "16 dvd unat p" using m1(4) by (rule dvd_trans [rotated]) simp
    moreover have "mapped m3 p (unat al)" using maps_fresh_mapped [OF m1(6)] mp by simp
    ultimately show ?thesis
      unfolding p2_geom_def extents_map le
      using g m1(5) mp maps_fresh_mono [OF m1(6)] v by auto
  qed
  ultimately have "p2_mem m3 hs (a_map g (p, sz, al))" by (auto simp: p2_mem_def)
  then show ?thesis using that m1(1,2) m3(1,2) kl v al0 rg by blast
qed

lemma mapped_remove1:
  assumes "mapped m a k" and "0 < k" and "span_of a k \<inter> span_of h n = {}"
  shows "mapped (m\<lparr>regions := remove1 (h, n) (regions m)\<rparr>) a k"
  using assms(1)
proof (rule mappedE)
  fix b l assume b: "(b, l) \<in> set (regions m)" "unat b \<le> unat a" "unat a + k \<le> unat b + l"
  then have "unat a \<in> span_of b l" and "unat a \<in> span_of a k" using assms(2) by auto
  then have "(b, l) \<noteq> (h, n)" using assms(3) by blast
  then show ?thesis using b by (intro mappedI [of b l]) (simp_all add: in_set_remove1)
qed

lemma unmap_spec:
  assumes pm: "p2_mem m hs g" and l: "(h, sz, al) \<in># a_live g" and al: "al \<noteq> 0"
  obtains m1 where "os_free m h al = Some m1" and "p2_mem m1 hs (a_unmap g (h, sz, al))"
    and "keeps (eset (live_extents (a_live g - {#(h, sz, al)#}))) m m1"
    and "regions m1 = remove1 (h, unat al) (regions m)"
proof -
  let ?l = "(h, sz, al)" and ?m1 = "m\<lparr>regions := remove1 (h, unat al) (regions m)\<rparr>"
  note geom = p2_memD(1) [OF pm] and g = geomD [OF p2_memD(1) [OF pm]]
  have le: "live_extent ?l = (h, unat al)" using al by (simp add: live_len_def)
  note un = extents_unmap [OF l, unfolded le]
  have dj: "span_of h (unat al) \<inter> eset (extents hs (a_unmap g ?l)) = {}"
    and dju: "disj (extents hs (a_unmap g ?l))"
    using g(3) unfolding un(1) disj_add_mset_eset by simp_all
  have rg: "(h, unat al) \<in> set (regions m)" by (rule large_region [OF p2_memD(3) [OF pm l] al])
  then have m1: "os_free m h al = Some ?m1" by (simp add: os_free_def)
  have mapped: "mapped ?m1 a k" if "mapped m a k" "0 < k" "span_of a k \<subseteq> eset (extents hs (a_unmap g ?l))"
    for a k using that dj by (intro mapped_remove1) auto
  then have k: "keeps (eset (extents hs (a_unmap g ?l))) m ?m1" by (auto simp: keeps_def)
  have kl: "keeps (eset (live_extents (a_live g - {#?l#}))) m ?m1"
    by (rule keeps_mono [OF k]) (simp add: extents_def)
  have "p2_rings ?m1 hs (a_free g)"
    by (rule p2_rings_keeps [OF p2_memD(2) [OF pm] keeps_mono [OF k]]) (simp add: extents_def)
  moreover have "\<forall>l' \<in># a_live g - {#?l#}. p2_header ?m1 l'"
  proof (rule p2_headers_keeps [OF _ kl])
    show "\<forall>l' \<in># a_live g - {#?l#}. p2_header m l' \<and> valid_live l'
        \<and> unat (fst l') + snd (live_extent l') < 2 ^ 64"
      using live_facts [OF pm] in_diffD by fast
    fix h' sz' al' assume l': "(h', sz', al') \<in># a_live g - {#?l#}" and al': "al' \<noteq> 0"
    have "(h', unat al') \<in># extents hs (a_unmap g ?l)"
      using l' al' by (force simp: extents_def live_extents_def live_len_def)
    then have "span_of h' (unat al') \<subseteq> eset (extents hs (a_unmap g ?l))" by (force simp: eset_def)
    then have "span_of h' (unat al') \<inter> span_of h (unat al) = {}" using dj by blast
    then have "(h', unat al') \<noteq> (h, unat al)" using al' by (auto simp: unat_eq_zero simp del: mem_span_of)
    then show "(h', unat al') \<in> set (regions ?m1)"
      using large_region [OF p2_memD(3) [OF pm in_diffD [OF l']] al'] by (simp add: in_set_remove1)
  qed
  moreover have "p2_geom ?m1 hs (a_unmap g ?l)"
    unfolding p2_geom_def
  proof (intro conjI ballI)
    fix c assume c: "c \<in># extents hs (a_unmap g ?l)"
    then have c': "c \<in># extents hs g" unfolding un(1) by simp
    have "span_of (fst c) (snd c) \<subseteq> eset (extents hs (a_unmap g ?l))" using c by (auto simp: eset_def espan_def)
    then show "mapped ?m1 (fst c) (snd c)"
      using g(4) [OF c'] extents_ge16 [OF geom c'] by (intro mapped) auto
    show "unat (fst c) + snd c < 2 ^ 64" by (rule g(5) [OF c'])
  next
    fix c assume "c \<in># owned (a_unmap g ?l)"
    then show "16 dvd unat (fst c)" using g(6) unfolding un(2) by simp
  qed (use g dju in \<open>auto dest: in_diffD\<close>)
  ultimately have "p2_mem ?m1 hs (a_unmap g ?l)" by (simp add: p2_mem_def)
  then show ?thesis using that m1 kl by simp
qed

section \<open>Writes inside a live block\<close>

text \<open>Bytes of one live block change: everything else is as it was.\<close>

lemma block_write:
  assumes pm: "p2_mem m hs g" and l: "l \<in># a_live g" and ch: "changes T m m'"
    and T: "T \<subseteq> espan (live_extent l)"
  shows "p2_rings m' hs (a_free g)" and "\<forall>l' \<in># a_live g - {#l#}. p2_header m' l'"
    and "keeps (eset (live_extents (a_live g - {#l#}))) m m'" and "p2_geom m' hs g"
proof -
  note geom = p2_memD(1) [OF pm] and g = geomD [OF p2_memD(1) [OF pm]]
  have "espan (live_extent l) \<inter> eset (extents hs (a_unmap g l)) = {}"
    using g(3) unfolding extents_unmap(1) [OF l] disj_add_mset_eset by simp
  then have k: "keeps (eset (extents hs (a_unmap g l))) m m'"
    using T by (intro changes_keeps [OF ch]) blast
  show kl: "keeps (eset (live_extents (a_live g - {#l#}))) m m'"
    by (rule keeps_mono [OF k]) (simp add: extents_def)
  show "p2_rings m' hs (a_free g)"
    by (rule p2_rings_keeps [OF p2_memD(2) [OF pm] keeps_mono [OF k]]) (simp add: extents_def)
  show "\<forall>l' \<in># a_live g - {#l#}. p2_header m' l'"
  proof (rule p2_headers_keeps [OF _ kl])
    show "\<forall>l' \<in># a_live g - {#l#}. p2_header m l' \<and> valid_live l'
        \<and> unat (fst l') + snd (live_extent l') < 2 ^ 64"
      using live_facts [OF pm] in_diffD by fast
    show "(h, unat al) \<in> set (regions m')" if "(h, sz, al) \<in># a_live g - {#l#}" "al \<noteq> 0" for h sz al
      using large_region [OF p2_memD(3) [OF pm in_diffD [OF that(1)]] that(2)] changes_regions [OF ch]
      by simp
  qed
  show "p2_geom m' hs g"
    using geom changes_mapped [OF ch] by (simp add: p2_geom_def)
qed

lemma all_mset_minus: "l \<in># L \<Longrightarrow> P l \<Longrightarrow> \<forall>l' \<in># L - {#l#}. P l' \<Longrightarrow> \<forall>l' \<in># L. P l'"
  by (metis insert_DiffM insert_iff set_mset_add_mset_insert)

lemma payload_spec:
  assumes pm: "p2_mem m hs g" and l: "(h, sz, al) \<in># a_live g" and ch: "changes T m m'"
    and T: "T \<subseteq> span_of (h + 16) (unat sz)"
  shows "p2_mem m' hs g" and "keeps (eset (live_extents (a_live g - {#(h, sz, al)#}))) m m'"
proof -
  note facts = live_facts [OF pm l]
  have v: "valid_live (h, sz, al)" and nw: "unat h + live_len sz al < 2 ^ 64" using facts by simp_all
  note hp = header_payload [OF v nw]
  have "T \<subseteq> espan (live_extent (h, sz, al))" using T hp(2) by simp
  note w = block_write [OF pm l ch this]
  have "span_of h 16 \<inter> T = {}" using T hp(3) [of "unat sz"] by blast
  then have "keeps (span_of h 16) m m'" by (rule changes_keeps [OF ch])
  moreover have "unat h + 16 \<le> 2 ^ 64" using live_len_ge [OF v] nw by linarith
  moreover have ph: "p2_header m (h, sz, al)" using facts by blast
  moreover have "al \<noteq> 0 \<Longrightarrow> (h, unat al) \<in> set (regions m')"
    using large_region [OF ph] changes_regions [OF ch] by simp
  ultimately have "p2_header m' (h, sz, al)" using p2_header_keeps by blast
  from all_mset_minus [where P = "p2_header m'", OF l this w(2)]
  show "p2_mem m' hs g" using w(1,4) by (simp add: p2_mem_def)
  show "keeps (eset (live_extents (a_live g - {#(h, sz, al)#}))) m m'" by (rule w(3))
qed

text \<open>The size field of a slab header is overwritten with a size of the same class.\<close>

definition a_resize :: "astate \<Rightarrow> addr \<Rightarrow> u64 \<Rightarrow> u64 \<Rightarrow> astate" where
  "a_resize g h old sz = a_map (a_unmap g (h, old, 0)) (h, sz, 0)"

lemma resize_same:
  assumes l: "(h, old, 0) \<in># a_live g" and idx: "get_freelist_idx sz = get_freelist_idx old"
  shows "extents hs (a_resize g h old sz) = extents hs g" and "owned (a_resize g h old sz) = owned g"
  using extents_unmap [OF l] by (simp_all add: a_resize_def live_len_def idx)

lemma resize_geom:
  assumes geom: "p2_geom m hs g" and l: "(h, old, 0) \<in># a_live g"
    and idx: "get_freelist_idx sz = get_freelist_idx old" and sz: "sz \<noteq> 0" "unat sz \<le> 4080"
  shows "p2_geom m hs (a_resize g h old sz)"
proof (rule p2_geom_same [OF geom resize_same [OF l idx]])
  show "length (a_free (a_resize g h old sz)) = 8" using geomD(2) [OF geom] by (simp add: a_resize_def)
  have "valid_live (h, sz, 0)" using sz by (simp add: valid_live_def)
  then show "\<forall>l' \<in># a_live (a_resize g h old sz). valid_live l'"
    using geomD(7) [OF geom] by (auto simp: a_resize_def dest: in_diffD)
qed

lemma resize_spec:
  assumes pm: "p2_mem m hs g" and l: "(h, old, 0) \<in># a_live g"
    and idx: "get_freelist_idx sz = get_freelist_idx old" and sz: "sz \<noteq> 0" "unat sz \<le> 4080"
  obtains m1 where "set_hdr_size m h sz = Some m1" and "p2_mem m1 hs (a_resize g h old sz)"
    and "changes (span_of h 8) m m1" and "owned (a_resize g h old sz) = owned g"
proof -
  let ?l = "(h, old, 0)"
  note facts = live_facts [OF pm l] and geom = p2_memD(1) [OF pm]
  have v: "valid_live ?l" and nw: "unat h + live_len old 0 < 2 ^ 64" using facts by simp_all
  have n16: "unat h + 16 \<le> 2 ^ 64" using live_len_ge [OF v] nw by simp
  have "mapped m h 16"
    using live_no_wrap(2) [OF geom l] live_len_ge [OF v] by (auto intro: mapped_sub)
  then have mp8: "mapped m h 8" using mapped_add8 [OF _ n16] by blast
  obtain m1 where m1: "store64 m h sz = Some m1" "changes (span_of h 8) m m1" "load64 m1 h = Some sz"
    using store64_mapped [OF mp8] n16 by auto
  have sub: "span_of h 8 \<subseteq> espan (live_extent ?l)" using live_len_ge [OF v] by auto
  note w = block_write [OF pm l m1(2) sub]
  have "load64 m1 (h + 8) = load64 m (h + 8)"
    using node_field_spans(2,3) [OF n16] by (intro changes_load64 [OF m1(2)]) blast+
  then have "p2_header m1 (h, sz, 0)" using facts m1(3) by (simp add: p2_header_def)
  then have "\<forall>l' \<in># a_live (a_resize g h old sz). p2_header m1 l'"
    using w(2) by (simp add: a_resize_def)
  moreover have "p2_geom m1 hs (a_resize g h old sz)" by (rule resize_geom [OF w(4) l idx sz])
  ultimately have "p2_mem m1 hs (a_resize g h old sz)"
    using w(1) by (simp add: p2_mem_def a_resize_def)
  then show ?thesis using that m1(1,2) resize_same(2) [OF l idx] by (simp add: set_hdr_size_def)
qed

end
