(* ===== verification/P2_Correct.thy ===== *)
theory P2_Correct
  imports P2_Blocks
begin

text \<open>
  The public functions against the abstract allocator: from a state related to \<open>g\<close> each function
  returns (never \<open>None\<close>) the value the abstract operation gives, in a state related to the
  abstract result, and keeps the bytes of every other live block.
\<close>

section \<open>The abstract allocator\<close>

text \<open>\<open>ans\<close> is what the operating system answers to a request of so many bytes.\<close>

definition a_malloc_slab :: "(u64 \<Rightarrow> addr option) \<Rightarrow> u64 \<Rightarrow> nat \<Rightarrow> astate \<Rightarrow> addr \<times> astate" where
  "a_malloc_slab ans sz i g =
     (if a_free g ! i = [] then
        (case ans PAGE_BYTES of
           None \<Rightarrow> (NULL, g)
         | Some p \<Rightarrow> (hd (rev (page_blocks p i)) + 16, a_take (a_refill g i p) i sz))
      else (hd (a_free g ! i) + 16, a_take g i sz))"

definition a_malloc :: "(u64 \<Rightarrow> addr option) \<Rightarrow> u64 \<Rightarrow> astate \<Rightarrow> addr \<times> astate" where
  "a_malloc ans sz g =
     (if sz = 0 \<or> SIZE_MAX - 16 < sz then (NULL, g)
      else if 4080 < sz then
        (let al = page_align (16 + sz) in
         case ans al of
           None \<Rightarrow> (NULL, g)
         | Some p \<Rightarrow> (p + 16, a_map g (p, sz, al)))
      else a_malloc_slab ans sz (nat (get_freelist_idx sz)) g)"

text \<open>The mappings \<open>p2malloc\<close> asks for and gets.\<close>

definition a_mappings :: "(u64 \<Rightarrow> addr option) \<Rightarrow> u64 \<Rightarrow> astate \<Rightarrow> (addr \<times> nat) list" where
  "a_mappings ans sz g =
     (let n = (if 4080 < sz then page_align (16 + sz) else PAGE_BYTES)
      in if sz = 0 \<or> SIZE_MAX - 16 < sz \<or> sz \<le> 4080 \<and> a_free g ! nat (get_freelist_idx sz) \<noteq> [] then []
         else case ans n of None \<Rightarrow> [] | Some p \<Rightarrow> [(p, unat n)])"

definition a_release :: "astate \<Rightarrow> allocation \<Rightarrow> astate" where
  "a_release g l = (case l of (h, sz, al) \<Rightarrow>
     if al = 0 then a_give g (nat (get_freelist_idx sz)) l else a_unmap g l)"

definition a_empty :: astate where
  "a_empty = \<lparr>a_free = replicate 8 [], a_live = {#}\<rparr>"

lemma a_live_release [simp]: "a_live (a_release g l) = a_live g - {#l#}"
  by (cases l) (simp add: a_release_def)

section \<open>States\<close>

text \<open>Before the first allocation: nothing is initialised, the list heads are in static storage.\<close>

definition p2_boot :: "p2state \<Rightarrow> bool" where
  "p2_boot st \<longleftrightarrow> init_state st = 0 \<and> length (freelists st) = 8
     \<and> node_ok (mem st) (set (heads st)) \<and> distinct (heads st)
     \<and> (\<forall>h \<in> set (heads st). unat h + 16 < 2 ^ 64) \<and> allocated st = 0 \<and> totmem st = 0"

definition p2_inv :: "p2state \<Rightarrow> astate \<Rightarrow> bool" where
  "p2_inv st g \<longleftrightarrow> p2_rel st g \<or> p2_boot st \<and> g = a_empty"

lemma p2_relD:
  assumes "p2_rel st g"
  shows "init_state st = 2" and "p2_mem (mem st) (heads st) g" and "p2_fls (freelists st)"
    and "allocated st = of_nat (requested (a_live g))" and "totmem st = of_nat (total (owned g))"
  using assms by (auto simp: p2_rel_def)

text \<open>A state that differs in memory and counters only.\<close>

lemma heads_update [simp]:
  "heads (st\<lparr>mem := m\<rparr>) = heads st"
  "heads (st\<lparr>allocated := a\<rparr>) = heads st"
  "heads (st\<lparr>totmem := t\<rparr>) = heads st"
  "heads (st\<lparr>init_state := k\<rparr>) = heads st"
  by (simp_all add: heads_def)

lemma p2_rel_update:
  assumes "p2_rel st g" and "p2_mem m (heads st) g'"
    and "a = of_nat (requested (a_live g'))" and "t = of_nat (total (owned g'))"
  shows "p2_rel (st\<lparr>mem := m, allocated := a, totmem := t\<rparr>) g'"
  using assms by (simp add: p2_rel_def heads_def)

section \<open>Locks\<close>

lemma fl_facts:
  assumes "p2_rel st g" and "i < 8"
  shows "fl_at st i = Some (freelists st ! i)" and "list_head (freelists st ! i) = heads st ! i"
    and "pow2 (freelists st ! i) = push_bit (i + BASE_SHIFT) 1" and "lock (freelists st ! i) = Unlocked"
    and "i < length (freelists st)"
  using assms by (auto simp: p2_rel_def p2_fls_def fl_at_def heads_nth)

lemma lock_unlock:
  assumes "lock fl = Unlocked"
  shows "MUTEX_LOCK fl = Some (fl\<lparr>lock := Locked\<rparr>)"
    and "MUTEX_UNLOCK (fl\<lparr>lock := Locked\<rparr>) = Some fl"
  using assms by (cases fl; simp add: MUTEX_LOCK_def MUTEX_UNLOCK_def)+

lemma set_fl_same: "i < length (freelists st) \<Longrightarrow> set_fl st i (freelists st ! i) = st"
  by (simp add: set_fl_def)

lemma set_fl_simps [simp]:
  "mem (set_fl st i fl) = mem st"
  "allocated (set_fl st i fl) = allocated st"
  "totmem (set_fl st i fl) = totmem st"
  "init_state (set_fl st i fl) = init_state st"
  "set_fl (set_fl st i fl) i fl' = set_fl st i fl'"
  "set_fl (st\<lparr>mem := m\<rparr>) i fl = (set_fl st i fl)\<lparr>mem := m\<rparr>"
  "set_fl (st\<lparr>totmem := t\<rparr>) i fl = (set_fl st i fl)\<lparr>totmem := t\<rparr>"
  "set_fl (st\<lparr>allocated := a\<rparr>) i fl = (set_fl st i fl)\<lparr>allocated := a\<rparr>"
  by (simp_all add: set_fl_def)

lemma fl_at_set_fl: "i < length (freelists st) \<Longrightarrow> fl_at (set_fl st i fl) i = Some fl"
  by (simp add: fl_at_def set_fl_def)

section \<open>Slab allocation\<close>

text \<open>Taking a block, with the lock of list \<open>i\<close> already given back.\<close>

lemma rel_ring:
  assumes "p2_mem m hs g" and "i < 8"
  shows "ps_list_head_empty m (hs ! i) = Some (a_free g ! i = [])"
    and "a_free g ! i \<noteq> [] \<Longrightarrow> ps_list_next_field m (hs ! i) = Some (hd (a_free g ! i))"
proof -
  have d: "dll m (hs ! i) (a_free g ! i)" using p2_memD(2) [OF assms(1)] assms(2) by (simp add: p2_rings_def)
  show "ps_list_head_empty m (hs ! i) = Some (a_free g ! i = [])" by (rule dll_singleton [OF d])
  show "ps_list_next_field m (hs ! i) = Some (hd (a_free g ! i))" if "a_free g ! i \<noteq> []"
    using dll_first [OF d] that by (simp add: hd_append)
qed

lemma of_nat_unat_u64 [simp]: "of_nat (unat x) = (x :: u64)"
  by simp

lemma p2malloc_slab_tail:
  assumes pm: "p2_mem m (heads st) g" and i: "i < 8" and fr: "a_free g ! i = x # xs"
    and idx: "get_freelist_idx sz = int i" and sz: "sz \<noteq> 0" "unat sz \<le> 4080"
    and cnt: "a = of_nat (requested (a_live g))" "t = of_nat (total (owned g))"
    and st: "init_state st = 2" "p2_fls (freelists st)"
  shows "\<exists>m1 m2 m3. ps_list_ll_rem m x = Some m1 \<and> set_hdr_size m1 x sz = Some m2
    \<and> set_hdr_alloc_size m2 x 0 = Some m3
    \<and> p2_rel (st\<lparr>mem := m3, allocated := a + sz, totmem := t\<rparr>) (a_take g i sz)
    \<and> keeps (eset (live_extents (a_live g))) m m3 \<and> regions m3 = regions m"
proof -
  obtain m1 m2 m3 where m: "ps_list_ll_rem m x = Some m1" "set_hdr_size m1 x sz = Some m2"
      "set_hdr_alloc_size m2 x 0 = Some m3" "p2_mem m3 (heads st) (a_take g i sz)"
      "keeps (eset (live_extents (a_live g))) m m3" "regions m3 = regions m"
    by (rule take_spec [OF pm i fr idx sz])
  have "owned (a_take g i sz) = owned g"
    using extents_take(2) [OF i geomD(2) [OF p2_memD(1) [OF pm]] _ idx] fr by simp
  then have "p2_rel (st\<lparr>mem := m3, allocated := a + sz, totmem := t\<rparr>) (a_take g i sz)"
    using m(4) st cnt by (simp add: p2_rel_def heads_def add.commute)
  with m show ?thesis by blast
qed

theorem p2malloc_slab_spec:
  assumes rel: "p2_rel st g" and i: "i < 8" and idx: "get_freelist_idx sz = int i"
    and sz: "sz \<noteq> 0" "unat sz \<le> 4080" and ok: "mmap_ok os (mem st)"
  shows "\<exists>st'. p2malloc_slab os sz i st = Some (fst (a_malloc_slab (os (mem st)) sz i g), st')
    \<and> p2_rel st' (snd (a_malloc_slab (os (mem st)) sz i g))
    \<and> keeps (eset (live_extents (a_live g))) (mem st) (mem st') \<and> heads st' = heads st
    \<and> regions (mem st') = a_mappings (os (mem st)) sz g @ regions (mem st)"
proof -
  have am: "a_mappings (os (mem st)) sz g = (if a_free g ! i \<noteq> [] then [] else
      case os (mem st) PAGE_BYTES of None \<Rightarrow> [] | Some p \<Rightarrow> [(p, 4096)])"
    using sz by (auto simp: a_mappings_def idx word_less_nat_alt word_le_nat_alt split: option.split)
  note pm = p2_relD(2) [OF rel] and fl = fl_facts [OF rel i]
  note lk = lock_unlock [OF fl(4)]
  let ?fl = "freelists st ! i"
  note ring = rel_ring [OF pm i]
  note pre = p2malloc_slab_def p2malloc_refill_def fl(1,2) lk fl_at_set_fl [OF fl(5)] set_fl_same [OF fl(5)]
  show ?thesis
  proof (cases "a_free g ! i")
    case (Cons x xs)
    from p2malloc_slab_tail [OF pm i Cons idx sz p2_relD(4,5,1,3) [OF rel]]
    obtain m1 m2 m3 where m: "ps_list_ll_rem (mem st) x = Some m1" "set_hdr_size m1 x sz = Some m2"
      "set_hdr_alloc_size m2 x 0 = Some m3"
      "p2_rel (st\<lparr>mem := m3, allocated := allocated st + sz, totmem := totmem st\<rparr>) (a_take g i sz)"
      "keeps (eset (live_extents (a_live g))) (mem st) m3" "regions m3 = regions (mem st)" by blast
    have "p2malloc_slab os sz i st = Some (x + 16, st\<lparr>mem := m3, allocated := allocated st + sz\<rparr>)"
      using ring Cons m(1-3) by (simp add: pre)
    with m(4-6) Cons show ?thesis by (simp add: a_malloc_slab_def am)
  next
    case Nil
    show ?thesis
    proof (cases "os (mem st) PAGE_BYTES")
      case None
      then have "p2malloc_slab os sz i st = Some (NULL, st)"
        using ring Nil by (simp add: pre os_alloc_def)
      with Nil None rel show ?thesis by (simp add: a_malloc_slab_def am)
    next
      case (Some p)
      obtain m1 m2 where m: "os_alloc os (mem st) PAGE_BYTES = (p, m1)" "p \<noteq> NULL"
        "carve_page m1 ?fl p = Some m2" "p2_mem m2 (heads st) (a_refill g i p)"
        "keeps (eset (live_extents (a_live g))) (mem st) m2" "regions m2 = (p, 4096) # regions (mem st)"
        by (rule refill_spec [OF pm i Nil ok Some fl(3,2)])
      have cv: "carve_page m1 (?fl\<lparr>lock := Locked\<rparr>) p = Some m2" using m(3) by (simp add: carve_page_def)
      have ne: "page_blocks p i \<noteq> []"
        using blocks_per_page [OF i] by (cases "4096 div block_size i") (auto simp: page_blocks_def)
      then obtain x xs where x: "rev (page_blocks p i) = x # xs" by (cases "rev (page_blocks p i)") auto
      have fr: "a_free (a_refill g i p) ! i = x # xs"
        using x i geomD(2) [OF p2_memD(1) [OF pm]] by simp
      have tot: "totmem st + 4096 = of_nat (total (owned (a_refill g i p)))"
        using p2_relD(5) [OF rel] blocks_per_page [OF i]
        by (simp add: extents_refill(2) [OF i geomD(2) [OF p2_memD(1) [OF pm]] Nil] page_blocks_def)
      have req: "allocated st = of_nat (requested (a_live (a_refill g i p)))"
        using p2_relD(4) [OF rel] by simp
      obtain m3 m4 m5 where t: "ps_list_ll_rem m2 x = Some m3" "set_hdr_size m3 x sz = Some m4"
        "set_hdr_alloc_size m4 x 0 = Some m5"
        "p2_rel (st\<lparr>mem := m5, allocated := allocated st + sz, totmem := totmem st + 4096\<rparr>)
           (a_take (a_refill g i p) i sz)"
        "keeps (eset (live_extents (a_live g))) m2 m5" "regions m5 = regions m2"
        using p2malloc_slab_tail [OF m(4) i fr idx sz req tot p2_relD(1,3) [OF rel]] by auto
      have "ps_list_next_field m2 (heads st ! i) = Some x"
        using rel_ring(2) [OF m(4) i] fr by simp
      then have "p2malloc_slab os sz i st = Some (x + 16,
          st\<lparr>mem := m5, totmem := totmem st + 4096, allocated := allocated st + sz\<rparr>)"
        using ring Nil m(1,2) cv t(1-3) by (simp add: pre)
      moreover have "keeps (eset (live_extents (a_live g))) (mem st) m5"
        using m(5) t(5) by (rule keeps_trans)
      moreover have "st\<lparr>mem := m5, totmem := totmem st + 4096, allocated := allocated st + sz\<rparr>
          = st\<lparr>mem := m5, allocated := allocated st + sz, totmem := totmem st + 4096\<rparr>" by simp
      ultimately show ?thesis using t(4,6) m(6) Nil Some x by (simp add: a_malloc_slab_def am)
    qed
  qed
qed

section \<open>Large allocation\<close>

lemma live_len_large [simp]: "al \<noteq> 0 \<Longrightarrow> live_len sz al = unat al"
  by (simp add: live_len_def)

lemma a_map_counts [simp]:
  "requested (a_live (a_map g (h, sz, al))) = unat sz + requested (a_live g)"
  "al \<noteq> 0 \<Longrightarrow> total (owned (a_map g (h, sz, al))) = unat al + total (owned g)"
  by (simp_all add: live_len_def)

lemma p2malloc_large_spec:
  assumes rel: "p2_rel st g" and sz: "4080 < unat sz" "unat sz + 16 < 2 ^ 64" and ok: "mmap_ok os (mem st)"
  shows "\<exists>st'. p2malloc_large os sz st = Some (fst (a_malloc (os (mem st)) sz g), st')
    \<and> p2_rel st' (snd (a_malloc (os (mem st)) sz g))
    \<and> keeps (eset (live_extents (a_live g))) (mem st) (mem st') \<and> heads st' = heads st
    \<and> regions (mem st') = a_mappings (os (mem st)) sz g @ regions (mem st)"
proof -
  define al where "al = page_align (16 + sz)"
  note pm = p2_relD(2) [OF rel]
  have am: "a_malloc (os (mem st)) sz g = (case os (mem st) al of
      None \<Rightarrow> (NULL, g) | Some p \<Rightarrow> (p + 16, a_map g (p, sz, al)))"
    using sz unfolding al_def by (auto simp: a_malloc_def Let_def word_less_nat_alt)
  have maps: "a_mappings (os (mem st)) sz g = (case os (mem st) al of None \<Rightarrow> [] | Some p \<Rightarrow> [(p, unat al)])"
    using sz unfolding al_def
    by (auto simp: a_mappings_def Let_def word_less_nat_alt word_le_nat_alt split: option.split)
  show ?thesis
  proof (cases "os (mem st) al")
    case None
    then have "p2malloc_large os sz st = Some (NULL, st)"
      by (simp add: p2malloc_large_def os_alloc_def al_def)
    then show ?thesis using rel by (simp add: am maps None)
  next
    case (Some p)
    obtain m1 m2 m3 where m: "os_alloc os (mem st) al = (p, m1)" "p \<noteq> NULL"
      "set_hdr_size m1 p sz = Some m2" "set_hdr_alloc_size m2 p al = Some m3"
      "p2_mem m3 (heads st) (a_map g (p, sz, al))"
      "keeps (eset (live_extents (a_live g))) (mem st) m3" "al \<noteq> 0"
      "regions m3 = (p, unat al) # regions (mem st)"
      by (rule map_spec [OF pm sz al_def ok Some])
    have "p2malloc_large os sz st = Some (p + 16,
        st\<lparr>mem := m3, allocated := allocated st + sz, totmem := totmem st + al\<rparr>)"
      using m(1-4) by (simp add: p2malloc_large_def al_def)
    moreover have "p2_rel (st\<lparr>mem := m3, allocated := allocated st + sz, totmem := totmem st + al\<rparr>)
        (a_map g (p, sz, al))"
      using p2_relD(4,5) [OF rel] m(7) by (intro p2_rel_update [OF rel m(5)]) (simp_all add: add.commute)
    ultimately show ?thesis using m(6,8) by (simp add: am maps Some)
  qed
qed

section \<open>Initialisation on first use\<close>

lemma sum_replicate_mset: "(\<Sum>i < k. {#(f i, n)#}) = mset (map (\<lambda>i. (f i, n)) [0..<k])"
  by (induction k) simp_all

lemma extents_empty:
  assumes "length hs = 8"
  shows "extents hs a_empty = mset (map (\<lambda>h. (h, 16)) hs)" and "owned a_empty = {#}"
proof -
  have "extents hs a_empty = (\<Sum>i < 8. {#(hs ! i, 16)#})"
    by (simp add: extents_def a_empty_def ring_extents_def)
  also have "\<dots> = mset (map (\<lambda>i. (hs ! i, 16)) [0..<length hs])"
    unfolding sum_replicate_mset assms ..
  also have "map (\<lambda>i. (hs ! i, 16 :: nat)) [0..<length hs] = map (\<lambda>h. (h, 16)) hs"
    by (rule nth_equalityI) simp_all
  finally show "extents hs a_empty = mset (map (\<lambda>h. (h, 16)) hs)" .
qed (simp add: owned_def a_empty_def)

lemma disj_nodes:
  "node_ok m (set hs) \<Longrightarrow> distinct hs \<Longrightarrow> disj (mset (map (\<lambda>h. (h, 16)) hs))"
proof (induction hs)
  case (Cons h hs)
  then have "node_ok m (set hs)" by (auto intro: node_ok_subset)
  moreover have "span_of h 16 \<inter> span_of k 16 = {}" if "k \<in> set hs" for k
    using Cons.prems that by (auto simp: node_ok_def simp del: mem_span_of)
  ultimately show ?case using Cons by (auto simp: disj_add_mset simp del: mem_span_of)
qed simp

lemma p2_mem_empty:
  assumes "node_ok m (set hs)" and "distinct hs" and "length hs = 8"
    and "\<forall>h \<in> set hs. unat h + 16 < 2 ^ 64" and "\<forall>j < 8. dll m (hs ! j) []"
  shows "p2_mem m hs a_empty"
proof -
  have "p2_geom m hs a_empty"
    unfolding p2_geom_def extents_empty [OF assms(3)]
    using assms(1,3,4) disj_nodes [OF assms(1,2)]
    by (auto simp: a_empty_def node_ok_def)
  moreover have "p2_rings m hs (a_free a_empty)" using assms(5) by (simp add: p2_rings_def a_empty_def)
  ultimately show ?thesis by (simp add: p2_mem_def a_empty_def)
qed

lemma init_heads:
  assumes "length (freelists st) = 8"
  shows "map list_head (map (\<lambda>j. init_head j (freelists st ! j)) [0..<8]) = heads st"
    and "p2_fls (map (\<lambda>j. init_head j (freelists st ! j)) [0..<8])"
proof -
  have "heads st = map (\<lambda>j. list_head (freelists st ! j)) [0..<8]"
    using assms by (intro nth_equalityI) (simp_all add: heads_nth)
  then show "map list_head (map (\<lambda>j. init_head j (freelists st ! j)) [0..<8]) = heads st"
    by (simp add: o_def)
  show "p2_fls (map (\<lambda>j. init_head j (freelists st ! j)) [0..<8])"
    by (simp add: p2_fls_def init_head_def)
qed

lemma p2_boot_init:
  assumes "p2_boot st"
  obtains m where "freelists_init (st\<lparr>init_state := k\<rparr>) = Some (st\<lparr>init_state := k, mem := m,
      freelists := map (\<lambda>j. init_head j (freelists st ! j)) [0..<8]\<rparr>)"
    and "changes (node_bytes (set (heads st))) (mem st) m"
    and "p2_mem m (heads st) a_empty"
proof -
  have b: "init_state st = 0" "length (freelists st) = 8" "node_ok (mem st) (set (heads st))"
      "distinct (heads st)" "\<forall>h \<in> set (heads st). unat h + 16 < 2 ^ 64"
    using assms unfolding p2_boot_def by blast+
  let ?st = "st\<lparr>init_state := k\<rparr>"
  have "heads ?st = heads st" and "mem ?st = mem st" by simp_all
  then have "length (freelists ?st) = 8" and "node_ok (mem ?st) (set (heads ?st))"
    and "distinct (heads ?st)"
    using b(2-4) by simp_all
  then obtain m where m: "freelists_init ?st = Some (?st\<lparr>mem := m,
        freelists := map (\<lambda>j. init_head j (freelists ?st ! j)) [0..<8]\<rparr>)"
      "changes (node_bytes (set (heads ?st))) (mem ?st) m" "\<forall>j < 8. dll m (heads ?st ! j) []"
    by (rule freelists_init_spec)
  have "node_ok m (set (heads st))" using b node_ok_changes [OF m(2)] by simp
  then have "p2_mem m (heads st) a_empty" using b m(3) by (intro p2_mem_empty) simp_all
  then show ?thesis using that m(1,2) by simp
qed

lemma a_empty_simps [simp]: "a_live a_empty = {#}" "a_free a_empty = replicate 8 []" "owned a_empty = {#}"
  by (simp_all add: a_empty_def owned_def)

lemma p2_rel_fresh:
  assumes "p2_boot st" and "p2_mem m (heads st) a_empty"
  shows "p2_rel (st\<lparr>init_state := 2, mem := m, allocated := 0, totmem := 0,
      freelists := map (\<lambda>j. init_head j (freelists st ! j)) [0..<8]\<rparr>) a_empty"
  using assms init_heads [of st] by (simp add: p2_rel_def p2_boot_def heads_def)

lemma ensure_init_spec:
  assumes "p2_inv st g"
  obtains st' where "ensure_init st = Some st'" and "p2_rel st' g" and "heads st' = heads st"
    and "keeps (eset (live_extents (a_live g))) (mem st) (mem st')"
    and "regions (mem st') = regions (mem st)"
  using assms unfolding p2_inv_def
proof (elim disjE conjE)
  assume rel: "p2_rel st g"
  then have "ensure_init st = Some st" by (simp add: ensure_init_def p2_rel_def)
  then show ?thesis using rel refl keeps_refl refl by (rule that)
next
  assume b: "p2_boot st" and g: "g = a_empty"
  note bd = b [unfolded p2_boot_def]
  obtain m where m: "freelists_init (st\<lparr>init_state := 1\<rparr>) = Some (st\<lparr>init_state := 1, mem := m,
      freelists := map (\<lambda>j. init_head j (freelists st ! j)) [0..<8]\<rparr>)"
    "changes (node_bytes (set (heads st))) (mem st) m" "p2_mem m (heads st) a_empty"
    using p2_boot_init [OF b, of 1] .
  let ?st = "st\<lparr>init_state := 2, mem := m, allocated := 0, totmem := 0,
      freelists := map (\<lambda>j. init_head j (freelists st ! j)) [0..<8]\<rparr>"
  have "ensure_init st = Some ?st" using m(1) bd by (simp add: ensure_init_def)
  moreover have "heads ?st = heads st" using init_heads(1) [of st] bd by (simp add: heads_def)
  ultimately show ?thesis using p2_rel_fresh [OF b m(3)] changes_regions [OF m(2)] that by (simp add: g)
qed

section \<open>\<open>p2malloc\<close>\<close>

text \<open>
  A kernel that keeps the documented promises of \<open>mmap\<close> in every memory, and its answers after
  the allocator has initialised itself.
\<close>

definition kernel_ok :: "os \<Rightarrow> bool" where
  "kernel_ok os \<longleftrightarrow> (\<forall>m. mmap_ok os m)"

definition answers :: "os \<Rightarrow> p2state \<Rightarrow> u64 \<Rightarrow> addr option" where
  "answers os st n = Option.bind (ensure_init st) (\<lambda>st'. os (mem st') n)"

lemma heads_of_rel: "p2_inv st g \<Longrightarrow> length (freelists st) = 8"
  by (auto simp: p2_inv_def p2_rel_def p2_boot_def p2_fls_def)

lemma p2malloc_spec:
  assumes inv: "p2_inv st g" and ok: "kernel_ok os"
  shows "\<exists>st'. p2malloc os sz st = Some (fst (a_malloc (answers os st) sz g), st')
    \<and> p2_inv st' (snd (a_malloc (answers os st) sz g))
    \<and> keeps (eset (live_extents (a_live g))) (mem st) (mem st') \<and> heads st' = heads st
    \<and> regions (mem st') = a_mappings (answers os st) sz g @ regions (mem st)"
proof (cases "sz = 0 \<or> SIZE_MAX - 16 < sz")
  case True
  then have "p2malloc os sz st = Some (NULL, st)" by (auto simp: p2malloc_def)
  with True inv show ?thesis by (auto simp: a_malloc_def a_mappings_def Let_def)
next
  case False
  then have sz0: "sz \<noteq> 0" and guard: "unat sz + 16 < 2 ^ 64" by (auto simp: word_less_nat_alt)
  obtain st1 where st1: "ensure_init st = Some st1" "p2_rel st1 g" "heads st1 = heads st"
      "keeps (eset (live_extents (a_live g))) (mem st) (mem st1)" "regions (mem st1) = regions (mem st)"
    using ensure_init_spec [OF inv] .
  have an: "answers os st = os (mem st1)" by (rule ext) (simp add: answers_def st1(1))
  have ok1: "mmap_ok os (mem st1)" using ok by (simp add: kernel_ok_def)
  have goal: ?thesis if "\<exists>st'. p2malloc os sz st = Some (fst (a_malloc (os (mem st1)) sz g), st')
    \<and> p2_rel st' (snd (a_malloc (os (mem st1)) sz g))
    \<and> keeps (eset (live_extents (a_live g))) (mem st1) (mem st') \<and> heads st' = heads st1
    \<and> regions (mem st') = a_mappings (os (mem st1)) sz g @ regions (mem st1)"
    using that st1(3,5) keeps_trans [OF st1(4)] unfolding an p2_inv_def by fastforce
  show ?thesis
  proof (cases "4080 < unat sz")
    case True
    have "p2malloc os sz st = p2malloc_large os sz st1"
      using False st1(1) True idx_large [OF guard] by (simp add: p2malloc_def)
    then show ?thesis using p2malloc_large_spec [OF st1(2) True guard ok1] goal by simp
  next
    case small: False
    then have le: "unat sz \<le> 4080" by simp
    obtain i where i: "get_freelist_idx sz = int i" "i < 8" using idx_slab [OF le] .
    have "p2malloc os sz st = p2malloc_slab os sz i st1"
      using False st1(1) i by (simp add: p2malloc_def)
    moreover have "a_malloc (os (mem st1)) sz g = a_malloc_slab (os (mem st1)) sz i g"
      using False small i by (simp add: a_malloc_def word_less_nat_alt)
    ultimately show ?thesis using p2malloc_slab_spec [OF st1(2) i(2,1) sz0 le ok1] goal by simp
  qed
qed

end
