(* ===== verification/P2_Api.thy ===== *)
theory P2_Api
  imports P2_Correct
begin

text \<open>
  Release, array allocation, resizing and reset against the abstract allocator, and the writes a
  client makes to the blocks it holds.
\<close>

section \<open>What the abstract operations do to the live blocks\<close>

definition alloc_size_of :: "u64 \<Rightarrow> u64" where
  "alloc_size_of sz = (if 4080 < sz then page_align (16 + sz) else 0)"

lemma a_free_length: "p2_inv st g \<Longrightarrow> length (a_free g) = 8"
  by (auto simp: p2_inv_def p2_rel_def p2_mem_def p2_geom_def)

lemma a_malloc_cases:
  assumes len: "length (a_free g) = 8"
  obtains (fail) "a_malloc ans sz g = (NULL, g)"
  | (block) h where "fst (a_malloc ans sz g) = h + 16"
      and "a_live (snd (a_malloc ans sz g)) = add_mset (h, sz, alloc_size_of sz) (a_live g)"
      and "sz \<noteq> 0" and "sz \<le> SIZE_MAX - 16"
proof (cases "sz = 0 \<or> SIZE_MAX - 16 < sz")
  case True
  then show ?thesis by (intro fail) (auto simp: a_malloc_def)
next
  case False
  then have sz: "sz \<noteq> 0" "sz \<le> SIZE_MAX - 16" "\<not> (sz = 0 \<or> SIZE_MAX - 16 < sz)"
    by (auto simp: not_less)
  show ?thesis
  proof (cases "4080 < sz")
    case True
    then have "a_malloc ans sz g = (case ans (page_align (16 + sz)) of None \<Rightarrow> (NULL, g)
        | Some p \<Rightarrow> (p + 16, a_map g (p, sz, page_align (16 + sz))))"
      using sz(3) by (simp add: a_malloc_def Let_def)
    then show ?thesis using sz True fail block
      by (cases "ans (page_align (16 + sz))") (auto simp: alloc_size_of_def)
  next
    case small: False
    then have am: "a_malloc ans sz g = a_malloc_slab ans sz (nat (get_freelist_idx sz)) g"
      using sz(3) by (simp add: a_malloc_def)
    let ?i = "nat (get_freelist_idx sz)"
    have "unat sz \<le> 4080" using small by (simp add: word_less_nat_alt)
    then obtain k where "get_freelist_idx sz = int k" "k < 8" using idx_slab by blast
    then have i: "?i < length (a_free g)" by (simp add: len)
    show ?thesis
    proof (cases "a_free g ! ?i = [] \<and> ans PAGE_BYTES = None")
      case True
      then show ?thesis by (intro fail) (simp add: am a_malloc_slab_def)
    next
      case ok: False
      let ?h = "fst (a_malloc ans sz g) - 16"
      have "a_live (snd (a_malloc ans sz g)) = add_mset (?h, sz, alloc_size_of sz) (a_live g)"
        using ok small i unfolding am
        by (auto simp: a_malloc_slab_def alloc_size_of_def split: option.splits)
      then show ?thesis using sz by (intro block [of ?h]) simp_all
    qed
  qed
qed

lemma live_grows:
  "a_live g' = add_mset l (a_live g) \<Longrightarrow> g' \<noteq> g"
  using multi_self_add_other_not_self by metis

lemma a_malloc_fail_iff:
  "a_malloc ans sz g = (NULL, g) \<longleftrightarrow> sz = 0 \<or> SIZE_MAX - 16 < sz
     \<or> (if 4080 < sz then ans (page_align (16 + sz)) = None
        else a_free g ! nat (get_freelist_idx sz) = [] \<and> ans PAGE_BYTES = None)"
proof -
  have "a_map g l \<noteq> g" for l by (rule live_grows) simp
  moreover have "a_take g i sz \<noteq> g" for i by (rule live_grows) simp
  moreover have "a_take (a_refill g i p) i sz \<noteq> g" for i p by (rule live_grows) simp
  ultimately show ?thesis by (auto simp: a_malloc_def a_malloc_slab_def Let_def split: option.splits)
qed

lemma a_malloc_large:
  assumes "4080 < sz" and "a_malloc ans sz g \<noteq> (NULL, g)"
  obtains p where "a_malloc ans sz g = (p + 16, a_map g (p, sz, page_align (16 + sz)))"
    and "a_mappings ans sz g = [(p, unat (page_align (16 + sz)))]"
proof -
  have "\<not> sz \<le> 4080" using assms(1) by simp
  with assms obtain p where "ans (page_align (16 + sz)) = Some p" "sz \<noteq> 0" "\<not> SIZE_MAX - 16 < sz"
    by (auto simp: a_malloc_fail_iff)
  then show ?thesis using that [of p] assms(1) \<open>\<not> sz \<le> 4080\<close>
    by (simp add: a_malloc_def a_mappings_def Let_def)
qed

lemma owned_map_unmap:
  "al \<noteq> 0 \<Longrightarrow> owned (a_release (a_map g (h, sz, al)) (h, sz, al)) = owned g"
  by (simp add: a_release_def a_unmap_def a_map_def owned_def)

lemma requested_minus:
  "(h, sz, al) \<in># L \<Longrightarrow> requested L = unat sz + requested (L - {#(h, sz, al)#})"
  by (auto dest!: multi_member_split)

lemma live_not_boot: "p2_inv st g \<Longrightarrow> l \<in># a_live g \<Longrightarrow> p2_rel st g"
  by (auto simp: p2_inv_def)

lemma live_ptr:
  assumes "p2_rel st g" and "(h, sz, al) \<in># a_live g"
  shows "h + 16 \<noteq> NULL" and "unat (h + 16) = unat h + 16"
    and "span_of (h + 16) (unat sz) \<subseteq> span_of h (live_len sz al)"
    and "hdr_size (mem st) h = Some sz" and "hdr_alloc_size (mem st) h = Some al"
    and "valid_live (h, sz, al)" and "mapped (mem st) (h + 16) (unat sz)"
    and "unat (h + 16) + unat sz < 2 ^ 64" and "16 dvd unat (h + 16)"
proof -
  note pm = p2_relD(2) [OF assms(1)]
  note f = live_facts [OF pm assms(2)]
  have v: "valid_live (h, sz, al)" and nw: "unat h + live_len sz al < 2 ^ 64" using f by simp_all
  note hp = header_payload [OF v nw]
  show "unat (h + 16) = unat h + 16" by (rule hp(1))
  then show "h + 16 \<noteq> NULL" by (metis add_is_0 unat_0 zero_neq_numeral)
  show "span_of (h + 16) (unat sz) \<subseteq> span_of h (live_len sz al)" by (rule hp(2))
  show "hdr_size (mem st) h = Some sz" and "hdr_alloc_size (mem st) h = Some al"
    using f by (simp_all add: p2_header_def hdr_size_def hdr_alloc_size_def)
  show "valid_live (h, sz, al)" by (rule v)
  have "mapped (mem st) h (live_len sz al)"
    using live_no_wrap(2) [OF p2_memD(1) [OF pm] assms(2)] by simp
  then show "mapped (mem st) (h + 16) (unat sz)"
    by (rule mapped_sub) (use hp(1) live_len_ge [OF v] in simp_all)
  show "unat (h + 16) + unat sz < 2 ^ 64" by (rule hp(4))
  have "live_extent (h, sz, al) \<in># owned g" using assms(2) by (simp add: owned_def live_extents_def del: live_extent_simp)
  then have "16 dvd unat h" using geomD(6) [OF p2_memD(1) [OF pm]] by fastforce
  then show "16 dvd unat (h + 16)" by (simp add: hp(1))
qed

lemma a_malloc_nonnull:
  assumes "p2_inv st g" and "p2_inv st' (snd (a_malloc ans sz g))" and "a_malloc ans sz g \<noteq> (NULL, g)"
  shows "fst (a_malloc ans sz g) \<noteq> NULL"
proof (rule a_malloc_cases [OF a_free_length [OF assms(1)], of ans sz])
  assume "a_malloc ans sz g = (NULL, g)"
  with assms(3) show ?thesis by simp
next
  fix h assume h: "fst (a_malloc ans sz g) = h + 16"
    "a_live (snd (a_malloc ans sz g)) = add_mset (h, sz, alloc_size_of sz) (a_live g)"
  then have l: "(h, sz, alloc_size_of sz) \<in># a_live (snd (a_malloc ans sz g))" by simp
  then show ?thesis using live_ptr(1) [OF live_not_boot [OF assms(2) l] l] h(1) by simp
qed

section \<open>Release\<close>

lemma total_owned_unmap:
  "(h, sz, al) \<in># a_live g \<Longrightarrow> al \<noteq> 0 \<Longrightarrow>
     total (owned g) = unat al + total (owned (a_unmap g (h, sz, al)))"
  by (simp add: extents_unmap(2) [of "(h, sz, al)" g])

lemma p2free_spec:
  assumes rel: "p2_rel st g" and l: "(h, sz, al) \<in># a_live g"
  shows "\<exists>st'. p2free (h + 16) st = Some st' \<and> p2_rel st' (a_release g (h, sz, al))
    \<and> keeps (eset (live_extents (a_live g - {#(h, sz, al)#}))) (mem st) (mem st')
    \<and> heads st' = heads st \<and> (al = 0 \<longrightarrow> load64 (mem st') (h + 16) = Some 0)
    \<and> regions (mem st') = (if al = 0 then regions (mem st) else remove1 (h, unat al) (regions (mem st)))
    \<and> (al = 0 \<longrightarrow> changes (span_of (h + 16) 8 \<union> node_bytes (insert h
         (set (heads st ! nat (get_freelist_idx sz) # a_free g ! nat (get_freelist_idx sz))))) (mem st) (mem st'))"
proof -
  note pm = p2_relD(2) [OF rel] and lp = live_ptr [OF rel l]
  have large: "IS_LARGE (mem st) h = Some (al \<noteq> 0)" by (simp add: IS_LARGE_def lp(5))
  show ?thesis
  proof (cases "al = 0")
    case False
    obtain m1 where m1: "os_free (mem st) h al = Some m1" "p2_mem m1 (heads st) (a_unmap g (h, sz, al))"
      "keeps (eset (live_extents (a_live g - {#(h, sz, al)#}))) (mem st) m1"
      "regions m1 = remove1 (h, unat al) (regions (mem st))"
      by (rule unmap_spec [OF pm l False])
    let ?st = "st\<lparr>mem := m1, allocated := allocated st - sz, totmem := totmem st - al\<rparr>"
    have "p2free (h + 16) st = Some ?st" using False lp(1,4,5) m1(1) large by (simp add: p2free_def)
    moreover have "p2_rel ?st (a_unmap g (h, sz, al))"
      using p2_relD(4,5) [OF rel] requested_minus [OF l] total_owned_unmap [OF l False]
      by (intro p2_rel_update [OF rel m1(2)]) simp_all
    ultimately show ?thesis using m1(3,4) False by (simp add: a_release_def)
  next
    case True
    note l0 = l [unfolded True] and v = lp(6) [unfolded True]
    have "unat sz \<le> 4080" using v by (simp add: valid_live_def)
    then obtain i where i: "get_freelist_idx sz = int i" "i < 8" using idx_slab by blast
    note fl = fl_facts [OF rel i(2)]
    note lk = lock_unlock [OF fl(4)]
    let ?fl = "(freelists st ! i)\<lparr>lock := Locked\<rparr>"
    have lh: "list_head ?fl = heads st ! i" using fl(2) by simp
    obtain m1 m2 where m: "memset (mem st) (h + 16) 0 8 = Some m1" "p2orderedinsert m1 h ?fl = Some m2"
      "p2_mem m2 (heads st) (a_give g i (h, sz, 0))"
      "keeps (eset (live_extents (a_live g - {#(h, sz, 0)#}))) (mem st) m2"
      "load64 m2 (h + 16) = Some 0" "regions m2 = regions (mem st)"
      "changes (span_of (h + 16) 8 \<union> node_bytes (insert h (set (heads st ! i # a_free g ! i)))) (mem st) m2"
      by (rule give_spec [OF pm i(2) l0 i(1) lh])
    let ?st = "st\<lparr>mem := m2, allocated := allocated st - sz, totmem := totmem st\<rparr>"
    have at: "fl_at (st\<lparr>mem := m1, allocated := allocated st - sz\<rparr>) i = Some (freelists st ! i)"
      using fl(5) by (simp add: fl_at_def)
    have same: "set_fl st i (freelists st ! i) = st" by (rule set_fl_same [OF fl(5)])
    have "p2free (h + 16) st = Some ?st"
      using True lp(1,4,5) m(1,2) large i at lk same by (simp add: p2free_def sizeof_size_t_def)
    moreover have "p2_rel ?st (a_give g i (h, sz, 0))"
      using p2_relD(4,5) [OF rel] requested_minus [OF l0]
        extents_give(2) [OF i(2) geomD(2) [OF p2_memD(1) [OF pm]] l0 i(1)]
      by (intro p2_rel_update [OF rel m(3)]) simp_all
    ultimately show ?thesis using m(4-7) True i(1) by (simp add: a_release_def)
  qed
qed

section \<open>What a client writes to its blocks\<close>

text \<open>Bytes written inside the payload of one live block: no header, no list and no other block.\<close>

lemma client_write:
  assumes rel: "p2_rel st g" and l: "(h, sz, al) \<in># a_live g" and ch: "changes T (mem st) m'"
    and T: "T \<subseteq> span_of (h + 16) (unat sz)"
  shows "p2_rel (st\<lparr>mem := m'\<rparr>) g"
    and "keeps (eset (live_extents (a_live g - {#(h, sz, al)#}))) (mem st) m'"
  using payload_spec [OF p2_relD(2) [OF rel] l ch T] rel by (simp_all add: p2_rel_def)

section \<open>Array allocation\<close>

lemma calloc_overflow_iff:
  assumes "sz \<noteq> 0"
  shows "SIZE_MAX div sz < n \<longleftrightarrow> 2 ^ 64 \<le> unat n * unat (sz :: u64)"
proof -
  have "0 < unat sz" using assms by (simp add: unat_gt_0)
  then have "unat n * unat sz < 2 ^ 64 \<longleftrightarrow> unat n \<le> (2 ^ 64 - 1) div unat sz"
    by (simp add: less_eq_div_iff_mult_less_eq) linarith
  moreover have "unat (SIZE_MAX div sz) = (2 ^ 64 - 1) div unat sz" by (simp add: unat_div)
  ultimately show ?thesis unfolding word_less_nat_alt by linarith
qed

lemma p2calloc_spec:
  assumes inv: "p2_inv st g" and ok: "kernel_ok os"
    and fits: "n \<noteq> 0" "sz \<noteq> 0" "unat n * unat sz < 2 ^ 64"
  shows "\<exists>st'. p2calloc os n sz st = Some (fst (a_malloc (answers os st) (n * sz) g), st')
    \<and> p2_inv st' (snd (a_malloc (answers os st) (n * sz) g))
    \<and> keeps (eset (live_extents (a_live g))) (mem st) (mem st') \<and> heads st' = heads st
    \<and> (fst (a_malloc (answers os st) (n * sz) g) \<noteq> NULL \<longrightarrow>
        (\<forall>b. unat b \<in> span_of (fst (a_malloc (answers os st) (n * sz) g)) (unat n * unat sz) \<longrightarrow>
          bytes (mem st') b = 0))
    \<and> regions (mem st') = a_mappings (answers os st) (n * sz) g @ regions (mem st)"
proof -
  let ?am = "a_malloc (answers os st) (n * sz) g"
  obtain st1 where st1: "p2malloc os (n * sz) st = Some (fst ?am, st1)" "p2_inv st1 (snd ?am)"
      "keeps (eset (live_extents (a_live g))) (mem st) (mem st1)" "heads st1 = heads st"
      "regions (mem st1) = a_mappings (answers os st) (n * sz) g @ regions (mem st)"
    using p2malloc_spec [OF inv ok, of "n * sz"] by blast
  have nsz: "unat (n * sz) = unat n * unat sz" using fits(3) by (simp add: unat_word_ariths)
  have guard: "\<not> SIZE_MAX div sz < n" using calloc_overflow_iff [OF fits(2)] fits(3) by simp
  show ?thesis
  proof (cases "fst ?am = NULL")
    case True
    then have "p2calloc os n sz st = Some (NULL, st1)"
      using fits guard st1(1) by (simp add: p2calloc_def)
    then show ?thesis using True st1 by auto
  next
    case False
    then obtain h where h: "fst ?am = h + 16"
      "a_live (snd ?am) = add_mset (h, n * sz, alloc_size_of (n * sz)) (a_live g)"
      by (cases rule: a_malloc_cases [OF a_free_length [OF inv], of "answers os st" "n * sz"]) auto
    let ?l = "(h, n * sz, alloc_size_of (n * sz))"
    have l: "?l \<in># a_live (snd ?am)" by (simp add: h(2))
    have rel: "p2_rel st1 (snd ?am)" by (rule live_not_boot [OF st1(2) l])
    note lp = live_ptr [OF rel l]
    obtain m where m: "memset (mem st1) (h + 16) 0 (unat (n * sz)) = Some m"
        "changes (span_of (h + 16) (unat (n * sz))) (mem st1) m"
        "\<And>b. unat b \<in> span_of (h + 16) (unat (n * sz)) \<Longrightarrow> bytes m b = 0"
      using memset_spec [OF lp(7)] lp(8) by (metis less_imp_le)
    note cw = client_write [OF rel l m(2) order_refl]
    have "p2calloc os n sz st = Some (h + 16, st1\<lparr>mem := m\<rparr>)"
      using False fits guard st1(1) m(1) by (simp add: p2calloc_def h(1))
    moreover have "keeps (eset (live_extents (a_live g))) (mem st) m"
      using st1(3) cw(2) by (intro keeps_trans [OF st1(3)]) (simp add: h(2))
    moreover have "regions m = regions (mem st1)" by (rule changes_regions [OF m(2)])
    ultimately show ?thesis using cw(1) st1(4,5) m(3) by (simp add: p2_inv_def h(1) nsz)
  qed
qed

definition a_calloc :: "(u64 \<Rightarrow> addr option) \<Rightarrow> u64 \<Rightarrow> u64 \<Rightarrow> astate \<Rightarrow> addr \<times> astate" where
  "a_calloc ans n sz g =
     (if n = 0 \<or> sz = 0 \<or> 2 ^ 64 \<le> unat n * unat sz then (NULL, g) else a_malloc ans (n * sz) g)"

lemma p2calloc_refuses:
  "n = 0 \<or> sz = 0 \<or> 2 ^ 64 \<le> unat n * unat sz \<Longrightarrow> p2calloc os n sz st = Some (NULL, st)"
  using calloc_overflow_iff [of sz n] by (auto simp: p2calloc_def)

section \<open>Resizing\<close>

definition a_realloc :: "(u64 \<Rightarrow> addr option) \<Rightarrow> allocation \<Rightarrow> u64 \<Rightarrow> astate \<Rightarrow> addr \<times> astate" where
  "a_realloc ans l sz g = (case l of (h, old, al) \<Rightarrow>
     if sz = 0 then (NULL, a_release g l)
     else if al = 0 \<and> get_freelist_idx sz = get_freelist_idx old then (h + 16, a_resize g h old sz)
     else (case a_malloc ans sz g of (p, g') \<Rightarrow> if p = NULL then (NULL, g') else (p, a_release g' l)))"

lemma a_live_resize: "a_live (a_resize g h old sz) = add_mset (h, sz, 0) (a_live g - {#(h, old, 0)#})"
  by (simp add: a_resize_def)

text \<open>The old and the new block do not overlap.\<close>

lemma live_pair_disjoint:
  assumes "p2_rel st g" and "{#l, l'#} \<subseteq># a_live g"
  shows "espan (live_extent l) \<inter> espan (live_extent l') = {}"
proof (rule disj_pair)
  show "disj (extents (heads st) g)" by (rule geomD(3) [OF p2_memD(1) [OF p2_relD(2) [OF assms(1)]]])
  have "image_mset live_extent {#l, l'#} \<subseteq># live_extents (a_live g)"
    unfolding live_extents_def by (rule image_mset_subseteq_mono [OF assms(2)])
  then show "{#live_extent l, live_extent l'#} \<subseteq># extents (heads st) g"
    by (simp add: extents_def subset_mset.add_increasing)
qed

text \<open>In place: the size field is rewritten and the payload stays.\<close>

lemma realloc_in_place:
  assumes rel: "p2_rel st g" and l: "(h, old, 0) \<in># a_live g" and sz: "sz \<noteq> 0" "unat sz + 16 < 2 ^ 64"
    and idx: "get_freelist_idx sz = get_freelist_idx old"
  shows "\<exists>m. p2realloc os (h + 16) sz st =
      Some (h + 16, st\<lparr>mem := m, allocated := allocated st - old + sz\<rparr>)
    \<and> p2_rel (st\<lparr>mem := m, allocated := allocated st - old + sz\<rparr>) (a_resize g h old sz)
    \<and> changes (span_of h 8) (mem st) m"
proof -
  note pm = p2_relD(2) [OF rel] and lp = live_ptr [OF rel l]
  have "unat old \<le> 4080" using lp(6) by (simp add: valid_live_def)
  then have "get_freelist_idx sz \<noteq> -1" using idx idx_slab by (metis int_one_le_iff_zero_less neg_0_le_iff_le not_one_le_zero of_nat_0_le_iff zero_less_one)
  then have le: "unat sz \<le> 4080" using idx_large [OF sz(2)] by simp
  obtain m where m: "set_hdr_size (mem st) h sz = Some m" "p2_mem m (heads st) (a_resize g h old sz)"
      "changes (span_of h 8) (mem st) m" "owned (a_resize g h old sz) = owned g"
    by (rule resize_spec [OF pm l idx sz(1) le])
  let ?st = "st\<lparr>mem := m, allocated := allocated st - old + sz, totmem := totmem st\<rparr>"
  have "p2realloc os (h + 16) sz st = Some (h + 16, st\<lparr>mem := m, allocated := allocated st - old + sz\<rparr>)"
    using lp(1,4,5) sz(1) idx m(1) by (simp add: p2realloc_def IS_LARGE_def)
  moreover have "p2_rel ?st (a_resize g h old sz)"
  proof (rule p2_rel_update [OF rel m(2)])
    show "allocated st - old + sz = of_nat (requested (a_live (a_resize g h old sz)))"
      using p2_relD(4) [OF rel] requested_minus [OF l] by (simp add: a_live_resize)
    show "totmem st = of_nat (total (owned (a_resize g h old sz)))"
      using p2_relD(5) [OF rel] m(4) by simp
  qed
  ultimately show ?thesis using m(3) by auto
qed

text \<open>The copy of the common prefix into the new block.\<close>

lemma live_payload_in_eset:
  assumes "p2_rel st g" and "(h, sz, al) \<in># L" and "(h, sz, al) \<in># a_live g"
  shows "span_of (h + 16) (unat sz) \<subseteq> eset (live_extents L)"
proof -
  have "espan (live_extent (h, sz, al)) \<subseteq> eset (live_extents L)"
    using assms(2) unfolding eset_def live_extents_def by fastforce
  then show ?thesis using live_ptr(3) [OF assms(1,3)] by simp
qed

lemma copy_prefix:
  assumes rel: "p2_rel st g" and l: "{#(h', sz, al'), (h, old, al)#} \<subseteq># a_live g"
  obtains m where "memcpy (mem st) (h' + 16) (h + 16) (unat (if old < sz then old else sz)) = Some m"
    and "p2_rel (st\<lparr>mem := m\<rparr>) g"
    and "keeps (eset (live_extents (a_live g - {#(h', sz, al')#}))) (mem st) m"
    and "\<forall>k < min (unat old) (unat sz).
      bytes m (h' + 16 + of_nat k) = bytes (mem st) (h + 16 + of_nat k)"
    and "regions m = regions (mem st)"
proof -
  let ?n = "unat (if old < sz then old else sz)"
  have n: "?n = min (unat old) (unat sz)" by (auto simp: word_less_nat_alt)
  have in1: "(h', sz, al') \<in># a_live g" and in2: "(h, old, al) \<in># a_live g"
    using mset_subset_eqD [OF l] by simp_all
  note new = live_ptr [OF rel in1] and oldb = live_ptr [OF rel in2]
  have sub: "span_of (h' + 16) ?n \<subseteq> span_of (h' + 16) (unat sz)" "span_of (h + 16) ?n \<subseteq> span_of (h + 16) (unat old)"
    unfolding n by (intro span_of_mono; simp)+
  have "mapped (mem st) (h' + 16) ?n" "mapped (mem st) (h + 16) ?n"
    using new(7) oldb(7) unfolding n by (auto elim: mapped_sub)
  moreover have "unat (h' + 16) + ?n \<le> 2 ^ 64" using new(8) unfolding n by simp
  moreover have "span_of (h' + 16) ?n \<inter> span_of (h + 16) ?n = {}"
    using live_pair_disjoint [OF rel l] sub new(3) oldb(3) unfolding live_extent_simp espan_pair by blast
  ultimately obtain m where m: "memcpy (mem st) (h' + 16) (h + 16) ?n = Some m"
      "changes (span_of (h' + 16) ?n) (mem st) m"
      "\<And>k. k < ?n \<Longrightarrow> bytes m (h' + 16 + of_nat k) = bytes (mem st) (h + 16 + of_nat k)"
    using memcpy_spec by metis
  show ?thesis
    using that m(1) client_write [OF rel in1 m(2) sub(1)] m(3) changes_regions [OF m(2)]
    unfolding n by blast
qed

lemma payload_kept:
  assumes "keeps S m m'" and "span_of a n \<subseteq> S" and "unat a + n < 2 ^ 64" and "k < n"
  shows "bytes m' (a + of_nat k) = bytes m (a + of_nat k)"
proof -
  have "unat (a + of_nat k) = unat a + k" using assms(3,4) by (intro unat_add_num) simp
  then have "unat (a + of_nat k) \<in> span_of a n" using assms(4) by simp
  then show ?thesis using keeps_byte [OF assms(1)] assms(2) by blast
qed

lemma realloc_move:
  assumes rel: "p2_rel st g" and l: "(h, old, al) \<in># a_live g" and ok: "kernel_ok os" and sz: "sz \<noteq> 0"
    and mv: "\<not> (al = 0 \<and> get_freelist_idx sz = get_freelist_idx old)"
  defines "am \<equiv> a_malloc (answers os st) sz g"
  shows "\<exists>st'. p2realloc os (h + 16) sz st = Some (fst am, st')
    \<and> p2_rel st' (if fst am = NULL then g else a_release (snd am) (h, old, al))
    \<and> keeps (eset (live_extents (a_live g - {#(h, old, al)#}))) (mem st) (mem st')
    \<and> heads st' = heads st
    \<and> (fst am = NULL \<longrightarrow> snd am = g \<and> keeps (eset (live_extents (a_live g))) (mem st) (mem st'))
    \<and> (fst am \<noteq> NULL \<longrightarrow> (\<forall>k < min (unat old) (unat sz).
         bytes (mem st') (fst am + of_nat k) = bytes (mem st) (h + 16 + of_nat k)))
    \<and> regions (mem st') = (if fst am \<noteq> NULL \<and> al \<noteq> 0 then remove1 (h, unat al) else id)
         (a_mappings (answers os st) sz g @ regions (mem st))"
proof -
  let ?l = "(h, old, al)"
  note lp = live_ptr [OF rel l]
  have inv: "p2_inv st g" using rel by (simp add: p2_inv_def)
  obtain st1 where st1: "p2malloc os sz st = Some (fst am, st1)" "p2_inv st1 (snd am)"
      "keeps (eset (live_extents (a_live g))) (mem st) (mem st1)" "heads st1 = heads st"
      "regions (mem st1) = a_mappings (answers os st) sz g @ regions (mem st)"
    using p2malloc_spec [OF inv ok, of sz] unfolding am_def by blast
  have run: "p2realloc os (h + 16) sz st = (if fst am = NULL then Some (NULL, st1) else do {
      m \<leftarrow> memcpy (mem st1) (fst am) (h + 16) (unat (if old < sz then old else sz));
      st' \<leftarrow> p2free (h + 16) (st1\<lparr>mem := m\<rparr>);
      Some (fst am, st') })"
    using lp(1,4,5) sz mv st1(1) by (auto simp: p2realloc_def IS_LARGE_def)
  have sub: "eset (live_extents (a_live g - {#?l#})) \<subseteq> eset (live_extents (a_live g))"
    unfolding eset_def live_extents_def by (fastforce dest: in_diffD)
  show ?thesis
  proof (rule a_malloc_cases [OF a_free_length [OF inv], of "answers os st" sz])
    assume "a_malloc (answers os st) sz g = (NULL, g)"
    then have am: "am = (NULL, g)" by (simp add: am_def)
    have "p2_rel st1 g" using st1(2) live_not_boot [OF _ l] am by simp
    then show ?thesis using run st1(3,4,5) keeps_mono [OF st1(3) sub] by (simp add: am)
  next
    fix h' assume block: "fst (a_malloc (answers os st) sz g) = h' + 16"
      "a_live (snd (a_malloc (answers os st) sz g)) = add_mset (h', sz, alloc_size_of sz) (a_live g)"
    define al' where "al' = alloc_size_of sz"
    have f: "fst am = h' + 16" and s: "a_live (snd am) = add_mset (h', sz, al') (a_live g)"
      using block by (simp_all add: am_def al'_def)
    have l1: "(h', sz, al') \<in># a_live (snd am)" and l2: "?l \<in># a_live (snd am)" using l by (simp_all add: s)
    have pair: "{#(h', sz, al'), ?l#} \<subseteq># a_live (snd am)" using l by (simp add: s)
    have rel1: "p2_rel st1 (snd am)" by (rule live_not_boot [OF st1(2) l1])
    obtain m where m: "memcpy (mem st1) (h' + 16) (h + 16) (unat (if old < sz then old else sz)) = Some m"
      "p2_rel (st1\<lparr>mem := m\<rparr>) (snd am)"
      "keeps (eset (live_extents (a_live (snd am) - {#(h', sz, al')#}))) (mem st1) m"
      "\<forall>k < min (unat old) (unat sz).
         bytes m (h' + 16 + of_nat k) = bytes (mem st1) (h + 16 + of_nat k)"
      "regions m = regions (mem st1)"
      by (rule copy_prefix [OF rel1 pair])
    obtain st2 where st2: "p2free (h + 16) (st1\<lparr>mem := m\<rparr>) = Some st2" "p2_rel st2 (a_release (snd am) ?l)"
      "keeps (eset (live_extents (a_live (snd am) - {#?l#}))) m (mem st2)" "heads st2 = heads st"
      "regions (mem st2) = (if al = 0 then id else remove1 (h, unat al)) (regions m)"
      using p2free_spec [OF m(2) l2] st1(4) by auto
    have nz: "fst am \<noteq> NULL" using live_ptr(1) [OF rel1 l1] f by simp
    have both: "a_live (snd am) - {#?l#} = add_mset (h', sz, al') (a_live g - {#?l#})"
      using l by (auto simp: s dest!: multi_member_split)
    have k1: "keeps (eset (live_extents (a_live g))) (mem st) m"
      using st1(3) by (rule keeps_trans) (use m(3) in \<open>simp add: s\<close>)
    have "keeps (eset (live_extents (a_live g - {#?l#}))) m (mem st2)"
      using st2(3) unfolding both by (rule keeps_mono) simp
    with keeps_mono [OF k1 sub] have k2: "keeps (eset (live_extents (a_live g - {#?l#}))) (mem st) (mem st2)"
      by (rule keeps_trans)
    have "bytes (mem st2) (h' + 16 + of_nat k) = bytes (mem st) (h + 16 + of_nat k)"
      if k: "k < min (unat old) (unat sz)" for k
    proof -
      have "(h', sz, al') \<in># a_live (snd am) - {#?l#}" by (simp add: both)
      then have "bytes (mem st2) (h' + 16 + of_nat k) = bytes m (h' + 16 + of_nat k)"
        using live_ptr(8) [OF rel1 l1] k
        by (intro payload_kept [OF st2(3) live_payload_in_eset [OF rel1 _ l1]]) simp_all
      moreover have "bytes (mem st1) (h + 16 + of_nat k) = bytes (mem st) (h + 16 + of_nat k)"
        using lp(8) k by (intro payload_kept [OF st1(3) live_payload_in_eset [OF rel l l]]) simp_all
      ultimately show ?thesis using m(4) k by simp
    qed
    then show ?thesis using run m(1,5) st1(5) st2(1,2,4,5) nz k2 by (simp add: f)
  qed
qed

text \<open>All cases of \<open>p2realloc\<close> on a live pointer, for sizes that do not wrap with the header.\<close>

lemma p2realloc_spec:
  assumes rel: "p2_rel st g" and l: "(h, old, al) \<in># a_live g" and ok: "kernel_ok os"
    and sz: "unat sz + 16 < 2 ^ 64"
  defines "ar \<equiv> a_realloc (answers os st) (h, old, al) sz g"
  shows "\<exists>st'. p2realloc os (h + 16) sz st = Some (fst ar, st') \<and> p2_rel st' (snd ar)
    \<and> keeps (eset (live_extents (a_live g - {#(h, old, al)#}))) (mem st) (mem st')
    \<and> heads st' = heads st
    \<and> (fst ar = NULL \<longrightarrow> sz \<noteq> 0 \<longrightarrow> snd ar = g \<and> keeps (eset (live_extents (a_live g))) (mem st) (mem st'))
    \<and> (fst ar \<noteq> NULL \<longrightarrow> (\<forall>k < min (unat old) (unat sz).
         bytes (mem st') (fst ar + of_nat k) = bytes (mem st) (h + 16 + of_nat k)))"
proof -
  let ?l = "(h, old, al)"
  note lp = live_ptr [OF rel l]
  consider "sz = 0" | "sz \<noteq> 0" "al = 0" "get_freelist_idx sz = get_freelist_idx old"
    | "sz \<noteq> 0" "\<not> (al = 0 \<and> get_freelist_idx sz = get_freelist_idx old)" by blast
  then show ?thesis
  proof cases
    case 1
    then show ?thesis using p2free_spec [OF rel l] lp(1)
      by (auto simp: p2realloc_def ar_def a_realloc_def)
  next
    case 2
    have ar: "ar = (h + 16, a_resize g h old sz)" using 2 by (simp add: ar_def a_realloc_def)
    obtain m where m: "p2realloc os (h + 16) sz st =
        Some (h + 16, st\<lparr>mem := m, allocated := allocated st - old + sz\<rparr>)"
      "p2_rel (st\<lparr>mem := m, allocated := allocated st - old + sz\<rparr>) (a_resize g h old sz)"
      "changes (span_of h 8) (mem st) m"
      using realloc_in_place [OF rel l [unfolded 2(2)] 2(1) sz 2(3)] by blast
    have v: "valid_live (h, old, al)" by (rule lp(6))
    have "span_of h 8 \<subseteq> espan (live_extent ?l)" using live_len_ge [OF v] by auto
    note w = block_write [OF p2_relD(2) [OF rel] l m(3) this]
    have "span_of h 8 \<inter> span_of (h + 16) (unat old) = {}" using lp(2) by auto
    then have "keeps (span_of (h + 16) (unat old)) (mem st) m" by (intro changes_keeps [OF m(3)]) blast
    then have "bytes m (h + 16 + of_nat k) = bytes (mem st) (h + 16 + of_nat k)"
      if "k < min (unat old) (unat sz)" for k
      using that lp(8) by (intro payload_kept) auto
    then show ?thesis using m(1,2) w(3) lp(1) by (simp add: ar)
  next
    case 3
    let ?am = "a_malloc (answers os st) sz g"
    have ar: "fst ar = fst ?am" "snd ar = (if fst ?am = NULL then snd ?am else a_release (snd ?am) ?l)"
      using 3 by (auto simp: ar_def a_realloc_def split: prod.split)
    obtain st' where "p2realloc os (h + 16) sz st = Some (fst ?am, st')"
      "p2_rel st' (if fst ?am = NULL then g else a_release (snd ?am) ?l)"
      "keeps (eset (live_extents (a_live g - {#?l#}))) (mem st) (mem st')"
      "heads st' = heads st"
      "fst ?am = NULL \<longrightarrow> snd ?am = g \<and> keeps (eset (live_extents (a_live g))) (mem st) (mem st')"
      "fst ?am \<noteq> NULL \<longrightarrow> (\<forall>k < min (unat old) (unat sz).
         bytes (mem st') (fst ?am + of_nat k) = bytes (mem st) (h + 16 + of_nat k))"
      using realloc_move [OF rel l ok 3] by blast
    then show ?thesis unfolding ar by (intro exI [of _ st']) auto
  qed
qed

section \<open>Reset\<close>

lemma p2reset_loop_spec:
  assumes "length (freelists st) = 8" and "node_ok (mem st) (set (heads st))"
    and "distinct (heads st)" and "\<forall>j < i. dll (mem st) (heads st ! j) []" and "i \<le> 8"
  shows "\<exists>m. p2reset_loop i st = Some (st\<lparr>mem := m\<rparr>)
    \<and> changes (node_bytes (set (heads st))) (mem st) m \<and> (\<forall>j < 8. dll m (heads st ! j) [])"
  using assms
proof (induction "8 - i" arbitrary: i st rule: less_induct)
  case less
  show ?case
  proof (cases "i < 8")
    case False
    with less.prems show ?thesis by (intro exI [of _ "mem st"]) (simp add: p2reset_loop.simps)
  next
    case True
    have hd: "fl_at st i = Some (freelists st ! i)" "heads st ! i = list_head (freelists st ! i)"
      using True less.prems(1) by (simp_all add: fl_at_def heads_nth)
    have len: "i < length (heads st)" using True less.prems(1) by simp
    obtain m where m: "ps_list_head_init (mem st) (heads st ! i) = Some m"
        "changes (node_bytes (set (heads st))) (mem st) m" "\<forall>j < Suc i. dll m (heads st ! j) []"
      using head_init_step [OF less.prems(2,3) len less.prems(4)] by blast
    let ?st = "st\<lparr>mem := m\<rparr>"
    have lt: "8 - Suc i < 8 - i" using True by simp
    have "node_ok (mem ?st) (set (heads ?st))" using less.prems(2) node_ok_changes [OF m(2)] by simp
    then obtain m' where m': "p2reset_loop (Suc i) ?st = Some (?st\<lparr>mem := m'\<rparr>)"
        "changes (node_bytes (set (heads st))) m m'" "\<forall>j < 8. dll m' (heads st ! j) []"
      using less.hyps [OF lt, of ?st] True less.prems(1,3) m(3) by auto
    have "p2reset_loop i st = Some (st\<lparr>mem := m'\<rparr>)"
      using True hd m(1) m'(1) by (simp add: p2reset_loop.simps [of i])
    moreover have "changes (node_bytes (set (heads st))) (mem st) m'"
      using m(2) m'(2) by (rule changes_trans) simp_all
    ultimately show ?thesis using m'(3) by blast
  qed
qed

lemma head_extents:
  assumes "length (hs :: addr list) = 8"
  shows "(\<Sum>i < 8. {#(hs ! i, 16 :: nat)#}) = mset (map (\<lambda>h. (h, 16)) hs)"
  using extents_empty(1) [OF assms] extents_eq_owned [of hs a_empty] by simp

lemma geom_heads:
  assumes "p2_geom m hs g"
  shows "node_ok m (set hs)" and "distinct hs" and "\<forall>h \<in> set hs. unat h + 16 < 2 ^ 64"
proof -
  note g = geomD [OF assms]
  let ?H = "mset (map (\<lambda>h. (h, 16)) hs) :: extent multiset"
  have H: "(\<Sum>i < 8. {#(hs ! i, 16 :: nat)#}) = ?H"
    by (rule head_extents [OF g(1)])
  have sub: "?H \<subseteq># extents hs g" unfolding extents_eq_owned H by simp
  then have dj: "disj ?H" by (rule disj_subset [OF g(3)])
  have c: "mapped m (fst c) (snd c) \<and> unat (fst c) + snd c \<le> 2 ^ 64 \<and> 16 \<le> snd c" if "c \<in># ?H" for c
    using g(4,5) [OF mset_subset_eqD [OF sub that]] that by auto
  have "node_ok m (fst ` set_mset ?H)" using dj c by (rule extents_node_ok)
  then show "node_ok m (set hs)" by (simp add: image_image)
  show "\<forall>h \<in> set hs. unat h + 16 < 2 ^ 64"
  proof
    fix h assume "h \<in> set hs"
    then have "(h, 16) \<in># ?H" by auto
    from g(5) [OF mset_subset_eqD [OF sub this]] show "unat h + 16 < 2 ^ 64" by simp
  qed
  show "distinct hs"
    using disj_block_extents_distinct [of 16 hs] dj by (simp add: block_extents_def)
qed

lemma p2reset_spec:
  assumes inv: "p2_inv st g"
  shows "\<exists>st'. p2reset st = Some st' \<and> p2_rel st' a_empty \<and> heads st' = heads st
    \<and> regions (mem st') = regions (mem st)"
  using inv unfolding p2_inv_def
proof (elim disjE conjE)
  assume rel: "p2_rel st g"
  note geom = p2_memD(1) [OF p2_relD(2) [OF rel]] and fls = p2_relD(3) [OF rel]
  have len: "length (freelists st) = 8" using fls by (simp add: p2_fls_def)
  have no: "\<forall>j < (0::nat). dll (mem st) (heads st ! j) []" by simp
  obtain m where m: "p2reset_loop 0 st = Some (st\<lparr>mem := m\<rparr>)"
      "changes (node_bytes (set (heads st))) (mem st) m" "\<forall>j < 8. dll m (heads st ! j) []"
    using p2reset_loop_spec [OF len geom_heads(1,2) [OF geom] no] by blast
  have ok: "node_ok m (set (heads st))" using geom_heads(1) [OF geom] node_ok_changes [OF m(2)] by simp
  have "p2_mem m (heads st) a_empty"
    using p2_mem_empty [OF ok geom_heads(2) [OF geom] _ geom_heads(3) [OF geom] m(3)] len by simp
  then have "p2_rel (st\<lparr>mem := m, allocated := 0, totmem := 0\<rparr>) a_empty"
    by (intro p2_rel_update [OF rel]) simp_all
  moreover have "p2reset st = Some (st\<lparr>mem := m, allocated := 0, totmem := 0\<rparr>)"
    using m(1) p2_relD(1) [OF rel] by (simp add: p2reset_def)
  ultimately show ?thesis using changes_regions [OF m(2)] by simp
next
  assume b: "p2_boot st"
  obtain m where m: "freelists_init (st\<lparr>init_state := 0\<rparr>) = Some (st\<lparr>init_state := 0, mem := m,
      freelists := map (\<lambda>j. init_head j (freelists st ! j)) [0..<8]\<rparr>)"
    "changes (node_bytes (set (heads st))) (mem st) m" "p2_mem m (heads st) a_empty"
    using p2_boot_init [OF b, of 0] .
  let ?st = "st\<lparr>init_state := 2, mem := m, allocated := 0, totmem := 0,
      freelists := map (\<lambda>j. init_head j (freelists st ! j)) [0..<8]\<rparr>"
  have "init_state st = 0" "length (freelists st) = 8" using b by (simp_all add: p2_boot_def)
  then have "st\<lparr>init_state := 0\<rparr> = st" by simp
  then have "freelists_init st = Some (st\<lparr>mem := m,
      freelists := map (\<lambda>j. init_head j (freelists st ! j)) [0..<8]\<rparr>)"
    using m(1) by (metis p2state.surjective p2state.update_convs(1,2))
  then have "p2reset st = Some ?st" using \<open>init_state st = 0\<close> by (simp add: p2reset_def)
  moreover have "heads ?st = heads st"
    using init_heads(1) [of st] \<open>length (freelists st) = 8\<close> by (simp add: heads_def)
  ultimately show ?thesis using p2_rel_fresh [OF b m(3)] changes_regions [OF m(2)] by simp
qed

text \<open>A live block lies apart from every list head and from the other live blocks.\<close>

lemma live_block_apart:
  assumes rel: "p2_rel st g" and L: "a_live g = add_mset l L"
  shows "espan (live_extent l) \<inter> eset (live_extents L) = {}"
    and "h \<in> set (heads st) \<Longrightarrow> espan (live_extent l) \<inter> span_of h 16 = {}"
proof -
  note g = geomD [OF p2_memD(1) [OF p2_relD(2) [OF rel]]]
  let ?H = "mset (map (\<lambda>h. (h, 16)) (heads st)) :: extent multiset"
  have "disj (owned g + ?H)" using g(3) unfolding extents_eq_owned head_extents [OF g(1)] .
  then have "disj (add_mset (live_extent l) (live_extents L + ?H))"
    unfolding owned_def L by (rule disj_subset) (simp add: ac_simps)
  then have *: "espan (live_extent l) \<inter> eset (live_extents L + ?H) = {}"
    unfolding disj_add_mset_eset by blast
  then show "espan (live_extent l) \<inter> eset (live_extents L) = {}" by auto
  show "espan (live_extent l) \<inter> span_of h 16 = {}" if "h \<in> set (heads st)"
  proof -
    have "span_of h 16 \<subseteq> eset ?H" using that by (force simp: eset_def)
    then show ?thesis using * by auto
  qed
qed

section \<open>The blocks of a page\<close>

lemma length_page_blocks [simp]: "length (page_blocks p i) = 4096 div block_size i"
  by (simp add: page_blocks_def)

lemma page_not_empty: "i < 8 \<Longrightarrow> page_blocks p i \<noteq> []"
  by (elim lt8_cases) (simp_all flip: length_0_conv)

section \<open>The counters\<close>

lemma inv_counters:
  assumes "p2_inv st g"
  shows "allocated st = of_nat (requested (a_live g))" and "totmem st = of_nat (total (owned g))"
  using assms by (auto simp: p2_inv_def p2_rel_def p2_boot_def)

text \<open>What is owned is disjoint and lies in the address space, so the counters do not wrap.\<close>

lemma owned_bound:
  assumes "p2_inv st g"
  shows "total (owned g) < 2 ^ 64"
  using assms unfolding p2_inv_def
proof (elim disjE conjE)
  assume rel: "p2_rel st g"
  note gd = geomD [OF p2_memD(1) [OF p2_relD(2) [OF rel]]]
  have "total (extents (heads st) g) \<le> 2 ^ 64"
    using gd(5) by (intro total_bound [OF gd(3)]) (simp add: less_imp_le)
  then show ?thesis unfolding total_extents by simp
qed simp

lemma requested_le_live:
  "\<forall>l \<in># L. valid_live l \<Longrightarrow> requested L + 16 * size L \<le> total (live_extents L)"
proof (induction L)
  case (add l L)
  obtain h sz al where l: "l = (h, sz, al)" by (cases l)
  have "unat sz + 16 \<le> live_len sz al" using add.prems by (intro live_len_ge [of h]) (simp add: l)
  with add show ?case by (simp add: l)
qed simp

lemma requested_le_owned:
  assumes "p2_inv st g"
  shows "requested (a_live g) + 16 * size (a_live g) \<le> total (owned g)"
  using assms unfolding p2_inv_def
proof (elim disjE conjE)
  assume rel: "p2_rel st g"
  have "requested (a_live g) + 16 * size (a_live g) \<le> total (live_extents (a_live g))"
    using geomD(7) [OF p2_memD(1) [OF p2_relD(2) [OF rel]]] by (intro requested_le_live) blast
  also have "\<dots> \<le> total (owned g)" by (simp add: owned_def)
  finally show ?thesis .
qed simp

end
