(* ===== verification/P2_Kernel.thy ===== *)
theory P2_Kernel
  imports P2_Api
begin

text \<open>
  A kernel that keeps the promises the allocator relies on, and a place for its static data: the
  concrete instances with which the properties are shown to apply.  The kernel maps the next free
  page above everything that is mapped.
\<close>

definition region_top :: "(addr \<times> nat) list \<Rightarrow> nat" where
  "region_top rs = foldr (\<lambda>(b, l) t. max (unat b + l) t) rs 4096"

definition bump_kernel :: os where
  "bump_kernel m n =
     (let p = (region_top (regions m) + 4095) div 4096 * 4096
      in if n = 0 \<or> 2 ^ 64 \<le> p + unat n then None else Some (of_nat p))"

definition static_heads :: "addr list" where
  "static_heads = map (\<lambda>i. 4104 + 64 * of_nat i) [0..<8]"

lemma region_top_ge: "4096 \<le> region_top rs"
  by (induction rs) (auto simp: region_top_def)

lemma region_top_Cons [simp]: "region_top ((b, l) # rs) = max (unat b + l) (region_top rs)"
  by (simp add: region_top_def)

lemma region_top_bound: "(b, l) \<in> set rs \<Longrightarrow> unat b + l \<le> region_top rs"
  by (induction rs) (auto simp: le_max_iff_disj)

lemma region_top_le: "4096 \<le> t \<Longrightarrow> (\<And>b l. (b, l) \<in> set rs \<Longrightarrow> unat b + l \<le> t) \<Longrightarrow> region_top rs \<le> t"
  by (induction rs) (auto simp: region_top_def)

lemma bump_kernel_Some:
  assumes "bump_kernel m n = Some p"
  shows "n \<noteq> 0" and "unat p = (region_top (regions m) + 4095) div 4096 * 4096"
    and "unat p + unat n < 2 ^ 64"
proof -
  let ?p = "(region_top (regions m) + 4095) div 4096 * 4096"
  have *: "n \<noteq> 0" "?p + unat n < 2 ^ 64" "p = of_nat ?p"
    using assms by (auto simp: bump_kernel_def Let_def split: if_splits)
  then show "n \<noteq> 0" by blast
  show u: "unat p = ?p" using *(2) unfolding *(3) unsigned_of_nat
    by (subst take_bit_nat_eq_self) simp_all
  show "unat p + unat n < 2 ^ 64" using *(2) unfolding u .
qed

lemma round_up_ge: "(t :: nat) \<le> (t + 4095) div 4096 * 4096"
  using div_mult_mod_eq [of "t + 4095" 4096] mod_less_divisor [of 4096 "t + 4095"] by linarith

lemma kernel_ok_bump: "kernel_ok bump_kernel"
  unfolding kernel_ok_def mmap_ok_def
proof (intro allI impI)
  fix m n p assume p: "bump_kernel m n = Some p"
  note b = bump_kernel_Some [OF p] and top = region_top_ge [of "regions m"]
  have ge: "region_top (regions m) \<le> unat p" unfolding b(2) by (rule round_up_ge)
  then have "p \<noteq> NULL" using top by auto
  moreover have "4096 dvd unat p" by (simp add: b(2))
  moreover have "span_of p (unat n) \<inter> span_of c l = {}" if "(c, l) \<in> set (regions m)" for c l
    using region_top_bound [OF that] ge by auto
  ultimately show "n \<noteq> 0 \<and> p \<noteq> NULL \<and> 4096 dvd unat p \<and> unat p + unat n < 2 ^ 64
      \<and> (\<forall>(b, l) \<in> set (regions m). span_of p (unat n) \<inter> span_of b l = {})"
    using b by blast
qed

lemma heads_boot [simp]: "heads (boot hs) = hs"
  by (simp add: heads_def boot_def o_def)

lemma p2_boot_boot:
  assumes "length hs = 8" and "distinct hs" and "\<forall>h \<in> set hs. unat h + 16 < 2 ^ 64"
    and "\<forall>a \<in> set hs. \<forall>b \<in> set hs. a \<noteq> b \<longrightarrow> span_of a 16 \<inter> span_of b 16 = {}"
  shows "p2_boot (boot hs)"
proof -
  have "mapped (mem (boot hs)) h 16" if "h \<in> set hs" for h
    using that by (intro mappedI [of h 16]) (auto simp: boot_def)
  then have "node_ok (mem (boot hs)) (set hs)"
    using assms(3,4) by (auto simp: node_ok_def simp del: mem_span_of intro: less_imp_le)
  moreover have "init_state (boot hs) = 0" "allocated (boot hs) = 0" "totmem (boot hs) = 0"
    "length (freelists (boot hs)) = length hs" by (simp_all add: boot_def)
  ultimately show ?thesis using assms by (simp add: p2_boot_def)
qed

lemma static_heads_simps:
  "static_heads = [4104, 4168, 4232, 4296, 4360, 4424, 4488, 4552]"
  by code_simp

lemma p2_boot_static: "p2_boot (boot static_heads)"
  by (rule p2_boot_boot) (simp_all add: static_heads_simps span_of_def)

lemma p2_inv_boot: "p2_inv (boot static_heads) a_empty"
  using p2_boot_static by (simp add: p2_inv_def)

text \<open>The first allocation of a program on this kernel: 24 bytes, from the top of a fresh page.\<close>

lemma bump_first_page: "answers bump_kernel (boot static_heads) PAGE_BYTES = Some 8192"
proof -
  obtain st where st: "ensure_init (boot static_heads) = Some st"
      "regions (mem st) = regions (mem (boot static_heads))"
    using ensure_init_spec [OF p2_inv_boot] by metis
  have "region_top (regions (mem (boot static_heads))) = 4568"
    by (simp add: boot_def static_heads_simps) (simp add: region_top_def)
  then show ?thesis by (simp add: answers_def st bump_kernel_def)
qed

abbreviation first_state :: astate where
  "first_state \<equiv> a_take (a_refill a_empty 1 8192) 1 24"

lemma first_page_length [simp]: "length (page_blocks 8192 (Suc 0)) = 64"
  by (simp add: page_blocks_def)

lemma first_page_nonempty [simp]: "page_blocks 8192 (Suc 0) \<noteq> []"
  using first_page_length by (metis list.size(3) zero_neq_numeral)

lemma first_page_rev:
  "k < 64 \<Longrightarrow> rev (page_blocks 8192 1) ! k = 8192 + of_nat ((63 - k) * 64)"
  by (simp add: rev_nth) (simp add: page_blocks_def blocks_nth)

lemma boot_malloc_state:
  obtains st where "p2malloc bump_kernel 24 (boot static_heads) = Some (12240, st)"
    and "p2_inv st first_state" and "heads st = static_heads"
proof -
  let ?am = "a_malloc (answers bump_kernel (boot static_heads)) 24 a_empty"
  obtain st where st: "p2malloc bump_kernel 24 (boot static_heads) = Some (fst ?am, st)"
      "p2_inv st (snd ?am)" "heads st = static_heads"
    using p2malloc_spec [OF p2_inv_boot kernel_ok_bump, of 24] by auto
  have idx: "nat (get_freelist_idx 24) = 1" by (simp add: get_freelist_idx_nat)
  have hd: "hd (rev (page_blocks 8192 1)) = 12224"
    using first_page_rev [of 0] by (subst hd_conv_nth) simp_all
  have "?am = (12240, first_state)"
    using bump_first_page by (simp add: a_malloc_def a_malloc_slab_def idx hd [unfolded One_nat_def])
  with st that show ?thesis by simp
qed

lemma boot_malloc:
  obtains st g where "p2malloc bump_kernel 24 (boot static_heads) = Some (12240, st)"
    and "p2_rel st g" and "a_live g = {#(12224, 24, 0)#}" and "heads st = static_heads"
proof -
  obtain st where st: "p2malloc bump_kernel 24 (boot static_heads) = Some (12240, st)"
      "p2_inv st first_state" "heads st = static_heads"
    by (rule boot_malloc_state)
  have "hd (rev (page_blocks 8192 1)) = 12224"
    using first_page_rev [of 0] by (subst hd_conv_nth) simp_all
  then have live: "a_live first_state = {#(12224, 24, 0)#}" by (simp add: a_empty_simps)
  then have "p2_rel st first_state" by (intro live_not_boot [OF st(2)]) simp
  with st live that show ?thesis by simp
qed

text \<open>The second one takes the next block of the page.\<close>

lemma boot_malloc_twice:
  obtains st st' where "p2malloc bump_kernel 24 (boot static_heads) = Some (12240, st)"
    and "p2malloc bump_kernel 24 st = Some (12176, st')"
proof -
  obtain st where st: "p2malloc bump_kernel 24 (boot static_heads) = Some (12240, st)"
      "p2_inv st first_state"
    by (rule boot_malloc_state)
  let ?am = "a_malloc (answers bump_kernel st) 24 first_state"
  obtain st' where st': "p2malloc bump_kernel 24 st = Some (fst ?am, st')"
    using p2malloc_spec [OF st(2) kernel_ok_bump, of 24] by auto
  have idx: "nat (get_freelist_idx 24) = 1" by (simp add: get_freelist_idx_nat)
  have fr: "a_free first_state ! 1 = tl (rev (page_blocks 8192 1))" by (simp add: a_empty_simps)
  have "length (tl (rev (page_blocks 8192 1))) = 63" by simp
  then have ne: "tl (rev (page_blocks 8192 1)) \<noteq> []" by (metis list.size(3) zero_neq_numeral)
  then have "hd (tl (rev (page_blocks 8192 1))) = 12160"
    using first_page_rev [of 1] by (subst hd_conv_nth) (simp_all add: nth_tl)
  then have "fst ?am = 12176"
    using ne fr by (simp add: a_malloc_def a_malloc_slab_def idx)
  with st(1) st' that show ?thesis by simp
qed

end
