(* ===== verification/P2_Client.thy ===== *)
theory P2_Client
  imports P2_Kernel
begin

text \<open>
  The allocator as its clients see it.  A \<open>heap\<close> maps each pointer the client holds to the bytes
  of its block; \<open>heap_step\<close> says what each call of the interface, and each access to a block,
  may answer and do.  The locale \<open>simulation\<close> carries a step-wise simulation to whole runs of a
  client that chooses its next call from the answers so far, and is interpreted on the allocator.
\<close>

section \<open>Simulation of a library by its specification\<close>

text \<open>Runs of a client for \<open>n\<close> calls on an implementation, and on a specification.\<close>

primrec exec :: "('s \<Rightarrow> 'c \<Rightarrow> ('r \<times> 's) option) \<Rightarrow> ('r list \<Rightarrow> 'c) \<Rightarrow> nat \<Rightarrow> 'r list \<Rightarrow> 's \<Rightarrow> ('r list \<times> 's) option" where
  "exec cstep client 0 hist s = Some (hist, s)"
| "exec cstep client (Suc n) hist s =
     Option.bind (cstep s (client hist)) (\<lambda>(r, s'). exec cstep client n (hist @ [r]) s')"

primrec spec_run :: "('a \<Rightarrow> 'c \<Rightarrow> 'r \<Rightarrow> 'a \<Rightarrow> bool) \<Rightarrow> ('r list \<Rightarrow> 'c) \<Rightarrow> nat \<Rightarrow> 'r list \<Rightarrow> 'a \<Rightarrow> 'r list \<Rightarrow> 'a \<Rightarrow> bool" where
  "spec_run astep client 0 hist a hist' a' \<longleftrightarrow> hist' = hist \<and> a' = a"
| "spec_run astep client (Suc n) hist a hist' a' \<longleftrightarrow>
     (\<exists>r a1. astep a (client hist) r a1 \<and> spec_run astep client n (hist @ [r]) a1 hist' a')"

text \<open>A client that keeps to the preconditions whatever the specification lets the calls answer.\<close>

primrec well_behaved :: "('a \<Rightarrow> 'c \<Rightarrow> 'r \<Rightarrow> 'a \<Rightarrow> bool) \<Rightarrow> ('a \<Rightarrow> 'c \<Rightarrow> bool) \<Rightarrow> ('r list \<Rightarrow> 'c) \<Rightarrow> nat \<Rightarrow> 'r list \<Rightarrow> 'a \<Rightarrow> bool" where
  "well_behaved astep pre client 0 hist a \<longleftrightarrow> True"
| "well_behaved astep pre client (Suc n) hist a \<longleftrightarrow>
     pre a (client hist)
     \<and> (\<forall>r a'. astep a (client hist) r a' \<longrightarrow> well_behaved astep pre client n (hist @ [r]) a')"

locale simulation =
  fixes cstep :: "'s \<Rightarrow> 'c \<Rightarrow> ('r \<times> 's) option"
    and astep :: "'a \<Rightarrow> 'c \<Rightarrow> 'r \<Rightarrow> 'a \<Rightarrow> bool"
    and pre :: "'a \<Rightarrow> 'c \<Rightarrow> bool"
    and rel :: "'s \<Rightarrow> 'a \<Rightarrow> bool"
  assumes sim: "rel s a \<Longrightarrow> pre a c \<Longrightarrow> \<exists>r s' a'. cstep s c = Some (r, s') \<and> astep a c r a' \<and> rel s' a'"
begin

lemma runs:
  "rel s a \<Longrightarrow> well_behaved astep pre client n hist a \<Longrightarrow>
     \<exists>hist' s' a'. exec cstep client n hist s = Some (hist', s')
       \<and> spec_run astep client n hist a hist' a' \<and> rel s' a'"
proof (induction n arbitrary: hist s a)
  case (Suc n)
  have "pre a (client hist)" using Suc.prems(2) by simp
  from sim [OF Suc.prems(1) this] obtain r s1 a1 where
    1: "cstep s (client hist) = Some (r, s1)" "astep a (client hist) r a1" "rel s1 a1" by blast
  from Suc.IH [OF 1(3)] Suc.prems(2) 1(2) obtain hist' s' a' where
    "exec cstep client n (hist @ [r]) s1 = Some (hist', s')"
    "spec_run astep client n (hist @ [r]) a1 hist' a'" "rel s' a'" by fastforce
  with 1(1,2) show ?case by fastforce
qed simp

end

section \<open>The client's heap\<close>

type_synonym heap = "addr \<Rightarrow> u8 list option"

datatype call =
    Malloc u64
  | Calloc u64 u64
  | Realloc addr u64
  | Free addr
  | Write addr nat u8
  | Read addr nat
  | Reset

text \<open>A block of \<open>n\<close> bytes at \<open>p\<close> that the client does not hold yet.\<close>

definition fresh_block :: "heap \<Rightarrow> addr \<Rightarrow> nat \<Rightarrow> bool" where
  "fresh_block H p n \<longleftrightarrow> p \<noteq> NULL \<and> 16 dvd unat p \<and> unat p + n < 2 ^ 64 \<and> H p = None
     \<and> (\<forall>q bs. H q = Some bs \<longrightarrow> span_of q (length bs) \<inter> span_of p n = {})"

definition malloc_step :: "heap \<Rightarrow> u64 \<Rightarrow> addr \<Rightarrow> heap \<Rightarrow> bool" where
  "malloc_step H sz r H' \<longleftrightarrow> r = NULL \<and> H' = H
     \<or> (sz \<noteq> 0 \<and> fresh_block H r (unat sz) \<and> (\<exists>bs. length bs = unat sz \<and> H' = H(r := Some bs)))"

fun heap_step :: "heap \<Rightarrow> call \<Rightarrow> u64 \<Rightarrow> heap \<Rightarrow> bool" where
  "heap_step H (Malloc sz) r H' \<longleftrightarrow> malloc_step H sz r H'"
| "heap_step H (Calloc n sz) r H' \<longleftrightarrow> r = NULL \<and> H' = H
     \<or> (0 < unat n * unat sz \<and> unat n * unat sz < 2 ^ 64 \<and> fresh_block H r (unat n * unat sz)
        \<and> H' = H(r := Some (replicate (unat n * unat sz) 0)))"
| "heap_step H (Realloc p sz) r H' \<longleftrightarrow>
     (if p = NULL then malloc_step H sz r H'
      else if sz = 0 then r = NULL \<and> H' = H(p := None)
      else r = NULL \<and> H' = H
        \<or> (fresh_block (H(p := None)) r (unat sz)
           \<and> (\<exists>bs bs'. H p = Some bs \<and> length bs' = unat sz
                \<and> take (min (length bs) (unat sz)) bs' = take (min (length bs) (unat sz)) bs
                \<and> H' = H(p := None, r := Some bs'))))"
| "heap_step H (Free p) r H' \<longleftrightarrow> r = NULL \<and> H' = (if p = NULL then H else H(p := None))"
| "heap_step H (Write p k v) r H' \<longleftrightarrow> (\<exists>bs. H p = Some bs \<and> r = 0 \<and> H' = H(p := Some (bs[k := v])))"
| "heap_step H (Read p k) r H' \<longleftrightarrow> (\<exists>bs. H p = Some bs \<and> r = ucast (bs ! k) \<and> H' = H)"
| "heap_step H Reset r H' \<longleftrightarrow> r = NULL \<and> H' = (\<lambda>_. None)"

text \<open>
  What the client must respect: it frees, resizes and accesses only blocks it holds, within their
  size, and does not resize to a size that wraps together with the header.
\<close>

fun call_ok :: "heap \<Rightarrow> call \<Rightarrow> bool" where
  "call_ok H (Realloc p sz) \<longleftrightarrow> (p = NULL \<or> H p \<noteq> None) \<and> unat sz + 16 < 2 ^ 64"
| "call_ok H (Free p) \<longleftrightarrow> p = NULL \<or> H p \<noteq> None"
| "call_ok H (Write p k v) \<longleftrightarrow> (case H p of None \<Rightarrow> False | Some bs \<Rightarrow> k < length bs)"
| "call_ok H (Read p k) \<longleftrightarrow> (case H p of None \<Rightarrow> False | Some bs \<Rightarrow> k < length bs)"
| "call_ok H _ \<longleftrightarrow> True"

section \<open>Calls on the allocator\<close>

fun run_call :: "os \<Rightarrow> call \<Rightarrow> p2state \<Rightarrow> (u64 \<times> p2state) option" where
  "run_call os (Malloc sz) st = p2malloc os sz st"
| "run_call os (Calloc n sz) st = p2calloc os n sz st"
| "run_call os (Realloc p sz) st = p2realloc os p sz st"
| "run_call os (Free p) st = do { st \<leftarrow> p2free p st; Some (0, st) }"
| "run_call os (Write p k v) st =
     do { m \<leftarrow> store8 (mem st) (p + of_nat k) v; Some (0, st\<lparr>mem := m\<rparr>) }"
| "run_call os (Read p k) st =
     do { b \<leftarrow> load8 (mem st) (p + of_nat k); Some (ucast b, st) }"
| "run_call os Reset st = do { st \<leftarrow> p2reset st; Some (0, st) }"

definition machine_call :: "os \<times> p2state \<Rightarrow> call \<Rightarrow> (u64 \<times> os \<times> p2state) option" where
  "machine_call = (\<lambda>(os, st) c. do { (r, st') \<leftarrow> run_call os c st; Some (r, os, st') })"

section \<open>The heap a state shows\<close>

definition payload :: "cmem \<Rightarrow> addr \<Rightarrow> nat \<Rightarrow> u8 list" where
  "payload m p n = map (\<lambda>k. bytes m (p + of_nat k)) [0..<n]"

lemma length_payload [simp]: "length (payload m p n) = n"
  by (simp add: payload_def)

lemma payload_nth [simp]: "k < n \<Longrightarrow> payload m p n ! k = bytes m (p + of_nat k)"
  by (simp add: payload_def)

definition shows_heap :: "cmem \<Rightarrow> allocation multiset \<Rightarrow> heap \<Rightarrow> bool" where
  "shows_heap m L H \<longleftrightarrow> (\<forall>p bs. H p = Some bs \<longleftrightarrow>
     (\<exists>h sz al. (h, sz, al) \<in># L \<and> p = h + 16 \<and> bs = payload m p (unat sz)))"

lemma shows_heapD:
  assumes "shows_heap m L H" and "H p = Some bs"
  obtains h sz al where "(h, sz, al) \<in># L" and "p = h + 16" and "bs = payload m p (unat sz)"
  using assms unfolding shows_heap_def by blast

lemma shows_heapI:
  "shows_heap m L H \<Longrightarrow> (h, sz, al) \<in># L \<Longrightarrow> H (h + 16) = Some (payload m (h + 16) (unat sz))"
  unfolding shows_heap_def by blast

lemma shows_heap_empty: "shows_heap m {#} H \<longleftrightarrow> H = (\<lambda>_. None)"
  unfolding shows_heap_def by (auto simp: fun_eq_iff)

lemma live_unique:
  assumes "p2_rel st g" and "l \<in># a_live g" and "l' \<in># a_live g - {#l#}"
  shows "fst l' \<noteq> fst l"
proof
  assume same: "fst l' = fst l"
  have "{#l, l'#} \<subseteq># a_live g" using assms(2,3) by (auto dest!: multi_member_split)
  then have dj: "espan (live_extent l) \<inter> espan (live_extent l') = {}"
    by (rule live_pair_disjoint [OF assms(1)])
  have start: "unat (fst k) \<in> espan (live_extent k)" if "k \<in># a_live g" for k
    using live_len_ge live_facts [OF p2_relD(2) [OF assms(1)] that]
    by (cases k) (force simp: espan_def)
  have "unat (fst l) \<in> espan (live_extent l)" and "unat (fst l') \<in> espan (live_extent l')"
    using start assms(2) in_diffD [OF assms(3)] by blast+
  with dj same show False by auto
qed

lemma payload_keeps:
  assumes "p2_inv st g" and "(h, sz, al) \<in># a_live g" and "(h, sz, al) \<in># L"
    and k: "keeps (eset (live_extents L)) (mem st) m'"
  shows "payload m' (h + 16) (unat sz) = payload (mem st) (h + 16) (unat sz)"
proof (rule nth_equalityI)
  have rel: "p2_rel st g" using assms(1,2) by (rule live_not_boot)
  fix k assume "k < length (payload m' (h + 16) (unat sz))"
  then show "payload m' (h + 16) (unat sz) ! k = payload (mem st) (h + 16) (unat sz) ! k"
    using payload_kept [OF assms(4) live_payload_in_eset [OF rel assms(3,2)] live_ptr(8) [OF rel assms(2)]]
    by simp
qed simp

lemma shows_same:
  assumes inv: "p2_inv st g" and sh: "shows_heap (mem st) (a_live g) H"
    and k: "keeps (eset (live_extents (a_live g))) (mem st) m'"
  shows "shows_heap m' (a_live g) H"
  using sh payload_keeps [OF inv _ _ k] unfolding shows_heap_def by metis

lemma shows_minus:
  assumes rel: "p2_rel st g" and sh: "shows_heap (mem st) (a_live g) H" and l: "(h, sz, al) \<in># a_live g"
    and k: "keeps (eset (live_extents (a_live g - {#(h, sz, al)#}))) (mem st) m'"
  shows "shows_heap m' (a_live g - {#(h, sz, al)#}) (H(h + 16 := None))"
proof -
  let ?L = "a_live g - {#(h, sz, al)#}"
  have inv: "p2_inv st g" using rel by (simp add: p2_inv_def)
  have "(H(h + 16 := None)) p = Some bs \<longleftrightarrow>
      (\<exists>h' sz' al'. (h', sz', al') \<in># ?L \<and> p = h' + 16 \<and> bs = payload m' p (unat sz'))" for p bs
  proof
    assume H: "(H(h + 16 := None)) p = Some bs"
    then have "H p = Some bs" and ne: "p \<noteq> h + 16" by (auto split: if_splits)
    then obtain h' sz' al' where l': "(h', sz', al') \<in># a_live g" "p = h' + 16"
        "bs = payload (mem st) p (unat sz')" using shows_heapD [OF sh] by metis
    then have "(h', sz', al') \<in># ?L" using ne by (auto simp: in_diff_count)
    with l' payload_keeps [OF inv l'(1) this k]
    show "\<exists>h' sz' al'. (h', sz', al') \<in># ?L \<and> p = h' + 16 \<and> bs = payload m' p (unat sz')" by auto
  next
    assume "\<exists>h' sz' al'. (h', sz', al') \<in># ?L \<and> p = h' + 16 \<and> bs = payload m' p (unat sz')"
    then obtain h' sz' al' where l': "(h', sz', al') \<in># ?L" "p = h' + 16" "bs = payload m' p (unat sz')"
      by blast
    note in' = in_diffD [OF l'(1)]
    have "h' \<noteq> h" using live_unique [OF rel l l'(1)] by simp
    then show "(H(h + 16 := None)) p = Some bs"
      using shows_heapI [OF sh in'] payload_keeps [OF inv in' l'(1) k] l'(2,3) by simp
  qed
  then show ?thesis unfolding shows_heap_def by blast
qed

lemma shows_plus:
  assumes "shows_heap m L H" and "\<And>l. l \<in># L \<Longrightarrow> fst l \<noteq> h"
  shows "shows_heap m (add_mset (h, sz, al) L) (H(h + 16 := Some (payload m (h + 16) (unat sz))))"
proof -
  have "(H(h + 16 := Some (payload m (h + 16) (unat sz)))) p = Some bs \<longleftrightarrow>
      (\<exists>h' sz' al'. (h', sz', al') \<in># add_mset (h, sz, al) L \<and> p = h' + 16 \<and> bs = payload m p (unat sz'))"
    for p bs
    using assms unfolding shows_heap_def by (cases "p = h + 16") fastforce+
  then show ?thesis unfolding shows_heap_def by blast
qed

text \<open>A new block beside the blocks a heap shows.\<close>

lemma new_block_fresh:
  assumes rel: "p2_rel st g" and L: "a_live g = add_mset (h, sz, al) L" and sh: "shows_heap m L H"
  shows "fresh_block H (h + 16) (unat sz)" and "\<And>l. l \<in># L \<Longrightarrow> fst l \<noteq> h"
proof -
  have l: "(h, sz, al) \<in># a_live g" by (simp add: L)
  note lp = live_ptr [OF rel l]
  show new: "fst l \<noteq> h" if "l \<in># L" for l
    using live_unique [OF rel l, of l] that by (simp add: L)
  have "span_of q (length bs) \<inter> span_of (h + 16) (unat sz) = {} \<and> q \<noteq> h + 16" if H: "H q = Some bs" for q bs
  proof -
    obtain h' sz' al' where l': "(h', sz', al') \<in># L" "q = h' + 16" "bs = payload m q (unat sz')"
      using shows_heapD [OF sh H] .
    have "{#(h, sz, al), (h', sz', al')#} \<subseteq># a_live g" using l'(1) by (simp add: L)
    then have dj: "span_of h (live_len sz al) \<inter> span_of h' (live_len sz' al') = {}"
      using live_pair_disjoint [OF rel] by fastforce
    have "(h', sz', al') \<in># a_live g" using l'(1) by (simp add: L)
    from live_ptr(3) [OF rel this] lp(3) dj new [OF l'(1)] show ?thesis by (auto simp: l' simp del: mem_span_of)
  qed
  moreover from this have "H (h + 16) = None" by (metis option.exhaust)
  ultimately show "fresh_block H (h + 16) (unat sz)"
    using lp(1,8,9) unfolding fresh_block_def by blast
qed

section \<open>Every call is simulated\<close>

definition client_rel :: "os \<times> p2state \<Rightarrow> heap \<Rightarrow> bool" where
  "client_rel = (\<lambda>(os, st) H. kernel_ok os \<and> (\<exists>g. p2_inv st g \<and> shows_heap (mem st) (a_live g) H))"

lemma client_relI:
  "kernel_ok os \<Longrightarrow> p2_inv st g \<Longrightarrow> shows_heap (mem st) (a_live g) H \<Longrightarrow> client_rel (os, st) H"
  unfolding client_rel_def by blast

lemma malloc_sim:
  assumes inv: "p2_inv st g" and sh: "shows_heap (mem st) (a_live g) H" and ok: "kernel_ok os"
  shows "\<exists>r st' H'. p2malloc os sz st = Some (r, st') \<and> malloc_step H sz r H' \<and> client_rel (os, st') H'"
proof -
  let ?am = "a_malloc (answers os st) sz g"
  obtain st' where st': "p2malloc os sz st = Some (fst ?am, st')" "p2_inv st' (snd ?am)"
      "keeps (eset (live_extents (a_live g))) (mem st) (mem st')"
    using p2malloc_spec [OF inv ok, of sz] by blast
  note sh' = shows_same [OF inv sh st'(3)]
  show ?thesis
  proof (rule a_malloc_cases [OF a_free_length [OF inv], of "answers os st" sz])
    assume am: "?am = (NULL, g)"
    then have "malloc_step H sz (fst ?am) H" by (simp add: malloc_step_def)
    moreover have "client_rel (os, st') H" using st'(2) sh' by (intro client_relI [OF ok]) (simp_all add: am)
    ultimately show ?thesis using st'(1) by blast
  next
    fix h assume b: "fst ?am = h + 16" "sz \<noteq> 0"
      "a_live (snd ?am) = add_mset (h, sz, alloc_size_of sz) (a_live g)"
    have rel: "p2_rel st' (snd ?am)" by (rule live_not_boot [OF st'(2), of "(h, sz, alloc_size_of sz)"]) (simp add: b(3))
    note fr = new_block_fresh [OF rel b(3) sh']
    let ?bs = "payload (mem st') (h + 16) (unat sz)"
    have "malloc_step H sz (fst ?am) (H(h + 16 := Some ?bs))"
      using fr(1) b(1,2) unfolding malloc_step_def by (metis length_payload)
    moreover have "client_rel (os, st') (H(h + 16 := Some ?bs))"
      using shows_plus [OF sh' fr(2)] st'(2) by (intro client_relI [OF ok, of _ "snd ?am"]) (simp_all add: b(3))
    ultimately show ?thesis using st'(1) by blast
  qed
qed

lemma calloc_sim:
  assumes inv: "p2_inv st g" and sh: "shows_heap (mem st) (a_live g) H" and ok: "kernel_ok os"
  shows "\<exists>r st' H'. p2calloc os n sz st = Some (r, st') \<and> heap_step H (Calloc n sz) r H' \<and> client_rel (os, st') H'"
proof (cases "n \<noteq> 0 \<and> sz \<noteq> 0 \<and> unat n * unat sz < 2 ^ 64")
  case False
  then have "p2calloc os n sz st = Some (NULL, st)"
    using calloc_overflow_iff [of sz n] by (auto simp: p2calloc_def)
  moreover have "client_rel (os, st) H" by (rule client_relI [OF ok inv sh])
  ultimately show ?thesis by auto
next
  case True
  then have c: "n \<noteq> 0" "sz \<noteq> 0" "unat n * unat sz < 2 ^ 64" by blast+
  let ?am = "a_malloc (answers os st) (n * sz) g"
  obtain st' where st': "p2calloc os n sz st = Some (fst ?am, st')" "p2_inv st' (snd ?am)"
      "keeps (eset (live_extents (a_live g))) (mem st) (mem st')"
      "fst ?am \<noteq> NULL \<longrightarrow> (\<forall>b. unat b \<in> span_of (fst ?am) (unat n * unat sz) \<longrightarrow> bytes (mem st') b = 0)"
    using p2calloc_spec [OF inv ok c] by blast
  note sh' = shows_same [OF inv sh st'(3)]
  show ?thesis
  proof (rule a_malloc_cases [OF a_free_length [OF inv], of "answers os st" "n * sz"])
    assume am: "?am = (NULL, g)"
    moreover have "client_rel (os, st') H" using st'(2) sh' by (intro client_relI [OF ok]) (simp_all add: am)
    ultimately show ?thesis using st'(1) by auto
  next
    fix h assume b: "fst ?am = h + 16"
      "a_live (snd ?am) = add_mset (h, n * sz, alloc_size_of (n * sz)) (a_live g)"
    let ?l = "(h, n * sz, alloc_size_of (n * sz))" and ?N = "unat n * unat sz"
    have l: "?l \<in># a_live (snd ?am)" by (simp add: b(2))
    have rel: "p2_rel st' (snd ?am)" by (rule live_not_boot [OF st'(2) l])
    have N: "unat (n * sz) = ?N" using c(3) by (simp add: unat_word_ariths)
    note fr = new_block_fresh [OF rel b(2) sh', unfolded N] and lp = live_ptr [OF rel l, unfolded N]
    have "payload (mem st') (h + 16) ?N = replicate ?N 0"
    proof (rule nth_equalityI)
      fix k assume k: "k < length (payload (mem st') (h + 16) ?N)"
      have "unat (h + 16 + of_nat k) = unat (h + 16) + k" using lp(8) k by (intro unat_add_num) simp
      then have "unat (h + 16 + of_nat k) \<in> span_of (h + 16) ?N" using k by simp
      then have "bytes (mem st') (h + 16 + of_nat k) = 0" using st'(4) lp(1) b(1) by simp
      then show "payload (mem st') (h + 16) ?N ! k = replicate ?N 0 ! k" using k by simp
    qed simp
    then have "client_rel (os, st') (H(h + 16 := Some (replicate ?N 0)))"
      using shows_plus [OF sh' fr(2), of "n * sz" "alloc_size_of (n * sz)"] st'(2)
      by (intro client_relI [OF ok, of _ "snd ?am"]) (simp_all add: b(2) N)
    moreover have "0 < ?N" using c by (simp add: unat_gt_0)
    ultimately show ?thesis using st'(1) fr(1) c(3) b(1) by auto
  qed
qed

lemma a_live_realloc:
  assumes l: "(h, old, al) \<in># a_live g" and len: "length (a_free g) = 8" and sz: "sz \<noteq> 0"
    and r: "fst (a_realloc ans (h, old, al) sz g) \<noteq> NULL"
  obtains h' al' where "fst (a_realloc ans (h, old, al) sz g) = h' + 16"
    and "a_live (snd (a_realloc ans (h, old, al) sz g)) = add_mset (h', sz, al') (a_live g - {#(h, old, al)#})"
proof (cases "al = 0 \<and> get_freelist_idx sz = get_freelist_idx old")
  case True
  then show ?thesis using that [of h 0] sz by (simp add: a_realloc_def a_live_resize)
next
  case False
  let ?am = "a_malloc ans sz g"
  have ar: "a_realloc ans (h, old, al) sz g =
      (if fst ?am = NULL then (NULL, snd ?am) else (fst ?am, a_release (snd ?am) (h, old, al)))"
    using False sz by (auto simp: a_realloc_def split: prod.split)
  then have nz: "fst ?am \<noteq> NULL" using r by (auto split: if_splits)
  show ?thesis
  proof (rule a_malloc_cases [OF len, of ans sz])
    assume "?am = (NULL, g)"
    then show ?thesis using nz by simp
  next
    fix h' assume "fst ?am = h' + 16"
      "a_live (snd ?am) = add_mset (h', sz, alloc_size_of sz) (a_live g)"
    then show ?thesis using nz that [of h' "alloc_size_of sz"] l
      by (auto simp: ar dest!: multi_member_split)
  qed
qed

lemma free_sim:
  assumes inv: "p2_inv st g" and sh: "shows_heap (mem st) (a_live g) H" and ok: "kernel_ok os"
    and pre: "p = NULL \<or> H p \<noteq> None"
  shows "\<exists>st'. p2free p st = Some st' \<and> client_rel (os, st') (if p = NULL then H else H(p := None))"
proof (cases "p = NULL")
  case True
  then show ?thesis using client_relI [OF ok inv sh] by (simp add: p2free_def)
next
  case False
  then obtain bs where "H p = Some bs" using pre by auto
  then obtain h sz al where l: "(h, sz, al) \<in># a_live g" "p = h + 16"
    using shows_heapD [OF sh] by metis
  have rel: "p2_rel st g" by (rule live_not_boot [OF inv l(1)])
  obtain st' where st': "p2free (h + 16) st = Some st'" "p2_rel st' (a_release g (h, sz, al))"
      "keeps (eset (live_extents (a_live g - {#(h, sz, al)#}))) (mem st) (mem st')"
    using p2free_spec [OF rel l(1)] by blast
  have "client_rel (os, st') (H(h + 16 := None))"
    using shows_minus [OF rel sh l(1) st'(3)] st'(2)
    by (intro client_relI [OF ok, of _ "a_release g (h, sz, al)"]) (simp_all add: p2_inv_def)
  then show ?thesis using st'(1) False by (simp add: l(2))
qed

lemma take_payload:
  "k \<le> n \<Longrightarrow> take k (payload m p n) = payload m p k"
  by (simp add: payload_def take_map)

lemma realloc_sim:
  assumes inv: "p2_inv st g" and sh: "shows_heap (mem st) (a_live g) H" and ok: "kernel_ok os"
    and pre: "p \<noteq> NULL" "H p \<noteq> None" "unat sz + 16 < 2 ^ 64"
  shows "\<exists>r st' H'. p2realloc os p sz st = Some (r, st') \<and> heap_step H (Realloc p sz) r H' \<and> client_rel (os, st') H'"
proof -
  obtain bs where bs: "H p = Some bs" using pre(2) by auto
  then obtain h old al where l: "(h, old, al) \<in># a_live g" "p = h + 16"
      and bs': "bs = payload (mem st) p (unat old)"
    using shows_heapD [OF sh] by metis
  have rel: "p2_rel st g" by (rule live_not_boot [OF inv l(1)])
  let ?l = "(h, old, al)" and ?n = "min (unat old) (unat sz)"
  let ?ar = "a_realloc (answers os st) ?l sz g"
  obtain st' where st': "p2realloc os (h + 16) sz st = Some (fst ?ar, st')" "p2_rel st' (snd ?ar)"
      "keeps (eset (live_extents (a_live g - {#?l#}))) (mem st) (mem st')"
      "fst ?ar = NULL \<longrightarrow> sz \<noteq> 0 \<longrightarrow> snd ?ar = g \<and> keeps (eset (live_extents (a_live g))) (mem st) (mem st')"
      "fst ?ar \<noteq> NULL \<longrightarrow> (\<forall>k < ?n. bytes (mem st') (fst ?ar + of_nat k) = bytes (mem st) (h + 16 + of_nat k))"
    using p2realloc_spec [OF rel l(1) ok pre(3)] by blast
  have inv': "p2_inv st' (snd ?ar)" using st'(2) by (simp add: p2_inv_def)
  note sh' = shows_minus [OF rel sh l(1) st'(3)]
  consider "sz = 0" | "sz \<noteq> 0" "fst ?ar = NULL" | "sz \<noteq> 0" "fst ?ar \<noteq> NULL" by blast
  then show ?thesis
  proof cases
    case 1
    then have ar: "?ar = (NULL, a_release g ?l)" by (simp add: a_realloc_def)
    have "client_rel (os, st') (H(p := None))"
      using sh' inv' by (intro client_relI [OF ok, of _ "a_release g ?l"]) (simp_all add: ar l(2))
    moreover have "fst ?ar = NULL" by (simp add: ar)
    ultimately show ?thesis using st'(1) 1 pre(1) by (auto simp: l(2))
  next
    case 2
    then have "snd ?ar = g" and "keeps (eset (live_extents (a_live g))) (mem st) (mem st')"
      using st'(4) by blast+
    then have "client_rel (os, st') H"
      using inv' shows_same [OF inv sh] by (intro client_relI [OF ok, of _ g]) simp_all
    then show ?thesis using st'(1) 2 pre(1) by (auto simp: l(2))
  next
    case 3
    obtain h' al' where n: "fst ?ar = h' + 16"
        "a_live (snd ?ar) = add_mset (h', sz, al') (a_live g - {#?l#})"
      using a_live_realloc [OF l(1) a_free_length [OF inv] 3] .
    note fr = new_block_fresh [OF st'(2) n(2) sh']
    let ?new = "payload (mem st') (h' + 16) (unat sz)"
    have "take ?n ?new = take ?n bs"
      using st'(5) 3(2) unfolding n(1) bs' l(2) by (simp add: take_payload) (simp add: payload_def)
    moreover have "length bs = unat old" by (simp add: bs')
    ultimately have "\<exists>bs0 bs1. H p = Some bs0 \<and> length bs1 = unat sz
        \<and> take (min (length bs0) (unat sz)) bs1 = take (min (length bs0) (unat sz)) bs0
        \<and> H(p := None, h' + 16 := Some ?new) = H(p := None, h' + 16 := Some bs1)"
      using bs by (intro exI [of _ bs] exI [of _ ?new]) simp
    then have "heap_step H (Realloc p sz) (h' + 16) (H(p := None, h' + 16 := Some ?new))"
      using fr(1) pre(1) 3(1) unfolding l(2) [symmetric] by simp
    moreover have "client_rel (os, st') (H(p := None, h' + 16 := Some ?new))"
      using shows_plus [OF sh' fr(2)] inv'
      by (intro client_relI [OF ok, of _ "snd ?ar"]) (simp_all add: n(2) l(2))
    ultimately show ?thesis using st'(1) unfolding n(1) l(2) by blast
  qed
qed

lemma byte_in_block:
  assumes rel: "p2_rel st g" and l: "(h, sz, al) \<in># a_live g" and k: "k < unat sz"
  shows "unat (h + 16 + of_nat k) = unat (h + 16) + k" and "mapped (mem st) (h + 16 + of_nat k) 1"
    and "unat (h + 16 + of_nat k) \<in> span_of (h + 16) (unat sz)"
proof -
  note lp = live_ptr [OF rel l]
  show u: "unat (h + 16 + of_nat k) = unat (h + 16) + k" using lp(8) k by (intro unat_add_num) simp
  then show "mapped (mem st) (h + 16 + of_nat k) 1" using k by (intro mapped_sub [OF lp(7)]) simp_all
  show "unat (h + 16 + of_nat k) \<in> span_of (h + 16) (unat sz)" using u k by simp
qed

lemma write_sim:
  assumes inv: "p2_inv st g" and sh: "shows_heap (mem st) (a_live g) H" and ok: "kernel_ok os"
    and H: "H p = Some bs" and k: "k < length bs"
  shows "\<exists>m. store8 (mem st) (p + of_nat k) v = Some m \<and> client_rel (os, st\<lparr>mem := m\<rparr>) (H(p := Some (bs[k := v])))"
proof -
  obtain h sz al where l: "(h, sz, al) \<in># a_live g" "p = h + 16"
      and bs: "bs = payload (mem st) p (unat sz)"
    using shows_heapD [OF sh H] .
  let ?l = "(h, sz, al)" and ?a = "h + 16 + of_nat k"
  have rel: "p2_rel st g" by (rule live_not_boot [OF inv l(1)])
  have k': "k < unat sz" using k by (simp add: bs)
  note bb = byte_in_block [OF rel l(1)]
  let ?m = "(mem st)\<lparr>bytes := (bytes (mem st))(?a := v)\<rparr>"
  have "changes {unat ?a} (mem st) ?m" by (auto simp: changes_def)
  note w = client_write [OF rel l(1) this]
  have rel': "p2_rel (st\<lparr>mem := ?m\<rparr>) g" and kp: "keeps (eset (live_extents (a_live g - {#?l#}))) (mem st) ?m"
    using w bb(3) [OF k'] by auto
  note sh' = shows_minus [OF rel sh l(1) kp]
  have "payload ?m (h + 16) (unat sz) = bs[k := v]"
  proof (rule nth_equalityI)
    fix j assume "j < length (payload ?m (h + 16) (unat sz))"
    then have j: "j < unat sz" by simp
    have "h + 16 + of_nat j = ?a \<longleftrightarrow> j = k"
      using bb(1) [OF j] bb(1) [OF k'] by (auto simp: addr_eq_iff)
    then show "payload ?m (h + 16) (unat sz) ! j = bs[k := v] ! j"
      using j k' by (simp add: bs l(2) nth_list_update)
  qed (simp add: bs)
  moreover have "fst l' \<noteq> h" if "l' \<in># a_live g - {#?l#}" for l'
    using live_unique [OF rel l(1) that] by simp
  ultimately have "shows_heap ?m (a_live g) (H(p := Some (bs[k := v])))"
    using shows_plus [OF sh', of h sz al] l by simp
  then have "client_rel (os, st\<lparr>mem := ?m\<rparr>) (H(p := Some (bs[k := v])))"
    using rel' by (intro client_relI [OF ok, of _ g]) (simp_all add: p2_inv_def)
  moreover have "store8 (mem st) (p + of_nat k) v = Some ?m"
    using bb(2) [OF k'] by (simp add: store8_def l(2))
  ultimately show ?thesis by blast
qed

lemma read_sim:
  assumes inv: "p2_inv st g" and sh: "shows_heap (mem st) (a_live g) H"
    and H: "H p = Some bs" and k: "k < length bs"
  shows "load8 (mem st) (p + of_nat k) = Some (bs ! k)"
proof -
  obtain h sz al where l: "(h, sz, al) \<in># a_live g" "p = h + 16"
      and bs: "bs = payload (mem st) p (unat sz)"
    using shows_heapD [OF sh H] .
  have rel: "p2_rel st g" by (rule live_not_boot [OF inv l(1)])
  have k': "k < unat sz" using k by (simp add: bs)
  show ?thesis using byte_in_block(2) [OF rel l(1) k'] k' by (simp add: load8_def bs l(2))
qed

lemma reset_sim:
  assumes inv: "p2_inv st g" and ok: "kernel_ok os"
  shows "\<exists>st'. p2reset st = Some st' \<and> client_rel (os, st') (\<lambda>_. None)"
proof -
  obtain st' where "p2reset st = Some st'" "p2_rel st' a_empty" using p2reset_spec [OF inv] by blast
  then show ?thesis
    using client_relI [OF ok, of st' a_empty] by (auto simp: p2_inv_def shows_heap_empty)
qed

lemma run_call_sim:
  assumes rel: "client_rel (os, st) H" and pre: "call_ok H c"
  shows "\<exists>r st' H'. run_call os c st = Some (r, st') \<and> heap_step H c r H' \<and> client_rel (os, st') H'"
proof -
  obtain g where ok: "kernel_ok os" and inv: "p2_inv st g" and sh: "shows_heap (mem st) (a_live g) H"
    using rel by (auto simp: client_rel_def)
  show ?thesis
  proof (cases c)
    case (Malloc sz)
    then show ?thesis using malloc_sim [OF inv sh ok] by simp
  next
    case (Calloc n sz)
    then show ?thesis using calloc_sim [OF inv sh ok] by (simp del: heap_step.simps)
  next
    case (Realloc p sz)
    show ?thesis
    proof (cases "p = NULL")
      case True
      then show ?thesis using malloc_sim [OF inv sh ok, of sz] Realloc by (simp add: p2realloc_def)
    next
      case False
      then show ?thesis using realloc_sim [OF inv sh ok False, of sz] pre Realloc
        by (simp del: heap_step.simps)
    qed
  next
    case (Free p)
    then show ?thesis using free_sim [OF inv sh ok, of p] pre by auto
  next
    case (Write p k v)
    then obtain bs where "H p = Some bs" "k < length bs" using pre by (auto split: option.splits)
    with write_sim [OF inv sh ok this, of v] show ?thesis using Write by auto
  next
    case (Read p k)
    then obtain bs where "H p = Some bs" "k < length bs" using pre by (auto split: option.splits)
    with read_sim [OF inv sh this] rel show ?thesis using Read by auto
  next
    case Reset
    then show ?thesis using reset_sim [OF inv ok] by auto
  qed
qed

interpretation p2: simulation machine_call heap_step call_ok client_rel
proof unfold_locales
  fix s H c assume "client_rel s H" and "call_ok H c"
  then show "\<exists>r s' H'. machine_call s c = Some (r, s') \<and> heap_step H c r H' \<and> client_rel s' H'"
    using run_call_sim [of "fst s" "snd s" H c] by (cases s) (fastforce simp: machine_call_def)
qed

text \<open>At program start the client holds nothing.\<close>

lemma client_rel_boot: "p2_boot st \<Longrightarrow> kernel_ok os \<Longrightarrow> client_rel (os, st) (\<lambda>_. None)"
  by (rule client_relI [of _ _ a_empty]) (simp_all add: p2_inv_def shows_heap_empty)

end
