(* ===== verification/P2_Main_Correct.thy ===== *)
theory P2_Main_Correct
  imports P2_Main P2_Client
begin

text \<open>
  The integration levels of main.c pass on every kernel that keeps the promises of \<open>mmap\<close> and has
  room for the mappings they need.  The loops run up to a million rounds; the proofs are inductions
  over the rounds that rest on the abstract allocator: a released block is reused, so that the
  rounds after the first need nothing from the kernel.
\<close>

section \<open>A kernel with room\<close>

text \<open>
  \<open>room k rs\<close>: with the mappings \<open>rs\<close> live, the kernel can serve \<open>k\<close> more requests of at most
  \<open>lim\<close> bytes each; the integration levels ask for two pages at most.
\<close>

definition grants_upto :: "nat \<Rightarrow> os \<Rightarrow> (nat \<Rightarrow> (addr \<times> nat) list \<Rightarrow> bool) \<Rightarrow> bool" where
  "grants_upto lim os room \<longleftrightarrow>
     (\<forall>k m n. room (Suc k) (regions m) \<longrightarrow> n \<noteq> 0 \<longrightarrow> unat n \<le> lim \<longrightarrow>
        (\<exists>p. os m n = Some p \<and> room k ((p, unat n) # regions m)))
     \<and> (\<forall>k rs. room (Suc k) rs \<longrightarrow> room k rs)"

definition grants :: "os \<Rightarrow> (nat \<Rightarrow> (addr \<times> nat) list \<Rightarrow> bool) \<Rightarrow> bool" where
  "grants = grants_upto 8192"

lemma grants_upto_mono: "grants_upto lim os room \<Longrightarrow> room (n + k) rs \<Longrightarrow> room k rs"
  by (induction n) (auto simp: grants_upto_def)

lemma grants_mono: "grants os room \<Longrightarrow> room (n + k) rs \<Longrightarrow> room k rs"
  unfolding grants_def by (rule grants_upto_mono)

lemma answers_granted:
  assumes "grants_upto lim os room" and "p2_inv st g" and "room (Suc k) (regions (mem st))"
    and "n \<noteq> 0" and "unat n \<le> lim"
  obtains p where "answers os st n = Some p" and "room k ((p, unat n) # regions (mem st))"
proof -
  obtain st1 where st1: "ensure_init st = Some st1" "regions (mem st1) = regions (mem st)"
    using ensure_init_spec [OF assms(2)] by metis
  then obtain p where "os (mem st1) n = Some p" "room k ((p, unat n) # regions (mem st))"
    using assms(1,3-5) unfolding grants_upto_def by metis
  then show ?thesis using that st1(1) by (simp add: answers_def)
qed

text \<open>An allocation that succeeds: there is room for a mapping, or a block on the list.\<close>

definition can_alloc :: "(nat \<Rightarrow> (addr \<times> nat) list \<Rightarrow> bool) \<Rightarrow> nat \<Rightarrow> p2state \<Rightarrow> astate \<Rightarrow> u64 \<Rightarrow> bool" where
  "can_alloc room k st g sz \<longleftrightarrow> room (Suc k) (regions (mem st))
     \<or> room k (regions (mem st)) \<and> unat sz \<le> 4080 \<and> a_free g ! nat (get_freelist_idx sz) \<noteq> []"

lemma small_page_align:
  assumes "4080 < unat sz" and "unat sz \<le> 8176"
  shows "page_align (16 + sz) \<noteq> 0" and "unat (page_align (16 + sz)) \<le> 8192"
proof -
  have u: "unat (16 + sz) = unat sz + 16" using assms(2) unat_swh [of sz] by (simp add: add.commute)
  then have "unat (page_align (16 + sz)) = (unat sz + 16 + 4095) div 4096 * 4096"
    using assms(2) by (subst unat_page_align) simp_all
  moreover have "(unat sz + 16 + 4095) div 4096 = 2" using assms by simp
  ultimately have "unat (page_align (16 + sz)) = 8192" by simp
  then show "page_align (16 + sz) \<noteq> 0" and "unat (page_align (16 + sz)) \<le> 8192" by auto
qed

lemma alloc_upto:
  assumes "grants_upto lim os room" and ok: "kernel_ok os" and inv: "p2_inv st g"
    and sz: "sz \<noteq> 0" "unat sz + 16 < 2 ^ 64" and lim: "4096 \<le> lim"
    and large: "4080 < sz \<Longrightarrow> page_align (16 + sz) \<noteq> 0 \<and> unat (page_align (16 + sz)) \<le> lim"
    and can: "can_alloc room k st g sz"
  obtains h st' g' where "p2malloc os sz st = Some (h + 16, st')" and "h + 16 \<noteq> NULL"
    and "p2_rel st' g'" and "a_malloc (answers os st) sz g = (h + 16, g')"
    and "a_live g' = add_mset (h, sz, alloc_size_of sz) (a_live g)"
    and "room k (regions (mem st'))" and "keeps (eset (live_extents (a_live g))) (mem st) (mem st')"
proof -
  let ?am = "a_malloc (answers os st) sz g" and ?n = "if 4080 < sz then page_align (16 + sz) else PAGE_BYTES"
  have guard: "\<not> SIZE_MAX - 16 < sz" using sz(2) by (simp add: word_less_nat_alt)
  have n: "?n \<noteq> 0" "unat ?n \<le> lim" using large lim by (auto split: if_splits)
  obtain st' where st': "p2malloc os sz st = Some (fst ?am, st')" "p2_inv st' (snd ?am)"
      "regions (mem st') = a_mappings (answers os st) sz g @ regions (mem st)"
      "keeps (eset (live_extents (a_live g))) (mem st) (mem st')"
    using p2malloc_spec [OF inv ok, of sz] by blast
  have r: "?am \<noteq> (NULL, g) \<and> room k (regions (mem st'))"
  proof (cases "sz \<le> 4080 \<and> a_free g ! nat (get_freelist_idx sz) \<noteq> []")
    case True
    then have "\<not> 4080 < sz" by auto
    have "room k (regions (mem st))"
      using can grants_upto_mono [OF assms(1), of 1 k] by (auto simp: can_alloc_def)
    then show ?thesis using True guard sz(1) st'(3) \<open>\<not> 4080 < sz\<close>
      by (auto simp: a_malloc_fail_iff a_mappings_def Let_def)
  next
    case False
    then have "room (Suc k) (regions (mem st))" using can by (auto simp: can_alloc_def word_le_nat_alt)
    then obtain p where p: "answers os st ?n = Some p" "room k ((p, unat ?n) # regions (mem st))"
      using answers_granted [OF assms(1) inv _ n] by blast
    have "a_mappings (answers os st) sz g = [(p, unat ?n)]"
      using False guard sz(1) p(1) by (auto simp: a_mappings_def Let_def not_le not_less)
    then show ?thesis using p guard sz(1) st'(3) by (auto simp: a_malloc_fail_iff)
  qed
  then have nz: "fst ?am \<noteq> NULL" using a_malloc_nonnull [OF inv st'(2)] by blast
  show ?thesis
  proof (rule a_malloc_cases [OF a_free_length [OF inv], of "answers os st" sz])
    assume "?am = (NULL, g)"
    then show ?thesis using nz by simp
  next
    fix h assume h: "fst ?am = h + 16"
      "a_live (snd ?am) = add_mset (h, sz, alloc_size_of sz) (a_live g)"
    have "p2_rel st' (snd ?am)" by (rule live_not_boot [OF st'(2), of "(h, sz, alloc_size_of sz)"]) (simp add: h(2))
    then show ?thesis using that [of h st' "snd ?am"] st'(1,4) nz h r by (simp add: prod_eq_iff)
  qed
qed

lemma alloc_step:
  assumes "grants os room" and "kernel_ok os" and "p2_inv st g"
    and sz: "sz \<noteq> 0" "unat sz \<le> 8176" and "can_alloc room k st g sz"
  obtains h st' g' where "p2malloc os sz st = Some (h + 16, st')" and "h + 16 \<noteq> NULL"
    and "p2_rel st' g'" and "a_malloc (answers os st) sz g = (h + 16, g')"
    and "a_live g' = add_mset (h, sz, alloc_size_of sz) (a_live g)"
    and "room k (regions (mem st'))"
proof (rule alloc_upto [OF assms(1)[unfolded grants_def] assms(2,3) sz(1) _ _ _ assms(6)])
  show "page_align (16 + sz) \<noteq> 0 \<and> unat (page_align (16 + sz)) \<le> 8192" if "4080 < sz"
    using that small_page_align [of sz] sz(2) by (simp add: word_less_nat_alt)
qed (use sz(2) that in auto)

text \<open>The block is filled with zeros, which nobody else sees.\<close>

lemma clear_step:
  assumes rel: "p2_rel st g" and l: "(h, sz, al) \<in># a_live g" and n: "n \<le> unat sz"
  obtains m where "memset (mem st) (h + 16) 0 n = Some m" and "p2_rel (st\<lparr>mem := m\<rparr>) g"
    and "regions m = regions (mem st)"
proof -
  note lp = live_ptr [OF rel l]
  have mp: "mapped (mem st) (h + 16) n" using mapped_sub [OF lp(7)] n by simp
  moreover have nw: "unat (h + 16) + n \<le> 2 ^ 64" using lp(8) n by simp
  ultimately obtain m where m: "memset (mem st) (h + 16) 0 n = Some m" "changes (span_of (h + 16) n) (mem st) m"
    by (rule memset_spec)
  have sub: "span_of (h + 16) n \<subseteq> span_of (h + 16) (unat sz)" using n by (rule span_of_mono)
  show ?thesis using that m(1) client_write(1) [OF rel l m(2) sub] changes_regions [OF m(2)] by blast
qed

lemma free_step:
  assumes rel: "p2_rel st g" and l: "(h, sz, 0) \<in># a_live g"
  obtains st' g' where "p2free (h + 16) st = Some st'" and "p2_rel st' g'"
    and "a_free g' ! nat (get_freelist_idx sz) \<noteq> []" and "regions (mem st') = regions (mem st)"
proof -
  have "unat sz \<le> 4080" using live_ptr(6) [OF rel l] by (simp add: valid_live_def)
  then obtain i where i: "get_freelist_idx sz = int i" "i < 8" by (rule idx_slab)
  obtain st' where "p2free (h + 16) st = Some st'" "p2_rel st' (a_give g i (h, sz, 0))"
      "regions (mem st') = regions (mem st)"
    using p2free_spec [OF rel l] i by (auto simp: a_release_def)
  moreover have "h \<in> set (a_free (a_give g i (h, sz, 0)) ! i)"
    using i(2) geomD(2) [OF p2_memD(1) [OF p2_relD(2) [OF rel]]] by simp
  ultimately show ?thesis using that i(1) by (metis empty_iff list.set(1) nat_int)
qed

section \<open>Levels 0, 1, 3 and 4\<close>

lemma rel_inv: "p2_rel st g \<Longrightarrow> p2_inv st g"
  by (simp add: p2_inv_def)

text \<open>One round of allocation, clearing and release: the list has a block afterwards.\<close>

lemma round_step:
  assumes "grants os room" and "kernel_ok os" and "p2_inv st g"
    and sz: "sz \<noteq> 0" "unat sz \<le> 4080" and can: "can_alloc room k st g sz"
  obtains p st1 m st2 g2 where "p2malloc os sz st = Some (p, st1)" and "p \<noteq> NULL"
    and "memset (mem st1) p 0 (unat sz) = Some m" and "p2free p (st1\<lparr>mem := m\<rparr>) = Some st2"
    and "p2_rel st2 g2" and "a_free g2 ! nat (get_freelist_idx sz) \<noteq> []"
    and "room k (regions (mem st2))"
proof -
  have le: "unat sz \<le> 8176" using sz(2) by simp
  obtain h st1 g1 where a: "p2malloc os sz st = Some (h + 16, st1)" "h + 16 \<noteq> NULL" "p2_rel st1 g1"
      "a_live g1 = add_mset (h, sz, alloc_size_of sz) (a_live g)" "room k (regions (mem st1))"
    using alloc_step [OF assms(1-3) sz(1) le can] by metis
  have l: "(h, sz, 0) \<in># a_live g1" using sz(2) a(4) by (simp add: alloc_size_of_def word_less_nat_alt)
  obtain m where m: "memset (mem st1) (h + 16) 0 (unat sz) = Some m" "p2_rel (st1\<lparr>mem := m\<rparr>) g1"
      "regions m = regions (mem st1)"
    using clear_step [OF a(3) l order_refl] .
  obtain st2 g2 where f: "p2free (h + 16) (st1\<lparr>mem := m\<rparr>) = Some st2" "p2_rel st2 g2"
      "a_free g2 ! nat (get_freelist_idx sz) \<noteq> []" "regions (mem st2) = regions m"
    using free_step [OF m(2) l] by auto
  then show ?thesis using that a(1,2,5) m(1,3) by metis
qed

lemma level0_passes:
  assumes "grants os room" and "kernel_ok os" and "p2_inv st g" and "room (Suc k) (regions (mem st))"
  shows "\<exists>st' g'. test_level0 os st = Some (1, st') \<and> p2_inv st' g' \<and> room k (regions (mem st'))"
proof -
  have can: "can_alloc room k st g 100" using assms(4) by (simp add: can_alloc_def)
  have sz: "100 \<noteq> (0 :: u64)" "unat (100 :: u64) \<le> 8176" by simp_all
  obtain h st1 g1 where a: "p2malloc os 100 st = Some (h + 16, st1)" "h + 16 \<noteq> NULL" "p2_rel st1 g1"
      "a_live g1 = add_mset (h, 100, alloc_size_of 100) (a_live g)" "room k (regions (mem st1))"
    using alloc_step [OF assms(1-3) sz can] by metis
  have "(h, 100, 0) \<in># a_live g1" using a(4) by (simp add: alloc_size_of_def)
  then obtain st2 g2 where "p2free (h + 16) st1 = Some st2" "p2_rel st2 g2" "regions (mem st2) = regions (mem st1)"
    using free_step [OF a(3)] by blast
  with a(1,2,5) rel_inv [of st2 g2] show ?thesis by (auto simp: test_level0_def)
qed

text \<open>Rounds that need no more room than one mapping, for any number of rounds.\<close>

lemma level1_loop_passes:
  assumes "grants os room" and "kernel_ok os"
  shows "p2_inv st g \<Longrightarrow> can_alloc room k st g 12 \<Longrightarrow>
    \<exists>st' g'. level1_loop os i st = Some (1, st') \<and> p2_inv st' g' \<and> room k (regions (mem st'))"
proof (induction "1000000 - i" arbitrary: i st g rule: less_induct)
  case less
  show ?case
  proof (cases "i < 1000000")
    case False
    have "room k (regions (mem st))"
      using less.prems(2) grants_mono [OF assms(1), of 1 k] by (auto simp: can_alloc_def)
    with False less.prems(1) show ?thesis by (auto simp: level1_loop.simps)
  next
    case True
    have sz: "12 \<noteq> (0 :: u64)" "unat (12 :: u64) \<le> 4080" by simp_all
    obtain p st1 m st2 g2 where r: "p2malloc os 12 st = Some (p, st1)" "p \<noteq> NULL"
        "memset (mem st1) p 0 (unat (12 :: u64)) = Some m" "p2free p (st1\<lparr>mem := m\<rparr>) = Some st2"
        "p2_rel st2 g2" "a_free g2 ! nat (get_freelist_idx 12) \<noteq> []" "room k (regions (mem st2))"
      using round_step [OF assms less.prems(1) sz less.prems(2)] by metis
    have can: "can_alloc room k st2 g2 12" using r(6,7) by (simp add: can_alloc_def)
    have lt: "1000000 - Suc i < 1000000 - i" using True by simp
    show ?thesis using less.hyps [OF lt rel_inv [OF r(5)] can] True r(1-4)
      by (simp add: level1_loop.simps [of os i])
  qed
qed

text \<open>Level 4: up to the gate every round may need a page, after it none does.\<close>

lemma level4_tail_passes:
  assumes "grants os room" and "kernel_ok os" and sz: "sz \<noteq> 0" "unat sz \<le> 4080"
  shows "p2_inv st g \<Longrightarrow> can_alloc room k st g sz \<Longrightarrow> 1000 \<le> i \<Longrightarrow>
    \<exists>st' g'. level4_loop os sz i st = Some (1, st') \<and> p2_inv st' g' \<and> room k (regions (mem st'))"
proof (induction "1000000 - i" arbitrary: i st g rule: less_induct)
  case less
  show ?case
  proof (cases "i < 1000000")
    case False
    have "room k (regions (mem st))"
      using less.prems(2) grants_mono [OF assms(1), of 1 k] by (auto simp: can_alloc_def)
    with False less.prems(1) show ?thesis by (auto simp: level4_loop.simps)
  next
    case True
    obtain p st1 m st2 g2 where r: "p2malloc os sz st = Some (p, st1)" "p \<noteq> NULL"
        "memset (mem st1) p 0 (unat sz) = Some m" "p2free p (st1\<lparr>mem := m\<rparr>) = Some st2"
        "p2_rel st2 g2" "a_free g2 ! nat (get_freelist_idx sz) \<noteq> []" "room k (regions (mem st2))"
      using round_step [OF assms(1,2) less.prems(1) sz less.prems(2)] by metis
    have can: "can_alloc room k st2 g2 sz" using r(6,7) sz(2) by (simp add: can_alloc_def)
    have lt: "1000000 - Suc i < 1000000 - i" using True by simp
    show ?thesis using less.hyps [OF lt rel_inv [OF r(5)] can] True r(1-4) less.prems(3)
      by (simp add: level4_loop.simps [of os sz i])
  qed
qed

lemma level4_loop_passes:
  assumes "grants os room" and "kernel_ok os" and sz: "sz \<noteq> 0" "unat sz \<le> 4080"
  shows "p2_inv st g \<Longrightarrow> room (Suc (n + k)) (regions (mem st)) \<Longrightarrow> i + n = 1000 \<Longrightarrow>
    \<exists>st' g'. level4_loop os sz i st = Some (1, st') \<and> p2_inv st' g' \<and> room k (regions (mem st'))"
proof (induction n arbitrary: i st g)
  case 0
  have "can_alloc room k st g sz" using 0 by (simp add: can_alloc_def)
  with level4_tail_passes [OF assms 0(1) this, of i] 0(3) show ?case by simp
next
  case (Suc n)
  have le: "unat sz \<le> 8176" using sz(2) by simp
  have can: "can_alloc room (Suc (n + k)) st g sz" using Suc.prems(2) by (simp add: can_alloc_def)
  obtain h st1 g1 where a: "p2malloc os sz st = Some (h + 16, st1)" "h + 16 \<noteq> NULL" "p2_rel st1 g1"
      "a_live g1 = add_mset (h, sz, alloc_size_of sz) (a_live g)" "room (Suc (n + k)) (regions (mem st1))"
    using alloc_step [OF assms(1,2) Suc.prems(1) sz(1) le can] by metis
  have l: "(h, sz, alloc_size_of sz) \<in># a_live g1" by (simp add: a(4))
  obtain m where m: "memset (mem st1) (h + 16) 0 (unat sz) = Some m" "p2_rel (st1\<lparr>mem := m\<rparr>) g1"
      "regions m = regions (mem st1)"
    using clear_step [OF a(3) l order_refl] .
  have room: "room (Suc (n + k)) (regions (mem (st1\<lparr>mem := m\<rparr>)))" using a(5) m(3) by simp
  have "Suc i + n = 1000" using Suc.prems(3) by simp
  from Suc.IH [OF rel_inv [OF m(2)] room this] a(1,2) m(1) Suc.prems(3) show ?case
    by (simp add: level4_loop.simps [of os sz i])
qed

lemma level4_passes:
  assumes "grants os room" and "kernel_ok os" and "p2_inv st g" and "room (2002 + k) (regions (mem st))"
  shows "\<exists>st' g'. test_level4 os st = Some (1, st') \<and> p2_inv st' g' \<and> room k (regions (mem st'))"
proof -
  have s: "12 \<noteq> (0 :: u64)" "unat (12 :: u64) \<le> 4080" "300 \<noteq> (0 :: u64)" "unat (300 :: u64) \<le> 4080"
    by simp_all
  have "room (Suc (1000 + (1001 + k))) (regions (mem st))" using assms(4) by (simp add: eval_nat_numeral)
  then obtain st1 g1 where 1: "level4_loop os 12 0 st = Some (1, st1)" "p2_inv st1 g1"
      "room (1001 + k) (regions (mem st1))"
    using level4_loop_passes [OF assms(1,2) s(1,2) assms(3)] by (metis add_0)
  have "room (Suc (1000 + k)) (regions (mem st1))" using 1(3) by simp
  from level4_loop_passes [OF assms(1,2) s(3,4) 1(2) this, of 0] show ?thesis
    using 1(1) by (simp add: test_level4_def)
qed

text \<open>Level 3: 583 sizes, at most one mapping for each.\<close>

lemma level3_loop_passes:
  assumes "grants os room" and "kernel_ok os"
  shows "p2_inv st g \<Longrightarrow> room (n + k) (regions (mem st)) \<Longrightarrow> sz \<noteq> 0 \<Longrightarrow> sz + 7 * n = 4093 \<Longrightarrow>
    \<exists>st' g'. level3_loop os sz st = Some (1, st') \<and> p2_inv st' g' \<and> room k (regions (mem st'))"
proof (induction n arbitrary: sz st g)
  case 0
  then show ?case by (auto simp: level3_loop.simps)
next
  case (Suc n)
  have u: "unat (of_nat sz :: u64) = sz" using Suc.prems(4) by (simp add: unat_of_nat)
  have s: "of_nat sz \<noteq> (0 :: u64)" "unat (of_nat sz :: u64) \<le> 8176"
    using Suc.prems(3,4) u by (auto simp: word_unat_eq_iff)
  have can: "can_alloc room (n + k) st g (of_nat sz)" using Suc.prems(2) by (simp add: can_alloc_def)
  obtain h st1 g1 where a: "p2malloc os (of_nat sz) st = Some (h + 16, st1)" "h + 16 \<noteq> NULL" "p2_rel st1 g1"
      "room (n + k) (regions (mem st1))"
    using alloc_step [OF assms Suc.prems(1) s can] by metis
  have "sz + 7 + 7 * n = 4093" and "sz < 4092" using Suc.prems(4) by simp_all
  with Suc.IH [OF rel_inv [OF a(3)] a(4), of "sz + 7"] a(1,2) show ?case
    by (simp add: level3_loop.simps [of os sz])
qed

section \<open>Level 2\<close>

lemma put32_other:
  assumes "unat b \<notin> span_of a 4" and "unat a + 4 \<le> 2 ^ 64"
  shows "put32 f a v b = f b"
proof -
  have "b \<noteq> a + of_nat k" if "k < 4" for k
    using assms that unat_add_num [of a k] by auto
  from this [of 0] this [of 1] this [of 2] this [of 3] show ?thesis by (simp add: put32_def)
qed

lemma store32_spec:
  assumes "mapped m a 4" and "unat a + 4 \<le> 2 ^ 64"
  obtains m' where "store32 m a v = Some m'" and "changes (span_of a 4) m m'"
  using assms by (auto simp: store32_def changes_def put32_other simp del: mem_span_of)

lemma get32_low: "get32 f a = ucast (get64 f a)"
  unfolding get32_def get64_def by (rule bit_word_eqI) (auto simp: bit_simps)

lemma load32_zero: "load64 m a = Some 0 \<Longrightarrow> load32 m a = Some 0"
  by (auto simp: load64_def load32_def get32_low mapped_sub split: if_splits elim: mapped_sub)

text \<open>The first word of a free block's payload is not touched by a release on the same list.\<close>

lemma free_payload_apart:
  assumes rel: "p2_rel st g" and i: "i < 8" and x: "x \<in> set (a_free g ! i)"
    and l: "(h, sz, 0) \<in># a_live g"
  shows "span_of (x + 16) 8 \<inter> (span_of (h + 16) 8 \<union> node_bytes (insert h (set (heads st ! i # a_free g ! i)))) = {}"
    and "unat (x + 16) + 8 \<le> 2 ^ 64"
proof -
  note geom = p2_memD(1) [OF p2_relD(2) [OF rel]]
  let ?R = "ring_extents (heads st) i (a_free g ! i)" and ?x = "(x, block_size i)"
  let ?M = "add_mset (live_extent (h, sz, 0)) ?R"
  note dj = bystanders_disjoint(2,3) [OF geom i l]
  have xR: "?x \<in># ?R" using x by (simp add: ring_extents_def)
  have "?x \<in># extents (heads st) g" using xR extents_split [OF i, of "heads st" g] by simp
  then have nwx: "unat x + block_size i < 2 ^ 64" using geomD(5) [OF geom] by fastforce
  then have xu: "unat (x + 16) = unat x + 16"
    using block_size_ge [of i] unat_add_num [of x 16] by simp
  then show "unat (x + 16) + 8 \<le> 2 ^ 64" using nwx block_size_ge [of i] by simp
  have in_x: "span_of (x + 16) 8 \<subseteq> espan ?x" using xu block_size_ge [of i] by auto
  have big: "16 \<le> snd c" if "c \<in># ?M" for c
  proof -
    have "c \<in># extents (heads st) g" using that unfolding extents_bystanders [OF i l] by auto
    then show ?thesis by (rule extents_ge16 [OF geom])
  qed
  have "\<forall>c \<in># ?M. span_of (x + 16) 8 \<inter> span_of (fst c) 16 = {}"
  proof
    fix c assume c: "c \<in># ?M"
    show "span_of (x + 16) 8 \<inter> span_of (fst c) 16 = {}"
    proof (cases "c = ?x")
      case True
      then show ?thesis using xu by auto
    next
      case False
      have "?x \<in># ?M" using xR by simp
      then have "espan ?x \<inter> espan c = {}" using disj_members [OF dj(1) _ c] False by blast
      moreover have "span_of (fst c) 16 \<subseteq> espan c" using big [OF c] unfolding espan_def by (rule span_of_mono)
      ultimately show ?thesis using in_x by blast
    qed
  qed
  then have "\<forall>y \<in> fst ` set_mset ?M. span_of (x + 16) 8 \<inter> span_of y 16 = {}" by blast
  moreover have nodes: "fst ` set_mset ?M = insert h (set (heads st ! i # a_free g ! i))"
    by (simp add: ring_nodes del: list.set)
  ultimately have "span_of (x + 16) 8 \<inter> node_bytes (insert h (set (heads st ! i # a_free g ! i))) = {}"
    unfolding node_bytes_def nodes by blast
  moreover have "span_of (x + 16) 8 \<inter> span_of (h + 16) 8 = {}"
  proof -
    have "espan ?x \<subseteq> eset ?R" using xR unfolding eset_def by blast
    moreover have "span_of (h + 16) 8 \<subseteq> espan (live_extent (h, sz, 0))"
      using live_ptr(2) [OF rel l] block_size_ge [of "nat (get_freelist_idx sz)"]
      by (auto simp: live_len_def)
    ultimately show ?thesis using dj(2) in_x by blast
  qed
  ultimately show "span_of (x + 16) 8 \<inter> (span_of (h + 16) 8
      \<union> node_bytes (insert h (set (heads st ! i # a_free g ! i)))) = {}" by blast
qed

text \<open>Releasing a list of 12-byte blocks, in any order.\<close>

primrec free_list :: "addr list \<Rightarrow> p2state \<Rightarrow> p2state option" where
  "free_list [] st = Some st"
| "free_list (p # ps) st = do { st \<leftarrow> p2free p st; free_list ps st }"

definition all12 :: "addr list \<Rightarrow> allocation multiset" where
  "all12 hs = mset (map (\<lambda>h. (h, 12, 0)) hs)"

text \<open>The released blocks \<open>F\<close> are on list 0 and their first payload word is 0.\<close>

definition zeroed :: "p2state \<Rightarrow> astate \<Rightarrow> addr set \<Rightarrow> bool" where
  "zeroed st g F \<longleftrightarrow> (\<forall>x \<in> F. x \<in> set (a_free g ! 0) \<and> load64 (mem st) (x + 16) = Some 0)"

lemma idx_12 [simp]: "get_freelist_idx 12 = 0"
  by (simp add: get_freelist_idx_nat)

lemma free_one:
  assumes rel: "p2_rel st g" and live: "a_live g = all12 (h # hs)" and z: "zeroed st g F"
  obtains st' g' where "p2free (h + 16) st = Some st'" and "p2_rel st' g'" and "a_live g' = all12 hs"
    and "zeroed st' g' (insert h F)" and "regions (mem st') = regions (mem st)"
proof -
  have l: "(h, 12, 0) \<in># a_live g" by (simp add: live all12_def)
  have len: "length (a_free g) = 8" by (rule a_free_length [OF rel_inv [OF rel]])
  let ?g' = "a_give g 0 (h, 12, 0)"
  obtain st' where st': "p2free (h + 16) st = Some st'" "p2_rel st' ?g'"
    "load64 (mem st') (h + 16) = Some 0" "regions (mem st') = regions (mem st)"
    "changes (span_of (h + 16) 8 \<union> node_bytes (insert h (set (heads st ! 0 # a_free g ! 0)))) (mem st) (mem st')"
    using p2free_spec [OF rel l] by (auto simp: a_release_def simp del: mem_span_of)
  have "load64 (mem st') (x + 16) = Some 0 \<and> x \<in> set (a_free ?g' ! 0)" if x: "x \<in> F" for x
  proof -
    have xf: "x \<in> set (a_free g ! 0)" "load64 (mem st) (x + 16) = Some 0" using z x by (auto simp: zeroed_def)
    have "load64 (mem st') (x + 16) = load64 (mem st) (x + 16)"
      using free_payload_apart [OF rel _ xf(1) l] by (intro changes_load64 [OF st'(5)]) simp_all
    then show ?thesis using xf len by simp
  qed
  then have "zeroed st' ?g' (insert h F)" using st'(3) len by (auto simp: zeroed_def)
  then show ?thesis using that st'(1,2,4) live by (simp add: all12_def)
qed

lemma free_list_ok:
  "p2_rel st g \<Longrightarrow> a_live g = all12 hs \<Longrightarrow> zeroed st g F \<Longrightarrow>
     \<exists>st' g'. free_list (map (\<lambda>h. h + 16) hs) st = Some st' \<and> p2_rel st' g'
       \<and> zeroed st' g' (F \<union> set hs) \<and> regions (mem st') = regions (mem st)"
proof (induction hs arbitrary: st g F)
  case (Cons h hs)
  obtain st1 g1 where 1: "p2free (h + 16) st = Some st1" "p2_rel st1 g1" "a_live g1 = all12 hs"
    "zeroed st1 g1 (insert h F)" "regions (mem st1) = regions (mem st)"
    by (rule free_one [OF Cons.prems])
  from Cons.IH [OF 1(2-4)] 1(1,5) show ?case by auto
qed auto

text \<open>Writing the word 42 into each block of a list.\<close>

lemma write42:
  assumes rel: "p2_rel st g" and l: "(h, 12, 0) \<in># a_live g"
  obtains m where "store32 (mem st) (h + 16) 42 = Some m" and "p2_rel (st\<lparr>mem := m\<rparr>) g"
    and "regions m = regions (mem st)"
proof -
  note lp = live_ptr [OF rel l]
  have mp: "mapped (mem st) (h + 16) 4" using lp(7) by (rule mapped_sub) simp_all
  have "unat (h + 16) + 4 \<le> 2 ^ 64" using lp(8) by simp
  with mp obtain m where m: "store32 (mem st) (h + 16) 42 = Some m" "changes (span_of (h + 16) 4) (mem st) m"
    by (rule store32_spec)
  have "span_of (h + 16) 4 \<subseteq> span_of (h + 16) (unat (12 :: u64))" by (rule span_of_mono) simp
  then show ?thesis using that m(1) client_write(1) [OF rel l m(2)] changes_regions [OF m(2)] by blast
qed

lemma level2_write_ok:
  assumes "length hs = 8"
  shows "p2_rel st g \<Longrightarrow> a_live g = all12 hs \<Longrightarrow>
    \<exists>st'. level2_write i (map (\<lambda>h. h + 16) hs) st = Some st' \<and> p2_rel st' g \<and> regions (mem st') = regions (mem st)"
proof (induction "8 - i" arbitrary: i st rule: less_induct)
  case less
  show ?case
  proof (cases "i < 8")
    case False
    then show ?thesis using less.prems(1) by (simp add: level2_write.simps)
  next
    case True
    have "(hs ! i, 12, 0) \<in># a_live g" using True assms less.prems(2) by (simp add: all12_def)
    then obtain m where m: "store32 (mem st) (hs ! i + 16) 42 = Some m" "p2_rel (st\<lparr>mem := m\<rparr>) g"
      "regions m = regions (mem st)" using write42 [OF less.prems(1)] by blast
    have lt: "8 - Suc i < 8 - i" using True by simp
    show ?thesis using less.hyps [OF lt m(2) less.prems(2)] True assms m(1,3)
      by (simp add: level2_write.simps [of i])
  qed
qed

text \<open>No released block reads 42.\<close>

lemma level2_check_ok:
  assumes "length hs = 8" and "zeroed st g (set hs)"
  shows "level2_check i (map (\<lambda>h. h + 16) hs) st = Some 1"
proof (induction "8 - i" arbitrary: i rule: less_induct)
  case less
  show ?case
  proof (cases "i < 8")
    case True
    then have "hs ! i \<in> set hs" using assms(1) by simp
    then have "load32 (mem st) (hs ! i + 16) = Some 0"
      using assms(2) by (intro load32_zero) (simp add: zeroed_def)
    moreover have "8 - Suc i < 8 - i" using True by simp
    ultimately show ?thesis using less.hyps [of "Suc i"] True assms(1)
      by (simp add: level2_check.simps [of i])
  qed (simp add: level2_check.simps)
qed

lemma level2_free_order:
  "level2_free ps st = free_list [ps ! 2, ps ! 4, ps ! 5, ps ! 3, ps ! 6, ps ! 0, ps ! 7, ps ! 1] st"
  by (simp add: level2_free_def)

lemma length_8E:
  assumes "length xs = 8"
  obtains a b c d e f g h where "xs = [a, b, c, d, e, f, g, h]"
  using assms by (auto simp: numeral_eq_Suc length_Suc_conv)

lemma level2_free_ok:
  assumes rel: "p2_rel st g" and live: "a_live g = all12 hs" and len: "length hs = 8"
  obtains st' g' where "level2_free (map (\<lambda>h. h + 16) hs) st = Some st'" and "p2_rel st' g'"
    and "zeroed st' g' (set hs)" and "regions (mem st') = regions (mem st)"
proof -
  let ?fs = "[hs ! 2, hs ! 4, hs ! 5, hs ! 3, hs ! 6, hs ! 0, hs ! 7, hs ! 1]"
  obtain a b c d e f k h where hs: "hs = [a, b, c, d, e, f, k, h]" using len by (rule length_8E)
  have "a_live g = all12 ?fs" unfolding live by (simp add: hs all12_def)
  moreover have "zeroed st g {}" by (simp add: zeroed_def)
  ultimately obtain st' g' where "free_list (map (\<lambda>h. h + 16) ?fs) st = Some st'" "p2_rel st' g'"
      "zeroed st' g' ({} \<union> set ?fs)" "regions (mem st') = regions (mem st)"
    using free_list_ok [OF rel] by blast
  moreover have "{} \<union> set ?fs = set hs" by (auto simp: hs)
  ultimately show ?thesis using that by (simp add: level2_free_order len)
qed

text \<open>The eight allocations come from one page, and the counters are exact after each.\<close>

definition level2_state :: "nat \<Rightarrow> addr list \<Rightarrow> p2state \<Rightarrow> astate \<Rightarrow> bool" where
  "level2_state i hs st g \<longleftrightarrow> p2_rel st g \<and> length hs = i \<and> a_live g = all12 hs
     \<and> (if i = 0 then g = a_empty else total (owned g) = 4096 \<and> length (a_free g ! 0) = 128 - i)"

lemma level2_step:
  assumes "grants os room" and "kernel_ok os" and s: "level2_state i hs st g" and i: "i < 8"
    and room: "if i = 0 then room (Suc k) (regions (mem st)) else room k (regions (mem st))"
  obtains h st' g' where "p2malloc os 12 st = Some (h + 16, st')" and "h + 16 \<noteq> NULL"
    and "level2_state (Suc i) (hs @ [h]) st' g'" and "room k (regions (mem st'))"
proof -
  have inv: "p2_inv st g" using s by (simp add: level2_state_def p2_inv_def)
  have sz: "12 \<noteq> (0 :: u64)" "unat (12 :: u64) \<le> 8176" by simp_all
  have len: "length (a_free g) = 8" by (rule a_free_length [OF inv])
  have free: "i \<noteq> 0 \<Longrightarrow> a_free g ! 0 \<noteq> []" using s i by (auto simp: level2_state_def)
  then have can: "can_alloc room k st g 12" using room by (cases "i = 0") (auto simp: can_alloc_def)
  obtain h st' g' where a: "p2malloc os 12 st = Some (h + 16, st')" "h + 16 \<noteq> NULL" "p2_rel st' g'"
      "a_malloc (answers os st) 12 g = (h + 16, g')"
      "a_live g' = add_mset (h, 12, alloc_size_of 12) (a_live g)" "room k (regions (mem st'))"
    by (rule alloc_step [OF assms(1,2) inv sz can])
  have live: "a_live g' = all12 (hs @ [h])" using a(5) s by (simp add: level2_state_def all12_def alloc_size_of_def)
  have "total (owned g') = 4096 \<and> length (a_free g' ! 0) = 128 - Suc i"
  proof (cases "i = 0")
    case True
    then have g: "g = a_empty" using s by (simp add: level2_state_def)
    obtain p where g': "g' = a_take (a_refill g 0 p) 0 12"
      using a(2,4) by (auto simp: g a_malloc_def a_malloc_slab_def split: option.splits)
    have "owned g' = owned (a_refill g 0 p)" unfolding g'
      by (rule extents_take(2)) (simp_all add: len g page_blocks_def flip: length_0_conv)
    also have "\<dots> = block_extents 32 (page_blocks p 0)"
      using extents_refill(2) [of 0 g p] by (simp add: g)
    finally show ?thesis using True by (simp add: g' g page_blocks_def)
  next
    case False
    then have g': "g' = a_take g 0 12" using a(4) free by (simp add: a_malloc_def a_malloc_slab_def)
    have "owned g' = owned g" unfolding g' by (rule extents_take(2)) (simp_all add: len free False)
    then show ?thesis using s False len by (simp add: level2_state_def g')
  qed
  then have "level2_state (Suc i) (hs @ [h]) st' g'"
    using a(3) live s by (simp add: level2_state_def)
  then show ?thesis using that a(1,2,6) by blast
qed

lemma level2_counters:
  assumes "level2_state (Suc i) hs st g"
  shows "p2totmem st = 4096" and "p2allocated st = 12 * of_nat (Suc i)"
proof -
  have rel: "p2_rel st g" and live: "a_live g = all12 hs" and own: "total (owned g) = 4096"
    and len: "length hs = Suc i" using assms by (simp_all add: level2_state_def)
  have "requested (all12 hs) = length hs * 12" by (induction hs) (simp_all add: all12_def)
  then show "p2totmem st = 4096" and "p2allocated st = 12 * of_nat (Suc i)"
    using p2_relD(4,5) [OF rel] live own len by (simp_all add: p2totmem_def p2allocated_def)
qed

lemma level2_alloc_ok:
  assumes "grants os room" and "kernel_ok os"
  shows "level2_state i hs st g \<Longrightarrow> i \<le> 8 \<Longrightarrow>
    (if i = 0 then room (Suc k) (regions (mem st)) else room k (regions (mem st))) \<Longrightarrow>
    \<exists>hs' st' g'. level2_alloc os i (map (\<lambda>h. h + 16) hs) st = Some (1, map (\<lambda>h. h + 16) hs', st')
      \<and> level2_state 8 hs' st' g' \<and> room k (regions (mem st'))"
proof (induction "8 - i" arbitrary: i hs st g rule: less_induct)
  case less
  show ?case
  proof (cases "i < 8")
    case False
    then have "i = 8" using less.prems(2) by simp
    then show ?thesis using less.prems by (auto simp: level2_alloc.simps)
  next
    case True
    obtain h st' g' where s: "p2malloc os 12 st = Some (h + 16, st')" "h + 16 \<noteq> NULL"
      "level2_state (Suc i) (hs @ [h]) st' g'" "room k (regions (mem st'))"
      by (rule level2_step [OF assms less.prems(1) True less.prems(3)])
    have lt: "8 - Suc i < 8 - i" and le: "Suc i \<le> 8" using True by simp_all
    have r: "if Suc i = 0 then room (Suc k) (regions (mem st')) else room k (regions (mem st'))"
      using s(4) by simp
    from less.hyps [OF lt s(3) le r] show ?thesis
      using True s(1,2) level2_counters [OF s(3)] by (simp add: level2_alloc.simps [of os i] Let_def)
  qed
qed

lemma level2_passes:
  assumes "grants os room" and "kernel_ok os" and "p2_rel st a_empty" and "room (Suc k) (regions (mem st))"
  shows "\<exists>st' g'. test_level2 os st = Some (1, st') \<and> p2_inv st' g' \<and> room k (regions (mem st'))"
proof -
  have "level2_state 0 [] st a_empty" using assms(3) by (simp add: level2_state_def all12_def)
  then obtain hs st1 g1 where 1: "level2_alloc os 0 [] st = Some (1, map (\<lambda>h. h + 16) hs, st1)"
      "level2_state 8 hs st1 g1" "room k (regions (mem st1))"
    using level2_alloc_ok [OF assms(1,2), of 0 "[]" st a_empty k] assms(4) by auto
  have st1: "p2_rel st1 g1" "a_live g1 = all12 hs" "length hs = 8" using 1(2) by (simp_all add: level2_state_def)
  obtain st2 where 2: "level2_write 0 (map (\<lambda>h. h + 16) hs) st1 = Some st2" "p2_rel st2 g1"
      "regions (mem st2) = regions (mem st1)"
    using level2_write_ok [OF st1(3,1,2)] by blast
  obtain st3 g3 where 3: "level2_free (map (\<lambda>h. h + 16) hs) st2 = Some st3" "p2_rel st3 g3"
      "zeroed st3 g3 (set hs)" "regions (mem st3) = regions (mem st2)"
    using level2_free_ok [OF 2(2) st1(2,3)] .
  have "test_level2 os st = Some (1, st3)"
    using 1(1) 2(1) 3(1) level2_check_ok [OF st1(3) 3(3), of 0] by (simp add: test_level2_def)
  then show ?thesis using 1(3) 2(3) 3(2,4) by (auto intro: rel_inv)
qed

section \<open>main\<close>

lemma reset_step:
  assumes "p2_inv st g"
  obtains st' where "p2reset st = Some st'" and "p2_rel st' a_empty" and "p2_inv st' a_empty"
    and "regions (mem st') = regions (mem st)"
  using p2reset_spec [OF assms] rel_inv by blast

text \<open>C7. On a kernel that keeps the promises of \<open>mmap\<close> and has room for 2588 mappings of at most
  two pages, the program of main.c passes all its levels, the two million rounds of levels 1 and 4 and
  the exact counters and the zeroed words of level 2 included, and exits with status 0.\<close>

theorem main_exits_zero:
  assumes "kernel_ok os" and "grants os room" and "p2_boot st" and "room 2588 (regions (mem st))"
  shows "\<exists>st'. main os st = Some (0, st')"
proof -
  have "p2_inv st a_empty" using assms(3) by (simp add: p2_inv_def)
  then obtain r0 where r0: "p2reset st = Some r0" "p2_inv r0 a_empty" "regions (mem r0) = regions (mem st)"
    by (rule reset_step)
  obtain s0 g0 where s0: "test_level0 os r0 = Some (1, s0)" "p2_inv s0 g0" "room 2587 (regions (mem s0))"
    using level0_passes [OF assms(2,1) r0(2), of 2587] assms(4) r0(3) by auto
  obtain r1 where r1: "p2reset s0 = Some r1" "p2_inv r1 a_empty" "regions (mem r1) = regions (mem s0)"
    using reset_step [OF s0(2)] by metis
  have "can_alloc room 2586 r1 a_empty 12" using s0(3) r1(3) by (simp add: can_alloc_def)
  then obtain s1 g1 where s1: "test_level1 os r1 = Some (1, s1)" "p2_inv s1 g1" "room 2586 (regions (mem s1))"
    using level1_loop_passes [OF assms(2,1) r1(2)] unfolding test_level1_def by blast
  obtain r2 where r2: "p2reset s1 = Some r2" "p2_rel r2 a_empty" "regions (mem r2) = regions (mem s1)"
    using reset_step [OF s1(2)] by metis
  obtain s2 g2 where s2: "test_level2 os r2 = Some (1, s2)" "p2_inv s2 g2" "room 2585 (regions (mem s2))"
    using level2_passes [OF assms(2,1) r2(2), of 2585] s1(3) r2(3) by auto
  obtain r3 where r3: "p2reset s2 = Some r3" "p2_inv r3 a_empty" "regions (mem r3) = regions (mem s2)"
    using reset_step [OF s2(2)] by metis
  have "room (583 + 2002) (regions (mem r3))" using s2(3) r3(3) by simp
  then obtain s3 g3 where s3: "test_level3 os r3 = Some (1, s3)" "p2_inv s3 g3" "room 2002 (regions (mem s3))"
    using level3_loop_passes [OF assms(2,1) r3(2), of 583 2002 12] by (auto simp: test_level3_def)
  obtain r4 where r4: "p2reset s3 = Some r4" "p2_inv r4 a_empty" "regions (mem r4) = regions (mem s3)"
    using reset_step [OF s3(2)] by metis
  obtain s4 where s4: "test_level4 os r4 = Some (1, s4)"
    using level4_passes [OF assms(2,1) r4(2), of 0] s3(3) r4(3) by auto
  show ?thesis
    using r0(1) s0(1) r1(1) s1(1) r2(1) s2(1) r3(1) s3(1) r4(1) s4 by (simp add: main_def Let_def)
qed

text \<open>The room of the example kernel: so many bytes for each further mapping.\<close>

definition bump_room :: "nat \<Rightarrow> nat \<Rightarrow> (addr \<times> nat) list \<Rightarrow> bool" where
  "bump_room c k rs \<longleftrightarrow> region_top rs + k * c < 2 ^ 63"

lemma round_up_lt: "(t + 4095) div 4096 * 4096 < (t :: nat) + 4096"
  using div_mult_mod_eq [of "t + 4095" 4096] by linarith

lemma bump_grants: "grants_upto lim bump_kernel (bump_room (lim + 4096))"
  unfolding grants_upto_def
proof (intro conjI allI impI)
  fix k and m :: cmem and n :: u64
  let ?c = "lim + 4096" and ?t = "region_top (regions m)"
  assume r: "bump_room ?c (Suc k) (regions m)" and n: "n \<noteq> 0" "unat n \<le> lim"
  let ?p = "(?t + 4095) div 4096 * 4096"
  have b: "?p + unat n < ?t + ?c" using round_up_lt [of ?t] n(2) by linarith
  have top: "?t + ?c + k * ?c < 2 ^ 63" using r by (simp add: bump_room_def add.assoc)
  then have "?p + unat n < 2 ^ 64" using b by simp
  then have k: "bump_kernel m n = Some (of_nat ?p)" using n(1) by (simp add: bump_kernel_def Let_def)
  have "unat (of_nat ?p :: addr) = ?p" by (rule bump_kernel_Some(2) [OF k])
  then have "region_top ((of_nat ?p, unat n) # regions m) + k * ?c < 2 ^ 63"
    using b top unfolding region_top_Cons by linarith
  then show "\<exists>p. bump_kernel m n = Some p \<and> bump_room ?c k ((p, unat n) # regions m)"
    using k unfolding bump_room_def by blast
qed (simp add: bump_room_def)

lemma boot_room: "k * c < 2 ^ 63 - 4568 \<Longrightarrow> bump_room c k (regions (mem (boot static_heads)))"
  by (simp add: bump_room_def boot_def static_heads_simps) (simp add: region_top_def)

theorem main_exits_zero_witness: "\<exists>st'. main bump_kernel (boot static_heads) = Some (0, st')"
  using main_exits_zero [OF kernel_ok_bump _ p2_boot_static] bump_grants [of 8192]
    boot_room [of 2588 12288] by (simp add: grants_def)

end
