(* ===== verification/P2_Threads.thy ===== *)
theory P2_Threads
  imports P2malloc
begin

text \<open>
  \<open>p2malloc\<close>, \<open>p2free\<close>, \<open>p2calloc\<close> and \<open>p2realloc\<close> called by several threads at once.  A thread is a
  program counter with the local variables that are live there, around the program counter of the
  function it has called, if any; a step of a thread is an atomic operation on
  \<open>init_state\<close>, \<open>allocated\<close> or \<open>totmem\<close>, an operation on a mutex, a system call, or the part of a
  critical section that works on the list, together with the accesses around it to the block the
  thread holds, which no other thread has a pointer to.  Steps of different threads interleave in
  any order; the atomics are sequentially consistent, as the C11 default is.  \<open>held\<close> are the
  pointers handed out and not yet passed to \<open>p2free\<close>.
\<close>

section \<open>Threads\<close>

datatype pc =
    Idle
  | M_Start u64                \<comment> \<open>\<open>p2malloc(size)\<close> called\<close>
  | M_Init u64                 \<comment> \<open>has won the compare-and-swap\<close>
  | M_Ready u64                \<comment> \<open>lists initialised, about to store 2\<close>
  | M_Spin u64                 \<comment> \<open>has lost the compare-and-swap\<close>
  | M_Large u64                \<comment> \<open>about to map\<close>
  | M_LCount u64 addr u64      \<comment> \<open>about to add to \<open>allocated\<close>\<close>
  | M_LTotal u64 addr u64      \<comment> \<open>about to add to \<open>totmem\<close>\<close>
  | M_Lock u64 nat             \<comment> \<open>about to lock a list\<close>
  | M_Refill u64 nat           \<comment> \<open>holds the lock, has not looked at the list\<close>
  | M_Take u64 nat             \<comment> \<open>holds the lock of a list that is not empty\<close>
  | M_Fail nat                 \<comment> \<open>holds the lock, no page could be mapped\<close>
  | M_Unlock u64 nat addr      \<comment> \<open>holds the lock and a block\<close>
  | M_Header u64 addr          \<comment> \<open>holds a block without a header\<close>
  | F_Start addr               \<comment> \<open>\<open>p2free(ptr)\<close> called\<close>
  | F_LTotal addr u64 u64      \<comment> \<open>about to subtract from \<open>totmem\<close>\<close>
  | F_Unmap addr u64 u64       \<comment> \<open>about to unmap\<close>
  | F_Lock addr u64 nat        \<comment> \<open>about to lock the list of the block\<close>
  | F_Insert addr u64 nat      \<comment> \<open>holds the lock, about to insert\<close>
  | F_Unlock nat               \<comment> \<open>about to unlock\<close>
  | C_Start u64 u64            \<comment> \<open>\<open>p2calloc(nmemb, size)\<close> called\<close>
  | C_Malloc u64 pc            \<comment> \<open>has called \<open>p2malloc\<close> for the product\<close>
  | R_Start addr u64           \<comment> \<open>\<open>p2realloc(ptr, size)\<close> called\<close>
  | R_Add addr u64 u64         \<comment> \<open>in place, has subtracted \<open>old_size\<close>\<close>
  | R_Size addr u64 u64        \<comment> \<open>in place, has added \<open>size\<close>\<close>
  | R_Malloc addr u64 u64 u64 pc \<comment> \<open>has called \<open>p2malloc\<close>; header with its fields, and \<open>size\<close>\<close>
  | R_Free addr pc             \<comment> \<open>has called \<open>p2free\<close>, and will return a pointer\<close>

text \<open>
  \<open>Undef\<close>: an access outside mapped memory, a failed \<open>assert\<close>, a mutex that is not initialised or
  not held.  \<open>Gives\<close> returns to the caller, who then has the block: the result, or the block the
  caller passed to a \<open>p2realloc\<close> that returns \<open>NULL\<close>.
\<close>

datatype step = Undef | Blocked | Goes p2state pc | Gives p2state addr

definition attempt :: "'a option \<Rightarrow> ('a \<Rightarrow> step) \<Rightarrow> step" where
  "attempt r k = (case r of None \<Rightarrow> Undef | Some x \<Rightarrow> k x)"

definition lock_list :: "nat \<Rightarrow> p2state \<Rightarrow> pc \<Rightarrow> step" where
  "lock_list i st next =
     attempt (fl_at st i) (\<lambda>fl.
       if lock fl = Locked then Blocked
       else attempt (MUTEX_LOCK fl) (\<lambda>fl. Goes (set_fl st i fl) next))"

definition unlock_list :: "nat \<Rightarrow> p2state \<Rightarrow> pc \<Rightarrow> step" where
  "unlock_list i st next =
     attempt (fl_at st i) (\<lambda>fl. attempt (MUTEX_UNLOCK fl) (\<lambda>fl. Goes (set_fl st i fl) next))"

text \<open>Where a call goes once the lists are ready.\<close>

definition dispatch :: "u64 \<Rightarrow> pc" where
  "dispatch sz = (let idx = get_freelist_idx sz in
     if idx = -1 then M_Large sz else M_Lock sz (nat idx))"

definition map_large :: "os \<Rightarrow> u64 \<Rightarrow> p2state \<Rightarrow> step" where
  "map_large os sz st = (
     let alloc_size = page_align (P2_HEADER_SIZE + sz);
         (hdr, m) = os_alloc os (mem st) alloc_size
     in if hdr = NULL then Goes (st\<lparr>mem := m\<rparr>) Idle
        else attempt (set_hdr_size m hdr sz) (\<lambda>m.
          attempt (set_hdr_alloc_size m hdr alloc_size) (\<lambda>m.
            Goes (st\<lparr>mem := m\<rparr>) (M_LCount sz hdr alloc_size))))"

definition take_block :: "u64 \<Rightarrow> nat \<Rightarrow> p2state \<Rightarrow> step" where
  "take_block sz i st =
     attempt (fl_at st i) (\<lambda>fl.
       attempt (ps_list_head_first_d (mem st) (list_head fl)) (\<lambda>first.
         attempt (ps_list_rem_d (mem st) first) (\<lambda>m.
           Goes (st\<lparr>mem := m\<rparr>) (M_Unlock sz i first))))"

definition write_header :: "u64 \<Rightarrow> addr \<Rightarrow> p2state \<Rightarrow> step" where
  "write_header sz hdr st =
     attempt (set_hdr_size (mem st) hdr sz) (\<lambda>m.
       attempt (set_hdr_alloc_size m hdr 0) (\<lambda>m.
         Gives (st\<lparr>mem := m, allocated := allocated st + sz\<rparr>) (hdr + P2_HEADER_SIZE)))"

definition begin_free :: "addr \<Rightarrow> p2state \<Rightarrow> step" where
  "begin_free ptr st =
     (if ptr = NULL then Goes st Idle
      else let hdr = ptr - P2_HEADER_SIZE in
        attempt (IS_LARGE (mem st) hdr) (\<lambda>large.
          attempt (hdr_size (mem st) hdr) (\<lambda>sz.
            if large then
              attempt (hdr_alloc_size (mem st) hdr) (\<lambda>alloc_size.
                Goes (st\<lparr>allocated := allocated st - sz\<rparr>) (F_LTotal hdr sz alloc_size))
            else
              let st = st\<lparr>allocated := allocated st - sz\<rparr> in
              attempt (memset (mem st) ptr 0 (unat sizeof_size_t)) (\<lambda>m.
                let idx = get_freelist_idx sz in
                if \<not> (0 \<le> idx \<and> idx < int NUM_FREELISTS) then Undef
                else Goes (st\<lparr>mem := m\<rparr>) (F_Lock hdr sz (nat idx))))))"

definition insert_block :: "addr \<Rightarrow> nat \<Rightarrow> p2state \<Rightarrow> step" where
  "insert_block hdr i st =
     attempt (fl_at st i) (\<lambda>fl.
       attempt (p2orderedinsert (mem st) hdr fl) (\<lambda>m. Goes (st\<lparr>mem := m\<rparr>) (F_Unlock i)))"

definition begin_calloc :: "u64 \<Rightarrow> u64 \<Rightarrow> p2state \<Rightarrow> step" where
  "begin_calloc nmemb sz st =
     (if nmemb = 0 \<or> sz = 0 then Goes st Idle
      else if nmemb > SIZE_MAX div sz then Goes st Idle
      else Goes st (C_Malloc (nmemb * sz) (M_Start (nmemb * sz))))"

definition begin_realloc :: "addr \<Rightarrow> u64 \<Rightarrow> p2state \<Rightarrow> step" where
  "begin_realloc ptr sz st =
     (if ptr = NULL then Goes st (M_Start sz)
      else if sz = 0 then Goes st (F_Start ptr)
      else let hdr = ptr - P2_HEADER_SIZE in
        attempt (hdr_size (mem st) hdr) (\<lambda>old_size.
          attempt (hdr_alloc_size (mem st) hdr) (\<lambda>alloc_size.
            if alloc_size = 0 \<and> get_freelist_idx sz = get_freelist_idx old_size
            then Goes (st\<lparr>allocated := allocated st - old_size\<rparr>) (R_Add hdr old_size sz)
            else Goes st (R_Malloc hdr old_size alloc_size sz (M_Start sz)))))"

text \<open>
  What a step of the called function is for the caller: \<open>p2malloc\<close> in \<open>p2calloc\<close>, which clears the
  block; \<open>p2malloc\<close> in \<open>p2realloc\<close>, which copies; and \<open>p2free\<close> in \<open>p2realloc\<close>.
\<close>

definition in_calloc :: "u64 \<Rightarrow> step \<Rightarrow> step" where
  "in_calloc n r = (case r of
       Goes st pc \<Rightarrow> Goes st (if pc = Idle then Idle else C_Malloc n pc)
     | Gives st p \<Rightarrow> attempt (memset (mem st) p 0 (unat n)) (\<lambda>m. Gives (st\<lparr>mem := m\<rparr>) p)
     | r \<Rightarrow> r)"

definition in_realloc :: "addr \<Rightarrow> u64 \<Rightarrow> u64 \<Rightarrow> u64 \<Rightarrow> step \<Rightarrow> step" where
  "in_realloc hdr old_size alloc_size sz r = (let ptr = hdr + P2_HEADER_SIZE in case r of
       Goes st pc \<Rightarrow>
         if pc = Idle then Gives st ptr else Goes st (R_Malloc hdr old_size alloc_size sz pc)
     | Gives st new_ptr \<Rightarrow>
         attempt (memcpy (mem st) new_ptr ptr (unat (if old_size < sz then old_size else sz)))
           (\<lambda>m. Goes (st\<lparr>mem := m\<rparr>) (R_Free new_ptr (F_Start ptr)))
     | r \<Rightarrow> r)"

definition in_realloc_free :: "addr \<Rightarrow> step \<Rightarrow> step" where
  "in_realloc_free new_ptr r = (case r of
       Goes st pc \<Rightarrow> if pc = Idle then Gives st new_ptr else Goes st (R_Free new_ptr pc)
     | r \<Rightarrow> r)"

primrec thread_step :: "os \<Rightarrow> pc \<Rightarrow> p2state \<Rightarrow> step" where
  "thread_step os Idle st = Blocked"
| "thread_step os (M_Start sz) st =
     (if sz = 0 then Goes st Idle
      else if sz > SIZE_MAX - P2_HEADER_SIZE then Goes st Idle
      else if init_state st = 0 then Goes (st\<lparr>init_state := 1\<rparr>) (M_Init sz)
      else Goes st (M_Spin sz))"
| "thread_step os (M_Init sz) st = attempt (freelists_init st) (\<lambda>st. Goes st (M_Ready sz))"
| "thread_step os (M_Ready sz) st = Goes (st\<lparr>init_state := 2\<rparr>) (dispatch sz)"
| "thread_step os (M_Spin sz) st =
     (if init_state st \<noteq> 2 then Goes st (M_Spin sz) else Goes st (dispatch sz))"
| "thread_step os (M_Large sz) st = map_large os sz st"
| "thread_step os (M_LCount sz hdr alloc_size) st =
     Goes (st\<lparr>allocated := allocated st + sz\<rparr>) (M_LTotal sz hdr alloc_size)"
| "thread_step os (M_LTotal sz hdr alloc_size) st =
     Gives (st\<lparr>totmem := totmem st + alloc_size\<rparr>) (hdr + P2_HEADER_SIZE)"
| "thread_step os (M_Lock sz i) st = lock_list i st (M_Refill sz i)"
| "thread_step os (M_Refill sz i) st =
     attempt (p2malloc_refill os i st) (\<lambda>(ok, st).
       Goes st (if ok then M_Take sz i else M_Fail i))"
| "thread_step os (M_Take sz i) st = take_block sz i st"
| "thread_step os (M_Fail i) st = unlock_list i st Idle"
| "thread_step os (M_Unlock sz i hdr) st = unlock_list i st (M_Header sz hdr)"
| "thread_step os (M_Header sz hdr) st = write_header sz hdr st"
| "thread_step os (F_Start ptr) st = begin_free ptr st"
| "thread_step os (F_LTotal hdr sz alloc_size) st =
     Goes (st\<lparr>totmem := totmem st - alloc_size\<rparr>) (F_Unmap hdr sz alloc_size)"
| "thread_step os (F_Unmap hdr sz alloc_size) st =
     attempt (os_free (mem st) hdr alloc_size) (\<lambda>m. Goes (st\<lparr>mem := m\<rparr>) Idle)"
| "thread_step os (F_Lock hdr sz i) st = lock_list i st (F_Insert hdr sz i)"
| "thread_step os (F_Insert hdr sz i) st = insert_block hdr i st"
| "thread_step os (F_Unlock i) st = unlock_list i st Idle"
| "thread_step os (C_Start nmemb sz) st = begin_calloc nmemb sz st"
| "thread_step os (C_Malloc n pc) st = in_calloc n (thread_step os pc st)"
| "thread_step os (R_Start ptr sz) st = begin_realloc ptr sz st"
| "thread_step os (R_Add hdr old_size sz) st =
     Goes (st\<lparr>allocated := allocated st + sz\<rparr>) (R_Size hdr old_size sz)"
| "thread_step os (R_Size hdr old_size sz) st =
     attempt (set_hdr_size (mem st) hdr sz) (\<lambda>m. Gives (st\<lparr>mem := m\<rparr>) (hdr + P2_HEADER_SIZE))"
| "thread_step os (R_Malloc hdr old_size alloc_size sz pc) st =
     in_realloc hdr old_size alloc_size sz (thread_step os pc st)"
| "thread_step os (R_Free new_ptr pc) st = in_realloc_free new_ptr (thread_step os pc st)"

section \<open>The system\<close>

record tstate =
  shared :: p2state
  pcs :: "pc list"
  held :: "addr list"

text \<open>
  A step of the whole: a thread goes on; a thread that is not in the allocator calls it, with
  \<open>p2free\<close> and \<open>p2realloc\<close> only on \<open>NULL\<close> or a pointer that was handed out, and no size for
  \<open>p2realloc\<close> that wraps together with the header; or it writes a byte of a block that was handed out.
\<close>

inductive threads :: "os \<Rightarrow> tstate \<Rightarrow> tstate \<Rightarrow> bool" for os where
  goes: "t < length (pcs s) \<Longrightarrow> thread_step os (pcs s ! t) (shared s) = Goes st pc
     \<Longrightarrow> threads os s (s\<lparr>shared := st, pcs := (pcs s)[t := pc]\<rparr>)"
| gives: "t < length (pcs s) \<Longrightarrow> thread_step os (pcs s ! t) (shared s) = Gives st p
     \<Longrightarrow> threads os s (s\<lparr>shared := st, pcs := (pcs s)[t := Idle], held := p # held s\<rparr>)"
| call_malloc: "t < length (pcs s) \<Longrightarrow> pcs s ! t = Idle
     \<Longrightarrow> threads os s (s\<lparr>pcs := (pcs s)[t := M_Start sz]\<rparr>)"
| call_free: "t < length (pcs s) \<Longrightarrow> pcs s ! t = Idle \<Longrightarrow> p = NULL \<or> p \<in> set (held s)
     \<Longrightarrow> threads os s (s\<lparr>pcs := (pcs s)[t := F_Start p], held := remove1 p (held s)\<rparr>)"
| call_calloc: "t < length (pcs s) \<Longrightarrow> pcs s ! t = Idle
     \<Longrightarrow> threads os s (s\<lparr>pcs := (pcs s)[t := C_Start nmemb sz]\<rparr>)"
| call_realloc: "t < length (pcs s) \<Longrightarrow> pcs s ! t = Idle \<Longrightarrow> p = NULL \<or> p \<in> set (held s)
     \<Longrightarrow> unat sz + 16 < 2 ^ 64
     \<Longrightarrow> threads os s (s\<lparr>pcs := (pcs s)[t := R_Start p sz], held := remove1 p (held s)\<rparr>)"
| stores: "t < length (pcs s) \<Longrightarrow> pcs s ! t = Idle \<Longrightarrow> p \<in> set (held s)
     \<Longrightarrow> hdr_size (mem (shared s)) (p - P2_HEADER_SIZE) = Some sz \<Longrightarrow> k < unat sz
     \<Longrightarrow> store8 (mem (shared s)) (p + of_nat k) v = Some m
     \<Longrightarrow> threads os s (s\<lparr>shared := (shared s)\<lparr>mem := m\<rparr>\<rparr>)"

definition threads_start :: "nat \<Rightarrow> p2state \<Rightarrow> tstate" where
  "threads_start n st = \<lparr>shared = st, pcs = replicate n Idle, held = []\<rparr>"

definition runs_to :: "os \<Rightarrow> tstate \<Rightarrow> tstate \<Rightarrow> bool" where
  "runs_to os = (threads os)\<^sup>*\<^sup>*"

text \<open>The list whose lock a thread holds, if any.\<close>

fun in_section :: "nat \<Rightarrow> pc \<Rightarrow> bool" where
  "in_section i (M_Refill sz j) \<longleftrightarrow> i = j"
| "in_section i (M_Take sz j) \<longleftrightarrow> i = j"
| "in_section i (M_Fail j) \<longleftrightarrow> i = j"
| "in_section i (M_Unlock sz j hdr) \<longleftrightarrow> i = j"
| "in_section i (F_Insert hdr sz j) \<longleftrightarrow> i = j"
| "in_section i (F_Unlock j) \<longleftrightarrow> i = j"
| "in_section i (C_Malloc n pc) \<longleftrightarrow> in_section i pc"
| "in_section i (R_Malloc hdr old_size alloc_size sz pc) \<longleftrightarrow> in_section i pc"
| "in_section i (R_Free new_ptr pc) \<longleftrightarrow> in_section i pc"
| "in_section i _ \<longleftrightarrow> False"

fun in_init :: "pc \<Rightarrow> bool" where
  "in_init (M_Init sz) \<longleftrightarrow> True"
| "in_init (M_Ready sz) \<longleftrightarrow> True"
| "in_init (C_Malloc n pc) \<longleftrightarrow> in_init pc"
| "in_init (R_Malloc hdr old_size alloc_size sz pc) \<longleftrightarrow> in_init pc"
| "in_init (R_Free new_ptr pc) \<longleftrightarrow> in_init pc"
| "in_init _ \<longleftrightarrow> False"

end
