(* ===== verification/P2_Part.thy ===== *)
theory P2_Part
  imports P2_Correct
begin

text \<open>
  The memory invariant while blocks are in transit: a block a thread has taken from its list and
  not yet given a header, or is about to put back, belongs to nobody else, but its bytes may be
  anything.  \<open>p2_part m hs g R\<close> is \<open>p2_mem\<close> with the blocks of \<open>R\<close> in that condition.  Each lemma
  is one thing a thread does: take a block off a list, write a header, put a block back, refill a
  list, map, unmap, write to a block.
\<close>

lemma raw_member:
  assumes "R \<subseteq># L" and "l \<in># R"
  shows "L - (R - {#l#}) = add_mset l (L - R)" and "L - {#l#} - (R - {#l#}) = L - R"
    and "R - {#l#} \<subseteq># L - {#l#}"
proof -
  obtain M where "L = R + M" using assms(1) by (metis subset_mset.add_diff_inverse)
  moreover obtain R' where "R = add_mset l R'" using assms(2) by (metis insert_DiffM)
  ultimately show "L - (R - {#l#}) = add_mset l (L - R)" and "L - {#l#} - (R - {#l#}) = L - R"
    and "R - {#l#} \<subseteq># L - {#l#}"
    by simp_all
qed

lemma not_raw:
  assumes "R \<subseteq># L"
  shows "add_mset l L - R = add_mset l (L - R)" and "l \<in># L - R \<Longrightarrow> add_mset l R \<subseteq># L"
    and "l \<in># L - R \<Longrightarrow> R \<subseteq># L - {#l#}"
proof -
  obtain M where L: "L = R + M" using assms by (metis subset_mset.add_diff_inverse)
  then show "add_mset l L - R = add_mset l (L - R)" by simp
  assume "l \<in># L - R"
  then obtain N where "M = add_mset l N" using L by (metis insert_DiffM add_diff_cancel_left')
  with L show "add_mset l R \<subseteq># L" and "R \<subseteq># L - {#l#}" by simp_all
qed

definition without :: "astate \<Rightarrow> allocation multiset \<Rightarrow> astate" where
  "without g R = g\<lparr>a_live := a_live g - R\<rparr>"

definition p2_part :: "cmem \<Rightarrow> addr list \<Rightarrow> astate \<Rightarrow> allocation multiset \<Rightarrow> bool" where
  "p2_part m hs g R \<longleftrightarrow> p2_geom m hs g \<and> R \<subseteq># a_live g \<and> p2_mem m hs (without g R)"

lemma without_simps [simp]:
  "a_free (without g R) = a_free g" "a_live (without g R) = a_live g - R" "without g {#} = g"
  by (simp_all add: without_def)

lemma partD:
  assumes "p2_part m hs g R"
  shows "p2_geom m hs g" and "R \<subseteq># a_live g" and "p2_mem m hs (without g R)"
  using assms by (auto simp: p2_part_def)

lemma part_empty: "p2_mem m hs g \<Longrightarrow> p2_part m hs g {#}"
  using p2_memD(1) by (auto simp: p2_part_def)

lemma extents_without:
  assumes "R \<subseteq># a_live g"
  shows "extents hs g = extents hs (without g R) + live_extents R"
    and "owned g = owned (without g R) + live_extents R"
proof -
  have "live_extents (a_live g) = live_extents (a_live g - R) + live_extents R"
    using assms by (simp add: live_extents_def flip: image_mset_union)
  then show "extents hs g = extents hs (without g R) + live_extents R"
    and "owned g = owned (without g R) + live_extents R"
    by (simp_all add: extents_def owned_def)
qed

lemma others_without:
  assumes "i < 8"
  shows "extents hs (without g R) = ring_extents hs i (a_free g ! i) + others hs (without g R) i"
  using extents_split [OF assms, of hs "without g R"] by simp

lemma geom_without:
  assumes "p2_geom m hs g" and "R \<subseteq># a_live g"
  shows "p2_geom m hs (without g R)"
proof -
  note e = extents_without(1) [OF assms(2), of hs] extents_without(2) [OF assms(2)]
  show ?thesis
    using assms(1) unfolding p2_geom_def e by (auto simp: disj_union dest: in_diffD)
qed

text \<open>A raw block shares no byte with the rest, nor a fresh mapping with anything.\<close>

lemma raw_apart:
  assumes "p2_part m hs g R" and "l \<in># R"
  shows "espan (live_extent l) \<inter> eset (extents hs (without g R)) = {}"
proof -
  have "live_extent l \<in># live_extents R"
    using assms(2) by (simp add: live_extents_def)
  then have "espan (live_extent l) \<subseteq> eset (live_extents R)"
    by (auto simp: eset_def)
  then show ?thesis
    using geomD(3) [OF partD(1) [OF assms(1)]]
    unfolding extents_without(1) [OF partD(2) [OF assms(1)]] disj_union_eset by blast
qed

lemma geom_regions:
  "p2_geom m hs g \<Longrightarrow> regions m' = regions m \<Longrightarrow> p2_geom m' hs g"
  by (simp add: p2_geom_def mapped_def)

lemma p2_mem_keeps:
  assumes pm: "p2_mem m hs g" and k: "keeps (eset (extents hs g)) m m'" and rg: "regions m' = regions m"
  shows "p2_mem m' hs g"
proof -
  have kl: "keeps (eset (live_extents (a_live g))) m m'"
    by (rule keeps_mono [OF k]) (simp add: extents_def)
  have "p2_rings m' hs (a_free g)"
    by (rule p2_rings_keeps [OF p2_memD(2) [OF pm] keeps_mono [OF k]]) (simp add: extents_def)
  moreover have "\<forall>l \<in># a_live g. p2_header m' l"
    using live_facts [OF pm] large_region [OF p2_memD(3) [OF pm]] rg
    by (intro p2_headers_keeps [OF _ kl]) auto
  ultimately show ?thesis
    using geom_regions [OF p2_memD(1) [OF pm] rg] by (simp add: p2_mem_def)
qed

section \<open>Bytes of a raw block\<close>

lemma part_write:
  assumes pp: "p2_part m hs g R" and l: "l \<in># R" and ch: "changes T m m'"
    and T: "T \<subseteq> espan (live_extent l)"
  shows "p2_part m' hs g R"
proof -
  have "keeps (eset (extents hs (without g R))) m m'"
    using raw_apart [OF pp l] T by (intro changes_keeps [OF ch]) blast
  then show ?thesis
    using p2_mem_keeps [OF partD(3) [OF pp]] partD(1,2) [OF pp] geom_regions changes_regions [OF ch]
    by (simp add: p2_part_def)
qed

lemma part_header:
  assumes pp: "p2_part m hs g R" and l: "(h, sz, 0) \<in># R"
  obtains m1 m2 where "set_hdr_size m h sz = Some m1" and "set_hdr_alloc_size m1 h 0 = Some m2"
    and "p2_part m2 hs g (R - {#(h, sz, 0)#})" and "regions m2 = regions m"
proof -
  let ?l = "(h, sz, 0) :: allocation"
  note geom = partD(1) [OF pp]
  have lg: "?l \<in># a_live g" using partD(2) [OF pp] l by (rule mset_subset_eqD)
  have v: "valid_live ?l" using geomD(7) [OF geom lg] .
  have mp: "mapped m h 16" and nw: "unat h + 16 \<le> 2 ^ 64"
    using live_no_wrap [OF geom lg] live_len_ge [OF v] by (auto intro: mapped_sub)
  obtain m1 m2 where m: "set_hdr_size m h sz = Some m1" "set_hdr_alloc_size m1 h 0 = Some m2"
      "changes (span_of h 16) m m2" "load64 m2 h = Some sz" "load64 m2 (h + 8) = Some 0"
    using set_header_spec [OF mp nw] .
  have pp2: "p2_part m2 hs g R"
    by (rule part_write [OF pp l m(3) header_in_extent [OF v]])
  have add: "a_live g - (R - {#?l#}) = add_mset ?l (a_live g - R)"
    by (rule raw_member(1) [OF partD(2) [OF pp] l])
  have sub: "R - {#?l#} \<subseteq># a_live g"
    using partD(2) [OF pp] by (rule subset_mset.order_trans [rotated]) simp
  have "p2_geom m2 hs (without g (R - {#?l#}))"
    by (rule geom_without [OF partD(1) [OF pp2] sub])
  then have "p2_mem m2 hs (without g (R - {#?l#}))"
    using partD(3) [OF pp2] m(4,5) by (auto simp: p2_mem_def add p2_header_def)
  then have "p2_part m2 hs g (R - {#?l#})"
    using partD(1) [OF pp2] sub by (simp add: p2_part_def)
  then show ?thesis using that m(1,2) changes_regions [OF m(3)] by blast
qed

section \<open>Blocks and lists\<close>

lemma part_rem:
  assumes pp: "p2_part m hs g R" and i: "i < 8" and fr: "a_free g ! i = x # xs"
    and idx: "get_freelist_idx sz = int i" and sz: "sz \<noteq> 0" "unat sz \<le> 4080"
  obtains m1 where "ps_list_ll_rem m x = Some m1"
    and "p2_part m1 hs (a_take g i sz) (add_mset (x, sz, 0) R)" and "regions m1 = regions m"
    and "owned (a_take g i sz) = owned g"
proof -
  let ?w = "without g R"
  note geom = partD(1) [OF pp] and pm = partD(3) [OF pp] and g = geomD [OF partD(1) [OF pp]]
  have d: "dll m (hs ! i) ([] @ x # xs)" using p2_memD(2) [OF pm] i fr by (auto simp: p2_rings_def)
  obtain m1 where m1: "ps_list_ll_rem m x = Some m1" "dll m1 (hs ! i) xs"
      "changes (node_bytes (set (hs ! i # x # xs))) m m1"
    using ps_list_ll_rem_spec [OF d] by auto
  have "node_bytes (set (hs ! i # x # xs)) \<subseteq> eset (ring_extents hs i (a_free ?w ! i))"
    using ring_node_bytes [of hs i "x # xs"] fr by simp
  then have "keeps (eset (others hs ?w i)) m m1"
    using ring_others_disjoint(1) [OF p2_memD(1) [OF pm] i] by (intro changes_keeps [OF m1(3)]) blast
  from p2_mem_ring_step [OF pm i this m1(2)] changes_mapped [OF m1(3)] changes_regions [OF m1(3)]
  have step: "p2_rings m1 hs ((a_free g)[i := xs])" "\<forall>l \<in># a_live g - R. p2_header m1 l"
    by simp_all
  have ne: "a_free g ! i \<noteq> []" using fr by simp
  have gt: "p2_geom m1 hs (a_take g i sz)"
    using extents_take [OF i g(2) ne idx] g(2,7) sz fr changes_mapped [OF m1(3)]
    by (intro p2_geom_same [OF geom]) (auto simp: valid_live_def)
  have "without (a_take g i sz) (add_mset (x, sz, 0) R) = (without g R)\<lparr>a_free := (a_free g)[i := xs]\<rparr>"
    by (simp add: without_def a_take_def fr)
  moreover have sub: "add_mset (x, sz, 0) R \<subseteq># a_live (a_take g i sz)"
    using partD(2) [OF pp] fr by simp
  moreover note geom_without [OF gt sub]
  ultimately have "p2_mem m1 hs (without (a_take g i sz) (add_mset (x, sz, 0) R))"
    using step by (simp add: p2_mem_def)
  with sub have "p2_part m1 hs (a_take g i sz) (add_mset (x, sz, 0) R)"
    using gt by (simp add: p2_part_def)
  then show ?thesis
    using that m1(1) changes_regions [OF m1(3)] extents_take(2) [OF i g(2) ne idx] by blast
qed

lemma part_insert:
  assumes pp: "p2_part m hs g R" and i: "i < 8" and l: "(h, sz, 0) \<in># R"
    and idx: "get_freelist_idx sz = int i" and fl: "list_head fl = hs ! i"
  obtains m1 where "p2orderedinsert m h fl = Some m1"
    and "p2_part m1 hs (a_give g i (h, sz, 0)) (R - {#(h, sz, 0)#})" and "regions m1 = regions m"
    and "owned (a_give g i (h, sz, 0)) = owned g"
proof -
  let ?l = "(h, sz, 0) :: allocation" and ?w = "without g R" and ?xs = "a_free g ! i"
  let ?own = "add_mset (live_extent ?l) (ring_extents hs i ?xs)"
  note geom = partD(1) [OF pp] and pm = partD(3) [OF pp] and g = geomD [OF partD(1) [OF pp]]
  have lg: "?l \<in># a_live g" using partD(2) [OF pp] l by (rule mset_subset_eqD)
  have le: "live_extent ?l = (h, block_size i)" using idx by simp
  have nodes: "fst ` set_mset ?own = insert h (set (hs ! i # ?xs))"
    unfolding le by (simp add: ring_nodes del: list.set)
  have own_sub: "?own \<subseteq># extents hs g"
    using extents_bystanders [OF i lg, of hs] by simp
  have dj: "disj ?own" by (rule disj_subset [OF g(3) own_sub])
  have ge: "16 \<le> snd c" if "c \<in># ?own" for c
    using extents_ge16 [OF geom mset_subset_eqD [OF own_sub that]] .
  have "node_ok m (fst ` set_mset ?own)"
    using g(4,5) [OF mset_subset_eqD [OF own_sub]] ge
    by (intro extents_node_ok [OF dj]) (auto intro: less_imp_le)
  then have ok: "node_ok m (insert h (set (hs ! i # ?xs)))" unfolding nodes .
  have "h \<notin> fst ` set_mset (ring_extents hs i ?xs)"
    by (rule disj_new_start [OF dj [unfolded le]]) (use ring_extents_ge16 [of _ hs i ?xs] in force)+
  then have new: "h \<notin> set (hs ! i # ?xs)" unfolding ring_nodes .
  have d: "dll m (hs ! i) ?xs" using p2_memD(2) [OF pm] i by (simp add: p2_rings_def)
  obtain m1 where m1: "p2orderedinsert m h fl = Some m1" "dll m1 (hs ! i) (oinsert h ?xs)"
      "changes (node_bytes (insert h (set (hs ! i # ?xs)))) m m1"
    using p2orderedinsert_spec [of m fl ?xs h] d ok new unfolding fl by blast
  have nb: "node_bytes (insert h (set (hs ! i # ?xs))) \<subseteq> eset ?own"
    using node_bytes_extents [of ?own] ge unfolding nodes by blast
  have "eset ?own \<inter> eset (others hs ?w i) = {}"
    using ring_others_disjoint(1) [OF p2_memD(1) [OF pm] i] raw_apart [OF pp l]
      others_without [OF i, of hs g R] by auto
  then have k: "keeps (eset (others hs ?w i)) m m1"
    using nb by (intro changes_keeps [OF m1(3)]) blast
  from p2_mem_ring_step [OF pm i k m1(2)] changes_mapped [OF m1(3)] changes_regions [OF m1(3)]
  have step: "p2_rings m1 hs ((a_free g)[i := oinsert h ?xs])" "\<forall>l \<in># a_live g - R. p2_header m1 l"
    by simp_all
  have gt: "p2_geom m1 hs (a_give g i ?l)"
    using extents_give [OF i g(2) lg idx] g(2,7) changes_mapped [OF m1(3)]
    by (intro p2_geom_same [OF geom]) (auto dest: in_diffD)
  have sub: "R - {#?l#} \<subseteq># a_live (a_give g i ?l)"
    using raw_member(3) [OF partD(2) [OF pp] l] by simp
  have "p2_mem m1 hs (without (a_give g i ?l) (R - {#?l#}))"
    using geom_without [OF gt sub] step raw_member(2) [OF partD(2) [OF pp] l]
    by (simp add: p2_mem_def)
  then have "p2_part m1 hs (a_give g i ?l) (R - {#?l#})"
    using gt sub by (simp add: p2_part_def)
  then show ?thesis
    using that m1(1) changes_regions [OF m1(3)] extents_give(2) [OF i g(2) lg idx] by blast
qed

section \<open>Memory from and to the operating system\<close>

lemma part_refill:
  assumes pp: "p2_part m hs g R" and i: "i < 8" and fr: "a_free g ! i = []"
    and ok: "mmap_ok os m" and p: "os m PAGE_BYTES = Some p"
    and p2: "pow2 fl = push_bit (i + BASE_SHIFT) 1" and fl: "list_head fl = hs ! i"
  obtains m1 m2 where "os_alloc os m PAGE_BYTES = (p, m1)" and "p \<noteq> NULL"
    and "carve_page m1 fl p = Some m2" and "p2_part m2 hs (a_refill g i p) R"
    and "total (owned (a_refill g i p)) = total (owned g) + 4096"
proof -
  let ?w = "without g R" and ?new = "block_extents (block_size i) (page_blocks p i)"
  note geom = partD(1) [OF pp] and pm = partD(3) [OF pp] and g = geomD [OF partD(1) [OF pp]]
  have frw: "a_free ?w ! i = []" using fr by simp
  obtain m1 m2 where m: "os_alloc os m PAGE_BYTES = (p, m1)" "p \<noteq> NULL" "carve_page m1 fl p = Some m2"
      "p2_mem m2 hs (a_refill ?w i p)" "regions m2 = (p, 4096) # regions m"
    by (rule refill_spec [OF pm i frw ok p p2 fl])
  obtain m1' where m1: "unat p + unat PAGE_BYTES < 2 ^ 64" "maps_fresh m p (unat PAGE_BYTES) m1'"
    using os_alloc_spec [OF ok p] by blast
  have fresh: "eset (extents hs g) \<inter> span_of p 4096 = {}"
    using extents_fresh [OF geom m1(2)] by simp
  have new: "eset ?new = span_of p 4096" "disj ?new"
    using eset_page_blocks [OF i, of p] m1(1) by simp_all
  have mono: "mapped m2 a k" if "mapped m a k" for a k
    using maps_fresh_mono [OF m1(2) that] maps_fresh_regions [OF m1(2)] m(5) by (simp add: mapped_def)
  have gw: "p2_geom m2 hs (a_refill ?w i p)" by (rule p2_memD(1) [OF m(4)])
  have gt: "p2_geom m2 hs (a_refill g i p)"
    unfolding p2_geom_def extents_refill [OF i g(2) fr]
  proof (intro conjI ballI)
    show "disj (extents hs g + ?new)"
      unfolding disj_union_eset using g(3) new fresh by blast
    show "mapped m2 (fst c) (snd c)" if "c \<in># extents hs g + ?new" for c
      using that g(4) mono geomD(4) [OF gw] extents_refill(1) [OF i _ frw] g(2) by auto
    show "unat (fst c) + snd c < 2 ^ 64" if "c \<in># extents hs g + ?new" for c
      using that g(5) geomD(5) [OF gw] extents_refill(1) [OF i _ frw] g(2) by auto
    show "16 dvd unat (fst c)" if "c \<in># owned g + ?new" for c
      using that g(6) [of c] geomD(6) [OF gw, of c] extents_refill(2) [OF i _ frw] g(2)
      by (metis a_ops_simps(8) union_iff without_simps(1))
  qed (use g in simp_all)
  have w: "without (a_refill g i p) R = a_refill ?w i p"
    by (simp add: without_def a_refill_def)
  have "p2_part m2 hs (a_refill g i p) R"
    unfolding p2_part_def w using gt m(4) partD(2) [OF pp] by simp
  moreover have "total (owned (a_refill g i p)) = total (owned g) + 4096"
    using blocks_per_page [OF i] by (simp add: extents_refill(2) [OF i g(2) fr] page_blocks_def)
  ultimately show ?thesis using that m(1-3) by blast
qed

lemma part_map:
  assumes pp: "p2_part m hs g R" and sz: "4080 < unat sz" "unat sz + 16 < 2 ^ 64"
    and al: "al = page_align (16 + sz)" and ok: "mmap_ok os m" and p: "os m al = Some p"
  obtains m1 m2 m3 where "os_alloc os m al = (p, m1)" and "p \<noteq> NULL" and "set_hdr_size m1 p sz = Some m2"
    and "set_hdr_alloc_size m2 p al = Some m3" and "p2_part m3 hs (a_map g (p, sz, al)) R" and "al \<noteq> 0"
proof -
  let ?w = "without g R" and ?l = "(p, sz, al)"
  note geom = partD(1) [OF pp] and pm = partD(3) [OF pp] and g = geomD [OF partD(1) [OF pp]]
  obtain m1 m2 m3 where m: "os_alloc os m al = (p, m1)" "p \<noteq> NULL" "set_hdr_size m1 p sz = Some m2"
      "set_hdr_alloc_size m2 p al = Some m3" "p2_mem m3 hs (a_map ?w ?l)" "valid_live ?l" "al \<noteq> 0"
      "regions m3 = (p, unat al) # regions m"
    by (rule map_spec [OF pm sz al ok p])
  obtain m1' where m1: "unat p + unat al < 2 ^ 64" "maps_fresh m p (unat al) m1'"
    using os_alloc_spec [OF ok p] by blast
  have fresh: "eset (extents hs g) \<inter> span_of p (unat al) = {}" by (rule extents_fresh [OF geom m1(2)])
  have le: "live_extent ?l = (p, unat al)" using m(7) by simp
  have mono: "mapped m3 a k" if "mapped m a k" for a k
    using maps_fresh_mono [OF m1(2) that] maps_fresh_regions [OF m1(2)] m(8) by (simp add: mapped_def)
  have gw: "p2_geom m3 hs (a_map ?w ?l)" by (rule p2_memD(1) [OF m(5)])
  have gt: "p2_geom m3 hs (a_map g ?l)"
    unfolding p2_geom_def extents_map le
  proof (intro conjI ballI)
    show "disj (add_mset (p, unat al) (extents hs g))"
      using g(3) fresh by (auto simp: disj_add_mset_eset simp del: mem_span_of)
    show "mapped m3 (fst c) (snd c)" if "c \<in># add_mset (p, unat al) (extents hs g)" for c
      using that g(4) mono geomD(4) [OF gw, of "(p, unat al)"] le by auto
    show "unat (fst c) + snd c < 2 ^ 64" if "c \<in># add_mset (p, unat al) (extents hs g)" for c
      using that g(5) m1(1) by auto
    show "16 dvd unat (fst c)" if "c \<in># add_mset (p, unat al) (owned g)" for c
      using that g(6) geomD(6) [OF gw, of "(p, unat al)"] le by (cases c) auto
  qed (use g m(6) in auto)
  have w: "without (a_map g ?l) R = a_map ?w ?l"
    using not_raw(1) [OF partD(2) [OF pp]] by (simp add: without_def a_map_def)
  have "R \<subseteq># a_live (a_map g ?l)"
    using partD(2) [OF pp] by (simp add: subset_mset.le_add_same_cancel2 subset_mset.order_trans
        [of R "a_live g" "add_mset ?l (a_live g)"])
  then have "p2_part m3 hs (a_map g ?l) R"
    unfolding p2_part_def w using gt m(5) by simp
  then show ?thesis using that m(1-4,7) by blast
qed

lemma part_unmap:
  assumes pp: "p2_part m hs g R" and l: "(h, sz, al) \<in># a_live g - R" and al: "al \<noteq> 0"
  obtains m1 where "os_free m h al = Some m1" and "p2_part m1 hs (a_unmap g (h, sz, al)) R"
    and "total (owned g) = unat al + total (owned (a_unmap g (h, sz, al)))"
proof -
  let ?w = "without g R" and ?l = "(h, sz, al)"
  note geom = partD(1) [OF pp] and pm = partD(3) [OF pp] and g = geomD [OF partD(1) [OF pp]]
  have lw: "?l \<in># a_live ?w" and lg: "?l \<in># a_live g"
    using l by (auto dest: in_diffD)
  obtain m1 where m: "os_free m h al = Some m1" "p2_mem m1 hs (a_unmap ?w ?l)"
      "regions m1 = remove1 (h, unat al) (regions m)"
    by (rule unmap_spec [OF pm lw al])
  have le: "live_extent ?l = (h, unat al)" using al by simp
  note un = extents_unmap [OF lg, unfolded le]
  have dj: "span_of h (unat al) \<inter> eset (extents hs (a_unmap g ?l)) = {}"
    and dju: "disj (extents hs (a_unmap g ?l))"
    using g(3) unfolding un(1) disj_add_mset_eset by simp_all
  have sub: "R \<subseteq># a_live (a_unmap g ?l)"
    using not_raw(3) [OF partD(2) [OF pp] l] by simp
  have gt: "p2_geom m1 hs (a_unmap g ?l)"
    unfolding p2_geom_def
  proof (intro conjI ballI)
    fix c assume c: "c \<in># extents hs (a_unmap g ?l)"
    then have c': "c \<in># extents hs g" unfolding un(1) by simp
    have "span_of (fst c) (snd c) \<subseteq> eset (extents hs (a_unmap g ?l))" using c by (auto simp: eset_def espan_def)
    then have "mapped (m\<lparr>regions := remove1 (h, unat al) (regions m)\<rparr>) (fst c) (snd c)"
      using g(4) [OF c'] extents_ge16 [OF geom c'] dj by (intro mapped_remove1) auto
    then show "mapped m1 (fst c) (snd c)" using m(3) by (simp add: mapped_def)
    show "unat (fst c) + snd c < 2 ^ 64" by (rule g(5) [OF c'])
  next
    fix c assume "c \<in># owned (a_unmap g ?l)"
    then show "16 dvd unat (fst c)" using g(6) unfolding un(2) by simp
  qed (use g dju in \<open>auto dest: in_diffD\<close>)
  have w: "without (a_unmap g ?l) R = a_unmap ?w ?l"
    by (simp add: without_def a_unmap_def diff_right_commute)
  have "p2_part m1 hs (a_unmap g ?l) R"
    unfolding p2_part_def w using gt sub m(2) by simp
  then show ?thesis using that m(1) un(2) by simp
qed

section \<open>Blocks of the client\<close>

lemma part_payload:
  assumes pp: "p2_part m hs g R" and l: "(h, sz, al) \<in># a_live g - R" and ch: "changes T m m'"
    and T: "T \<subseteq> span_of (h + 16) (unat sz)"
  shows "p2_part m' hs g R"
proof -
  have "(h, sz, al) \<in># a_live (without g R)" using l by simp
  from payload_spec(1) [OF partD(3) [OF pp] this ch T] show ?thesis
    using partD(1,2) [OF pp] geom_regions changes_regions [OF ch] by (simp add: p2_part_def)
qed

lemma part_mark:
  assumes "p2_part m hs g R" and "l \<in># a_live g - R"
  shows "p2_part m hs g (add_mset l R)"
proof -
  have sub: "add_mset l R \<subseteq># a_live g"
    by (rule not_raw(2) [OF partD(2) [OF assms(1)] assms(2)])
  have "l' \<in># a_live g - R" if "l' \<in># a_live g - add_mset l R" for l'
    using that by (metis add_mset_add_single diff_diff_add_mset in_diffD)
  then show ?thesis
    using partD [OF assms(1)] geom_without [OF partD(1) [OF assms(1)] sub] sub
    unfolding p2_part_def p2_mem_def without_simps by blast
qed

lemma part_header_of:
  assumes "p2_part m hs g R" and "(h, sz, al) \<in># a_live g - R"
  shows "load64 m h = Some sz" and "load64 m (h + 8) = Some al" and "valid_live (h, sz, al)"
proof -
  have "p2_header m (h, sz, al)"
    using p2_memD(3) [OF partD(3) [OF assms(1)]] assms(2) by simp
  then show "load64 m h = Some sz" and "load64 m (h + 8) = Some al"
    by (simp_all add: p2_header_def)
  show "valid_live (h, sz, al)"
    using geomD(7) [OF partD(1) [OF assms(1)] in_diffD [OF assms(2)]] .
qed

lemma live_block:
  assumes "p2_part m hs g R" and "(h, sz, al) \<in># a_live g - R"
  shows "hdr_size m h = Some sz" and "16 dvd unat (h + 16)" and "mapped m (h + 16) (unat sz)"
    and "unat (h + 16) + unat sz < 2 ^ 64" and "span_of h (unat sz + 16) \<subseteq> espan (live_extent (h, sz, al))"
proof -
  note geom = partD(1) [OF assms(1)] and l = in_diffD [OF assms(2)] and hd = part_header_of [OF assms]
  have nw: "unat h + live_len sz al < 2 ^ 64" "mapped m h (live_len sz al)"
    using live_no_wrap [OF geom l] by simp_all
  note hp = header_payload [OF hd(3) nw(1)]
  show "hdr_size m h = Some sz" using hd(1) by (simp add: hdr_size_def)
  have "(h, live_len sz al) \<in># owned g"
    using l by (force simp: owned_def live_extents_def)
  then show "16 dvd unat (h + 16)" using geomD(6) [OF geom] hp(1) by force
  show "unat (h + 16) + unat sz < 2 ^ 64" by (rule hp(4))
  show "span_of h (unat sz + 16) \<subseteq> espan (live_extent (h, sz, al))"
    using live_len_ge [OF hd(3)] by (simp add: span_of_mono)
  show "mapped m (h + 16) (unat sz)"
    using live_len_ge [OF hd(3)] hp(1) by (intro mapped_sub [OF nw(2)]) simp_all
qed

lemma part_zero:
  assumes pp: "p2_part m hs g R" and l: "(h, sz, al) \<in># a_live g - R"
  obtains m' where "memset m (h + 16) v (unat sz) = Some m'" and "p2_part m' hs g R"
proof -
  note b = live_block [OF pp l]
  obtain m' where "memset m (h + 16) v (unat sz) = Some m'" "changes (span_of (h + 16) (unat sz)) m m'"
    using memset_spec [OF b(3)] b(4) by (metis less_imp_le)
  then show ?thesis using that part_payload [OF pp l] by blast
qed

text \<open>The common prefix of two blocks is copied.\<close>

lemma part_pair_disjoint:
  assumes "p2_part m hs g R" and "{#l, l'#} \<subseteq># a_live g"
  shows "espan (live_extent l) \<inter> espan (live_extent l') = {}"
proof (rule disj_pair [OF geomD(3) [OF partD(1) [OF assms(1)]]])
  have "image_mset live_extent {#l, l'#} \<subseteq># live_extents (a_live g)"
    unfolding live_extents_def by (rule image_mset_subseteq_mono [OF assms(2)])
  then show "{#live_extent l, live_extent l'#} \<subseteq># extents hs g"
    by (simp add: extents_def subset_mset.add_increasing)
qed

lemma part_copy:
  assumes pp: "p2_part m hs g R" and l: "(h', sz, al') \<in># a_live g - R" "(h, old, al) \<in># a_live g - R"
    and two: "{#(h', sz, al'), (h, old, al)#} \<subseteq># a_live g"
  obtains m' where "memcpy m (h' + 16) (h + 16) (unat (if old < sz then old else sz)) = Some m'"
    and "p2_part m' hs g R"
proof -
  let ?n = "unat (if old < sz then old else sz)"
  have n: "?n \<le> unat sz" "?n \<le> unat old" by (auto simp: word_less_nat_alt)
  note new = live_block [OF pp l(1)] and prev = live_block [OF pp l(2)]
  have pay: "span_of (h + 16) (unat s) \<subseteq> span_of h (unat s + 16)" if "unat (h + 16) + unat s < 2 ^ 64"
    "unat h + 16 < 2 ^ 64" for h s :: u64
    using unat_add_num [of h 16] that by auto
  have "unat h + 16 < 2 ^ 64" "unat h' + 16 < 2 ^ 64"
    using live_no_wrap(1) [OF partD(1) [OF pp] in_diffD [OF l(1)]] live_no_wrap(1) [OF partD(1) [OF pp] in_diffD [OF l(2)]]
      live_len_ge [OF part_header_of(3) [OF pp l(1)]] live_len_ge [OF part_header_of(3) [OF pp l(2)]] by simp_all
  then have "span_of (h' + 16) (unat sz) \<inter> span_of (h + 16) (unat old) = {}"
    using pay [OF new(4)] pay [OF prev(4)] new(5) prev(5) part_pair_disjoint [OF pp two] by blast
  moreover have sub: "span_of (h' + 16) ?n \<subseteq> span_of (h' + 16) (unat sz)" "span_of (h + 16) ?n \<subseteq> span_of (h + 16) (unat old)"
    using n by (intro span_of_mono; simp)+
  ultimately have "span_of (h' + 16) ?n \<inter> span_of (h + 16) ?n = {}" by blast
  moreover have "mapped m (h' + 16) ?n" "mapped m (h + 16) ?n" "unat (h' + 16) + ?n \<le> 2 ^ 64"
    using new(3,4) prev(3) n by (auto elim: mapped_sub)
  ultimately obtain m' where "memcpy m (h' + 16) (h + 16) ?n = Some m'" "changes (span_of (h' + 16) ?n) m m'"
    using memcpy_spec by blast
  then show ?thesis using that part_payload [OF pp l(1) _ sub(1)] by blast
qed

text \<open>The size of a slab block changes within its class.\<close>

lemma part_resize:
  assumes pp: "p2_part m hs g R" and l: "(h, old, 0) \<in># a_live g - R"
    and idx: "get_freelist_idx sz = get_freelist_idx old" and sz: "sz \<noteq> 0" "unat sz \<le> 4080"
  obtains m1 where "set_hdr_size m h sz = Some m1" and "p2_part m1 hs (a_resize g h old sz) R"
    and "owned (a_resize g h old sz) = owned g"
proof -
  have lg: "(h, old, 0) \<in># a_live g" and lw: "(h, old, 0) \<in># a_live (without g R)"
    using l in_diffD by simp_all
  obtain m1 where m1: "set_hdr_size m h sz = Some m1" "changes (span_of h 8) m m1"
      "p2_mem m1 hs (a_resize (without g R) h old sz)"
    by (rule resize_spec [OF partD(3) [OF pp] lw idx sz])
  have sub: "R \<subseteq># a_live g - {#(h, old, 0)#}" by (rule not_raw(3) [OF partD(2) [OF pp] l])
  then have "add_mset (h, sz, 0) (a_live g - {#(h, old, 0)#}) - R
      = add_mset (h, sz, 0) (a_live g - R - {#(h, old, 0)#})"
    by (simp add: not_raw(1) [OF sub] diff_right_commute)
  then have "without (a_resize g h old sz) R = a_resize (without g R) h old sz"
    by (simp add: without_def a_resize_def a_map_def a_unmap_def)
  moreover have "R \<subseteq># a_live (a_resize g h old sz)"
    using subset_mset.order_trans [OF sub mset_subset_eq_add_right [of _ "{#(h, sz, 0)#}"]]
    by (simp add: a_resize_def)
  moreover have "p2_geom m1 hs g" by (rule geom_regions [OF partD(1) [OF pp] changes_regions [OF m1(2)]])
  then have "p2_geom m1 hs (a_resize g h old sz)" by (rule resize_geom [OF _ lg idx sz])
  ultimately have "p2_part m1 hs (a_resize g h old sz) R" using m1(3) by (simp add: p2_part_def)
  then show ?thesis using that m1(1) resize_same(2) [OF lg idx] by blast
qed

end
