(* ===== verification/P2_Threads_Inv.thy ===== *)
theory P2_Threads_Inv
  imports P2_Threads P2_Part
begin

text \<open>
  The invariant of the threads.  The bytes of the heap are divided between the free lists, the
  blocks the program holds and the blocks a thread is holding on its way through the allocator;
  a lock is held exactly when one thread is between its lock and its unlock operation; what the
  counters lack or have too much is what the threads on their way have still to add or have
  already subtracted.  Since only their number matters, the threads are a multiset here.  This
  theory has the steps of functions that call no other (\<open>basic\<close>); \<open>P2_Threads_Calls\<close> has the rest.
\<close>

section \<open>What a thread holds\<close>

fun blk :: "pc \<Rightarrow> allocation multiset" where
  "blk (M_LCount sz h al) = {#(h, sz, al)#}"
| "blk (M_LTotal sz h al) = {#(h, sz, al)#}"
| "blk (M_Unlock sz i h) = {#(h, sz, 0)#}"
| "blk (M_Header sz h) = {#(h, sz, 0)#}"
| "blk (F_LTotal h sz al) = {#(h, sz, al)#}"
| "blk (F_Unmap h sz al) = {#(h, sz, al)#}"
| "blk (F_Lock h sz i) = {#(h, sz, 0)#}"
| "blk (F_Insert h sz i) = {#(h, sz, 0)#}"
| "blk (R_Add h old sz) = {#(h, old, 0)#}"
| "blk (R_Size h old sz) = {#(h, old, 0)#}"
| "blk (R_Malloc h old al sz pc) = {#(h, old, al)#}"
| "blk _ = {#}"

fun raw :: "pc \<Rightarrow> allocation multiset" where
  "raw (M_Unlock sz i h) = {#(h, sz, 0)#}"
| "raw (M_Header sz h) = {#(h, sz, 0)#}"
| "raw (F_Lock h sz i) = {#(h, sz, 0)#}"
| "raw (F_Insert h sz i) = {#(h, sz, 0)#}"
| "raw _ = {#}"

text \<open>What is in \<open>allocated\<close> already, and what is not in \<open>totmem\<close>.\<close>

fun counted :: "pc \<Rightarrow> nat" where
  "counted (M_LTotal sz h al) = unat sz"
| "counted (R_Size h old sz) = unat sz"
| "counted (R_Malloc h old al sz pc) = unat old"
| "counted _ = 0"

fun uncounted :: "pc \<Rightarrow> nat" where
  "uncounted (M_LCount sz h al) = unat al"
| "uncounted (M_LTotal sz h al) = unat al"
| "uncounted (F_Unmap h sz al) = unat al"
| "uncounted _ = 0"

fun passed :: "pc \<Rightarrow> addr multiset" where
  "passed (F_Start p) = (if p = NULL then {#} else {#p#})"
| "passed (R_Start p sz) = (if p = NULL then {#} else {#p#})"
| "passed (R_Free p pc) = {#p#}"
| "passed _ = {#}"

definition slab_request :: "u64 \<Rightarrow> nat \<Rightarrow> bool" where
  "slab_request sz i \<longleftrightarrow> i < 8 \<and> get_freelist_idx sz = int i \<and> sz \<noteq> 0 \<and> unat sz \<le> 4080"

definition request :: "u64 \<Rightarrow> bool" where
  "request sz \<longleftrightarrow> sz \<noteq> 0 \<and> unat sz + 16 < 2 ^ 64"

fun pc_ok :: "astate \<Rightarrow> pc \<Rightarrow> bool" where
  "pc_ok g (M_Init sz) \<longleftrightarrow> False"
| "pc_ok g (M_Ready sz) \<longleftrightarrow> False"
| "pc_ok g (M_Spin sz) \<longleftrightarrow> request sz"
| "pc_ok g (M_Large sz) \<longleftrightarrow> request sz \<and> 4080 < unat sz"
| "pc_ok g (M_LCount sz h al) \<longleftrightarrow> al \<noteq> 0"
| "pc_ok g (M_LTotal sz h al) \<longleftrightarrow> al \<noteq> 0"
| "pc_ok g (M_Lock sz i) \<longleftrightarrow> slab_request sz i"
| "pc_ok g (M_Refill sz i) \<longleftrightarrow> slab_request sz i"
| "pc_ok g (M_Take sz i) \<longleftrightarrow> slab_request sz i \<and> a_free g ! i \<noteq> []"
| "pc_ok g (M_Fail i) \<longleftrightarrow> i < 8"
| "pc_ok g (M_Unlock sz i h) \<longleftrightarrow> i < 8"
| "pc_ok g (F_LTotal h sz al) \<longleftrightarrow> al \<noteq> 0"
| "pc_ok g (F_Unmap h sz al) \<longleftrightarrow> al \<noteq> 0"
| "pc_ok g (F_Lock h sz i) \<longleftrightarrow> i < 8 \<and> get_freelist_idx sz = int i"
| "pc_ok g (F_Insert h sz i) \<longleftrightarrow> i < 8 \<and> get_freelist_idx sz = int i"
| "pc_ok g (F_Unlock i) \<longleftrightarrow> i < 8"
| "pc_ok g (R_Start p sz) \<longleftrightarrow> p = NULL \<or> unat sz + 16 < 2 ^ 64"
| "pc_ok g (R_Add h old sz) \<longleftrightarrow> get_freelist_idx sz = get_freelist_idx old \<and> sz \<noteq> 0 \<and> unat sz \<le> 4080"
| "pc_ok g (R_Size h old sz) \<longleftrightarrow> get_freelist_idx sz = get_freelist_idx old \<and> sz \<noteq> 0 \<and> unat sz \<le> 4080"
| "pc_ok g _ \<longleftrightarrow> True"

lemma pc_ok_frame:
  "pc_ok g pc \<Longrightarrow> (\<And>j. in_section j pc \<Longrightarrow> a_free g' ! j = a_free g ! j) \<Longrightarrow> pc_ok g' pc"
  by (cases pc) auto

abbreviation all_of :: "('a \<Rightarrow> 'b :: comm_monoid_add) \<Rightarrow> 'a multiset \<Rightarrow> 'b" where
  "all_of f P \<equiv> sum_mset (image_mset f P)"

section \<open>The invariant\<close>

definition holders :: "nat \<Rightarrow> pc multiset \<Rightarrow> nat" where
  "holders i P = size (filter_mset (in_section i) P)"

lemma holders_add [simp]: "holders i (add_mset pc P) = of_bool (in_section i pc) + holders i P"
  by (simp add: holders_def)

lemma holders_0: "holders i P = 0 \<Longrightarrow> pc \<in># P \<Longrightarrow> \<not> in_section i pc"
  by (auto simp: holders_def filter_mset_eq_mempty_iff)

definition sections :: "p2freelist_head list \<Rightarrow> pc multiset \<Rightarrow> bool" where
  "sections fls P \<longleftrightarrow> length fls = 8 \<and> (\<forall>i < 8. pow2 (fls ! i) = push_bit (i + BASE_SHIFT) 1
     \<and> lock (fls ! i) = (if holders i P = 0 then Unlocked else Locked) \<and> holders i P \<le> 1)"

definition ready :: "p2state \<Rightarrow> pc multiset \<Rightarrow> addr multiset \<Rightarrow> astate \<Rightarrow> allocation multiset \<Rightarrow> bool" where
  "ready st P H g L \<longleftrightarrow> init_state st = 2 \<and> sections (freelists st) P
     \<and> a_live g = L + all_of blk P
     \<and> image_mset (\<lambda>l. fst l + 16) L = H + all_of passed P
     \<and> p2_part (mem st) (heads st) g (all_of raw P)
     \<and> allocated st = of_nat (requested L + all_of counted P)
     \<and> totmem st + of_nat (all_of uncounted P) = of_nat (total (owned g))
     \<and> (\<forall>pc \<in># P. pc_ok g pc)"

fun outside :: "pc \<Rightarrow> bool" where
  "outside Idle \<longleftrightarrow> True"
| "outside (M_Start sz) \<longleftrightarrow> True"
| "outside (F_Start p) \<longleftrightarrow> p = NULL"
| "outside (C_Start nmemb sz) \<longleftrightarrow> True"
| "outside (R_Start p sz) \<longleftrightarrow> p = NULL"
| "outside _ \<longleftrightarrow> False"

fun waiting :: "pc \<Rightarrow> bool" where
  "waiting (M_Spin sz) \<longleftrightarrow> request sz"
| "waiting pc \<longleftrightarrow> outside pc"

definition early :: "p2state \<Rightarrow> pc multiset \<Rightarrow> addr multiset \<Rightarrow> bool" where
  "early st P H \<longleftrightarrow> p2_boot st \<and> H = {#} \<and> (\<forall>pc \<in># P. outside pc)"

text \<open>One thread initialises; the others are outside or spin.\<close>

definition initing :: "p2state \<Rightarrow> pc multiset \<Rightarrow> addr multiset \<Rightarrow> bool" where
  "initing st P H \<longleftrightarrow> init_state st = 1 \<and> H = {#}
     \<and> (\<exists>sz pc P'. P = add_mset pc P' \<and> (\<forall>pc \<in># P'. waiting pc) \<and> request sz
        \<and> (pc = M_Init sz \<and> p2_boot (st\<lparr>init_state := 0\<rparr>)
           \<or> pc = M_Ready sz \<and> p2_rel (st\<lparr>init_state := 2\<rparr>) a_empty))"

definition threads_inv :: "p2state \<Rightarrow> pc multiset \<Rightarrow> addr multiset \<Rightarrow> bool" where
  "threads_inv st P H \<longleftrightarrow> early st P H \<or> initing st P H \<or> (\<exists>g L. ready st P H g L)"

text \<open>Inside a function that has called no other and is not about to.\<close>

fun basic :: "pc \<Rightarrow> bool" where
  "basic (C_Start nmemb sz) \<longleftrightarrow> False"
| "basic (C_Malloc n pc) \<longleftrightarrow> False"
| "basic (R_Start p sz) \<longleftrightarrow> False"
| "basic (R_Malloc h old al sz pc) \<longleftrightarrow> False"
| "basic (R_Free p pc) \<longleftrightarrow> False"
| "basic _ \<longleftrightarrow> True"

text \<open>A step that is defined and keeps the invariant.\<close>

definition keeps_inv :: "pc multiset \<Rightarrow> addr multiset \<Rightarrow> step \<Rightarrow> bool" where
  "keeps_inv P H r = (case r of Undef \<Rightarrow> False | Blocked \<Rightarrow> True
     | Goes st pc \<Rightarrow> threads_inv st (add_mset pc P) H
     | Gives st p \<Rightarrow> threads_inv st (add_mset Idle P) (add_mset p H))"

lemma attempt_simps [simp]: "attempt (Some x) k = k x" "attempt None k = Undef"
  by (simp_all add: attempt_def)

lemma keeps_inv_simps [simp]:
  "keeps_inv P H Blocked" "\<not> keeps_inv P H Undef"
  "keeps_inv P H (Goes st pc) = threads_inv st (add_mset pc P) H"
  "keeps_inv P H (Gives st p) = threads_inv st (add_mset Idle P) (add_mset p H)"
  by (simp_all add: keeps_inv_def)

lemma ready_inv: "ready st P H g L \<Longrightarrow> threads_inv st P H"
  by (auto simp: threads_inv_def)

lemma readyD:
  assumes "ready st P H g L"
  shows "init_state st = 2" and "sections (freelists st) P" and "a_live g = L + all_of blk P"
    and "image_mset (\<lambda>l. fst l + 16) L = H + all_of passed P"
    and "p2_part (mem st) (heads st) g (all_of raw P)"
    and "allocated st = of_nat (requested L + all_of counted P)"
    and "totmem st + of_nat (all_of uncounted P) = of_nat (total (owned g))"
    and "pc \<in># P \<Longrightarrow> pc_ok g pc"
  using assms unfolding ready_def by blast+

section \<open>Locks\<close>

lemma sectionsD:
  assumes "sections (freelists st) P" and "i < 8"
  shows "fl_at st i = Some (freelists st ! i)" and "list_head (freelists st ! i) = heads st ! i"
    and "pow2 (freelists st ! i) = push_bit (i + BASE_SHIFT) 1" and "i < length (freelists st)"
    and "lock (freelists st ! i) = (if holders i P = 0 then Unlocked else Locked)"
  using assms by (auto simp: sections_def fl_at_def heads_nth)

text \<open>A step that takes or keeps no lock.\<close>

lemma sections_same:
  "sections fls (add_mset pc P) \<Longrightarrow> (\<And>i. in_section i pc' = in_section i pc) \<Longrightarrow> sections fls (add_mset pc' P)"
  by (simp add: sections_def)

lemma heads_set_fl:
  "i < length (freelists st) \<Longrightarrow> list_head fl = heads st ! i \<Longrightarrow> heads (set_fl st i fl) = heads st"
  by (auto simp: heads_def set_fl_def map_update list_update_same_conv nth_list_update intro!: nth_equalityI)

lemma section_alone:
  assumes "sections fls (add_mset pc P)" and "in_section i pc" and "i < 8" and "pc' \<in># P"
  shows "\<not> in_section i pc'"
proof -
  have "holders i P = 0"
    using assms(1-3) by (auto simp: sections_def)
  then show ?thesis using assms(4) by (rule holders_0)
qed

lemma sections_lock:
  assumes "sections fls (add_mset pc P)" and "\<And>j. \<not> in_section j pc" and "i < 8"
    and "lock (fls ! i) \<noteq> Locked" and "\<And>j. in_section j pc' \<longleftrightarrow> j = i"
  shows "sections (fls[i := (fls ! i)\<lparr>lock := Locked\<rparr>]) (add_mset pc' P)"
  using assms by (auto simp: sections_def nth_list_update split: if_splits)

lemma sections_unlock:
  assumes "sections fls (add_mset pc P)" and "\<And>j. in_section j pc \<longleftrightarrow> j = i" and "i < 8"
    and "\<And>j. \<not> in_section j pc'"
  shows "lock (fls ! i) = Locked" and "sections (fls[i := (fls ! i)\<lparr>lock := Unlocked\<rparr>]) (add_mset pc' P)"
  using assms by (auto simp: sections_def nth_list_update split: if_splits)

section \<open>Steps once the lists are ready\<close>

lemma raw_blk: "all_of raw P \<subseteq># all_of blk P"
proof (induction P)
  case (add pc P)
  have "raw pc \<subseteq># blk pc" by (cases pc) auto
  then show ?case using add by (simp add: subset_mset.add_mono)
qed simp

lemma raw_rest:
  assumes "A = B + all_of blk P" and "l \<in># B"
  shows "l \<in># A - all_of raw P"
proof -
  obtain C where "all_of blk P = all_of raw P + C"
    using raw_blk [of P] by (metis subset_mset.add_diff_inverse)
  then have "A - all_of raw P = B + C" by (simp add: assms(1))
  then show ?thesis using assms(2) by simp
qed

text \<open>A step that only moves the thread on.\<close>

lemma ready_goes:
  assumes "ready st (add_mset pc P) H g L" and "\<And>i. in_section i pc' = in_section i pc"
    and "blk pc' = blk pc" "raw pc' = raw pc" "counted pc' = counted pc"
      "uncounted pc' = uncounted pc" "passed pc' = passed pc"
    and "pc_ok g pc'"
  shows "ready st (add_mset pc' P) H g L"
  using assms sections_same [of "freelists st" pc P pc'] by (simp add: ready_def)

lemma ready_lock:
  assumes r: "ready st (add_mset pc P) H g L" and i: "i < 8" and pc: "\<And>j. \<not> in_section j pc"
    and pc': "\<And>j. in_section j pc' \<longleftrightarrow> j = i"
    and same: "blk pc' = blk pc" "raw pc' = raw pc" "counted pc' = counted pc"
      "uncounted pc' = uncounted pc" "passed pc' = passed pc"
    and ok: "pc_ok g pc'"
  shows "keeps_inv P H (lock_list i st pc')"
proof (cases "lock (freelists st ! i) = Locked")
  case True
  then show ?thesis using sectionsD(1) [OF readyD(2) [OF r] i] by (simp add: lock_list_def)
next
  case False
  note s = sectionsD [OF readyD(2) [OF r] i]
  let ?fl = "(freelists st ! i)\<lparr>lock := Locked\<rparr>"
  have "lock (freelists st ! i) = Unlocked" using False s(5) by (simp split: if_splits)
  then have step: "lock_list i st pc' = Goes (set_fl st i ?fl) pc'"
    using s(1) by (simp add: lock_list_def MUTEX_LOCK_def)
  have "heads (set_fl st i ?fl) = heads st" using s(2,4) by (intro heads_set_fl) simp_all
  moreover have "sections (freelists (set_fl st i ?fl)) (add_mset pc' P)"
    unfolding set_fl_def using sections_lock [OF readyD(2) [OF r] pc i False pc'] by simp
  ultimately have "ready (set_fl st i ?fl) (add_mset pc' P) H g L"
    using r same ok by (simp add: ready_def)
  then show ?thesis by (simp add: step ready_inv)
qed

lemma ready_unlock:
  assumes r: "ready st (add_mset pc P) H g L" and i: "i < 8" and pc: "\<And>j. in_section j pc \<longleftrightarrow> j = i"
    and pc': "\<And>j. \<not> in_section j pc'"
    and same: "blk pc' = blk pc" "raw pc' = raw pc" "counted pc' = counted pc"
      "uncounted pc' = uncounted pc" "passed pc' = passed pc"
    and ok: "pc_ok g pc'"
  shows "keeps_inv P H (unlock_list i st pc')"
proof -
  note s = sectionsD [OF readyD(2) [OF r] i]
  let ?fl = "(freelists st ! i)\<lparr>lock := Unlocked\<rparr>"
  note u = sections_unlock [OF readyD(2) [OF r] pc i pc']
  have step: "unlock_list i st pc' = Goes (set_fl st i ?fl) pc'"
    using s(1) u(1) by (simp add: unlock_list_def MUTEX_UNLOCK_def)
  have "heads (set_fl st i ?fl) = heads st" using s(2,4) by (intro heads_set_fl) simp_all
  moreover have "sections (freelists (set_fl st i ?fl)) (add_mset pc' P)"
    unfolding set_fl_def using u(2) by simp
  ultimately have "ready (set_fl st i ?fl) (add_mset pc' P) H g L"
    using r same ok by (simp add: ready_def)
  then show ?thesis by (simp add: step ready_inv)
qed

lemma dispatch_ok:
  assumes "request sz"
  obtains "dispatch sz = M_Large sz" and "4080 < unat sz"
  | i where "dispatch sz = M_Lock sz i" and "slab_request sz i"
proof (cases "4080 < unat sz")
  case True
  then show ?thesis using that(1) idx_large [of sz] assms by (simp add: dispatch_def request_def)
next
  case False
  then obtain i where "get_freelist_idx sz = int i" "i < 8" using idx_slab [of sz] by auto
  then show ?thesis using that(2) [of i] False assms
    by (simp add: dispatch_def request_def slab_request_def)
qed

lemma ready_dispatch:
  assumes r: "ready st (add_mset (M_Spin sz) P) H g L"
  shows "ready st (add_mset (dispatch sz) P) H g L"
proof -
  have rq: "request sz" using readyD(8) [OF r, of "M_Spin sz"] by simp
  show ?thesis
    by (rule dispatch_ok [OF rq]; rule ready_goes [OF r]) (use rq in simp_all)
qed

lemma nth_update_other: "xs[i := x] ! j = xs ! j \<or> j = i"
  by (cases "j = i") simp_all

text \<open>A change of the state and of the abstract state that the threads outside do not see.\<close>

lemma ready_step:
  assumes r: "ready st (add_mset pc P) H g L"
    and st': "init_state st' = 2" "freelists st' = freelists st"
    and sec: "\<And>i. in_section i pc' = in_section i pc"
    and live: "a_live g' = L' + blk pc' + all_of blk P"
    and ptr: "image_mset (\<lambda>l. fst l + 16) L' = H' + passed pc' + all_of passed P"
    and mem: "p2_part (mem st') (heads st) g' (raw pc' + all_of raw P)"
    and cnt: "allocated st' = of_nat (requested L' + counted pc' + all_of counted P)"
    and tot: "totmem st' + of_nat (uncounted pc' + all_of uncounted P) = of_nat (total (owned g'))"
    and free: "\<And>j. a_free g' ! j = a_free g ! j \<or> in_section j pc \<and> j < 8"
    and ok: "pc_ok g' pc'"
  shows "ready st' (add_mset pc' P) H' g' L'"
proof -
  have "pc_ok g' q" if "q \<in># P" for q
  proof (rule pc_ok_frame)
    show "pc_ok g q" using readyD(8) [OF r] that by simp
    show "a_free g' ! j = a_free g ! j" if "in_section j q" for j
      using free [of j] section_alone [OF readyD(2) [OF r] _ _ \<open>q \<in># P\<close>, of j] that by blast
  qed
  moreover have "heads st' = heads st" by (simp add: heads_def st'(2))
  ultimately show ?thesis
    using assms sections_same [OF readyD(2) [OF r] sec] by (simp add: ready_def add.assoc)
qed

lemma ready_large:
  assumes r: "ready st (add_mset (M_Large sz) P) H g L" and ok: "kernel_ok os"
  shows "keeps_inv P H (map_large os sz st)"
proof -
  define al where "al = page_align (16 + sz)"
  note d = readyD [OF r]
  have sz: "4080 < unat sz" "unat sz + 16 < 2 ^ 64"
    using d(8) [of "M_Large sz"] by (simp_all add: request_def)
  have mo: "mmap_ok os (mem st)" using ok by (simp add: kernel_ok_def)
  have pp: "p2_part (mem st) (heads st) g (all_of raw P)" using d(5) by simp
  show ?thesis
  proof (cases "os (mem st) al")
    case None
    then have "map_large os sz st = Goes st Idle"
      by (simp add: map_large_def os_alloc_def al_def)
    moreover have "ready st (add_mset Idle P) H g L" by (rule ready_goes [OF r]) simp_all
    ultimately show ?thesis by (simp add: ready_inv)
  next
    case (Some p)
    obtain m1 m2 m3 where m: "os_alloc os (mem st) al = (p, m1)" "p \<noteq> NULL"
        "set_hdr_size m1 p sz = Some m2" "set_hdr_alloc_size m2 p al = Some m3"
        "p2_part m3 (heads st) (a_map g (p, sz, al)) (all_of raw P)" "al \<noteq> 0"
      by (rule part_map [OF pp sz al_def mo Some])
    have step: "map_large os sz st = Goes (st\<lparr>mem := m3\<rparr>) (M_LCount sz p al)"
      using m(1-4) by (simp add: map_large_def al_def)
    have "ready (st\<lparr>mem := m3\<rparr>) (add_mset (M_LCount sz p al) P) H (a_map g (p, sz, al)) L"
    proof (rule ready_step [OF r])
      show "totmem (st\<lparr>mem := m3\<rparr>) + of_nat (uncounted (M_LCount sz p al) + all_of uncounted P)
          = of_nat (total (owned (a_map g (p, sz, al))))"
        using d(7) a_map_counts(2) [OF m(6), of g p sz] by (simp add: algebra_simps)
    qed (use d m(5,6) in simp_all)
    then show ?thesis by (simp add: step ready_inv)
  qed
qed

lemma ready_refill:
  assumes r: "ready st (add_mset (M_Refill sz i) P) H g L" and ok: "kernel_ok os"
  shows "keeps_inv P H (thread_step os (M_Refill sz i) st)"
proof -
  note d = readyD [OF r]
  have sl: "slab_request sz i" using d(8) [of "M_Refill sz i"] by simp
  then have i: "i < 8" by (simp add: slab_request_def)
  note s = sectionsD [OF d(2) i]
  have mo: "mmap_ok os (mem st)" using ok by (simp add: kernel_ok_def)
  have pp: "p2_part (mem st) (heads st) g (all_of raw P)" using d(5) by simp
  have e: "ps_list_head_empty (mem st) (heads st ! i) = Some (a_free g ! i = [])"
    using rel_ring(1) [OF partD(3) [OF pp] i] by simp
  show ?thesis
  proof (cases "a_free g ! i = []")
    case False
    then have "thread_step os (M_Refill sz i) st = Goes st (M_Take sz i)"
      using s(1,2) e by (simp add: p2malloc_refill_def)
    moreover have "ready st (add_mset (M_Take sz i) P) H g L"
      by (rule ready_goes [OF r]) (use False sl in simp_all)
    ultimately show ?thesis by (simp add: ready_inv)
  next
    case True
    show ?thesis
    proof (cases "os (mem st) PAGE_BYTES")
      case None
      then have "thread_step os (M_Refill sz i) st = Goes st (M_Fail i)"
        using s(1,2) e True by (simp add: p2malloc_refill_def os_alloc_def)
      moreover have "ready st (add_mset (M_Fail i) P) H g L"
        by (rule ready_goes [OF r]) (use i in simp_all)
      ultimately show ?thesis by (simp add: ready_inv)
    next
      case (Some p)
      obtain m1 m2 where m: "os_alloc os (mem st) PAGE_BYTES = (p, m1)" "p \<noteq> NULL"
          "carve_page m1 (freelists st ! i) p = Some m2"
          "p2_part m2 (heads st) (a_refill g i p) (all_of raw P)"
          "total (owned (a_refill g i p)) = total (owned g) + 4096"
        by (rule part_refill [OF pp i True mo Some s(3,2)])
      let ?st = "st\<lparr>mem := m2, totmem := totmem st + 4096\<rparr>"
      have step: "thread_step os (M_Refill sz i) st = Goes ?st (M_Take sz i)"
        using s(1,2) e True m(1-3) by (simp add: p2malloc_refill_def)
      have "length (a_free g) = 8" by (rule geomD(2) [OF partD(1) [OF pp]])
      moreover have "page_blocks p i \<noteq> []"
        using blocks_per_page [OF i] by (cases "4096 div block_size i") (auto simp: page_blocks_def)
      ultimately have "a_free (a_refill g i p) ! i \<noteq> []" using i by simp
      then have "ready ?st (add_mset (M_Take sz i) P) H (a_refill g i p) L"
        by (intro ready_step [OF r])
          (use d m(4,5) sl i nth_update_other [of "a_free g" i] in \<open>auto simp: algebra_simps\<close>)
      then show ?thesis unfolding step by (simp add: ready_inv)
    qed
  qed
qed

lemma ready_take:
  assumes r: "ready st (add_mset (M_Take sz i) P) H g L"
  shows "keeps_inv P H (take_block sz i st)"
proof -
  note d = readyD [OF r]
  have sl: "slab_request sz i" and ne: "a_free g ! i \<noteq> []" using d(8) [of "M_Take sz i"] by simp_all
  then have i: "i < 8" and idx: "get_freelist_idx sz = int i" and sz: "sz \<noteq> 0" "unat sz \<le> 4080"
    by (simp_all add: slab_request_def)
  note s = sectionsD [OF d(2) i]
  have pp: "p2_part (mem st) (heads st) g (all_of raw P)" using d(5) by simp
  obtain x xs where fr: "a_free g ! i = x # xs" using ne by (cases "a_free g ! i") auto
  obtain m1 where m: "ps_list_ll_rem (mem st) x = Some m1"
      "p2_part m1 (heads st) (a_take g i sz) (add_mset (x, sz, 0) (all_of raw P))"
      "owned (a_take g i sz) = owned g"
    using part_rem [OF pp i fr idx sz] by blast
  have "ps_list_next_field (mem st) (heads st ! i) = Some x"
    using rel_ring(2) [OF partD(3) [OF pp] i] fr by simp
  then have step: "take_block sz i st = Goes (st\<lparr>mem := m1\<rparr>) (M_Unlock sz i x)"
    using s(1,2) m(1) by (simp add: take_block_def)
  have "ready (st\<lparr>mem := m1\<rparr>) (add_mset (M_Unlock sz i x) P) H (a_take g i sz) L"
    by (rule ready_step [OF r]) (use d m(2,3) fr i nth_update_other [of "a_free g" i] in auto)
  then show ?thesis by (simp add: step ready_inv)
qed

lemma ready_header:
  assumes r: "ready st (add_mset (M_Header sz h) P) H g L"
  shows "keeps_inv P H (write_header sz h st)"
proof -
  note d = readyD [OF r]
  have raw: "(h, sz, 0) \<in># add_mset (h, sz, 0) (all_of raw P)" by simp
  have pp: "p2_part (mem st) (heads st) g (add_mset (h, sz, 0) (all_of raw P))" using d(5) by simp
  obtain m1 m2 where m: "set_hdr_size (mem st) h sz = Some m1" "set_hdr_alloc_size m1 h 0 = Some m2"
      "p2_part m2 (heads st) g (all_of raw P)"
    using part_header [OF pp raw] by (metis add_mset_remove_trivial)
  let ?st = "st\<lparr>mem := m2, allocated := allocated st + sz\<rparr>"
  have step: "write_header sz h st = Gives ?st (h + 16)"
    using m(1,2) by (simp add: write_header_def)
  have "ready ?st (add_mset Idle P) (add_mset (h + 16) H) g (add_mset (h, sz, 0) L)"
    by (rule ready_step [OF r]) (use d m(3) in \<open>auto simp: algebra_simps\<close>)
  then show ?thesis by (simp add: step ready_inv)
qed

lemma ready_give_large:
  assumes r: "ready st (add_mset (M_LTotal sz h al) P) H g L"
  shows "keeps_inv P H (thread_step os (M_LTotal sz h al) st)"
proof -
  have "ready (st\<lparr>totmem := totmem st + al\<rparr>) (add_mset Idle P) (add_mset (h + 16) H) g
      (add_mset (h, sz, al) L)"
    by (rule ready_step [OF r]) (use readyD [OF r] in \<open>auto simp: algebra_simps\<close>)
  then show ?thesis by (simp add: ready_inv)
qed

lemma ready_count_large:
  assumes r: "ready st (add_mset (M_LCount sz h al) P) H g L"
  shows "keeps_inv P H (thread_step os (M_LCount sz h al) st)"
proof -
  have "ready (st\<lparr>allocated := allocated st + sz\<rparr>) (add_mset (M_LTotal sz h al) P) H g L"
    by (rule ready_step [OF r])
      (use readyD [OF r] readyD(8) [OF r, of "M_LCount sz h al"] in \<open>auto simp: algebra_simps\<close>)
  then show ?thesis by (simp add: ready_inv)
qed

section \<open>Release\<close>

lemma held_block:
  assumes r: "ready st P H g L" and p: "p \<in># H + all_of passed P"
  obtains h sz al where "p = h + 16" and "(h, sz, al) \<in># L" and "(h, sz, al) \<in># a_live g - all_of raw P"
proof -
  note d = readyD [OF r]
  have "p \<in># image_mset (\<lambda>l. fst l + 16) L" unfolding d(4) by (rule p)
  then obtain h sz al where "p = h + 16" "(h, sz, al) \<in># L" by force
  then show ?thesis using that raw_rest [OF d(3)] by blast
qed

lemma ready_begin_free:
  assumes r: "ready st (add_mset (F_Start p) P) H g L"
  shows "keeps_inv P H (begin_free p st)"
proof (cases "p = NULL")
  case True
  then have "ready st (add_mset Idle P) H g L" by (intro ready_goes [OF r]) simp_all
  then show ?thesis by (simp add: begin_free_def True ready_inv)
next
  case False
  note d = readyD [OF r]
  obtain h sz al where l: "p = h + 16" "(h, sz, al) \<in># L" "(h, sz, al) \<in># a_live g - all_of raw P"
    using held_block [OF r, of p] False by auto
  obtain L' where L: "L = add_mset (h, sz, al) L'" using l(2) by (metis insert_DiffM)
  have pp: "p2_part (mem st) (heads st) g (all_of raw P)" using d(5) by simp
  note hd = part_header_of [OF pp l(3)]
  have ptr: "image_mset (\<lambda>l. fst l + 16) L' = H + all_of passed P"
    using d(4) False by (simp add: L l(1))
  show ?thesis
  proof (cases "al = 0")
    case False
    have step: "begin_free p st = Goes (st\<lparr>allocated := allocated st - sz\<rparr>) (F_LTotal h sz al)"
      using \<open>p \<noteq> NULL\<close> hd(1,2) False
      by (simp add: begin_free_def l(1) IS_LARGE_def hdr_size_def hdr_alloc_size_def)
    have "ready (st\<lparr>allocated := allocated st - sz\<rparr>) (add_mset (F_LTotal h sz al) P) H g L'"
      by (rule ready_step [OF r]) (use d L ptr False in \<open>auto simp: algebra_simps\<close>)
    then show ?thesis by (simp add: step ready_inv)
  next
    case True
    note l' = l(3) [unfolded True] and v = hd(3) [unfolded True]
    have lg: "(h, sz, 0) \<in># a_live g" using l' by (rule in_diffD)
    have sz: "sz \<noteq> 0" "unat sz \<le> 4080" using v by (simp_all add: valid_live_def)
    obtain i where i: "i < 8" "get_freelist_idx sz = int i" using idx_slab [OF sz(2)] by blast
    have nw: "unat h + block_size i < 2 ^ 64" and mp: "mapped (mem st) h (block_size i)"
      using live_no_wrap [OF partD(1) [OF pp] lg] i(2) by simp_all
    have hu: "unat (h + 16) = unat h + 16"
      using nw block_size_ge [of i] unat_add_num [of h 16] by simp
    have "mapped (mem st) (h + 16) 8" and n16: "unat (h + 16) + 8 \<le> 2 ^ 64"
      using mp nw block_size_ge [of i] hu by (auto elim: mapped_sub)
    then obtain m1 where m1: "memset (mem st) (h + 16) 0 8 = Some m1"
        "changes (span_of (h + 16) 8) (mem st) m1"
      using memset_spec by blast
    have "span_of (h + 16) 8 \<subseteq> espan (live_extent (h, sz, 0))"
      using hu block_size_ge [of i] i(2) by auto
    then have pp1: "p2_part m1 (heads st) g (add_mset (h, sz, 0) (all_of raw P))"
      by (intro part_write [OF part_mark [OF pp l'], of "(h, sz, 0)", OF _ m1(2)]) simp_all
    have step: "begin_free p st = Goes (st\<lparr>allocated := allocated st - sz, mem := m1\<rparr>) (F_Lock h sz i)"
      using \<open>p \<noteq> NULL\<close> hd(1,2) True m1(1) i
      by (simp add: begin_free_def l(1) IS_LARGE_def hdr_size_def hdr_alloc_size_def sizeof_size_t_def)
    have "ready (st\<lparr>allocated := allocated st - sz, mem := m1\<rparr>) (add_mset (F_Lock h sz i) P) H g L'"
      by (rule ready_step [OF r]) (use d L ptr True pp1 i in \<open>auto simp: algebra_simps\<close>)
    then show ?thesis by (simp add: step ready_inv)
  qed
qed

lemma ready_total_large:
  assumes r: "ready st (add_mset (F_LTotal h sz al) P) H g L"
  shows "keeps_inv P H (thread_step os (F_LTotal h sz al) st)"
proof -
  have "ready (st\<lparr>totmem := totmem st - al\<rparr>) (add_mset (F_Unmap h sz al) P) H g L"
    by (rule ready_step [OF r])
      (use readyD [OF r] readyD(8) [OF r, of "F_LTotal h sz al"] in \<open>auto simp: algebra_simps\<close>)
  then show ?thesis by (simp add: ready_inv)
qed

lemma ready_unmap:
  assumes r: "ready st (add_mset (F_Unmap h sz al) P) H g L"
  shows "keeps_inv P H (thread_step os (F_Unmap h sz al) st)"
proof -
  note d = readyD [OF r]
  have al: "al \<noteq> 0" using d(8) [of "F_Unmap h sz al"] by simp
  have pp: "p2_part (mem st) (heads st) g (all_of raw P)" using d(5) by simp
  have live: "a_live g = add_mset (h, sz, al) L + all_of blk P" using d(3) by simp
  then have "(h, sz, al) \<in># a_live g - all_of raw P" by (rule raw_rest) simp
  then obtain m1 where m: "os_free (mem st) h al = Some m1"
      "p2_part m1 (heads st) (a_unmap g (h, sz, al)) (all_of raw P)"
      "total (owned g) = unat al + total (owned (a_unmap g (h, sz, al)))"
    using part_unmap [OF pp _ al] by blast
  have "ready (st\<lparr>mem := m1\<rparr>) (add_mset Idle P) H (a_unmap g (h, sz, al)) L"
    by (rule ready_step [OF r]) (use d m(2,3) live in \<open>auto simp: algebra_simps\<close>)
  then show ?thesis using m(1) by (simp add: ready_inv)
qed

lemma ready_insert:
  assumes r: "ready st (add_mset (F_Insert h sz i) P) H g L"
  shows "keeps_inv P H (insert_block h i st)"
proof -
  note d = readyD [OF r]
  have i: "i < 8" "get_freelist_idx sz = int i" using d(8) [of "F_Insert h sz i"] by simp_all
  note s = sectionsD [OF d(2) i(1)]
  have raw: "(h, sz, 0) \<in># add_mset (h, sz, 0) (all_of raw P)" by simp
  have pp: "p2_part (mem st) (heads st) g (add_mset (h, sz, 0) (all_of raw P))" using d(5) by simp
  obtain m1 where m: "p2orderedinsert (mem st) h (freelists st ! i) = Some m1"
      "p2_part m1 (heads st) (a_give g i (h, sz, 0)) (all_of raw P)"
      "owned (a_give g i (h, sz, 0)) = owned g"
    using part_insert [OF pp i(1) raw i(2) s(2)] by auto
  have step: "insert_block h i st = Goes (st\<lparr>mem := m1\<rparr>) (F_Unlock i)"
    using s(1) m(1) by (simp add: insert_block_def)
  have "ready (st\<lparr>mem := m1\<rparr>) (add_mset (F_Unlock i) P) H (a_give g i (h, sz, 0)) L"
    by (rule ready_step [OF r]) (use d m(2,3) i nth_update_other [of "a_free g" i] in auto)
  then show ?thesis by (simp add: step ready_inv)
qed

section \<open>Resizing in place\<close>

lemma ready_resize_count:
  assumes r: "ready st (add_mset (R_Add h old sz) P) H g L"
  shows "keeps_inv P H (thread_step os (R_Add h old sz) st)"
proof -
  have "ready (st\<lparr>allocated := allocated st + sz\<rparr>) (add_mset (R_Size h old sz) P) H g L"
    by (rule ready_step [OF r])
      (use readyD [OF r] readyD(8) [OF r, of "R_Add h old sz"] in \<open>auto simp: algebra_simps\<close>)
  then show ?thesis by (simp add: ready_inv)
qed

lemma ready_resize:
  assumes r: "ready st (add_mset (R_Size h old sz) P) H g L"
  shows "keeps_inv P H (thread_step os (R_Size h old sz) st)"
proof -
  note d = readyD [OF r]
  have ok: "get_freelist_idx sz = get_freelist_idx old" "sz \<noteq> 0" "unat sz \<le> 4080"
    using d(8) [of "R_Size h old sz"] by simp_all
  have pp: "p2_part (mem st) (heads st) g (all_of raw P)" using d(5) by simp
  have live: "a_live g = add_mset (h, old, 0) L + all_of blk P" using d(3) by simp
  then have "(h, old, 0) \<in># a_live g - all_of raw P" by (rule raw_rest) simp
  then obtain m1 where m: "set_hdr_size (mem st) h sz = Some m1"
      "p2_part m1 (heads st) (a_resize g h old sz) (all_of raw P)" "owned (a_resize g h old sz) = owned g"
    by (rule part_resize [OF pp _ ok])
  have "ready (st\<lparr>mem := m1\<rparr>) (add_mset Idle P) (add_mset (h + 16) H) (a_resize g h old sz) (add_mset (h, sz, 0) L)"
    by (rule ready_step [OF r])
      (use d m(2,3) live in \<open>auto simp: algebra_simps a_resize_def a_map_def a_unmap_def\<close>)
  then show ?thesis using m(1) by (simp add: ready_inv)
qed

section \<open>Steps before the lists are ready\<close>

lemma waiting_nothing:
  assumes "waiting pc"
  shows "blk pc = {#}" "raw pc = {#}" "counted pc = 0" "uncounted pc = 0" "passed pc = {#}"
    "\<not> in_section i pc" "pc_ok g pc"
  using assms by (cases pc; simp)+

lemma all_waiting:
  assumes "\<forall>pc \<in># P. waiting pc"
  shows "all_of blk P = {#}" and "all_of raw P = {#}" and "all_of counted P = 0"
    and "all_of uncounted P = 0" and "all_of passed P = {#}" and "holders i P = 0"
    and "\<forall>pc \<in># P. pc_ok g pc"
  using assms waiting_nothing by (induction P; fastforce simp: holders_def)+

lemma outside_waiting: "outside pc \<Longrightarrow> waiting pc"
  by (cases pc) simp_all

lemma request_iff: "\<not> (sz = 0 \<or> sz > SIZE_MAX - P2_HEADER_SIZE) \<longleftrightarrow> request sz"
  by (auto simp: request_def word_less_nat_alt)

lemma start_step:
  "thread_step os (M_Start sz) st =
     (if \<not> request sz then Goes st Idle
      else if init_state st = 0 then Goes (st\<lparr>init_state := 1\<rparr>) (M_Init sz) else Goes st (M_Spin sz))"
  unfolding thread_step.simps request_iff [symmetric] by auto

lemma early_step:
  assumes e: "early st (add_mset pc P) H" and "basic pc"
  shows "keeps_inv P H (thread_step os pc st)"
proof -
  have b: "p2_boot st" and H: "H = {#}" and out: "outside pc" "\<forall>q \<in># P. outside q"
    using e by (simp_all add: early_def)
  have i0: "init_state st = 0" using b by (simp add: p2_boot_def)
  have stay: "threads_inv st (add_mset Idle P) H"
    using e by (simp add: threads_inv_def early_def)
  show ?thesis
  proof (cases pc)
    case (M_Start sz)
    have "st\<lparr>init_state := 0\<rparr> = st" using i0 by simp
    then have "initing (st\<lparr>init_state := 1\<rparr>) (add_mset (M_Init sz) P) H" if "request sz"
      unfolding initing_def using b H out(2) outside_waiting that
      by (intro conjI exI [of _ sz] exI [of _ "M_Init sz"] exI [of _ P]) simp_all
    then show ?thesis
      using stay i0 by (simp add: M_Start start_step threads_inv_def del: thread_step.simps)
  qed (use out stay assms(2) in \<open>auto simp: begin_free_def\<close>)
qed

lemma init_lists:
  assumes st: "init_state st = 1" and b: "p2_boot (st\<lparr>init_state := 0\<rparr>)"
  obtains st' where "freelists_init st = Some st'" and "init_state st' = 1"
    and "p2_rel (st'\<lparr>init_state := 2\<rparr>) a_empty"
proof -
  let ?b = "st\<lparr>init_state := 0\<rparr>" and ?fs = "map (\<lambda>j. init_head j (freelists st ! j)) [0..<8]"
  obtain m where m: "freelists_init (?b\<lparr>init_state := 1\<rparr>) = Some (?b\<lparr>init_state := 1, mem := m,
        freelists := map (\<lambda>j. init_head j (freelists ?b ! j)) [0..<8]\<rparr>)"
      "p2_mem m (heads ?b) a_empty"
    using p2_boot_init [OF b, of 1] by blast
  have "?b\<lparr>init_state := 1\<rparr> = st" using st by simp
  then have 1: "freelists_init st = Some (st\<lparr>mem := m, freelists := ?fs\<rparr>)"
    using m(1) by simp
  have "allocated st = 0" "totmem st = 0" using b by (simp_all add: p2_boot_def)
  then have "(st\<lparr>mem := m, freelists := ?fs\<rparr>)\<lparr>init_state := 2\<rparr>
      = ?b\<lparr>init_state := 2, mem := m, allocated := 0, totmem := 0,
          freelists := map (\<lambda>j. init_head j (freelists ?b ! j)) [0..<8]\<rparr>"
    by simp
  with p2_rel_fresh [OF b m(2)] have "p2_rel ((st\<lparr>mem := m, freelists := ?fs\<rparr>)\<lparr>init_state := 2\<rparr>) a_empty"
    by (simp only:)
  with 1 st show ?thesis by (intro that) simp_all
qed

lemma ready_first:
  assumes rel: "p2_rel st a_empty" and w: "\<forall>pc \<in># P. waiting pc" and sz: "request sz"
  shows "ready st (add_mset (M_Spin sz) P) {#} a_empty {#}"
proof -
  have w': "\<forall>pc \<in># add_mset (M_Spin sz) P. waiting pc" using w sz by simp
  note a = all_waiting [OF w'] and d = p2_relD [OF rel]
  have "sections (freelists st) (add_mset (M_Spin sz) P)"
    using d(3) a(6) by (simp add: sections_def p2_fls_def)
  then show ?thesis
    unfolding ready_def a(1-5) using a(7) d part_empty [OF d(2)] by simp
qed

lemma initing_waiting:
  assumes e: "initing st (add_mset pc P) H" and w: "waiting pc" "waiting pc'"
  shows "initing st (add_mset pc' P) H"
proof -
  obtain sz p0 P' where i: "init_state st = 1" "H = {#}" "add_mset pc P = add_mset p0 P'"
      "\<forall>q \<in># P'. waiting q" "request sz"
    and p0: "p0 = M_Init sz \<and> p2_boot (st\<lparr>init_state := 0\<rparr>)
        \<or> p0 = M_Ready sz \<and> p2_rel (st\<lparr>init_state := 2\<rparr>) a_empty"
    using e unfolding initing_def by blast
  have "pc \<noteq> p0" using p0 w(1) by auto
  then obtain Q where P: "P = add_mset p0 Q" "P' = add_mset pc Q"
    using i(3) by (metis add_eq_conv_ex)
  have "\<exists>sz pc P'. add_mset pc' P = add_mset pc P' \<and> (\<forall>pc \<in># P'. waiting pc) \<and> request sz
    \<and> (pc = M_Init sz \<and> p2_boot (st\<lparr>init_state := 0\<rparr>)
       \<or> pc = M_Ready sz \<and> p2_rel (st\<lparr>init_state := 2\<rparr>) a_empty)"
    by (rule exI [of _ sz], rule exI [of _ p0], rule exI [of _ "add_mset pc' Q"])
      (use i(4,5) p0 P w(2) in auto)
  then show ?thesis unfolding initing_def using i(1,2) by blast
qed

lemma initing_step:
  assumes e: "initing st (add_mset pc P) H" and "basic pc"
  shows "keeps_inv P H (thread_step os pc st)"
proof -
  obtain sz p0 P' where i: "init_state st = 1" "H = {#}" "add_mset pc P = add_mset p0 P'"
      "\<forall>q \<in># P'. waiting q" "request sz"
    and p0: "p0 = M_Init sz \<and> p2_boot (st\<lparr>init_state := 0\<rparr>)
        \<or> p0 = M_Ready sz \<and> p2_rel (st\<lparr>init_state := 2\<rparr>) a_empty"
    using e unfolding initing_def by blast
  show ?thesis
  proof (cases "waiting pc")
    case True
    then have stay: "threads_inv st (add_mset pc' P) H" if "waiting pc'" for pc'
      using initing_waiting [OF e] that by (simp add: threads_inv_def)
    show ?thesis
    proof (cases pc)
      case (M_Start sz)
      then show ?thesis
        using stay i(1) by (simp add: start_step del: thread_step.simps)
    qed (use True stay i(1) assms(2) in \<open>auto simp: begin_free_def\<close>)
  next
    case False
    then have pc: "pc = p0" "P = P'" using i(3,4) by (metis add_eq_conv_ex union_single_eq_member)+
    show ?thesis using p0
    proof (elim disjE conjE)
      assume p: "p0 = M_Init sz" and b: "p2_boot (st\<lparr>init_state := 0\<rparr>)"
      obtain st' where st': "freelists_init st = Some st'" "init_state st' = 1"
          "p2_rel (st'\<lparr>init_state := 2\<rparr>) a_empty"
        using init_lists [OF i(1) b] .
      then have "initing st' (add_mset (M_Ready sz) P) H"
        unfolding initing_def using i(2,4,5) pc(2)
        by (intro conjI exI [of _ sz] exI [of _ "M_Ready sz"] exI [of _ P]) simp_all
      then show ?thesis using st'(1) by (simp add: pc(1) p threads_inv_def)
    next
      assume p: "p0 = M_Ready sz" and rel: "p2_rel (st\<lparr>init_state := 2\<rparr>) a_empty"
      from ready_dispatch [OF ready_first [OF rel i(4,5)]] show ?thesis
        unfolding pc by (simp add: p i(2) ready_inv)
    qed
  qed
qed

section \<open>Every basic step\<close>

theorem basic_step_keeps:
  assumes inv: "threads_inv st (add_mset pc P) H" and ok: "kernel_ok os" and b: "basic pc"
  shows "keeps_inv P H (thread_step os pc st)"
  using inv unfolding threads_inv_def
proof (elim disjE exE)
  fix g L
  assume r: "ready st (add_mset pc P) H g L"
  note d = readyD [OF r]
  have pc_ok: "pc_ok g pc" by (rule d(8)) simp
  show ?thesis
  proof (cases pc)
    case (M_Start sz)
    have "threads_inv st (add_mset Idle P) H"
      by (rule ready_inv, rule ready_goes [OF r]) (simp_all add: M_Start)
    moreover have "threads_inv st (add_mset (M_Spin sz) P) H" if "request sz"
      by (rule ready_inv, rule ready_goes [OF r]) (simp_all add: M_Start that)
    ultimately show ?thesis using d(1) by (simp add: M_Start start_step del: thread_step.simps)
  next
    case (M_Spin sz)
    then show ?thesis using d(1) ready_inv [OF ready_dispatch] r by simp
  next
    case (M_Large sz)
    with r show ?thesis by (simp add: ready_large [OF _ ok])
  next
    case (M_Lock sz i)
    then have "slab_request sz i" using pc_ok by simp
    then show ?thesis
      using ready_lock [OF r, of i "M_Refill sz i"] by (auto simp: M_Lock slab_request_def)
  next
    case (M_Refill sz i)
    with r show ?thesis by (simp add: ready_refill [OF _ ok] del: thread_step.simps)
  next
    case (M_Fail i)
    then show ?thesis using ready_unlock [OF r, of i Idle] pc_ok by auto
  next
    case (M_Unlock sz i h)
    then show ?thesis using ready_unlock [OF r, of i "M_Header sz h"] pc_ok by auto
  next
    case (F_Lock h sz i)
    then show ?thesis using ready_lock [OF r, of i "F_Insert h sz i"] pc_ok by auto
  next
    case (F_Unlock i)
    then show ?thesis using ready_unlock [OF r, of i Idle] pc_ok by auto
  qed (use r b pc_ok ready_resize_count [of st _ _ _ P H g L os] ready_resize [of st _ _ _ P H g L os] ready_take ready_header ready_begin_free ready_insert ready_unmap [of st _ _ _ P H g L os]
      ready_count_large [of st _ _ _ P H g L os] ready_give_large [of st _ _ _ P H g L os]
      ready_total_large [of st _ _ _ P H g L os] in auto)
qed (use early_step [OF _ b] initing_step [OF _ b] in blast)+

end
