(* ===== verification/P2_Threads_Calls.thy ===== *)
theory P2_Threads_Calls
  imports P2_Threads_Inv
begin

text \<open>
  The steps of functions that call others.  A thread inside a called function counts as two: the
  called function, and the caller that waits with the block it holds on to (\<open>frames\<close>); so a step
  of the called function is one that \<open>basic_step_keeps\<close> covers, with the caller among the rest.
\<close>

section \<open>Callers and the functions they have called\<close>

fun frames :: "pc \<Rightarrow> pc multiset" where
  "frames (C_Malloc n pc) = {#pc#}"
| "frames (R_Malloc h old al sz pc) = {#R_Malloc h old al sz Idle, pc#}"
| "frames (R_Free p pc) = {#R_Free p Idle, pc#}"
| "frames pc = {#pc#}"

text \<open>Inside \<open>p2malloc(n)\<close>, and inside \<open>p2free\<close>.\<close>

fun serves :: "u64 \<Rightarrow> pc \<Rightarrow> bool" where
  "serves n (M_Start sz) \<longleftrightarrow> sz = n"
| "serves n (M_Init sz) \<longleftrightarrow> sz = n"
| "serves n (M_Ready sz) \<longleftrightarrow> sz = n"
| "serves n (M_Spin sz) \<longleftrightarrow> sz = n"
| "serves n (M_Large sz) \<longleftrightarrow> sz = n"
| "serves n (M_LCount sz h al) \<longleftrightarrow> sz = n"
| "serves n (M_LTotal sz h al) \<longleftrightarrow> sz = n"
| "serves n (M_Lock sz i) \<longleftrightarrow> sz = n"
| "serves n (M_Refill sz i) \<longleftrightarrow> sz = n"
| "serves n (M_Take sz i) \<longleftrightarrow> sz = n"
| "serves n (M_Fail i) \<longleftrightarrow> True"
| "serves n (M_Unlock sz i h) \<longleftrightarrow> sz = n"
| "serves n (M_Header sz h) \<longleftrightarrow> sz = n"
| "serves n _ \<longleftrightarrow> False"

fun frees :: "pc \<Rightarrow> bool" where
  "frees (F_Start p) \<longleftrightarrow> True"
| "frees (F_LTotal h sz al) \<longleftrightarrow> True"
| "frees (F_Unmap h sz al) \<longleftrightarrow> True"
| "frees (F_Lock h sz i) \<longleftrightarrow> True"
| "frees (F_Insert h sz i) \<longleftrightarrow> True"
| "frees (F_Unlock i) \<longleftrightarrow> True"
| "frees _ \<longleftrightarrow> False"

fun calls_ok :: "pc \<Rightarrow> bool" where
  "calls_ok (C_Malloc n pc) \<longleftrightarrow> serves n pc"
| "calls_ok (R_Malloc h old al sz pc) \<longleftrightarrow> serves sz pc"
| "calls_ok (R_Free p pc) \<longleftrightarrow> frees pc"
| "calls_ok _ \<longleftrightarrow> True"

lemmas step_defs = attempt_def lock_list_def unlock_list_def map_large_def take_block_def
  write_header_def begin_free_def insert_block_def dispatch_def Let_def

lemma basic_frames: "basic pc \<Longrightarrow> frames pc = {#pc#} \<and> calls_ok pc"
  by (cases pc) auto

lemma called_basic: "serves n pc \<Longrightarrow> basic pc" "frees pc \<Longrightarrow> basic pc"
  by (cases pc; simp)+

lemma basic_goes: "thread_step os pc st = Goes st' pc' \<Longrightarrow> basic pc \<Longrightarrow> basic pc'"
  by (cases pc) (auto simp: step_defs split: option.splits if_splits prod.splits)

lemma serves_goes: "thread_step os pc st = Goes st' pc' \<Longrightarrow> serves n pc \<Longrightarrow> pc' = Idle \<or> serves n pc'"
  by (cases pc) (auto simp: step_defs split: option.splits if_splits prod.splits)

lemma frees_goes: "thread_step os pc st = Goes st' pc' \<Longrightarrow> frees pc \<Longrightarrow> pc' = Idle \<or> frees pc'"
  by (cases pc) (auto simp: step_defs split: option.splits if_splits prod.splits)

lemma frees_gives: "frees pc \<Longrightarrow> thread_step os pc st \<noteq> Gives st' p"
  by (cases pc) (auto simp: step_defs split: option.splits if_splits prod.splits)

section \<open>The invariant of callers\<close>

text \<open>A step of a whole thread that is defined and keeps the invariant.\<close>

definition keeps_calls :: "pc multiset \<Rightarrow> addr multiset \<Rightarrow> step \<Rightarrow> bool" where
  "keeps_calls P H r = (case r of Undef \<Rightarrow> False | Blocked \<Rightarrow> True
     | Goes st pc \<Rightarrow> threads_inv st (frames pc + P) H \<and> calls_ok pc
     | Gives st p \<Rightarrow> threads_inv st (add_mset Idle P) (add_mset p H))"

lemma keeps_calls_simps [simp]:
  "keeps_calls P H Blocked" "\<not> keeps_calls P H Undef"
  "keeps_calls P H (Goes st pc) \<longleftrightarrow> threads_inv st (frames pc + P) H \<and> calls_ok pc"
  "keeps_calls P H (Gives st p) \<longleftrightarrow> threads_inv st (add_mset Idle P) (add_mset p H)"
  by (simp_all add: keeps_calls_def)

lemma inv_ready:
  assumes "threads_inv st P H" and "pc \<in># P" and "\<not> waiting pc" and "\<not> in_init pc"
  obtains g L where "ready st P H g L"
  using assms outside_waiting unfolding threads_inv_def early_def initing_def
  by (metis in_init.simps(1,2) insert_iff set_mset_add_mset_insert)

lemma threads_inv_held:
  assumes "threads_inv st P H" and "p \<in># H"
  obtains g L where "ready st P H g L"
  using assms unfolding threads_inv_def early_def initing_def by auto

lemma threads_inv_outside:
  assumes inv: "threads_inv st (add_mset pc P) H" and out: "outside pc" "outside pc'"
  shows "threads_inv st (add_mset pc' P) H"
  using inv unfolding threads_inv_def
proof (elim disjE exE)
  note w = waiting_nothing [OF outside_waiting [OF out(1)]] waiting_nothing [OF outside_waiting [OF out(2)]]
  fix g L
  assume r: "ready st (add_mset pc P) H g L"
  have "ready st (add_mset pc' P) H g L" by (rule ready_goes [OF r]) (simp_all add: w)
  then show "early st (add_mset pc' P) H \<or> initing st (add_mset pc' P) H \<or> (\<exists>g L. ready st (add_mset pc' P) H g L)"
    by blast
qed (use out initing_waiting [of st pc P H pc'] outside_waiting in \<open>auto simp: early_def\<close>)

lemma held_not_null:
  assumes r: "ready st P H g L" and p: "p \<in># image_mset (\<lambda>l. fst l + 16) L"
  shows "p \<noteq> NULL"
proof -
  have "p \<in># H + all_of passed P" using p readyD(4) [OF r] by simp
  from held_block [OF r this]
  obtain h sz al where l: "p = h + 16" "(h, sz, al) \<in># a_live g - all_of raw P" by blast
  note pp = readyD(5) [OF r]
  have "unat h + live_len sz al < 2 ^ 64"
    using live_no_wrap(1) [OF partD(1) [OF pp] in_diffD [OF l(2)]] by simp
  then have "unat (h + 16) = unat h + 16"
    using header_payload(1) [OF part_header_of(3) [OF pp l(2)]] by simp
  then show ?thesis unfolding l(1) by (metis add_is_0 unat_0 zero_neq_numeral)
qed

lemma ready_idle: "ready st (add_mset Idle P) H g L \<longleftrightarrow> ready st P H g L"
  by (simp add: ready_def sections_def)

lemma ready_mem:
  assumes "ready st P H g L" and "p2_part m (heads st) g (all_of raw P)"
  shows "ready (st\<lparr>mem := m\<rparr>) P H g L"
proof -
  have "heads (st\<lparr>mem := m\<rparr>) = heads st" by simp
  then show ?thesis using assms by (simp add: ready_def)
qed

text \<open>A caller of \<open>p2malloc\<close> lets its block go: back to the program, or to \<open>p2free\<close>.\<close>

lemma ready_let_go:
  assumes r: "ready st (add_mset (R_Malloc h old al sz Idle) P) H g L"
  shows "ready st P (add_mset (h + 16) H) g (add_mset (h, old, al) L)"
    and "ready st (add_mset (F_Start (h + 16)) P) H g (add_mset (h, old, al) L)"
proof -
  have "ready st (add_mset Idle P) (add_mset (h + 16) H) g (add_mset (h, old, al) L)"
    by (rule ready_step [OF r]) (use readyD [OF r] in \<open>auto simp: algebra_simps\<close>)
  then show 1: "ready st P (add_mset (h + 16) H) g (add_mset (h, old, al) L)" by (simp add: ready_idle)
  have "h + 16 \<noteq> NULL" by (rule held_not_null [OF 1]) simp
  then show "ready st (add_mset (F_Start (h + 16)) P) H g (add_mset (h, old, al) L)"
    by (intro ready_step [OF r]) (use readyD [OF r] in \<open>auto simp: algebra_simps\<close>)
qed

lemma ready_hand_out:
  assumes r: "ready st (add_mset (R_Free p Idle) P) H g L"
  shows "ready st P (add_mset p H) g L"
proof -
  have "ready st (add_mset Idle P) (add_mset p H) g L"
    by (rule ready_step [OF r]) (use readyD [OF r] in \<open>auto simp: algebra_simps\<close>)
  then show ?thesis by (simp add: ready_idle)
qed

lemma ready_take_back:
  assumes r: "ready st P (add_mset p H) g L"
  shows "ready st (add_mset (R_Free p Idle) P) H g L"
proof -
  have r': "ready st (add_mset Idle P) (add_mset p H) g L" using r by (simp add: ready_idle)
  show ?thesis by (rule ready_step [OF r']) (use readyD [OF r'] in \<open>auto simp: algebra_simps\<close>)
qed

section \<open>The block that \<open>p2malloc\<close> returns\<close>

lemma gives_request:
  assumes r: "ready st (add_mset pc P) H g L" and n: "serves n pc"
    and step: "thread_step os pc st = Gives st' p"
  shows "hdr_size (mem st') (p - P2_HEADER_SIZE) = Some n"
proof (cases pc)
  case (M_LTotal sz h al)
  note d = readyD [OF r [unfolded M_LTotal]]
  have "(h, sz, al) \<in># a_live g - all_of raw P"
    using raw_rest [of "a_live g" "add_mset (h, sz, al) L" P "(h, sz, al)"] d(3) by simp
  moreover have "p2_part (mem st) (heads st) g (all_of raw P)" using d(5) by simp
  ultimately have "load64 (mem st) h = Some sz" using part_header_of(1) by blast
  then show ?thesis using step n by (auto simp: M_LTotal hdr_size_def)
next
  case (M_Header sz h)
  note d = readyD [OF r [unfolded M_Header]]
  have pp: "p2_part (mem st) (heads st) g (add_mset (h, sz, 0) (all_of raw P))" using d(5) by simp
  have raw: "(h, sz, 0) \<in># add_mset (h, sz, 0) (all_of raw P)" by simp
  obtain m1 m2 where m: "set_hdr_size (mem st) h sz = Some m1" "set_hdr_alloc_size m1 h 0 = Some m2"
      "p2_part m2 (heads st) g (all_of raw P)"
    using part_header [OF pp raw] by (metis add_mset_remove_trivial)
  have "(h, sz, 0) \<in># a_live g - all_of raw P"
    using raw_rest [of "a_live g" "add_mset (h, sz, 0) L" P "(h, sz, 0)"] d(3) by simp
  then have "load64 m2 h = Some sz" using part_header_of(1) [OF m(3)] by blast
  then show ?thesis using step n m(1,2) by (auto simp: M_Header write_header_def hdr_size_def)
qed (use n step in \<open>auto simp: step_defs split: option.splits if_splits prod.splits\<close>)

lemma gives_not_waiting: "thread_step os pc st = Gives st' p \<Longrightarrow> serves n pc \<Longrightarrow> \<not> waiting pc \<and> \<not> in_init pc"
  by (cases pc) (auto simp: step_defs split: option.splits if_splits prod.splits)

lemma given_block:
  assumes inv: "threads_inv st (add_mset pc P) H" and n: "serves n pc"
    and step: "thread_step os pc st = Gives st' p" and ok: "kernel_ok os"
  obtains h g L al where "p = h + 16" and "(h, n, al) \<in># L" and "(h, n, al) \<in># a_live g - all_of raw P"
    and "ready st' P (add_mset p H) g L"
proof -
  obtain g0 L0 where r0: "ready st (add_mset pc P) H g0 L0"
    using inv_ready [OF inv, of pc] gives_not_waiting [OF step n] by auto
  have "threads_inv st' (add_mset Idle P) (add_mset p H)"
    using basic_step_keeps [OF inv ok called_basic(1) [OF n]] step by simp
  then obtain g L where r: "ready st' (add_mset Idle P) (add_mset p H) g L"
    using threads_inv_held [where p = p] by (metis union_single_eq_member)
  obtain h sz al where l: "p = h + 16" "(h, sz, al) \<in># L"
      "(h, sz, al) \<in># a_live g - all_of raw (add_mset Idle P)"
    using held_block [OF r, of p] by auto
  have "load64 (mem st') h = Some sz" using part_header_of(1) [OF readyD(5) [OF r] l(3)] .
  then have "sz = n" using gives_request [OF r0 n step] by (simp add: l(1) hdr_size_def)
  then show ?thesis using that l r by (simp add: ready_idle)
qed

section \<open>Every step\<close>

lemma calloc_keeps:
  assumes inv: "threads_inv st (add_mset pc P) H" and n: "serves n pc" and ok: "kernel_ok os"
  shows "keeps_calls P H (in_calloc n (thread_step os pc st))"
proof -
  note k = basic_step_keeps [OF inv ok called_basic(1) [OF n]]
  show ?thesis
  proof (cases "thread_step os pc st")
    case (Goes st' pc')
    then show ?thesis using k serves_goes [OF Goes n] by (auto simp: in_calloc_def)
  next
    case (Gives st' p)
    obtain h g L al where b: "p = h + 16" "(h, n, al) \<in># a_live g - all_of raw P"
        "ready st' P (add_mset p H) g L"
      by (rule given_block [OF inv n Gives ok])
    obtain m where m: "memset (mem st') p 0 (unat n) = Some m" "p2_part m (heads st') g (all_of raw P)"
      using part_zero [OF readyD(5) [OF b(3)] b(2)] b(1) by blast
    have "ready (st'\<lparr>mem := m\<rparr>) (add_mset Idle P) (add_mset p H) g L"
      using ready_mem [OF b(3) m(2)] by (simp add: ready_idle)
    then show ?thesis by (simp add: Gives in_calloc_def m(1) ready_inv)
  qed (use k in \<open>simp_all add: in_calloc_def\<close>)
qed

lemma realloc_keeps:
  assumes inv: "threads_inv st (add_mset pc (add_mset (R_Malloc h old al sz Idle) P)) H"
    and n: "serves sz pc" and ok: "kernel_ok os"
  shows "keeps_calls P H (in_realloc h old al sz (thread_step os pc st))"
proof -
  let ?W = "R_Malloc h old al sz Idle"
  note k = basic_step_keeps [OF inv ok called_basic(1) [OF n]]
  show ?thesis
  proof (cases "thread_step os pc st")
    case (Goes st' pc')
    have k': "threads_inv st' (add_mset pc' (add_mset ?W P)) H" using k Goes by simp
    show ?thesis
    proof (cases "pc' = Idle")
      case False
      then show ?thesis
        using k' Goes serves_goes [OF Goes n] by (simp add: in_realloc_def Let_def add_mset_commute)
    next
      case True
      obtain g L where "ready st' (add_mset Idle (add_mset ?W P)) H g L"
        using inv_ready [OF k', of ?W] True by auto
      then have "ready st' (add_mset Idle P) (add_mset (h + 16) H) g (add_mset (h, old, al) L)"
        using ready_let_go(1) by (simp add: ready_idle)
      then show ?thesis using True Goes by (simp add: in_realloc_def Let_def ready_inv)
    qed
  next
    case (Gives st' p)
    obtain h' g L al' where b: "p = h' + 16" "(h', sz, al') \<in># L"
        "(h', sz, al') \<in># a_live g - all_of raw (add_mset ?W P)" "ready st' (add_mset ?W P) (add_mset p H) g L"
      by (rule given_block [OF inv n Gives ok])
    note r = ready_let_go [OF b(4)]
    note d = readyD [OF r(1)]
    have new: "(h', sz, al') \<in># a_live g - all_of raw P" and prev: "(h, old, al) \<in># a_live g - all_of raw P"
      using raw_rest [OF d(3)] b(2) by simp_all
    have "{#(h', sz, al'), (h, old, al)#} \<subseteq># add_mset (h, old, al) L"
      using b(2) by (simp add: insert_subset_eq_iff)
    then have two: "{#(h', sz, al'), (h, old, al)#} \<subseteq># a_live g"
      unfolding d(3) by (rule subset_mset.order_trans) simp
    obtain m where m: "memcpy (mem st') p (h + 16) (unat (if old < sz then old else sz)) = Some m"
        "p2_part m (heads st') g (all_of raw P)"
      using part_copy [OF d(5) new prev two] b(1) by blast
    have "ready (st'\<lparr>mem := m\<rparr>) (add_mset (F_Start (h + 16)) P) (add_mset p H) g (add_mset (h, old, al) L)"
      by (rule ready_mem [OF r(2)]) (use m(2) in simp)
    then have "ready (st'\<lparr>mem := m\<rparr>) (add_mset (R_Free p Idle) (add_mset (F_Start (h + 16)) P)) H g (add_mset (h, old, al) L)"
      by (rule ready_take_back)
    then show ?thesis using m(1) by (simp add: Gives in_realloc_def Let_def ready_inv)
  qed (use k in \<open>simp_all add: in_realloc_def\<close>)
qed

lemma realloc_free_keeps:
  assumes inv: "threads_inv st (add_mset pc (add_mset (R_Free p Idle) P)) H"
    and n: "frees pc" and ok: "kernel_ok os"
  shows "keeps_calls P H (in_realloc_free p (thread_step os pc st))"
proof -
  let ?W = "R_Free p Idle"
  note k = basic_step_keeps [OF inv ok called_basic(2) [OF n]]
  show ?thesis
  proof (cases "thread_step os pc st")
    case (Goes st' pc')
    have k': "threads_inv st' (add_mset pc' (add_mset ?W P)) H" using k Goes by simp
    show ?thesis
    proof (cases "pc' = Idle")
      case False
      then show ?thesis
        using k' Goes frees_goes [OF Goes n] by (simp add: in_realloc_free_def add_mset_commute)
    next
      case True
      obtain g L where "ready st' (add_mset Idle (add_mset ?W P)) H g L"
        using inv_ready [OF k', of ?W] True by auto
      then have "ready st' (add_mset Idle P) (add_mset p H) g L"
        using ready_hand_out by (simp add: ready_idle)
      then show ?thesis using True Goes by (simp add: in_realloc_free_def ready_inv)
    qed
  qed (use k frees_gives [OF n] in \<open>simp_all add: in_realloc_free_def\<close>)
qed

lemma begin_realloc_keeps:
  assumes inv: "threads_inv st (add_mset (R_Start p sz) P) H"
  shows "keeps_calls P H (begin_realloc p sz st)"
proof (cases "p = NULL")
  case True
  then show ?thesis
    using threads_inv_outside [OF inv, of "M_Start sz"] by (simp add: begin_realloc_def)
next
  case False
  obtain g L where r: "ready st (add_mset (R_Start p sz) P) H g L"
    using inv_ready [OF inv, of "R_Start p sz"] False by auto
  show ?thesis
  proof (cases "sz = 0")
    case True
    have "ready st (add_mset (F_Start p) P) H g L" by (rule ready_goes [OF r]) simp_all
    then show ?thesis using False True by (simp add: begin_realloc_def ready_inv)
  next
    case nz: False
    note d = readyD [OF r]
    obtain h old al where l: "p = h + 16" "(h, old, al) \<in># L" "(h, old, al) \<in># a_live g - all_of raw P"
      using held_block [OF r, of p] False by auto
    obtain L' where L: "L = add_mset (h, old, al) L'" using l(2) by (metis insert_DiffM)
    have pp: "p2_part (mem st) (heads st) g (all_of raw P)" using d(5) by simp
    note hd = part_header_of [OF pp l(3)]
    have ptr: "image_mset (\<lambda>l. fst l + 16) L' = H + all_of passed P" using d(4) False by (simp add: L l(1))
    have small: "unat sz + 16 < 2 ^ 64" using d(8) [of "R_Start p sz"] False by simp
    show ?thesis
    proof (cases "al = 0 \<and> get_freelist_idx sz = get_freelist_idx old")
      case True
      have "unat old \<le> 4080" using hd(3) True by (simp add: valid_live_def)
      then obtain i where "get_freelist_idx sz = int i" using idx_slab [of old] True by metis
      then have le: "unat sz \<le> 4080" using idx_large [OF small] by simp
      have "ready (st\<lparr>allocated := allocated st - old\<rparr>) (add_mset (R_Add h old sz) P) H g L'"
        by (rule ready_step [OF r]) (use d L ptr True nz le in \<open>auto simp: algebra_simps\<close>)
      then show ?thesis
        using False nz True hd(1,2)
        by (simp add: begin_realloc_def l(1) hdr_size_def hdr_alloc_size_def ready_inv)
    next
      case move: False
      have "ready st (add_mset (R_Malloc h old al sz Idle) P) H g L'"
        by (rule ready_step [OF r]) (use d L ptr in \<open>auto simp: algebra_simps\<close>)
      then have "ready st (add_mset Idle (add_mset (R_Malloc h old al sz Idle) P)) H g L'"
        by (simp add: ready_idle)
      then have "ready st (add_mset (M_Start sz) (add_mset (R_Malloc h old al sz Idle) P)) H g L'"
        by (rule ready_goes) simp_all
      then have "ready st (add_mset (R_Malloc h old al sz Idle) (add_mset (M_Start sz) P)) H g L'"
        by (simp add: add_mset_commute)
      then show ?thesis
        using False nz move hd(1,2)
        by (auto simp: begin_realloc_def l(1) hdr_size_def hdr_alloc_size_def intro: ready_inv)
    qed
  qed
qed

theorem thread_step_keeps:
  assumes inv: "threads_inv st (frames pc + P) H" and c: "calls_ok pc" and ok: "kernel_ok os"
  shows "keeps_calls P H (thread_step os pc st)"
proof (cases "basic pc")
  case True
  then have "keeps_inv P H (thread_step os pc st)"
    using basic_step_keeps [OF _ ok True] inv basic_frames by auto
  then show ?thesis
    using basic_frames basic_goes [OF _ True] by (cases "thread_step os pc st") auto
next
  case False
  show ?thesis
  proof (cases pc)
    case (C_Start nmemb sz)
    then have "threads_inv st (add_mset pc' P) H" if "outside pc'" for pc'
      using inv that threads_inv_outside [of st "C_Start nmemb sz" P H pc'] by simp
    then show ?thesis by (simp add: C_Start begin_calloc_def)
  next
    case (C_Malloc n pc')
    then show ?thesis using calloc_keeps [OF _ _ ok, of st pc' P H n] inv c by simp
  next
    case (R_Start p sz)
    then show ?thesis using begin_realloc_keeps inv by simp
  next
    case (R_Malloc h old al sz pc')
    then show ?thesis
      using realloc_keeps [OF _ _ ok, of st pc' h old al sz P H] inv c by (simp add: add_mset_commute)
  next
    case (R_Free p pc')
    then show ?thesis
      using realloc_free_keeps [OF _ _ ok, of st pc' p P H] inv c by (simp add: add_mset_commute)
  qed (use False in simp_all)
qed

end
