(* ===== verification/P2_Threads_Correct.thy ===== *)
theory P2_Threads_Correct
  imports P2_Threads_Calls
begin

text \<open>
  Every state that threads can reach from program start satisfies the invariant of
  \<open>P2_Threads_Inv\<close>, and while a thread is in the allocator, some thread can do a step that brings
  it nearer to its return.
\<close>

section \<open>Reachable states\<close>

definition all_frames :: "pc list \<Rightarrow> pc multiset" where
  "all_frames ps = all_of frames (mset ps)"

definition sys_inv :: "tstate \<Rightarrow> bool" where
  "sys_inv s \<longleftrightarrow> threads_inv (shared s) (all_frames (pcs s)) (mset (held s))
     \<and> (\<forall>pc \<in> set (pcs s). calls_ok pc)"

lemma mset_pcs:
  assumes "t < length xs"
  shows "mset xs = add_mset (xs ! t) (mset xs - {#xs ! t#})"
    and "mset (xs[t := x]) = add_mset x (mset xs - {#xs ! t#})"
  using assms by (simp_all add: mset_update)

lemma frames_pcs:
  assumes "t < length xs"
  shows "all_frames xs = frames (xs ! t) + all_of frames (mset xs - {#xs ! t#})"
    and "all_frames (xs[t := x]) = frames x + all_of frames (mset xs - {#xs ! t#})"
proof -
  show "all_frames xs = frames (xs ! t) + all_of frames (mset xs - {#xs ! t#})"
    unfolding all_frames_def by (subst mset_pcs(1) [OF assms]) simp
  show "all_frames (xs[t := x]) = frames x + all_of frames (mset xs - {#xs ! t#})"
    by (simp add: all_frames_def mset_pcs(2) [OF assms])
qed

lemma sys_inv_thread:
  assumes "sys_inv s" and "t < length (pcs s)"
  shows "threads_inv (shared s)
      (frames (pcs s ! t) + all_of frames (mset (pcs s) - {#pcs s ! t#})) (mset (held s))"
    and "calls_ok (pcs s ! t)"
  using assms frames_pcs(1) [OF assms(2)] by (simp_all add: sys_inv_def)

lemma sys_inv_update:
  assumes "sys_inv s" and "t < length (pcs s)" and "calls_ok pc"
    and "threads_inv st (frames pc + all_of frames (mset (pcs s) - {#pcs s ! t#})) (mset hs)"
  shows "sys_inv \<lparr>shared = st, pcs = (pcs s)[t := pc], held = hs\<rparr>"
  using assms set_update_subset_insert [of "pcs s" t pc]
  by (auto simp: sys_inv_def frames_pcs(2) dest: subsetD)

lemma threads_inv_pass:
  assumes inv: "threads_inv st (add_mset Idle P) H" and p: "p \<in># H"
    and pc: "\<And>i. \<not> in_section i pc" "blk pc = {#}" "raw pc = {#}" "counted pc = 0" "uncounted pc = 0"
      "\<And>g. pc_ok g pc" "p \<noteq> NULL \<Longrightarrow> passed pc = {#p#}"
  shows "threads_inv st (add_mset pc P) (H - {#p#})"
proof -
  obtain g L where r: "ready st (add_mset Idle P) H g L"
    using threads_inv_held [OF inv p(1)] .
  have "p \<noteq> NULL" by (rule held_not_null [OF r]) (use readyD(4) [OF r] p in simp)
  then have "ready st (add_mset pc P) (H - {#p#}) g L"
    by (intro ready_step [OF r]) (use readyD [OF r] p pc in simp_all)
  then show ?thesis by (rule ready_inv)
qed

lemma threads_inv_store:
  assumes inv: "threads_inv st P H" and p: "p \<in># H"
    and sz: "hdr_size (mem st) (p - P2_HEADER_SIZE) = Some sz" and k: "k < unat sz"
    and m: "store8 (mem st) (p + of_nat k) v = Some m"
  shows "threads_inv (st\<lparr>mem := m\<rparr>) P H"
proof -
  obtain g L where r: "ready st P H g L" using threads_inv_held [OF inv p] .
  have "p \<in># H + all_of passed P" using p by simp
  from held_block [OF r this]
  obtain h sz' al where l: "p = h + 16" "(h, sz', al) \<in># a_live g - all_of raw P" by blast
  note pp = readyD(5) [OF r]
  have "load64 (mem st) h = Some sz'" using part_header_of [OF pp l(2)] by simp
  then have "sz' = sz" using sz by (simp add: l(1) hdr_size_def)
  note l = l [unfolded this]
  have "unat (p + of_nat k) = unat (h + 16) + k"
    using k live_block(4) [OF pp l(2)] unat_add_num [of "h + 16" k] by (simp add: l(1))
  moreover have "changes {unat (p + of_nat k)} (mem st) m"
    using m by (auto simp: store8_def changes_def split: if_splits)
  ultimately have "p2_part m (heads st) g (all_of raw P)"
    using k by (intro part_payload [OF pp l(2)]) auto
  then show ?thesis by (rule ready_inv [OF ready_mem [OF r]])
qed

lemma sys_inv_call:
  assumes inv: "sys_inv s" and t: "t < length (pcs s)" "pcs s ! t = Idle" and out: "outside pc" "calls_ok pc"
    "frames pc = {#pc#}"
  shows "sys_inv (s\<lparr>pcs := (pcs s)[t := pc]\<rparr>)"
proof -
  have "threads_inv (shared s) (add_mset Idle (all_of frames (mset (pcs s) - {#Idle#}))) (mset (held s))"
    using sys_inv_thread(1) [OF inv t(1)] by (simp add: t(2))
  from threads_inv_outside [OF this _ out(1)] show ?thesis
    using sys_inv_update [OF inv t(1) out(2), of "shared s" "held s"] out(3)
    by (simp add: t(2) sys_inv_def)
qed

lemma sys_inv_call_ptr:
  assumes inv: "sys_inv s" and t: "t < length (pcs s)" "pcs s ! t = Idle"
    and p: "p = NULL \<or> p \<in> set (held s)" and pc: "pc = F_Start p \<or> pc = R_Start p sz \<and> unat sz + 16 < 2 ^ 64"
  shows "sys_inv (s\<lparr>pcs := (pcs s)[t := pc], held := remove1 p (held s)\<rparr>)"
proof -
  have i: "threads_inv (shared s) (add_mset Idle (all_of frames (mset (pcs s) - {#Idle#}))) (mset (held s))"
    using sys_inv_thread(1) [OF inv t(1)] by (simp add: t(2))
  show ?thesis
  proof (cases "p \<in> set (held s)")
    case True
    then have "threads_inv (shared s) (add_mset pc (all_of frames (mset (pcs s) - {#Idle#}))) (mset (held s) - {#p#})"
      using pc by (intro threads_inv_pass [OF i]) auto
    then show ?thesis
      using sys_inv_update [OF inv t(1), of pc "shared s" "remove1 p (held s)"] pc
      by (auto simp: t(2) sys_inv_def)
  next
    case False
    then have "remove1 p (held s) = held s" and "outside pc" using p pc by (auto simp: remove1_idem)
    then show ?thesis using sys_inv_call [OF inv t, of pc] pc by auto
  qed
qed

lemma sys_inv_step:
  assumes "threads os s s'" and "sys_inv s" and "kernel_ok os"
  shows "sys_inv s'"
  using assms
proof (induction rule: threads.induct)
  case (goes t s st pc)
  note k = thread_step_keeps [OF sys_inv_thread [OF goes.prems(1) goes.hyps(1)] goes.prems(2)]
  show ?case
    using sys_inv_update [OF goes.prems(1) goes.hyps(1), of pc st "held s"] k goes.hyps(2)
    by (simp add: sys_inv_def)
next
  case (gives t s st p)
  note k = thread_step_keeps [OF sys_inv_thread [OF gives.prems(1) gives.hyps(1)] gives.prems(2)]
  show ?case
    using sys_inv_update [OF gives.prems(1) gives.hyps(1), of Idle st "p # held s"] k gives.hyps(2)
    by (simp add: sys_inv_def)
next
  case (stores t s p sz k v m)
  then show ?case
    using threads_inv_store [of "shared s" _ _ p sz k v m] by (simp add: sys_inv_def)
qed (use sys_inv_call sys_inv_call_ptr in simp_all)

lemma runs_inv:
  assumes "runs_to os s s'" and "sys_inv s" and "kernel_ok os"
  shows "sys_inv s'"
  using assms(1,2) unfolding runs_to_def
  by (induction rule: rtranclp_induct) (auto intro: sys_inv_step [OF _ _ assms(3)])

lemma all_idle_frames: "all_frames (replicate n Idle) = replicate_mset n Idle"
  by (induction n) (simp_all add: all_frames_def)

lemma sys_inv_start: "p2_boot st \<Longrightarrow> sys_inv (threads_start n st)"
  by (auto simp: sys_inv_def threads_start_def threads_inv_def early_def all_idle_frames)

lemmas reach_inv = runs_inv [OF _ sys_inv_start]

lemma sys_inv_defined:
  assumes "sys_inv s" and "kernel_ok os" and "t < length (pcs s)"
  shows "thread_step os (pcs s ! t) (shared s) \<noteq> Undef"
  using thread_step_keeps [OF sys_inv_thread [OF assms(1,3)] assms(2)] by auto

section \<open>Progress\<close>

text \<open>An upper bound on the steps a call still has to do, those in the spin loop aside.\<close>

fun to_go :: "pc \<Rightarrow> nat" where
  "to_go Idle = 0"
| "to_go (M_Start sz) = 9"
| "to_go (M_Init sz) = 8"
| "to_go (M_Ready sz) = 7"
| "to_go (M_Spin sz) = 7"
| "to_go (M_Large sz) = 6"
| "to_go (M_LCount sz h al) = 5"
| "to_go (M_LTotal sz h al) = 4"
| "to_go (M_Lock sz i) = 6"
| "to_go (M_Refill sz i) = 5"
| "to_go (M_Take sz i) = 4"
| "to_go (M_Fail i) = 1"
| "to_go (M_Unlock sz i h) = 3"
| "to_go (M_Header sz h) = 2"
| "to_go (F_Start p) = 6"
| "to_go (F_LTotal h sz al) = 5"
| "to_go (F_Unmap h sz al) = 4"
| "to_go (F_Lock h sz i) = 5"
| "to_go (F_Insert h sz i) = 4"
| "to_go (F_Unlock i) = 3"
| "to_go (C_Start nmemb sz) = 11"
| "to_go (C_Malloc n pc) = 1 + to_go pc"
| "to_go (R_Start p sz) = 18"
| "to_go (R_Add h old sz) = 2"
| "to_go (R_Size h old sz) = 1"
| "to_go (R_Malloc h old al sz pc) = 8 + to_go pc"
| "to_go (R_Free p pc) = 1 + to_go pc"

definition advances :: "os \<Rightarrow> pc \<Rightarrow> p2state \<Rightarrow> bool" where
  "advances os pc st = (case thread_step os pc st of Goes st' pc' \<Rightarrow> to_go pc' < to_go pc
     | Gives st' p \<Rightarrow> True | _ \<Rightarrow> False)"

text \<open>The function that is executing: the one called last.\<close>

fun inner :: "pc \<Rightarrow> pc" where
  "inner (C_Malloc n pc) = pc"
| "inner (R_Malloc h old al sz pc) = pc"
| "inner (R_Free p pc) = pc"
| "inner pc = pc"

fun wants :: "pc \<Rightarrow> nat option" where
  "wants (M_Lock sz i) = Some i"
| "wants (F_Lock h sz i) = Some i"
| "wants _ = None"

definition waits :: "pc \<Rightarrow> p2state \<Rightarrow> bool" where
  "waits pc st \<longleftrightarrow> (\<exists>i fl. wants pc = Some i \<and> fl_at st i = Some fl \<and> lock fl = Locked)
     \<or> (\<exists>sz. pc = M_Spin sz \<and> init_state st \<noteq> 2)"

lemma basic_step_cases:
  "basic pc \<Longrightarrow> pc \<noteq> Idle \<Longrightarrow> thread_step os pc st = Undef \<or> advances os pc st \<or> waits pc st"
  by (cases pc) (auto simp: advances_def step_defs waits_def split: option.splits prod.splits)

lemma step_cases:
  assumes "calls_ok pc" and "pc \<noteq> Idle"
  shows "thread_step os pc st = Undef \<or> advances os pc st \<or> waits (inner pc) st"
proof (cases pc)
  case (C_Start n sz)
  then show ?thesis by (simp add: advances_def begin_calloc_def)
next
  case (R_Start p sz)
  then show ?thesis
    by (auto simp: advances_def begin_realloc_def attempt_def Let_def split: option.splits)
next
  case (C_Malloc n pc')
  then have "serves n pc'" "pc' \<noteq> Idle" using assms(1) by auto
  from basic_step_cases [OF called_basic(1) [OF this(1)] this(2), of os st] show ?thesis
    by (cases "thread_step os pc' st")
      (auto simp: C_Malloc advances_def in_calloc_def attempt_def split: option.splits)
next
  case (R_Malloc h old al sz pc')
  then have "serves sz pc'" "pc' \<noteq> Idle" using assms(1) by auto
  from basic_step_cases [OF called_basic(1) [OF this(1)] this(2), of os st] show ?thesis
    by (cases "thread_step os pc' st")
      (auto simp: R_Malloc advances_def in_realloc_def attempt_def Let_def split: option.splits)
next
  case (R_Free p pc')
  then have "frees pc'" "pc' \<noteq> Idle" using assms(1) by auto
  from basic_step_cases [OF called_basic(2) [OF this(1)] this(2), of os st] show ?thesis
    by (cases "thread_step os pc' st") (auto simp: R_Free advances_def in_realloc_free_def)
qed (use assms basic_step_cases [of pc os st] in simp_all)

lemma inner_frame: "inner pc \<in># frames pc"
  by (cases pc) simp_all

lemma in_section_inner:
  "in_section i (inner pc) = in_section i pc" "in_init (inner pc) = in_init pc"
  "pc' \<in># frames pc \<Longrightarrow> in_section i pc' \<Longrightarrow> in_section i pc"
  by (cases pc; auto)+

lemma in_all_frames: "f \<in># all_frames ps \<longleftrightarrow> (\<exists>pc \<in> set ps. f \<in># frames pc)"
  by (induction ps) (auto simp: all_frames_def)

lemma frames_cases: "f \<in># frames pc \<Longrightarrow> f = inner pc \<or> \<not> in_init f"
  by (cases pc) auto

lemma not_waits:
  "outside pc \<Longrightarrow> \<not> waits pc st" "in_section i pc \<Longrightarrow> \<not> waits pc st" "in_init pc \<Longrightarrow> \<not> waits pc st"
  by (cases pc; simp add: waits_def)+

lemma sys_progress:
  assumes inv: "sys_inv s" and ok: "kernel_ok os" and t: "t < length (pcs s)" "pcs s ! t \<noteq> Idle"
  shows "\<exists>u < length (pcs s). advances os (pcs s ! u) (shared s)"
proof -
  let ?st = "shared s" and ?P = "all_frames (pcs s)"
  have adv: ?thesis if "pc \<in> set (pcs s)" "pc \<noteq> Idle" "\<not> waits (inner pc) ?st" for pc
  proof -
    obtain u where u: "u < length (pcs s)" "pc = pcs s ! u"
      using \<open>pc \<in> set (pcs s)\<close> by (metis in_set_conv_nth)
    then show ?thesis
      using step_cases [of pc os ?st] sys_inv_defined [OF inv ok u(1)] sys_inv_thread(2) [OF inv u(1)] that(2,3)
      by blast
  qed
  let ?pc = "pcs s ! t"
  have tP: "?pc \<in> set (pcs s)" using t(1) by simp
  then have fP: "inner ?pc \<in># ?P" using inner_frame [of ?pc] by (auto simp only: in_all_frames)
  have "threads_inv ?st ?P (mset (held s))" using inv by (simp add: sys_inv_def)
  then show ?thesis
    unfolding threads_inv_def
  proof (elim disjE exE)
    assume "early ?st ?P (mset (held s))"
    then have "outside (inner ?pc)" using fP by (simp add: early_def)
    then show ?thesis by (intro adv [OF tP t(2)] not_waits(1))
  next
    assume "initing ?st ?P (mset (held s))"
    then obtain p0 where p0: "p0 \<in># ?P" "in_init p0"
      unfolding initing_def by (metis in_init.simps(1,2) union_single_eq_member)
    then obtain pc where pc: "pc \<in> set (pcs s)" "inner pc = p0"
      using frames_cases by (auto simp: in_all_frames)
    show ?thesis by (rule adv [OF pc(1)]) (use p0(2) pc(2) not_waits(3) in auto)
  next
    fix g L
    assume r: "ready ?st ?P (mset (held s)) g L"
    note d = readyD [OF r]
    show ?thesis
    proof (cases "\<exists>q \<in> set (pcs s). \<exists>i. in_section i q")
      case True
      then obtain q i where q: "q \<in> set (pcs s)" "in_section i (inner q)" by (auto simp: in_section_inner(1))
      show ?thesis by (rule adv [OF q(1)]) (use q(2) not_waits(2) in auto)
    next
      case False
      show ?thesis
      proof (rule adv [OF tP t(2)])
        have "lock fl \<noteq> Locked" if w: "wants (inner ?pc) = Some i" and fl: "fl_at ?st i = Some fl" for i fl
        proof -
          have i: "i < 8" using w d(8) [OF fP] by (cases "inner ?pc") (auto simp: slab_request_def)
          have "holders i ?P = 0"
            unfolding holders_def filter_mset_eq_mempty_iff size_eq_0_iff_empty in_all_frames
            using False in_section_inner(3) by blast
          then show ?thesis using sectionsD(1,5) [OF d(2) i] fl by simp
        qed
        then show "\<not> waits (inner ?pc) ?st" using d(1) by (auto simp: waits_def)
      qed
    qed
  qed
qed

end
