(* ===== verification/P2_Threads_Alone.thy ===== *)
theory P2_Threads_Alone
  imports P2_Threads_Correct P2_Client
begin

text \<open>
  A thread that runs while the others rest.  \<open>returns\<close> is its run from a program counter to the
  return of the call; it goes through the callers of \<open>P2_Threads_Calls\<close> by composition, and for
  each function of the interface it is the call of the sequential function.
\<close>

section \<open>Runs of one thread\<close>

text \<open>The result is the block handed out, if one is.\<close>

inductive returns :: "os \<Rightarrow> pc \<Rightarrow> p2state \<Rightarrow> addr option \<Rightarrow> p2state \<Rightarrow> bool" for os where
  goes_on: "thread_step os pc st = Goes st1 pc1 \<Longrightarrow> pc1 \<noteq> Idle \<Longrightarrow> returns os pc1 st1 r st'
     \<Longrightarrow> returns os pc st r st'"
| no_block: "thread_step os pc st = Goes st' Idle \<Longrightarrow> returns os pc st None st'"
| a_block: "thread_step os pc st = Gives st' p \<Longrightarrow> returns os pc st (Some p) st'"

text \<open>Thread \<open>t\<close> of \<open>s\<close> at \<open>pc\<close>, the others where they are.\<close>

definition at :: "tstate \<Rightarrow> nat \<Rightarrow> p2state \<Rightarrow> pc \<Rightarrow> addr list \<Rightarrow> tstate" where
  "at s t st pc hs = \<lparr>shared = st, pcs = (pcs s)[t := pc], held = hs\<rparr>"

lemma at_refl: "pcs s ! t = pc \<Longrightarrow> at s t (shared s) pc (held s) = s"
  by (auto simp: at_def)

lemma runs_refl [simp]: "runs_to os s s"
  by (simp add: runs_to_def)

lemma runs_step: "threads os s s' \<Longrightarrow> runs_to os s' s'' \<Longrightarrow> runs_to os s s''"
  unfolding runs_to_def by (rule converse_rtranclp_into_rtranclp)

lemma runs_trans: "runs_to os s s' \<Longrightarrow> runs_to os s' s'' \<Longrightarrow> runs_to os s s''"
  unfolding runs_to_def by (rule rtranclp_trans)

lemma runs_goes:
  assumes "t < length (pcs s)" and "thread_step os pc st = Goes st' pc'"
  shows "runs_to os (at s t st pc hs) (at s t st' pc' hs)"
proof -
  have "threads os (at s t st pc hs) (at s t st' pc' hs)"
    using threads.goes [of t "at s t st pc hs" os st' pc'] assms(1,2) by (simp add: at_def)
  then show ?thesis by (rule runs_step) simp
qed

lemma runs_gives:
  assumes "t < length (pcs s)" and "thread_step os pc st = Gives st' p"
  shows "runs_to os (at s t st pc hs) (at s t st' Idle (p # hs))"
proof -
  have "threads os (at s t st pc hs) (at s t st' Idle (p # hs))"
    using threads.gives [of t "at s t st pc hs" os st' p] assms by (simp add: at_def)
  then show ?thesis by (rule runs_step) simp
qed

definition hand :: "addr option \<Rightarrow> addr list \<Rightarrow> addr list" where
  "hand r hs = (case r of None \<Rightarrow> hs | Some p \<Rightarrow> p # hs)"

lemma runs_returns:
  assumes "returns os pc st r st'" and "t < length (pcs s)"
  shows "runs_to os (at s t st pc hs) (at s t st' Idle (hand r hs))"
  using assms
proof (induction rule: returns.induct)
  case (goes_on pc st st1 pc1 r st')
  then show ?case using runs_trans [OF runs_goes] by blast
qed (simp_all add: hand_def runs_goes runs_gives)

text \<open>What a call that returns \<open>p\<close> has handed out.\<close>

definition answer :: "addr \<Rightarrow> addr option \<Rightarrow> bool" where
  "answer p r \<longleftrightarrow> p = NULL \<and> r = None \<or> r = Some p"

section \<open>Allocation\<close>

lemma refill_freelists:
  "p2malloc_refill os i st = Some (ok, st') \<Longrightarrow> freelists st' = freelists st"
  by (auto simp: p2malloc_refill_def Let_def split: if_splits prod.splits elim!: bind_SomeE)

lemma alone_slab:
  assumes run: "p2malloc_slab os sz i st = Some (p, st')"
  shows "\<exists>r. answer p r \<and> returns os (M_Lock sz i) st r st'"
proof -
  obtain fl ok st2 where fl: "fl_at st i = Some fl" "lock fl = Unlocked"
    and rf: "p2malloc_refill os i (set_fl st i (fl\<lparr>lock := Locked\<rparr>)) = Some (ok, st2)"
    using run by (auto simp: p2malloc_slab_def MUTEX_LOCK_def split: if_splits elim!: bind_SomeE)
  let ?fl = "fl\<lparr>lock := Unlocked\<rparr>"
  have i: "i < length (freelists st)" using fl(1) by (simp add: fl_at_def split: if_splits)
  then have fl2: "fl_at st2 i = Some (fl\<lparr>lock := Locked\<rparr>)"
    using refill_freelists [OF rf] by (simp add: fl_at_def set_fl_def)
  have un: "unlock_list i x pc = Goes (set_fl x i ?fl) pc" if "freelists x = freelists st2" for x pc
    using fl2 that by (simp add: unlock_list_def MUTEX_UNLOCK_def fl_at_def split: if_splits)
  have lk: "thread_step os (M_Lock sz i) st = Goes (set_fl st i (fl\<lparr>lock := Locked\<rparr>)) (M_Refill sz i)"
    using fl by (simp add: lock_list_def MUTEX_LOCK_def)
  show ?thesis
  proof (cases ok)
    case False
    then have eq: "p = NULL" "st' = set_fl st2 i ?fl"
      using run fl rf by (auto simp: p2malloc_slab_def MUTEX_LOCK_def MUTEX_UNLOCK_def)
    have rf': "thread_step os (M_Refill sz i) (set_fl st i (fl\<lparr>lock := Locked\<rparr>)) = Goes st2 (M_Fail i)"
      using rf False by simp
    have ul: "thread_step os (M_Fail i) st2 = Goes st' Idle"
      using un [of st2 Idle] by (simp add: eq(2))
    have "returns os (M_Lock sz i) st None st'"
      by (rule goes_on [OF lk _ goes_on [OF rf' _ no_block [OF ul]]]) simp_all
    then show ?thesis by (auto simp: answer_def eq(1))
  next
    case True
    obtain x m1 m2 m3 where x: "ps_list_head_first_d (mem st2) (list_head fl) = Some x"
        "ps_list_rem_d (mem st2) x = Some m1" "set_hdr_size m1 x sz = Some m2"
        "set_hdr_alloc_size m2 x 0 = Some m3"
      and st': "p = x + 16" "st' = (set_fl st2 i ?fl)\<lparr>mem := m3, allocated := allocated st2 + sz\<rparr>"
      using run fl rf True
      by (auto simp: p2malloc_slab_def MUTEX_LOCK_def MUTEX_UNLOCK_def elim!: bind_SomeE)
    let ?st3 = "st2\<lparr>mem := m1\<rparr>"
    have tk: "thread_step os (M_Take sz i) st2 = Goes ?st3 (M_Unlock sz i x)"
      using fl2 x(1,2) by (simp add: take_block_def)
    have hd: "thread_step os (M_Header sz x) (set_fl ?st3 i ?fl) = Gives st' p"
      using x(3,4) by (simp add: write_header_def st')
    have rf': "thread_step os (M_Refill sz i) (set_fl st i (fl\<lparr>lock := Locked\<rparr>)) = Goes st2 (M_Take sz i)"
      using rf True by simp
    have ul: "thread_step os (M_Unlock sz i x) ?st3 = Goes (set_fl ?st3 i ?fl) (M_Header sz x)"
      using un [of ?st3 "M_Header sz x"] by simp
    have "returns os (M_Lock sz i) st (Some p) st'"
      by (rule goes_on [OF lk _ goes_on [OF rf' _ goes_on [OF tk _ goes_on [OF ul _ a_block [OF hd]]]]]) simp_all
    then show ?thesis by (auto simp: answer_def)
  qed
qed

lemma alone_large:
  assumes run: "p2malloc_large os sz st = Some (p, st')"
  shows "\<exists>r. answer p r \<and> returns os (M_Large sz) st r st'"
proof -
  define al where "al = page_align (16 + sz)"
  obtain h m where m: "os_alloc os (mem st) al = (h, m)" by force
  show ?thesis
  proof (cases "h = NULL")
    case True
    then have "p = NULL" and "st' = st\<lparr>mem := m\<rparr>"
      using run m by (simp_all add: p2malloc_large_def al_def [symmetric])
    moreover have "returns os (M_Large sz) st None (st\<lparr>mem := m\<rparr>)"
      by (rule no_block) (use m True in \<open>simp add: map_large_def al_def [symmetric]\<close>)
    ultimately show ?thesis by (auto simp: answer_def)
  next
    case False
    obtain m2 m3 where m3: "set_hdr_size m h sz = Some m2" "set_hdr_alloc_size m2 h al = Some m3"
      and st': "p = h + P2_HEADER_SIZE"
        "st' = st\<lparr>mem := m3, allocated := allocated st + sz, totmem := totmem st + al\<rparr>"
      using run m False by (auto simp: p2malloc_large_def al_def [symmetric] elim!: bind_SomeE)
    have ml: "thread_step os (M_Large sz) st = Goes (st\<lparr>mem := m3\<rparr>) (M_LCount sz h al)"
      using m m3 False by (simp add: map_large_def al_def [symmetric])
    have gv: "thread_step os (M_LTotal sz h al) (st\<lparr>mem := m3, allocated := allocated st + sz\<rparr>) = Gives st' p"
      by (simp add: st')
    have "thread_step os (M_LCount sz h al) (st\<lparr>mem := m3\<rparr>)
        = Goes (st\<lparr>mem := m3, allocated := allocated st + sz\<rparr>) (M_LTotal sz h al)"
      by simp
    from goes_on [OF ml _ goes_on [OF this _ a_block [OF gv]]]
    show ?thesis by (auto simp: answer_def)
  qed
qed

lemma dispatch_not_idle [simp]: "dispatch sz \<noteq> Idle"
  by (simp add: dispatch_def Let_def)

lemma alone_dispatch:
  assumes run: "(let idx = get_freelist_idx sz in
      if idx = -1 then p2malloc_large os sz st else p2malloc_slab os sz (nat idx) st) = Some (p, st')"
  shows "\<exists>r. answer p r \<and> returns os (dispatch sz) st r st'"
  using alone_large [of os sz st p st'] alone_slab [of os sz "nat (get_freelist_idx sz)" st p st'] run
  by (simp add: dispatch_def Let_def split: if_splits)

lemma alone_malloc:
  assumes run: "p2malloc os sz st = Some (p, st')"
  shows "\<exists>r. answer p r \<and> returns os (M_Start sz) st r st'"
proof (cases "sz = 0 \<or> sz > SIZE_MAX - P2_HEADER_SIZE")
  case True
  then have "p = NULL" and "st' = st" using run by (auto simp: p2malloc_def split: if_splits)
  moreover have "returns os (M_Start sz) st None st"
    by (rule no_block) (use True in auto)
  ultimately show ?thesis by (auto simp: answer_def)
next
  case False
  then obtain st2 where st2: "ensure_init st = Some st2"
    and rest: "(let idx = get_freelist_idx sz in
      if idx = -1 then p2malloc_large os sz st2 else p2malloc_slab os sz (nat idx) st2) = Some (p, st')"
    using run by (auto simp: p2malloc_def Let_def split: if_splits elim!: bind_SomeE)
  obtain r where r: "answer p r" and go: "returns os (dispatch sz) st2 r st'"
    using alone_dispatch [OF rest] by blast
  show ?thesis
  proof (cases "init_state st = 0")
    case True
    then obtain st1 where st1: "freelists_init (st\<lparr>init_state := 1\<rparr>) = Some st1"
      and eq: "st2 = st1\<lparr>init_state := 2\<rparr>"
      using st2 by (auto simp: ensure_init_def elim!: bind_SomeE)
    have ms: "thread_step os (M_Start sz) st = Goes (st\<lparr>init_state := 1\<rparr>) (M_Init sz)"
      using False True by simp
    have mi: "thread_step os (M_Init sz) (st\<lparr>init_state := 1\<rparr>) = Goes st1 (M_Ready sz)"
      using st1 by simp
    have mr: "thread_step os (M_Ready sz) st1 = Goes st2 (dispatch sz)" by (simp add: eq)
    show ?thesis using goes_on [OF ms _ goes_on [OF mi _ goes_on [OF mr _ go]]] r by auto
  next
    case init: False
    then have eq: "init_state st = 2" "st2 = st"
      using st2 by (simp_all add: ensure_init_def split: if_splits)
    have ms: "thread_step os (M_Start sz) st = Goes st (M_Spin sz)"
      using False eq(1) by simp
    have sp: "thread_step os (M_Spin sz) st = Goes st2 (dispatch sz)" using eq by simp
    show ?thesis using goes_on [OF ms _ goes_on [OF sp _ go]] r by auto
  qed
qed

section \<open>Release\<close>

lemma set_fl_twice [simp]: "set_fl (set_fl st i a) i b = set_fl st i b"
  by (simp add: set_fl_def)

lemma fl_at_update [simp]:
  "fl_at (st\<lparr>mem := m\<rparr>) i = fl_at st i"
  "fl_at (st\<lparr>allocated := a\<rparr>) i = fl_at st i"
  by (simp_all add: fl_at_def)

lemma alone_free:
  assumes run: "p2free p st = Some st'"
  shows "returns os (F_Start p) st None st'"
proof (cases "p = NULL")
  case True
  show ?thesis by (rule no_block) (use True run in \<open>simp add: begin_free_def p2free_def\<close>)
next
  case False
  define h where "h = p - 16"
  obtain large where large: "IS_LARGE (mem st) h = Some large"
    using run False by (auto simp: p2free_def h_def Let_def elim!: bind_SomeE)
  obtain sz where sz: "hdr_size (mem st) h = Some sz"
    using run False large by (auto simp: p2free_def h_def [symmetric] Let_def split: if_splits elim!: bind_SomeE)
  show ?thesis
  proof (cases large)
    case True
    obtain al m where al: "hdr_alloc_size (mem st) h = Some al" "os_free (mem st) h al = Some m"
      and st': "st' = st\<lparr>mem := m, allocated := allocated st - sz, totmem := totmem st - al\<rparr>"
      using run False large sz True
      by (auto simp: p2free_def h_def [symmetric] Let_def elim!: bind_SomeE)
    have fs: "thread_step os (F_Start p) st
        = Goes (st\<lparr>allocated := allocated st - sz\<rparr>) (F_LTotal h sz al)"
      using False large sz al(1) True by (simp add: begin_free_def h_def [symmetric])
    have fu: "thread_step os (F_Unmap h sz al)
        (st\<lparr>allocated := allocated st - sz, totmem := totmem st - al\<rparr>) = Goes st' Idle"
      using al(2) by (simp add: st')
    have "thread_step os (F_LTotal h sz al) (st\<lparr>allocated := allocated st - sz\<rparr>)
        = Goes (st\<lparr>allocated := allocated st - sz, totmem := totmem st - al\<rparr>) (F_Unmap h sz al)"
      by simp
    from goes_on [OF fs _ goes_on [OF this _ no_block [OF fu]]] show ?thesis by simp
  next
    case slab: False
    define i where "i = nat (get_freelist_idx sz)"
    obtain m1 fl m2 where m1: "memset (mem st) p 0 (unat sizeof_size_t) = Some m1"
      and idx: "0 \<le> get_freelist_idx sz" "get_freelist_idx sz < int NUM_FREELISTS"
      and fl: "fl_at st i = Some fl" "lock fl = Unlocked"
      and m2: "p2orderedinsert m1 h (fl\<lparr>lock := Locked\<rparr>) = Some m2"
      and st': "st' = set_fl (st\<lparr>mem := m2, allocated := allocated st - sz\<rparr>) i (fl\<lparr>lock := Unlocked\<rparr>)"
      using run False large sz slab
      by (auto simp: p2free_def h_def [symmetric] i_def [symmetric] Let_def MUTEX_LOCK_def
          MUTEX_UNLOCK_def fl_at_def split: if_splits elim!: bind_SomeE)
    let ?st1 = "st\<lparr>mem := m1, allocated := allocated st - sz\<rparr>"
    let ?st2 = "set_fl ?st1 i (fl\<lparr>lock := Locked\<rparr>)"
    have i: "i < length (freelists st)" using fl(1) by (simp add: fl_at_def split: if_splits)
    have fl2: "fl_at (set_fl st i (fl\<lparr>lock := Locked\<rparr>)) i = Some (fl\<lparr>lock := Locked\<rparr>)"
      using i by (rule fl_at_set_fl)
    have fs: "thread_step os (F_Start p) st = Goes ?st1 (F_Lock h sz i)"
      using False large sz slab m1 idx
      by (simp add: begin_free_def h_def [symmetric] i_def [symmetric])
    have lk: "thread_step os (F_Lock h sz i) ?st1 = Goes ?st2 (F_Insert h sz i)"
      using fl by (simp add: lock_list_def MUTEX_LOCK_def fl_at_def split: if_splits)
    have ins: "thread_step os (F_Insert h sz i) ?st2 = Goes (?st2\<lparr>mem := m2\<rparr>) (F_Unlock i)"
      using m2 by (simp add: insert_block_def fl2)
    have ul: "thread_step os (F_Unlock i) (?st2\<lparr>mem := m2\<rparr>) = Goes st' Idle"
      using fl2 by (simp add: unlock_list_def MUTEX_UNLOCK_def st')
    from goes_on [OF fs _ goes_on [OF lk _ goes_on [OF ins _ no_block [OF ul]]]] show ?thesis by simp
  qed
qed

section \<open>Array allocation and resizing\<close>

lemma returns_not_idle: "returns os pc st r st' \<Longrightarrow> pc \<noteq> Idle"
  by (induction rule: returns.induct) auto

lemma returns_calloc:
  assumes "returns os pc st r st'"
  shows "r = None \<Longrightarrow> returns os (C_Malloc n pc) st None st'"
    and "r = Some p \<Longrightarrow> memset (mem st') p 0 (unat n) = Some m
      \<Longrightarrow> returns os (C_Malloc n pc) st (Some p) (st'\<lparr>mem := m\<rparr>)"
  using assms
  by (induction rule: returns.induct)
    (auto simp: in_calloc_def intro: returns.intros(2,3) returns.intros(1) [rotated 2])

lemma returns_realloc_free:
  assumes "returns os pc st r st'"
  shows "r = None \<Longrightarrow> returns os (R_Free p pc) st (Some p) st'"
  using assms
  by (induction rule: returns.induct)
    (auto simp: in_realloc_free_def intro: returns.intros(2,3) returns.intros(1) [rotated 2])

lemma returns_realloc:
  assumes "returns os pc st r st1"
  shows "r = None \<Longrightarrow> returns os (R_Malloc h old al sz pc) st (Some (h + 16)) st1"
    and "r = Some p \<Longrightarrow> memcpy (mem st1) p (h + 16) (unat (if old < sz then old else sz)) = Some m
      \<Longrightarrow> returns os (R_Free p (F_Start (h + 16))) (st1\<lparr>mem := m\<rparr>) r' st'
      \<Longrightarrow> returns os (R_Malloc h old al sz pc) st r' st'"
  using assms
  by (induction rule: returns.induct)
    (auto simp: in_realloc_def Let_def intro: returns.intros(2,3) returns.intros(1) [rotated 2])

text \<open>\<open>p2malloc\<close> does not hand out the null pointer.\<close>

definition never_null :: "os \<Rightarrow> p2state \<Rightarrow> bool" where
  "never_null os st \<longleftrightarrow> (\<forall>sz st'. \<not> returns os (M_Start sz) st (Some NULL) st')"

lemma malloc_answer:
  assumes "p2malloc os sz st = Some (p, st')" and "never_null os st"
  shows "returns os (M_Start sz) st (if p = NULL then None else Some p) st'"
proof -
  obtain r where "answer p r" "returns os (M_Start sz) st r st'" using alone_malloc [OF assms(1)] by blast
  then show ?thesis using assms(2) by (auto simp: answer_def never_null_def)
qed

lemma alone_calloc:
  assumes run: "p2calloc os nmemb sz st = Some (p, st')" and nn: "never_null os st"
  shows "returns os (C_Start nmemb sz) st (if p = NULL then None else Some p) st'"
proof (cases "nmemb = 0 \<or> sz = 0 \<or> SIZE_MAX div sz < nmemb")
  case True
  then have "p = NULL" "st' = st" using run by (auto simp: p2calloc_def split: if_splits)
  moreover have "thread_step os (C_Start nmemb sz) st = Goes st Idle"
    using True by (auto simp: begin_calloc_def)
  ultimately show ?thesis using no_block by auto
next
  case False
  let ?n = "nmemb * sz"
  have start: "thread_step os (C_Start nmemb sz) st = Goes st (C_Malloc ?n (M_Start ?n))"
    using False by (auto simp: begin_calloc_def)
  obtain q st1 where q: "p2malloc os ?n st = Some (q, st1)"
    and rest: "(if q \<noteq> NULL then do { m \<leftarrow> memset (mem st1) q 0 (unat ?n); Some (q, st1\<lparr>mem := m\<rparr>) }
      else Some (q, st1)) = Some (p, st')"
    using run False by (auto simp: p2calloc_def elim!: bind_SomeE)
  note ret = malloc_answer [OF q nn]
  have "returns os (C_Malloc ?n (M_Start ?n)) st (if p = NULL then None else Some p) st'"
    using rest ret returns_calloc(1) [OF ret, of ?n] returns_calloc(2) [OF ret, of q ?n]
    by (auto split: if_splits elim!: bind_SomeE)
  then show ?thesis by (intro goes_on [OF start]) simp_all
qed

text \<open>A moved block is another one; a \<open>p2realloc\<close> that fails leaves the caller its block.\<close>

definition kept :: "addr \<Rightarrow> u64 \<Rightarrow> addr \<Rightarrow> addr option" where
  "kept ptr sz p = (if p \<noteq> NULL then Some p else if ptr \<noteq> NULL \<and> sz \<noteq> 0 then Some ptr else None)"

lemma alone_realloc:
  assumes run: "p2realloc os ptr sz st = Some (p, st')" and nn: "never_null os st"
  shows "returns os (R_Start ptr sz) st (kept ptr sz p) st'"
proof -
  consider "ptr = NULL" | "ptr \<noteq> NULL" "sz = 0" | "ptr \<noteq> NULL" "sz \<noteq> 0" by blast
  then show ?thesis
  proof cases
    case 1
    then have "returns os (M_Start sz) st (if p = NULL then None else Some p) st'"
      using run by (intro malloc_answer [OF _ nn]) (simp add: p2realloc_def)
    then have "returns os (R_Start ptr sz) st (if p = NULL then None else Some p) st'"
      by (intro goes_on [of os "R_Start ptr sz" st st "M_Start sz"]) (simp_all add: 1 begin_realloc_def)
    with 1 show ?thesis by (simp add: kept_def split: if_splits)
  next
    case 2
    then have "returns os (F_Start ptr) st None st'" and "p = NULL"
      using run by (auto simp: p2realloc_def elim!: bind_SomeE intro: alone_free)
    moreover from this have "returns os (R_Start ptr sz) st None st'"
      by (intro goes_on [of os "R_Start ptr sz" st st "F_Start ptr"]) (simp_all add: 2 begin_realloc_def)
    ultimately show ?thesis using 2 by (simp add: kept_def)
  next
    case 3
    define h where "h = ptr - 16"
    have ptr: "h + 16 = ptr" by (simp add: h_def)
    obtain old al where hd: "hdr_size (mem st) h = Some old" "hdr_alloc_size (mem st) h = Some al"
      using run 3 by (auto simp: p2realloc_def h_def [symmetric] IS_LARGE_def Let_def elim!: bind_SomeE)
    show ?thesis
    proof (cases "al = 0 \<and> get_freelist_idx sz = get_freelist_idx old")
      case True
      obtain m where m: "set_hdr_size (mem st) h sz = Some m" and p: "p = ptr"
          and st': "st' = st\<lparr>mem := m, allocated := allocated st - old + sz\<rparr>"
        using run 3 hd True
        by (auto simp: p2realloc_def h_def [symmetric] IS_LARGE_def Let_def elim!: bind_SomeE)
      let ?st1 = "st\<lparr>allocated := allocated st - old\<rparr>"
      have 1: "thread_step os (R_Start ptr sz) st = Goes ?st1 (R_Add h old sz)"
        using 3 hd True by (simp add: begin_realloc_def h_def [symmetric])
      have 2: "thread_step os (R_Add h old sz) ?st1 = Goes (st\<lparr>allocated := allocated st - old + sz\<rparr>) (R_Size h old sz)"
        by simp
      have "thread_step os (R_Size h old sz) (st\<lparr>allocated := allocated st - old + sz\<rparr>) = Gives st' ptr"
        using m by (simp add: st' ptr)
      from goes_on [OF 1 _ goes_on [OF 2 _ a_block [OF this]]] 3 show ?thesis by (simp add: kept_def p)
    next
      case False
      have start: "thread_step os (R_Start ptr sz) st = Goes st (R_Malloc h old al sz (M_Start sz))"
        using 3 hd False by (auto simp: begin_realloc_def h_def [symmetric])
      obtain q st1 where q: "p2malloc os sz st = Some (q, st1)"
        and rest: "(if q = NULL then Some (NULL, st1) else do {
            m \<leftarrow> memcpy (mem st1) q ptr (unat (if old < sz then old else sz));
            st2 \<leftarrow> p2free ptr (st1\<lparr>mem := m\<rparr>);
            Some (q, st2) }) = Some (p, st')"
        using run 3 hd False
        by (auto simp: p2realloc_def h_def [symmetric] IS_LARGE_def Let_def elim!: bind_SomeE)
      note ret = malloc_answer [OF q nn]
      have "returns os (R_Malloc h old al sz (M_Start sz)) st (kept ptr sz p) st'"
      proof (cases "q = NULL")
        case True
        then show ?thesis
          using rest ret returns_realloc(1) [OF ret, of h old al sz] 3 by (simp add: kept_def ptr)
      next
        case False
        obtain m where m: "memcpy (mem st1) q (h + 16) (unat (if old < sz then old else sz)) = Some m"
            "p2free ptr (st1\<lparr>mem := m\<rparr>) = Some st'" and p: "p = q"
          using rest False ptr by (auto elim!: bind_SomeE)
        have "returns os (R_Free q (F_Start (h + 16))) (st1\<lparr>mem := m\<rparr>) (Some q) st'"
          using returns_realloc_free [OF alone_free [OF m(2)]] ptr by simp
        from returns_realloc(2) [OF ret _ m(1) this] False show ?thesis by (simp add: kept_def p)
      qed
      then show ?thesis by (intro goes_on [OF start]) simp_all
    qed
  qed
qed

section \<open>Calls\<close>

fun enter :: "call \<Rightarrow> pc" where
  "enter (Malloc sz) = M_Start sz"
| "enter (Calloc n sz) = C_Start n sz"
| "enter (Realloc p sz) = R_Start p sz"
| "enter (Free p) = F_Start p"
| "enter _ = Idle"

text \<open>The pointers held after a call that returned \<open>p\<close>.\<close>

fun held_after :: "call \<Rightarrow> addr \<Rightarrow> addr list \<Rightarrow> addr list" where
  "held_after (Realloc q sz) p hs = hand (kept q sz p) (remove1 q hs)"
| "held_after (Free q) p hs = remove1 q hs"
| "held_after _ p hs = (if p = NULL then hs else p # hs)"

text \<open>The calls threads make.\<close>

fun thread_call :: "call \<Rightarrow> addr list \<Rightarrow> bool" where
  "thread_call (Malloc sz) hs \<longleftrightarrow> True"
| "thread_call (Calloc n sz) hs \<longleftrightarrow> True"
| "thread_call (Realloc p sz) hs \<longleftrightarrow> (p = NULL \<or> p \<in> set hs) \<and> unat sz + 16 < 2 ^ 64"
| "thread_call (Free p) hs \<longleftrightarrow> p = NULL \<or> p \<in> set hs"
| "thread_call _ hs \<longleftrightarrow> False"

definition held_at :: "call \<Rightarrow> addr list \<Rightarrow> addr list" where
  "held_at c hs = (case c of Realloc p sz \<Rightarrow> remove1 p hs | Free p \<Rightarrow> remove1 p hs | _ \<Rightarrow> hs)"

lemma runs_enter:
  assumes "t < length (pcs s)" and "pcs s ! t = Idle" and "thread_call c (held s)"
  shows "runs_to os s (at s t (shared s) (enter c) (held_at c (held s)))"
proof -
  let ?s = "at s t (shared s) (enter c) (held_at c (held s))"
  have eq: "?s = s\<lparr>pcs := (pcs s)[t := enter c], held := held_at c (held s)\<rparr>" by (simp add: at_def)
  have "threads os s ?s"
    unfolding eq using assms(3)
      threads.call_malloc [OF assms(1,2), of os] threads.call_calloc [OF assms(1,2), of os]
      threads.call_free [OF assms(1,2)] threads.call_realloc [OF assms(1,2)]
    by (cases c) (simp_all add: held_at_def)
  then show ?thesis by (rule runs_step) simp
qed

lemma runs_to_never_null:
  assumes inv: "sys_inv s" and ok: "kernel_ok os" and t: "t < length (pcs s)" "pcs s ! t = Idle"
  shows "never_null os (shared s)"
  unfolding never_null_def
proof (intro allI notI)
  fix sz st'
  assume ret: "returns os (M_Start sz) (shared s) (Some NULL) st'"
  have "runs_to os s (at s t st' Idle (NULL # held s))"
    using runs_trans [OF runs_enter [OF t, of "Malloc sz" os] runs_returns [OF _ t(1)], of "Some NULL" st'] ret
    by (simp add: held_at_def hand_def)
  then have "sys_inv (at s t st' Idle (NULL # held s))" by (rule runs_inv [OF _ inv ok])
  then have "threads_inv st' (all_frames ((pcs s)[t := Idle])) (mset (NULL # held s))"
    by (simp add: sys_inv_def at_def)
  then obtain g L where r: "ready st' (all_frames ((pcs s)[t := Idle])) (mset (NULL # held s)) g L"
    using threads_inv_held [where p = NULL] by (metis mset.simps(2) union_single_eq_member)
  have "NULL \<noteq> NULL" by (rule held_not_null [OF r]) (simp add: readyD(4) [OF r])
  then show False by simp
qed

lemma runs_call:
  assumes inv: "sys_inv s" and ok: "kernel_ok os" and t: "t < length (pcs s)" "pcs s ! t = Idle"
    and c: "thread_call c (held s)" and run: "run_call os c (shared s) = Some (p, st)"
  shows "runs_to os s (at s t st Idle (held_after c p (held s)))"
proof -
  note nn = runs_to_never_null [OF inv ok t]
  have "\<exists>r. returns os (enter c) (shared s) r st \<and> hand r (held_at c (held s)) = held_after c p (held s)"
  proof (cases c)
    case (Malloc sz)
    then show ?thesis using malloc_answer [OF _ nn, of sz p st] run
      by (intro exI [of _ "if p = NULL then None else Some p"]) (simp add: held_at_def hand_def)
  next
    case (Calloc n sz)
    then show ?thesis using alone_calloc [OF _ nn, of n sz p st] run
      by (intro exI [of _ "if p = NULL then None else Some p"]) (simp add: held_at_def hand_def)
  next
    case (Realloc q sz)
    then show ?thesis using alone_realloc [OF _ nn, of q sz p st] run
      by (intro exI [of _ "kept q sz p"]) (simp add: held_at_def)
  next
    case (Free q)
    then show ?thesis using alone_free [of q "shared s" st os] run
      by (intro exI [of _ None]) (auto simp: held_at_def hand_def elim!: bind_SomeE)
  qed (use c in simp_all)
  then obtain r where "returns os (enter c) (shared s) r st"
    and h: "hand r (held_at c (held s)) = held_after c p (held s)"
    by blast
  from runs_returns [OF this(1) t(1)] runs_enter [OF t c] show ?thesis
    using runs_trans h by metis
qed

end
