(* ===== verification/P2_Threads_Properties.thy ===== *)
theory P2_Threads_Properties
  imports P2_Threads_Alone
begin

text \<open>
  What the invariant of \<open>P2_Threads_Inv\<close> means for the callers of the allocator.  The runs start
  with any number of threads that are outside the allocator, on a kernel that keeps the promises of
  \<open>mmap\<close>; each property is shown to apply on a run of two threads.
\<close>

section \<open>Two threads\<close>

lemma two_threads:
  assumes "t < length xs" and "u < length xs" and "t \<noteq> u"
  obtains M where "mset xs = add_mset (xs ! t) (add_mset (xs ! u) M)"
proof -
  have "xs ! u \<in># mset xs - {#xs ! t#}"
  proof -
    have "mset xs = add_mset (xs ! t) (mset (take t xs @ drop (Suc t) xs))"
      using mset_pcs(1) [OF assms(1)] id_take_nth_drop [OF assms(1)]
      by (metis mset.simps(2) mset_append union_mset_add_mset_right)
    moreover have "xs ! u \<in> set (take t xs @ drop (Suc t) xs)"
    proof (cases "u < t")
      case True
      then have "take t xs ! u \<in> set (take t xs)" using assms by (intro nth_mem) simp
      with True show ?thesis by simp
    next
      case False
      then have "drop (Suc t) xs ! (u - Suc t) \<in> set (drop (Suc t) xs)"
        using assms by (intro nth_mem) simp
      with False assms show ?thesis by simp
    qed
    ultimately show ?thesis by (simp add: in_multiset_in_set)
  qed
  then show ?thesis using that mset_pcs(1) [OF assms(1)] by (metis insert_DiffM)
qed

lemma two_frames:
  assumes "t < length ps" and "u < length ps" and "t \<noteq> u"
  obtains M where "all_frames ps = add_mset (inner (ps ! t)) (add_mset (inner (ps ! u)) M)"
proof -
  obtain M where M: "mset ps = add_mset (ps ! t) (add_mset (ps ! u) M)"
    by (rule two_threads [OF assms])
  obtain A where A: "frames (ps ! t) = add_mset (inner (ps ! t)) A"
    using multi_member_split [OF inner_frame] by blast
  obtain B where B: "frames (ps ! u) = add_mset (inner (ps ! u)) B"
    using multi_member_split [OF inner_frame] by blast
  have "all_frames ps = add_mset (inner (ps ! t)) (add_mset (inner (ps ! u)) (A + B + all_of frames M))"
    by (simp add: all_frames_def M A B)
  then show ?thesis by (rule that)
qed

lemma section_index: "pc_ok g pc \<Longrightarrow> basic pc \<Longrightarrow> in_section i pc \<Longrightarrow> i < 8"
  by (cases pc) (auto simp: slab_request_def)

lemma ready_not_init: "pc_ok g pc \<Longrightarrow> basic pc \<Longrightarrow> \<not> in_init pc"
  by (cases pc) auto

lemma inner_cases: "calls_ok pc \<Longrightarrow> basic (inner pc) \<or> \<not> in_section i pc \<and> \<not> in_init pc"
  using called_basic by (cases pc) auto

lemma waiting_nowhere: "waiting pc \<Longrightarrow> \<not> in_init pc \<and> \<not> in_section i pc"
  by (cases pc) auto

lemma exclude:
  assumes inv: "threads_inv st P H" and P: "P = add_mset a (add_mset b M)" and a: "basic a"
  shows "\<not> (in_section i a \<and> in_section i b)" and "\<not> (in_init a \<and> (in_init b \<or> in_section i b))"
proof -
  have "\<not> (in_section i a \<and> in_section i b) \<and> \<not> (in_init a \<and> (in_init b \<or> in_section i b))"
    using inv unfolding threads_inv_def
  proof (elim disjE exE)
    assume "early st P H"
    then have "waiting a" using P by (cases a) (auto simp: early_def)
    then show ?thesis using waiting_nowhere by blast
  next
    assume "initing st P H"
    then obtain sz pc P' where i: "P = add_mset pc P'" "\<forall>pc \<in># P'. waiting pc" "pc = M_Init sz \<or> pc = M_Ready sz"
      unfolding initing_def by blast
    have "waiting a \<or> waiting b \<and> pc = a"
      using i(1,2) unfolding P by (auto simp: add_eq_conv_ex)
    moreover have "\<not> in_section i pc" using i(3) by auto
    ultimately show ?thesis using waiting_nowhere by blast
  next
    fix g L
    assume "ready st P H g L"
    note d = readyD [OF this]
    have ok: "pc_ok g a" using d(8) by (simp add: P)
    have "holders i P \<le> 1" if "i < 8" using d(2) that by (simp add: sections_def)
    then show ?thesis using section_index [OF ok a, of i] ready_not_init [OF ok a] by (auto simp: P)
  qed
  then show "\<not> (in_section i a \<and> in_section i b)" and "\<not> (in_init a \<and> (in_init b \<or> in_section i b))"
    by blast+
qed

text \<open>A run to show the properties on: two threads call \<open>p2malloc\<close>, and one wins the race.\<close>

definition race :: tstate where
  "race = \<lparr>shared = (boot static_heads)\<lparr>init_state := 1\<rparr>, pcs = [M_Init 24, M_Spin 24], held = []\<rparr>"

lemma runs_enter_malloc:
  assumes "t < length (pcs s)" and "pcs s ! t = Idle"
  shows "runs_to os s (at s t (shared s) (M_Start sz) (held s))"
  using runs_enter [OF assms, of "Malloc sz" os] by (simp add: held_at_def)

lemma runs_race: "runs_to bump_kernel (threads_start 2 (boot static_heads)) race"
proof -
  let ?st = "(boot static_heads)\<lparr>init_state := 1\<rparr>"
  let ?s0 = "threads_start 2 (boot static_heads)"
  have i: "init_state (boot static_heads) = 0" by (simp add: boot_def)
  have two: "replicate 2 Idle = [Idle, Idle]" by (simp add: numeral_2_eq_2)
  let ?s1 = "at ?s0 0 (boot static_heads) (M_Start 24) []"
  have 1: "runs_to bump_kernel ?s0 ?s1"
    using runs_enter_malloc [of 0 ?s0] by (simp add: threads_start_def)
  let ?s2 = "at ?s0 0 ?st (M_Init 24) []"
  have 2: "runs_to bump_kernel ?s1 ?s2"
    by (rule runs_goes) (simp_all add: i threads_start_def)
  let ?s3 = "at ?s2 1 ?st (M_Start 24) []"
  have 3: "runs_to bump_kernel ?s2 ?s3"
    using runs_enter_malloc [of 1 ?s2] by (simp add: at_def threads_start_def)
  have 4: "runs_to bump_kernel ?s3 (at ?s2 1 ?st (M_Spin 24) [])"
    by (rule runs_goes) (simp_all add: at_def threads_start_def)
  have "at ?s2 1 ?st (M_Spin 24) [] = race" by (simp add: at_def race_def threads_start_def two)
  then show ?thesis using runs_trans [OF 1 runs_trans [OF 2 runs_trans [OF 3 4]]] by simp
qed

lemma race_pcs [simp]: "pcs race = [M_Init 24, M_Spin 24]"
  by (simp add: race_def)

text \<open>Each of two threads holds a block.\<close>

lemma runs_two_blocks:
  obtains s where "runs_to bump_kernel (threads_start 2 (boot static_heads)) s"
    and "pcs s = [Idle, Idle]" and "held s = [12176, 12240]"
proof -
  let ?s0 = "threads_start 2 (boot static_heads)"
  obtain st st' where m: "p2malloc bump_kernel 24 (boot static_heads) = Some (12240, st)"
      "p2malloc bump_kernel 24 st = Some (12176, st')"
    by (rule boot_malloc_twice)
  have two: "replicate 2 Idle = [Idle, Idle]" by (simp add: numeral_2_eq_2)
  let ?s1 = "at ?s0 0 st Idle [12240]"
  have i0: "sys_inv ?s0" by (rule sys_inv_start [OF p2_boot_static])
  have 1: "runs_to bump_kernel ?s0 ?s1"
    using runs_call [OF i0 kernel_ok_bump, of 0 "Malloc 24" 12240 st] m(1) by (simp add: threads_start_def)
  have i1: "sys_inv ?s1" by (rule runs_inv [OF 1 i0 kernel_ok_bump])
  have "runs_to bump_kernel ?s1 (at ?s1 1 st' Idle [12176, 12240])"
    using runs_call [OF i1 kernel_ok_bump, of 1 "Malloc 24" 12176 st'] m(2)
    by (simp add: threads_start_def at_def two)
  with 1 have "runs_to bump_kernel ?s0 (at ?s1 1 st' Idle [12176, 12240])" by (rule runs_trans)
  then show ?thesis using that by (simp add: at_def threads_start_def two)
qed

section \<open>Blocks of two threads\<close>

lemma held_pair:
  assumes inv: "threads_inv st P H" and H: "H = add_mset p (add_mset q H')"
  obtains g L h sz al h' sz' al' where "p = h + 16" and "q = h' + 16"
    and "p2_part (mem st) (heads st) g (all_of raw P)" and "(h, sz, al) \<in># a_live g - all_of raw P"
    and "(h', sz', al') \<in># a_live g - all_of raw P"
    and "espan (live_extent (h, sz, al)) \<inter> espan (live_extent (h', sz', al')) = {}"
proof -
  have "p \<in># H" by (simp add: H)
  then obtain g L where r: "ready st P H g L" by (rule threads_inv_held [OF inv])
  note d = readyD [OF r]
  have "image_mset (\<lambda>l. fst l + 16) L = add_mset p (add_mset q (H' + all_of passed P))"
    using d(4) by (simp add: H)
  from msed_map_invR [OF this] obtain M l where M: "L = add_mset l M" "fst l + 16 = p"
      "image_mset (\<lambda>l. fst l + 16) M = add_mset q (H' + all_of passed P)"
    by blast
  from msed_map_invR [OF M(3)] obtain L' l' where "M = add_mset l' L'" "fst l' + 16 = q" by blast
  with M(1,2) have L: "L = add_mset l (add_mset l' L')" "p = fst l + 16" "q = fst l' + 16" by simp_all
  have "{#l, l'#} \<subseteq># a_live g" using L(1) by (simp add: d(3))
  then have "image_mset live_extent {#l, l'#} \<subseteq># live_extents (a_live g)"
    unfolding live_extents_def by (rule image_mset_subseteq_mono)
  then have "{#live_extent l, live_extent l'#} \<subseteq># extents (heads st) g"
    by (simp add: extents_def subset_mset.add_increasing)
  then have "espan (live_extent l) \<inter> espan (live_extent l') = {}"
    by (rule disj_pair [OF geomD(3) [OF partD(1) [OF d(5)]]])
  moreover have "l \<in># a_live g - all_of raw P" and "l' \<in># a_live g - all_of raw P"
    using raw_rest [OF d(3)] L(1) by simp_all
  ultimately show ?thesis using that [of "fst l" "fst l'" g "fst (snd l)" "snd (snd l)"
      "fst (snd l')" "snd (snd l')"] d(5) L(2,3) by simp
qed

section \<open>Completion\<close>

definition all_idle :: "pc list \<Rightarrow> bool" where
  "all_idle ps = list_all (\<lambda>pc. pc = Idle) ps"

lemma advance_run:
  assumes "advances os (pcs s ! u) (shared s)" and "u < length (pcs s)"
  obtains s' where "threads os s s'"
    and "sum_list (map to_go (pcs s')) < sum_list (map to_go (pcs s))"
proof -
  have less: "sum_list (map to_go ((pcs s)[u := pc])) < sum_list (map to_go (pcs s))"
    if "to_go pc < to_go (pcs s ! u)" for pc
    using that assms(2) elem_le_sum_list [of u "map to_go (pcs s)"]
    by (simp add: map_update sum_list_update)
  consider st pc where "thread_step os (pcs s ! u) (shared s) = Goes st pc" "to_go pc < to_go (pcs s ! u)"
    | st p where "thread_step os (pcs s ! u) (shared s) = Gives st p"
    using assms(1) by (auto simp: advances_def split: step.splits)
  then show ?thesis
  proof cases
    case 1
    from that [OF threads.goes [OF assms(2) 1(1)]] less [OF 1(2)] show ?thesis by simp
  next
    case 2
    then have "to_go Idle < to_go (pcs s ! u)" by (cases "pcs s ! u") auto
    from that [OF threads.gives [OF assms(2) 2]] less [OF this] show ?thesis by simp
  qed
qed

lemma run_to_idle:
  assumes "sys_inv s" and "kernel_ok os"
  shows "\<exists>s'. runs_to os s s' \<and> all_idle (pcs s')"
  using assms(1)
proof (induction "sum_list (map to_go (pcs s))" arbitrary: s rule: less_induct)
  case less
  show ?case
  proof (cases "all_idle (pcs s)")
    case True
    then show ?thesis using runs_refl by blast
  next
    case False
    then obtain t where "t < length (pcs s)" "pcs s ! t \<noteq> Idle"
      by (auto simp: all_idle_def list_all_length)
    then obtain u where u: "u < length (pcs s)" "advances os (pcs s ! u) (shared s)"
      using sys_progress [OF less.prems assms(2)] by blast
    obtain s' where s': "threads os s s'" "sum_list (map to_go (pcs s')) < sum_list (map to_go (pcs s))"
      using advance_run [OF u(2,1)] .
    from less.hyps [OF s'(2) sys_inv_step [OF s'(1) less.prems assms(2)]] show ?thesis
      using runs_step [OF s'(1)] by blast
  qed
qed

lemma idle_state:
  assumes inv: "threads_inv st P H" and idle: "\<And>pc. pc \<in># P \<Longrightarrow> pc = Idle"
  shows "\<exists>g. p2_inv st g \<and> image_mset (\<lambda>l. fst l + 16) (a_live g) = H"
  using inv unfolding threads_inv_def
proof (elim disjE exE)
  assume "early st P H"
  then show ?thesis by (auto simp: early_def p2_inv_def a_empty_def)
next
  assume "initing st P H"
  then show ?thesis using idle unfolding initing_def by (metis pc.distinct(3) pc.distinct(5) union_single_eq_member)
next
  fix g L
  assume "ready st P H g L"
  note d = readyD [OF this]
  have none: "all_of f P = 0" if "f Idle = 0" for f :: "pc \<Rightarrow> 'b :: comm_monoid_add"
    using idle that by (induction P) auto
  have "holders i P = 0" for i
    using idle by (auto simp: holders_def filter_mset_eq_mempty_iff dest!: idle)
  then have "p2_fls (freelists st)" using d(2) by (simp add: sections_def p2_fls_def)
  moreover have "p2_mem (mem st) (heads st) g"
    using partD(3) [OF d(5)] by (simp add: none)
  ultimately have "p2_rel st g"
    using d(1,3,6,7) by (simp add: p2_rel_def none)
  then show ?thesis using d(3,4) by (auto simp: p2_inv_def none)
qed

section \<open>Properties\<close>

text \<open>C10. Mutual exclusion: never are two threads in the critical section of the same list, never do
  two threads initialise, and no thread is in a critical section while one initialises.\<close>

theorem threads_exclude:
  assumes "p2_boot st" and "kernel_ok os" and "runs_to os (threads_start n st) s"
    and "t < length (pcs s)" and "u < length (pcs s)" and "t \<noteq> u"
  shows "\<not> (in_section i (pcs s ! t) \<and> in_section i (pcs s ! u))
    \<and> \<not> (in_init (pcs s ! t) \<and> (in_init (pcs s ! u) \<or> in_section i (pcs s ! u)))"
proof -
  have s: "sys_inv s" by (rule reach_inv [OF assms(3,1,2)])
  then have inv: "threads_inv (shared s) (all_frames (pcs s)) (mset (held s))" by (simp add: sys_inv_def)
  obtain M where "all_frames (pcs s) = add_mset (inner (pcs s ! t)) (add_mset (inner (pcs s ! u)) M)"
    by (rule two_frames [OF assms(4-6)])
  from exclude [OF inv this, of i] inner_cases [OF sys_inv_thread(2) [OF s assms(4)], of i] show ?thesis
    unfolding in_section_inner(1,2) by blast
qed

theorem threads_exclude_witness:
  "in_init (pcs race ! 0) \<and> \<not> in_init (pcs race ! 1)"
  using threads_exclude [OF p2_boot_static kernel_ok_bump runs_race, of 0 1 0] by simp

text \<open>C11. However the threads interleave, no step has an undefined outcome: every access is to mapped
  memory, no \<open>assert\<close> fails, and every mutex is locked when initialised and unlocked when held.\<close>

theorem threads_defined:
  assumes "p2_boot st" and "kernel_ok os" and "runs_to os (threads_start n st) s"
    and "t < length (pcs s)"
  shows "thread_step os (pcs s ! t) (shared s) \<noteq> Undef"
  by (rule sys_inv_defined [OF reach_inv [OF assms(3,1,2)] assms(2,4)])

theorem threads_defined_witness:
  "thread_step bump_kernel (M_Init 24) (shared race) \<noteq> Undef"
  using threads_defined [OF p2_boot_static kernel_ok_bump runs_race, of 0]
  by (simp del: thread_step.simps)

text \<open>C9. Two blocks that are handed out, to whichever threads, do not overlap, headers included; each
  is aligned to 16 bytes, mapped, and as long as its header says.\<close>

theorem threads_blocks_apart:
  assumes "p2_boot st" and "kernel_ok os" and "runs_to os (threads_start n st) s"
    and "a < length (held s)" and "b < length (held s)" and "a \<noteq> b"
  shows "\<exists>sz sz'. hdr_size (mem (shared s)) (held s ! a - P2_HEADER_SIZE) = Some sz
    \<and> hdr_size (mem (shared s)) (held s ! b - P2_HEADER_SIZE) = Some sz'
    \<and> 16 dvd unat (held s ! a) \<and> mapped (mem (shared s)) (held s ! a) (unat sz)
    \<and> span_of (held s ! a - P2_HEADER_SIZE) (unat sz + 16)
      \<inter> span_of (held s ! b - P2_HEADER_SIZE) (unat sz' + 16) = {}"
proof -
  have "sys_inv s" by (rule reach_inv [OF assms(3,1,2)])
  then have inv: "threads_inv (shared s) (all_frames (pcs s)) (mset (held s))" by (simp add: sys_inv_def)
  obtain M where "mset (held s) = add_mset (held s ! a) (add_mset (held s ! b) M)"
    by (rule two_threads [OF assms(4-6)])
  from held_pair [OF inv this] obtain g h sz al h' sz' al'
    where p: "held s ! a = h + 16" "held s ! b = h' + 16"
      and part: "p2_part (mem (shared s)) (heads (shared s)) g (all_of raw (all_frames (pcs s)))"
      and l: "(h, sz, al) \<in># a_live g - all_of raw (all_frames (pcs s))"
        "(h', sz', al') \<in># a_live g - all_of raw (all_frames (pcs s))"
      and apart: "espan (live_extent (h, sz, al)) \<inter> espan (live_extent (h', sz', al')) = {}"
    by metis
  note b1 = live_block [OF part l(1)] and b2 = live_block [OF part l(2)]
  have "span_of h (unat sz + 16) \<inter> span_of h' (unat sz' + 16) = {}" using b1(5) b2(5) apart by blast
  then show ?thesis using b1(1-3) b2(1) by (simp add: p del: mem_span_of)
qed

theorem threads_blocks_apart_witness:
  "\<exists>s sz sz'. runs_to bump_kernel (threads_start 2 (boot static_heads)) s \<and> held s = [12176, 12240]
     \<and> hdr_size (mem (shared s)) 12160 = Some sz \<and> hdr_size (mem (shared s)) 12224 = Some sz'
     \<and> span_of 12160 (unat sz + 16) \<inter> span_of 12224 (unat sz' + 16) = {}"
proof -
  obtain s where s: "runs_to bump_kernel (threads_start 2 (boot static_heads)) s"
      "held s = [12176, 12240]"
    by (rule runs_two_blocks)
  from threads_blocks_apart [OF p2_boot_static kernel_ok_bump s(1), of 0 1] s(2)
  obtain sz sz' where "hdr_size (mem (shared s)) 12160 = Some sz" "hdr_size (mem (shared s)) 12224 = Some sz'"
      "span_of 12160 (unat sz + 16) \<inter> span_of 12224 (unat sz' + 16) = {}"
    by auto
  with s show ?thesis by blast
qed

text \<open>C12. No deadlock and no trap: from every state the threads can reach there is a run, without new
  calls, in which every call that is under way returns.  (\<open>sys_progress\<close>: while a thread is in the
  allocator, some thread can do a step that brings it nearer to its return.)\<close>

theorem threads_complete:
  assumes "p2_boot st" and "kernel_ok os" and "runs_to os (threads_start n st) s"
  shows "\<exists>s'. runs_to os s s' \<and> all_idle (pcs s')"
  by (rule run_to_idle [OF reach_inv [OF assms(3,1,2)] assms(2)])

theorem threads_complete_witness:
  "\<exists>s. runs_to bump_kernel race s \<and> all_idle (pcs s)"
  by (rule threads_complete [OF p2_boot_static kernel_ok_bump runs_race])

text \<open>C8. When all calls have returned, the state is one of the sequential allocator, whose live blocks
  are exactly the pointers handed out: no interleaving loses a block, hands one out twice or leaves
  a counter wrong.\<close>

theorem threads_quiescent:
  assumes "p2_boot st" and "kernel_ok os" and "runs_to os (threads_start n st) s"
    and "all_idle (pcs s)"
  shows "\<exists>g. p2_inv (shared s) g \<and> image_mset (\<lambda>l. fst l + P2_HEADER_SIZE) (a_live g) = mset (held s)"
proof -
  have "sys_inv s" by (rule reach_inv [OF assms(3,1,2)])
  then have inv: "threads_inv (shared s) (all_frames (pcs s)) (mset (held s))" by (simp add: sys_inv_def)
  have "pc = Idle" if "pc \<in># all_frames (pcs s)" for pc
    using that assms(4) by (auto simp: all_idle_def list_all_iff in_all_frames)
  from idle_state [OF inv this] show ?thesis by simp
qed

theorem threads_quiescent_witness:
  "\<exists>s g. runs_to bump_kernel (threads_start 2 (boot static_heads)) s
     \<and> held s = [12176, 12240] \<and> p2_inv (shared s) g
     \<and> image_mset (\<lambda>l. fst l + 16) (a_live g) = {#12176, 12240#}"
proof -
  obtain s where s: "runs_to bump_kernel (threads_start 2 (boot static_heads)) s"
      "pcs s = [Idle, Idle]" "held s = [12176, 12240]"
    by (rule runs_two_blocks)
  from threads_quiescent [OF p2_boot_static kernel_ok_bump s(1)] s(2,3) obtain g
    where "p2_inv (shared s) g" "image_mset (\<lambda>l. fst l + 16) (a_live g) = {#12176, 12240#}"
    by (auto simp: all_idle_def)
  with s(1,3) show ?thesis by blast
qed

text \<open>C13. A call of \<open>p2malloc\<close>, \<open>p2calloc\<close>, \<open>p2realloc\<close> or \<open>p2free\<close> during which the other threads
  rest is the call of the sequential model: its steps lead to the state the sequential function
  gives and hand out its result, and take back the pointer it was passed, except that a
  \<open>p2realloc\<close> that fails leaves it with the caller.\<close>

theorem threads_call_alone:
  assumes "p2_boot st0" and "kernel_ok os" and "runs_to os (threads_start n st0) s"
    and "t < length (pcs s)" and "pcs s ! t = Idle" and "thread_call c (held s)"
    and "run_call os c (shared s) = Some (p, st)"
  shows "runs_to os s (at s t st Idle (held_after c p (held s)))"
  by (rule runs_call [OF reach_inv [OF assms(3,1,2)] assms(2,4-7)])

theorem threads_call_alone_witness:
  "\<exists>st. p2malloc bump_kernel 24 (boot static_heads) = Some (12240, st)
     \<and> runs_to bump_kernel (threads_start 2 (boot static_heads))
         (at (threads_start 2 (boot static_heads)) 1 st Idle [12240])"
proof -
  obtain st where st: "p2malloc bump_kernel 24 (boot static_heads) = Some (12240, st)"
    by (rule boot_malloc_state)
  let ?s = "threads_start 2 (boot static_heads)"
  have "shared ?s = boot static_heads" "1 < length (pcs ?s)" "pcs ?s ! 1 = Idle" "held ?s = []"
    by (simp_all add: threads_start_def)
  with threads_call_alone [OF p2_boot_static kernel_ok_bump runs_refl, of 1 2 "Malloc 24" 12240 st] st
  show ?thesis by simp
qed

end
