(* ===== verification/Unity_Test_Macros.thy ===== *)
theory Unity_Test_Macros
  imports Unity_Macros
begin

text \<open>
  The macros of \<open>src/unity/unity.h\<close> that test code uses (\<open>TEST_ASSERT_...\<close>, with and without a
  message), beside those of \<open>Unity_Control\<close>: each passes its arguments, the line (\<open>__LINE__\<close>) and the
  message to a macro of \<open>Unity_Macros\<close>.  \<open>TEST_ABORT\<close> is \<open>longjmp\<close>.
\<close>

section \<open>Ending a test\<close>

definition TEST_PASS :: "unity \<Rightarrow> unity outcome" where
  "TEST_PASS u = Jumps u"

definition TEST_PASS_MESSAGE :: "string option \<Rightarrow> u64 \<Rightarrow> unity \<Rightarrow> unity outcome" where
  "TEST_PASS_MESSAGE message line u = (let u = UnityMessage message line u in Jumps u)"

definition TEST_MESSAGE :: "string option \<Rightarrow> u64 \<Rightarrow> unity \<Rightarrow> unity" where
  "TEST_MESSAGE message line = UnityMessage message line"

section \<open>Assertions\<close>

subsection \<open>Conditions\<close>

definition TEST_FAIL_MESSAGE ::
    "string option \<Rightarrow> u64 \<Rightarrow> unity \<Rightarrow> unity outcome" where
  "TEST_FAIL_MESSAGE message line =
     UNITY_TEST_FAIL line message"

definition TEST_FAIL ::
    "u64 \<Rightarrow> unity \<Rightarrow> unity outcome" where
  "TEST_FAIL line =
     UNITY_TEST_FAIL line None"

definition TEST_IGNORE_MESSAGE ::
    "string option \<Rightarrow> u64 \<Rightarrow> unity \<Rightarrow> unity outcome" where
  "TEST_IGNORE_MESSAGE message line =
     UNITY_TEST_IGNORE line message"

definition TEST_IGNORE ::
    "u64 \<Rightarrow> unity \<Rightarrow> unity outcome" where
  "TEST_IGNORE line =
     UNITY_TEST_IGNORE line None"

definition TEST_ASSERT ::
    "bool \<Rightarrow> u64 \<Rightarrow> unity \<Rightarrow> unity outcome" where
  "TEST_ASSERT condition line =
     UNITY_TEST_ASSERT condition line (Some '' Expression Evaluated To FALSE'')"

definition TEST_ASSERT_UNLESS ::
    "bool \<Rightarrow> u64 \<Rightarrow> unity \<Rightarrow> unity outcome" where
  "TEST_ASSERT_UNLESS condition line =
     UNITY_TEST_ASSERT (\<not> condition) line (Some '' Expression Evaluated To TRUE'')"

definition TEST_ASSERT_FALSE ::
    "bool \<Rightarrow> u64 \<Rightarrow> unity \<Rightarrow> unity outcome" where
  "TEST_ASSERT_FALSE condition line =
     UNITY_TEST_ASSERT (\<not> condition) line (Some '' Expected FALSE Was TRUE'')"

definition TEST_ASSERT_EMPTY ::
    "string option \<Rightarrow> u64 \<Rightarrow> unity \<Rightarrow> unity outcome" where
  "TEST_ASSERT_EMPTY pointer line =
     UNITY_TEST_ASSERT_EMPTY pointer line (Some '' Expected Empty'')"

definition TEST_ASSERT_NOT_EMPTY ::
    "string option \<Rightarrow> u64 \<Rightarrow> unity \<Rightarrow> unity outcome" where
  "TEST_ASSERT_NOT_EMPTY pointer line =
     UNITY_TEST_ASSERT_NOT_EMPTY pointer line (Some '' Expected Non-Empty'')"

subsection \<open>Equality\<close>

definition TEST_ASSERT_EQUAL_INT8 ::
    "u64 \<Rightarrow> u64 \<Rightarrow> u64 \<Rightarrow> unity \<Rightarrow> unity outcome" where
  "TEST_ASSERT_EQUAL_INT8 expected actual line =
     UNITY_TEST_ASSERT_EQUAL_INT8 expected actual line None"

definition TEST_ASSERT_EQUAL_INT16 ::
    "u64 \<Rightarrow> u64 \<Rightarrow> u64 \<Rightarrow> unity \<Rightarrow> unity outcome" where
  "TEST_ASSERT_EQUAL_INT16 expected actual line =
     UNITY_TEST_ASSERT_EQUAL_INT16 expected actual line None"

definition TEST_ASSERT_EQUAL_INT32 ::
    "u64 \<Rightarrow> u64 \<Rightarrow> u64 \<Rightarrow> unity \<Rightarrow> unity outcome" where
  "TEST_ASSERT_EQUAL_INT32 expected actual line =
     UNITY_TEST_ASSERT_EQUAL_INT32 expected actual line None"

definition TEST_ASSERT_EQUAL_INT64 ::
    "u64 \<Rightarrow> u64 \<Rightarrow> u64 \<Rightarrow> unity \<Rightarrow> unity outcome" where
  "TEST_ASSERT_EQUAL_INT64 expected actual line =
     UNITY_TEST_ASSERT_EQUAL_INT64 expected actual line None"

definition TEST_ASSERT_EQUAL_UINT ::
    "u64 \<Rightarrow> u64 \<Rightarrow> u64 \<Rightarrow> unity \<Rightarrow> unity outcome" where
  "TEST_ASSERT_EQUAL_UINT expected actual line =
     UNITY_TEST_ASSERT_EQUAL_UINT expected actual line None"

definition TEST_ASSERT_EQUAL_UINT8 ::
    "u64 \<Rightarrow> u64 \<Rightarrow> u64 \<Rightarrow> unity \<Rightarrow> unity outcome" where
  "TEST_ASSERT_EQUAL_UINT8 expected actual line =
     UNITY_TEST_ASSERT_EQUAL_UINT8 expected actual line None"

definition TEST_ASSERT_EQUAL_UINT16 ::
    "u64 \<Rightarrow> u64 \<Rightarrow> u64 \<Rightarrow> unity \<Rightarrow> unity outcome" where
  "TEST_ASSERT_EQUAL_UINT16 expected actual line =
     UNITY_TEST_ASSERT_EQUAL_UINT16 expected actual line None"

definition TEST_ASSERT_EQUAL_UINT32 ::
    "u64 \<Rightarrow> u64 \<Rightarrow> u64 \<Rightarrow> unity \<Rightarrow> unity outcome" where
  "TEST_ASSERT_EQUAL_UINT32 expected actual line =
     UNITY_TEST_ASSERT_EQUAL_UINT32 expected actual line None"

definition TEST_ASSERT_EQUAL_size_t ::
    "u64 \<Rightarrow> u64 \<Rightarrow> u64 \<Rightarrow> unity \<Rightarrow> unity outcome" where
  "TEST_ASSERT_EQUAL_size_t expected actual line =
     UNITY_TEST_ASSERT_EQUAL_UINT expected actual line None"

definition TEST_ASSERT_EQUAL_HEX ::
    "u64 \<Rightarrow> u64 \<Rightarrow> u64 \<Rightarrow> unity \<Rightarrow> unity outcome" where
  "TEST_ASSERT_EQUAL_HEX expected actual line =
     UNITY_TEST_ASSERT_EQUAL_HEX32 expected actual line None"

definition TEST_ASSERT_EQUAL_HEX16 ::
    "u64 \<Rightarrow> u64 \<Rightarrow> u64 \<Rightarrow> unity \<Rightarrow> unity outcome" where
  "TEST_ASSERT_EQUAL_HEX16 expected actual line =
     UNITY_TEST_ASSERT_EQUAL_HEX16 expected actual line None"

definition TEST_ASSERT_EQUAL_HEX32 ::
    "u64 \<Rightarrow> u64 \<Rightarrow> u64 \<Rightarrow> unity \<Rightarrow> unity outcome" where
  "TEST_ASSERT_EQUAL_HEX32 expected actual line =
     UNITY_TEST_ASSERT_EQUAL_HEX32 expected actual line None"

definition TEST_ASSERT_EQUAL_HEX64 ::
    "u64 \<Rightarrow> u64 \<Rightarrow> u64 \<Rightarrow> unity \<Rightarrow> unity outcome" where
  "TEST_ASSERT_EQUAL_HEX64 expected actual line =
     UNITY_TEST_ASSERT_EQUAL_HEX64 expected actual line None"

definition TEST_ASSERT_EQUAL_CHAR ::
    "u64 \<Rightarrow> u64 \<Rightarrow> u64 \<Rightarrow> unity \<Rightarrow> unity outcome" where
  "TEST_ASSERT_EQUAL_CHAR expected actual line =
     UNITY_TEST_ASSERT_EQUAL_CHAR expected actual line None"

subsection \<open>Bits\<close>

definition TEST_ASSERT_BITS ::
    "u64 \<Rightarrow> u64 \<Rightarrow> u64 \<Rightarrow> u64 \<Rightarrow> unity \<Rightarrow> unity outcome" where
  "TEST_ASSERT_BITS msk expected actual line =
     UNITY_TEST_ASSERT_BITS msk expected actual line None"

definition TEST_ASSERT_BITS_HIGH ::
    "u64 \<Rightarrow> u64 \<Rightarrow> u64 \<Rightarrow> unity \<Rightarrow> unity outcome" where
  "TEST_ASSERT_BITS_HIGH msk actual line =
     UNITY_TEST_ASSERT_BITS msk (- 1) actual line None"

definition TEST_ASSERT_BITS_LOW ::
    "u64 \<Rightarrow> u64 \<Rightarrow> u64 \<Rightarrow> unity \<Rightarrow> unity outcome" where
  "TEST_ASSERT_BITS_LOW msk actual line =
     UNITY_TEST_ASSERT_BITS msk 0 actual line None"

definition TEST_ASSERT_BIT_HIGH ::
    "u64 \<Rightarrow> u64 \<Rightarrow> u64 \<Rightarrow> unity \<Rightarrow> unity outcome" where
  "TEST_ASSERT_BIT_HIGH bitno actual line u =
     (if bitno < 64 then UNITY_TEST_ASSERT_BITS (push_bit (unat bitno) 1) (- 1) actual line None u else Undefined)"

definition TEST_ASSERT_BIT_LOW ::
    "u64 \<Rightarrow> u64 \<Rightarrow> u64 \<Rightarrow> unity \<Rightarrow> unity outcome" where
  "TEST_ASSERT_BIT_LOW bitno actual line u =
     (if bitno < 64 then UNITY_TEST_ASSERT_BITS (push_bit (unat bitno) 1) 0 actual line None u else Undefined)"

subsection \<open>Inequality\<close>

definition TEST_ASSERT_NOT_EQUAL_INT ::
    "u64 \<Rightarrow> u64 \<Rightarrow> u64 \<Rightarrow> unity \<Rightarrow> unity outcome" where
  "TEST_ASSERT_NOT_EQUAL_INT threshold actual line =
     UNITY_TEST_ASSERT_NOT_EQUAL_INT threshold actual line None"

definition TEST_ASSERT_NOT_EQUAL_INT8 ::
    "u64 \<Rightarrow> u64 \<Rightarrow> u64 \<Rightarrow> unity \<Rightarrow> unity outcome" where
  "TEST_ASSERT_NOT_EQUAL_INT8 threshold actual line =
     UNITY_TEST_ASSERT_NOT_EQUAL_INT8 threshold actual line None"

definition TEST_ASSERT_NOT_EQUAL_INT16 ::
    "u64 \<Rightarrow> u64 \<Rightarrow> u64 \<Rightarrow> unity \<Rightarrow> unity outcome" where
  "TEST_ASSERT_NOT_EQUAL_INT16 threshold actual line =
     UNITY_TEST_ASSERT_NOT_EQUAL_INT16 threshold actual line None"

definition TEST_ASSERT_NOT_EQUAL_INT32 ::
    "u64 \<Rightarrow> u64 \<Rightarrow> u64 \<Rightarrow> unity \<Rightarrow> unity outcome" where
  "TEST_ASSERT_NOT_EQUAL_INT32 threshold actual line =
     UNITY_TEST_ASSERT_NOT_EQUAL_INT32 threshold actual line None"

definition TEST_ASSERT_NOT_EQUAL_INT64 ::
    "u64 \<Rightarrow> u64 \<Rightarrow> u64 \<Rightarrow> unity \<Rightarrow> unity outcome" where
  "TEST_ASSERT_NOT_EQUAL_INT64 threshold actual line =
     UNITY_TEST_ASSERT_NOT_EQUAL_INT64 threshold actual line None"

definition TEST_ASSERT_NOT_EQUAL_UINT ::
    "u64 \<Rightarrow> u64 \<Rightarrow> u64 \<Rightarrow> unity \<Rightarrow> unity outcome" where
  "TEST_ASSERT_NOT_EQUAL_UINT threshold actual line =
     UNITY_TEST_ASSERT_NOT_EQUAL_UINT threshold actual line None"

definition TEST_ASSERT_NOT_EQUAL_UINT8 ::
    "u64 \<Rightarrow> u64 \<Rightarrow> u64 \<Rightarrow> unity \<Rightarrow> unity outcome" where
  "TEST_ASSERT_NOT_EQUAL_UINT8 threshold actual line =
     UNITY_TEST_ASSERT_NOT_EQUAL_UINT8 threshold actual line None"

definition TEST_ASSERT_NOT_EQUAL_UINT16 ::
    "u64 \<Rightarrow> u64 \<Rightarrow> u64 \<Rightarrow> unity \<Rightarrow> unity outcome" where
  "TEST_ASSERT_NOT_EQUAL_UINT16 threshold actual line =
     UNITY_TEST_ASSERT_NOT_EQUAL_UINT16 threshold actual line None"

definition TEST_ASSERT_NOT_EQUAL_UINT32 ::
    "u64 \<Rightarrow> u64 \<Rightarrow> u64 \<Rightarrow> unity \<Rightarrow> unity outcome" where
  "TEST_ASSERT_NOT_EQUAL_UINT32 threshold actual line =
     UNITY_TEST_ASSERT_NOT_EQUAL_UINT32 threshold actual line None"

definition TEST_ASSERT_NOT_EQUAL_UINT64 ::
    "u64 \<Rightarrow> u64 \<Rightarrow> u64 \<Rightarrow> unity \<Rightarrow> unity outcome" where
  "TEST_ASSERT_NOT_EQUAL_UINT64 threshold actual line =
     UNITY_TEST_ASSERT_NOT_EQUAL_UINT64 threshold actual line None"

definition TEST_ASSERT_NOT_EQUAL_size_t ::
    "u64 \<Rightarrow> u64 \<Rightarrow> u64 \<Rightarrow> unity \<Rightarrow> unity outcome" where
  "TEST_ASSERT_NOT_EQUAL_size_t threshold actual line =
     UNITY_TEST_ASSERT_NOT_EQUAL_UINT threshold actual line None"

definition TEST_ASSERT_NOT_EQUAL_HEX8 ::
    "u64 \<Rightarrow> u64 \<Rightarrow> u64 \<Rightarrow> unity \<Rightarrow> unity outcome" where
  "TEST_ASSERT_NOT_EQUAL_HEX8 threshold actual line =
     UNITY_TEST_ASSERT_NOT_EQUAL_HEX8 threshold actual line None"

definition TEST_ASSERT_NOT_EQUAL_HEX16 ::
    "u64 \<Rightarrow> u64 \<Rightarrow> u64 \<Rightarrow> unity \<Rightarrow> unity outcome" where
  "TEST_ASSERT_NOT_EQUAL_HEX16 threshold actual line =
     UNITY_TEST_ASSERT_NOT_EQUAL_HEX16 threshold actual line None"

definition TEST_ASSERT_NOT_EQUAL_HEX32 ::
    "u64 \<Rightarrow> u64 \<Rightarrow> u64 \<Rightarrow> unity \<Rightarrow> unity outcome" where
  "TEST_ASSERT_NOT_EQUAL_HEX32 threshold actual line =
     UNITY_TEST_ASSERT_NOT_EQUAL_HEX32 threshold actual line None"

definition TEST_ASSERT_NOT_EQUAL_HEX64 ::
    "u64 \<Rightarrow> u64 \<Rightarrow> u64 \<Rightarrow> unity \<Rightarrow> unity outcome" where
  "TEST_ASSERT_NOT_EQUAL_HEX64 threshold actual line =
     UNITY_TEST_ASSERT_NOT_EQUAL_HEX64 threshold actual line None"

definition TEST_ASSERT_NOT_EQUAL_CHAR ::
    "u64 \<Rightarrow> u64 \<Rightarrow> u64 \<Rightarrow> unity \<Rightarrow> unity outcome" where
  "TEST_ASSERT_NOT_EQUAL_CHAR threshold actual line =
     UNITY_TEST_ASSERT_NOT_EQUAL_CHAR threshold actual line None"

subsection \<open>Greater\<close>

definition TEST_ASSERT_GREATER_THAN ::
    "u64 \<Rightarrow> u64 \<Rightarrow> u64 \<Rightarrow> unity \<Rightarrow> unity outcome" where
  "TEST_ASSERT_GREATER_THAN threshold actual line =
     UNITY_TEST_ASSERT_GREATER_THAN_INT threshold actual line None"

definition TEST_ASSERT_GREATER_THAN_INT ::
    "u64 \<Rightarrow> u64 \<Rightarrow> u64 \<Rightarrow> unity \<Rightarrow> unity outcome" where
  "TEST_ASSERT_GREATER_THAN_INT threshold actual line =
     UNITY_TEST_ASSERT_GREATER_THAN_INT threshold actual line None"

definition TEST_ASSERT_GREATER_THAN_INT8 ::
    "u64 \<Rightarrow> u64 \<Rightarrow> u64 \<Rightarrow> unity \<Rightarrow> unity outcome" where
  "TEST_ASSERT_GREATER_THAN_INT8 threshold actual line =
     UNITY_TEST_ASSERT_GREATER_THAN_INT8 threshold actual line None"

definition TEST_ASSERT_GREATER_THAN_INT16 ::
    "u64 \<Rightarrow> u64 \<Rightarrow> u64 \<Rightarrow> unity \<Rightarrow> unity outcome" where
  "TEST_ASSERT_GREATER_THAN_INT16 threshold actual line =
     UNITY_TEST_ASSERT_GREATER_THAN_INT16 threshold actual line None"

definition TEST_ASSERT_GREATER_THAN_INT32 ::
    "u64 \<Rightarrow> u64 \<Rightarrow> u64 \<Rightarrow> unity \<Rightarrow> unity outcome" where
  "TEST_ASSERT_GREATER_THAN_INT32 threshold actual line =
     UNITY_TEST_ASSERT_GREATER_THAN_INT32 threshold actual line None"

definition TEST_ASSERT_GREATER_THAN_INT64 ::
    "u64 \<Rightarrow> u64 \<Rightarrow> u64 \<Rightarrow> unity \<Rightarrow> unity outcome" where
  "TEST_ASSERT_GREATER_THAN_INT64 threshold actual line =
     UNITY_TEST_ASSERT_GREATER_THAN_INT64 threshold actual line None"

definition TEST_ASSERT_GREATER_THAN_UINT ::
    "u64 \<Rightarrow> u64 \<Rightarrow> u64 \<Rightarrow> unity \<Rightarrow> unity outcome" where
  "TEST_ASSERT_GREATER_THAN_UINT threshold actual line =
     UNITY_TEST_ASSERT_GREATER_THAN_UINT threshold actual line None"

definition TEST_ASSERT_GREATER_THAN_UINT8 ::
    "u64 \<Rightarrow> u64 \<Rightarrow> u64 \<Rightarrow> unity \<Rightarrow> unity outcome" where
  "TEST_ASSERT_GREATER_THAN_UINT8 threshold actual line =
     UNITY_TEST_ASSERT_GREATER_THAN_UINT8 threshold actual line None"

definition TEST_ASSERT_GREATER_THAN_UINT16 ::
    "u64 \<Rightarrow> u64 \<Rightarrow> u64 \<Rightarrow> unity \<Rightarrow> unity outcome" where
  "TEST_ASSERT_GREATER_THAN_UINT16 threshold actual line =
     UNITY_TEST_ASSERT_GREATER_THAN_UINT16 threshold actual line None"

definition TEST_ASSERT_GREATER_THAN_UINT32 ::
    "u64 \<Rightarrow> u64 \<Rightarrow> u64 \<Rightarrow> unity \<Rightarrow> unity outcome" where
  "TEST_ASSERT_GREATER_THAN_UINT32 threshold actual line =
     UNITY_TEST_ASSERT_GREATER_THAN_UINT32 threshold actual line None"

definition TEST_ASSERT_GREATER_THAN_UINT64 ::
    "u64 \<Rightarrow> u64 \<Rightarrow> u64 \<Rightarrow> unity \<Rightarrow> unity outcome" where
  "TEST_ASSERT_GREATER_THAN_UINT64 threshold actual line =
     UNITY_TEST_ASSERT_GREATER_THAN_UINT64 threshold actual line None"

definition TEST_ASSERT_GREATER_THAN_size_t ::
    "u64 \<Rightarrow> u64 \<Rightarrow> u64 \<Rightarrow> unity \<Rightarrow> unity outcome" where
  "TEST_ASSERT_GREATER_THAN_size_t threshold actual line =
     UNITY_TEST_ASSERT_GREATER_THAN_UINT threshold actual line None"

definition TEST_ASSERT_GREATER_THAN_HEX8 ::
    "u64 \<Rightarrow> u64 \<Rightarrow> u64 \<Rightarrow> unity \<Rightarrow> unity outcome" where
  "TEST_ASSERT_GREATER_THAN_HEX8 threshold actual line =
     UNITY_TEST_ASSERT_GREATER_THAN_HEX8 threshold actual line None"

definition TEST_ASSERT_GREATER_THAN_HEX16 ::
    "u64 \<Rightarrow> u64 \<Rightarrow> u64 \<Rightarrow> unity \<Rightarrow> unity outcome" where
  "TEST_ASSERT_GREATER_THAN_HEX16 threshold actual line =
     UNITY_TEST_ASSERT_GREATER_THAN_HEX16 threshold actual line None"

definition TEST_ASSERT_GREATER_THAN_HEX32 ::
    "u64 \<Rightarrow> u64 \<Rightarrow> u64 \<Rightarrow> unity \<Rightarrow> unity outcome" where
  "TEST_ASSERT_GREATER_THAN_HEX32 threshold actual line =
     UNITY_TEST_ASSERT_GREATER_THAN_HEX32 threshold actual line None"

definition TEST_ASSERT_GREATER_THAN_HEX64 ::
    "u64 \<Rightarrow> u64 \<Rightarrow> u64 \<Rightarrow> unity \<Rightarrow> unity outcome" where
  "TEST_ASSERT_GREATER_THAN_HEX64 threshold actual line =
     UNITY_TEST_ASSERT_GREATER_THAN_HEX64 threshold actual line None"

definition TEST_ASSERT_GREATER_THAN_CHAR ::
    "u64 \<Rightarrow> u64 \<Rightarrow> u64 \<Rightarrow> unity \<Rightarrow> unity outcome" where
  "TEST_ASSERT_GREATER_THAN_CHAR threshold actual line =
     UNITY_TEST_ASSERT_GREATER_THAN_CHAR threshold actual line None"

subsection \<open>Less\<close>

definition TEST_ASSERT_LESS_THAN ::
    "u64 \<Rightarrow> u64 \<Rightarrow> u64 \<Rightarrow> unity \<Rightarrow> unity outcome" where
  "TEST_ASSERT_LESS_THAN threshold actual line =
     UNITY_TEST_ASSERT_SMALLER_THAN_INT threshold actual line None"

definition TEST_ASSERT_LESS_THAN_INT ::
    "u64 \<Rightarrow> u64 \<Rightarrow> u64 \<Rightarrow> unity \<Rightarrow> unity outcome" where
  "TEST_ASSERT_LESS_THAN_INT threshold actual line =
     UNITY_TEST_ASSERT_SMALLER_THAN_INT threshold actual line None"

definition TEST_ASSERT_LESS_THAN_INT8 ::
    "u64 \<Rightarrow> u64 \<Rightarrow> u64 \<Rightarrow> unity \<Rightarrow> unity outcome" where
  "TEST_ASSERT_LESS_THAN_INT8 threshold actual line =
     UNITY_TEST_ASSERT_SMALLER_THAN_INT8 threshold actual line None"

definition TEST_ASSERT_LESS_THAN_INT16 ::
    "u64 \<Rightarrow> u64 \<Rightarrow> u64 \<Rightarrow> unity \<Rightarrow> unity outcome" where
  "TEST_ASSERT_LESS_THAN_INT16 threshold actual line =
     UNITY_TEST_ASSERT_SMALLER_THAN_INT16 threshold actual line None"

definition TEST_ASSERT_LESS_THAN_INT32 ::
    "u64 \<Rightarrow> u64 \<Rightarrow> u64 \<Rightarrow> unity \<Rightarrow> unity outcome" where
  "TEST_ASSERT_LESS_THAN_INT32 threshold actual line =
     UNITY_TEST_ASSERT_SMALLER_THAN_INT32 threshold actual line None"

definition TEST_ASSERT_LESS_THAN_INT64 ::
    "u64 \<Rightarrow> u64 \<Rightarrow> u64 \<Rightarrow> unity \<Rightarrow> unity outcome" where
  "TEST_ASSERT_LESS_THAN_INT64 threshold actual line =
     UNITY_TEST_ASSERT_SMALLER_THAN_INT64 threshold actual line None"

definition TEST_ASSERT_LESS_THAN_UINT ::
    "u64 \<Rightarrow> u64 \<Rightarrow> u64 \<Rightarrow> unity \<Rightarrow> unity outcome" where
  "TEST_ASSERT_LESS_THAN_UINT threshold actual line =
     UNITY_TEST_ASSERT_SMALLER_THAN_UINT threshold actual line None"

definition TEST_ASSERT_LESS_THAN_UINT8 ::
    "u64 \<Rightarrow> u64 \<Rightarrow> u64 \<Rightarrow> unity \<Rightarrow> unity outcome" where
  "TEST_ASSERT_LESS_THAN_UINT8 threshold actual line =
     UNITY_TEST_ASSERT_SMALLER_THAN_UINT8 threshold actual line None"

definition TEST_ASSERT_LESS_THAN_UINT16 ::
    "u64 \<Rightarrow> u64 \<Rightarrow> u64 \<Rightarrow> unity \<Rightarrow> unity outcome" where
  "TEST_ASSERT_LESS_THAN_UINT16 threshold actual line =
     UNITY_TEST_ASSERT_SMALLER_THAN_UINT16 threshold actual line None"

definition TEST_ASSERT_LESS_THAN_UINT32 ::
    "u64 \<Rightarrow> u64 \<Rightarrow> u64 \<Rightarrow> unity \<Rightarrow> unity outcome" where
  "TEST_ASSERT_LESS_THAN_UINT32 threshold actual line =
     UNITY_TEST_ASSERT_SMALLER_THAN_UINT32 threshold actual line None"

definition TEST_ASSERT_LESS_THAN_UINT64 ::
    "u64 \<Rightarrow> u64 \<Rightarrow> u64 \<Rightarrow> unity \<Rightarrow> unity outcome" where
  "TEST_ASSERT_LESS_THAN_UINT64 threshold actual line =
     UNITY_TEST_ASSERT_SMALLER_THAN_UINT64 threshold actual line None"

definition TEST_ASSERT_LESS_THAN_size_t ::
    "u64 \<Rightarrow> u64 \<Rightarrow> u64 \<Rightarrow> unity \<Rightarrow> unity outcome" where
  "TEST_ASSERT_LESS_THAN_size_t threshold actual line =
     UNITY_TEST_ASSERT_SMALLER_THAN_UINT threshold actual line None"

definition TEST_ASSERT_LESS_THAN_HEX8 ::
    "u64 \<Rightarrow> u64 \<Rightarrow> u64 \<Rightarrow> unity \<Rightarrow> unity outcome" where
  "TEST_ASSERT_LESS_THAN_HEX8 threshold actual line =
     UNITY_TEST_ASSERT_SMALLER_THAN_HEX8 threshold actual line None"

definition TEST_ASSERT_LESS_THAN_HEX16 ::
    "u64 \<Rightarrow> u64 \<Rightarrow> u64 \<Rightarrow> unity \<Rightarrow> unity outcome" where
  "TEST_ASSERT_LESS_THAN_HEX16 threshold actual line =
     UNITY_TEST_ASSERT_SMALLER_THAN_HEX16 threshold actual line None"

definition TEST_ASSERT_LESS_THAN_HEX32 ::
    "u64 \<Rightarrow> u64 \<Rightarrow> u64 \<Rightarrow> unity \<Rightarrow> unity outcome" where
  "TEST_ASSERT_LESS_THAN_HEX32 threshold actual line =
     UNITY_TEST_ASSERT_SMALLER_THAN_HEX32 threshold actual line None"

definition TEST_ASSERT_LESS_THAN_HEX64 ::
    "u64 \<Rightarrow> u64 \<Rightarrow> u64 \<Rightarrow> unity \<Rightarrow> unity outcome" where
  "TEST_ASSERT_LESS_THAN_HEX64 threshold actual line =
     UNITY_TEST_ASSERT_SMALLER_THAN_HEX64 threshold actual line None"

definition TEST_ASSERT_LESS_THAN_CHAR ::
    "u64 \<Rightarrow> u64 \<Rightarrow> u64 \<Rightarrow> unity \<Rightarrow> unity outcome" where
  "TEST_ASSERT_LESS_THAN_CHAR threshold actual line =
     UNITY_TEST_ASSERT_SMALLER_THAN_CHAR threshold actual line None"

subsection \<open>Greater or equal\<close>

definition TEST_ASSERT_GREATER_OR_EQUAL ::
    "u64 \<Rightarrow> u64 \<Rightarrow> u64 \<Rightarrow> unity \<Rightarrow> unity outcome" where
  "TEST_ASSERT_GREATER_OR_EQUAL threshold actual line =
     UNITY_TEST_ASSERT_GREATER_OR_EQUAL_INT threshold actual line None"

definition TEST_ASSERT_GREATER_OR_EQUAL_INT ::
    "u64 \<Rightarrow> u64 \<Rightarrow> u64 \<Rightarrow> unity \<Rightarrow> unity outcome" where
  "TEST_ASSERT_GREATER_OR_EQUAL_INT threshold actual line =
     UNITY_TEST_ASSERT_GREATER_OR_EQUAL_INT threshold actual line None"

definition TEST_ASSERT_GREATER_OR_EQUAL_INT8 ::
    "u64 \<Rightarrow> u64 \<Rightarrow> u64 \<Rightarrow> unity \<Rightarrow> unity outcome" where
  "TEST_ASSERT_GREATER_OR_EQUAL_INT8 threshold actual line =
     UNITY_TEST_ASSERT_GREATER_OR_EQUAL_INT8 threshold actual line None"

definition TEST_ASSERT_GREATER_OR_EQUAL_INT16 ::
    "u64 \<Rightarrow> u64 \<Rightarrow> u64 \<Rightarrow> unity \<Rightarrow> unity outcome" where
  "TEST_ASSERT_GREATER_OR_EQUAL_INT16 threshold actual line =
     UNITY_TEST_ASSERT_GREATER_OR_EQUAL_INT16 threshold actual line None"

definition TEST_ASSERT_GREATER_OR_EQUAL_INT32 ::
    "u64 \<Rightarrow> u64 \<Rightarrow> u64 \<Rightarrow> unity \<Rightarrow> unity outcome" where
  "TEST_ASSERT_GREATER_OR_EQUAL_INT32 threshold actual line =
     UNITY_TEST_ASSERT_GREATER_OR_EQUAL_INT32 threshold actual line None"

definition TEST_ASSERT_GREATER_OR_EQUAL_INT64 ::
    "u64 \<Rightarrow> u64 \<Rightarrow> u64 \<Rightarrow> unity \<Rightarrow> unity outcome" where
  "TEST_ASSERT_GREATER_OR_EQUAL_INT64 threshold actual line =
     UNITY_TEST_ASSERT_GREATER_OR_EQUAL_INT64 threshold actual line None"

definition TEST_ASSERT_GREATER_OR_EQUAL_UINT ::
    "u64 \<Rightarrow> u64 \<Rightarrow> u64 \<Rightarrow> unity \<Rightarrow> unity outcome" where
  "TEST_ASSERT_GREATER_OR_EQUAL_UINT threshold actual line =
     UNITY_TEST_ASSERT_GREATER_OR_EQUAL_UINT threshold actual line None"

definition TEST_ASSERT_GREATER_OR_EQUAL_UINT8 ::
    "u64 \<Rightarrow> u64 \<Rightarrow> u64 \<Rightarrow> unity \<Rightarrow> unity outcome" where
  "TEST_ASSERT_GREATER_OR_EQUAL_UINT8 threshold actual line =
     UNITY_TEST_ASSERT_GREATER_OR_EQUAL_UINT8 threshold actual line None"

definition TEST_ASSERT_GREATER_OR_EQUAL_UINT16 ::
    "u64 \<Rightarrow> u64 \<Rightarrow> u64 \<Rightarrow> unity \<Rightarrow> unity outcome" where
  "TEST_ASSERT_GREATER_OR_EQUAL_UINT16 threshold actual line =
     UNITY_TEST_ASSERT_GREATER_OR_EQUAL_UINT16 threshold actual line None"

definition TEST_ASSERT_GREATER_OR_EQUAL_UINT32 ::
    "u64 \<Rightarrow> u64 \<Rightarrow> u64 \<Rightarrow> unity \<Rightarrow> unity outcome" where
  "TEST_ASSERT_GREATER_OR_EQUAL_UINT32 threshold actual line =
     UNITY_TEST_ASSERT_GREATER_OR_EQUAL_UINT32 threshold actual line None"

definition TEST_ASSERT_GREATER_OR_EQUAL_UINT64 ::
    "u64 \<Rightarrow> u64 \<Rightarrow> u64 \<Rightarrow> unity \<Rightarrow> unity outcome" where
  "TEST_ASSERT_GREATER_OR_EQUAL_UINT64 threshold actual line =
     UNITY_TEST_ASSERT_GREATER_OR_EQUAL_UINT64 threshold actual line None"

definition TEST_ASSERT_GREATER_OR_EQUAL_size_t ::
    "u64 \<Rightarrow> u64 \<Rightarrow> u64 \<Rightarrow> unity \<Rightarrow> unity outcome" where
  "TEST_ASSERT_GREATER_OR_EQUAL_size_t threshold actual line =
     UNITY_TEST_ASSERT_GREATER_OR_EQUAL_UINT threshold actual line None"

definition TEST_ASSERT_GREATER_OR_EQUAL_HEX8 ::
    "u64 \<Rightarrow> u64 \<Rightarrow> u64 \<Rightarrow> unity \<Rightarrow> unity outcome" where
  "TEST_ASSERT_GREATER_OR_EQUAL_HEX8 threshold actual line =
     UNITY_TEST_ASSERT_GREATER_OR_EQUAL_HEX8 threshold actual line None"

definition TEST_ASSERT_GREATER_OR_EQUAL_HEX16 ::
    "u64 \<Rightarrow> u64 \<Rightarrow> u64 \<Rightarrow> unity \<Rightarrow> unity outcome" where
  "TEST_ASSERT_GREATER_OR_EQUAL_HEX16 threshold actual line =
     UNITY_TEST_ASSERT_GREATER_OR_EQUAL_HEX16 threshold actual line None"

definition TEST_ASSERT_GREATER_OR_EQUAL_HEX32 ::
    "u64 \<Rightarrow> u64 \<Rightarrow> u64 \<Rightarrow> unity \<Rightarrow> unity outcome" where
  "TEST_ASSERT_GREATER_OR_EQUAL_HEX32 threshold actual line =
     UNITY_TEST_ASSERT_GREATER_OR_EQUAL_HEX32 threshold actual line None"

definition TEST_ASSERT_GREATER_OR_EQUAL_HEX64 ::
    "u64 \<Rightarrow> u64 \<Rightarrow> u64 \<Rightarrow> unity \<Rightarrow> unity outcome" where
  "TEST_ASSERT_GREATER_OR_EQUAL_HEX64 threshold actual line =
     UNITY_TEST_ASSERT_GREATER_OR_EQUAL_HEX64 threshold actual line None"

definition TEST_ASSERT_GREATER_OR_EQUAL_CHAR ::
    "u64 \<Rightarrow> u64 \<Rightarrow> u64 \<Rightarrow> unity \<Rightarrow> unity outcome" where
  "TEST_ASSERT_GREATER_OR_EQUAL_CHAR threshold actual line =
     UNITY_TEST_ASSERT_GREATER_OR_EQUAL_CHAR threshold actual line None"

subsection \<open>Less or equal\<close>

definition TEST_ASSERT_LESS_OR_EQUAL ::
    "u64 \<Rightarrow> u64 \<Rightarrow> u64 \<Rightarrow> unity \<Rightarrow> unity outcome" where
  "TEST_ASSERT_LESS_OR_EQUAL threshold actual line =
     UNITY_TEST_ASSERT_SMALLER_OR_EQUAL_INT threshold actual line None"

definition TEST_ASSERT_LESS_OR_EQUAL_INT ::
    "u64 \<Rightarrow> u64 \<Rightarrow> u64 \<Rightarrow> unity \<Rightarrow> unity outcome" where
  "TEST_ASSERT_LESS_OR_EQUAL_INT threshold actual line =
     UNITY_TEST_ASSERT_SMALLER_OR_EQUAL_INT threshold actual line None"

definition TEST_ASSERT_LESS_OR_EQUAL_INT8 ::
    "u64 \<Rightarrow> u64 \<Rightarrow> u64 \<Rightarrow> unity \<Rightarrow> unity outcome" where
  "TEST_ASSERT_LESS_OR_EQUAL_INT8 threshold actual line =
     UNITY_TEST_ASSERT_SMALLER_OR_EQUAL_INT8 threshold actual line None"

definition TEST_ASSERT_LESS_OR_EQUAL_INT16 ::
    "u64 \<Rightarrow> u64 \<Rightarrow> u64 \<Rightarrow> unity \<Rightarrow> unity outcome" where
  "TEST_ASSERT_LESS_OR_EQUAL_INT16 threshold actual line =
     UNITY_TEST_ASSERT_SMALLER_OR_EQUAL_INT16 threshold actual line None"

definition TEST_ASSERT_LESS_OR_EQUAL_INT32 ::
    "u64 \<Rightarrow> u64 \<Rightarrow> u64 \<Rightarrow> unity \<Rightarrow> unity outcome" where
  "TEST_ASSERT_LESS_OR_EQUAL_INT32 threshold actual line =
     UNITY_TEST_ASSERT_SMALLER_OR_EQUAL_INT32 threshold actual line None"

definition TEST_ASSERT_LESS_OR_EQUAL_INT64 ::
    "u64 \<Rightarrow> u64 \<Rightarrow> u64 \<Rightarrow> unity \<Rightarrow> unity outcome" where
  "TEST_ASSERT_LESS_OR_EQUAL_INT64 threshold actual line =
     UNITY_TEST_ASSERT_SMALLER_OR_EQUAL_INT64 threshold actual line None"

definition TEST_ASSERT_LESS_OR_EQUAL_UINT ::
    "u64 \<Rightarrow> u64 \<Rightarrow> u64 \<Rightarrow> unity \<Rightarrow> unity outcome" where
  "TEST_ASSERT_LESS_OR_EQUAL_UINT threshold actual line =
     UNITY_TEST_ASSERT_SMALLER_OR_EQUAL_UINT threshold actual line None"

definition TEST_ASSERT_LESS_OR_EQUAL_UINT8 ::
    "u64 \<Rightarrow> u64 \<Rightarrow> u64 \<Rightarrow> unity \<Rightarrow> unity outcome" where
  "TEST_ASSERT_LESS_OR_EQUAL_UINT8 threshold actual line =
     UNITY_TEST_ASSERT_SMALLER_OR_EQUAL_UINT8 threshold actual line None"

definition TEST_ASSERT_LESS_OR_EQUAL_UINT16 ::
    "u64 \<Rightarrow> u64 \<Rightarrow> u64 \<Rightarrow> unity \<Rightarrow> unity outcome" where
  "TEST_ASSERT_LESS_OR_EQUAL_UINT16 threshold actual line =
     UNITY_TEST_ASSERT_SMALLER_OR_EQUAL_UINT16 threshold actual line None"

definition TEST_ASSERT_LESS_OR_EQUAL_UINT32 ::
    "u64 \<Rightarrow> u64 \<Rightarrow> u64 \<Rightarrow> unity \<Rightarrow> unity outcome" where
  "TEST_ASSERT_LESS_OR_EQUAL_UINT32 threshold actual line =
     UNITY_TEST_ASSERT_SMALLER_OR_EQUAL_UINT32 threshold actual line None"

definition TEST_ASSERT_LESS_OR_EQUAL_UINT64 ::
    "u64 \<Rightarrow> u64 \<Rightarrow> u64 \<Rightarrow> unity \<Rightarrow> unity outcome" where
  "TEST_ASSERT_LESS_OR_EQUAL_UINT64 threshold actual line =
     UNITY_TEST_ASSERT_SMALLER_OR_EQUAL_UINT64 threshold actual line None"

definition TEST_ASSERT_LESS_OR_EQUAL_size_t ::
    "u64 \<Rightarrow> u64 \<Rightarrow> u64 \<Rightarrow> unity \<Rightarrow> unity outcome" where
  "TEST_ASSERT_LESS_OR_EQUAL_size_t threshold actual line =
     UNITY_TEST_ASSERT_SMALLER_OR_EQUAL_UINT threshold actual line None"

definition TEST_ASSERT_LESS_OR_EQUAL_HEX8 ::
    "u64 \<Rightarrow> u64 \<Rightarrow> u64 \<Rightarrow> unity \<Rightarrow> unity outcome" where
  "TEST_ASSERT_LESS_OR_EQUAL_HEX8 threshold actual line =
     UNITY_TEST_ASSERT_SMALLER_OR_EQUAL_HEX8 threshold actual line None"

definition TEST_ASSERT_LESS_OR_EQUAL_HEX16 ::
    "u64 \<Rightarrow> u64 \<Rightarrow> u64 \<Rightarrow> unity \<Rightarrow> unity outcome" where
  "TEST_ASSERT_LESS_OR_EQUAL_HEX16 threshold actual line =
     UNITY_TEST_ASSERT_SMALLER_OR_EQUAL_HEX16 threshold actual line None"

definition TEST_ASSERT_LESS_OR_EQUAL_HEX32 ::
    "u64 \<Rightarrow> u64 \<Rightarrow> u64 \<Rightarrow> unity \<Rightarrow> unity outcome" where
  "TEST_ASSERT_LESS_OR_EQUAL_HEX32 threshold actual line =
     UNITY_TEST_ASSERT_SMALLER_OR_EQUAL_HEX32 threshold actual line None"

definition TEST_ASSERT_LESS_OR_EQUAL_HEX64 ::
    "u64 \<Rightarrow> u64 \<Rightarrow> u64 \<Rightarrow> unity \<Rightarrow> unity outcome" where
  "TEST_ASSERT_LESS_OR_EQUAL_HEX64 threshold actual line =
     UNITY_TEST_ASSERT_SMALLER_OR_EQUAL_HEX64 threshold actual line None"

definition TEST_ASSERT_LESS_OR_EQUAL_CHAR ::
    "u64 \<Rightarrow> u64 \<Rightarrow> u64 \<Rightarrow> unity \<Rightarrow> unity outcome" where
  "TEST_ASSERT_LESS_OR_EQUAL_CHAR threshold actual line =
     UNITY_TEST_ASSERT_SMALLER_OR_EQUAL_CHAR threshold actual line None"

subsection \<open>Within a delta\<close>

definition TEST_ASSERT_INT_WITHIN ::
    "u64 \<Rightarrow> u64 \<Rightarrow> u64 \<Rightarrow> u64 \<Rightarrow> unity \<Rightarrow> unity outcome" where
  "TEST_ASSERT_INT_WITHIN delta expected actual line =
     UNITY_TEST_ASSERT_INT_WITHIN delta expected actual line None"

definition TEST_ASSERT_INT8_WITHIN ::
    "u64 \<Rightarrow> u64 \<Rightarrow> u64 \<Rightarrow> u64 \<Rightarrow> unity \<Rightarrow> unity outcome" where
  "TEST_ASSERT_INT8_WITHIN delta expected actual line =
     UNITY_TEST_ASSERT_INT8_WITHIN delta expected actual line None"

definition TEST_ASSERT_INT16_WITHIN ::
    "u64 \<Rightarrow> u64 \<Rightarrow> u64 \<Rightarrow> u64 \<Rightarrow> unity \<Rightarrow> unity outcome" where
  "TEST_ASSERT_INT16_WITHIN delta expected actual line =
     UNITY_TEST_ASSERT_INT16_WITHIN delta expected actual line None"

definition TEST_ASSERT_INT32_WITHIN ::
    "u64 \<Rightarrow> u64 \<Rightarrow> u64 \<Rightarrow> u64 \<Rightarrow> unity \<Rightarrow> unity outcome" where
  "TEST_ASSERT_INT32_WITHIN delta expected actual line =
     UNITY_TEST_ASSERT_INT32_WITHIN delta expected actual line None"

definition TEST_ASSERT_INT64_WITHIN ::
    "u64 \<Rightarrow> u64 \<Rightarrow> u64 \<Rightarrow> u64 \<Rightarrow> unity \<Rightarrow> unity outcome" where
  "TEST_ASSERT_INT64_WITHIN delta expected actual line =
     UNITY_TEST_ASSERT_INT64_WITHIN delta expected actual line None"

definition TEST_ASSERT_UINT_WITHIN ::
    "u64 \<Rightarrow> u64 \<Rightarrow> u64 \<Rightarrow> u64 \<Rightarrow> unity \<Rightarrow> unity outcome" where
  "TEST_ASSERT_UINT_WITHIN delta expected actual line =
     UNITY_TEST_ASSERT_UINT_WITHIN delta expected actual line None"

definition TEST_ASSERT_UINT8_WITHIN ::
    "u64 \<Rightarrow> u64 \<Rightarrow> u64 \<Rightarrow> u64 \<Rightarrow> unity \<Rightarrow> unity outcome" where
  "TEST_ASSERT_UINT8_WITHIN delta expected actual line =
     UNITY_TEST_ASSERT_UINT8_WITHIN delta expected actual line None"

definition TEST_ASSERT_UINT16_WITHIN ::
    "u64 \<Rightarrow> u64 \<Rightarrow> u64 \<Rightarrow> u64 \<Rightarrow> unity \<Rightarrow> unity outcome" where
  "TEST_ASSERT_UINT16_WITHIN delta expected actual line =
     UNITY_TEST_ASSERT_UINT16_WITHIN delta expected actual line None"

definition TEST_ASSERT_UINT32_WITHIN ::
    "u64 \<Rightarrow> u64 \<Rightarrow> u64 \<Rightarrow> u64 \<Rightarrow> unity \<Rightarrow> unity outcome" where
  "TEST_ASSERT_UINT32_WITHIN delta expected actual line =
     UNITY_TEST_ASSERT_UINT32_WITHIN delta expected actual line None"

definition TEST_ASSERT_UINT64_WITHIN ::
    "u64 \<Rightarrow> u64 \<Rightarrow> u64 \<Rightarrow> u64 \<Rightarrow> unity \<Rightarrow> unity outcome" where
  "TEST_ASSERT_UINT64_WITHIN delta expected actual line =
     UNITY_TEST_ASSERT_UINT64_WITHIN delta expected actual line None"

definition TEST_ASSERT_size_t_WITHIN ::
    "u64 \<Rightarrow> u64 \<Rightarrow> u64 \<Rightarrow> u64 \<Rightarrow> unity \<Rightarrow> unity outcome" where
  "TEST_ASSERT_size_t_WITHIN delta expected actual line =
     UNITY_TEST_ASSERT_UINT_WITHIN delta expected actual line None"

definition TEST_ASSERT_HEX_WITHIN ::
    "u64 \<Rightarrow> u64 \<Rightarrow> u64 \<Rightarrow> u64 \<Rightarrow> unity \<Rightarrow> unity outcome" where
  "TEST_ASSERT_HEX_WITHIN delta expected actual line =
     UNITY_TEST_ASSERT_HEX32_WITHIN delta expected actual line None"

definition TEST_ASSERT_HEX8_WITHIN ::
    "u64 \<Rightarrow> u64 \<Rightarrow> u64 \<Rightarrow> u64 \<Rightarrow> unity \<Rightarrow> unity outcome" where
  "TEST_ASSERT_HEX8_WITHIN delta expected actual line =
     UNITY_TEST_ASSERT_HEX8_WITHIN delta expected actual line None"

definition TEST_ASSERT_HEX16_WITHIN ::
    "u64 \<Rightarrow> u64 \<Rightarrow> u64 \<Rightarrow> u64 \<Rightarrow> unity \<Rightarrow> unity outcome" where
  "TEST_ASSERT_HEX16_WITHIN delta expected actual line =
     UNITY_TEST_ASSERT_HEX16_WITHIN delta expected actual line None"

definition TEST_ASSERT_HEX32_WITHIN ::
    "u64 \<Rightarrow> u64 \<Rightarrow> u64 \<Rightarrow> u64 \<Rightarrow> unity \<Rightarrow> unity outcome" where
  "TEST_ASSERT_HEX32_WITHIN delta expected actual line =
     UNITY_TEST_ASSERT_HEX32_WITHIN delta expected actual line None"

definition TEST_ASSERT_HEX64_WITHIN ::
    "u64 \<Rightarrow> u64 \<Rightarrow> u64 \<Rightarrow> u64 \<Rightarrow> unity \<Rightarrow> unity outcome" where
  "TEST_ASSERT_HEX64_WITHIN delta expected actual line =
     UNITY_TEST_ASSERT_HEX64_WITHIN delta expected actual line None"

definition TEST_ASSERT_CHAR_WITHIN ::
    "u64 \<Rightarrow> u64 \<Rightarrow> u64 \<Rightarrow> u64 \<Rightarrow> unity \<Rightarrow> unity outcome" where
  "TEST_ASSERT_CHAR_WITHIN delta expected actual line =
     UNITY_TEST_ASSERT_CHAR_WITHIN delta expected actual line None"

subsection \<open>Arrays within a delta\<close>

definition TEST_ASSERT_INT_ARRAY_WITHIN ::
    "cmem \<Rightarrow> u64 \<Rightarrow> addr \<Rightarrow> addr \<Rightarrow> u64 \<Rightarrow> u64 \<Rightarrow> unity \<Rightarrow> unity outcome" where
  "TEST_ASSERT_INT_ARRAY_WITHIN m delta expected actual num_elements line =
     UNITY_TEST_ASSERT_INT_ARRAY_WITHIN m delta expected actual num_elements line None"

definition TEST_ASSERT_INT8_ARRAY_WITHIN ::
    "cmem \<Rightarrow> u64 \<Rightarrow> addr \<Rightarrow> addr \<Rightarrow> u64 \<Rightarrow> u64 \<Rightarrow> unity \<Rightarrow> unity outcome" where
  "TEST_ASSERT_INT8_ARRAY_WITHIN m delta expected actual num_elements line =
     UNITY_TEST_ASSERT_INT8_ARRAY_WITHIN m delta expected actual num_elements line None"

definition TEST_ASSERT_INT16_ARRAY_WITHIN ::
    "cmem \<Rightarrow> u64 \<Rightarrow> addr \<Rightarrow> addr \<Rightarrow> u64 \<Rightarrow> u64 \<Rightarrow> unity \<Rightarrow> unity outcome" where
  "TEST_ASSERT_INT16_ARRAY_WITHIN m delta expected actual num_elements line =
     UNITY_TEST_ASSERT_INT16_ARRAY_WITHIN m delta expected actual num_elements line None"

definition TEST_ASSERT_INT32_ARRAY_WITHIN ::
    "cmem \<Rightarrow> u64 \<Rightarrow> addr \<Rightarrow> addr \<Rightarrow> u64 \<Rightarrow> u64 \<Rightarrow> unity \<Rightarrow> unity outcome" where
  "TEST_ASSERT_INT32_ARRAY_WITHIN m delta expected actual num_elements line =
     UNITY_TEST_ASSERT_INT32_ARRAY_WITHIN m delta expected actual num_elements line None"

definition TEST_ASSERT_INT64_ARRAY_WITHIN ::
    "cmem \<Rightarrow> u64 \<Rightarrow> addr \<Rightarrow> addr \<Rightarrow> u64 \<Rightarrow> u64 \<Rightarrow> unity \<Rightarrow> unity outcome" where
  "TEST_ASSERT_INT64_ARRAY_WITHIN m delta expected actual num_elements line =
     UNITY_TEST_ASSERT_INT64_ARRAY_WITHIN m delta expected actual num_elements line None"

definition TEST_ASSERT_UINT_ARRAY_WITHIN ::
    "cmem \<Rightarrow> u64 \<Rightarrow> addr \<Rightarrow> addr \<Rightarrow> u64 \<Rightarrow> u64 \<Rightarrow> unity \<Rightarrow> unity outcome" where
  "TEST_ASSERT_UINT_ARRAY_WITHIN m delta expected actual num_elements line =
     UNITY_TEST_ASSERT_UINT_ARRAY_WITHIN m delta expected actual num_elements line None"

definition TEST_ASSERT_UINT8_ARRAY_WITHIN ::
    "cmem \<Rightarrow> u64 \<Rightarrow> addr \<Rightarrow> addr \<Rightarrow> u64 \<Rightarrow> u64 \<Rightarrow> unity \<Rightarrow> unity outcome" where
  "TEST_ASSERT_UINT8_ARRAY_WITHIN m delta expected actual num_elements line =
     UNITY_TEST_ASSERT_UINT8_ARRAY_WITHIN m delta expected actual num_elements line None"

definition TEST_ASSERT_UINT16_ARRAY_WITHIN ::
    "cmem \<Rightarrow> u64 \<Rightarrow> addr \<Rightarrow> addr \<Rightarrow> u64 \<Rightarrow> u64 \<Rightarrow> unity \<Rightarrow> unity outcome" where
  "TEST_ASSERT_UINT16_ARRAY_WITHIN m delta expected actual num_elements line =
     UNITY_TEST_ASSERT_UINT16_ARRAY_WITHIN m delta expected actual num_elements line None"

definition TEST_ASSERT_UINT32_ARRAY_WITHIN ::
    "cmem \<Rightarrow> u64 \<Rightarrow> addr \<Rightarrow> addr \<Rightarrow> u64 \<Rightarrow> u64 \<Rightarrow> unity \<Rightarrow> unity outcome" where
  "TEST_ASSERT_UINT32_ARRAY_WITHIN m delta expected actual num_elements line =
     UNITY_TEST_ASSERT_UINT32_ARRAY_WITHIN m delta expected actual num_elements line None"

definition TEST_ASSERT_UINT64_ARRAY_WITHIN ::
    "cmem \<Rightarrow> u64 \<Rightarrow> addr \<Rightarrow> addr \<Rightarrow> u64 \<Rightarrow> u64 \<Rightarrow> unity \<Rightarrow> unity outcome" where
  "TEST_ASSERT_UINT64_ARRAY_WITHIN m delta expected actual num_elements line =
     UNITY_TEST_ASSERT_UINT64_ARRAY_WITHIN m delta expected actual num_elements line None"

definition TEST_ASSERT_size_t_ARRAY_WITHIN ::
    "cmem \<Rightarrow> u64 \<Rightarrow> addr \<Rightarrow> addr \<Rightarrow> u64 \<Rightarrow> u64 \<Rightarrow> unity \<Rightarrow> unity outcome" where
  "TEST_ASSERT_size_t_ARRAY_WITHIN m delta expected actual num_elements line =
     UNITY_TEST_ASSERT_UINT_ARRAY_WITHIN m delta expected actual num_elements line None"

definition TEST_ASSERT_HEX_ARRAY_WITHIN ::
    "cmem \<Rightarrow> u64 \<Rightarrow> addr \<Rightarrow> addr \<Rightarrow> u64 \<Rightarrow> u64 \<Rightarrow> unity \<Rightarrow> unity outcome" where
  "TEST_ASSERT_HEX_ARRAY_WITHIN m delta expected actual num_elements line =
     UNITY_TEST_ASSERT_HEX32_ARRAY_WITHIN m delta expected actual num_elements line None"

definition TEST_ASSERT_HEX8_ARRAY_WITHIN ::
    "cmem \<Rightarrow> u64 \<Rightarrow> addr \<Rightarrow> addr \<Rightarrow> u64 \<Rightarrow> u64 \<Rightarrow> unity \<Rightarrow> unity outcome" where
  "TEST_ASSERT_HEX8_ARRAY_WITHIN m delta expected actual num_elements line =
     UNITY_TEST_ASSERT_HEX8_ARRAY_WITHIN m delta expected actual num_elements line None"

definition TEST_ASSERT_HEX16_ARRAY_WITHIN ::
    "cmem \<Rightarrow> u64 \<Rightarrow> addr \<Rightarrow> addr \<Rightarrow> u64 \<Rightarrow> u64 \<Rightarrow> unity \<Rightarrow> unity outcome" where
  "TEST_ASSERT_HEX16_ARRAY_WITHIN m delta expected actual num_elements line =
     UNITY_TEST_ASSERT_HEX16_ARRAY_WITHIN m delta expected actual num_elements line None"

definition TEST_ASSERT_HEX32_ARRAY_WITHIN ::
    "cmem \<Rightarrow> u64 \<Rightarrow> addr \<Rightarrow> addr \<Rightarrow> u64 \<Rightarrow> u64 \<Rightarrow> unity \<Rightarrow> unity outcome" where
  "TEST_ASSERT_HEX32_ARRAY_WITHIN m delta expected actual num_elements line =
     UNITY_TEST_ASSERT_HEX32_ARRAY_WITHIN m delta expected actual num_elements line None"

definition TEST_ASSERT_HEX64_ARRAY_WITHIN ::
    "cmem \<Rightarrow> u64 \<Rightarrow> addr \<Rightarrow> addr \<Rightarrow> u64 \<Rightarrow> u64 \<Rightarrow> unity \<Rightarrow> unity outcome" where
  "TEST_ASSERT_HEX64_ARRAY_WITHIN m delta expected actual num_elements line =
     UNITY_TEST_ASSERT_HEX64_ARRAY_WITHIN m delta expected actual num_elements line None"

definition TEST_ASSERT_CHAR_ARRAY_WITHIN ::
    "cmem \<Rightarrow> u64 \<Rightarrow> addr \<Rightarrow> addr \<Rightarrow> u64 \<Rightarrow> u64 \<Rightarrow> unity \<Rightarrow> unity outcome" where
  "TEST_ASSERT_CHAR_ARRAY_WITHIN m delta expected actual num_elements line =
     UNITY_TEST_ASSERT_CHAR_ARRAY_WITHIN m delta expected actual num_elements line None"

subsection \<open>Strings and memory\<close>

definition TEST_ASSERT_EQUAL_STRING ::
    "string option \<Rightarrow> string option \<Rightarrow> u64 \<Rightarrow> unity \<Rightarrow> unity outcome" where
  "TEST_ASSERT_EQUAL_STRING expected actual line =
     UNITY_TEST_ASSERT_EQUAL_STRING expected actual line None"

definition TEST_ASSERT_EQUAL_STRING_LEN ::
    "string option \<Rightarrow> string option \<Rightarrow> u64 \<Rightarrow> u64 \<Rightarrow> unity \<Rightarrow> unity outcome" where
  "TEST_ASSERT_EQUAL_STRING_LEN expected actual len line =
     UNITY_TEST_ASSERT_EQUAL_STRING_LEN expected actual len line None"

definition TEST_ASSERT_EQUAL_MEMORY ::
    "cmem \<Rightarrow> addr \<Rightarrow> addr \<Rightarrow> u64 \<Rightarrow> u64 \<Rightarrow> unity \<Rightarrow> unity outcome" where
  "TEST_ASSERT_EQUAL_MEMORY m expected actual len line =
     UNITY_TEST_ASSERT_EQUAL_MEMORY m expected actual len line None"

subsection \<open>Arrays\<close>

definition TEST_ASSERT_EQUAL_INT_ARRAY ::
    "cmem \<Rightarrow> addr \<Rightarrow> addr \<Rightarrow> u64 \<Rightarrow> u64 \<Rightarrow> unity \<Rightarrow> unity outcome" where
  "TEST_ASSERT_EQUAL_INT_ARRAY m expected actual num_elements line =
     UNITY_TEST_ASSERT_EQUAL_INT_ARRAY m expected actual num_elements line None"

definition TEST_ASSERT_EQUAL_INT8_ARRAY ::
    "cmem \<Rightarrow> addr \<Rightarrow> addr \<Rightarrow> u64 \<Rightarrow> u64 \<Rightarrow> unity \<Rightarrow> unity outcome" where
  "TEST_ASSERT_EQUAL_INT8_ARRAY m expected actual num_elements line =
     UNITY_TEST_ASSERT_EQUAL_INT8_ARRAY m expected actual num_elements line None"

definition TEST_ASSERT_EQUAL_INT16_ARRAY ::
    "cmem \<Rightarrow> addr \<Rightarrow> addr \<Rightarrow> u64 \<Rightarrow> u64 \<Rightarrow> unity \<Rightarrow> unity outcome" where
  "TEST_ASSERT_EQUAL_INT16_ARRAY m expected actual num_elements line =
     UNITY_TEST_ASSERT_EQUAL_INT16_ARRAY m expected actual num_elements line None"

definition TEST_ASSERT_EQUAL_INT32_ARRAY ::
    "cmem \<Rightarrow> addr \<Rightarrow> addr \<Rightarrow> u64 \<Rightarrow> u64 \<Rightarrow> unity \<Rightarrow> unity outcome" where
  "TEST_ASSERT_EQUAL_INT32_ARRAY m expected actual num_elements line =
     UNITY_TEST_ASSERT_EQUAL_INT32_ARRAY m expected actual num_elements line None"

definition TEST_ASSERT_EQUAL_INT64_ARRAY ::
    "cmem \<Rightarrow> addr \<Rightarrow> addr \<Rightarrow> u64 \<Rightarrow> u64 \<Rightarrow> unity \<Rightarrow> unity outcome" where
  "TEST_ASSERT_EQUAL_INT64_ARRAY m expected actual num_elements line =
     UNITY_TEST_ASSERT_EQUAL_INT64_ARRAY m expected actual num_elements line None"

definition TEST_ASSERT_EQUAL_UINT_ARRAY ::
    "cmem \<Rightarrow> addr \<Rightarrow> addr \<Rightarrow> u64 \<Rightarrow> u64 \<Rightarrow> unity \<Rightarrow> unity outcome" where
  "TEST_ASSERT_EQUAL_UINT_ARRAY m expected actual num_elements line =
     UNITY_TEST_ASSERT_EQUAL_UINT_ARRAY m expected actual num_elements line None"

definition TEST_ASSERT_EQUAL_UINT8_ARRAY ::
    "cmem \<Rightarrow> addr \<Rightarrow> addr \<Rightarrow> u64 \<Rightarrow> u64 \<Rightarrow> unity \<Rightarrow> unity outcome" where
  "TEST_ASSERT_EQUAL_UINT8_ARRAY m expected actual num_elements line =
     UNITY_TEST_ASSERT_EQUAL_UINT8_ARRAY m expected actual num_elements line None"

definition TEST_ASSERT_EQUAL_UINT16_ARRAY ::
    "cmem \<Rightarrow> addr \<Rightarrow> addr \<Rightarrow> u64 \<Rightarrow> u64 \<Rightarrow> unity \<Rightarrow> unity outcome" where
  "TEST_ASSERT_EQUAL_UINT16_ARRAY m expected actual num_elements line =
     UNITY_TEST_ASSERT_EQUAL_UINT16_ARRAY m expected actual num_elements line None"

definition TEST_ASSERT_EQUAL_UINT32_ARRAY ::
    "cmem \<Rightarrow> addr \<Rightarrow> addr \<Rightarrow> u64 \<Rightarrow> u64 \<Rightarrow> unity \<Rightarrow> unity outcome" where
  "TEST_ASSERT_EQUAL_UINT32_ARRAY m expected actual num_elements line =
     UNITY_TEST_ASSERT_EQUAL_UINT32_ARRAY m expected actual num_elements line None"

definition TEST_ASSERT_EQUAL_UINT64_ARRAY ::
    "cmem \<Rightarrow> addr \<Rightarrow> addr \<Rightarrow> u64 \<Rightarrow> u64 \<Rightarrow> unity \<Rightarrow> unity outcome" where
  "TEST_ASSERT_EQUAL_UINT64_ARRAY m expected actual num_elements line =
     UNITY_TEST_ASSERT_EQUAL_UINT64_ARRAY m expected actual num_elements line None"

definition TEST_ASSERT_EQUAL_size_t_ARRAY ::
    "cmem \<Rightarrow> addr \<Rightarrow> addr \<Rightarrow> u64 \<Rightarrow> u64 \<Rightarrow> unity \<Rightarrow> unity outcome" where
  "TEST_ASSERT_EQUAL_size_t_ARRAY m expected actual num_elements line =
     UNITY_TEST_ASSERT_EQUAL_UINT_ARRAY m expected actual num_elements line None"

definition TEST_ASSERT_EQUAL_HEX_ARRAY ::
    "cmem \<Rightarrow> addr \<Rightarrow> addr \<Rightarrow> u64 \<Rightarrow> u64 \<Rightarrow> unity \<Rightarrow> unity outcome" where
  "TEST_ASSERT_EQUAL_HEX_ARRAY m expected actual num_elements line =
     UNITY_TEST_ASSERT_EQUAL_HEX32_ARRAY m expected actual num_elements line None"

definition TEST_ASSERT_EQUAL_HEX8_ARRAY ::
    "cmem \<Rightarrow> addr \<Rightarrow> addr \<Rightarrow> u64 \<Rightarrow> u64 \<Rightarrow> unity \<Rightarrow> unity outcome" where
  "TEST_ASSERT_EQUAL_HEX8_ARRAY m expected actual num_elements line =
     UNITY_TEST_ASSERT_EQUAL_HEX8_ARRAY m expected actual num_elements line None"

definition TEST_ASSERT_EQUAL_HEX16_ARRAY ::
    "cmem \<Rightarrow> addr \<Rightarrow> addr \<Rightarrow> u64 \<Rightarrow> u64 \<Rightarrow> unity \<Rightarrow> unity outcome" where
  "TEST_ASSERT_EQUAL_HEX16_ARRAY m expected actual num_elements line =
     UNITY_TEST_ASSERT_EQUAL_HEX16_ARRAY m expected actual num_elements line None"

definition TEST_ASSERT_EQUAL_HEX32_ARRAY ::
    "cmem \<Rightarrow> addr \<Rightarrow> addr \<Rightarrow> u64 \<Rightarrow> u64 \<Rightarrow> unity \<Rightarrow> unity outcome" where
  "TEST_ASSERT_EQUAL_HEX32_ARRAY m expected actual num_elements line =
     UNITY_TEST_ASSERT_EQUAL_HEX32_ARRAY m expected actual num_elements line None"

definition TEST_ASSERT_EQUAL_HEX64_ARRAY ::
    "cmem \<Rightarrow> addr \<Rightarrow> addr \<Rightarrow> u64 \<Rightarrow> u64 \<Rightarrow> unity \<Rightarrow> unity outcome" where
  "TEST_ASSERT_EQUAL_HEX64_ARRAY m expected actual num_elements line =
     UNITY_TEST_ASSERT_EQUAL_HEX64_ARRAY m expected actual num_elements line None"

definition TEST_ASSERT_EQUAL_PTR_ARRAY ::
    "cmem \<Rightarrow> addr \<Rightarrow> addr \<Rightarrow> u64 \<Rightarrow> u64 \<Rightarrow> unity \<Rightarrow> unity outcome" where
  "TEST_ASSERT_EQUAL_PTR_ARRAY m expected actual num_elements line =
     UNITY_TEST_ASSERT_EQUAL_PTR_ARRAY m expected actual num_elements line None"

definition TEST_ASSERT_EQUAL_STRING_ARRAY ::
    "cmem \<Rightarrow> (addr \<Rightarrow> string) \<Rightarrow> addr \<Rightarrow> addr \<Rightarrow> u64 \<Rightarrow> u64 \<Rightarrow> unity \<Rightarrow> unity outcome" where
  "TEST_ASSERT_EQUAL_STRING_ARRAY m strs expected actual num_elements line =
     UNITY_TEST_ASSERT_EQUAL_STRING_ARRAY m strs expected actual num_elements line None"

definition TEST_ASSERT_EQUAL_MEMORY_ARRAY ::
    "cmem \<Rightarrow> addr \<Rightarrow> addr \<Rightarrow> u64 \<Rightarrow> u64 \<Rightarrow> u64 \<Rightarrow> unity \<Rightarrow> unity outcome" where
  "TEST_ASSERT_EQUAL_MEMORY_ARRAY m expected actual len num_elements line =
     UNITY_TEST_ASSERT_EQUAL_MEMORY_ARRAY m expected actual len num_elements line None"

definition TEST_ASSERT_EQUAL_CHAR_ARRAY ::
    "cmem \<Rightarrow> addr \<Rightarrow> addr \<Rightarrow> u64 \<Rightarrow> u64 \<Rightarrow> unity \<Rightarrow> unity outcome" where
  "TEST_ASSERT_EQUAL_CHAR_ARRAY m expected actual num_elements line =
     UNITY_TEST_ASSERT_EQUAL_CHAR_ARRAY m expected actual num_elements line None"

subsection \<open>Arrays against one value\<close>

definition TEST_ASSERT_EACH_EQUAL_INT ::
    "addr \<Rightarrow> cmem \<Rightarrow> u64 \<Rightarrow> addr \<Rightarrow> u64 \<Rightarrow> u64 \<Rightarrow> unity \<Rightarrow> unity outcome" where
  "TEST_ASSERT_EACH_EQUAL_INT q m expected actual num_elements line =
     UNITY_TEST_ASSERT_EACH_EQUAL_INT q m expected actual num_elements line None"

definition TEST_ASSERT_EACH_EQUAL_INT8 ::
    "addr \<Rightarrow> cmem \<Rightarrow> u64 \<Rightarrow> addr \<Rightarrow> u64 \<Rightarrow> u64 \<Rightarrow> unity \<Rightarrow> unity outcome" where
  "TEST_ASSERT_EACH_EQUAL_INT8 q m expected actual num_elements line =
     UNITY_TEST_ASSERT_EACH_EQUAL_INT8 q m expected actual num_elements line None"

definition TEST_ASSERT_EACH_EQUAL_INT16 ::
    "addr \<Rightarrow> cmem \<Rightarrow> u64 \<Rightarrow> addr \<Rightarrow> u64 \<Rightarrow> u64 \<Rightarrow> unity \<Rightarrow> unity outcome" where
  "TEST_ASSERT_EACH_EQUAL_INT16 q m expected actual num_elements line =
     UNITY_TEST_ASSERT_EACH_EQUAL_INT16 q m expected actual num_elements line None"

definition TEST_ASSERT_EACH_EQUAL_INT32 ::
    "addr \<Rightarrow> cmem \<Rightarrow> u64 \<Rightarrow> addr \<Rightarrow> u64 \<Rightarrow> u64 \<Rightarrow> unity \<Rightarrow> unity outcome" where
  "TEST_ASSERT_EACH_EQUAL_INT32 q m expected actual num_elements line =
     UNITY_TEST_ASSERT_EACH_EQUAL_INT32 q m expected actual num_elements line None"

definition TEST_ASSERT_EACH_EQUAL_INT64 ::
    "addr \<Rightarrow> cmem \<Rightarrow> u64 \<Rightarrow> addr \<Rightarrow> u64 \<Rightarrow> u64 \<Rightarrow> unity \<Rightarrow> unity outcome" where
  "TEST_ASSERT_EACH_EQUAL_INT64 q m expected actual num_elements line =
     UNITY_TEST_ASSERT_EACH_EQUAL_INT64 q m expected actual num_elements line None"

definition TEST_ASSERT_EACH_EQUAL_UINT ::
    "addr \<Rightarrow> cmem \<Rightarrow> u64 \<Rightarrow> addr \<Rightarrow> u64 \<Rightarrow> u64 \<Rightarrow> unity \<Rightarrow> unity outcome" where
  "TEST_ASSERT_EACH_EQUAL_UINT q m expected actual num_elements line =
     UNITY_TEST_ASSERT_EACH_EQUAL_UINT q m expected actual num_elements line None"

definition TEST_ASSERT_EACH_EQUAL_UINT8 ::
    "addr \<Rightarrow> cmem \<Rightarrow> u64 \<Rightarrow> addr \<Rightarrow> u64 \<Rightarrow> u64 \<Rightarrow> unity \<Rightarrow> unity outcome" where
  "TEST_ASSERT_EACH_EQUAL_UINT8 q m expected actual num_elements line =
     UNITY_TEST_ASSERT_EACH_EQUAL_UINT8 q m expected actual num_elements line None"

definition TEST_ASSERT_EACH_EQUAL_UINT16 ::
    "addr \<Rightarrow> cmem \<Rightarrow> u64 \<Rightarrow> addr \<Rightarrow> u64 \<Rightarrow> u64 \<Rightarrow> unity \<Rightarrow> unity outcome" where
  "TEST_ASSERT_EACH_EQUAL_UINT16 q m expected actual num_elements line =
     UNITY_TEST_ASSERT_EACH_EQUAL_UINT16 q m expected actual num_elements line None"

definition TEST_ASSERT_EACH_EQUAL_UINT32 ::
    "addr \<Rightarrow> cmem \<Rightarrow> u64 \<Rightarrow> addr \<Rightarrow> u64 \<Rightarrow> u64 \<Rightarrow> unity \<Rightarrow> unity outcome" where
  "TEST_ASSERT_EACH_EQUAL_UINT32 q m expected actual num_elements line =
     UNITY_TEST_ASSERT_EACH_EQUAL_UINT32 q m expected actual num_elements line None"

definition TEST_ASSERT_EACH_EQUAL_UINT64 ::
    "addr \<Rightarrow> cmem \<Rightarrow> u64 \<Rightarrow> addr \<Rightarrow> u64 \<Rightarrow> u64 \<Rightarrow> unity \<Rightarrow> unity outcome" where
  "TEST_ASSERT_EACH_EQUAL_UINT64 q m expected actual num_elements line =
     UNITY_TEST_ASSERT_EACH_EQUAL_UINT64 q m expected actual num_elements line None"

definition TEST_ASSERT_EACH_EQUAL_size_t ::
    "addr \<Rightarrow> cmem \<Rightarrow> u64 \<Rightarrow> addr \<Rightarrow> u64 \<Rightarrow> u64 \<Rightarrow> unity \<Rightarrow> unity outcome" where
  "TEST_ASSERT_EACH_EQUAL_size_t q m expected actual num_elements line =
     UNITY_TEST_ASSERT_EACH_EQUAL_UINT q m expected actual num_elements line None"

definition TEST_ASSERT_EACH_EQUAL_HEX ::
    "addr \<Rightarrow> cmem \<Rightarrow> u64 \<Rightarrow> addr \<Rightarrow> u64 \<Rightarrow> u64 \<Rightarrow> unity \<Rightarrow> unity outcome" where
  "TEST_ASSERT_EACH_EQUAL_HEX q m expected actual num_elements line =
     UNITY_TEST_ASSERT_EACH_EQUAL_HEX32 q m expected actual num_elements line None"

definition TEST_ASSERT_EACH_EQUAL_HEX8 ::
    "addr \<Rightarrow> cmem \<Rightarrow> u64 \<Rightarrow> addr \<Rightarrow> u64 \<Rightarrow> u64 \<Rightarrow> unity \<Rightarrow> unity outcome" where
  "TEST_ASSERT_EACH_EQUAL_HEX8 q m expected actual num_elements line =
     UNITY_TEST_ASSERT_EACH_EQUAL_HEX8 q m expected actual num_elements line None"

definition TEST_ASSERT_EACH_EQUAL_HEX16 ::
    "addr \<Rightarrow> cmem \<Rightarrow> u64 \<Rightarrow> addr \<Rightarrow> u64 \<Rightarrow> u64 \<Rightarrow> unity \<Rightarrow> unity outcome" where
  "TEST_ASSERT_EACH_EQUAL_HEX16 q m expected actual num_elements line =
     UNITY_TEST_ASSERT_EACH_EQUAL_HEX16 q m expected actual num_elements line None"

definition TEST_ASSERT_EACH_EQUAL_HEX32 ::
    "addr \<Rightarrow> cmem \<Rightarrow> u64 \<Rightarrow> addr \<Rightarrow> u64 \<Rightarrow> u64 \<Rightarrow> unity \<Rightarrow> unity outcome" where
  "TEST_ASSERT_EACH_EQUAL_HEX32 q m expected actual num_elements line =
     UNITY_TEST_ASSERT_EACH_EQUAL_HEX32 q m expected actual num_elements line None"

definition TEST_ASSERT_EACH_EQUAL_HEX64 ::
    "addr \<Rightarrow> cmem \<Rightarrow> u64 \<Rightarrow> addr \<Rightarrow> u64 \<Rightarrow> u64 \<Rightarrow> unity \<Rightarrow> unity outcome" where
  "TEST_ASSERT_EACH_EQUAL_HEX64 q m expected actual num_elements line =
     UNITY_TEST_ASSERT_EACH_EQUAL_HEX64 q m expected actual num_elements line None"

definition TEST_ASSERT_EACH_EQUAL_PTR ::
    "addr \<Rightarrow> cmem \<Rightarrow> u64 \<Rightarrow> addr \<Rightarrow> u64 \<Rightarrow> u64 \<Rightarrow> unity \<Rightarrow> unity outcome" where
  "TEST_ASSERT_EACH_EQUAL_PTR q m expected actual num_elements line =
     UNITY_TEST_ASSERT_EACH_EQUAL_PTR q m expected actual num_elements line None"

definition TEST_ASSERT_EACH_EQUAL_STRING ::
    "cmem \<Rightarrow> (addr \<Rightarrow> string) \<Rightarrow> addr \<Rightarrow> addr \<Rightarrow> u64 \<Rightarrow> u64 \<Rightarrow> unity \<Rightarrow> unity outcome" where
  "TEST_ASSERT_EACH_EQUAL_STRING m strs expected actual num_elements line =
     UNITY_TEST_ASSERT_EACH_EQUAL_STRING m strs expected actual num_elements line None"

definition TEST_ASSERT_EACH_EQUAL_MEMORY ::
    "cmem \<Rightarrow> addr \<Rightarrow> addr \<Rightarrow> u64 \<Rightarrow> u64 \<Rightarrow> u64 \<Rightarrow> unity \<Rightarrow> unity outcome" where
  "TEST_ASSERT_EACH_EQUAL_MEMORY m expected actual len num_elements line =
     UNITY_TEST_ASSERT_EACH_EQUAL_MEMORY m expected actual len num_elements line None"

definition TEST_ASSERT_EACH_EQUAL_CHAR ::
    "addr \<Rightarrow> cmem \<Rightarrow> u64 \<Rightarrow> addr \<Rightarrow> u64 \<Rightarrow> u64 \<Rightarrow> unity \<Rightarrow> unity outcome" where
  "TEST_ASSERT_EACH_EQUAL_CHAR q m expected actual num_elements line =
     UNITY_TEST_ASSERT_EACH_EQUAL_CHAR q m expected actual num_elements line None"

subsection \<open>Equality\<close>

definition TEST_ASSERT_EQUAL ::
    "u64 \<Rightarrow> u64 \<Rightarrow> u64 \<Rightarrow> unity \<Rightarrow> unity outcome" where
  "TEST_ASSERT_EQUAL expected actual line =
     UNITY_TEST_ASSERT_EQUAL_INT expected actual line None"

subsection \<open>Inequality\<close>

definition TEST_ASSERT_NOT_EQUAL ::
    "u64 \<Rightarrow> u64 \<Rightarrow> u64 \<Rightarrow> unity \<Rightarrow> unity outcome" where
  "TEST_ASSERT_NOT_EQUAL expected actual line =
     UNITY_TEST_ASSERT (expected \<noteq> actual) line (Some '' Expected Not-Equal'')"

subsection \<open>Conditions\<close>

definition TEST_ASSERT_MESSAGE ::
    "bool \<Rightarrow> string option \<Rightarrow> u64 \<Rightarrow> unity \<Rightarrow> unity outcome" where
  "TEST_ASSERT_MESSAGE condition message line =
     UNITY_TEST_ASSERT condition line message"

definition TEST_ASSERT_TRUE_MESSAGE ::
    "bool \<Rightarrow> string option \<Rightarrow> u64 \<Rightarrow> unity \<Rightarrow> unity outcome" where
  "TEST_ASSERT_TRUE_MESSAGE condition message line =
     UNITY_TEST_ASSERT condition line message"

definition TEST_ASSERT_UNLESS_MESSAGE ::
    "bool \<Rightarrow> string option \<Rightarrow> u64 \<Rightarrow> unity \<Rightarrow> unity outcome" where
  "TEST_ASSERT_UNLESS_MESSAGE condition message line =
     UNITY_TEST_ASSERT (\<not> condition) line message"

definition TEST_ASSERT_FALSE_MESSAGE ::
    "bool \<Rightarrow> string option \<Rightarrow> u64 \<Rightarrow> unity \<Rightarrow> unity outcome" where
  "TEST_ASSERT_FALSE_MESSAGE condition message line =
     UNITY_TEST_ASSERT (\<not> condition) line message"

definition TEST_ASSERT_NULL_MESSAGE ::
    "addr \<Rightarrow> string option \<Rightarrow> u64 \<Rightarrow> unity \<Rightarrow> unity outcome" where
  "TEST_ASSERT_NULL_MESSAGE pointer message line =
     UNITY_TEST_ASSERT_NULL pointer line message"

definition TEST_ASSERT_NOT_NULL_MESSAGE ::
    "addr \<Rightarrow> string option \<Rightarrow> u64 \<Rightarrow> unity \<Rightarrow> unity outcome" where
  "TEST_ASSERT_NOT_NULL_MESSAGE pointer message line =
     UNITY_TEST_ASSERT_NOT_NULL pointer line message"

definition TEST_ASSERT_EMPTY_MESSAGE ::
    "string option \<Rightarrow> string option \<Rightarrow> u64 \<Rightarrow> unity \<Rightarrow> unity outcome" where
  "TEST_ASSERT_EMPTY_MESSAGE pointer message line =
     UNITY_TEST_ASSERT_EMPTY pointer line message"

definition TEST_ASSERT_NOT_EMPTY_MESSAGE ::
    "string option \<Rightarrow> string option \<Rightarrow> u64 \<Rightarrow> unity \<Rightarrow> unity outcome" where
  "TEST_ASSERT_NOT_EMPTY_MESSAGE pointer message line =
     UNITY_TEST_ASSERT_NOT_EMPTY pointer line message"

subsection \<open>Equality\<close>

definition TEST_ASSERT_EQUAL_INT_MESSAGE ::
    "u64 \<Rightarrow> u64 \<Rightarrow> string option \<Rightarrow> u64 \<Rightarrow> unity \<Rightarrow> unity outcome" where
  "TEST_ASSERT_EQUAL_INT_MESSAGE expected actual message line =
     UNITY_TEST_ASSERT_EQUAL_INT expected actual line message"

definition TEST_ASSERT_EQUAL_INT8_MESSAGE ::
    "u64 \<Rightarrow> u64 \<Rightarrow> string option \<Rightarrow> u64 \<Rightarrow> unity \<Rightarrow> unity outcome" where
  "TEST_ASSERT_EQUAL_INT8_MESSAGE expected actual message line =
     UNITY_TEST_ASSERT_EQUAL_INT8 expected actual line message"

definition TEST_ASSERT_EQUAL_INT16_MESSAGE ::
    "u64 \<Rightarrow> u64 \<Rightarrow> string option \<Rightarrow> u64 \<Rightarrow> unity \<Rightarrow> unity outcome" where
  "TEST_ASSERT_EQUAL_INT16_MESSAGE expected actual message line =
     UNITY_TEST_ASSERT_EQUAL_INT16 expected actual line message"

definition TEST_ASSERT_EQUAL_INT32_MESSAGE ::
    "u64 \<Rightarrow> u64 \<Rightarrow> string option \<Rightarrow> u64 \<Rightarrow> unity \<Rightarrow> unity outcome" where
  "TEST_ASSERT_EQUAL_INT32_MESSAGE expected actual message line =
     UNITY_TEST_ASSERT_EQUAL_INT32 expected actual line message"

definition TEST_ASSERT_EQUAL_INT64_MESSAGE ::
    "u64 \<Rightarrow> u64 \<Rightarrow> string option \<Rightarrow> u64 \<Rightarrow> unity \<Rightarrow> unity outcome" where
  "TEST_ASSERT_EQUAL_INT64_MESSAGE expected actual message line =
     UNITY_TEST_ASSERT_EQUAL_INT64 expected actual line message"

definition TEST_ASSERT_EQUAL_UINT_MESSAGE ::
    "u64 \<Rightarrow> u64 \<Rightarrow> string option \<Rightarrow> u64 \<Rightarrow> unity \<Rightarrow> unity outcome" where
  "TEST_ASSERT_EQUAL_UINT_MESSAGE expected actual message line =
     UNITY_TEST_ASSERT_EQUAL_UINT expected actual line message"

definition TEST_ASSERT_EQUAL_UINT8_MESSAGE ::
    "u64 \<Rightarrow> u64 \<Rightarrow> string option \<Rightarrow> u64 \<Rightarrow> unity \<Rightarrow> unity outcome" where
  "TEST_ASSERT_EQUAL_UINT8_MESSAGE expected actual message line =
     UNITY_TEST_ASSERT_EQUAL_UINT8 expected actual line message"

definition TEST_ASSERT_EQUAL_UINT16_MESSAGE ::
    "u64 \<Rightarrow> u64 \<Rightarrow> string option \<Rightarrow> u64 \<Rightarrow> unity \<Rightarrow> unity outcome" where
  "TEST_ASSERT_EQUAL_UINT16_MESSAGE expected actual message line =
     UNITY_TEST_ASSERT_EQUAL_UINT16 expected actual line message"

definition TEST_ASSERT_EQUAL_UINT32_MESSAGE ::
    "u64 \<Rightarrow> u64 \<Rightarrow> string option \<Rightarrow> u64 \<Rightarrow> unity \<Rightarrow> unity outcome" where
  "TEST_ASSERT_EQUAL_UINT32_MESSAGE expected actual message line =
     UNITY_TEST_ASSERT_EQUAL_UINT32 expected actual line message"

definition TEST_ASSERT_EQUAL_UINT64_MESSAGE ::
    "u64 \<Rightarrow> u64 \<Rightarrow> string option \<Rightarrow> u64 \<Rightarrow> unity \<Rightarrow> unity outcome" where
  "TEST_ASSERT_EQUAL_UINT64_MESSAGE expected actual message line =
     UNITY_TEST_ASSERT_EQUAL_UINT64 expected actual line message"

definition TEST_ASSERT_EQUAL_size_t_MESSAGE ::
    "u64 \<Rightarrow> u64 \<Rightarrow> string option \<Rightarrow> u64 \<Rightarrow> unity \<Rightarrow> unity outcome" where
  "TEST_ASSERT_EQUAL_size_t_MESSAGE expected actual message line =
     UNITY_TEST_ASSERT_EQUAL_UINT expected actual line message"

definition TEST_ASSERT_EQUAL_HEX_MESSAGE ::
    "u64 \<Rightarrow> u64 \<Rightarrow> string option \<Rightarrow> u64 \<Rightarrow> unity \<Rightarrow> unity outcome" where
  "TEST_ASSERT_EQUAL_HEX_MESSAGE expected actual message line =
     UNITY_TEST_ASSERT_EQUAL_HEX32 expected actual line message"

definition TEST_ASSERT_EQUAL_HEX8_MESSAGE ::
    "u64 \<Rightarrow> u64 \<Rightarrow> string option \<Rightarrow> u64 \<Rightarrow> unity \<Rightarrow> unity outcome" where
  "TEST_ASSERT_EQUAL_HEX8_MESSAGE expected actual message line =
     UNITY_TEST_ASSERT_EQUAL_HEX8 expected actual line message"

definition TEST_ASSERT_EQUAL_HEX16_MESSAGE ::
    "u64 \<Rightarrow> u64 \<Rightarrow> string option \<Rightarrow> u64 \<Rightarrow> unity \<Rightarrow> unity outcome" where
  "TEST_ASSERT_EQUAL_HEX16_MESSAGE expected actual message line =
     UNITY_TEST_ASSERT_EQUAL_HEX16 expected actual line message"

definition TEST_ASSERT_EQUAL_HEX32_MESSAGE ::
    "u64 \<Rightarrow> u64 \<Rightarrow> string option \<Rightarrow> u64 \<Rightarrow> unity \<Rightarrow> unity outcome" where
  "TEST_ASSERT_EQUAL_HEX32_MESSAGE expected actual message line =
     UNITY_TEST_ASSERT_EQUAL_HEX32 expected actual line message"

definition TEST_ASSERT_EQUAL_HEX64_MESSAGE ::
    "u64 \<Rightarrow> u64 \<Rightarrow> string option \<Rightarrow> u64 \<Rightarrow> unity \<Rightarrow> unity outcome" where
  "TEST_ASSERT_EQUAL_HEX64_MESSAGE expected actual message line =
     UNITY_TEST_ASSERT_EQUAL_HEX64 expected actual line message"

subsection \<open>Bits\<close>

definition TEST_ASSERT_BITS_MESSAGE ::
    "u64 \<Rightarrow> u64 \<Rightarrow> u64 \<Rightarrow> string option \<Rightarrow> u64 \<Rightarrow> unity \<Rightarrow> unity outcome" where
  "TEST_ASSERT_BITS_MESSAGE msk expected actual message line =
     UNITY_TEST_ASSERT_BITS msk expected actual line message"

definition TEST_ASSERT_BITS_HIGH_MESSAGE ::
    "u64 \<Rightarrow> u64 \<Rightarrow> string option \<Rightarrow> u64 \<Rightarrow> unity \<Rightarrow> unity outcome" where
  "TEST_ASSERT_BITS_HIGH_MESSAGE msk actual message line =
     UNITY_TEST_ASSERT_BITS msk 0xFFFFFFFF actual line message"

definition TEST_ASSERT_BITS_LOW_MESSAGE ::
    "u64 \<Rightarrow> u64 \<Rightarrow> string option \<Rightarrow> u64 \<Rightarrow> unity \<Rightarrow> unity outcome" where
  "TEST_ASSERT_BITS_LOW_MESSAGE msk actual message line =
     UNITY_TEST_ASSERT_BITS msk 0 actual line message"

definition TEST_ASSERT_BIT_HIGH_MESSAGE ::
    "u64 \<Rightarrow> u64 \<Rightarrow> string option \<Rightarrow> u64 \<Rightarrow> unity \<Rightarrow> unity outcome" where
  "TEST_ASSERT_BIT_HIGH_MESSAGE bitno actual message line u =
     (if bitno < 32 then UNITY_TEST_ASSERT_BITS (ucast (push_bit (unat bitno) 1 :: u32)) 0xFFFFFFFF actual line message u else Undefined)"

definition TEST_ASSERT_BIT_LOW_MESSAGE ::
    "u64 \<Rightarrow> u64 \<Rightarrow> string option \<Rightarrow> u64 \<Rightarrow> unity \<Rightarrow> unity outcome" where
  "TEST_ASSERT_BIT_LOW_MESSAGE bitno actual message line u =
     (if bitno < 32 then UNITY_TEST_ASSERT_BITS (ucast (push_bit (unat bitno) 1 :: u32)) 0 actual line message u else Undefined)"

subsection \<open>Equality\<close>

definition TEST_ASSERT_EQUAL_CHAR_MESSAGE ::
    "u64 \<Rightarrow> u64 \<Rightarrow> string option \<Rightarrow> u64 \<Rightarrow> unity \<Rightarrow> unity outcome" where
  "TEST_ASSERT_EQUAL_CHAR_MESSAGE expected actual message line =
     UNITY_TEST_ASSERT_EQUAL_CHAR expected actual line message"

subsection \<open>Inequality\<close>

definition TEST_ASSERT_NOT_EQUAL_INT_MESSAGE ::
    "u64 \<Rightarrow> u64 \<Rightarrow> string option \<Rightarrow> u64 \<Rightarrow> unity \<Rightarrow> unity outcome" where
  "TEST_ASSERT_NOT_EQUAL_INT_MESSAGE threshold actual message line =
     UNITY_TEST_ASSERT_NOT_EQUAL_INT threshold actual line message"

definition TEST_ASSERT_NOT_EQUAL_INT8_MESSAGE ::
    "u64 \<Rightarrow> u64 \<Rightarrow> string option \<Rightarrow> u64 \<Rightarrow> unity \<Rightarrow> unity outcome" where
  "TEST_ASSERT_NOT_EQUAL_INT8_MESSAGE threshold actual message line =
     UNITY_TEST_ASSERT_NOT_EQUAL_INT8 threshold actual line message"

definition TEST_ASSERT_NOT_EQUAL_INT16_MESSAGE ::
    "u64 \<Rightarrow> u64 \<Rightarrow> string option \<Rightarrow> u64 \<Rightarrow> unity \<Rightarrow> unity outcome" where
  "TEST_ASSERT_NOT_EQUAL_INT16_MESSAGE threshold actual message line =
     UNITY_TEST_ASSERT_NOT_EQUAL_INT16 threshold actual line message"

definition TEST_ASSERT_NOT_EQUAL_INT32_MESSAGE ::
    "u64 \<Rightarrow> u64 \<Rightarrow> string option \<Rightarrow> u64 \<Rightarrow> unity \<Rightarrow> unity outcome" where
  "TEST_ASSERT_NOT_EQUAL_INT32_MESSAGE threshold actual message line =
     UNITY_TEST_ASSERT_NOT_EQUAL_INT32 threshold actual line message"

definition TEST_ASSERT_NOT_EQUAL_INT64_MESSAGE ::
    "u64 \<Rightarrow> u64 \<Rightarrow> string option \<Rightarrow> u64 \<Rightarrow> unity \<Rightarrow> unity outcome" where
  "TEST_ASSERT_NOT_EQUAL_INT64_MESSAGE threshold actual message line =
     UNITY_TEST_ASSERT_NOT_EQUAL_INT64 threshold actual line message"

definition TEST_ASSERT_NOT_EQUAL_UINT_MESSAGE ::
    "u64 \<Rightarrow> u64 \<Rightarrow> string option \<Rightarrow> u64 \<Rightarrow> unity \<Rightarrow> unity outcome" where
  "TEST_ASSERT_NOT_EQUAL_UINT_MESSAGE threshold actual message line =
     UNITY_TEST_ASSERT_NOT_EQUAL_UINT threshold actual line message"

definition TEST_ASSERT_NOT_EQUAL_UINT8_MESSAGE ::
    "u64 \<Rightarrow> u64 \<Rightarrow> string option \<Rightarrow> u64 \<Rightarrow> unity \<Rightarrow> unity outcome" where
  "TEST_ASSERT_NOT_EQUAL_UINT8_MESSAGE threshold actual message line =
     UNITY_TEST_ASSERT_NOT_EQUAL_UINT8 threshold actual line message"

definition TEST_ASSERT_NOT_EQUAL_UINT16_MESSAGE ::
    "u64 \<Rightarrow> u64 \<Rightarrow> string option \<Rightarrow> u64 \<Rightarrow> unity \<Rightarrow> unity outcome" where
  "TEST_ASSERT_NOT_EQUAL_UINT16_MESSAGE threshold actual message line =
     UNITY_TEST_ASSERT_NOT_EQUAL_UINT16 threshold actual line message"

definition TEST_ASSERT_NOT_EQUAL_UINT32_MESSAGE ::
    "u64 \<Rightarrow> u64 \<Rightarrow> string option \<Rightarrow> u64 \<Rightarrow> unity \<Rightarrow> unity outcome" where
  "TEST_ASSERT_NOT_EQUAL_UINT32_MESSAGE threshold actual message line =
     UNITY_TEST_ASSERT_NOT_EQUAL_UINT32 threshold actual line message"

definition TEST_ASSERT_NOT_EQUAL_UINT64_MESSAGE ::
    "u64 \<Rightarrow> u64 \<Rightarrow> string option \<Rightarrow> u64 \<Rightarrow> unity \<Rightarrow> unity outcome" where
  "TEST_ASSERT_NOT_EQUAL_UINT64_MESSAGE threshold actual message line =
     UNITY_TEST_ASSERT_NOT_EQUAL_UINT64 threshold actual line message"

definition TEST_ASSERT_NOT_EQUAL_size_t_MESSAGE ::
    "u64 \<Rightarrow> u64 \<Rightarrow> string option \<Rightarrow> u64 \<Rightarrow> unity \<Rightarrow> unity outcome" where
  "TEST_ASSERT_NOT_EQUAL_size_t_MESSAGE threshold actual message line =
     UNITY_TEST_ASSERT_NOT_EQUAL_UINT threshold actual line message"

definition TEST_ASSERT_NOT_EQUAL_HEX8_MESSAGE ::
    "u64 \<Rightarrow> u64 \<Rightarrow> string option \<Rightarrow> u64 \<Rightarrow> unity \<Rightarrow> unity outcome" where
  "TEST_ASSERT_NOT_EQUAL_HEX8_MESSAGE threshold actual message line =
     UNITY_TEST_ASSERT_NOT_EQUAL_HEX8 threshold actual line message"

definition TEST_ASSERT_NOT_EQUAL_HEX16_MESSAGE ::
    "u64 \<Rightarrow> u64 \<Rightarrow> string option \<Rightarrow> u64 \<Rightarrow> unity \<Rightarrow> unity outcome" where
  "TEST_ASSERT_NOT_EQUAL_HEX16_MESSAGE threshold actual message line =
     UNITY_TEST_ASSERT_NOT_EQUAL_HEX16 threshold actual line message"

definition TEST_ASSERT_NOT_EQUAL_HEX32_MESSAGE ::
    "u64 \<Rightarrow> u64 \<Rightarrow> string option \<Rightarrow> u64 \<Rightarrow> unity \<Rightarrow> unity outcome" where
  "TEST_ASSERT_NOT_EQUAL_HEX32_MESSAGE threshold actual message line =
     UNITY_TEST_ASSERT_NOT_EQUAL_HEX32 threshold actual line message"

definition TEST_ASSERT_NOT_EQUAL_HEX64_MESSAGE ::
    "u64 \<Rightarrow> u64 \<Rightarrow> string option \<Rightarrow> u64 \<Rightarrow> unity \<Rightarrow> unity outcome" where
  "TEST_ASSERT_NOT_EQUAL_HEX64_MESSAGE threshold actual message line =
     UNITY_TEST_ASSERT_NOT_EQUAL_HEX64 threshold actual line message"

definition TEST_ASSERT_NOT_EQUAL_CHAR_MESSAGE ::
    "u64 \<Rightarrow> u64 \<Rightarrow> string option \<Rightarrow> u64 \<Rightarrow> unity \<Rightarrow> unity outcome" where
  "TEST_ASSERT_NOT_EQUAL_CHAR_MESSAGE threshold actual message line =
     UNITY_TEST_ASSERT_NOT_EQUAL_CHAR threshold actual line message"

subsection \<open>Greater\<close>

definition TEST_ASSERT_GREATER_THAN_MESSAGE ::
    "u64 \<Rightarrow> u64 \<Rightarrow> string option \<Rightarrow> u64 \<Rightarrow> unity \<Rightarrow> unity outcome" where
  "TEST_ASSERT_GREATER_THAN_MESSAGE threshold actual message line =
     UNITY_TEST_ASSERT_GREATER_THAN_INT threshold actual line message"

definition TEST_ASSERT_GREATER_THAN_INT_MESSAGE ::
    "u64 \<Rightarrow> u64 \<Rightarrow> string option \<Rightarrow> u64 \<Rightarrow> unity \<Rightarrow> unity outcome" where
  "TEST_ASSERT_GREATER_THAN_INT_MESSAGE threshold actual message line =
     UNITY_TEST_ASSERT_GREATER_THAN_INT threshold actual line message"

definition TEST_ASSERT_GREATER_THAN_INT8_MESSAGE ::
    "u64 \<Rightarrow> u64 \<Rightarrow> string option \<Rightarrow> u64 \<Rightarrow> unity \<Rightarrow> unity outcome" where
  "TEST_ASSERT_GREATER_THAN_INT8_MESSAGE threshold actual message line =
     UNITY_TEST_ASSERT_GREATER_THAN_INT8 threshold actual line message"

definition TEST_ASSERT_GREATER_THAN_INT16_MESSAGE ::
    "u64 \<Rightarrow> u64 \<Rightarrow> string option \<Rightarrow> u64 \<Rightarrow> unity \<Rightarrow> unity outcome" where
  "TEST_ASSERT_GREATER_THAN_INT16_MESSAGE threshold actual message line =
     UNITY_TEST_ASSERT_GREATER_THAN_INT16 threshold actual line message"

definition TEST_ASSERT_GREATER_THAN_INT32_MESSAGE ::
    "u64 \<Rightarrow> u64 \<Rightarrow> string option \<Rightarrow> u64 \<Rightarrow> unity \<Rightarrow> unity outcome" where
  "TEST_ASSERT_GREATER_THAN_INT32_MESSAGE threshold actual message line =
     UNITY_TEST_ASSERT_GREATER_THAN_INT32 threshold actual line message"

definition TEST_ASSERT_GREATER_THAN_INT64_MESSAGE ::
    "u64 \<Rightarrow> u64 \<Rightarrow> string option \<Rightarrow> u64 \<Rightarrow> unity \<Rightarrow> unity outcome" where
  "TEST_ASSERT_GREATER_THAN_INT64_MESSAGE threshold actual message line =
     UNITY_TEST_ASSERT_GREATER_THAN_INT64 threshold actual line message"

definition TEST_ASSERT_GREATER_THAN_UINT_MESSAGE ::
    "u64 \<Rightarrow> u64 \<Rightarrow> string option \<Rightarrow> u64 \<Rightarrow> unity \<Rightarrow> unity outcome" where
  "TEST_ASSERT_GREATER_THAN_UINT_MESSAGE threshold actual message line =
     UNITY_TEST_ASSERT_GREATER_THAN_UINT threshold actual line message"

definition TEST_ASSERT_GREATER_THAN_UINT8_MESSAGE ::
    "u64 \<Rightarrow> u64 \<Rightarrow> string option \<Rightarrow> u64 \<Rightarrow> unity \<Rightarrow> unity outcome" where
  "TEST_ASSERT_GREATER_THAN_UINT8_MESSAGE threshold actual message line =
     UNITY_TEST_ASSERT_GREATER_THAN_UINT8 threshold actual line message"

definition TEST_ASSERT_GREATER_THAN_UINT16_MESSAGE ::
    "u64 \<Rightarrow> u64 \<Rightarrow> string option \<Rightarrow> u64 \<Rightarrow> unity \<Rightarrow> unity outcome" where
  "TEST_ASSERT_GREATER_THAN_UINT16_MESSAGE threshold actual message line =
     UNITY_TEST_ASSERT_GREATER_THAN_UINT16 threshold actual line message"

definition TEST_ASSERT_GREATER_THAN_UINT32_MESSAGE ::
    "u64 \<Rightarrow> u64 \<Rightarrow> string option \<Rightarrow> u64 \<Rightarrow> unity \<Rightarrow> unity outcome" where
  "TEST_ASSERT_GREATER_THAN_UINT32_MESSAGE threshold actual message line =
     UNITY_TEST_ASSERT_GREATER_THAN_UINT32 threshold actual line message"

definition TEST_ASSERT_GREATER_THAN_UINT64_MESSAGE ::
    "u64 \<Rightarrow> u64 \<Rightarrow> string option \<Rightarrow> u64 \<Rightarrow> unity \<Rightarrow> unity outcome" where
  "TEST_ASSERT_GREATER_THAN_UINT64_MESSAGE threshold actual message line =
     UNITY_TEST_ASSERT_GREATER_THAN_UINT64 threshold actual line message"

definition TEST_ASSERT_GREATER_THAN_size_t_MESSAGE ::
    "u64 \<Rightarrow> u64 \<Rightarrow> string option \<Rightarrow> u64 \<Rightarrow> unity \<Rightarrow> unity outcome" where
  "TEST_ASSERT_GREATER_THAN_size_t_MESSAGE threshold actual message line =
     UNITY_TEST_ASSERT_GREATER_THAN_UINT threshold actual line message"

definition TEST_ASSERT_GREATER_THAN_HEX8_MESSAGE ::
    "u64 \<Rightarrow> u64 \<Rightarrow> string option \<Rightarrow> u64 \<Rightarrow> unity \<Rightarrow> unity outcome" where
  "TEST_ASSERT_GREATER_THAN_HEX8_MESSAGE threshold actual message line =
     UNITY_TEST_ASSERT_GREATER_THAN_HEX8 threshold actual line message"

definition TEST_ASSERT_GREATER_THAN_HEX16_MESSAGE ::
    "u64 \<Rightarrow> u64 \<Rightarrow> string option \<Rightarrow> u64 \<Rightarrow> unity \<Rightarrow> unity outcome" where
  "TEST_ASSERT_GREATER_THAN_HEX16_MESSAGE threshold actual message line =
     UNITY_TEST_ASSERT_GREATER_THAN_HEX16 threshold actual line message"

definition TEST_ASSERT_GREATER_THAN_HEX32_MESSAGE ::
    "u64 \<Rightarrow> u64 \<Rightarrow> string option \<Rightarrow> u64 \<Rightarrow> unity \<Rightarrow> unity outcome" where
  "TEST_ASSERT_GREATER_THAN_HEX32_MESSAGE threshold actual message line =
     UNITY_TEST_ASSERT_GREATER_THAN_HEX32 threshold actual line message"

definition TEST_ASSERT_GREATER_THAN_HEX64_MESSAGE ::
    "u64 \<Rightarrow> u64 \<Rightarrow> string option \<Rightarrow> u64 \<Rightarrow> unity \<Rightarrow> unity outcome" where
  "TEST_ASSERT_GREATER_THAN_HEX64_MESSAGE threshold actual message line =
     UNITY_TEST_ASSERT_GREATER_THAN_HEX64 threshold actual line message"

definition TEST_ASSERT_GREATER_THAN_CHAR_MESSAGE ::
    "u64 \<Rightarrow> u64 \<Rightarrow> string option \<Rightarrow> u64 \<Rightarrow> unity \<Rightarrow> unity outcome" where
  "TEST_ASSERT_GREATER_THAN_CHAR_MESSAGE threshold actual message line =
     UNITY_TEST_ASSERT_GREATER_THAN_CHAR threshold actual line message"

subsection \<open>Less\<close>

definition TEST_ASSERT_LESS_THAN_MESSAGE ::
    "u64 \<Rightarrow> u64 \<Rightarrow> string option \<Rightarrow> u64 \<Rightarrow> unity \<Rightarrow> unity outcome" where
  "TEST_ASSERT_LESS_THAN_MESSAGE threshold actual message line =
     UNITY_TEST_ASSERT_SMALLER_THAN_INT threshold actual line message"

definition TEST_ASSERT_LESS_THAN_INT_MESSAGE ::
    "u64 \<Rightarrow> u64 \<Rightarrow> string option \<Rightarrow> u64 \<Rightarrow> unity \<Rightarrow> unity outcome" where
  "TEST_ASSERT_LESS_THAN_INT_MESSAGE threshold actual message line =
     UNITY_TEST_ASSERT_SMALLER_THAN_INT threshold actual line message"

definition TEST_ASSERT_LESS_THAN_INT8_MESSAGE ::
    "u64 \<Rightarrow> u64 \<Rightarrow> string option \<Rightarrow> u64 \<Rightarrow> unity \<Rightarrow> unity outcome" where
  "TEST_ASSERT_LESS_THAN_INT8_MESSAGE threshold actual message line =
     UNITY_TEST_ASSERT_SMALLER_THAN_INT8 threshold actual line message"

definition TEST_ASSERT_LESS_THAN_INT16_MESSAGE ::
    "u64 \<Rightarrow> u64 \<Rightarrow> string option \<Rightarrow> u64 \<Rightarrow> unity \<Rightarrow> unity outcome" where
  "TEST_ASSERT_LESS_THAN_INT16_MESSAGE threshold actual message line =
     UNITY_TEST_ASSERT_SMALLER_THAN_INT16 threshold actual line message"

definition TEST_ASSERT_LESS_THAN_INT32_MESSAGE ::
    "u64 \<Rightarrow> u64 \<Rightarrow> string option \<Rightarrow> u64 \<Rightarrow> unity \<Rightarrow> unity outcome" where
  "TEST_ASSERT_LESS_THAN_INT32_MESSAGE threshold actual message line =
     UNITY_TEST_ASSERT_SMALLER_THAN_INT32 threshold actual line message"

definition TEST_ASSERT_LESS_THAN_INT64_MESSAGE ::
    "u64 \<Rightarrow> u64 \<Rightarrow> string option \<Rightarrow> u64 \<Rightarrow> unity \<Rightarrow> unity outcome" where
  "TEST_ASSERT_LESS_THAN_INT64_MESSAGE threshold actual message line =
     UNITY_TEST_ASSERT_SMALLER_THAN_INT64 threshold actual line message"

definition TEST_ASSERT_LESS_THAN_UINT_MESSAGE ::
    "u64 \<Rightarrow> u64 \<Rightarrow> string option \<Rightarrow> u64 \<Rightarrow> unity \<Rightarrow> unity outcome" where
  "TEST_ASSERT_LESS_THAN_UINT_MESSAGE threshold actual message line =
     UNITY_TEST_ASSERT_SMALLER_THAN_UINT threshold actual line message"

definition TEST_ASSERT_LESS_THAN_UINT8_MESSAGE ::
    "u64 \<Rightarrow> u64 \<Rightarrow> string option \<Rightarrow> u64 \<Rightarrow> unity \<Rightarrow> unity outcome" where
  "TEST_ASSERT_LESS_THAN_UINT8_MESSAGE threshold actual message line =
     UNITY_TEST_ASSERT_SMALLER_THAN_UINT8 threshold actual line message"

definition TEST_ASSERT_LESS_THAN_UINT16_MESSAGE ::
    "u64 \<Rightarrow> u64 \<Rightarrow> string option \<Rightarrow> u64 \<Rightarrow> unity \<Rightarrow> unity outcome" where
  "TEST_ASSERT_LESS_THAN_UINT16_MESSAGE threshold actual message line =
     UNITY_TEST_ASSERT_SMALLER_THAN_UINT16 threshold actual line message"

definition TEST_ASSERT_LESS_THAN_UINT32_MESSAGE ::
    "u64 \<Rightarrow> u64 \<Rightarrow> string option \<Rightarrow> u64 \<Rightarrow> unity \<Rightarrow> unity outcome" where
  "TEST_ASSERT_LESS_THAN_UINT32_MESSAGE threshold actual message line =
     UNITY_TEST_ASSERT_SMALLER_THAN_UINT32 threshold actual line message"

definition TEST_ASSERT_LESS_THAN_UINT64_MESSAGE ::
    "u64 \<Rightarrow> u64 \<Rightarrow> string option \<Rightarrow> u64 \<Rightarrow> unity \<Rightarrow> unity outcome" where
  "TEST_ASSERT_LESS_THAN_UINT64_MESSAGE threshold actual message line =
     UNITY_TEST_ASSERT_SMALLER_THAN_UINT64 threshold actual line message"

definition TEST_ASSERT_LESS_THAN_size_t_MESSAGE ::
    "u64 \<Rightarrow> u64 \<Rightarrow> string option \<Rightarrow> u64 \<Rightarrow> unity \<Rightarrow> unity outcome" where
  "TEST_ASSERT_LESS_THAN_size_t_MESSAGE threshold actual message line =
     UNITY_TEST_ASSERT_SMALLER_THAN_UINT threshold actual line message"

definition TEST_ASSERT_LESS_THAN_HEX8_MESSAGE ::
    "u64 \<Rightarrow> u64 \<Rightarrow> string option \<Rightarrow> u64 \<Rightarrow> unity \<Rightarrow> unity outcome" where
  "TEST_ASSERT_LESS_THAN_HEX8_MESSAGE threshold actual message line =
     UNITY_TEST_ASSERT_SMALLER_THAN_HEX8 threshold actual line message"

definition TEST_ASSERT_LESS_THAN_HEX16_MESSAGE ::
    "u64 \<Rightarrow> u64 \<Rightarrow> string option \<Rightarrow> u64 \<Rightarrow> unity \<Rightarrow> unity outcome" where
  "TEST_ASSERT_LESS_THAN_HEX16_MESSAGE threshold actual message line =
     UNITY_TEST_ASSERT_SMALLER_THAN_HEX16 threshold actual line message"

definition TEST_ASSERT_LESS_THAN_HEX32_MESSAGE ::
    "u64 \<Rightarrow> u64 \<Rightarrow> string option \<Rightarrow> u64 \<Rightarrow> unity \<Rightarrow> unity outcome" where
  "TEST_ASSERT_LESS_THAN_HEX32_MESSAGE threshold actual message line =
     UNITY_TEST_ASSERT_SMALLER_THAN_HEX32 threshold actual line message"

definition TEST_ASSERT_LESS_THAN_HEX64_MESSAGE ::
    "u64 \<Rightarrow> u64 \<Rightarrow> string option \<Rightarrow> u64 \<Rightarrow> unity \<Rightarrow> unity outcome" where
  "TEST_ASSERT_LESS_THAN_HEX64_MESSAGE threshold actual message line =
     UNITY_TEST_ASSERT_SMALLER_THAN_HEX64 threshold actual line message"

definition TEST_ASSERT_LESS_THAN_CHAR_MESSAGE ::
    "u64 \<Rightarrow> u64 \<Rightarrow> string option \<Rightarrow> u64 \<Rightarrow> unity \<Rightarrow> unity outcome" where
  "TEST_ASSERT_LESS_THAN_CHAR_MESSAGE threshold actual message line =
     UNITY_TEST_ASSERT_SMALLER_THAN_CHAR threshold actual line message"

subsection \<open>Greater or equal\<close>

definition TEST_ASSERT_GREATER_OR_EQUAL_MESSAGE ::
    "u64 \<Rightarrow> u64 \<Rightarrow> string option \<Rightarrow> u64 \<Rightarrow> unity \<Rightarrow> unity outcome" where
  "TEST_ASSERT_GREATER_OR_EQUAL_MESSAGE threshold actual message line =
     UNITY_TEST_ASSERT_GREATER_OR_EQUAL_INT threshold actual line message"

definition TEST_ASSERT_GREATER_OR_EQUAL_INT_MESSAGE ::
    "u64 \<Rightarrow> u64 \<Rightarrow> string option \<Rightarrow> u64 \<Rightarrow> unity \<Rightarrow> unity outcome" where
  "TEST_ASSERT_GREATER_OR_EQUAL_INT_MESSAGE threshold actual message line =
     UNITY_TEST_ASSERT_GREATER_OR_EQUAL_INT threshold actual line message"

definition TEST_ASSERT_GREATER_OR_EQUAL_INT8_MESSAGE ::
    "u64 \<Rightarrow> u64 \<Rightarrow> string option \<Rightarrow> u64 \<Rightarrow> unity \<Rightarrow> unity outcome" where
  "TEST_ASSERT_GREATER_OR_EQUAL_INT8_MESSAGE threshold actual message line =
     UNITY_TEST_ASSERT_GREATER_OR_EQUAL_INT8 threshold actual line message"

definition TEST_ASSERT_GREATER_OR_EQUAL_INT16_MESSAGE ::
    "u64 \<Rightarrow> u64 \<Rightarrow> string option \<Rightarrow> u64 \<Rightarrow> unity \<Rightarrow> unity outcome" where
  "TEST_ASSERT_GREATER_OR_EQUAL_INT16_MESSAGE threshold actual message line =
     UNITY_TEST_ASSERT_GREATER_OR_EQUAL_INT16 threshold actual line message"

definition TEST_ASSERT_GREATER_OR_EQUAL_INT32_MESSAGE ::
    "u64 \<Rightarrow> u64 \<Rightarrow> string option \<Rightarrow> u64 \<Rightarrow> unity \<Rightarrow> unity outcome" where
  "TEST_ASSERT_GREATER_OR_EQUAL_INT32_MESSAGE threshold actual message line =
     UNITY_TEST_ASSERT_GREATER_OR_EQUAL_INT32 threshold actual line message"

definition TEST_ASSERT_GREATER_OR_EQUAL_INT64_MESSAGE ::
    "u64 \<Rightarrow> u64 \<Rightarrow> string option \<Rightarrow> u64 \<Rightarrow> unity \<Rightarrow> unity outcome" where
  "TEST_ASSERT_GREATER_OR_EQUAL_INT64_MESSAGE threshold actual message line =
     UNITY_TEST_ASSERT_GREATER_OR_EQUAL_INT64 threshold actual line message"

definition TEST_ASSERT_GREATER_OR_EQUAL_UINT_MESSAGE ::
    "u64 \<Rightarrow> u64 \<Rightarrow> string option \<Rightarrow> u64 \<Rightarrow> unity \<Rightarrow> unity outcome" where
  "TEST_ASSERT_GREATER_OR_EQUAL_UINT_MESSAGE threshold actual message line =
     UNITY_TEST_ASSERT_GREATER_OR_EQUAL_UINT threshold actual line message"

definition TEST_ASSERT_GREATER_OR_EQUAL_UINT8_MESSAGE ::
    "u64 \<Rightarrow> u64 \<Rightarrow> string option \<Rightarrow> u64 \<Rightarrow> unity \<Rightarrow> unity outcome" where
  "TEST_ASSERT_GREATER_OR_EQUAL_UINT8_MESSAGE threshold actual message line =
     UNITY_TEST_ASSERT_GREATER_OR_EQUAL_UINT8 threshold actual line message"

definition TEST_ASSERT_GREATER_OR_EQUAL_UINT16_MESSAGE ::
    "u64 \<Rightarrow> u64 \<Rightarrow> string option \<Rightarrow> u64 \<Rightarrow> unity \<Rightarrow> unity outcome" where
  "TEST_ASSERT_GREATER_OR_EQUAL_UINT16_MESSAGE threshold actual message line =
     UNITY_TEST_ASSERT_GREATER_OR_EQUAL_UINT16 threshold actual line message"

definition TEST_ASSERT_GREATER_OR_EQUAL_UINT32_MESSAGE ::
    "u64 \<Rightarrow> u64 \<Rightarrow> string option \<Rightarrow> u64 \<Rightarrow> unity \<Rightarrow> unity outcome" where
  "TEST_ASSERT_GREATER_OR_EQUAL_UINT32_MESSAGE threshold actual message line =
     UNITY_TEST_ASSERT_GREATER_OR_EQUAL_UINT32 threshold actual line message"

definition TEST_ASSERT_GREATER_OR_EQUAL_UINT64_MESSAGE ::
    "u64 \<Rightarrow> u64 \<Rightarrow> string option \<Rightarrow> u64 \<Rightarrow> unity \<Rightarrow> unity outcome" where
  "TEST_ASSERT_GREATER_OR_EQUAL_UINT64_MESSAGE threshold actual message line =
     UNITY_TEST_ASSERT_GREATER_OR_EQUAL_UINT64 threshold actual line message"

definition TEST_ASSERT_GREATER_OR_EQUAL_size_t_MESSAGE ::
    "u64 \<Rightarrow> u64 \<Rightarrow> string option \<Rightarrow> u64 \<Rightarrow> unity \<Rightarrow> unity outcome" where
  "TEST_ASSERT_GREATER_OR_EQUAL_size_t_MESSAGE threshold actual message line =
     UNITY_TEST_ASSERT_GREATER_OR_EQUAL_UINT threshold actual line message"

definition TEST_ASSERT_GREATER_OR_EQUAL_HEX8_MESSAGE ::
    "u64 \<Rightarrow> u64 \<Rightarrow> string option \<Rightarrow> u64 \<Rightarrow> unity \<Rightarrow> unity outcome" where
  "TEST_ASSERT_GREATER_OR_EQUAL_HEX8_MESSAGE threshold actual message line =
     UNITY_TEST_ASSERT_GREATER_OR_EQUAL_HEX8 threshold actual line message"

definition TEST_ASSERT_GREATER_OR_EQUAL_HEX16_MESSAGE ::
    "u64 \<Rightarrow> u64 \<Rightarrow> string option \<Rightarrow> u64 \<Rightarrow> unity \<Rightarrow> unity outcome" where
  "TEST_ASSERT_GREATER_OR_EQUAL_HEX16_MESSAGE threshold actual message line =
     UNITY_TEST_ASSERT_GREATER_OR_EQUAL_HEX16 threshold actual line message"

definition TEST_ASSERT_GREATER_OR_EQUAL_HEX32_MESSAGE ::
    "u64 \<Rightarrow> u64 \<Rightarrow> string option \<Rightarrow> u64 \<Rightarrow> unity \<Rightarrow> unity outcome" where
  "TEST_ASSERT_GREATER_OR_EQUAL_HEX32_MESSAGE threshold actual message line =
     UNITY_TEST_ASSERT_GREATER_OR_EQUAL_HEX32 threshold actual line message"

definition TEST_ASSERT_GREATER_OR_EQUAL_HEX64_MESSAGE ::
    "u64 \<Rightarrow> u64 \<Rightarrow> string option \<Rightarrow> u64 \<Rightarrow> unity \<Rightarrow> unity outcome" where
  "TEST_ASSERT_GREATER_OR_EQUAL_HEX64_MESSAGE threshold actual message line =
     UNITY_TEST_ASSERT_GREATER_OR_EQUAL_HEX64 threshold actual line message"

definition TEST_ASSERT_GREATER_OR_EQUAL_CHAR_MESSAGE ::
    "u64 \<Rightarrow> u64 \<Rightarrow> string option \<Rightarrow> u64 \<Rightarrow> unity \<Rightarrow> unity outcome" where
  "TEST_ASSERT_GREATER_OR_EQUAL_CHAR_MESSAGE threshold actual message line =
     UNITY_TEST_ASSERT_GREATER_OR_EQUAL_CHAR threshold actual line message"

subsection \<open>Less or equal\<close>

definition TEST_ASSERT_LESS_OR_EQUAL_MESSAGE ::
    "u64 \<Rightarrow> u64 \<Rightarrow> string option \<Rightarrow> u64 \<Rightarrow> unity \<Rightarrow> unity outcome" where
  "TEST_ASSERT_LESS_OR_EQUAL_MESSAGE threshold actual message line =
     UNITY_TEST_ASSERT_SMALLER_OR_EQUAL_INT threshold actual line message"

definition TEST_ASSERT_LESS_OR_EQUAL_INT_MESSAGE ::
    "u64 \<Rightarrow> u64 \<Rightarrow> string option \<Rightarrow> u64 \<Rightarrow> unity \<Rightarrow> unity outcome" where
  "TEST_ASSERT_LESS_OR_EQUAL_INT_MESSAGE threshold actual message line =
     UNITY_TEST_ASSERT_SMALLER_OR_EQUAL_INT threshold actual line message"

definition TEST_ASSERT_LESS_OR_EQUAL_INT8_MESSAGE ::
    "u64 \<Rightarrow> u64 \<Rightarrow> string option \<Rightarrow> u64 \<Rightarrow> unity \<Rightarrow> unity outcome" where
  "TEST_ASSERT_LESS_OR_EQUAL_INT8_MESSAGE threshold actual message line =
     UNITY_TEST_ASSERT_SMALLER_OR_EQUAL_INT8 threshold actual line message"

definition TEST_ASSERT_LESS_OR_EQUAL_INT16_MESSAGE ::
    "u64 \<Rightarrow> u64 \<Rightarrow> string option \<Rightarrow> u64 \<Rightarrow> unity \<Rightarrow> unity outcome" where
  "TEST_ASSERT_LESS_OR_EQUAL_INT16_MESSAGE threshold actual message line =
     UNITY_TEST_ASSERT_SMALLER_OR_EQUAL_INT16 threshold actual line message"

definition TEST_ASSERT_LESS_OR_EQUAL_INT32_MESSAGE ::
    "u64 \<Rightarrow> u64 \<Rightarrow> string option \<Rightarrow> u64 \<Rightarrow> unity \<Rightarrow> unity outcome" where
  "TEST_ASSERT_LESS_OR_EQUAL_INT32_MESSAGE threshold actual message line =
     UNITY_TEST_ASSERT_SMALLER_OR_EQUAL_INT32 threshold actual line message"

definition TEST_ASSERT_LESS_OR_EQUAL_INT64_MESSAGE ::
    "u64 \<Rightarrow> u64 \<Rightarrow> string option \<Rightarrow> u64 \<Rightarrow> unity \<Rightarrow> unity outcome" where
  "TEST_ASSERT_LESS_OR_EQUAL_INT64_MESSAGE threshold actual message line =
     UNITY_TEST_ASSERT_SMALLER_OR_EQUAL_INT64 threshold actual line message"

definition TEST_ASSERT_LESS_OR_EQUAL_UINT_MESSAGE ::
    "u64 \<Rightarrow> u64 \<Rightarrow> string option \<Rightarrow> u64 \<Rightarrow> unity \<Rightarrow> unity outcome" where
  "TEST_ASSERT_LESS_OR_EQUAL_UINT_MESSAGE threshold actual message line =
     UNITY_TEST_ASSERT_SMALLER_OR_EQUAL_UINT threshold actual line message"

definition TEST_ASSERT_LESS_OR_EQUAL_UINT8_MESSAGE ::
    "u64 \<Rightarrow> u64 \<Rightarrow> string option \<Rightarrow> u64 \<Rightarrow> unity \<Rightarrow> unity outcome" where
  "TEST_ASSERT_LESS_OR_EQUAL_UINT8_MESSAGE threshold actual message line =
     UNITY_TEST_ASSERT_SMALLER_OR_EQUAL_UINT8 threshold actual line message"

definition TEST_ASSERT_LESS_OR_EQUAL_UINT16_MESSAGE ::
    "u64 \<Rightarrow> u64 \<Rightarrow> string option \<Rightarrow> u64 \<Rightarrow> unity \<Rightarrow> unity outcome" where
  "TEST_ASSERT_LESS_OR_EQUAL_UINT16_MESSAGE threshold actual message line =
     UNITY_TEST_ASSERT_SMALLER_OR_EQUAL_UINT16 threshold actual line message"

definition TEST_ASSERT_LESS_OR_EQUAL_UINT32_MESSAGE ::
    "u64 \<Rightarrow> u64 \<Rightarrow> string option \<Rightarrow> u64 \<Rightarrow> unity \<Rightarrow> unity outcome" where
  "TEST_ASSERT_LESS_OR_EQUAL_UINT32_MESSAGE threshold actual message line =
     UNITY_TEST_ASSERT_SMALLER_OR_EQUAL_UINT32 threshold actual line message"

definition TEST_ASSERT_LESS_OR_EQUAL_UINT64_MESSAGE ::
    "u64 \<Rightarrow> u64 \<Rightarrow> string option \<Rightarrow> u64 \<Rightarrow> unity \<Rightarrow> unity outcome" where
  "TEST_ASSERT_LESS_OR_EQUAL_UINT64_MESSAGE threshold actual message line =
     UNITY_TEST_ASSERT_SMALLER_OR_EQUAL_UINT64 threshold actual line message"

definition TEST_ASSERT_LESS_OR_EQUAL_size_t_MESSAGE ::
    "u64 \<Rightarrow> u64 \<Rightarrow> string option \<Rightarrow> u64 \<Rightarrow> unity \<Rightarrow> unity outcome" where
  "TEST_ASSERT_LESS_OR_EQUAL_size_t_MESSAGE threshold actual message line =
     UNITY_TEST_ASSERT_SMALLER_OR_EQUAL_UINT threshold actual line message"

definition TEST_ASSERT_LESS_OR_EQUAL_HEX8_MESSAGE ::
    "u64 \<Rightarrow> u64 \<Rightarrow> string option \<Rightarrow> u64 \<Rightarrow> unity \<Rightarrow> unity outcome" where
  "TEST_ASSERT_LESS_OR_EQUAL_HEX8_MESSAGE threshold actual message line =
     UNITY_TEST_ASSERT_SMALLER_OR_EQUAL_HEX8 threshold actual line message"

definition TEST_ASSERT_LESS_OR_EQUAL_HEX16_MESSAGE ::
    "u64 \<Rightarrow> u64 \<Rightarrow> string option \<Rightarrow> u64 \<Rightarrow> unity \<Rightarrow> unity outcome" where
  "TEST_ASSERT_LESS_OR_EQUAL_HEX16_MESSAGE threshold actual message line =
     UNITY_TEST_ASSERT_SMALLER_OR_EQUAL_HEX16 threshold actual line message"

definition TEST_ASSERT_LESS_OR_EQUAL_HEX32_MESSAGE ::
    "u64 \<Rightarrow> u64 \<Rightarrow> string option \<Rightarrow> u64 \<Rightarrow> unity \<Rightarrow> unity outcome" where
  "TEST_ASSERT_LESS_OR_EQUAL_HEX32_MESSAGE threshold actual message line =
     UNITY_TEST_ASSERT_SMALLER_OR_EQUAL_HEX32 threshold actual line message"

definition TEST_ASSERT_LESS_OR_EQUAL_HEX64_MESSAGE ::
    "u64 \<Rightarrow> u64 \<Rightarrow> string option \<Rightarrow> u64 \<Rightarrow> unity \<Rightarrow> unity outcome" where
  "TEST_ASSERT_LESS_OR_EQUAL_HEX64_MESSAGE threshold actual message line =
     UNITY_TEST_ASSERT_SMALLER_OR_EQUAL_HEX64 threshold actual line message"

definition TEST_ASSERT_LESS_OR_EQUAL_CHAR_MESSAGE ::
    "u64 \<Rightarrow> u64 \<Rightarrow> string option \<Rightarrow> u64 \<Rightarrow> unity \<Rightarrow> unity outcome" where
  "TEST_ASSERT_LESS_OR_EQUAL_CHAR_MESSAGE threshold actual message line =
     UNITY_TEST_ASSERT_SMALLER_OR_EQUAL_CHAR threshold actual line message"

subsection \<open>Within a delta\<close>

definition TEST_ASSERT_INT_WITHIN_MESSAGE ::
    "u64 \<Rightarrow> u64 \<Rightarrow> u64 \<Rightarrow> string option \<Rightarrow> u64 \<Rightarrow> unity \<Rightarrow> unity outcome" where
  "TEST_ASSERT_INT_WITHIN_MESSAGE delta expected actual message line =
     UNITY_TEST_ASSERT_INT_WITHIN delta expected actual line message"

definition TEST_ASSERT_INT8_WITHIN_MESSAGE ::
    "u64 \<Rightarrow> u64 \<Rightarrow> u64 \<Rightarrow> string option \<Rightarrow> u64 \<Rightarrow> unity \<Rightarrow> unity outcome" where
  "TEST_ASSERT_INT8_WITHIN_MESSAGE delta expected actual message line =
     UNITY_TEST_ASSERT_INT8_WITHIN delta expected actual line message"

definition TEST_ASSERT_INT16_WITHIN_MESSAGE ::
    "u64 \<Rightarrow> u64 \<Rightarrow> u64 \<Rightarrow> string option \<Rightarrow> u64 \<Rightarrow> unity \<Rightarrow> unity outcome" where
  "TEST_ASSERT_INT16_WITHIN_MESSAGE delta expected actual message line =
     UNITY_TEST_ASSERT_INT16_WITHIN delta expected actual line message"

definition TEST_ASSERT_INT32_WITHIN_MESSAGE ::
    "u64 \<Rightarrow> u64 \<Rightarrow> u64 \<Rightarrow> string option \<Rightarrow> u64 \<Rightarrow> unity \<Rightarrow> unity outcome" where
  "TEST_ASSERT_INT32_WITHIN_MESSAGE delta expected actual message line =
     UNITY_TEST_ASSERT_INT32_WITHIN delta expected actual line message"

definition TEST_ASSERT_INT64_WITHIN_MESSAGE ::
    "u64 \<Rightarrow> u64 \<Rightarrow> u64 \<Rightarrow> string option \<Rightarrow> u64 \<Rightarrow> unity \<Rightarrow> unity outcome" where
  "TEST_ASSERT_INT64_WITHIN_MESSAGE delta expected actual message line =
     UNITY_TEST_ASSERT_INT64_WITHIN delta expected actual line message"

definition TEST_ASSERT_UINT_WITHIN_MESSAGE ::
    "u64 \<Rightarrow> u64 \<Rightarrow> u64 \<Rightarrow> string option \<Rightarrow> u64 \<Rightarrow> unity \<Rightarrow> unity outcome" where
  "TEST_ASSERT_UINT_WITHIN_MESSAGE delta expected actual message line =
     UNITY_TEST_ASSERT_UINT_WITHIN delta expected actual line message"

definition TEST_ASSERT_UINT8_WITHIN_MESSAGE ::
    "u64 \<Rightarrow> u64 \<Rightarrow> u64 \<Rightarrow> string option \<Rightarrow> u64 \<Rightarrow> unity \<Rightarrow> unity outcome" where
  "TEST_ASSERT_UINT8_WITHIN_MESSAGE delta expected actual message line =
     UNITY_TEST_ASSERT_UINT8_WITHIN delta expected actual line message"

definition TEST_ASSERT_UINT16_WITHIN_MESSAGE ::
    "u64 \<Rightarrow> u64 \<Rightarrow> u64 \<Rightarrow> string option \<Rightarrow> u64 \<Rightarrow> unity \<Rightarrow> unity outcome" where
  "TEST_ASSERT_UINT16_WITHIN_MESSAGE delta expected actual message line =
     UNITY_TEST_ASSERT_UINT16_WITHIN delta expected actual line message"

definition TEST_ASSERT_UINT32_WITHIN_MESSAGE ::
    "u64 \<Rightarrow> u64 \<Rightarrow> u64 \<Rightarrow> string option \<Rightarrow> u64 \<Rightarrow> unity \<Rightarrow> unity outcome" where
  "TEST_ASSERT_UINT32_WITHIN_MESSAGE delta expected actual message line =
     UNITY_TEST_ASSERT_UINT32_WITHIN delta expected actual line message"

definition TEST_ASSERT_UINT64_WITHIN_MESSAGE ::
    "u64 \<Rightarrow> u64 \<Rightarrow> u64 \<Rightarrow> string option \<Rightarrow> u64 \<Rightarrow> unity \<Rightarrow> unity outcome" where
  "TEST_ASSERT_UINT64_WITHIN_MESSAGE delta expected actual message line =
     UNITY_TEST_ASSERT_UINT64_WITHIN delta expected actual line message"

definition TEST_ASSERT_size_t_WITHIN_MESSAGE ::
    "u64 \<Rightarrow> u64 \<Rightarrow> u64 \<Rightarrow> string option \<Rightarrow> u64 \<Rightarrow> unity \<Rightarrow> unity outcome" where
  "TEST_ASSERT_size_t_WITHIN_MESSAGE delta expected actual message line =
     UNITY_TEST_ASSERT_UINT_WITHIN delta expected actual line message"

definition TEST_ASSERT_HEX_WITHIN_MESSAGE ::
    "u64 \<Rightarrow> u64 \<Rightarrow> u64 \<Rightarrow> string option \<Rightarrow> u64 \<Rightarrow> unity \<Rightarrow> unity outcome" where
  "TEST_ASSERT_HEX_WITHIN_MESSAGE delta expected actual message line =
     UNITY_TEST_ASSERT_HEX32_WITHIN delta expected actual line message"

definition TEST_ASSERT_HEX8_WITHIN_MESSAGE ::
    "u64 \<Rightarrow> u64 \<Rightarrow> u64 \<Rightarrow> string option \<Rightarrow> u64 \<Rightarrow> unity \<Rightarrow> unity outcome" where
  "TEST_ASSERT_HEX8_WITHIN_MESSAGE delta expected actual message line =
     UNITY_TEST_ASSERT_HEX8_WITHIN delta expected actual line message"

definition TEST_ASSERT_HEX16_WITHIN_MESSAGE ::
    "u64 \<Rightarrow> u64 \<Rightarrow> u64 \<Rightarrow> string option \<Rightarrow> u64 \<Rightarrow> unity \<Rightarrow> unity outcome" where
  "TEST_ASSERT_HEX16_WITHIN_MESSAGE delta expected actual message line =
     UNITY_TEST_ASSERT_HEX16_WITHIN delta expected actual line message"

definition TEST_ASSERT_HEX32_WITHIN_MESSAGE ::
    "u64 \<Rightarrow> u64 \<Rightarrow> u64 \<Rightarrow> string option \<Rightarrow> u64 \<Rightarrow> unity \<Rightarrow> unity outcome" where
  "TEST_ASSERT_HEX32_WITHIN_MESSAGE delta expected actual message line =
     UNITY_TEST_ASSERT_HEX32_WITHIN delta expected actual line message"

definition TEST_ASSERT_HEX64_WITHIN_MESSAGE ::
    "u64 \<Rightarrow> u64 \<Rightarrow> u64 \<Rightarrow> string option \<Rightarrow> u64 \<Rightarrow> unity \<Rightarrow> unity outcome" where
  "TEST_ASSERT_HEX64_WITHIN_MESSAGE delta expected actual message line =
     UNITY_TEST_ASSERT_HEX64_WITHIN delta expected actual line message"

definition TEST_ASSERT_CHAR_WITHIN_MESSAGE ::
    "u64 \<Rightarrow> u64 \<Rightarrow> u64 \<Rightarrow> string option \<Rightarrow> u64 \<Rightarrow> unity \<Rightarrow> unity outcome" where
  "TEST_ASSERT_CHAR_WITHIN_MESSAGE delta expected actual message line =
     UNITY_TEST_ASSERT_CHAR_WITHIN delta expected actual line message"

subsection \<open>Arrays within a delta\<close>

definition TEST_ASSERT_INT_ARRAY_WITHIN_MESSAGE ::
    "cmem \<Rightarrow> u64 \<Rightarrow> addr \<Rightarrow> addr \<Rightarrow> u64 \<Rightarrow> string option \<Rightarrow> u64 \<Rightarrow> unity \<Rightarrow> unity outcome" where
  "TEST_ASSERT_INT_ARRAY_WITHIN_MESSAGE m delta expected actual num_elements message line =
     UNITY_TEST_ASSERT_INT_ARRAY_WITHIN m delta expected actual num_elements line message"

definition TEST_ASSERT_INT8_ARRAY_WITHIN_MESSAGE ::
    "cmem \<Rightarrow> u64 \<Rightarrow> addr \<Rightarrow> addr \<Rightarrow> u64 \<Rightarrow> string option \<Rightarrow> u64 \<Rightarrow> unity \<Rightarrow> unity outcome" where
  "TEST_ASSERT_INT8_ARRAY_WITHIN_MESSAGE m delta expected actual num_elements message line =
     UNITY_TEST_ASSERT_INT8_ARRAY_WITHIN m delta expected actual num_elements line message"

definition TEST_ASSERT_INT16_ARRAY_WITHIN_MESSAGE ::
    "cmem \<Rightarrow> u64 \<Rightarrow> addr \<Rightarrow> addr \<Rightarrow> u64 \<Rightarrow> string option \<Rightarrow> u64 \<Rightarrow> unity \<Rightarrow> unity outcome" where
  "TEST_ASSERT_INT16_ARRAY_WITHIN_MESSAGE m delta expected actual num_elements message line =
     UNITY_TEST_ASSERT_INT16_ARRAY_WITHIN m delta expected actual num_elements line message"

definition TEST_ASSERT_INT32_ARRAY_WITHIN_MESSAGE ::
    "cmem \<Rightarrow> u64 \<Rightarrow> addr \<Rightarrow> addr \<Rightarrow> u64 \<Rightarrow> string option \<Rightarrow> u64 \<Rightarrow> unity \<Rightarrow> unity outcome" where
  "TEST_ASSERT_INT32_ARRAY_WITHIN_MESSAGE m delta expected actual num_elements message line =
     UNITY_TEST_ASSERT_INT32_ARRAY_WITHIN m delta expected actual num_elements line message"

definition TEST_ASSERT_INT64_ARRAY_WITHIN_MESSAGE ::
    "cmem \<Rightarrow> u64 \<Rightarrow> addr \<Rightarrow> addr \<Rightarrow> u64 \<Rightarrow> string option \<Rightarrow> u64 \<Rightarrow> unity \<Rightarrow> unity outcome" where
  "TEST_ASSERT_INT64_ARRAY_WITHIN_MESSAGE m delta expected actual num_elements message line =
     UNITY_TEST_ASSERT_INT64_ARRAY_WITHIN m delta expected actual num_elements line message"

definition TEST_ASSERT_UINT_ARRAY_WITHIN_MESSAGE ::
    "cmem \<Rightarrow> u64 \<Rightarrow> addr \<Rightarrow> addr \<Rightarrow> u64 \<Rightarrow> string option \<Rightarrow> u64 \<Rightarrow> unity \<Rightarrow> unity outcome" where
  "TEST_ASSERT_UINT_ARRAY_WITHIN_MESSAGE m delta expected actual num_elements message line =
     UNITY_TEST_ASSERT_UINT_ARRAY_WITHIN m delta expected actual num_elements line message"

definition TEST_ASSERT_UINT8_ARRAY_WITHIN_MESSAGE ::
    "cmem \<Rightarrow> u64 \<Rightarrow> addr \<Rightarrow> addr \<Rightarrow> u64 \<Rightarrow> string option \<Rightarrow> u64 \<Rightarrow> unity \<Rightarrow> unity outcome" where
  "TEST_ASSERT_UINT8_ARRAY_WITHIN_MESSAGE m delta expected actual num_elements message line =
     UNITY_TEST_ASSERT_UINT8_ARRAY_WITHIN m delta expected actual num_elements line message"

definition TEST_ASSERT_UINT16_ARRAY_WITHIN_MESSAGE ::
    "cmem \<Rightarrow> u64 \<Rightarrow> addr \<Rightarrow> addr \<Rightarrow> u64 \<Rightarrow> string option \<Rightarrow> u64 \<Rightarrow> unity \<Rightarrow> unity outcome" where
  "TEST_ASSERT_UINT16_ARRAY_WITHIN_MESSAGE m delta expected actual num_elements message line =
     UNITY_TEST_ASSERT_UINT16_ARRAY_WITHIN m delta expected actual num_elements line message"

definition TEST_ASSERT_UINT32_ARRAY_WITHIN_MESSAGE ::
    "cmem \<Rightarrow> u64 \<Rightarrow> addr \<Rightarrow> addr \<Rightarrow> u64 \<Rightarrow> string option \<Rightarrow> u64 \<Rightarrow> unity \<Rightarrow> unity outcome" where
  "TEST_ASSERT_UINT32_ARRAY_WITHIN_MESSAGE m delta expected actual num_elements message line =
     UNITY_TEST_ASSERT_UINT32_ARRAY_WITHIN m delta expected actual num_elements line message"

definition TEST_ASSERT_UINT64_ARRAY_WITHIN_MESSAGE ::
    "cmem \<Rightarrow> u64 \<Rightarrow> addr \<Rightarrow> addr \<Rightarrow> u64 \<Rightarrow> string option \<Rightarrow> u64 \<Rightarrow> unity \<Rightarrow> unity outcome" where
  "TEST_ASSERT_UINT64_ARRAY_WITHIN_MESSAGE m delta expected actual num_elements message line =
     UNITY_TEST_ASSERT_UINT64_ARRAY_WITHIN m delta expected actual num_elements line message"

definition TEST_ASSERT_size_t_ARRAY_WITHIN_MESSAGE ::
    "cmem \<Rightarrow> u64 \<Rightarrow> addr \<Rightarrow> addr \<Rightarrow> u64 \<Rightarrow> string option \<Rightarrow> u64 \<Rightarrow> unity \<Rightarrow> unity outcome" where
  "TEST_ASSERT_size_t_ARRAY_WITHIN_MESSAGE m delta expected actual num_elements message line =
     UNITY_TEST_ASSERT_UINT_ARRAY_WITHIN m delta expected actual num_elements line message"

definition TEST_ASSERT_HEX_ARRAY_WITHIN_MESSAGE ::
    "cmem \<Rightarrow> u64 \<Rightarrow> addr \<Rightarrow> addr \<Rightarrow> u64 \<Rightarrow> string option \<Rightarrow> u64 \<Rightarrow> unity \<Rightarrow> unity outcome" where
  "TEST_ASSERT_HEX_ARRAY_WITHIN_MESSAGE m delta expected actual num_elements message line =
     UNITY_TEST_ASSERT_HEX32_ARRAY_WITHIN m delta expected actual num_elements line message"

definition TEST_ASSERT_HEX8_ARRAY_WITHIN_MESSAGE ::
    "cmem \<Rightarrow> u64 \<Rightarrow> addr \<Rightarrow> addr \<Rightarrow> u64 \<Rightarrow> string option \<Rightarrow> u64 \<Rightarrow> unity \<Rightarrow> unity outcome" where
  "TEST_ASSERT_HEX8_ARRAY_WITHIN_MESSAGE m delta expected actual num_elements message line =
     UNITY_TEST_ASSERT_HEX8_ARRAY_WITHIN m delta expected actual num_elements line message"

definition TEST_ASSERT_HEX16_ARRAY_WITHIN_MESSAGE ::
    "cmem \<Rightarrow> u64 \<Rightarrow> addr \<Rightarrow> addr \<Rightarrow> u64 \<Rightarrow> string option \<Rightarrow> u64 \<Rightarrow> unity \<Rightarrow> unity outcome" where
  "TEST_ASSERT_HEX16_ARRAY_WITHIN_MESSAGE m delta expected actual num_elements message line =
     UNITY_TEST_ASSERT_HEX16_ARRAY_WITHIN m delta expected actual num_elements line message"

definition TEST_ASSERT_HEX32_ARRAY_WITHIN_MESSAGE ::
    "cmem \<Rightarrow> u64 \<Rightarrow> addr \<Rightarrow> addr \<Rightarrow> u64 \<Rightarrow> string option \<Rightarrow> u64 \<Rightarrow> unity \<Rightarrow> unity outcome" where
  "TEST_ASSERT_HEX32_ARRAY_WITHIN_MESSAGE m delta expected actual num_elements message line =
     UNITY_TEST_ASSERT_HEX32_ARRAY_WITHIN m delta expected actual num_elements line message"

definition TEST_ASSERT_HEX64_ARRAY_WITHIN_MESSAGE ::
    "cmem \<Rightarrow> u64 \<Rightarrow> addr \<Rightarrow> addr \<Rightarrow> u64 \<Rightarrow> string option \<Rightarrow> u64 \<Rightarrow> unity \<Rightarrow> unity outcome" where
  "TEST_ASSERT_HEX64_ARRAY_WITHIN_MESSAGE m delta expected actual num_elements message line =
     UNITY_TEST_ASSERT_HEX64_ARRAY_WITHIN m delta expected actual num_elements line message"

definition TEST_ASSERT_CHAR_ARRAY_WITHIN_MESSAGE ::
    "cmem \<Rightarrow> u64 \<Rightarrow> addr \<Rightarrow> addr \<Rightarrow> u64 \<Rightarrow> string option \<Rightarrow> u64 \<Rightarrow> unity \<Rightarrow> unity outcome" where
  "TEST_ASSERT_CHAR_ARRAY_WITHIN_MESSAGE m delta expected actual num_elements message line =
     UNITY_TEST_ASSERT_CHAR_ARRAY_WITHIN m delta expected actual num_elements line message"

subsection \<open>Equality\<close>

definition TEST_ASSERT_EQUAL_PTR_MESSAGE ::
    "addr \<Rightarrow> addr \<Rightarrow> string option \<Rightarrow> u64 \<Rightarrow> unity \<Rightarrow> unity outcome" where
  "TEST_ASSERT_EQUAL_PTR_MESSAGE expected actual message line =
     UNITY_TEST_ASSERT_EQUAL_PTR expected actual line message"

subsection \<open>Strings and memory\<close>

definition TEST_ASSERT_EQUAL_STRING_MESSAGE ::
    "string option \<Rightarrow> string option \<Rightarrow> string option \<Rightarrow> u64 \<Rightarrow> unity \<Rightarrow> unity outcome" where
  "TEST_ASSERT_EQUAL_STRING_MESSAGE expected actual message line =
     UNITY_TEST_ASSERT_EQUAL_STRING expected actual line message"

definition TEST_ASSERT_EQUAL_STRING_LEN_MESSAGE ::
    "string option \<Rightarrow> string option \<Rightarrow> u64 \<Rightarrow> string option \<Rightarrow> u64 \<Rightarrow> unity \<Rightarrow> unity outcome" where
  "TEST_ASSERT_EQUAL_STRING_LEN_MESSAGE expected actual len message line =
     UNITY_TEST_ASSERT_EQUAL_STRING_LEN expected actual len line message"

definition TEST_ASSERT_EQUAL_MEMORY_MESSAGE ::
    "cmem \<Rightarrow> addr \<Rightarrow> addr \<Rightarrow> u64 \<Rightarrow> string option \<Rightarrow> u64 \<Rightarrow> unity \<Rightarrow> unity outcome" where
  "TEST_ASSERT_EQUAL_MEMORY_MESSAGE m expected actual len message line =
     UNITY_TEST_ASSERT_EQUAL_MEMORY m expected actual len line message"

subsection \<open>Arrays\<close>

definition TEST_ASSERT_EQUAL_INT_ARRAY_MESSAGE ::
    "cmem \<Rightarrow> addr \<Rightarrow> addr \<Rightarrow> u64 \<Rightarrow> string option \<Rightarrow> u64 \<Rightarrow> unity \<Rightarrow> unity outcome" where
  "TEST_ASSERT_EQUAL_INT_ARRAY_MESSAGE m expected actual num_elements message line =
     UNITY_TEST_ASSERT_EQUAL_INT_ARRAY m expected actual num_elements line message"

definition TEST_ASSERT_EQUAL_INT8_ARRAY_MESSAGE ::
    "cmem \<Rightarrow> addr \<Rightarrow> addr \<Rightarrow> u64 \<Rightarrow> string option \<Rightarrow> u64 \<Rightarrow> unity \<Rightarrow> unity outcome" where
  "TEST_ASSERT_EQUAL_INT8_ARRAY_MESSAGE m expected actual num_elements message line =
     UNITY_TEST_ASSERT_EQUAL_INT8_ARRAY m expected actual num_elements line message"

definition TEST_ASSERT_EQUAL_INT16_ARRAY_MESSAGE ::
    "cmem \<Rightarrow> addr \<Rightarrow> addr \<Rightarrow> u64 \<Rightarrow> string option \<Rightarrow> u64 \<Rightarrow> unity \<Rightarrow> unity outcome" where
  "TEST_ASSERT_EQUAL_INT16_ARRAY_MESSAGE m expected actual num_elements message line =
     UNITY_TEST_ASSERT_EQUAL_INT16_ARRAY m expected actual num_elements line message"

definition TEST_ASSERT_EQUAL_INT32_ARRAY_MESSAGE ::
    "cmem \<Rightarrow> addr \<Rightarrow> addr \<Rightarrow> u64 \<Rightarrow> string option \<Rightarrow> u64 \<Rightarrow> unity \<Rightarrow> unity outcome" where
  "TEST_ASSERT_EQUAL_INT32_ARRAY_MESSAGE m expected actual num_elements message line =
     UNITY_TEST_ASSERT_EQUAL_INT32_ARRAY m expected actual num_elements line message"

definition TEST_ASSERT_EQUAL_INT64_ARRAY_MESSAGE ::
    "cmem \<Rightarrow> addr \<Rightarrow> addr \<Rightarrow> u64 \<Rightarrow> string option \<Rightarrow> u64 \<Rightarrow> unity \<Rightarrow> unity outcome" where
  "TEST_ASSERT_EQUAL_INT64_ARRAY_MESSAGE m expected actual num_elements message line =
     UNITY_TEST_ASSERT_EQUAL_INT64_ARRAY m expected actual num_elements line message"

definition TEST_ASSERT_EQUAL_UINT_ARRAY_MESSAGE ::
    "cmem \<Rightarrow> addr \<Rightarrow> addr \<Rightarrow> u64 \<Rightarrow> string option \<Rightarrow> u64 \<Rightarrow> unity \<Rightarrow> unity outcome" where
  "TEST_ASSERT_EQUAL_UINT_ARRAY_MESSAGE m expected actual num_elements message line =
     UNITY_TEST_ASSERT_EQUAL_UINT_ARRAY m expected actual num_elements line message"

definition TEST_ASSERT_EQUAL_UINT8_ARRAY_MESSAGE ::
    "cmem \<Rightarrow> addr \<Rightarrow> addr \<Rightarrow> u64 \<Rightarrow> string option \<Rightarrow> u64 \<Rightarrow> unity \<Rightarrow> unity outcome" where
  "TEST_ASSERT_EQUAL_UINT8_ARRAY_MESSAGE m expected actual num_elements message line =
     UNITY_TEST_ASSERT_EQUAL_UINT8_ARRAY m expected actual num_elements line message"

definition TEST_ASSERT_EQUAL_UINT16_ARRAY_MESSAGE ::
    "cmem \<Rightarrow> addr \<Rightarrow> addr \<Rightarrow> u64 \<Rightarrow> string option \<Rightarrow> u64 \<Rightarrow> unity \<Rightarrow> unity outcome" where
  "TEST_ASSERT_EQUAL_UINT16_ARRAY_MESSAGE m expected actual num_elements message line =
     UNITY_TEST_ASSERT_EQUAL_UINT16_ARRAY m expected actual num_elements line message"

definition TEST_ASSERT_EQUAL_UINT32_ARRAY_MESSAGE ::
    "cmem \<Rightarrow> addr \<Rightarrow> addr \<Rightarrow> u64 \<Rightarrow> string option \<Rightarrow> u64 \<Rightarrow> unity \<Rightarrow> unity outcome" where
  "TEST_ASSERT_EQUAL_UINT32_ARRAY_MESSAGE m expected actual num_elements message line =
     UNITY_TEST_ASSERT_EQUAL_UINT32_ARRAY m expected actual num_elements line message"

definition TEST_ASSERT_EQUAL_UINT64_ARRAY_MESSAGE ::
    "cmem \<Rightarrow> addr \<Rightarrow> addr \<Rightarrow> u64 \<Rightarrow> string option \<Rightarrow> u64 \<Rightarrow> unity \<Rightarrow> unity outcome" where
  "TEST_ASSERT_EQUAL_UINT64_ARRAY_MESSAGE m expected actual num_elements message line =
     UNITY_TEST_ASSERT_EQUAL_UINT64_ARRAY m expected actual num_elements line message"

definition TEST_ASSERT_EQUAL_size_t_ARRAY_MESSAGE ::
    "cmem \<Rightarrow> addr \<Rightarrow> addr \<Rightarrow> u64 \<Rightarrow> string option \<Rightarrow> u64 \<Rightarrow> unity \<Rightarrow> unity outcome" where
  "TEST_ASSERT_EQUAL_size_t_ARRAY_MESSAGE m expected actual num_elements message line =
     UNITY_TEST_ASSERT_EQUAL_UINT_ARRAY m expected actual num_elements line message"

definition TEST_ASSERT_EQUAL_HEX_ARRAY_MESSAGE ::
    "cmem \<Rightarrow> addr \<Rightarrow> addr \<Rightarrow> u64 \<Rightarrow> string option \<Rightarrow> u64 \<Rightarrow> unity \<Rightarrow> unity outcome" where
  "TEST_ASSERT_EQUAL_HEX_ARRAY_MESSAGE m expected actual num_elements message line =
     UNITY_TEST_ASSERT_EQUAL_HEX32_ARRAY m expected actual num_elements line message"

definition TEST_ASSERT_EQUAL_HEX8_ARRAY_MESSAGE ::
    "cmem \<Rightarrow> addr \<Rightarrow> addr \<Rightarrow> u64 \<Rightarrow> string option \<Rightarrow> u64 \<Rightarrow> unity \<Rightarrow> unity outcome" where
  "TEST_ASSERT_EQUAL_HEX8_ARRAY_MESSAGE m expected actual num_elements message line =
     UNITY_TEST_ASSERT_EQUAL_HEX8_ARRAY m expected actual num_elements line message"

definition TEST_ASSERT_EQUAL_HEX16_ARRAY_MESSAGE ::
    "cmem \<Rightarrow> addr \<Rightarrow> addr \<Rightarrow> u64 \<Rightarrow> string option \<Rightarrow> u64 \<Rightarrow> unity \<Rightarrow> unity outcome" where
  "TEST_ASSERT_EQUAL_HEX16_ARRAY_MESSAGE m expected actual num_elements message line =
     UNITY_TEST_ASSERT_EQUAL_HEX16_ARRAY m expected actual num_elements line message"

definition TEST_ASSERT_EQUAL_HEX32_ARRAY_MESSAGE ::
    "cmem \<Rightarrow> addr \<Rightarrow> addr \<Rightarrow> u64 \<Rightarrow> string option \<Rightarrow> u64 \<Rightarrow> unity \<Rightarrow> unity outcome" where
  "TEST_ASSERT_EQUAL_HEX32_ARRAY_MESSAGE m expected actual num_elements message line =
     UNITY_TEST_ASSERT_EQUAL_HEX32_ARRAY m expected actual num_elements line message"

definition TEST_ASSERT_EQUAL_HEX64_ARRAY_MESSAGE ::
    "cmem \<Rightarrow> addr \<Rightarrow> addr \<Rightarrow> u64 \<Rightarrow> string option \<Rightarrow> u64 \<Rightarrow> unity \<Rightarrow> unity outcome" where
  "TEST_ASSERT_EQUAL_HEX64_ARRAY_MESSAGE m expected actual num_elements message line =
     UNITY_TEST_ASSERT_EQUAL_HEX64_ARRAY m expected actual num_elements line message"

definition TEST_ASSERT_EQUAL_PTR_ARRAY_MESSAGE ::
    "cmem \<Rightarrow> addr \<Rightarrow> addr \<Rightarrow> u64 \<Rightarrow> string option \<Rightarrow> u64 \<Rightarrow> unity \<Rightarrow> unity outcome" where
  "TEST_ASSERT_EQUAL_PTR_ARRAY_MESSAGE m expected actual num_elements message line =
     UNITY_TEST_ASSERT_EQUAL_PTR_ARRAY m expected actual num_elements line message"

definition TEST_ASSERT_EQUAL_STRING_ARRAY_MESSAGE ::
    "cmem \<Rightarrow> (addr \<Rightarrow> string) \<Rightarrow> addr \<Rightarrow> addr \<Rightarrow> u64 \<Rightarrow> string option \<Rightarrow> u64 \<Rightarrow> unity \<Rightarrow> unity outcome" where
  "TEST_ASSERT_EQUAL_STRING_ARRAY_MESSAGE m strs expected actual num_elements message line =
     UNITY_TEST_ASSERT_EQUAL_STRING_ARRAY m strs expected actual num_elements line message"

definition TEST_ASSERT_EQUAL_MEMORY_ARRAY_MESSAGE ::
    "cmem \<Rightarrow> addr \<Rightarrow> addr \<Rightarrow> u64 \<Rightarrow> u64 \<Rightarrow> string option \<Rightarrow> u64 \<Rightarrow> unity \<Rightarrow> unity outcome" where
  "TEST_ASSERT_EQUAL_MEMORY_ARRAY_MESSAGE m expected actual len num_elements message line =
     UNITY_TEST_ASSERT_EQUAL_MEMORY_ARRAY m expected actual len num_elements line message"

definition TEST_ASSERT_EQUAL_CHAR_ARRAY_MESSAGE ::
    "cmem \<Rightarrow> addr \<Rightarrow> addr \<Rightarrow> u64 \<Rightarrow> string option \<Rightarrow> u64 \<Rightarrow> unity \<Rightarrow> unity outcome" where
  "TEST_ASSERT_EQUAL_CHAR_ARRAY_MESSAGE m expected actual num_elements message line =
     UNITY_TEST_ASSERT_EQUAL_CHAR_ARRAY m expected actual num_elements line message"

subsection \<open>Arrays against one value\<close>

definition TEST_ASSERT_EACH_EQUAL_INT_MESSAGE ::
    "addr \<Rightarrow> cmem \<Rightarrow> u64 \<Rightarrow> addr \<Rightarrow> u64 \<Rightarrow> string option \<Rightarrow> u64 \<Rightarrow> unity \<Rightarrow> unity outcome" where
  "TEST_ASSERT_EACH_EQUAL_INT_MESSAGE q m expected actual num_elements message line =
     UNITY_TEST_ASSERT_EACH_EQUAL_INT q m expected actual num_elements line message"

definition TEST_ASSERT_EACH_EQUAL_INT8_MESSAGE ::
    "addr \<Rightarrow> cmem \<Rightarrow> u64 \<Rightarrow> addr \<Rightarrow> u64 \<Rightarrow> string option \<Rightarrow> u64 \<Rightarrow> unity \<Rightarrow> unity outcome" where
  "TEST_ASSERT_EACH_EQUAL_INT8_MESSAGE q m expected actual num_elements message line =
     UNITY_TEST_ASSERT_EACH_EQUAL_INT8 q m expected actual num_elements line message"

definition TEST_ASSERT_EACH_EQUAL_INT16_MESSAGE ::
    "addr \<Rightarrow> cmem \<Rightarrow> u64 \<Rightarrow> addr \<Rightarrow> u64 \<Rightarrow> string option \<Rightarrow> u64 \<Rightarrow> unity \<Rightarrow> unity outcome" where
  "TEST_ASSERT_EACH_EQUAL_INT16_MESSAGE q m expected actual num_elements message line =
     UNITY_TEST_ASSERT_EACH_EQUAL_INT16 q m expected actual num_elements line message"

definition TEST_ASSERT_EACH_EQUAL_INT32_MESSAGE ::
    "addr \<Rightarrow> cmem \<Rightarrow> u64 \<Rightarrow> addr \<Rightarrow> u64 \<Rightarrow> string option \<Rightarrow> u64 \<Rightarrow> unity \<Rightarrow> unity outcome" where
  "TEST_ASSERT_EACH_EQUAL_INT32_MESSAGE q m expected actual num_elements message line =
     UNITY_TEST_ASSERT_EACH_EQUAL_INT32 q m expected actual num_elements line message"

definition TEST_ASSERT_EACH_EQUAL_INT64_MESSAGE ::
    "addr \<Rightarrow> cmem \<Rightarrow> u64 \<Rightarrow> addr \<Rightarrow> u64 \<Rightarrow> string option \<Rightarrow> u64 \<Rightarrow> unity \<Rightarrow> unity outcome" where
  "TEST_ASSERT_EACH_EQUAL_INT64_MESSAGE q m expected actual num_elements message line =
     UNITY_TEST_ASSERT_EACH_EQUAL_INT64 q m expected actual num_elements line message"

definition TEST_ASSERT_EACH_EQUAL_UINT_MESSAGE ::
    "addr \<Rightarrow> cmem \<Rightarrow> u64 \<Rightarrow> addr \<Rightarrow> u64 \<Rightarrow> string option \<Rightarrow> u64 \<Rightarrow> unity \<Rightarrow> unity outcome" where
  "TEST_ASSERT_EACH_EQUAL_UINT_MESSAGE q m expected actual num_elements message line =
     UNITY_TEST_ASSERT_EACH_EQUAL_UINT q m expected actual num_elements line message"

definition TEST_ASSERT_EACH_EQUAL_UINT8_MESSAGE ::
    "addr \<Rightarrow> cmem \<Rightarrow> u64 \<Rightarrow> addr \<Rightarrow> u64 \<Rightarrow> string option \<Rightarrow> u64 \<Rightarrow> unity \<Rightarrow> unity outcome" where
  "TEST_ASSERT_EACH_EQUAL_UINT8_MESSAGE q m expected actual num_elements message line =
     UNITY_TEST_ASSERT_EACH_EQUAL_UINT8 q m expected actual num_elements line message"

definition TEST_ASSERT_EACH_EQUAL_UINT16_MESSAGE ::
    "addr \<Rightarrow> cmem \<Rightarrow> u64 \<Rightarrow> addr \<Rightarrow> u64 \<Rightarrow> string option \<Rightarrow> u64 \<Rightarrow> unity \<Rightarrow> unity outcome" where
  "TEST_ASSERT_EACH_EQUAL_UINT16_MESSAGE q m expected actual num_elements message line =
     UNITY_TEST_ASSERT_EACH_EQUAL_UINT16 q m expected actual num_elements line message"

definition TEST_ASSERT_EACH_EQUAL_UINT32_MESSAGE ::
    "addr \<Rightarrow> cmem \<Rightarrow> u64 \<Rightarrow> addr \<Rightarrow> u64 \<Rightarrow> string option \<Rightarrow> u64 \<Rightarrow> unity \<Rightarrow> unity outcome" where
  "TEST_ASSERT_EACH_EQUAL_UINT32_MESSAGE q m expected actual num_elements message line =
     UNITY_TEST_ASSERT_EACH_EQUAL_UINT32 q m expected actual num_elements line message"

definition TEST_ASSERT_EACH_EQUAL_UINT64_MESSAGE ::
    "addr \<Rightarrow> cmem \<Rightarrow> u64 \<Rightarrow> addr \<Rightarrow> u64 \<Rightarrow> string option \<Rightarrow> u64 \<Rightarrow> unity \<Rightarrow> unity outcome" where
  "TEST_ASSERT_EACH_EQUAL_UINT64_MESSAGE q m expected actual num_elements message line =
     UNITY_TEST_ASSERT_EACH_EQUAL_UINT64 q m expected actual num_elements line message"

definition TEST_ASSERT_EACH_EQUAL_size_t_MESSAGE ::
    "addr \<Rightarrow> cmem \<Rightarrow> u64 \<Rightarrow> addr \<Rightarrow> u64 \<Rightarrow> string option \<Rightarrow> u64 \<Rightarrow> unity \<Rightarrow> unity outcome" where
  "TEST_ASSERT_EACH_EQUAL_size_t_MESSAGE q m expected actual num_elements message line =
     UNITY_TEST_ASSERT_EACH_EQUAL_UINT q m expected actual num_elements line message"

definition TEST_ASSERT_EACH_EQUAL_HEX_MESSAGE ::
    "addr \<Rightarrow> cmem \<Rightarrow> u64 \<Rightarrow> addr \<Rightarrow> u64 \<Rightarrow> string option \<Rightarrow> u64 \<Rightarrow> unity \<Rightarrow> unity outcome" where
  "TEST_ASSERT_EACH_EQUAL_HEX_MESSAGE q m expected actual num_elements message line =
     UNITY_TEST_ASSERT_EACH_EQUAL_HEX32 q m expected actual num_elements line message"

definition TEST_ASSERT_EACH_EQUAL_HEX8_MESSAGE ::
    "addr \<Rightarrow> cmem \<Rightarrow> u64 \<Rightarrow> addr \<Rightarrow> u64 \<Rightarrow> string option \<Rightarrow> u64 \<Rightarrow> unity \<Rightarrow> unity outcome" where
  "TEST_ASSERT_EACH_EQUAL_HEX8_MESSAGE q m expected actual num_elements message line =
     UNITY_TEST_ASSERT_EACH_EQUAL_HEX8 q m expected actual num_elements line message"

definition TEST_ASSERT_EACH_EQUAL_HEX16_MESSAGE ::
    "addr \<Rightarrow> cmem \<Rightarrow> u64 \<Rightarrow> addr \<Rightarrow> u64 \<Rightarrow> string option \<Rightarrow> u64 \<Rightarrow> unity \<Rightarrow> unity outcome" where
  "TEST_ASSERT_EACH_EQUAL_HEX16_MESSAGE q m expected actual num_elements message line =
     UNITY_TEST_ASSERT_EACH_EQUAL_HEX16 q m expected actual num_elements line message"

definition TEST_ASSERT_EACH_EQUAL_HEX32_MESSAGE ::
    "addr \<Rightarrow> cmem \<Rightarrow> u64 \<Rightarrow> addr \<Rightarrow> u64 \<Rightarrow> string option \<Rightarrow> u64 \<Rightarrow> unity \<Rightarrow> unity outcome" where
  "TEST_ASSERT_EACH_EQUAL_HEX32_MESSAGE q m expected actual num_elements message line =
     UNITY_TEST_ASSERT_EACH_EQUAL_HEX32 q m expected actual num_elements line message"

definition TEST_ASSERT_EACH_EQUAL_HEX64_MESSAGE ::
    "addr \<Rightarrow> cmem \<Rightarrow> u64 \<Rightarrow> addr \<Rightarrow> u64 \<Rightarrow> string option \<Rightarrow> u64 \<Rightarrow> unity \<Rightarrow> unity outcome" where
  "TEST_ASSERT_EACH_EQUAL_HEX64_MESSAGE q m expected actual num_elements message line =
     UNITY_TEST_ASSERT_EACH_EQUAL_HEX64 q m expected actual num_elements line message"

definition TEST_ASSERT_EACH_EQUAL_PTR_MESSAGE ::
    "addr \<Rightarrow> cmem \<Rightarrow> u64 \<Rightarrow> addr \<Rightarrow> u64 \<Rightarrow> string option \<Rightarrow> u64 \<Rightarrow> unity \<Rightarrow> unity outcome" where
  "TEST_ASSERT_EACH_EQUAL_PTR_MESSAGE q m expected actual num_elements message line =
     UNITY_TEST_ASSERT_EACH_EQUAL_PTR q m expected actual num_elements line message"

definition TEST_ASSERT_EACH_EQUAL_STRING_MESSAGE ::
    "cmem \<Rightarrow> (addr \<Rightarrow> string) \<Rightarrow> addr \<Rightarrow> addr \<Rightarrow> u64 \<Rightarrow> string option \<Rightarrow> u64 \<Rightarrow> unity \<Rightarrow> unity outcome" where
  "TEST_ASSERT_EACH_EQUAL_STRING_MESSAGE m strs expected actual num_elements message line =
     UNITY_TEST_ASSERT_EACH_EQUAL_STRING m strs expected actual num_elements line message"

definition TEST_ASSERT_EACH_EQUAL_MEMORY_MESSAGE ::
    "cmem \<Rightarrow> addr \<Rightarrow> addr \<Rightarrow> u64 \<Rightarrow> u64 \<Rightarrow> string option \<Rightarrow> u64 \<Rightarrow> unity \<Rightarrow> unity outcome" where
  "TEST_ASSERT_EACH_EQUAL_MEMORY_MESSAGE m expected actual len num_elements message line =
     UNITY_TEST_ASSERT_EACH_EQUAL_MEMORY m expected actual len num_elements line message"

definition TEST_ASSERT_EACH_EQUAL_CHAR_MESSAGE ::
    "addr \<Rightarrow> cmem \<Rightarrow> u64 \<Rightarrow> addr \<Rightarrow> u64 \<Rightarrow> string option \<Rightarrow> u64 \<Rightarrow> unity \<Rightarrow> unity outcome" where
  "TEST_ASSERT_EACH_EQUAL_CHAR_MESSAGE q m expected actual num_elements message line =
     UNITY_TEST_ASSERT_EACH_EQUAL_CHAR q m expected actual num_elements line message"

subsection \<open>Equality\<close>

definition TEST_ASSERT_EQUAL_MESSAGE ::
    "u64 \<Rightarrow> u64 \<Rightarrow> string option \<Rightarrow> u64 \<Rightarrow> unity \<Rightarrow> unity outcome" where
  "TEST_ASSERT_EQUAL_MESSAGE expected actual message line =
     UNITY_TEST_ASSERT_EQUAL_INT expected actual line message"

subsection \<open>Inequality\<close>

definition TEST_ASSERT_NOT_EQUAL_MESSAGE ::
    "u64 \<Rightarrow> u64 \<Rightarrow> string option \<Rightarrow> u64 \<Rightarrow> unity \<Rightarrow> unity outcome" where
  "TEST_ASSERT_NOT_EQUAL_MESSAGE expected actual message line =
     UNITY_TEST_ASSERT (expected \<noteq> actual) line message"

end
