(* ===== verification/Unity_Macros_Correct.thy ===== *)
theory Unity_Macros_Correct
  imports Unity_Properties Unity_Test_Macros
begin

text \<open>
  What the casts in the macros do: the narrow macros compare the low bits of their arguments, those
  for \<open>size_t\<close> arrays compare elements of four bytes, and the bit macros with a message know 32 bits.
\<close>

section \<open>Narrow numbers\<close>

lemma cast_eq_iff [simp]:
  "as_INT8 x = as_INT8 y \<longleftrightarrow> take_bit 8 x = take_bit 8 y"
  "as_INT16 x = as_INT16 y \<longleftrightarrow> take_bit 16 x = take_bit 16 y"
  "as_INT32 x = as_INT32 y \<longleftrightarrow> take_bit 32 x = take_bit 32 y"
  "as_UINT8 x = as_UINT8 y \<longleftrightarrow> take_bit 8 x = take_bit 8 y"
  "as_UINT16 x = as_UINT16 y \<longleftrightarrow> take_bit 16 x = take_bit 16 y"
  "as_UINT32 x = as_UINT32 y \<longleftrightarrow> take_bit 32 x = take_bit 32 y"
proof -
  have inj: "(scast v :: u64) = scast w \<longleftrightarrow> v = w" "(scast v' :: u64) = scast w' \<longleftrightarrow> v' = w'"
    "(scast v'' :: u64) = scast w'' \<longleftrightarrow> v'' = w''"
    for v w :: u8 and v' w' :: u16 and v'' w'' :: u32
    by (metis extend_low(1), metis extend_low(2), metis extend_low(3))
  have uinj: "(ucast v :: u64) = ucast w \<longleftrightarrow> v = w" "(ucast v' :: u64) = ucast w' \<longleftrightarrow> v' = w'"
    "(ucast v'' :: u64) = ucast w'' \<longleftrightarrow> v'' = w''"
    for v w :: u8 and v' w' :: u16 and v'' w'' :: u32
  proof -
    have id: "ucast (ucast v :: u64) = v" "ucast (ucast v' :: u64) = v'" "ucast (ucast v'' :: u64) = v''"
      for v :: u8 and v' :: u16 and v'' :: u32
      by (rule bit_word_eqI; auto simp: bit_simps)+
    show "(ucast v :: u64) = ucast w \<longleftrightarrow> v = w" "(ucast v' :: u64) = ucast w' \<longleftrightarrow> v' = w'"
      "(ucast v'' :: u64) = ucast w'' \<longleftrightarrow> v'' = w''"
      by (metis id(1), metis id(2), metis id(3))
  qed
  have t: "take_bit 8 z = (ucast (ucast z :: u8) :: u64)" "take_bit 16 z = (ucast (ucast z :: u16) :: u64)"
    "take_bit 32 z = (ucast (ucast z :: u32) :: u64)" for z :: u64
    by (rule bit_word_eqI; auto simp: bit_simps)+
  show "as_INT8 x = as_INT8 y \<longleftrightarrow> take_bit 8 x = take_bit 8 y"
    "as_INT16 x = as_INT16 y \<longleftrightarrow> take_bit 16 x = take_bit 16 y"
    "as_INT32 x = as_INT32 y \<longleftrightarrow> take_bit 32 x = take_bit 32 y"
    "as_UINT8 x = as_UINT8 y \<longleftrightarrow> take_bit 8 x = take_bit 8 y"
    "as_UINT16 x = as_UINT16 y \<longleftrightarrow> take_bit 16 x = take_bit 16 y"
    "as_UINT32 x = as_UINT32 y \<longleftrightarrow> take_bit 32 x = take_bit 32 y"
    by (simp_all add: as_INT8_def as_INT16_def as_INT32_def as_UINT8_def as_UINT16_def as_UINT32_def
        inj uinj t)
qed

lemmas narrow_macros = UNITY_TEST_ASSERT_EQUAL_INT8_def UNITY_TEST_ASSERT_EQUAL_INT16_def
  UNITY_TEST_ASSERT_EQUAL_INT32_def UNITY_TEST_ASSERT_EQUAL_UINT8_def
  UNITY_TEST_ASSERT_EQUAL_UINT16_def UNITY_TEST_ASSERT_EQUAL_UINT32_def
  UNITY_TEST_ASSERT_EQUAL_HEX8_def UNITY_TEST_ASSERT_EQUAL_HEX16_def
  UNITY_TEST_ASSERT_EQUAL_HEX32_def UNITY_TEST_ASSERT_EQUAL_CHAR_def

interpretation macro_int8: unity_assertion True "take_bit 8 e = take_bit 8 a"
    "UNITY_TEST_ASSERT_EQUAL_INT8 e a line msg" for e a line msg
  using equal_int.unity_assertion_axioms [of "as_INT8 e" "as_INT8 a"] by (simp add: narrow_macros)

interpretation macro_int16: unity_assertion True "take_bit 16 e = take_bit 16 a"
    "UNITY_TEST_ASSERT_EQUAL_INT16 e a line msg" for e a line msg
  using equal_int.unity_assertion_axioms [of "as_INT16 e" "as_INT16 a"] by (simp add: narrow_macros)

interpretation macro_int32: unity_assertion True "take_bit 32 e = take_bit 32 a"
    "UNITY_TEST_ASSERT_EQUAL_INT32 e a line msg" for e a line msg
  using equal_int.unity_assertion_axioms [of "as_INT32 e" "as_INT32 a"] by (simp add: narrow_macros)

interpretation macro_uint8: unity_assertion True "take_bit 8 e = take_bit 8 a"
    "UNITY_TEST_ASSERT_EQUAL_UINT8 e a line msg" for e a line msg
  using equal_uint.unity_assertion_axioms [of "as_UINT8 e" "as_UINT8 a"] by (simp add: narrow_macros)

interpretation macro_uint16: unity_assertion True "take_bit 16 e = take_bit 16 a"
    "UNITY_TEST_ASSERT_EQUAL_UINT16 e a line msg" for e a line msg
  using equal_uint.unity_assertion_axioms [of "as_UINT16 e" "as_UINT16 a"] by (simp add: narrow_macros)

interpretation macro_uint32: unity_assertion True "take_bit 32 e = take_bit 32 a"
    "UNITY_TEST_ASSERT_EQUAL_UINT32 e a line msg" for e a line msg
  using equal_uint.unity_assertion_axioms [of "as_UINT32 e" "as_UINT32 a"] by (simp add: narrow_macros)

section \<open>Properties\<close>

text \<open>C29. The macro that all bits under a mask are set checks all 64 of them; its variant with a
  message casts the expected value to 32 bits, so that it demands the upper bits to be clear.\<close>

theorem unity_bits_high_variants:
  assumes "idle u"
  shows "(TEST_ASSERT_BITS_HIGH msk a line u = Returns u \<longleftrightarrow> msk AND a = msk)
    \<and> (TEST_ASSERT_BITS_HIGH_MESSAGE msk a msg line u = Returns u \<longleftrightarrow> msk AND a = take_bit 32 msk)"
proof -
  have low: "msk AND 0xFFFFFFFF = take_bit 32 msk"
    by (simp add: take_bit_eq_mask mask_eq_exp_minus_1)
  show ?thesis
    using assms by (auto simp: TEST_ASSERT_BITS_HIGH_def TEST_ASSERT_BITS_HIGH_MESSAGE_def
        UNITY_TEST_ASSERT_BITS_def UnityAssertBits_run low)
qed

lemma unity_bits_high_variants_witness:
  "TEST_ASSERT_BITS_HIGH (push_bit 40 1) (- 1) 7 fresh_unity = Returns fresh_unity
   \<and> TEST_ASSERT_BITS_HIGH_MESSAGE (push_bit 40 1) (- 1) (Some ''m'') 7 fresh_unity \<noteq> Returns fresh_unity"
  using unity_bits_high_variants [OF idle_fresh, of "push_bit 40 1" "- 1" 7 "Some ''m''"]
  by (simp add: take_bit_eq_mask mask_eq_exp_minus_1)

text \<open>C30. The macro for arrays of \<open>size_t\<close> compares elements of the size of an \<open>unsigned int\<close>: for \<open>n\<close>
  elements it looks at the first \<open>4 * n\<close> of the \<open>8 * n\<close> bytes of each array and at no others.\<close>

theorem unity_size_t_array_half:
  assumes "idle u" and "n \<noteq> 0" and "unat n < 2 ^ 32" and "e \<noteq> a" and "e \<noteq> NULL" and "a \<noteq> NULL"
    and "mapped m e (unat n * 8)" and "unat e + unat n * 8 \<le> 2 ^ 64"
    and "mapped m a (unat n * 8)" and "unat a + unat n * 8 \<le> 2 ^ 64"
  shows "if \<forall>i < unat n * 4. bytes m (e + of_nat i) = bytes m (a + of_nat i)
    then TEST_ASSERT_EQUAL_size_t_ARRAY m e a n line u = Returns u
    else \<exists>s. TEST_ASSERT_EQUAL_size_t_ARRAY m e a n line u = Jumps (failed s u)"
proof -
  have n: "unat (ucast n :: u32) = unat n"
    using assms(3) by (simp add: unsigned_ucast_eq take_bit_nat_eq_self)
  then have "(ucast n :: u32) \<noteq> 0" using assms(2) by (metis unat_0 unat_eq_zero)
  moreover have sz: "elem_size UNITY_DISPLAY_STYLE_UINT = 4" by (simp add: elem_size_def style_defs)
  moreover have "mapped m e (unat n * 4)" and "mapped m a (unat n * 4)"
    using assms(7,9) by (auto intro: mapped_sub)
  ultimately show ?thesis
    using int_array_bytes [of u "ucast n" e a m UNITY_DISPLAY_STYLE_UINT None line] assms n
    by (simp add: TEST_ASSERT_EQUAL_size_t_ARRAY_def UNITY_TEST_ASSERT_EQUAL_UINT_ARRAY_def)
qed

text \<open>Two arrays of two \<open>size_t\<close> that differ in the second element.\<close>

definition size_t_mem :: cmem where
  "size_t_mem = \<lparr>bytes = (\<lambda>a. if a = 0x1018 then 1 else 0), regions = [(0x1000, 32)]\<rparr>"

lemma unity_size_t_array_half_witness:
  "TEST_ASSERT_EQUAL_size_t_ARRAY size_t_mem 0x1000 0x1010 2 7 fresh_unity = Returns fresh_unity
   \<and> load64 size_t_mem 0x1008 = Some 0 \<and> load64 size_t_mem 0x1018 = Some 1"
proof -
  have "bytes size_t_mem (0x1000 + of_nat i) = bytes size_t_mem (0x1010 + of_nat i)" if "i < 8" for i
  proof -
    have "unat ((0x1000 :: addr) + of_nat i) = 0x1000 + i" "unat ((0x1010 :: addr) + of_nat i) = 0x1010 + i"
      using that by (subst unat_add_num; simp)+
    then have "(0x1000 :: addr) + of_nat i \<noteq> 0x1018" "(0x1010 :: addr) + of_nat i \<noteq> 0x1018"
      using that by (auto simp: word_unat_eq_iff)
    then show ?thesis by (simp add: size_t_mem_def)
  qed
  moreover have "mapped size_t_mem 0x1000 16" and "mapped size_t_mem 0x1010 16"
    by (simp_all add: size_t_mem_def mapped_def)
  ultimately have "TEST_ASSERT_EQUAL_size_t_ARRAY size_t_mem 0x1000 0x1010 2 7 fresh_unity = Returns fresh_unity"
    using unity_size_t_array_half [where u = fresh_unity and n = 2 and e = "0x1000" and a = "0x1010"
        and m = size_t_mem and line = 7]
    by simp
  moreover have "load64 size_t_mem 0x1008 = Some 0" and "load64 size_t_mem 0x1018 = Some 1"
    by (simp_all add: load64_def get64_def mapped_def size_t_mem_def)
  ultimately show ?thesis by blast
qed

end
