(* ===== verification/Unity_Options.thy ===== *)
theory Unity_Options
  imports Unity_Control "HOL-Library.Sublist"
begin

text \<open>
  The command line of \<open>src/unity/unity.c\<close> (\<open>UNITY_USE_COMMAND_LINE_ARGS\<close>): parsing the options, and
  the filter that decides from the names given with \<open>-n\<close>, \<open>-f\<close> and \<open>-x\<close> whether a test runs.  A
  \<open>char*\<close> into a string is the list of the characters from there to the terminating 0, which is
  read behind the last of them; a read behind that is undefined.
\<close>

section \<open>State\<close>

record options =
  UnityOptionIncludeNamed :: "string option"
  UnityOptionExcludeNamed :: "string option"
  UnityVerbosity :: int
  UnityStrictMatch :: bool

definition initial_options :: options where
  "initial_options = \<lparr>UnityOptionIncludeNamed = None, UnityOptionExcludeNamed = None,
     UnityVerbosity = 1, UnityStrictMatch = False\<rparr>"

text \<open>\<open>ptr[0]\<close>; \<open>ptr[1]\<close> and \<open>ptr[2]\<close> are the same of a later pointer.\<close>

definition deref :: "string \<Rightarrow> char" where
  "deref p = (case p of [] \<Rightarrow> CHR 0x00 | c # _ \<Rightarrow> c)"

lemma deref_simps [simp]: "deref [] = CHR 0x00" "deref (c # p) = c"
  by (simp_all add: deref_def)

section \<open>Parsing the options\<close>

definition UnityHelp :: "unity \<Rightarrow> unity" where
  "UnityHelp u = fold (\<lambda>s u. UNITY_PRINT_EOL (UnityPrintS s u))
     [''Options: '',
      ''-l        List all tests and exit'',
      ''-f NAME   Filter to run only tests whose name includes NAME'',
      ''-n NAME   Run only the test named NAME'',
      ''-h        show this Help menu'',
      ''-q        Quiet/decrease verbosity'',
      ''-v        increase Verbosity'',
      ''-x NAME   eXclude tests whose name includes NAME''] u"

text \<open>
  The name an option takes, behind \<open>=\<close> or as the next argument, and the arguments left; \<open>argv[i][2]\<close>
  is read at an option letter, so it is in the string.
\<close>

definition option_name :: "string \<Rightarrow> string list \<Rightarrow> (string \<times> string list) option" where
  "option_name arg rest =
     (if deref (drop 2 arg) = CHR ''='' then Some (drop 3 arg, rest)
      else case rest of [] \<Rightarrow> None | name # rest \<Rightarrow> Some (name, rest))"

function UnityParseOptions_loop :: "string list \<Rightarrow> options \<Rightarrow> unity \<Rightarrow> int \<times> options \<times> unity" where
  "UnityParseOptions_loop [] opts u = (0, opts, u)"
| "UnityParseOptions_loop (arg # rest) opts u =
     (if deref arg = CHR ''-'' then
        (let c = deref (tl arg) in
         if c = CHR ''l'' then (-1, opts, u)
         else if c = CHR ''n'' \<or> c = CHR ''f'' then
           let opts = opts\<lparr>UnityStrictMatch := (c = CHR ''n'')\<rparr> in
           (case option_name arg rest of
              Some (name, rest) \<Rightarrow>
                UnityParseOptions_loop rest (opts\<lparr>UnityOptionIncludeNamed := Some name\<rparr>) u
            | None \<Rightarrow>
                (1, opts, UNITY_PRINT_EOL
                   (UnityPrintS ''ERROR: No Test String to Include Matches For'' u)))
         else if c = CHR ''q'' then UnityParseOptions_loop rest (opts\<lparr>UnityVerbosity := 0\<rparr>) u
         else if c = CHR ''v'' then UnityParseOptions_loop rest (opts\<lparr>UnityVerbosity := 2\<rparr>) u
         else if c = CHR ''x'' then
           (case option_name arg rest of
              Some (name, rest) \<Rightarrow>
                UnityParseOptions_loop rest (opts\<lparr>UnityOptionExcludeNamed := Some name\<rparr>) u
            | None \<Rightarrow>
                (1, opts, UNITY_PRINT_EOL
                   (UnityPrintS ''ERROR: No Test String to Exclude Matches For'' u)))
         else if c = CHR ''h'' then (1, opts, UnityHelp u)
         else
           let u = UnityPrintS ''ERROR: Unknown Option '' u;
               u = UNITY_OUTPUT_CHAR c u;
               u = UNITY_PRINT_EOL u
           in (1, opts, UnityHelp u))
      else UnityParseOptions_loop rest opts u)"
  by pat_completeness auto
termination
  by (relation "measure (\<lambda>(args, opts, u). length args)")
    (auto simp: option_name_def split: if_splits list.splits)

text \<open>The arguments behind the name of the program.\<close>

definition UnityParseOptions :: "string list \<Rightarrow> options \<Rightarrow> unity \<Rightarrow> int \<times> options \<times> unity" where
  "UnityParseOptions args opts u =
     UnityParseOptions_loop args
       (opts\<lparr>UnityOptionIncludeNamed := None, UnityOptionExcludeNamed := None,
          UnityStrictMatch := False\<rparr>) u"

section \<open>Matching names\<close>

text \<open>
  The inner loop of \<open>IsStringInBiggerString\<close>: \<open>Some\<close> is a \<open>return\<close> from the function, \<open>None\<close> that the
  loop was left.
\<close>

fun match_here :: "bool \<Rightarrow> string \<Rightarrow> string \<Rightarrow> int option" where
  "match_here strict (l # lptr) (s # sptr) =
     (if l \<noteq> CHR 0x00 \<and> s \<noteq> CHR 0x00 \<and> l = s then
        (let c = deref sptr in
         if c = CHR ''*'' then Some (if strict then 0 else 1)
         else if c = CHR '','' \<or> c = CHR 0x22 \<or> c = CHR 0x27 \<or> c = CHR 0x00
         then Some (if \<not> strict \<or> deref lptr = CHR 0x00 then 1 else 0)
         else if c = CHR '':'' then Some 2
         else match_here strict lptr sptr)
      else None)"
| "match_here strict _ _ = None"

fun IsStringInBiggerString_loop :: "bool \<Rightarrow> string \<Rightarrow> string \<Rightarrow> int" where
  "IsStringInBiggerString_loop strict [] shortstring = 0"
| "IsStringInBiggerString_loop strict (l # lnext) shortstring =
     (if l = CHR 0x00 then 0
      else case match_here strict (l # lnext) shortstring of
        Some r \<Rightarrow> r
      | None \<Rightarrow> if strict then 0 else IsStringInBiggerString_loop strict lnext shortstring)"

text \<open>The long string may be a null pointer, which is undefined to read.\<close>

definition IsStringInBiggerString :: "bool \<Rightarrow> string option \<Rightarrow> string \<Rightarrow> int option" where
  "IsStringInBiggerString strict longstring shortstring =
     (if deref shortstring = CHR ''*'' then Some (if strict then 0 else 1)
      else map_option (\<lambda>l. IsStringInBiggerString_loop strict l shortstring) longstring)"

text \<open>
  The \<open>do\<close> loop of \<open>UnityStringArgumentMatches\<close>, which ends at the end of a partial name, and the
  part behind a colon it has seen.  It steps before it looks: from the terminating 0 it leaves the
  string.
\<close>

definition ends_name :: "char \<Rightarrow> bool" where
  "ends_name c \<longleftrightarrow> c = CHR 0x00 \<or> c = CHR 0x27 \<or> c = CHR 0x22 \<or> c = CHR '',''"

fun name_end :: "string \<Rightarrow> string option \<Rightarrow> (string \<times> string option) option" where
  "name_end [] ptrf = None"
| "name_end (c # ptr2) ptrf =
     (let ptrf = (if deref ptr2 = CHR '':'' \<and> deref (tl ptr2) \<noteq> CHR 0x00 then Some (tl ptr2)
                  else ptrf)
      in if ends_name (deref ptr2) then Some (ptr2, ptrf) else name_end ptr2 ptrf)"

definition separator :: "char \<Rightarrow> bool" where
  "separator c \<longleftrightarrow> c \<noteq> CHR 0x00 \<and> (c = CHR '':'' \<or> c = CHR 0x27 \<or> c = CHR 0x22 \<or> c = CHR '','')"

text \<open>Behind an opening quote.\<close>

definition unquote :: "string \<Rightarrow> string" where
  "unquote p = (if deref p = CHR 0x22 \<or> deref p = CHR 0x27 then tl p else p)"

lemma length_unquote: "length (unquote p) \<le> length p"
  by (simp add: unquote_def)

lemma length_name_end: "name_end p f = Some (q, g) \<Longrightarrow> length q < length p"
  by (induction p f rule: name_end.induct) (auto simp: Let_def split: if_splits)

lemma length_dropWhile_less: "length q < n \<Longrightarrow> length (dropWhile P q) < n"
  by (rule le_less_trans [OF length_dropWhile_le])

function UnityStringArgumentMatches ::
    "bool \<Rightarrow> string option \<Rightarrow> string option \<Rightarrow> string \<Rightarrow> int option" where
  "UnityStringArgumentMatches strict file test ptr1 =
     (if deref ptr1 = CHR 0x00 then Some 0
      else case name_end (unquote ptr1) None of
        None \<Rightarrow> None
      | Some (ptr2, ptrf) \<Rightarrow> do {
          retval \<leftarrow> IsStringInBiggerString strict file (unquote ptr1);
          if retval = 1 then Some 1
          else do {
            part \<leftarrow> (case ptrf of
                Some f \<Rightarrow> if retval = 2 then IsStringInBiggerString strict test f else Some 0
              | None \<Rightarrow> Some 0);
            if part \<noteq> 0 then Some 1
            else do {
              whole \<leftarrow> IsStringInBiggerString strict test (unquote ptr1);
              if whole = 1 then Some 1
              else UnityStringArgumentMatches strict file test (dropWhile separator ptr2)
            }
          }
        })"
  by pat_completeness auto
termination
  by (relation "measure (\<lambda>(strict, file, test, p). length p)")
    (auto dest!: length_name_end intro!: length_dropWhile_less intro: less_le_trans length_unquote)

declare UnityStringArgumentMatches.simps [simp del]

definition argument_matches :: "options \<Rightarrow> unity \<Rightarrow> string \<Rightarrow> int option" where
  "argument_matches opts u =
     UnityStringArgumentMatches (UnityStrictMatch opts) (TestFile u) (CurrentTestName u)"

definition UnityTestMatches :: "options \<Rightarrow> unity \<Rightarrow> int option" where
  "UnityTestMatches opts u = do {
     retval \<leftarrow> (case UnityOptionIncludeNamed opts of
        Some s \<Rightarrow> argument_matches opts u s
      | None \<Rightarrow> Some 1);
     (case UnityOptionExcludeNamed opts of
        Some s \<Rightarrow> do { r \<leftarrow> argument_matches opts u s; Some (if r \<noteq> 0 then 0 else retval) }
      | None \<Rightarrow> Some retval)
   }"

end
