(* ===== verification/Unity_Options_Correct.thy ===== *)
theory Unity_Options_Correct
  imports Unity_Options
begin

text \<open>
  What the filter of \<open>Unity_Options\<close> does: it reads past the end of its argument exactly for a lone
  quote, and for a name without special characters it is the test whether the name is the file or
  the test, or part of one of them.
\<close>

section \<open>The filter\<close>

lemma not_separator_dropWhile: "\<not> separator (deref (dropWhile separator p))"
  by (induction p) (auto simp: separator_def)

lemma name_end_None [simp]: "name_end p f = None \<longleftrightarrow> p = []"
  by (induction p f rule: name_end.induct) (auto simp: ends_name_def Let_def)

lemma IsStringInBiggerString_Some [simp]: "IsStringInBiggerString strict (Some l) s \<noteq> None"
  by (simp add: IsStringInBiggerString_def)

lemma unquote_same: "\<not> separator (deref p) \<Longrightarrow> unquote p = p"
  by (auto simp: unquote_def separator_def)

lemma argument_matches_defined:
  assumes "p = [] \<or> unquote p \<noteq> []"
  shows "UnityStringArgumentMatches strict (Some file) (Some test) p \<noteq> None"
  using assms
proof (induction "length p" arbitrary: p rule: less_induct)
  case less
  show ?case
  proof (cases "deref p = CHR 0x00")
    case True
    then show ?thesis by (simp add: UnityStringArgumentMatches.simps)
  next
    case False
    then have "unquote p \<noteq> []" using less.prems by auto
    then obtain q f where q: "name_end (unquote p) None = Some (q, f)"
      by (cases "name_end (unquote p) None") auto
    let ?r = "dropWhile separator q"
    have "length ?r < length p"
      using length_name_end [OF q] length_unquote [of p]
      by (intro length_dropWhile_less) linarith
    moreover have "?r = [] \<or> unquote ?r \<noteq> []"
      using unquote_same [OF not_separator_dropWhile, of q] by metis
    ultimately have rest: "UnityStringArgumentMatches strict (Some file) (Some test) ?r \<noteq> None"
      by (rule less.hyps)
    show ?thesis
      using rest q by (subst UnityStringArgumentMatches.simps)
        (auto simp: IsStringInBiggerString_def split: option.splits)
  qed
qed

text \<open>A name without the characters that mean something to the filter.\<close>

definition plain_name :: "string \<Rightarrow> bool" where
  "plain_name s \<longleftrightarrow> s \<noteq> [] \<and> list_all (\<lambda>c. c \<noteq> CHR 0x00 \<and> c \<noteq> CHR ''*'' \<and> \<not> separator c) s"

lemma plain_Cons:
  "plain_name (c # s) \<longleftrightarrow> c \<noteq> CHR 0x00 \<and> c \<noteq> CHR ''*'' \<and> \<not> separator c \<and> (s = [] \<or> plain_name s)"
  by (auto simp: plain_name_def)

lemma deref_plain:
  "plain_name s \<Longrightarrow> deref s \<noteq> CHR 0x00 \<and> deref s \<noteq> CHR ''*'' \<and> \<not> separator (deref s)"
  by (cases s) (auto simp: plain_name_def)

lemma plain_Nil [simp]: "\<not> plain_name []"
  by (simp add: plain_name_def)

lemma match_here_plain:
  "plain_name s \<Longrightarrow> CHR 0x00 \<notin> set l \<Longrightarrow>
     match_here strict l s = (if prefix s l then Some (if strict \<and> l \<noteq> s then 0 else 1) else None)"
proof (induction strict l s rule: match_here.induct)
  case (1 strict l lptr s sptr)
  show ?case
  proof (cases "sptr = []")
    case True
    have "deref lptr = CHR 0x00 \<longleftrightarrow> lptr = []" using "1.prems"(2) by (cases lptr) auto
    then show ?thesis using "1.prems" True by (auto simp: plain_Cons)
  next
    case False
    then have p: "plain_name sptr" using "1.prems"(1) by (simp add: plain_Cons)
    have d: "deref sptr \<noteq> CHR 0x00" "deref sptr \<noteq> CHR ''*''" "deref sptr \<noteq> CHR '',''"
        "deref sptr \<noteq> CHR 0x22" "deref sptr \<noteq> CHR 0x27" "deref sptr \<noteq> CHR '':''"
      using deref_plain [OF p] by (auto simp: separator_def)
    have n: "l \<noteq> CHR 0x00" "CHR 0x00 \<notin> set lptr" using "1.prems"(2) by auto
    show ?thesis
    proof (cases "l = s")
      case True
      then have "match_here strict lptr sptr
          = (if prefix sptr lptr then Some (if strict \<and> lptr \<noteq> sptr then 0 else 1) else None)"
        using "1.IH" [OF _ refl] n d p by (auto simp: Let_def)
      then show ?thesis using True n d by (simp add: Let_def)
    next
      case False
      then show ?thesis using n by auto
    qed
  qed
qed (auto simp: plain_name_def)

lemma in_bigger_plain:
  assumes "plain_name s" and "CHR 0x00 \<notin> set l"
  shows "IsStringInBiggerString strict (Some l) s
    = Some (of_bool (if strict then l = s else sublist s l))"
proof -
  have "IsStringInBiggerString_loop strict l s = of_bool (if strict then l = s else sublist s l)"
    using assms(2)
  proof (induction l)
    case Nil
    then show ?case using assms(1) by auto
  next
    case (Cons c l)
    then show ?case
      using assms(1) by (auto simp: match_here_plain sublist_Cons_right)
  qed
  then show ?thesis using deref_plain [OF assms(1)] by (simp add: IsStringInBiggerString_def)
qed

lemma name_end_plain:
  assumes "plain_name s"
  shows "name_end s None = Some ([], None)"
  using assms
proof (induction s)
  case (Cons c s)
  show ?case
  proof (cases "s = []")
    case False
    then have "plain_name s" using Cons.prems by (simp add: plain_Cons)
    then show ?thesis
      using Cons.IH deref_plain [of s] by (auto simp: separator_def ends_name_def Let_def)
  qed (simp add: ends_name_def)
qed (simp add: plain_name_def)

lemma argument_matches_plain:
  assumes s: "plain_name s" and "CHR 0x00 \<notin> set f" and "CHR 0x00 \<notin> set t"
    and "TestFile u = Some f" and "CurrentTestName u = Some t"
  shows "argument_matches opts u s
    = Some (of_bool (if UnityStrictMatch opts then f = s \<or> t = s else sublist s f \<or> sublist s t))"
proof -
  have "unquote s = s" using deref_plain [OF s] by (intro unquote_same) simp
  moreover have "UnityStringArgumentMatches x y z [] = Some 0" for x y z
    by (simp add: UnityStringArgumentMatches.simps)
  ultimately show ?thesis
    using assms(4,5) deref_plain [OF s]
    by (simp add: argument_matches_def UnityStringArgumentMatches.simps [of _ _ _ s] name_end_plain [OF s]
        in_bigger_plain [OF s assms(2)] in_bigger_plain [OF s assms(3)])
qed

section \<open>Properties\<close>

text \<open>C31. With the file and the test name set, matching a filter argument is defined, and comes to an
  end, for every argument but a lone quote, where the search for the end of the name starts behind the
  terminating 0.\<close>

theorem unity_filter_lone_quote:
  "UnityStringArgumentMatches strict (Some file) (Some test) s = None
     \<longleftrightarrow> s = [CHR 0x22] \<or> s = [CHR 0x27]"
proof -
  have "UnityStringArgumentMatches strict (Some file) (Some test) s = None" if "s \<noteq> []" "unquote s = []"
    using that by (cases s) (auto simp: UnityStringArgumentMatches.simps unquote_def split: if_splits)
  moreover have "s \<noteq> [] \<and> unquote s = [] \<longleftrightarrow> s = [CHR 0x22] \<or> s = [CHR 0x27]"
    by (cases s) (auto simp: unquote_def)
  ultimately show ?thesis using argument_matches_defined [of s] by metis
qed

text \<open>C32. From the command line to the decision, for a name without special characters: \<open>-n\<close> runs the
  tests whose name or file is the name, \<open>-f\<close> those where it occurs in one of them, and \<open>-x\<close> the
  others.\<close>

theorem unity_filter_runs:
  assumes "plain_name s" and "CHR 0x00 \<notin> set f" and "CHR 0x00 \<notin> set t"
    and "TestFile u = Some f" and "CurrentTestName u = Some t"
  shows "\<exists>strictly within without.
      UnityParseOptions [''-n'', s] opts u = (0, strictly, u)
    \<and> UnityTestMatches strictly u = Some (of_bool (f = s \<or> t = s))
    \<and> UnityParseOptions [''-f'', s] opts u = (0, within, u)
    \<and> UnityTestMatches within u = Some (of_bool (sublist s f \<or> sublist s t))
    \<and> UnityParseOptions [''-x'', s] opts u = (0, without, u)
    \<and> UnityTestMatches without u = Some (of_bool (\<not> (sublist s f \<or> sublist s t)))"
  using argument_matches_plain [OF assms]
  by (simp add: UnityParseOptions_def option_name_def Let_def UnityTestMatches_def)

lemma unity_filter_runs_witness:
  "\<exists>opts. UnityParseOptions [''-f'', ''lloc''] initial_options
       (fresh_unity\<lparr>TestFile := Some ''t.c'', CurrentTestName := Some ''test_alloc''\<rparr>)
     = (0, opts, fresh_unity\<lparr>TestFile := Some ''t.c'', CurrentTestName := Some ''test_alloc''\<rparr>)
   \<and> UnityTestMatches opts
       (fresh_unity\<lparr>TestFile := Some ''t.c'', CurrentTestName := Some ''test_alloc''\<rparr>) = Some 1"
proof -
  let ?u = "fresh_unity\<lparr>TestFile := Some ''t.c'', CurrentTestName := Some ''test_alloc''\<rparr>"
  have "sublist ''lloc'' ''test_alloc''" by (simp add: sublist_code)
  moreover have "plain_name ''lloc''" by (simp add: plain_name_def separator_def)
  ultimately show ?thesis
    using unity_filter_runs [of "''lloc''" "''t.c''" "''test_alloc''" ?u initial_options] by auto
qed

end
