(* ===== verification/Unity_Printf.thy ===== *)
theory Unity_Printf
  imports Unity_Options Unity_Float
begin

text \<open>
  The formatted printing of \<open>src/unity/unity.c\<close> (\<open>UNITY_INCLUDE_PRINT_FORMATTED\<close>, without
  \<open>UNITY_EXCLUDE_FLOAT_PRINT\<close>; \<open>d\<close> is \<open>UNITY_DOUBLE\<close>, as in \<open>Unity_Float\<close>).  A \<open>va_list\<close> is the list of the arguments not yet read, each with
  the type it was passed with after the default promotions; \<open>va_arg\<close> of another type, or behind the
  last argument, is undefined.
\<close>

section \<open>Variable arguments\<close>

datatype va =
    VA_int u32             \<comment> \<open>\<open>int\<close> or \<open>unsigned int\<close>\<close>
  | VA_long u64
  | VA_long_long u64
  | VA_string "string option"
  | VA_pointer addr
  | VA_double u64          \<comment> \<open>the bits of the \<open>double\<close>\<close>

datatype UnityLengthModifier =
  UNITY_LENGTH_MODIFIER_NONE | UNITY_LENGTH_MODIFIER_LONG_LONG | UNITY_LENGTH_MODIFIER_LONG

text \<open>The modifier and its length.\<close>

definition UnityLengthModifierGet :: "string \<Rightarrow> UnityLengthModifier \<times> nat" where
  "UnityLengthModifierGet pch =
     (let c = deref pch; c1 = deref (tl pch) in
      if c = CHR ''l'' then
        if c1 = CHR ''l'' then (UNITY_LENGTH_MODIFIER_LONG_LONG, 2)
        else (UNITY_LENGTH_MODIFIER_LONG, 1)
      else if c = CHR ''h'' then
        if c1 = CHR ''h'' then (UNITY_LENGTH_MODIFIER_NONE, 2) else (UNITY_LENGTH_MODIFIER_NONE, 1)
      else if c = CHR ''j'' \<or> c = CHR ''z'' \<or> c = CHR ''t'' \<or> c = CHR ''L''
      then (UNITY_LENGTH_MODIFIER_NONE, 1)
      else (UNITY_LENGTH_MODIFIER_NONE, 0))"

text \<open>
  \<open>UNITY_EXTRACT_ARG\<close>; an \<open>int\<close> is widened with its sign (\<open>sg\<close>) or, for \<open>unsigned int\<close>, with zeros.
\<close>

fun UNITY_EXTRACT_ARG :: "bool \<Rightarrow> UnityLengthModifier \<Rightarrow> va list \<Rightarrow> (u64 \<times> va list) option" where
  "UNITY_EXTRACT_ARG sg UNITY_LENGTH_MODIFIER_LONG_LONG (VA_long_long n # ap) = Some (n, ap)"
| "UNITY_EXTRACT_ARG sg UNITY_LENGTH_MODIFIER_LONG (VA_long n # ap) = Some (n, ap)"
| "UNITY_EXTRACT_ARG sg UNITY_LENGTH_MODIFIER_NONE (VA_int n # ap) =
     Some (if sg then scast n else ucast n, ap)"
| "UNITY_EXTRACT_ARG sg _ _ = None"

text \<open>A pointer is read as the \<open>unsigned long long\<close> of its width.\<close>

fun pointer_arg :: "va list \<Rightarrow> (u64 \<times> va list) option" where
  "pointer_arg (VA_pointer p # ap) = Some (p, ap)"
| "pointer_arg _ = None"

fun char_arg :: "va list \<Rightarrow> (char \<times> va list) option" where
  "char_arg (VA_int n # ap) = Some (char_of (unat (ucast n :: u8)), ap)"
| "char_arg _ = None"

fun string_arg :: "va list \<Rightarrow> (string option \<times> va list) option" where
  "string_arg (VA_string s # ap) = Some (s, ap)"
| "string_arg _ = None"

fun double_arg :: "va list \<Rightarrow> (c_real \<times> va list) option" where
  "double_arg (VA_double w # ap) = Some (double_of_bits w, ap)"
| "double_arg _ = None"

section \<open>Printing\<close>

definition prefix_0 :: "char \<Rightarrow> unity \<Rightarrow> unity" where
  "prefix_0 c u = UNITY_OUTPUT_CHAR c (UNITY_OUTPUT_CHAR (CHR ''0'') u)"

text \<open>The conversion named by the character \<open>c\<close>.\<close>

definition print_conversion ::
    "real_type \<Rightarrow> UnityLengthModifier \<Rightarrow> char \<Rightarrow> va list \<Rightarrow> unity \<Rightarrow> (va list \<times> unity) option" where
  "print_conversion d length_mod c ap u =
     (if c = CHR ''d'' \<or> c = CHR ''i'' then do {
        (number, ap) \<leftarrow> UNITY_EXTRACT_ARG True length_mod ap;
        Some (ap, UnityPrintNumber number u)
      }
      else if c = CHR ''f'' \<or> c = CHR ''g'' then do {
        (number, ap) \<leftarrow> double_arg ap;
        u \<leftarrow> UnityPrintFloat d (c_convert d number) u;
        Some (ap, u)
      }
      else if c = CHR ''u'' then do {
        (number, ap) \<leftarrow> UNITY_EXTRACT_ARG False length_mod ap;
        Some (ap, UnityPrintNumberUnsigned number u)
      }
      else if c = CHR ''b'' then do {
        (number, ap) \<leftarrow> UNITY_EXTRACT_ARG False length_mod ap;
        Some (ap, UnityPrintMask (0 - 1) number (prefix_0 (CHR ''b'') u))
      }
      else if c = CHR ''x'' \<or> c = CHR ''X'' then do {
        (number, ap) \<leftarrow> UNITY_EXTRACT_ARG False length_mod ap;
        Some (ap, UnityPrintNumberHex number (ucast UNITY_MAX_NIBBLES) (prefix_0 (CHR ''x'') u))
      }
      else if c = CHR ''p'' then do {
        (number, ap) \<leftarrow> pointer_arg ap;
        Some (ap, UnityPrintNumberHex number 16 (prefix_0 (CHR ''x'') u))
      }
      else if c = CHR ''c'' then do {
        (ch, ap) \<leftarrow> char_arg ap;
        Some (ap, UnityPrintChar ch u)
      }
      else if c = CHR ''s'' then do {
        (s, ap) \<leftarrow> string_arg ap;
        Some (ap, UnityPrint s u)
      }
      else if c = CHR ''%'' then Some (ap, UnityPrintChar c u)
      else Some (ap, UnityPrintChar c (UNITY_OUTPUT_CHAR (CHR ''%'') u)))"

text \<open>
  The step behind the conversion leaves the string when the conversion character was the
  terminating 0.
\<close>

function UnityPrintFVA_loop :: "real_type \<Rightarrow> string \<Rightarrow> va list \<Rightarrow> unity \<Rightarrow> (va list \<times> unity) option" where
  "UnityPrintFVA_loop d [] ap u = Some (ap, u)"
| "UnityPrintFVA_loop d (c # pch) ap u =
     (if c = CHR 0x00 then Some (ap, u)
      else if c = CHR ''%'' then
        (case UnityLengthModifierGet pch of (length_mod, n) \<Rightarrow>
           case print_conversion d length_mod (deref (drop n pch)) ap u of
             None \<Rightarrow> None
           | Some (ap, u) \<Rightarrow>
               if drop n pch = [] then None
               else UnityPrintFVA_loop d (tl (drop n pch)) ap u)
      else if c = CHR 0x0A then UnityPrintFVA_loop d pch ap (UNITY_PRINT_EOL u)
      else UnityPrintFVA_loop d pch ap (UnityPrintChar c u))"
  by pat_completeness auto
termination
  by (relation "measure (\<lambda>(d, s, ap, u). length s)") auto

definition UnityPrintFVA :: "real_type \<Rightarrow> string option \<Rightarrow> va list \<Rightarrow> unity \<Rightarrow> (va list \<times> unity) option" where
  "UnityPrintFVA d format ap u =
     (case format of None \<Rightarrow> Some (ap, u) | Some pch \<Rightarrow> UnityPrintFVA_loop d pch ap u)"

definition UnityPrintF :: "real_type \<Rightarrow> u64 \<Rightarrow> string option \<Rightarrow> va list \<Rightarrow> unity \<Rightarrow> unity option" where
  "UnityPrintF d line format ap u = do {
     let u = UnityTestResultsBegin (TestFile u) line u;
     let u = UnityPrintS ''INFO'' u;
     u \<leftarrow> (if format \<noteq> None then do {
              let u = UnityPrintS '': '' u;
              (ap, u) \<leftarrow> UnityPrintFVA d format ap u;
              Some u
            } else Some u);
     Some (UNITY_PRINT_EOL u)
   }"

end
