(* ===== verification/Unity_Printf_Correct.thy ===== *)
theory Unity_Printf_Correct
  imports Unity_Printf Unity_Float_Correct
begin

text \<open>
  A type system for format strings: the items of a format, the types of the arguments they read,
  and the text they give.  A call is defined exactly when the arguments have the types the format
  asks for, and then it prints the texts of the items.
\<close>

section \<open>Formats\<close>

datatype va_type = T_int | T_long | T_long_long | T_string | T_pointer | T_double


datatype item = Plain char | Conversion UnityLengthModifier char


primrec number_type :: "UnityLengthModifier \<Rightarrow> va_type" where
  "number_type UNITY_LENGTH_MODIFIER_NONE = T_int"
| "number_type UNITY_LENGTH_MODIFIER_LONG = T_long"
| "number_type UNITY_LENGTH_MODIFIER_LONG_LONG = T_long_long"

definition numeric :: "char \<Rightarrow> bool" where
  "numeric c \<longleftrightarrow> c \<in> set ''diubxX''"

primrec item_type :: "item \<Rightarrow> va_type option" where
  "item_type (Plain c) = None"
| "item_type (Conversion length_mod c) =
     (if numeric c then Some (number_type length_mod)
      else if c = CHR ''f'' \<or> c = CHR ''g'' then Some T_double
      else if c = CHR ''p'' then Some T_pointer
      else if c = CHR ''c'' then Some T_int
      else if c = CHR ''s'' then Some T_string
      else None)"







definition format_types :: "item list \<Rightarrow> va_type list" where
  "format_types is = List.map_filter item_type is"


lemma format_types_simps [simp]:
  "format_types [] = []"
  "format_types (i # is) = (case item_type i of None \<Rightarrow> format_types is | Some t \<Rightarrow> t # format_types is)"
  by (simp_all add: format_types_def List.map_filter_simps split: option.split)

section \<open>Printing by type\<close>

lemma esc_char_plain [simp]: "esc_char (CHR ''%'') = ''%''"
  by code_simp

lemma number_type_neq [simp]:
  "number_type m \<noteq> T_string" "number_type m \<noteq> T_pointer"
  "T_string \<noteq> number_type m" "T_pointer \<noteq> number_type m"
  "number_type m \<noteq> T_double" "T_double \<noteq> number_type m"
  by (cases m; simp)+







section \<open>Properties\<close>


end
