(* ===== verification/Unity_Details.thy ===== *)
theory Unity_Details
  imports Unity_Options
begin

text \<open>
  The detail stack of \<open>src/unity/unity.c\<close>, the configuration with \<open>UNITY_DETAIL_STACK_SIZE\<close> in place of
  the two detail slots.  That constant is the length of the two arrays of a \<open>detail_stack\<close>;
  \<open>UnityStrDetailLabels\<close> is the list \<open>labels\<close>, where \<open>None\<close> is the null pointer.  A value that is
  printed as a string is cast to a pointer: \<open>strs\<close> gives the string at an address, or \<open>None\<close> where there
  is none to read.  \<open>None\<close> or \<open>Undefined\<close> is a read outside the table of labels, through a null pointer,
  or through a value that points to no string.
\<close>

section \<open>State\<close>

record detail_stack =
  CurrentDetailStackLabels :: "u8 list"
  CurrentDetailStackValues :: "u64 list"
  CurrentDetailStackSize :: u64

definition UNITY_DETAIL_NONE :: u8 where "UNITY_DETAIL_NONE = 0"
definition UNITY_DETAIL_D1 :: u8 where "UNITY_DETAIL_D1 = 1"
definition UNITY_DETAIL_D2 :: u8 where "UNITY_DETAIL_D2 = 2"

definition UNITY_DETAIL_LABEL_NAMES :: "string option list" where
  "UNITY_DETAIL_LABEL_NAMES = [None, Some ''Function'', Some ''Argument'']"

definition UNITY_DETAIL_STACK_SIZE :: "detail_stack \<Rightarrow> nat" where
  "UNITY_DETAIL_STACK_SIZE d = length (CurrentDetailStackLabels d)"

definition UnityStrErrDetailStackEmpty :: string where
  "UnityStrErrDetailStackEmpty = '' Detail Stack Empty''"
definition UnityStrErrDetailStackFull :: string where
  "UnityStrErrDetailStackFull = '' Detail Stack Full''"
definition UnityStrErrDetailStackLabel :: string where
  "UnityStrErrDetailStackLabel = '' Detail Label Outside Of UNITY_DETAIL_LABEL_NAMES: ''"
definition UnityStrErrDetailStackPop :: string where
  "UnityStrErrDetailStackPop = '' Detail Pop With Unexpected Arguments''"

section \<open>Printing the stack\<close>

text \<open>A label that starts with \<open>#\<close> carries a display style; a \<open>char\<close> is widened with its sign.\<close>

definition print_detail ::
    "string option list \<Rightarrow> (addr \<Rightarrow> string option) \<Rightarrow> u8 \<Rightarrow> u64 \<Rightarrow> unity \<Rightarrow> unity option" where
  "print_detail labels strs l v u =
     (if \<not> unat l < length labels then None
      else case labels ! unat l of
        None \<Rightarrow> None
      | Some label \<Rightarrow>
          let u = UnityPrintS UnityStrSpacer u in
          if deref label = CHR ''#'' \<and> deref (tl label) \<noteq> CHR 0x00 then
            let u = UnityPrintS (drop 2 label) u;
                u = UNITY_OUTPUT_CHAR (CHR '' '') u;
                st = scast (char_byte (deref (tl label)))
            in Some (if st AND UNITY_DISPLAY_RANGE_INT = UNITY_DISPLAY_RANGE_INT
                     then UnityPrintIntNumberByStyle v st u
                     else UnityPrintUintNumberByStyle v st u)
          else if v \<noteq> 0 then
            let u = UnityPrintS label u;
                u = UNITY_OUTPUT_CHAR (CHR '' '') u
            in (case strs v of None \<Rightarrow> None | Some s \<Rightarrow> Some (UnityPrint (Some s) u))
          else Some u)"

function print_details_loop ::
    "string option list \<Rightarrow> (addr \<Rightarrow> string option) \<Rightarrow> detail_stack \<Rightarrow> nat \<Rightarrow> unity \<Rightarrow> unity option" where
  "print_details_loop labels strs d c u =
     (if c < unat (CurrentDetailStackSize d) \<and> c < UNITY_DETAIL_STACK_SIZE d then
        let l = CurrentDetailStackLabels d ! c in
        if l = UNITY_DETAIL_NONE \<or> unat l > length labels then Some u
        else do {
          u \<leftarrow> print_detail labels strs l (CurrentDetailStackValues d ! c) u;
          print_details_loop labels strs d (c + 1) u
        }
      else Some u)"
  by pat_completeness auto
termination
  by (relation "measure (\<lambda>(labels, strs, d, c, u). UNITY_DETAIL_STACK_SIZE d - c)") auto

declare print_details_loop.simps [simp del]

definition UnityAddMsgIfSpecified_stack ::
    "string option list \<Rightarrow> (addr \<Rightarrow> string option) \<Rightarrow> detail_stack \<Rightarrow> string option \<Rightarrow> unity \<Rightarrow> unity option" where
  "UnityAddMsgIfSpecified_stack labels strs d msg u = do {
     u \<leftarrow> print_details_loop labels strs d 0 u;
     Some (if msg \<noteq> None
           then let u = UnityPrintS UnityStrSpacer u in UnityPrint msg u
           else u)
   }"

section \<open>Push and pop\<close>

text \<open>The end of all error branches.\<close>

definition detail_error ::
    "string option list \<Rightarrow> (addr \<Rightarrow> string option) \<Rightarrow> detail_stack \<Rightarrow> unity \<Rightarrow> (detail_stack \<times> unity) outcome" where
  "detail_error labels strs d u =
     (case UnityAddMsgIfSpecified_stack labels strs d None u of
        None \<Rightarrow> Undefined
      | Some u \<Rightarrow> Jumps (d, u\<lparr>CurrentTestFailed := 1\<rparr>))"

definition UnityPushDetail ::
    "string option list \<Rightarrow> (addr \<Rightarrow> string option) \<Rightarrow> u8 \<Rightarrow> u64 \<Rightarrow> u64
     \<Rightarrow> detail_stack \<times> unity \<Rightarrow> (detail_stack \<times> unity) outcome" where
  "UnityPushDetail labels strs label value line = (\<lambda>(d, u).
     if unat (CurrentDetailStackSize d) \<ge> UNITY_DETAIL_STACK_SIZE d then
       let u = UnityTestResultsFailBegin line u;
           u = UnityPrintS UnityStrErrDetailStackFull u
       in detail_error labels strs d u
     else if unat label \<ge> length labels then
       let u = UnityTestResultsFailBegin line u;
           u = UnityPrintS UnityStrErrDetailStackLabel u;
           u = UnityPrintNumberUnsigned (ucast label) u
       in detail_error labels strs d u
     else let top = unat (CurrentDetailStackSize d) in
       Returns (d\<lparr>CurrentDetailStackLabels := (CurrentDetailStackLabels d)[top := label],
         CurrentDetailStackValues := (CurrentDetailStackValues d)[top := value],
         CurrentDetailStackSize := CurrentDetailStackSize d + 1\<rparr>, u))"

definition UnityPopDetail ::
    "string option list \<Rightarrow> (addr \<Rightarrow> string option) \<Rightarrow> u8 \<Rightarrow> u64 \<Rightarrow> u64
     \<Rightarrow> detail_stack \<times> unity \<Rightarrow> (detail_stack \<times> unity) outcome" where
  "UnityPopDetail labels strs label value line = (\<lambda>(d, u).
     let top = unat (CurrentDetailStackSize d - 1) in
     if CurrentDetailStackSize d = 0 then
       let u = UnityTestResultsFailBegin line u;
           u = UnityPrintS UnityStrErrDetailStackEmpty u
       in detail_error labels strs d u
     else if \<not> top < UNITY_DETAIL_STACK_SIZE d then Undefined
     else if CurrentDetailStackLabels d ! top \<noteq> label \<or> CurrentDetailStackValues d ! top \<noteq> value then
       let u = UnityTestResultsFailBegin line u;
           u = UnityPrintS UnityStrErrDetailStackPop u
       in detail_error labels strs d u
     else Returns (d\<lparr>CurrentDetailStackSize := CurrentDetailStackSize d - 1\<rparr>, u))"

section \<open>The macros for a function and its argument\<close>

definition drop_detail :: "u8 \<Rightarrow> detail_stack \<Rightarrow> detail_stack" where
  "drop_detail label d =
     (let top = unat (CurrentDetailStackSize d - 1) in
      if CurrentDetailStackSize d \<noteq> 0 \<and> CurrentDetailStackLabels d ! top = label
      then d\<lparr>CurrentDetailStackSize := CurrentDetailStackSize d - 1,
             CurrentDetailStackLabels := (CurrentDetailStackLabels d)[top := UNITY_DETAIL_NONE]\<rparr>
      else d)"

definition UNITY_CLR_DETAILS_stack :: "detail_stack \<Rightarrow> detail_stack" where
  "UNITY_CLR_DETAILS_stack d = drop_detail UNITY_DETAIL_D1 (drop_detail UNITY_DETAIL_D2 d)"

definition UNITY_SET_DETAIL_stack ::
    "string option list \<Rightarrow> (addr \<Rightarrow> string option) \<Rightarrow> u64 \<Rightarrow> u64
     \<Rightarrow> detail_stack \<times> unity \<Rightarrow> (detail_stack \<times> unity) outcome" where
  "UNITY_SET_DETAIL_stack labels strs d1 line = (\<lambda>(d, u).
     UnityPushDetail labels strs UNITY_DETAIL_D1 d1 line (UNITY_CLR_DETAILS_stack d, u))"

definition UNITY_SET_DETAILS_stack ::
    "string option list \<Rightarrow> (addr \<Rightarrow> string option) \<Rightarrow> u64 \<Rightarrow> u64 \<Rightarrow> u64
     \<Rightarrow> detail_stack \<times> unity \<Rightarrow> (detail_stack \<times> unity) outcome" where
  "UNITY_SET_DETAILS_stack labels strs d1 d2 line = (\<lambda>(d, u).
     and_then (UnityPushDetail labels strs UNITY_DETAIL_D1 d1 line (UNITY_CLR_DETAILS_stack d, u))
       (UnityPushDetail labels strs UNITY_DETAIL_D2 d2 line))"

end
