(* ===== verification/Unity_Details_Correct.thy ===== *)
theory Unity_Details_Correct
  imports Unity_Details
begin

text \<open>
  The detail stack is a stack: the entries in use are a list, and push, pop and the macros are its
  operations.  The two guards of \<open>UnityPushDetail\<close> keep every label inside the table; that a value
  printed as a string points to one is up to the caller, and \<open>stack_shown\<close> says when printing the
  stack in an error branch is defined.
\<close>

section \<open>The entries\<close>

definition details :: "detail_stack \<Rightarrow> (u8 \<times> u64) list" where
  "details d = take (unat (CurrentDetailStackSize d))
     (zip (CurrentDetailStackLabels d) (CurrentDetailStackValues d))"

definition details_ok :: "string option list \<Rightarrow> detail_stack \<Rightarrow> bool" where
  "details_ok labels d \<longleftrightarrow>
     length (CurrentDetailStackValues d) = UNITY_DETAIL_STACK_SIZE d
     \<and> unat (CurrentDetailStackSize d) \<le> UNITY_DETAIL_STACK_SIZE d
     \<and> UNITY_DETAIL_STACK_SIZE d < 2 ^ 64
     \<and> list_all (\<lambda>(l, v). unat l < length labels) (details d)"

lemma details_okD:
  assumes "details_ok labels d"
  shows "length (CurrentDetailStackValues d) = UNITY_DETAIL_STACK_SIZE d"
    and "length (details d) = unat (CurrentDetailStackSize d)"
    and "unat (CurrentDetailStackSize d) \<le> UNITY_DETAIL_STACK_SIZE d" and "UNITY_DETAIL_STACK_SIZE d < 2 ^ 64"
    and "c < unat (CurrentDetailStackSize d) \<Longrightarrow>
      details d ! c = (CurrentDetailStackLabels d ! c, CurrentDetailStackValues d ! c)"
    and "c < unat (CurrentDetailStackSize d) \<Longrightarrow> unat (CurrentDetailStackLabels d ! c) < length labels"
proof -
  note a = assms [unfolded details_ok_def]
  show "length (CurrentDetailStackValues d) = UNITY_DETAIL_STACK_SIZE d"
    and "unat (CurrentDetailStackSize d) \<le> UNITY_DETAIL_STACK_SIZE d" and "UNITY_DETAIL_STACK_SIZE d < 2 ^ 64"
    using a by simp_all
  show len: "length (details d) = unat (CurrentDetailStackSize d)"
    using a by (simp add: details_def UNITY_DETAIL_STACK_SIZE_def)
  show nth: "details d ! c = (CurrentDetailStackLabels d ! c, CurrentDetailStackValues d ! c)"
    if "c < unat (CurrentDetailStackSize d)" for c
    using a that by (simp add: details_def UNITY_DETAIL_STACK_SIZE_def)
  show "unat (CurrentDetailStackLabels d ! c) < length labels" if "c < unat (CurrentDetailStackSize d)"
    using a nth [OF that] that len by (auto simp: list_all_length)
qed

section \<open>Printing\<close>

definition styled_label :: "string \<Rightarrow> bool" where
  "styled_label label \<longleftrightarrow> deref label = CHR ''#'' \<and> deref (tl label) \<noteq> CHR 0x00"

text \<open>An entry can be printed: its label is not null, and a value printed as a string points to one.\<close>

definition entry_shown :: "string option list \<Rightarrow> (addr \<Rightarrow> string option) \<Rightarrow> u8 \<times> u64 \<Rightarrow> bool" where
  "entry_shown labels strs = (\<lambda>(l, v). case labels ! unat l of None \<Rightarrow> False
     | Some label \<Rightarrow> styled_label label \<or> v = 0 \<or> strs v \<noteq> None)"

definition detail_text :: "string option list \<Rightarrow> (addr \<Rightarrow> string option) \<Rightarrow> u8 \<times> u64 \<Rightarrow> string" where
  "detail_text labels strs = (\<lambda>(l, v). case labels ! unat l of None \<Rightarrow> [] | Some label \<Rightarrow>
     UnityStrSpacer @ (if styled_label label then
        (let st = scast (char_byte (deref (tl label))) in
         esc_string (c_string (drop 2 label)) @ '' '' @
         (if st AND UNITY_DISPLAY_RANGE_INT = UNITY_DISPLAY_RANGE_INT then int_text v st else uint_text v st))
      else if v \<noteq> 0 then esc_string (c_string label) @ '' '' @ opt_text (strs v)
      else []))"

lemma print_detail_run:
  assumes "unat l < length labels"
  shows "print_detail labels strs l v u =
    (if entry_shown labels strs (l, v) then Some (emit (detail_text labels strs (l, v)) u) else None)"
proof (cases "labels ! unat l")
  case None
  then show ?thesis using assms by (simp add: print_detail_def entry_shown_def)
next
  case (Some label)
  show ?thesis
  proof (cases "styled_label label")
    case True
    then show ?thesis
      using assms Some
      by (simp add: print_detail_def entry_shown_def detail_text_def styled_label_def
          UnityPrint_emits [of _ "emit _ _"] emits print_const(6) Let_def del: scast_id)
  next
    case False
    then show ?thesis
      using assms Some
      by (cases "strs v") (auto simp: print_detail_def entry_shown_def detail_text_def styled_label_def
          UnityPrint_emits [of _ "emit _ _"] emits print_const(6) Let_def simp del: scast_id)
  qed
qed

text \<open>The stack is printed up to an entry without a label.\<close>

definition labelled :: "(u8 \<times> u64) list \<Rightarrow> (u8 \<times> u64) list" where
  "labelled es = takeWhile (\<lambda>(l, v). l \<noteq> UNITY_DETAIL_NONE) es"

definition stack_shown :: "string option list \<Rightarrow> (addr \<Rightarrow> string option) \<Rightarrow> (u8 \<times> u64) list \<Rightarrow> bool" where
  "stack_shown labels strs es \<longleftrightarrow> list_all (entry_shown labels strs) (labelled es)"

definition stack_text :: "string option list \<Rightarrow> (addr \<Rightarrow> string option) \<Rightarrow> (u8 \<times> u64) list \<Rightarrow> string" where
  "stack_text labels strs es = concat (map (detail_text labels strs) (labelled es))"

lemma labelled_simps [simp]:
  "labelled [] = []"
  "labelled ((l, v) # es) = (if l = UNITY_DETAIL_NONE then [] else (l, v) # labelled es)"
  by (simp_all add: labelled_def)

lemma stack_simps [simp]:
  "stack_shown labels strs []" "stack_text labels strs [] = []"
  "stack_shown labels strs ((l, v) # es) \<longleftrightarrow>
     l = UNITY_DETAIL_NONE \<or> entry_shown labels strs (l, v) \<and> stack_shown labels strs es"
  "stack_text labels strs ((l, v) # es) =
     (if l = UNITY_DETAIL_NONE then [] else detail_text labels strs (l, v) @ stack_text labels strs es)"
  by (simp_all add: stack_shown_def stack_text_def)

lemma print_details_loop_run:
  assumes "details_ok labels d" and "c \<le> unat (CurrentDetailStackSize d)"
  shows "print_details_loop labels strs d c u =
    (if stack_shown labels strs (drop c (details d))
     then Some (emit (stack_text labels strs (drop c (details d))) u) else None)"
  using assms(2)
proof (induction "unat (CurrentDetailStackSize d) - c" arbitrary: c u)
  case 0
  then have "c = unat (CurrentDetailStackSize d)" by simp
  then show ?case
    using details_okD(2) [OF assms(1)] by (simp add: print_details_loop.simps)
next
  case (Suc k)
  then have c: "c < unat (CurrentDetailStackSize d)" by simp
  note ok = details_okD [OF assms(1)]
  let ?l = "CurrentDetailStackLabels d ! c" and ?v = "CurrentDetailStackValues d ! c"
  have in_stack: "c < UNITY_DETAIL_STACK_SIZE d" using c ok(3) by simp
  have rest: "drop c (details d) = (?l, ?v) # drop (Suc c) (details d)"
    using c ok(2,5) by (metis Cons_nth_drop_Suc)
  have IH: "print_details_loop labels strs d (Suc c) u' =
      (if stack_shown labels strs (drop (Suc c) (details d))
       then Some (emit (stack_text labels strs (drop (Suc c) (details d))) u') else None)" for u'
    using Suc.hyps(1) [of "Suc c"] Suc.hyps(2) c by simp
  show ?case
    using c in_stack rest ok(6) [OF c] IH
    by (simp add: print_details_loop.simps [of _ _ _ c] print_detail_run Let_def)
qed

lemma detail_error_run:
  assumes "details_ok labels d"
  shows "detail_error labels strs d u =
    (if stack_shown labels strs (details d) then Jumps (d, failed (stack_text labels strs (details d)) u)
     else Undefined)"
  using print_details_loop_run [OF assms, of 0]
  by (simp add: detail_error_def UnityAddMsgIfSpecified_stack_def failed_def)

section \<open>Operations\<close>

text \<open>An operation that is refused leaves the stack as it is: \<open>Inl\<close>.\<close>

definition push_entry :: "nat \<Rightarrow> nat \<Rightarrow> u8 \<times> u64 \<Rightarrow> (u8 \<times> u64) list \<Rightarrow> (u8 \<times> u64) list + (u8 \<times> u64) list" where
  "push_entry n m e es = (if length es < n \<and> unat (fst e) < m then Inr (es @ [e]) else Inl es)"

definition pop_entry :: "u8 \<times> u64 \<Rightarrow> (u8 \<times> u64) list \<Rightarrow> (u8 \<times> u64) list + (u8 \<times> u64) list" where
  "pop_entry e es = (if es \<noteq> [] \<and> last es = e then Inr (butlast es) else Inl es)"

definition and_next :: "'e + 'a \<Rightarrow> ('a \<Rightarrow> 'e + 'a) \<Rightarrow> 'e + 'a" where
  "and_next r f = (case r of Inl e \<Rightarrow> Inl e | Inr a \<Rightarrow> f a)"

lemma and_next_simps [simp]: "and_next (Inl e) f = Inl e" "and_next (Inr a) f = f a"
  by (simp_all add: and_next_def)

definition drop_entry :: "u8 \<Rightarrow> (u8 \<times> u64) list \<Rightarrow> (u8 \<times> u64) list" where
  "drop_entry l es = (if es \<noteq> [] \<and> fst (last es) = l then butlast es else es)"

definition clear_entries :: "(u8 \<times> u64) list \<Rightarrow> (u8 \<times> u64) list" where
  "clear_entries es = drop_entry UNITY_DETAIL_D1 (drop_entry UNITY_DETAIL_D2 es)"

text \<open>
  The call does what the operation on the list does, and fails the test when that is refused; it is
  undefined when it is refused on a stack that cannot be printed.
\<close>

definition implements ::
    "string option list \<Rightarrow> (addr \<Rightarrow> string option) \<Rightarrow> nat \<Rightarrow> unity \<Rightarrow> (detail_stack \<times> unity) outcome
     \<Rightarrow> (u8 \<times> u64) list + (u8 \<times> u64) list \<Rightarrow> bool" where
  "implements labels strs n u r a = (case r of
       Returns (d', u') \<Rightarrow> u' = u \<and> details_ok labels d' \<and> UNITY_DETAIL_STACK_SIZE d' = n \<and> a = Inr (details d')
     | Jumps (d', u') \<Rightarrow> (\<exists>s. u' = failed s u) \<and> details_ok labels d' \<and> UNITY_DETAIL_STACK_SIZE d' = n
         \<and> a = Inl (details d') \<and> stack_shown labels strs (details d')
     | Undefined \<Rightarrow> (\<exists>es. a = Inl es \<and> \<not> stack_shown labels strs es))"

lemma implements_simps [simp]:
  "implements labels strs n u (Returns (d', u')) a \<longleftrightarrow>
     u' = u \<and> details_ok labels d' \<and> UNITY_DETAIL_STACK_SIZE d' = n \<and> a = Inr (details d')"
  "implements labels strs n u (Jumps (d', u')) a \<longleftrightarrow>
     (\<exists>s. u' = failed s u) \<and> details_ok labels d' \<and> UNITY_DETAIL_STACK_SIZE d' = n
     \<and> a = Inl (details d') \<and> stack_shown labels strs (details d')"
  "implements labels strs n u Undefined a \<longleftrightarrow> (\<exists>es. a = Inl es \<and> \<not> stack_shown labels strs es)"
  by (simp_all add: implements_def)

lemma implements_then:
  assumes "implements labels strs n u r a"
    and "\<And>d. details_ok labels d \<Longrightarrow> UNITY_DETAIL_STACK_SIZE d = n \<Longrightarrow> implements labels strs n u (f (d, u)) (g (details d))"
  shows "implements labels strs n u (and_then r f) (and_next a g)"
  using assms by (cases r) auto

lemma err_emits [emits]:
  "UnityPrintS UnityStrErrDetailStackEmpty u = emit UnityStrErrDetailStackEmpty u"
  "UnityPrintS UnityStrErrDetailStackFull u = emit UnityStrErrDetailStackFull u"
  "UnityPrintS UnityStrErrDetailStackLabel u = emit UnityStrErrDetailStackLabel u"
  "UnityPrintS UnityStrErrDetailStackPop u = emit UnityStrErrDetailStackPop u"
  by (simp_all add: print_plain plain_def UnityStrErrDetailStackEmpty_def UnityStrErrDetailStackFull_def
      UnityStrErrDetailStackLabel_def UnityStrErrDetailStackPop_def)

lemma push_implements:
  assumes ok: "details_ok labels d"
  shows "implements labels strs (UNITY_DETAIL_STACK_SIZE d) u (UnityPushDetail labels strs l v line (d, u))
    (push_entry (UNITY_DETAIL_STACK_SIZE d) (length labels) (l, v) (details d))"
proof -
  note o = details_okD [OF ok]
  let ?n = "unat (CurrentDetailStackSize d)"
  consider "UNITY_DETAIL_STACK_SIZE d \<le> ?n" | "?n < UNITY_DETAIL_STACK_SIZE d" "length labels \<le> unat l"
    | "?n < UNITY_DETAIL_STACK_SIZE d" "unat l < length labels" by linarith
  then show ?thesis
  proof cases
    case 1
    then show ?thesis
      using o(2) ok by (auto simp: UnityPushDetail_def push_entry_def detail_error_run [OF ok] emits)
  next
    case 2
    then show ?thesis
      using o(2) ok by (auto simp: UnityPushDetail_def push_entry_def detail_error_run [OF ok] emits)
  next
    case 3
    let ?d = "d\<lparr>CurrentDetailStackLabels := (CurrentDetailStackLabels d)[?n := l],
        CurrentDetailStackValues := (CurrentDetailStackValues d)[?n := v],
        CurrentDetailStackSize := CurrentDetailStackSize d + 1\<rparr>"
    have run: "UnityPushDetail labels strs l v line (d, u) = Returns (?d, u)"
      using 3 by (simp add: UnityPushDetail_def Let_def)
    have sz: "UNITY_DETAIL_STACK_SIZE ?d = UNITY_DETAIL_STACK_SIZE d" by (simp add: UNITY_DETAIL_STACK_SIZE_def)
    have top: "unat (CurrentDetailStackSize d + 1) = ?n + 1"
      using 3(1) o(4) by (simp add: unat_word_ariths)
    have lens: "length (CurrentDetailStackLabels d) = UNITY_DETAIL_STACK_SIZE d"
      by (simp add: UNITY_DETAIL_STACK_SIZE_def)
    have es: "details ?d = details d @ [(l, v)]"
    proof (rule nth_equalityI)
      show "length (details ?d) = length (details d @ [(l, v)])"
        using 3(1) o(1,2) lens top by (simp add: details_def)
      show "details ?d ! c = (details d @ [(l, v)]) ! c" if "c < length (details ?d)" for c
        using that 3(1) o(1,2) o(5) [of c] lens top
        by (auto simp: details_def nth_append nth_list_update)
    qed
    have "details_ok labels ?d"
      using ok 3 top es sz by (simp add: details_ok_def)
    then show ?thesis
      using run sz es 3 o(2) by (simp add: push_entry_def)
  qed
qed

lemma details_shrink:
  assumes ok: "details_ok labels d" and ne: "CurrentDetailStackSize d \<noteq> 0"
    and d': "CurrentDetailStackSize d' = CurrentDetailStackSize d - 1"
      "take (unat (CurrentDetailStackSize d - 1)) (CurrentDetailStackLabels d')
        = take (unat (CurrentDetailStackSize d - 1)) (CurrentDetailStackLabels d)"
      "length (CurrentDetailStackLabels d') = length (CurrentDetailStackLabels d)"
      "CurrentDetailStackValues d' = CurrentDetailStackValues d"
  shows "details_ok labels d'" and "details d' = butlast (details d)"
    and "UNITY_DETAIL_STACK_SIZE d' = UNITY_DETAIL_STACK_SIZE d"
proof -
  note o = details_okD [OF ok]
  let ?n = "unat (CurrentDetailStackSize d)"
  have n: "unat (CurrentDetailStackSize d - 1) = ?n - 1"
    using ne by (metis unat_minus_one)
  show sz: "UNITY_DETAIL_STACK_SIZE d' = UNITY_DETAIL_STACK_SIZE d"
    using d'(3) by (simp add: UNITY_DETAIL_STACK_SIZE_def)
  have "details d' = take (?n - 1) (zip (CurrentDetailStackLabels d) (CurrentDetailStackValues d))"
    using d' by (simp add: details_def n take_zip)
  also have "\<dots> = butlast (details d)"
    using o(2) unfolding butlast_conv_take by (simp add: details_def)
  finally show es: "details d' = butlast (details d)" .
  have "list_all P (butlast xs)" if "list_all P xs" for P :: "u8 \<times> u64 \<Rightarrow> bool" and xs
    using that by (auto simp: list_all_iff dest: in_set_butlastD)
  then show "details_ok labels d'"
    using ok sz d' n es by (auto simp: details_ok_def)
qed

lemma last_details:
  assumes "details_ok labels d" and "CurrentDetailStackSize d \<noteq> 0"
  shows "details d \<noteq> []" and "unat (CurrentDetailStackSize d - 1) < UNITY_DETAIL_STACK_SIZE d"
    and "last (details d) = (CurrentDetailStackLabels d ! unat (CurrentDetailStackSize d - 1),
      CurrentDetailStackValues d ! unat (CurrentDetailStackSize d - 1))"
proof -
  note o = details_okD [OF assms(1)]
  have n: "unat (CurrentDetailStackSize d - 1) = unat (CurrentDetailStackSize d) - 1"
    using assms(2) by (metis unat_minus_one)
  have "0 < unat (CurrentDetailStackSize d)" using assms(2) by (simp add: unat_gt_0)
  then show "details d \<noteq> []" and "unat (CurrentDetailStackSize d - 1) < UNITY_DETAIL_STACK_SIZE d"
    using o(2,3) n by auto
  then show "last (details d) = (CurrentDetailStackLabels d ! unat (CurrentDetailStackSize d - 1),
      CurrentDetailStackValues d ! unat (CurrentDetailStackSize d - 1))"
    using o(2) o(5) [of "unat (CurrentDetailStackSize d) - 1"] n \<open>0 < _\<close> by (simp add: last_conv_nth)
qed

lemma empty_details: "details_ok labels d \<Longrightarrow> details d = [] \<longleftrightarrow> CurrentDetailStackSize d = 0"
  using details_okD(2) [of labels d] by (metis length_0_conv unat_eq_0)

lemma pop_implements:
  assumes ok: "details_ok labels d"
  shows "implements labels strs (UNITY_DETAIL_STACK_SIZE d) u (UnityPopDetail labels strs l v line (d, u))
    (pop_entry (l, v) (details d))"
proof (cases "CurrentDetailStackSize d = 0")
  case True
  then show ?thesis
    using ok empty_details [OF ok]
    by (auto simp: UnityPopDetail_def pop_entry_def detail_error_run [OF ok] emits)
next
  case False
  note la = last_details [OF ok False]
  let ?d = "d\<lparr>CurrentDetailStackSize := CurrentDetailStackSize d - 1\<rparr>"
  have sh: "details_ok labels ?d" "details ?d = butlast (details d)"
      "UNITY_DETAIL_STACK_SIZE ?d = UNITY_DETAIL_STACK_SIZE d"
    by (rule details_shrink [OF ok False]; simp)+
  show ?thesis
    using False la sh ok
    by (auto simp: UnityPopDetail_def pop_entry_def detail_error_run [OF ok] emits)
qed

lemma drop_detail_entry:
  assumes "details_ok labels d"
  shows "details_ok labels (drop_detail l d)" and "details (drop_detail l d) = drop_entry l (details d)"
    and "UNITY_DETAIL_STACK_SIZE (drop_detail l d) = UNITY_DETAIL_STACK_SIZE d"
proof -
  let ?top = "unat (CurrentDetailStackSize d - 1)"
  let ?d = "d\<lparr>CurrentDetailStackSize := CurrentDetailStackSize d - 1,
      CurrentDetailStackLabels := (CurrentDetailStackLabels d)[?top := UNITY_DETAIL_NONE]\<rparr>"
  consider "CurrentDetailStackSize d \<noteq> 0" "CurrentDetailStackLabels d ! ?top = l"
    | "\<not> (CurrentDetailStackSize d \<noteq> 0 \<and> CurrentDetailStackLabels d ! ?top = l)" by blast
  then have "details_ok labels (drop_detail l d) \<and> details (drop_detail l d) = drop_entry l (details d)
    \<and> UNITY_DETAIL_STACK_SIZE (drop_detail l d) = UNITY_DETAIL_STACK_SIZE d"
  proof cases
    case 1
    have "drop_detail l d = ?d" using 1 by (simp add: drop_detail_def)
    moreover have "details_ok labels ?d" "details ?d = butlast (details d)"
        "UNITY_DETAIL_STACK_SIZE ?d = UNITY_DETAIL_STACK_SIZE d"
      by (rule details_shrink [OF assms 1(1)]; simp)+
    ultimately show ?thesis
      using last_details [OF assms 1(1)] 1(2) by (simp add: drop_entry_def)
  next
    case 2
    then have "drop_detail l d = d" by (auto simp: drop_detail_def Let_def)
    moreover have "drop_entry l (details d) = details d"
      using 2 last_details [OF assms] empty_details [OF assms] by (auto simp: drop_entry_def)
    ultimately show ?thesis using assms by simp
  qed
  then show "details_ok labels (drop_detail l d)" and "details (drop_detail l d) = drop_entry l (details d)"
    and "UNITY_DETAIL_STACK_SIZE (drop_detail l d) = UNITY_DETAIL_STACK_SIZE d"
    by simp_all
qed

lemma clear_details:
  assumes "details_ok labels d"
  shows "details_ok labels (UNITY_CLR_DETAILS_stack d)"
    and "details (UNITY_CLR_DETAILS_stack d) = clear_entries (details d)"
    and "UNITY_DETAIL_STACK_SIZE (UNITY_CLR_DETAILS_stack d) = UNITY_DETAIL_STACK_SIZE d"
  using drop_detail_entry [OF assms, of UNITY_DETAIL_D2] drop_detail_entry [of labels "drop_detail UNITY_DETAIL_D2 d" UNITY_DETAIL_D1]
  by (simp_all add: UNITY_CLR_DETAILS_stack_def clear_entries_def)

section \<open>Sequences of operations\<close>

datatype detail_op =
    Push u8 u64 u64           \<comment> \<open>label, value, line\<close>
  | Pop u8 u64 u64
  | Clear
  | Set_Detail u64 u64
  | Set_Details u64 u64 u64

primrec run_detail ::
    "string option list \<Rightarrow> (addr \<Rightarrow> string option) \<Rightarrow> detail_op \<Rightarrow> detail_stack \<times> unity
     \<Rightarrow> (detail_stack \<times> unity) outcome" where
  "run_detail labels strs (Push l v line) s = UnityPushDetail labels strs l v line s"
| "run_detail labels strs (Pop l v line) s = UnityPopDetail labels strs l v line s"
| "run_detail labels strs Clear s = Returns (UNITY_CLR_DETAILS_stack (fst s), snd s)"
| "run_detail labels strs (Set_Detail v line) s = UNITY_SET_DETAIL_stack labels strs v line s"
| "run_detail labels strs (Set_Details v v' line) s = UNITY_SET_DETAILS_stack labels strs v v' line s"

primrec run_details ::
    "string option list \<Rightarrow> (addr \<Rightarrow> string option) \<Rightarrow> detail_op list \<Rightarrow> detail_stack \<times> unity
     \<Rightarrow> (detail_stack \<times> unity) outcome" where
  "run_details labels strs [] s = Returns s"
| "run_details labels strs (c # cs) s = and_then (run_detail labels strs c s) (run_details labels strs cs)"

primrec entries_op :: "nat \<Rightarrow> nat \<Rightarrow> detail_op \<Rightarrow> (u8 \<times> u64) list \<Rightarrow> (u8 \<times> u64) list + (u8 \<times> u64) list" where
  "entries_op n m (Push l v line) es = push_entry n m (l, v) es"
| "entries_op n m (Pop l v line) es = pop_entry (l, v) es"
| "entries_op n m Clear es = Inr (clear_entries es)"
| "entries_op n m (Set_Detail v line) es = push_entry n m (UNITY_DETAIL_D1, v) (clear_entries es)"
| "entries_op n m (Set_Details v v' line) es =
     and_next (push_entry n m (UNITY_DETAIL_D1, v) (clear_entries es)) (push_entry n m (UNITY_DETAIL_D2, v'))"

primrec entries_ops :: "nat \<Rightarrow> nat \<Rightarrow> detail_op list \<Rightarrow> (u8 \<times> u64) list \<Rightarrow> (u8 \<times> u64) list + (u8 \<times> u64) list" where
  "entries_ops n m [] es = Inr es"
| "entries_ops n m (c # cs) es = and_next (entries_op n m c es) (entries_ops n m cs)"

lemma run_detail_implements:
  assumes ok: "details_ok labels d" and n: "UNITY_DETAIL_STACK_SIZE d = n"
  shows "implements labels strs n u (run_detail labels strs c (d, u)) (entries_op n (length labels) c (details d))"
proof -
  note cl = clear_details [OF ok]
  have push: "implements labels strs n u (UnityPushDetail labels strs l v line (d, u)) (push_entry n (length labels) (l, v) (details d))"
    if "details_ok labels d" "UNITY_DETAIL_STACK_SIZE d = n" for d l v line
    using push_implements [OF that(1)] that(2) by simp
  have push_clear: "implements labels strs n u (UnityPushDetail labels strs l v line (UNITY_CLR_DETAILS_stack d, u))
      (push_entry n (length labels) (l, v) (clear_entries (details d)))" for l v line
    using push [OF cl(1)] cl(2,3) n by simp
  show ?thesis
  proof (cases c)
    case (Push l v line)
    then show ?thesis using push [OF ok n] by simp
  next
    case (Pop l v line)
    then show ?thesis using pop_implements [OF ok] n by simp
  next
    case Clear
    then show ?thesis using cl n by simp
  next
    case (Set_Detail v line)
    then show ?thesis using push_clear by (simp add: UNITY_SET_DETAIL_stack_def)
  next
    case (Set_Details v v' line)
    have "implements labels strs n u (and_then (UnityPushDetail labels strs UNITY_DETAIL_D1 v line (UNITY_CLR_DETAILS_stack d, u))
        (UnityPushDetail labels strs UNITY_DETAIL_D2 v' line))
      (and_next (push_entry n (length labels) (UNITY_DETAIL_D1, v) (clear_entries (details d)))
        (push_entry n (length labels) (UNITY_DETAIL_D2, v')))"
      by (intro implements_then push_clear push)
    then show ?thesis by (simp add: Set_Details UNITY_SET_DETAILS_stack_def)
  qed
qed

lemma run_details_implements:
  assumes "details_ok labels d" and "UNITY_DETAIL_STACK_SIZE d = n"
  shows "implements labels strs n u (run_details labels strs cs (d, u)) (entries_ops n (length labels) cs (details d))"
  using assms
proof (induction cs arbitrary: d)
  case (Cons c cs)
  show ?case
    unfolding run_details.simps entries_ops.simps
    by (intro implements_then run_detail_implements Cons)
qed simp

section \<open>Properties\<close>

text \<open>C34. The detail stack is a stack: a sequence of pushes, pops and detail macros returns exactly when
  the sequence on a list of entries is possible (no push onto a full stack or with a label outside the
  table, no pop of anything but the top entry), with that list in the array and nothing else changed.
  Otherwise the first refused operation marks the test as failed and leaves it, with the list of that
  moment, provided that list can be printed: no label is null, and each value that is printed as a
  string points to one.  If it cannot be printed, and only then, the sequence is undefined.\<close>

theorem unity_detail_stack_refines:
  assumes "details_ok labels d"
  shows "case run_details labels strs cs (d, u) of
      Returns (d', u') \<Rightarrow> u' = u \<and> details_ok labels d'
        \<and> entries_ops (UNITY_DETAIL_STACK_SIZE d) (length labels) cs (details d) = Inr (details d')
    | Jumps (d', u') \<Rightarrow> CurrentTestFailed u' = 1 \<and> details_ok labels d' \<and> stack_shown labels strs (details d')
        \<and> entries_ops (UNITY_DETAIL_STACK_SIZE d) (length labels) cs (details d) = Inl (details d')
    | Undefined \<Rightarrow> (\<exists>es. entries_ops (UNITY_DETAIL_STACK_SIZE d) (length labels) cs (details d) = Inl es
        \<and> \<not> stack_shown labels strs es)"
  using run_details_implements [OF assms refl, of strs u cs]
  by (auto simp: implements_def failed_def split: outcome.splits)

text \<open>The second pop is refused on an empty stack; with 5 as a value, which points to no string, the
  report of a refused pop is undefined.\<close>

theorem unity_detail_stack_refines_witness:
  "(case run_details UNITY_DETAIL_LABEL_NAMES (\<lambda>a. Some ''x'')
       [Set_Details 4096 8192 7, Set_Detail 4096 8, Pop 1 4096 9, Pop 1 4096 10]
       (\<lparr>CurrentDetailStackLabels = [0, 0], CurrentDetailStackValues = [0, 0], CurrentDetailStackSize = 0\<rparr>, fresh_unity) of
     Returns s \<Rightarrow> False | Jumps (d', u') \<Rightarrow> CurrentTestFailed u' = 1 | Undefined \<Rightarrow> False)
   \<and> run_details UNITY_DETAIL_LABEL_NAMES (\<lambda>a. None) [Push 1 5 7, Pop 2 5 8]
       (\<lparr>CurrentDetailStackLabels = [0, 0], CurrentDetailStackValues = [0, 0], CurrentDetailStackSize = 0\<rparr>, fresh_unity)
     = Undefined"
proof
  let ?d = "\<lparr>CurrentDetailStackLabels = [0, 0], CurrentDetailStackValues = [0, 0], CurrentDetailStackSize = 0\<rparr>"
  let ?cs = "[Set_Details 4096 8192 7, Set_Detail 4096 8, Pop 1 4096 9, Pop 1 4096 10]"
  have "details_ok UNITY_DETAIL_LABEL_NAMES ?d"
    by (simp add: details_ok_def details_def UNITY_DETAIL_STACK_SIZE_def)
  note t = unity_detail_stack_refines [OF this, where u = fresh_unity]
  have "entries_ops (UNITY_DETAIL_STACK_SIZE ?d) (length UNITY_DETAIL_LABEL_NAMES) ?cs (details ?d) = Inl []"
    by code_simp
  with t [where strs = "\<lambda>a. Some ''x''" and cs = ?cs]
  show "case run_details UNITY_DETAIL_LABEL_NAMES (\<lambda>a. Some ''x'') ?cs (?d, fresh_unity) of
      Returns s \<Rightarrow> False | Jumps (d', u') \<Rightarrow> CurrentTestFailed u' = 1 | Undefined \<Rightarrow> False"
    by (auto split: outcome.splits)
  have "entries_ops (UNITY_DETAIL_STACK_SIZE ?d) (length UNITY_DETAIL_LABEL_NAMES) [Push 1 5 7, Pop 2 5 8] (details ?d)
      = Inl [(1, 5)]" by code_simp
  moreover have "\<not> stack_shown UNITY_DETAIL_LABEL_NAMES (\<lambda>a. None) [(1, 5)]"
    by (simp add: entry_shown_def UNITY_DETAIL_LABEL_NAMES_def styled_label_def deref_def UNITY_DETAIL_NONE_def)
  ultimately show "run_details UNITY_DETAIL_LABEL_NAMES (\<lambda>a. None) [Push 1 5 7, Pop 2 5 8] (?d, fresh_unity) = Undefined"
    using t [where strs = "\<lambda>a. None" and cs = "[Push 1 5 7, Pop 2 5 8]"] by (auto simp del: run_details.simps entries_ops.simps stack_simps split: outcome.splits)
qed

end
