(* ===== verification/P2_Tests.thy ===== *)
theory P2_Tests
  imports P2malloc Unity_Control
begin

text \<open>
  test_p2malloc.c: the unit tests of the allocator as test functions of the framework.  The world of
  a test is the state of the allocator; a statement that has no defined outcome makes the test
  \<open>Undefined\<close>, an assertion that fails leaves it.
\<close>

section \<open>Statements of a test\<close>

type_synonym p2_test = "p2state test_function"

text \<open>A call with a result, a call or a write without one, a value read from the state.\<close>

definition calls :: "(p2state \<Rightarrow> ('a \<times> p2state) option) \<Rightarrow> ('a \<Rightarrow> p2_test) \<Rightarrow> p2_test" where
  "calls f k s = (case f (fst s) of None \<Rightarrow> Undefined | Some (r, st) \<Rightarrow> k r (st, snd s))"

definition does :: "(p2state \<Rightarrow> p2state option) \<Rightarrow> p2_test \<Rightarrow> p2_test" where
  "does f k s = (case f (fst s) of None \<Rightarrow> Undefined | Some st \<Rightarrow> k (st, snd s))"

definition reads :: "(p2state \<Rightarrow> 'a option) \<Rightarrow> ('a \<Rightarrow> p2_test) \<Rightarrow> p2_test" where
  "reads f k s = (case f (fst s) of None \<Rightarrow> Undefined | Some r \<Rightarrow> k r s)"

definition checks :: "(unity \<Rightarrow> unity outcome) \<Rightarrow> p2_test \<Rightarrow> p2_test" where
  "checks c k s = and_then (assert_here c s) k"

text \<open>A loop over the values of its counter, and what follows it.\<close>

primrec for_each :: "'a list \<Rightarrow> ('a \<Rightarrow> p2_test) \<Rightarrow> p2_test \<Rightarrow> p2_test" where
  "for_each [] body k s = k s"
| "for_each (i # is) body k s = and_then (body i s) (for_each is body k)"

definition asked :: "p2state \<Rightarrow> u64 option" where
  "asked st = Some (p2allocated st)"

definition claimed :: "p2state \<Rightarrow> u64 option" where
  "claimed st = Some (p2totmem st)"

definition fill_bytes :: "addr \<Rightarrow> u8 \<Rightarrow> nat \<Rightarrow> p2state \<Rightarrow> p2state option" where
  "fill_bytes p v n st = map_option (\<lambda>m. st\<lparr>mem := m\<rparr>) (memset (mem st) p v n)"

definition put_int :: "addr \<Rightarrow> u32 \<Rightarrow> p2state \<Rightarrow> p2state option" where
  "put_int p v st = map_option (\<lambda>m. st\<lparr>mem := m\<rparr>) (store32 (mem st) p v)"

definition get_int :: "addr \<Rightarrow> p2state \<Rightarrow> u32 option" where
  "get_int p st = load32 (mem st) p"

definition get_char :: "addr \<Rightarrow> p2state \<Rightarrow> u8 option" where
  "get_char p st = load8 (mem st) p"

definition setUp :: p2_test where
  "setUp = does p2reset Returns"

definition tearDown :: p2_test where
  "tearDown = Returns"

definition ASSERT_SZ_EQ :: "u64 \<Rightarrow> u64 \<Rightarrow> u64 \<Rightarrow> unity \<Rightarrow> unity outcome" where
  "ASSERT_SZ_EQ expected actual line = TEST_ASSERT_EQUAL_UINT64 expected actual line"

text \<open>\<open>__BIGGEST_ALIGNMENT__\<close> of the compiler, 16 as the tests say.\<close>

definition BIGGEST_ALIGNMENT :: u64 where
  "BIGGEST_ALIGNMENT = 16"

section \<open>Invalid inputs\<close>

definition test_malloc_zero_returns_null :: "os \<Rightarrow> p2_test" where
  "test_malloc_zero_returns_null os = calls (p2malloc os 0) (\<lambda>p. checks (TEST_ASSERT_NULL p 18) Returns)"

definition test_malloc_negative_size_is_zero_returns_null :: "os \<Rightarrow> p2_test" where
  "test_malloc_negative_size_is_zero_returns_null os =
     calls (p2malloc os (- 1)) (\<lambda>p. checks (TEST_ASSERT_NULL p 24) Returns)"

section \<open>Allocation tracking\<close>

definition test_initial_allocated_is_zero :: p2_test where
  "test_initial_allocated_is_zero = reads asked (\<lambda>n. checks (ASSERT_SZ_EQ 0 n 33) Returns)"

definition test_initial_totmem_is_zero :: p2_test where
  "test_initial_totmem_is_zero = reads claimed (\<lambda>n. checks (ASSERT_SZ_EQ 0 n 38) Returns)"

definition test_malloc_returns_nonnull :: "os \<Rightarrow> p2_test" where
  "test_malloc_returns_nonnull os =
     calls (p2malloc os 12) (\<lambda>p. checks (TEST_ASSERT_NOT_NULL p 43) Returns)"

definition test_malloc_tracks_allocated :: "os \<Rightarrow> p2_test" where
  "test_malloc_tracks_allocated os =
     calls (p2malloc os 12) (\<lambda>_.
     reads asked (\<lambda>n. checks (ASSERT_SZ_EQ 12 n 49) Returns))"

definition test_malloc_multiple_accumulates_allocated :: "os \<Rightarrow> p2_test" where
  "test_malloc_multiple_accumulates_allocated os =
     calls (p2malloc os 12) (\<lambda>_.
     calls (p2malloc os 12) (\<lambda>_.
     calls (p2malloc os 12) (\<lambda>_.
     reads asked (\<lambda>n. checks (ASSERT_SZ_EQ 36 n 57) Returns))))"

definition test_malloc_mixed_sizes_tracks_allocated :: "os \<Rightarrow> p2_test" where
  "test_malloc_mixed_sizes_tracks_allocated os =
     calls (p2malloc os 10) (\<lambda>_.
     calls (p2malloc os 50) (\<lambda>_.
     calls (p2malloc os 200) (\<lambda>_.
     reads asked (\<lambda>n. checks (ASSERT_SZ_EQ 260 n 65) Returns))))"

definition test_first_alloc_claims_one_page :: "os \<Rightarrow> p2_test" where
  "test_first_alloc_claims_one_page os =
     calls (p2malloc os 12) (\<lambda>_.
     reads claimed (\<lambda>n. checks (ASSERT_SZ_EQ 4096 n 71) Returns))"

definition test_same_bucket_allocs_share_page :: "os \<Rightarrow> p2_test" where
  "test_same_bucket_allocs_share_page os =
     for_each [0..<8] (\<lambda>i. calls (p2malloc os 12) (\<lambda>p. checks (TEST_ASSERT_NOT_NULL p 77) Returns))
     (reads claimed (\<lambda>n. checks (ASSERT_SZ_EQ 4096 n 78) Returns))"

definition test_overflow_claims_second_page :: "os \<Rightarrow> p2_test" where
  "test_overflow_claims_second_page os =
     for_each [0..<128] (\<lambda>i. calls (p2malloc os 12) (\<lambda>p. Returns))
     (reads claimed (\<lambda>n. checks (ASSERT_SZ_EQ 4096 n 85)
     (calls (p2malloc os 12) (\<lambda>_.
     reads claimed (\<lambda>n. checks (ASSERT_SZ_EQ 8192 n 87) Returns)))))"

definition test_different_buckets_use_separate_pages :: "os \<Rightarrow> p2_test" where
  "test_different_buckets_use_separate_pages os =
     calls (p2malloc os 16) (\<lambda>_.
     calls (p2malloc os 17) (\<lambda>_.
     reads claimed (\<lambda>n. checks (ASSERT_SZ_EQ 8192 n 94) Returns)))"

definition test_allocs_return_distinct_pointers :: "os \<Rightarrow> p2_test" where
  "test_allocs_return_distinct_pointers os =
     calls (p2malloc os 12) (\<lambda>a.
     calls (p2malloc os 12) (\<lambda>b.
     calls (p2malloc os 12) (\<lambda>c.
     checks (TEST_ASSERT_NOT_NULL a 102)
     (checks (TEST_ASSERT_NOT_NULL b 103)
     (checks (TEST_ASSERT_NOT_NULL c 104)
     (checks (TEST_ASSERT_TRUE (a \<noteq> b) 105)
     (checks (TEST_ASSERT_TRUE (b \<noteq> c) 106)
     (checks (TEST_ASSERT_TRUE (a \<noteq> c) 107) Returns))))))))"

section \<open>Alignment\<close>

definition test_returned_pointer_is_aligned :: "os \<Rightarrow> p2_test" where
  "test_returned_pointer_is_aligned os =
     for_each [1..<513] (\<lambda>sz. calls (p2malloc os (of_nat sz)) (\<lambda>p.
       checks (TEST_ASSERT_NOT_NULL p 119)
       (checks (TEST_ASSERT_EQUAL_INT 0 (ucast (p mod BIGGEST_ALIGNMENT)) 120) Returns)))
     Returns"

definition test_large_alloc_is_aligned :: "os \<Rightarrow> p2_test" where
  "test_large_alloc_is_aligned os =
     calls (p2malloc os 8000) (\<lambda>p.
     checks (TEST_ASSERT_NOT_NULL p 127)
     (checks (TEST_ASSERT_EQUAL_INT 0 (ucast (p mod BIGGEST_ALIGNMENT)) 128)
     (does (p2free p) Returns)))"

section \<open>Release\<close>

definition test_free_null_is_noop :: p2_test where
  "test_free_null_is_noop =
     does (p2free NULL)
     (reads asked (\<lambda>n. checks (ASSERT_SZ_EQ 0 n 140) Returns))"

definition test_free_decrements_allocated :: "os \<Rightarrow> p2_test" where
  "test_free_decrements_allocated os =
     calls (p2malloc os 12) (\<lambda>p.
     reads asked (\<lambda>n. checks (ASSERT_SZ_EQ 12 n 146)
     (does (p2free p)
     (reads asked (\<lambda>n. checks (ASSERT_SZ_EQ 0 n 148) Returns)))))"

definition test_free_all_returns_allocated_to_zero :: "os \<Rightarrow> p2_test" where
  "test_free_all_returns_allocated_to_zero os =
     calls (p2malloc os 10) (\<lambda>a.
     calls (p2malloc os 20) (\<lambda>b.
     calls (p2malloc os 30) (\<lambda>c.
     does (p2free a) (does (p2free b) (does (p2free c)
     (reads asked (\<lambda>n. checks (ASSERT_SZ_EQ 0 n 157) Returns)))))))"

definition test_free_zeroes_first_word_of_payload :: "os \<Rightarrow> p2_test" where
  "test_free_zeroes_first_word_of_payload os =
     calls (p2malloc os 12) (\<lambda>p.
     does (put_int p 0xDEADBEEF)
     (does (p2free p)
     (reads (get_int p) (\<lambda>v. checks (TEST_ASSERT_EQUAL_INT 0 v 165) Returns))))"

definition test_free_does_not_shrink_totmem :: "os \<Rightarrow> p2_test" where
  "test_free_does_not_shrink_totmem os =
     calls (p2malloc os 12) (\<lambda>p.
     reads claimed (\<lambda>before.
     does (p2free p)
     (reads claimed (\<lambda>n. checks (ASSERT_SZ_EQ before n 173) Returns))))"

text \<open>The array \<open>ptrs\<close> is the list of the pointers stored so far.\<close>

primrec malloc_array :: "os \<Rightarrow> nat \<Rightarrow> u64 \<Rightarrow> addr list \<Rightarrow> (addr list \<Rightarrow> p2_test) \<Rightarrow> p2_test" where
  "malloc_array os 0 sz ptrs k = k ptrs"
| "malloc_array os (Suc n) sz ptrs k =
     calls (p2malloc os sz) (\<lambda>p. malloc_array os n sz (ptrs @ [p]) k)"

definition test_freelist_reuse_avoids_new_page :: "os \<Rightarrow> p2_test" where
  "test_freelist_reuse_avoids_new_page os =
     malloc_array os 128 12 [] (\<lambda>ptrs.
     reads claimed (\<lambda>before.
     for_each [0..<128] (\<lambda>i. does (p2free (ptrs ! i)) Returns)
     (for_each [0..<128] (\<lambda>i. calls (p2malloc os 12) (\<lambda>p. checks (TEST_ASSERT_NOT_NULL p 186) Returns))
     (reads claimed (\<lambda>n. checks (ASSERT_SZ_EQ before n 187) Returns)))))"

section \<open>Blocks for each page\<close>

definition test_idx0_holds_128_blocks_per_page :: "os \<Rightarrow> p2_test" where
  "test_idx0_holds_128_blocks_per_page os =
     for_each [0..<128] (\<lambda>i. calls (p2malloc os 16) (\<lambda>p. checks (TEST_ASSERT_NOT_NULL p 200) Returns))
     (reads claimed (\<lambda>n. checks (ASSERT_SZ_EQ 4096 n 201)
     (calls (p2malloc os 16) (\<lambda>_.
     reads claimed (\<lambda>n. checks (ASSERT_SZ_EQ 8192 n 203) Returns)))))"

definition test_idx1_holds_64_blocks_per_page :: "os \<Rightarrow> p2_test" where
  "test_idx1_holds_64_blocks_per_page os =
     for_each [0..<64] (\<lambda>i. calls (p2malloc os 17) (\<lambda>p. checks (TEST_ASSERT_NOT_NULL p 209) Returns))
     (reads claimed (\<lambda>n. checks (ASSERT_SZ_EQ 4096 n 210)
     (calls (p2malloc os 17) (\<lambda>_.
     reads claimed (\<lambda>n. checks (ASSERT_SZ_EQ 8192 n 212) Returns)))))"

definition test_idx7_holds_1_block_per_page :: "os \<Rightarrow> p2_test" where
  "test_idx7_holds_1_block_per_page os =
     calls (p2malloc os P2_SLAB_MAX) (\<lambda>p. checks (TEST_ASSERT_NOT_NULL p 219)
     (reads claimed (\<lambda>n. checks (ASSERT_SZ_EQ 4096 n 220)
     (calls (p2malloc os P2_SLAB_MAX) (\<lambda>p. checks (TEST_ASSERT_NOT_NULL p 221)
     (reads claimed (\<lambda>n. checks (ASSERT_SZ_EQ 8192 n 222) Returns)))))))"

section \<open>Large blocks\<close>

definition test_large_alloc_succeeds :: "os \<Rightarrow> p2_test" where
  "test_large_alloc_succeeds os =
     calls (p2malloc os (P2_SLAB_MAX + 1)) (\<lambda>p.
     checks (TEST_ASSERT_NOT_NULL p 232)
     (does (p2free p) Returns))"

definition test_large_alloc_tracks_allocated :: "os \<Rightarrow> p2_test" where
  "test_large_alloc_tracks_allocated os =
     (let sz = P2_SLAB_MAX + 100 in
     calls (p2malloc os sz) (\<lambda>_.
     reads asked (\<lambda>n. checks (ASSERT_SZ_EQ sz n 240) Returns)))"

definition test_large_alloc_free_recovers_allocated_and_totmem :: "os \<Rightarrow> p2_test" where
  "test_large_alloc_free_recovers_allocated_and_totmem os =
     (let sz = P2_SLAB_MAX + 100 in
     calls (p2malloc os sz) (\<lambda>p.
     reads claimed (\<lambda>before. checks (TEST_ASSERT_TRUE (before > 0) 248)
     (does (p2free p)
     (reads asked (\<lambda>n. checks (ASSERT_SZ_EQ 0 n 250)
     (reads claimed (\<lambda>n. checks (ASSERT_SZ_EQ 0 n 252) Returns))))))))"

definition test_large_alloc_is_readable_and_writable :: "os \<Rightarrow> p2_test" where
  "test_large_alloc_is_readable_and_writable os =
     (let sz = 1024 * 1024 in
     calls (p2malloc os sz) (\<lambda>p.
     checks (TEST_ASSERT_NOT_NULL p 259)
     (does (fill_bytes p 0xAB (unat sz))
     (reads (get_char p) (\<lambda>c. checks (TEST_ASSERT_EQUAL_HEX8 0xAB c 261)
     (reads (get_char (p + (sz - 1))) (\<lambda>c. checks (TEST_ASSERT_EQUAL_HEX8 0xAB c 262)
     (does (p2free p) Returns))))))))"

section \<open>p2calloc\<close>

definition test_calloc_returns_nonnull :: "os \<Rightarrow> p2_test" where
  "test_calloc_returns_nonnull os =
     calls (p2calloc os 4 8) (\<lambda>p. checks (TEST_ASSERT_NOT_NULL p 272) Returns)"

definition test_calloc_zeroes_memory :: "os \<Rightarrow> p2_test" where
  "test_calloc_zeroes_memory os =
     calls (p2calloc os 16 4) (\<lambda>p.
     checks (TEST_ASSERT_NOT_NULL p 278)
     (for_each [0..<16] (\<lambda>i.
       reads (get_int (p + 4 * of_nat i)) (\<lambda>v. checks (TEST_ASSERT_EQUAL_INT 0 v 280) Returns))
     Returns))"

definition test_calloc_zero_count_returns_null :: "os \<Rightarrow> p2_test" where
  "test_calloc_zero_count_returns_null os =
     calls (p2calloc os 0 8) (\<lambda>p. checks (TEST_ASSERT_NULL p 285) Returns)"

definition test_calloc_zero_size_returns_null :: "os \<Rightarrow> p2_test" where
  "test_calloc_zero_size_returns_null os =
     calls (p2calloc os 4 0) (\<lambda>p. checks (TEST_ASSERT_NULL p 290) Returns)"

definition test_calloc_overflow_returns_null :: "os \<Rightarrow> p2_test" where
  "test_calloc_overflow_returns_null os =
     calls (p2calloc os (- 1) 2) (\<lambda>p. checks (TEST_ASSERT_NULL p 296) Returns)"

section \<open>p2realloc\<close>

definition test_realloc_null_ptr_acts_as_malloc :: "os \<Rightarrow> p2_test" where
  "test_realloc_null_ptr_acts_as_malloc os =
     calls (p2realloc os NULL 32) (\<lambda>p. checks (TEST_ASSERT_NOT_NULL p 306) Returns)"

definition test_realloc_zero_size_acts_as_free :: "os \<Rightarrow> p2_test" where
  "test_realloc_zero_size_acts_as_free os =
     calls (p2malloc os 32) (\<lambda>p.
     calls (p2realloc os p 0) (\<lambda>_.
     reads asked (\<lambda>n. checks (ASSERT_SZ_EQ 0 n 313) Returns)))"

definition test_realloc_same_bucket_returns_same_ptr :: "os \<Rightarrow> p2_test" where
  "test_realloc_same_bucket_returns_same_ptr os =
     calls (p2malloc os 12) (\<lambda>a.
     calls (p2realloc os a 16) (\<lambda>b.
     checks (TEST_ASSERT_EQUAL_PTR a b 321)
     (reads asked (\<lambda>n. checks (ASSERT_SZ_EQ 16 n 322) Returns))))"

definition test_realloc_larger_bucket_copies_data :: "os \<Rightarrow> p2_test" where
  "test_realloc_larger_bucket_copies_data os =
     calls (p2malloc os 10) (\<lambda>p.
     does (fill_bytes p 88 10)
     (calls (p2realloc os p 100) (\<lambda>q.
     checks (TEST_ASSERT_NOT_NULL q 330)
     (for_each [0..<10] (\<lambda>i.
       reads (get_char (q + of_nat i)) (\<lambda>c. checks (TEST_ASSERT_EQUAL_HEX8 88 c 333) Returns))
     Returns))))"

definition test_realloc_smaller_bucket_copies_data :: "os \<Rightarrow> p2_test" where
  "test_realloc_smaller_bucket_copies_data os =
     calls (p2malloc os 200) (\<lambda>p.
     does (fill_bytes p 89 200)
     (calls (p2realloc os p 10) (\<lambda>q.
     checks (TEST_ASSERT_NOT_NULL q 341)
     (for_each [0..<10] (\<lambda>i.
       reads (get_char (q + of_nat i)) (\<lambda>c. checks (TEST_ASSERT_EQUAL_HEX8 89 c 343) Returns))
     Returns))))"

section \<open>The test program\<close>

text \<open>The calls of \<open>RUN_TEST\<close> of \<open>main\<close> in their order, each with the line it is on.\<close>

definition unit_tests :: "os \<Rightarrow> p2state test list" where
  "unit_tests os =
     [(test_malloc_zero_returns_null os, ''test_malloc_zero_returns_null'', 352),
      (test_malloc_negative_size_is_zero_returns_null os,
        ''test_malloc_negative_size_is_zero_returns_null'', 353),
      (test_initial_allocated_is_zero, ''test_initial_allocated_is_zero'', 355),
      (test_initial_totmem_is_zero, ''test_initial_totmem_is_zero'', 356),
      (test_malloc_returns_nonnull os, ''test_malloc_returns_nonnull'', 357),
      (test_malloc_tracks_allocated os, ''test_malloc_tracks_allocated'', 358),
      (test_malloc_multiple_accumulates_allocated os,
        ''test_malloc_multiple_accumulates_allocated'', 359),
      (test_malloc_mixed_sizes_tracks_allocated os, ''test_malloc_mixed_sizes_tracks_allocated'', 360),
      (test_first_alloc_claims_one_page os, ''test_first_alloc_claims_one_page'', 361),
      (test_same_bucket_allocs_share_page os, ''test_same_bucket_allocs_share_page'', 362),
      (test_overflow_claims_second_page os, ''test_overflow_claims_second_page'', 363),
      (test_different_buckets_use_separate_pages os, ''test_different_buckets_use_separate_pages'', 364),
      (test_allocs_return_distinct_pointers os, ''test_allocs_return_distinct_pointers'', 365),
      (test_returned_pointer_is_aligned os, ''test_returned_pointer_is_aligned'', 367),
      (test_large_alloc_is_aligned os, ''test_large_alloc_is_aligned'', 368),
      (test_free_null_is_noop, ''test_free_null_is_noop'', 370),
      (test_free_decrements_allocated os, ''test_free_decrements_allocated'', 371),
      (test_free_all_returns_allocated_to_zero os, ''test_free_all_returns_allocated_to_zero'', 372),
      (test_free_zeroes_first_word_of_payload os, ''test_free_zeroes_first_word_of_payload'', 373),
      (test_free_does_not_shrink_totmem os, ''test_free_does_not_shrink_totmem'', 374),
      (test_freelist_reuse_avoids_new_page os, ''test_freelist_reuse_avoids_new_page'', 376),
      (test_idx0_holds_128_blocks_per_page os, ''test_idx0_holds_128_blocks_per_page'', 378),
      (test_idx1_holds_64_blocks_per_page os, ''test_idx1_holds_64_blocks_per_page'', 379),
      (test_idx7_holds_1_block_per_page os, ''test_idx7_holds_1_block_per_page'', 380),
      (test_large_alloc_succeeds os, ''test_large_alloc_succeeds'', 382),
      (test_large_alloc_tracks_allocated os, ''test_large_alloc_tracks_allocated'', 383),
      (test_large_alloc_free_recovers_allocated_and_totmem os,
        ''test_large_alloc_free_recovers_allocated_and_totmem'', 384),
      (test_large_alloc_is_readable_and_writable os, ''test_large_alloc_is_readable_and_writable'', 385),
      (test_calloc_returns_nonnull os, ''test_calloc_returns_nonnull'', 387),
      (test_calloc_zeroes_memory os, ''test_calloc_zeroes_memory'', 388),
      (test_calloc_zero_count_returns_null os, ''test_calloc_zero_count_returns_null'', 389),
      (test_calloc_zero_size_returns_null os, ''test_calloc_zero_size_returns_null'', 390),
      (test_calloc_overflow_returns_null os, ''test_calloc_overflow_returns_null'', 391),
      (test_realloc_null_ptr_acts_as_malloc os, ''test_realloc_null_ptr_acts_as_malloc'', 393),
      (test_realloc_zero_size_acts_as_free os, ''test_realloc_zero_size_acts_as_free'', 394),
      (test_realloc_same_bucket_returns_same_ptr os, ''test_realloc_same_bucket_returns_same_ptr'', 395),
      (test_realloc_larger_bucket_copies_data os, ''test_realloc_larger_bucket_copies_data'', 396),
      (test_realloc_smaller_bucket_copies_data os, ''test_realloc_smaller_bucket_copies_data'', 397)]"

text \<open>
  \<open>run_tests\<close> expands \<open>RUN_TEST\<close> for each.  The value is the exit status; \<open>file\<close> is \<open>__FILE__\<close>.
\<close>

definition test_main :: "os \<Rightarrow> string option \<Rightarrow> p2state \<times> unity \<Rightarrow> (u32 \<times> p2state \<times> unity) option" where
  "test_main os file s = do {
     s \<leftarrow> run_tests setUp tearDown (unit_tests os) (fst s, UnityBegin file (snd s));
     let (r, u) = UnityEnd (snd s);
     Some (r, fst s, u)
   }"

end
