(* ===== verification/P2_Tests_Steps.thy ===== *)
theory P2_Tests_Steps
  imports P2_Tests P2_Main_Correct
begin

text \<open>
  What the statements of a unit test do, as rules for total correctness: \<open>runs_to P f Q\<close> says that from
  a state of the allocator with \<open>P\<close> the statement \<open>f\<close> ends in one with \<open>Q\<close> and leaves the framework as it
  is.  The states are described by \<open>stands\<close>: how many mappings the kernel still serves, the lengths of
  the free lists, the bytes claimed, and the blocks handed out with their sizes.
\<close>

section \<open>Statements that run\<close>

definition runs_to :: "(p2state \<Rightarrow> bool) \<Rightarrow> p2_test \<Rightarrow> (p2state \<Rightarrow> bool) \<Rightarrow> bool" where
  "runs_to P f Q \<longleftrightarrow>
     (\<forall>st u. P st \<longrightarrow> idle u \<longrightarrow> (\<exists>st'. f (st, u) = Returns (st', u) \<and> Q st'))"

lemma runs_toD:
  assumes "runs_to P f Q" and "P st" and "idle u"
  obtains st' where "f (st, u) = Returns (st', u)" and "Q st'"
  using assms unfolding runs_to_def by blast

lemma runs_Returns: "(\<And>st. P st \<Longrightarrow> Q st) \<Longrightarrow> runs_to P Returns Q"
  by (simp add: runs_to_def)

lemma runs_calls:
  assumes "\<And>st. P st \<Longrightarrow> \<exists>r st'. f st = Some (r, st') \<and> A r \<and> R r st'"
    and "\<And>r. A r \<Longrightarrow> runs_to (R r) (k r) Q"
  shows "runs_to P (calls f k) Q"
  unfolding runs_to_def
proof (intro allI impI)
  fix st u assume "P st" and u: "idle u"
  then obtain r st1 where "f st = Some (r, st1)" "A r" "R r st1" using assms(1) by blast
  then show "\<exists>st'. calls f k (st, u) = Returns (st', u) \<and> Q st'"
    using runs_toD [OF assms(2), of r st1 u] u by (auto simp: calls_def)
qed

lemma runs_does:
  assumes "\<And>st. P st \<Longrightarrow> \<exists>st'. f st = Some st' \<and> R st'" and "runs_to R k Q"
  shows "runs_to P (does f k) Q"
  unfolding runs_to_def
proof (intro allI impI)
  fix st u assume "P st" and u: "idle u"
  then obtain st1 where "f st = Some st1" "R st1" using assms(1) by blast
  then show "\<exists>st'. does f k (st, u) = Returns (st', u) \<and> Q st'"
    using runs_toD [OF assms(2), of st1 u] u by (auto simp: does_def)
qed

lemma runs_reads:
  assumes "\<And>st. P st \<Longrightarrow> f st = Some v" and "runs_to P (k v) Q"
  shows "runs_to P (reads f k) Q"
  using assms by (auto simp: runs_to_def reads_def)

lemma runs_weak: "runs_to P f Q \<Longrightarrow> (\<And>st. P' st \<Longrightarrow> P st) \<Longrightarrow> runs_to P' f Q"
  by (auto simp: runs_to_def)

text \<open>An assertion whose condition holds.\<close>

definition quiet :: "(unity \<Rightarrow> unity outcome) \<Rightarrow> bool" where
  "quiet c \<longleftrightarrow> (\<forall>u. idle u \<longrightarrow> c u = Returns u)"

lemma runs_checks: "quiet c \<Longrightarrow> runs_to P k Q \<Longrightarrow> runs_to P (checks c k) Q"
  by (simp add: runs_to_def checks_def assert_here_def quiet_def)

lemma quiet_holds: "unity_assertion True h c \<Longrightarrow> h \<Longrightarrow> quiet c"
  unfolding quiet_def using unity_assertion.passes [of True h c] by blast

lemma quiet_intros [simp]:
  "p = NULL \<Longrightarrow> quiet (TEST_ASSERT_NULL p l)"
  "p \<noteq> NULL \<Longrightarrow> quiet (TEST_ASSERT_NOT_NULL p l)"
  "b \<Longrightarrow> quiet (TEST_ASSERT_TRUE b l)"
  "m = n \<Longrightarrow> quiet (ASSERT_SZ_EQ m n l)"
  "v = w \<Longrightarrow> quiet (TEST_ASSERT_EQUAL_INT v w l)"
  "c = d \<Longrightarrow> quiet (TEST_ASSERT_EQUAL_HEX8 c d l)"
  "p = q \<Longrightarrow> quiet (TEST_ASSERT_EQUAL_PTR p q l)"
  by (simp_all add: quiet_def TEST_ASSERT_NULL_def TEST_ASSERT_NOT_NULL_def TEST_ASSERT_TRUE_def
      UNITY_TEST_ASSERT_def ASSERT_SZ_EQ_def assert_equal_uint64.passes assert_equal_int.passes
      assert_equal_hex8.passes assert_equal_ptr.passes)

lemma runs_for_each:
  assumes "\<And>j. j < length is \<Longrightarrow> runs_to (P j) (body (is ! j)) (P (Suc j))"
    and "runs_to (P (length is)) k Q"
  shows "runs_to (P 0) (for_each is body k) Q"
  using assms
proof (induction "is" arbitrary: P)
  case Nil
  then show ?case by (simp add: runs_to_def)
next
  case (Cons i "is")
  have "runs_to (P (Suc 0)) (for_each is body k) Q"
  proof (rule Cons.IH [of "\<lambda>j. P (Suc j)"])
    show "runs_to (P (Suc j)) (body (is ! j)) (P (Suc (Suc j)))" if "j < length is" for j
      using Cons.prems(1) [of "Suc j"] that by simp
    show "runs_to (P (Suc (length is))) k Q" using Cons.prems(2) by simp
  qed
  moreover have "runs_to (P 0) (body i) (P (Suc 0))" using Cons.prems(1) [of 0] by simp
  ultimately show ?case unfolding runs_to_def by (metis and_then.simps(1) for_each.simps(2))
qed

section \<open>States of the allocator between the calls of a test\<close>

text \<open>
  A kernel that can serve requests of up to two megabytes and gets back what is unmapped; the lengths
  of the free lists, the bytes claimed from it, and the blocks handed out with their sizes.
\<close>

definition serves :: "os \<Rightarrow> (nat \<Rightarrow> (addr \<times> nat) list \<Rightarrow> bool) \<Rightarrow> bool" where
  "serves os room \<longleftrightarrow> kernel_ok os \<and> grants_upto 2097152 os room
     \<and> (\<forall>k r rs. room k rs \<longrightarrow> room k (remove1 r rs))"

definition block :: "addr \<times> u64 \<Rightarrow> allocation" where
  "block = (\<lambda>(p, sz). (p - 16, sz, alloc_size_of sz))"

definition stands :: "os \<Rightarrow> (nat \<Rightarrow> (addr \<times> nat) list \<Rightarrow> bool) \<Rightarrow> nat \<Rightarrow> nat list \<Rightarrow> nat
    \<Rightarrow> (addr \<times> u64) multiset \<Rightarrow> p2state \<Rightarrow> bool" where
  "stands os room n fl tot bs st \<longleftrightarrow> serves os room \<and> room n (regions (mem st))
     \<and> (\<exists>g. p2_rel st g \<and> map length (a_free g) = fl \<and> total (owned g) = tot
          \<and> a_live g = image_mset block bs)"

definition leaves :: "(nat \<Rightarrow> (addr \<times> nat) list \<Rightarrow> bool) \<Rightarrow> nat \<Rightarrow> p2state \<Rightarrow> bool" where
  "leaves room k st \<longleftrightarrow> (\<exists>g. p2_inv st g) \<and> room k (regions (mem st))"

lemma stands_leaves: "stands os room (n + k) fl tot bs st \<Longrightarrow> leaves room k st"
  using grants_upto_mono [of 2097152 os room n k] by (auto simp: stands_def leaves_def serves_def p2_inv_def)

lemma requested_blocks: "requested (image_mset block bs) = (\<Sum>(p, sz) \<in># bs. unat sz)"
  by (induction bs) (auto simp: block_def)

lemma stands_counters:
  assumes "stands os room n fl tot bs st"
  shows "asked st = Some (of_nat (\<Sum>(p, sz) \<in># bs. unat sz))" and "claimed st = Some (of_nat tot)"
  using assms p2_relD(4,5) by (auto simp: stands_def asked_def claimed_def p2allocated_def
      p2totmem_def requested_blocks)

lemma alloc_live: "(p, sz) \<in># bs \<Longrightarrow> (p - 16, sz, alloc_size_of sz) \<in># image_mset block bs"
  by (force simp: block_def)

lemma stands_aligned:
  assumes "stands os room n fl tot bs st" and "(p, sz) \<in># bs"
  shows "p mod BIGGEST_ALIGNMENT = 0"
proof -
  obtain g where "p2_rel st g" "a_live g = image_mset block bs" using assms(1) by (auto simp: stands_def)
  then have "16 dvd unat p" using live_ptr(9) [of st g "p - 16" sz] alloc_live [OF assms(2)] by simp
  then show ?thesis by (simp add: BIGGEST_ALIGNMENT_def word_unat_eq_iff unat_mod)
qed

section \<open>Allocation\<close>

definition slab_size :: "nat \<Rightarrow> u64 \<Rightarrow> bool" where
  "slab_size i sz \<longleftrightarrow> get_freelist_idx sz = int i \<and> i < 8 \<and> sz \<noteq> 0 \<and> unat sz \<le> 4080"

lemma slab_size_idx: "sz \<noteq> 0 \<Longrightarrow> unat sz \<le> 4080 \<Longrightarrow> \<exists>i. slab_size i sz"
  using idx_slab [of sz] by (auto simp: slab_size_def)

lemma slab_alloc_size: "slab_size i sz \<Longrightarrow> alloc_size_of sz = 0"
  by (simp add: slab_size_def alloc_size_of_def word_less_nat_alt)

lemma a_malloc_page:
  assumes "slab_size i sz" and "length (a_free g) = 8" and "a_free g ! i = []"
    and "a_malloc ans sz g = (h + 16, g')" and "h + 16 \<noteq> NULL"
  shows "map length (a_free g') = (map length (a_free g))[i := 4096 div block_size i - 1]"
    and "total (owned g') = total (owned g) + 4096"
proof -
  note sz = assms(1) [unfolded slab_size_def]
  obtain p where g': "g' = a_take (a_refill g i p) i sz"
    using assms(3-5) sz by (auto simp: a_malloc_def a_malloc_slab_def word_less_nat_alt split: option.splits if_splits)
  have i: "i < length (a_free g)" using sz assms(2) by simp
  show "map length (a_free g') = (map length (a_free g))[i := 4096 div block_size i - 1]"
    using i by (simp add: g' map_update)
  have "owned g' = owned (a_refill g i p)"
    unfolding g' using sz i assms(2) page_not_empty by (intro extents_take(2)) simp_all
  also have "total \<dots> = total (owned g) + 4096"
    using extents_refill(2) [of i g p] sz assms(2,3) by (simp add: blocks_per_page)
  finally show "total (owned g') = total (owned g) + 4096" .
qed

lemma a_malloc_free:
  assumes "slab_size i sz" and "length (a_free g) = 8" and "a_free g ! i \<noteq> []"
    and "a_malloc ans sz g = (h + 16, g')"
  shows "map length (a_free g') = (map length (a_free g))[i := length (a_free g ! i) - 1]"
    and "total (owned g') = total (owned g)"
proof -
  note sz = assms(1) [unfolded slab_size_def]
  have g': "g' = a_take g i sz"
    using assms(3,4) sz by (auto simp: a_malloc_def a_malloc_slab_def word_less_nat_alt split: if_splits)
  have i: "i < length (a_free g)" using sz assms(2) by simp
  show "map length (a_free g') = (map length (a_free g))[i := length (a_free g ! i) - 1]"
    using i by (simp add: g' map_update)
  show "total (owned g') = total (owned g)"
    unfolding g' using sz assms(2,3) by (subst extents_take(2)) simp_all
qed

text \<open>One call of \<open>p2malloc\<close> for a slab block, with the page it may take.\<close>

lemma stands_malloc:
  assumes s: "stands os room n fl tot bs st" and sz: "slab_size i sz"
    and n: "fl ! i = 0 \<Longrightarrow> 0 < n"
  obtains p st' where "p2malloc os sz st = Some (p, st')" and "p \<noteq> NULL"
    and "stands os room (if fl ! i = 0 then n - 1 else n)
      (fl[i := (if fl ! i = 0 then 4096 div block_size i else fl ! i) - 1])
      (if fl ! i = 0 then tot + 4096 else tot) (add_mset (p, sz) bs) st'"
proof -
  obtain g where g: "p2_rel st g" "map length (a_free g) = fl" "total (owned g) = tot"
      "a_live g = image_mset block bs"
    using s by (auto simp: stands_def)
  have os: "grants_upto 2097152 os room" "kernel_ok os" and room: "room n (regions (mem st))"
    using s by (simp_all add: stands_def serves_def)
  have inv: "p2_inv st g" using g(1) by (simp add: p2_inv_def)
  have len: "length (a_free g) = 8" by (rule a_free_length [OF inv])
  note z = sz [unfolded slab_size_def]
  let ?k = "if fl ! i = 0 then n - 1 else n"
  have fl: "fl ! i = length (a_free g ! i)" using z len g(2) by auto
  have can: "can_alloc room ?k st g sz"
  proof (cases "fl ! i = 0")
    case True
    then have "Suc (n - 1) = n" using n by simp
    then show ?thesis using True room by (simp add: can_alloc_def)
  next
    case False
    then show ?thesis using room z fl by (auto simp: can_alloc_def)
  qed
  have large: "4080 < sz \<Longrightarrow> page_align (16 + sz) \<noteq> 0 \<and> unat (page_align (16 + sz)) \<le> 2097152"
    using z by (simp add: word_less_nat_alt)
  obtain h st' g' where a: "p2malloc os sz st = Some (h + 16, st')" "h + 16 \<noteq> NULL" "p2_rel st' g'"
      "a_malloc (answers os st) sz g = (h + 16, g')"
      "a_live g' = add_mset (h, sz, alloc_size_of sz) (a_live g)" "room ?k (regions (mem st'))"
    by (rule alloc_upto [OF os inv _ _ _ large can]) (use z in auto)
  have "map length (a_free g') = fl[i := (if fl ! i = 0 then 4096 div block_size i else fl ! i) - 1]
      \<and> total (owned g') = (if fl ! i = 0 then tot + 4096 else tot)"
    using a_malloc_page [OF sz len _ a(4,2)] a_malloc_free [OF sz len _ a(4)] fl g(2,3)
    by (cases "a_free g ! i = []") simp_all
  then have "stands os room ?k (fl[i := (if fl ! i = 0 then 4096 div block_size i else fl ! i) - 1])
      (if fl ! i = 0 then tot + 4096 else tot) (add_mset (h + 16, sz) bs) st'"
    using a(3,5,6) g(4) s by (auto simp: stands_def block_def)
  then show ?thesis using that a(1,2) by blast
qed

lemma large_page_align:
  assumes "4080 < unat sz" and "unat sz \<le> 1048576"
  shows "page_align (16 + sz) \<noteq> 0" and "unat (page_align (16 + sz)) \<le> 2097152"
    and "unat (page_align (16 + sz)) = (unat sz + 4111) div 4096 * 4096"
proof -
  have u: "unat (16 + sz) = unat sz + 16" using assms(2) unat_swh [of sz] by (simp add: add.commute)
  then show e: "unat (page_align (16 + sz)) = (unat sz + 4111) div 4096 * 4096"
    using assms(2) by (subst unat_page_align) simp_all
  have "(unat sz + 4111) div 4096 * 4096 \<le> unat sz + 4111" by (rule div_times_less_eq_dividend)
  then show "unat (page_align (16 + sz)) \<le> 2097152" using e assms(2) by simp
  have "1 \<le> (unat sz + 4111) div 4096" using assms(1) by simp
  then show "page_align (16 + sz) \<noteq> 0" using e by (auto simp: word_unat_eq_iff)
qed

lemma stands_malloc_large:
  assumes s: "stands os room n fl tot bs st" and sz: "4080 < unat sz" "unat sz \<le> 1048576" and n: "0 < n"
  obtains p st' where "p2malloc os sz st = Some (p, st')" and "p \<noteq> NULL"
    and "stands os room (n - 1) fl (tot + (unat sz + 4111) div 4096 * 4096) (add_mset (p, sz) bs) st'"
proof -
  obtain g where g: "p2_rel st g" "map length (a_free g) = fl" "total (owned g) = tot"
      "a_live g = image_mset block bs"
    using s by (auto simp: stands_def)
  have os: "grants_upto 2097152 os room" "kernel_ok os" and room: "room n (regions (mem st))"
    using s by (simp_all add: stands_def serves_def)
  have inv: "p2_inv st g" using g(1) by (simp add: p2_inv_def)
  have can: "can_alloc room (n - 1) st g sz" using room n by (simp add: can_alloc_def)
  have big: "4080 < sz" using sz(1) by (simp add: word_less_nat_alt)
  note al = large_page_align [OF sz]
  obtain h st' g' where a: "p2malloc os sz st = Some (h + 16, st')" "h + 16 \<noteq> NULL" "p2_rel st' g'"
      "a_malloc (answers os st) sz g = (h + 16, g')"
      "a_live g' = add_mset (h, sz, alloc_size_of sz) (a_live g)" "room (n - 1) (regions (mem st'))"
    by (rule alloc_upto [OF os inv _ _ _ _ can]) (use sz al big in auto)
  have ne: "a_malloc (answers os st) sz g \<noteq> (NULL, g)" using a(2,4) by simp
  obtain p where "a_malloc (answers os st) sz g = (p + 16, a_map g (p, sz, page_align (16 + sz)))"
    using a_malloc_large [OF big ne] by metis
  then have g': "g' = a_map g (h, sz, page_align (16 + sz))" using a(4) by simp
  have "stands os room (n - 1) fl (tot + (unat sz + 4111) div 4096 * 4096) (add_mset (h + 16, sz) bs) st'"
    using a(3,5,6) g s al by (auto simp: stands_def block_def g')
  then show ?thesis using that a(1,2) by blast
qed

section \<open>Release\<close>

lemma length_oinsert [simp]: "length (oinsert x xs) = Suc (length xs)"
  by (metis mset_oinsert size_add_mset size_mset)

lemma blocks_minus: "b \<in># bs \<Longrightarrow> image_mset block (bs - {#b#}) = image_mset block bs - {#block b#}"
  by (auto dest!: multi_member_split)

lemma stands_free:
  assumes s: "stands os room n fl tot bs st" and b: "(p, sz) \<in># bs" and sz: "slab_size i sz"
  obtains st' where "p2free p st = Some st'" and "load64 (mem st') p = Some 0"
    and "stands os room n (fl[i := Suc (fl ! i)]) tot (bs - {#(p, sz)#}) st'"
proof -
  obtain g where g: "p2_rel st g" "map length (a_free g) = fl" "total (owned g) = tot"
      "a_live g = image_mset block bs"
    using s by (auto simp: stands_def)
  note z = sz [unfolded slab_size_def]
  have len: "length (a_free g) = 8" using a_free_length [of st g] g(1) by (simp add: p2_inv_def)
  have bl: "block (p, sz) = (p - 16, sz, 0)" using slab_alloc_size [OF sz] by (simp add: block_def)
  have l: "(p - 16, sz, 0) \<in># a_live g" using b unfolding g(4) bl [symmetric] by simp
  obtain st' where st': "p2free p st = Some st'" "p2_rel st' (a_give g i (p - 16, sz, 0))"
      "load64 (mem st') p = Some 0" "regions (mem st') = regions (mem st)"
    using p2free_spec [OF g(1) l] z by (auto simp: a_release_def)
  have "owned (a_give g i (p - 16, sz, 0)) = owned g"
    using extents_give(2) [OF _ len l] z by blast
  moreover have "map length (a_free (a_give g i (p - 16, sz, 0))) = fl[i := Suc (fl ! i)]"
    using z len g(2) by (auto simp: map_update)
  moreover have "a_live (a_give g i (p - 16, sz, 0)) = image_mset block (bs - {#(p, sz)#})"
    using bl by (simp add: blocks_minus [OF b] g(4))
  ultimately have "stands os room n (fl[i := Suc (fl ! i)]) tot (bs - {#(p, sz)#}) st'"
    using st'(2,4) s g(3) by (auto simp: stands_def)
  then show ?thesis using that st'(1,3) by blast
qed

lemma stands_free_large:
  assumes s: "stands os room n fl tot bs st" and b: "(p, sz) \<in># bs"
    and sz: "4080 < unat sz" "unat sz \<le> 1048576"
  obtains st' where "p2free p st = Some st'"
    and "stands os room n fl (tot - (unat sz + 4111) div 4096 * 4096) (bs - {#(p, sz)#}) st'"
proof -
  obtain g where g: "p2_rel st g" "map length (a_free g) = fl" "total (owned g) = tot"
      "a_live g = image_mset block bs"
    using s by (auto simp: stands_def)
  note al = large_page_align [OF sz]
  let ?l = "(p - 16, sz, page_align (16 + sz))"
  have bl: "block (p, sz) = ?l" using sz(1) by (simp add: block_def alloc_size_of_def word_less_nat_alt)
  have l: "?l \<in># a_live g" using b unfolding g(4) bl [symmetric] by simp
  obtain st' where st': "p2free p st = Some st'" "p2_rel st' (a_unmap g ?l)"
      "regions (mem st') = remove1 (p - 16, unat (page_align (16 + sz))) (regions (mem st))"
    using p2free_spec [OF g(1) l] al(1) by (auto simp: a_release_def)
  have "total (owned (a_unmap g ?l)) = tot - (unat sz + 4111) div 4096 * 4096"
    using total_owned_unmap [OF l al(1)] g(3) al(3) by simp
  moreover have "a_live (a_unmap g ?l) = image_mset block (bs - {#(p, sz)#})"
    by (simp add: blocks_minus [OF b] g(4) bl)
  ultimately have "stands os room n fl (tot - (unat sz + 4111) div 4096 * 4096) (bs - {#(p, sz)#}) st'"
    using st'(2,3) s g(2) by (auto simp: stands_def serves_def)
  then show ?thesis using that st'(1) by blast
qed

section \<open>The contents of blocks\<close>

definition filled :: "addr \<Rightarrow> u8 \<Rightarrow> nat \<Rightarrow> p2state \<Rightarrow> bool" where
  "filled p v n st \<longleftrightarrow> (\<forall>k < n. bytes (mem st) (p + of_nat k) = v)"

lemma stands_get_char:
  assumes s: "stands os room n fl tot bs st" and b: "(p, sz) \<in># bs" and k: "k < unat sz"
    and f: "filled p v len st" "k < len"
  shows "get_char (p + of_nat k) st = Some v"
proof -
  obtain g where g: "p2_rel st g" "a_live g = image_mset block bs"
    using s by (auto simp: stands_def)
  have l: "(p - 16, sz, alloc_size_of sz) \<in># a_live g" using alloc_live [OF b] g(2) by simp
  show ?thesis using byte_in_block(2) [OF g(1) l k] f
    by (simp add: get_char_def load8_def filled_def)
qed

lemma stands_fill:
  assumes s: "stands os room n fl tot bs st" and b: "(p, sz) \<in># bs"
  obtains st' where "fill_bytes p v (unat sz) st = Some st'" and "stands os room n fl tot bs st'"
    and "filled p v (unat sz) st'"
proof -
  obtain g where g: "p2_rel st g" "map length (a_free g) = fl" "total (owned g) = tot"
      "a_live g = image_mset block bs"
    using s by (auto simp: stands_def)
  have l: "(p - 16, sz, alloc_size_of sz) \<in># a_live g" using alloc_live [OF b] g(4) by simp
  note lp = live_ptr [OF g(1) l, simplified]
  obtain m where m: "memset (mem st) p v (unat sz) = Some m" "changes (span_of p (unat sz)) (mem st) m"
      "\<And>b. unat b \<in> span_of p (unat sz) \<Longrightarrow> bytes m b = v"
    by (rule memset_spec [OF lp(7), of v]) (use lp(8) in simp_all)
  have "p2_rel (st\<lparr>mem := m\<rparr>) g"
    using client_write(1) [OF g(1) l, of "span_of p (unat sz)" m] m(2) by simp
  then have "stands os room n fl tot bs (st\<lparr>mem := m\<rparr>)"
    using s g(2-4) changes_regions [OF m(2)] by (auto simp: stands_def)
  moreover have "filled p v (unat sz) (st\<lparr>mem := m\<rparr>)"
    unfolding filled_def
  proof (intro allI impI)
    fix k assume k: "k < unat sz"
    then have "unat (p + of_nat k) = unat p + k" using lp(8) by (intro unat_add_num) simp
    then show "bytes (mem (st\<lparr>mem := m\<rparr>)) (p + of_nat k) = v" using k m(3) by simp
  qed
  ultimately show ?thesis using that [of "st\<lparr>mem := m\<rparr>"] m(1) by (simp add: fill_bytes_def)
qed

lemma stands_put_int:
  assumes s: "stands os room n fl tot bs st" and b: "(p, sz) \<in># bs" and "4 \<le> unat sz"
  obtains st' where "put_int p v st = Some st'" and "stands os room n fl tot bs st'"
proof -
  obtain g where g: "p2_rel st g" "map length (a_free g) = fl" "total (owned g) = tot"
      "a_live g = image_mset block bs"
    using s by (auto simp: stands_def)
  have l: "(p - 16, sz, alloc_size_of sz) \<in># a_live g" using alloc_live [OF b] g(4) by simp
  note lp = live_ptr [OF g(1) l, simplified]
  have "mapped (mem st) p 4" by (rule mapped_sub [OF lp(7)]) (use assms(3) in simp_all)
  moreover have "unat p + 4 \<le> 2 ^ 64" using lp(8) assms(3) by simp
  ultimately obtain m where m: "store32 (mem st) p v = Some m" "changes (span_of p 4) (mem st) m"
    by (rule store32_spec)
  have "span_of p 4 \<subseteq> span_of p (unat sz)" using assms(3) by (rule span_of_mono)
  then have "p2_rel (st\<lparr>mem := m\<rparr>) g" using client_write(1) [OF g(1) l m(2)] by simp
  then have "stands os room n fl tot bs (st\<lparr>mem := m\<rparr>)"
    using s g(2-4) changes_regions [OF m(2)] by (auto simp: stands_def)
  then show ?thesis using that [of "st\<lparr>mem := m\<rparr>"] m(1) by (simp add: put_int_def)
qed

section \<open>Resizing\<close>

lemma stands_resize:
  assumes s: "stands os room n fl tot bs st" and b: "(p, old) \<in># bs"
    and sz: "slab_size i old" "slab_size i sz"
  obtains st' where "p2realloc os p sz st = Some (p, st')"
    and "stands os room n fl tot (add_mset (p, sz) (bs - {#(p, old)#})) st'"
proof -
  obtain g where g: "p2_rel st g" "map length (a_free g) = fl" "total (owned g) = tot"
      "a_live g = image_mset block bs"
    using s by (auto simp: stands_def)
  have bl: "block (p, old) = (p - 16, old, 0)" "block (p, sz) = (p - 16, sz, 0)"
    using sz [THEN slab_alloc_size] by (simp_all add: block_def)
  have l: "(p - 16, old, 0) \<in># a_live g" using b unfolding g(4) bl(1) [symmetric] by simp
  have idx: "get_freelist_idx sz = get_freelist_idx old" and z: "sz \<noteq> 0" "unat sz + 16 < 2 ^ 64"
    using sz by (simp_all add: slab_size_def)
  let ?g = "a_resize g (p - 16) old sz"
  obtain m where m: "p2realloc os p sz st = Some (p, st\<lparr>mem := m, allocated := allocated st - old + sz\<rparr>)"
      "p2_rel (st\<lparr>mem := m, allocated := allocated st - old + sz\<rparr>) ?g" "changes (span_of (p - 16) 8) (mem st) m"
    using realloc_in_place [OF g(1) l z idx, of os] by auto
  have "total (owned ?g) = tot" using resize_same(2) [OF l idx] g(3) by simp
  moreover have "a_free ?g = a_free g" by (simp add: a_resize_def)
  moreover have "a_live ?g = image_mset block (add_mset (p, sz) (bs - {#(p, old)#}))"
    by (simp add: a_live_resize blocks_minus [OF b] g(4) bl)
  ultimately have "stands os room n fl tot (add_mset (p, sz) (bs - {#(p, old)#}))
      (st\<lparr>mem := m, allocated := allocated st - old + sz\<rparr>)"
    using m(2) s g(2) changes_regions [OF m(3)] by (auto simp: stands_def)
  then show ?thesis using that m(1) by blast
qed

text \<open>A block that moves to another list: the counters stay exact and the common prefix is kept.\<close>

lemma stands_move:
  assumes s: "stands os room n fl tot bs st" and b: "(p, old) \<in># bs"
    and sz: "slab_size i old" "slab_size j sz" "i \<noteq> j" and n: "fl ! j = 0 \<Longrightarrow> 0 < n"
    and f: "filled p v (unat old) st"
  obtains q st' fl' tot' where "p2realloc os p sz st = Some (q, st')" and "q \<noteq> NULL"
    and "stands os room (if fl ! j = 0 then n - 1 else n) fl' tot' (add_mset (q, sz) (bs - {#(p, old)#})) st'"
    and "filled q v (min (unat old) (unat sz)) st'"
proof -
  obtain g where g: "p2_rel st g" "map length (a_free g) = fl" "total (owned g) = tot"
      "a_live g = image_mset block bs"
    using s by (auto simp: stands_def)
  have os: "kernel_ok os" using s by (simp add: stands_def serves_def)
  have bl: "block (p, old) = (p - 16, old, 0)" using slab_alloc_size [OF sz(1)] by (simp add: block_def)
  have l: "(p - 16, old, 0) \<in># a_live g" using b unfolding g(4) bl(1) [symmetric] by simp
  have mv: "\<not> (0 = (0 :: u64) \<and> get_freelist_idx sz = get_freelist_idx old)" and z: "sz \<noteq> 0"
    using sz by (simp_all add: slab_size_def)
  let ?am = "a_malloc (answers os st) sz g"
  obtain st1 q where st1: "p2malloc os sz st = Some (q, st1)" "q \<noteq> NULL"
    "stands os room (if fl ! j = 0 then n - 1 else n)
      (fl[j := (if fl ! j = 0 then 4096 div block_size j else fl ! j) - 1])
      (if fl ! j = 0 then tot + 4096 else tot) (add_mset (q, sz) bs) st1"
    by (rule stands_malloc [OF s sz(2) n])
  obtain st0 where st0: "p2malloc os sz st = Some (fst ?am, st0)"
      "regions (mem st0) = a_mappings (answers os st) sz g @ regions (mem st)"
    using p2malloc_spec [OF _ os, of st g sz] g(1) by (auto simp: p2_inv_def)
  have q: "fst ?am = q" "st0 = st1" using st0(1) st1(1) by simp_all
  obtain st' where st': "p2realloc os p sz st = Some (q, st')"
      "p2_rel st' (a_release (snd ?am) (p - 16, old, 0))"
      "\<forall>k < min (unat old) (unat sz). bytes (mem st') (q + of_nat k) = bytes (mem st) (p + of_nat k)"
      "regions (mem st') = regions (mem st1)"
    using realloc_move [OF g(1) l os z mv] st1(2) st0(2) q by auto
  have "a_live (snd ?am) = add_mset (q - 16, sz, alloc_size_of sz) (a_live g)"
    by (rule a_malloc_cases [of g "answers os st" sz])
      (use a_free_length [of st g] g(1) q(1) st1(2) in \<open>auto simp: p2_inv_def\<close>)
  then have "a_live (a_release (snd ?am) (p - 16, old, 0)) = image_mset block (add_mset (q, sz) (bs - {#(p, old)#}))"
    using l by (simp add: blocks_minus [OF b] g(4) bl) (simp add: block_def)
  then have "stands os room (if fl ! j = 0 then n - 1 else n) (map length (a_free (a_release (snd ?am) (p - 16, old, 0))))
      (total (owned (a_release (snd ?am) (p - 16, old, 0)))) (add_mset (q, sz) (bs - {#(p, old)#})) st'"
    using st'(2,4) st1(3) by (auto simp: stands_def)
  moreover have "filled q v (min (unat old) (unat sz)) st'" using f st'(3) by (simp add: filled_def)
  ultimately show ?thesis using that st'(1) st1(2) by blast
qed

section \<open>Array allocation\<close>

lemma stands_calloc:
  assumes s: "stands os room n fl tot bs st" and sz: "slab_size i (a * b)" "a \<noteq> 0" "b \<noteq> 0"
    and fits: "unat a * unat b < 2 ^ 64" and n: "fl ! i = 0 \<Longrightarrow> 0 < n"
  obtains p st' where "p2calloc os a b st = Some (p, st')" and "p \<noteq> NULL"
    and "stands os room (if fl ! i = 0 then n - 1 else n)
      (fl[i := (if fl ! i = 0 then 4096 div block_size i else fl ! i) - 1])
      (if fl ! i = 0 then tot + 4096 else tot) (add_mset (p, a * b) bs) st'"
    and "filled p 0 (unat a * unat b) st'"
proof -
  obtain p st1 where st1: "p2malloc os (a * b) st = Some (p, st1)" "p \<noteq> NULL"
    "stands os room (if fl ! i = 0 then n - 1 else n)
      (fl[i := (if fl ! i = 0 then 4096 div block_size i else fl ! i) - 1])
      (if fl ! i = 0 then tot + 4096 else tot) (add_mset (p, a * b) bs) st1"
    by (rule stands_malloc [OF s sz(1) n])
  have u: "unat (a * b) = unat a * unat b" using fits by (simp add: unat_word_ariths)
  have "\<not> SIZE_MAX div b < a" using calloc_overflow_iff [OF sz(3)] fits by simp
  moreover obtain st' where st': "fill_bytes p 0 (unat (a * b)) st1 = Some st'"
    "stands os room (if fl ! i = 0 then n - 1 else n)
      (fl[i := (if fl ! i = 0 then 4096 div block_size i else fl ! i) - 1])
      (if fl ! i = 0 then tot + 4096 else tot) (add_mset (p, a * b) bs) st'"
    "filled p 0 (unat (a * b)) st'"
    by (rule stands_fill [OF st1(3), of p "a * b"]) simp
  ultimately have "p2calloc os a b st = Some (p, st')"
    using sz(2,3) st1(1,2) by (auto simp: p2calloc_def fill_bytes_def)
  then show ?thesis using that st1(2) st'(2,3) u by simp
qed

section \<open>The calls as statements\<close>

lemma runs_malloc:
  assumes sz: "slab_size i sz" and n: "fl ! i = 0 \<Longrightarrow> 0 < n"
    and k: "\<And>p. p \<noteq> NULL \<Longrightarrow> runs_to (stands os room (if fl ! i = 0 then n - 1 else n)
      (fl[i := (if fl ! i = 0 then 4096 div block_size i else fl ! i) - 1])
      (if fl ! i = 0 then tot + 4096 else tot) (add_mset (p, sz) bs)) (k p) Q"
  shows "runs_to (stands os room n fl tot bs) (calls (p2malloc os sz) k) Q"
  using stands_malloc [OF _ sz n] k
  by (intro runs_calls [where A = "\<lambda>p. p \<noteq> NULL" and k = k and R = "\<lambda>p. stands os room
      (if fl ! i = 0 then n - 1 else n)
      (fl[i := (if fl ! i = 0 then 4096 div block_size i else fl ! i) - 1])
      (if fl ! i = 0 then tot + 4096 else tot) (add_mset (p, sz) bs)"]) metis+

lemma runs_malloc_large:
  assumes sz: "4080 < unat sz" "unat sz \<le> 1048576" and n: "0 < n"
    and k: "\<And>p. p \<noteq> NULL \<Longrightarrow> runs_to (stands os room (n - 1) fl
      (tot + (unat sz + 4111) div 4096 * 4096) (add_mset (p, sz) bs)) (k p) Q"
  shows "runs_to (stands os room n fl tot bs) (calls (p2malloc os sz) k) Q"
  using stands_malloc_large [OF _ sz n] k
  by (intro runs_calls [where A = "\<lambda>p. p \<noteq> NULL" and k = k and R = "\<lambda>p. stands os room (n - 1) fl
      (tot + (unat sz + 4111) div 4096 * 4096) (add_mset (p, sz) bs)"]) metis+

lemma runs_refused:
  assumes "\<And>st. f st = Some (NULL, st)" and "runs_to P (k NULL) Q"
  shows "runs_to P (calls f k) Q"
  using assms by (intro runs_calls [where A = "\<lambda>p. p = NULL" and R = "\<lambda>_. P"]) auto

lemma runs_asked:
  assumes "runs_to (stands os room n fl tot bs) (k (of_nat (\<Sum>(p, sz) \<in># bs. unat sz))) Q"
  shows "runs_to (stands os room n fl tot bs) (reads asked k) Q"
  by (rule runs_reads [where v = "of_nat (\<Sum>(p, sz) \<in># bs. unat sz)"]) (rule stands_counters(1), assumption, rule assms)

lemma runs_claimed:
  assumes "runs_to (stands os room n fl tot bs) (k (of_nat tot)) Q"
  shows "runs_to (stands os room n fl tot bs) (reads claimed k) Q"
  by (rule runs_reads [where v = "of_nat tot"]) (rule stands_counters(2), assumption, rule assms)

lemma runs_free:
  assumes "(p, sz) \<in># bs" and "slab_size i sz"
    and "runs_to (stands os room n (fl[i := Suc (fl ! i)]) tot (bs - {#(p, sz)#})) k Q"
  shows "runs_to (stands os room n fl tot bs) (does (p2free p) k) Q"
  by (rule runs_does [OF _ assms(3)]) (use stands_free [OF _ assms(1,2)] in metis)

lemma runs_free_large:
  assumes "(p, sz) \<in># bs" and "4080 < unat sz" "unat sz \<le> 1048576"
    and "runs_to (stands os room n fl (tot - (unat sz + 4111) div 4096 * 4096) (bs - {#(p, sz)#})) k Q"
  shows "runs_to (stands os room n fl tot bs) (does (p2free p) k) Q"
  by (rule runs_does [OF _ assms(4)]) (use stands_free_large [OF _ assms(1-3)] in metis)

lemma runs_end: "k \<le> n \<Longrightarrow> runs_to (stands os room n fl tot bs) Returns (leaves room k)"
  by (rule runs_Returns) (metis add.commute le_Suc_ex stands_leaves)

text \<open>Loops of allocations of one size, from a list that has enough blocks or from a fresh page.\<close>

lemma runs_ex: "(\<And>x. runs_to (P x) f Q) \<Longrightarrow> runs_to (\<lambda>st. \<exists>x. P x st) f Q"
  by (auto simp: runs_to_def)

lemma runs_mallocs_free:
  assumes sz: "slab_size i sz" and i: "i < length fl" and len: "length js \<le> fl ! i"
    and body: "\<And>p P. p \<noteq> NULL \<Longrightarrow> runs_to P (body p) P"
    and k: "\<And>bs. runs_to (stands os room n (fl[i := fl ! i - length js]) tot bs) k Q"
  shows "runs_to (stands os room n fl tot bs) (for_each js (\<lambda>j. calls (p2malloc os sz) body) k) Q"
proof -
  let ?P = "\<lambda>j st. \<exists>bs. stands os room n (fl[i := fl ! i - j]) tot bs st"
  have "runs_to (?P 0) (for_each js (\<lambda>j. calls (p2malloc os sz) body) k) Q"
  proof (rule runs_for_each [of js ?P])
    fix j assume j: "j < length js"
    show "runs_to (?P j) (calls (p2malloc os sz) body) (?P (Suc j))"
    proof (intro runs_ex runs_malloc [OF sz])
      fix bs p assume p: "p \<noteq> NULL"
      have f: "fl[i := fl ! i - j] ! i = fl ! i - j" "fl ! i - j \<noteq> 0" "fl ! i - j - 1 = fl ! i - Suc j"
        using i j len by simp_all
      show "runs_to (stands os room (if fl[i := fl ! i - j] ! i = 0 then n - 1 else n)
          (fl[i := fl ! i - j, i := (if fl[i := fl ! i - j] ! i = 0 then 4096 div block_size i
             else fl[i := fl ! i - j] ! i) - 1])
          (if fl[i := fl ! i - j] ! i = 0 then tot + 4096 else tot) (add_mset (p, sz) bs)) (body p) (?P (Suc j))"
        using body [OF p] f by (fastforce simp: runs_to_def)
    qed (use i j len in simp)
  qed (rule runs_ex, rule k)
  then show ?thesis by (rule runs_weak) auto
qed

lemma runs_mallocs_page:
  assumes sz: "slab_size i sz" and i: "i < length fl" and zero: "fl ! i = 0" and n: "0 < n"
    and len: "length js < 4096 div block_size i"
    and body: "\<And>p P. p \<noteq> NULL \<Longrightarrow> runs_to P (body p) P"
    and k: "\<And>bs. runs_to (stands os room (n - 1) (fl[i := 4096 div block_size i - Suc (length js)]) (tot + 4096) bs) k Q"
  shows "runs_to (stands os room n fl tot bs) (for_each (j # js) (\<lambda>j. calls (p2malloc os sz) body) k) Q"
proof -
  let ?P = "\<lambda>st. \<exists>bs. stands os room (n - 1) (fl[i := 4096 div block_size i - 1]) (tot + 4096) bs st"
  have "runs_to (stands os room n fl tot bs) (calls (p2malloc os sz) body) ?P"
  proof (rule runs_malloc [OF sz])
    fix p assume p: "p \<noteq> NULL"
    show "runs_to (stands os room (if fl ! i = 0 then n - 1 else n)
        (fl[i := (if fl ! i = 0 then 4096 div block_size i else fl ! i) - 1])
        (if fl ! i = 0 then tot + 4096 else tot) (add_mset (p, sz) bs)) (body p) ?P"
      using body [OF p] zero by (fastforce simp: runs_to_def)
  qed (use n in simp)
  moreover have "runs_to ?P (for_each js (\<lambda>j. calls (p2malloc os sz) body) k) Q"
    by (intro runs_ex runs_mallocs_free [OF sz]) (use i len body k in simp_all)
  ultimately show ?thesis unfolding runs_to_def for_each.simps by (metis and_then.simps(1))
qed

lemma runs_check_only: "quiet c \<Longrightarrow> runs_to P (checks c Returns) P"
  by (intro runs_checks runs_Returns)

lemma upt_0: "0 < n \<Longrightarrow> [0..<n] = 0 # [1..<n]"
  by (simp add: upt_conv_Cons)

text \<open>What a state says about the pointers in it.\<close>

lemma runs_fact: "(\<And>st. P st \<Longrightarrow> F) \<Longrightarrow> (F \<Longrightarrow> runs_to P f Q) \<Longrightarrow> runs_to P f Q"
  by (auto simp: runs_to_def)

lemma stands_distinct:
  assumes "stands os room n fl tot bs st" and "{#(p, a), (q, b)#} \<subseteq># bs"
  shows "p \<noteq> q"
proof -
  obtain g where g: "p2_rel st g" "a_live g = image_mset block bs" using assms(1) by (auto simp: stands_def)
  obtain L where "bs = {#(p, a), (q, b)#} + L" using assms(2) by (auto simp: mset_subset_eq_exists_conv)
  then have "a_live g = add_mset (block (p, a)) (add_mset (block (q, b)) (image_mset block L))"
    using g(2) by simp
  then show ?thesis using live_unique [OF g(1), of "block (p, a)" "block (q, b)"] by (auto simp: block_def)
qed

lemma runs_aligned:
  assumes "(p, sz) \<in># bs"
    and "p mod BIGGEST_ALIGNMENT = 0 \<Longrightarrow> runs_to (stands os room n fl tot bs) f Q"
  shows "runs_to (stands os room n fl tot bs) f Q"
  using runs_fact [of "stands os room n fl tot bs" "p mod BIGGEST_ALIGNMENT = 0"]
    stands_aligned [OF _ assms(1)] assms(2) by blast

text \<open>Contents: what is written to a block, and what a release leaves of it.\<close>

lemma runs_fill:
  assumes "(p, sz) \<in># bs" and "len = unat sz"
    and "runs_to (\<lambda>st. stands os room n fl tot bs st \<and> filled p v len st) k Q"
  shows "runs_to (stands os room n fl tot bs) (does (fill_bytes p v len) k) Q"
  by (rule runs_does [OF _ assms(3)]) (use stands_fill [OF _ assms(1)] assms(2) in metis)

lemma runs_put_int:
  assumes "(p, sz) \<in># bs" and "4 \<le> unat sz" and "runs_to (stands os room n fl tot bs) k Q"
  shows "runs_to (stands os room n fl tot bs) (does (put_int p v) k) Q"
  by (rule runs_does [OF _ assms(3)]) (use stands_put_int [OF _ assms(1,2)] in metis)

lemma runs_free_zero:
  assumes "(p, sz) \<in># bs" and "slab_size i sz"
    and "runs_to (\<lambda>st. stands os room n (fl[i := Suc (fl ! i)]) tot (bs - {#(p, sz)#}) st
      \<and> get_int p st = Some 0) k Q"
  shows "runs_to (stands os room n fl tot bs) (does (p2free p) k) Q"
  by (rule runs_does [OF _ assms(3)])
    (use stands_free [OF _ assms(1,2)] load32_zero in \<open>metis get_int_def\<close>)

lemma runs_get_char:
  assumes "(p, sz) \<in># bs" and "q = p + of_nat j" and "j < len" and "len \<le> unat sz"
    and "runs_to (\<lambda>st. stands os room n fl tot bs st \<and> filled p v len st) (k v) Q"
  shows "runs_to (\<lambda>st. stands os room n fl tot bs st \<and> filled p v len st) (reads (get_char q) k) Q"
  by (rule runs_reads [where v = v]) (use stands_get_char [OF _ assms(1)] assms(2-5) in auto)

lemma runs_forget:
  "runs_to (stands os room n fl tot bs) f Q \<Longrightarrow> runs_to (\<lambda>st. stands os room n fl tot bs st \<and> R st) f Q"
  by (auto simp: runs_to_def)

lemma stands_get_int:
  assumes s: "stands os room n fl tot bs st" and b: "(p, sz) \<in># bs" and k: "4 * j + 4 \<le> unat sz"
    and f: "filled p 0 len st" "4 * j + 4 \<le> len"
  shows "get_int (p + 4 * of_nat j) st = Some 0"
proof -
  obtain g where g: "p2_rel st g" "a_live g = image_mset block bs"
    using s by (auto simp: stands_def)
  have l: "(p - 16, sz, alloc_size_of sz) \<in># a_live g" using alloc_live [OF b] g(2) by simp
  note lp = live_ptr [OF g(1) l, simplified]
  have u: "unat (p + 4 * of_nat j) = unat p + 4 * j"
    using unat_add_num [of p "4 * j"] lp(8) k by simp
  have "mapped (mem st) (p + 4 * of_nat j) 4" by (rule mapped_sub [OF lp(7)]) (use u k in simp_all)
  moreover have "bytes (mem st) (p + 4 * of_nat j + of_nat i) = 0" if "i < 4" for i
    using f that unfolding filled_def by (metis (no_types, lifting) add.assoc less_le_trans nat_add_left_cancel_less of_nat_add of_nat_mult of_nat_numeral)
  from this [of 0] this [of 1] this [of 2] this [of 3] have "get32 (bytes (mem st)) (p + 4 * of_nat j) = 0"
    by (simp add: get32_def)
  ultimately show ?thesis by (simp add: get_int_def load32_def)
qed

lemma runs_get_int:
  assumes "(p, sz) \<in># bs" and "4 * j + 4 \<le> len" and "len \<le> unat sz"
    and "runs_to (\<lambda>st. stands os room n fl tot bs st \<and> filled p 0 len st) (k 0) Q"
  shows "runs_to (\<lambda>st. stands os room n fl tot bs st \<and> filled p 0 len st)
    (reads (get_int (p + 4 * of_nat j)) k) Q"
  by (rule runs_reads [where v = 0]) (use stands_get_int [OF _ assms(1)] assms(2-4) in auto)

text \<open>Array allocation and resizing.\<close>

lemma runs_calloc:
  assumes sz: "slab_size i (a * b)" "a \<noteq> 0 \<and> b \<noteq> 0 \<and> unat a * unat b < 2 ^ 64" and n: "fl ! i = 0 \<Longrightarrow> 0 < n"
    and k: "\<And>p. p \<noteq> NULL \<Longrightarrow> runs_to (\<lambda>st. stands os room (if fl ! i = 0 then n - 1 else n)
      (fl[i := (if fl ! i = 0 then 4096 div block_size i else fl ! i) - 1])
      (if fl ! i = 0 then tot + 4096 else tot) (add_mset (p, a * b) bs) st
      \<and> filled p 0 (unat a * unat b) st) (k p) Q"
  shows "runs_to (stands os room n fl tot bs) (calls (p2calloc os a b) k) Q"
proof (rule runs_calls [where A = "\<lambda>p. p \<noteq> NULL" and k = k])
  fix st assume s: "stands os room n fl tot bs st"
  show "\<exists>p st'. p2calloc os a b st = Some (p, st') \<and> p \<noteq> NULL
    \<and> stands os room (if fl ! i = 0 then n - 1 else n)
      (fl[i := (if fl ! i = 0 then 4096 div block_size i else fl ! i) - 1])
      (if fl ! i = 0 then tot + 4096 else tot) (add_mset (p, a * b) bs) st'
    \<and> filled p 0 (unat a * unat b) st'"
    by (rule stands_calloc [OF s sz(1) _ _ _ n]) (use sz(2) in auto)
qed (rule k)

lemma p2realloc_NULL: "p2realloc os NULL sz = p2malloc os sz"
  by (rule ext) (simp add: p2realloc_def)

lemma runs_realloc_zero:
  assumes "p \<noteq> NULL" and "(p, sz) \<in># bs" and "slab_size i sz"
    and "runs_to (stands os room n (fl[i := Suc (fl ! i)]) tot (bs - {#(p, sz)#})) (k NULL) Q"
  shows "runs_to (stands os room n fl tot bs) (calls (p2realloc os p 0) k) Q"
proof (rule runs_calls [where A = "\<lambda>q. q = NULL" and k = k])
  fix st assume s: "stands os room n fl tot bs st"
  show "\<exists>r st'. p2realloc os p 0 st = Some (r, st') \<and> r = NULL
    \<and> stands os room n (fl[i := Suc (fl ! i)]) tot (bs - {#(p, sz)#}) st'"
    by (rule stands_free [OF s assms(2,3)]) (use assms(1) in \<open>auto simp: p2realloc_def\<close>)
qed (use assms(4) in simp)

lemma runs_resize:
  assumes "(p, old) \<in># bs" and "slab_size i old" and "slab_size i sz"
    and "runs_to (stands os room n fl tot (add_mset (p, sz) (bs - {#(p, old)#}))) (k p) Q"
  shows "runs_to (stands os room n fl tot bs) (calls (p2realloc os p sz) k) Q"
proof (rule runs_calls [where A = "\<lambda>q. q = p" and k = k])
  fix st assume s: "stands os room n fl tot bs st"
  show "\<exists>r st'. p2realloc os p sz st = Some (r, st') \<and> r = p
    \<and> stands os room n fl tot (add_mset (p, sz) (bs - {#(p, old)#})) st'"
    by (rule stands_resize [OF s assms(1-3)]) auto
qed (use assms(4) in simp)

lemma runs_move:
  assumes b: "(p, old) \<in># bs" and sz: "slab_size i old" "slab_size j sz" "i \<noteq> j" and len: "len = unat old"
    and n: "fl ! j = 0 \<Longrightarrow> 0 < n"
    and k: "\<And>q fl' tot'. q \<noteq> NULL \<Longrightarrow> runs_to (\<lambda>st. stands os room (if fl ! j = 0 then n - 1 else n) fl' tot'
      (add_mset (q, sz) (bs - {#(p, old)#})) st \<and> filled q v (min len (unat sz)) st) (k q) Q"
  shows "runs_to (\<lambda>st. stands os room n fl tot bs st \<and> filled p v len st) (calls (p2realloc os p sz) k) Q"
proof (rule runs_calls [where A = "\<lambda>q. q \<noteq> NULL" and k = k and R = "\<lambda>q st. \<exists>fl' tot'.
    stands os room (if fl ! j = 0 then n - 1 else n) fl' tot'
      (add_mset (q, sz) (bs - {#(p, old)#})) st \<and> filled q v (min len (unat sz)) st"])
  fix st assume s: "stands os room n fl tot bs st \<and> filled p v len st"
  show "\<exists>q st'. p2realloc os p sz st = Some (q, st') \<and> q \<noteq> NULL
    \<and> (\<exists>fl' tot'. stands os room (if fl ! j = 0 then n - 1 else n) fl' tot'
      (add_mset (q, sz) (bs - {#(p, old)#})) st' \<and> filled q v (min len (unat sz)) st')"
  proof (rule stands_move [OF _ b sz n])
    show "stands os room n fl tot bs st" and "filled p v (unat old) st" using s len by simp_all
  qed (use len in blast)+
qed (intro runs_ex k)

lemma runs_noop: "(\<And>st. f st = Some st) \<Longrightarrow> runs_to P k Q \<Longrightarrow> runs_to P (does f k) Q"
  by (rule runs_does [where R = P]) auto

text \<open>Loops that look at every word or byte of a block.\<close>

lemma runs_ints:
  assumes "(p, sz) \<in># bs" and "4 * m \<le> len" and "len \<le> unat sz"
    and "runs_to (\<lambda>st. stands os room n fl tot bs st \<and> filled p 0 len st) k Q"
  shows "runs_to (\<lambda>st. stands os room n fl tot bs st \<and> filled p 0 len st) (for_each [0..<m] (\<lambda>i.
     reads (get_int (p + 4 * of_nat i)) (\<lambda>v. checks (TEST_ASSERT_EQUAL_INT 0 v l) Returns)) k) Q"
  by (rule runs_for_each [of _ "\<lambda>_ st. stands os room n fl tot bs st \<and> filled p 0 len st"],
      rule runs_get_int [OF assms(1) _ assms(3)], use assms(2) in simp,
      rule runs_check_only, simp, rule assms(4))

lemma runs_chars:
  assumes "(p, sz) \<in># bs" and "m \<le> len" and "len \<le> unat sz"
    and "runs_to (\<lambda>st. stands os room n fl tot bs st \<and> filled p v len st) k Q"
  shows "runs_to (\<lambda>st. stands os room n fl tot bs st \<and> filled p v len st) (for_each [0..<m] (\<lambda>i.
     reads (get_char (p + of_nat i)) (\<lambda>c. checks (TEST_ASSERT_EQUAL_HEX8 v c l) Returns)) k) Q"
  by (rule runs_for_each [of _ "\<lambda>_ st. stands os room n fl tot bs st \<and> filled p v len st"],
      rule runs_get_char [OF assms(1) _ _ assms(3)], simp, use assms(2) in simp,
      rule runs_check_only, simp, rule assms(4))

text \<open>A page of blocks in an array, given back and taken again.\<close>

definition held_blocks :: "u64 \<Rightarrow> addr list \<Rightarrow> (addr \<times> u64) multiset" where
  "held_blocks sz ps = image_mset (\<lambda>p. (p, sz)) (mset ps)"

lemma held_blocks_simps [simp]:
  "held_blocks sz [] = {#}" "held_blocks sz (p # ps) = add_mset (p, sz) (held_blocks sz ps)"
  "held_blocks sz (ps @ [p]) = add_mset (p, sz) (held_blocks sz ps)"
  by (simp_all add: held_blocks_def)

lemma runs_malloc_array:
  assumes sz: "slab_size i sz"
  shows "i < length fl \<Longrightarrow> m \<le> fl ! i \<Longrightarrow>
    (\<And>ps. length ps = length ptrs + m \<Longrightarrow>
       runs_to (stands os room n (fl[i := fl ! i - m]) tot (held_blocks sz ps)) (k ps) Q) \<Longrightarrow>
    runs_to (stands os room n fl tot (held_blocks sz ptrs)) (malloc_array os m sz ptrs k) Q"
proof (induction m arbitrary: fl ptrs)
  case 0
  then show ?case by simp
next
  case (Suc m)
  show ?case unfolding malloc_array.simps
  proof (rule runs_malloc [OF sz])
    fix p assume "p \<noteq> NULL"
    have f: "fl ! i \<noteq> 0" using Suc.prems(2) by simp
    have "runs_to (stands os room n (fl[i := fl ! i - 1]) tot (held_blocks sz (ptrs @ [p])))
        (malloc_array os m sz (ptrs @ [p]) k) Q"
      using Suc.prems by (intro Suc.IH) auto
    then show "runs_to (stands os room (if fl ! i = 0 then n - 1 else n)
        (fl[i := (if fl ! i = 0 then 4096 div block_size i else fl ! i) - 1])
        (if fl ! i = 0 then tot + 4096 else tot) (add_mset (p, sz) (held_blocks sz ptrs)))
        (malloc_array os m sz (ptrs @ [p]) k) Q"
      using f by simp
  qed (use Suc.prems in simp)
qed

lemma runs_frees:
  assumes sz: "slab_size i sz" and i: "i < length fl" and m: "m = length ps"
    and k: "runs_to (stands os room n (fl[i := fl ! i + m]) tot {#}) k Q"
  shows "runs_to (stands os room n fl tot (held_blocks sz ps))
    (for_each [0..<m] (\<lambda>j. does (p2free (ps ! j)) Returns) k) Q"
proof -
  let ?P = "\<lambda>j. stands os room n (fl[i := fl ! i + j]) tot (held_blocks sz (drop j ps))"
  have "runs_to (?P 0) (for_each [0..<length ps] (\<lambda>j. does (p2free (ps ! j)) Returns) k) Q"
  proof (rule runs_for_each [of _ ?P])
    fix j assume "j < length [0..<length ps]"
    then have j: "j < length ps" "[0..<length ps] ! j = j" by simp_all
    have d: "held_blocks sz (drop j ps) = add_mset (ps ! j, sz) (held_blocks sz (drop (Suc j) ps))"
      using Cons_nth_drop_Suc [OF j(1)] by (metis held_blocks_simps(2))
    show "runs_to (?P j) (does (p2free (ps ! ([0..<length ps] ! j))) Returns) (?P (Suc j))"
      unfolding j(2) d by (rule runs_free [OF _ sz], simp, rule runs_Returns, use i in simp)
  qed (use k m in simp)
  then show ?thesis by (simp add: m)
qed

lemma distinct_after:
  assumes "stands os room n fl tot {#(c, k), (b, l), (a, m)#} st"
  shows "a \<noteq> b \<and> b \<noteq> c \<and> a \<noteq> c"
  using stands_distinct [OF assms, of a m b l] stands_distinct [OF assms, of b l c k]
    stands_distinct [OF assms, of a m c k]
  by (simp add: subseteq_mset_def)


end
