(* ===== verification/P2_Tests_Correct.thy ===== *)
theory P2_Tests_Correct
  imports P2_Tests_Steps
begin

text \<open>
  The unit tests of the allocator pass: each test from a reset allocator, with the number of mappings
  it needs, and the whole program under the runner of the framework.
\<close>

section \<open>The tests\<close>

text \<open>\<open>n\<close> mappings are enough for the test, on any kernel that serves them.\<close>

definition passes_test :: "os \<Rightarrow> nat \<Rightarrow> p2_test \<Rightarrow> bool" where
  "passes_test os n f \<longleftrightarrow> (\<forall>room k.
     runs_to (stands os room (n + k) [0, 0, 0, 0, 0, 0, 0, 0] 0 {#}) f (leaves room k))"

lemma passes_testI:
  "(\<And>room k. runs_to (stands os room (n + k) [0, 0, 0, 0, 0, 0, 0, 0] 0 {#}) f (leaves room k))
     \<Longrightarrow> passes_test os n f"
  by (simp add: passes_test_def)

lemma slab_sizes [simp]:
  "slab_size 0 10" "slab_size 0 12" "slab_size 0 16" "slab_size (Suc 0) 17" "slab_size (Suc 0) 20"
  "slab_size (Suc 0) 30" "slab_size (Suc 0) 32" "slab_size 2 50" "slab_size 2 64" "slab_size 2 100"
  "slab_size 3 200" "slab_size 7 4080"
  by (simp_all add: slab_size_def get_freelist_idx_def)

lemmas malloc_steps = slab_sizes [THEN runs_malloc]

text \<open>Requests that are refused without a look at the state.\<close>

lemma refusals:
  "p2malloc os 0 st = Some (NULL, st)" "p2malloc os (- 1) st = Some (NULL, st)"
  "p2calloc os 0 sz st = Some (NULL, st)" "p2calloc os nmemb 0 st = Some (NULL, st)"
  "p2calloc os (- 1) 2 st = Some (NULL, st)"
  by (simp_all add: p2malloc_def p2calloc_def)

lemmas refused_steps = runs_refused [OF refusals(1)] runs_refused [OF refusals(2)]
  runs_refused [OF refusals(3)] runs_refused [OF refusals(4)] runs_refused [OF refusals(5)]

lemmas test_steps = passes_testI refused_steps malloc_steps runs_malloc_large runs_asked runs_claimed runs_checks runs_end

lemma passes_malloc_zero_returns_null: "passes_test os 0 (test_malloc_zero_returns_null os)"
  unfolding test_malloc_zero_returns_null_def
  by (intro test_steps; simp)

lemma passes_malloc_negative_size_is_zero_returns_null:
  "passes_test os 0 (test_malloc_negative_size_is_zero_returns_null os)"
  unfolding test_malloc_negative_size_is_zero_returns_null_def
  by (intro test_steps; simp)

lemma passes_initial_allocated_is_zero: "passes_test os 0 test_initial_allocated_is_zero"
  unfolding test_initial_allocated_is_zero_def
  by (intro test_steps; simp)

lemma passes_initial_totmem_is_zero: "passes_test os 0 test_initial_totmem_is_zero"
  unfolding test_initial_totmem_is_zero_def
  by (intro test_steps; simp)

lemma passes_malloc_returns_nonnull: "passes_test os 1 (test_malloc_returns_nonnull os)"
  unfolding test_malloc_returns_nonnull_def
  by (intro test_steps; simp)

lemma passes_malloc_tracks_allocated: "passes_test os 1 (test_malloc_tracks_allocated os)"
  unfolding test_malloc_tracks_allocated_def
  by (intro test_steps; simp)

lemma passes_malloc_multiple_accumulates_allocated:
  "passes_test os 1 (test_malloc_multiple_accumulates_allocated os)"
  unfolding test_malloc_multiple_accumulates_allocated_def
  by (intro test_steps; simp)

lemma passes_malloc_mixed_sizes_tracks_allocated:
  "passes_test os 3 (test_malloc_mixed_sizes_tracks_allocated os)"
  unfolding test_malloc_mixed_sizes_tracks_allocated_def
  by (intro test_steps; simp)

lemma passes_first_alloc_claims_one_page: "passes_test os 1 (test_first_alloc_claims_one_page os)"
  unfolding test_first_alloc_claims_one_page_def
  by (intro test_steps; simp)

lemma passes_different_buckets_use_separate_pages:
  "passes_test os 2 (test_different_buckets_use_separate_pages os)"
  unfolding test_different_buckets_use_separate_pages_def
  by (intro test_steps; simp)

lemma passes_free_null_is_noop: "passes_test os 0 test_free_null_is_noop"
  unfolding test_free_null_is_noop_def
  by (rule passes_testI, rule runs_noop, simp add: p2free_def, rule runs_asked, rule runs_checks,
      simp, rule runs_end, simp)

lemma passes_free_decrements_allocated: "passes_test os 1 (test_free_decrements_allocated os)"
  unfolding test_free_decrements_allocated_def
  by (rule passes_testI, rule runs_malloc [where i = 0], simp, simp, rule runs_asked,
      rule runs_checks, simp, rule runs_free [where i = 0], simp, simp, rule runs_asked,
      rule runs_checks, simp, rule runs_end, simp)

lemma passes_free_all_returns_allocated_to_zero:
  "passes_test os 2 (test_free_all_returns_allocated_to_zero os)"
  unfolding test_free_all_returns_allocated_to_zero_def
  by (rule passes_testI, rule runs_malloc [where i = 0], simp, simp,
      rule runs_malloc [where i = 1], simp, simp, rule runs_malloc [where i = 1], simp, simp,
      rule runs_free [where i = 0 and sz = 10], simp, simp,
      rule runs_free [where i = 1 and sz = 20], simp, simp,
      rule runs_free [where i = 1 and sz = 30], simp, simp, rule runs_asked, rule runs_checks,
      simp, rule runs_end, simp)

lemma passes_free_does_not_shrink_totmem: "passes_test os 1 (test_free_does_not_shrink_totmem os)"
  unfolding test_free_does_not_shrink_totmem_def
  by (rule passes_testI, rule runs_malloc [where i = 0], simp, simp, rule runs_claimed,
      rule runs_free [where i = 0], simp, simp, rule runs_claimed, rule runs_checks, simp,
      rule runs_end, simp)

lemma passes_idx7_holds_1_block_per_page: "passes_test os 2 (test_idx7_holds_1_block_per_page os)"
  unfolding test_idx7_holds_1_block_per_page_def slab_max
  by (intro test_steps; simp)

lemma passes_large_alloc_succeeds: "passes_test os 1 (test_large_alloc_succeeds os)"
  unfolding test_large_alloc_succeeds_def
  by (rule passes_testI, simp only: slab_max, rule runs_malloc_large, simp, simp, simp,
      rule runs_checks, simp, rule runs_free_large, simp, simp, simp, rule runs_end, simp)

lemma passes_large_alloc_tracks_allocated: "passes_test os 1 (test_large_alloc_tracks_allocated os)"
  unfolding test_large_alloc_tracks_allocated_def slab_max Let_def
  by (intro test_steps; simp)

lemma passes_large_alloc_free_recovers_allocated_and_totmem:
  "passes_test os 1 (test_large_alloc_free_recovers_allocated_and_totmem os)"
  unfolding test_large_alloc_free_recovers_allocated_and_totmem_def
  by (rule passes_testI, simp only: slab_max Let_def, rule runs_malloc_large, simp, simp, simp,
      rule runs_claimed, rule runs_checks, simp, rule runs_free_large, simp, simp, simp,
      rule runs_asked, rule runs_checks, simp, rule runs_claimed, rule runs_checks, simp,
      rule runs_end, simp)

lemma passes_calloc_zero_count_returns_null:
  "passes_test os 0 (test_calloc_zero_count_returns_null os)"
  unfolding test_calloc_zero_count_returns_null_def
  by (intro test_steps; simp)

lemma passes_calloc_zero_size_returns_null:
  "passes_test os 0 (test_calloc_zero_size_returns_null os)"
  unfolding test_calloc_zero_size_returns_null_def
  by (intro test_steps; simp)

lemma passes_calloc_overflow_returns_null: "passes_test os 0 (test_calloc_overflow_returns_null os)"
  unfolding test_calloc_overflow_returns_null_def
  by (intro test_steps; simp)

lemma passes_same_bucket_allocs_share_page:
  "passes_test os 1 (test_same_bucket_allocs_share_page os)"
  unfolding test_same_bucket_allocs_share_page_def
  by (rule passes_testI, subst upt_0, simp, rule runs_mallocs_page [where i = 0], simp, simp, simp,
      simp, simp, (rule runs_check_only, simp | rule runs_Returns, assumption), rule runs_claimed,
      rule runs_checks, simp, rule runs_end, simp)

lemma passes_overflow_claims_second_page: "passes_test os 2 (test_overflow_claims_second_page os)"
  unfolding test_overflow_claims_second_page_def
  by (rule passes_testI, subst upt_0, simp, rule runs_mallocs_page [where i = 0], simp, simp, simp,
      simp, simp, (rule runs_check_only, simp | rule runs_Returns, assumption), rule runs_claimed,
      rule runs_checks, simp, rule runs_malloc [where i = 0], simp, simp, rule runs_claimed,
      rule runs_checks, simp, rule runs_end, simp)

lemma passes_idx0_holds_128_blocks_per_page:
  "passes_test os 2 (test_idx0_holds_128_blocks_per_page os)"
  unfolding test_idx0_holds_128_blocks_per_page_def
  by (rule passes_testI, subst upt_0, simp, rule runs_mallocs_page [where i = 0], simp, simp, simp,
      simp, simp, (rule runs_check_only, simp | rule runs_Returns, assumption), rule runs_claimed,
      rule runs_checks, simp, rule runs_malloc [where i = 0], simp, simp, rule runs_claimed,
      rule runs_checks, simp, rule runs_end, simp)

lemma passes_idx1_holds_64_blocks_per_page:
  "passes_test os 2 (test_idx1_holds_64_blocks_per_page os)"
  unfolding test_idx1_holds_64_blocks_per_page_def
  by (rule passes_testI, subst upt_0, simp, rule runs_mallocs_page [where i = 1], simp, simp, simp,
      simp, simp, (rule runs_check_only, simp | rule runs_Returns, assumption), rule runs_claimed,
      rule runs_checks, simp, rule runs_malloc [where i = 1], simp, simp, rule runs_claimed,
      rule runs_checks, simp, rule runs_end, simp)

lemma passes_large_alloc_is_aligned: "passes_test os 1 (test_large_alloc_is_aligned os)"
  unfolding test_large_alloc_is_aligned_def
  by (rule passes_testI, rule runs_malloc_large, simp, simp, simp, rule runs_checks, simp,
      rule runs_aligned, simp, rule runs_checks, simp, rule runs_free_large, simp, simp, simp,
      rule runs_end, simp)

lemma passes_free_zeroes_first_word_of_payload:
  "passes_test os 1 (test_free_zeroes_first_word_of_payload os)"
  unfolding test_free_zeroes_first_word_of_payload_def
  by (rule passes_testI, rule runs_malloc [where i = 0], simp, simp, rule runs_put_int, simp, simp,
      rule runs_free_zero [where i = 0], simp, simp, rule runs_reads [where v = 0], simp,
      rule runs_forget, rule runs_checks, simp, rule runs_end, simp)

lemma passes_large_alloc_is_readable_and_writable:
  "passes_test os 1 (test_large_alloc_is_readable_and_writable os)"
  unfolding test_large_alloc_is_readable_and_writable_def
  by (rule passes_testI, simp only: Let_def, rule runs_malloc_large, simp, simp, simp,
      rule runs_checks, simp, rule runs_fill, simp, simp, rule runs_get_char [where j = 0], simp,
      simp, simp, simp, rule runs_checks, simp, rule runs_get_char [where j = 1048575], simp, simp,
      simp, simp, rule runs_checks, simp, rule runs_forget, rule runs_free_large, simp, simp, simp,
      rule runs_end, simp)

lemma passes_calloc_returns_nonnull: "passes_test os 1 (test_calloc_returns_nonnull os)"
  unfolding test_calloc_returns_nonnull_def
  by (rule passes_testI, rule runs_calloc [where i = 1], simp, simp, simp, rule runs_forget,
      rule runs_checks, simp, rule runs_end, simp)

lemma passes_realloc_null_ptr_acts_as_malloc:
  "passes_test os 1 (test_realloc_null_ptr_acts_as_malloc os)"
  unfolding test_realloc_null_ptr_acts_as_malloc_def p2realloc_NULL
  by (intro test_steps; simp)

lemma passes_realloc_zero_size_acts_as_free:
  "passes_test os 1 (test_realloc_zero_size_acts_as_free os)"
  unfolding test_realloc_zero_size_acts_as_free_def
  by (rule passes_testI, rule runs_malloc [where i = 1], simp, simp,
      rule runs_realloc_zero [where i = 1], assumption, simp, simp, rule runs_asked,
      rule runs_checks, simp, rule runs_end, simp)

lemma passes_realloc_same_bucket_returns_same_ptr:
  "passes_test os 1 (test_realloc_same_bucket_returns_same_ptr os)"
  unfolding test_realloc_same_bucket_returns_same_ptr_def
  by (rule passes_testI, rule runs_malloc [where i = 0], simp, simp,
      rule runs_resize [where i = 0], simp, simp, simp, rule runs_checks, simp, rule runs_asked,
      rule runs_checks, simp, rule runs_end, simp)

lemma passes_allocs_return_distinct_pointers:
  "passes_test os 1 (test_allocs_return_distinct_pointers os)"
  unfolding test_allocs_return_distinct_pointers_def
  by (rule passes_testI, rule runs_malloc [where i = 0], simp, simp,
      rule runs_malloc [where i = 0], simp, simp, rule runs_malloc [where i = 0], simp, simp,
      rule runs_fact, erule distinct_after, elim conjE, rule runs_checks, simp, rule runs_checks,
      simp, rule runs_checks, simp, rule runs_checks, simp, rule runs_checks, simp,
      rule runs_checks, simp, rule runs_end, simp)

text \<open>The sizes from 1 to 512: at most one mapping for each.\<close>

definition room_left :: "os \<Rightarrow> (nat \<Rightarrow> (addr \<times> nat) list \<Rightarrow> bool) \<Rightarrow> nat \<Rightarrow> p2state \<Rightarrow> bool" where
  "room_left os room k st \<longleftrightarrow> (\<exists>n fl tot bs. k \<le> n \<and> stands os room n fl tot bs st)"

lemma room_leftI: "stands os room n fl tot bs st \<Longrightarrow> k \<le> n \<Longrightarrow> room_left os room k st"
  unfolding room_left_def by blast

lemma runs_room_left:
  assumes "\<And>n fl tot bs. k \<le> n \<Longrightarrow> runs_to (stands os room n fl tot bs) f Q"
  shows "runs_to (room_left os room k) f Q"
  using assms by (auto simp: runs_to_def room_left_def)

lemma aligned_step:
  assumes sz: "sz \<noteq> 0" "unat sz \<le> 4080"
  shows "runs_to (room_left os room (Suc k)) (calls (p2malloc os sz) (\<lambda>p. checks (TEST_ASSERT_NOT_NULL p 119)
     (checks (TEST_ASSERT_EQUAL_INT 0 (ucast (p mod BIGGEST_ALIGNMENT)) 120) Returns))) (room_left os room k)"
proof (rule runs_room_left)
  fix n fl tot bs assume n: "Suc k \<le> n"
  obtain i where i: "slab_size i sz" using slab_size_idx [OF sz] by blast
  show "runs_to (stands os room n fl tot bs) (calls (p2malloc os sz) (\<lambda>p. checks (TEST_ASSERT_NOT_NULL p 119)
     (checks (TEST_ASSERT_EQUAL_INT 0 (ucast (p mod BIGGEST_ALIGNMENT)) 120) Returns))) (room_left os room k)"
    by (rule runs_malloc [OF i], use n in simp, rule runs_aligned, rule union_single_eq_member, rule refl,
        rule runs_checks, simp, rule runs_checks, simp,
        rule runs_Returns, erule room_leftI, use n in auto)
qed

lemma passes_returned_pointer_is_aligned: "passes_test os 512 (test_returned_pointer_is_aligned os)"
  unfolding test_returned_pointer_is_aligned_def
proof (rule passes_testI)
  fix room k
  let ?body = "\<lambda>sz. calls (p2malloc os (of_nat sz)) (\<lambda>p. checks (TEST_ASSERT_NOT_NULL p 119)
     (checks (TEST_ASSERT_EQUAL_INT 0 (ucast (p mod BIGGEST_ALIGNMENT)) 120) Returns))"
  let ?P = "\<lambda>j. room_left os room (512 - j + k)"
  have "runs_to (?P 0) (for_each [1..<513] ?body Returns) (leaves room k)"
  proof (rule runs_for_each [of _ ?P])
    fix j assume j: "j < length [1..<513]"
    then have u: "[1..<513] ! j = Suc j" "unat (of_nat (Suc j) :: u64) = Suc j" "512 - j + k = Suc (512 - Suc j + k)"
      by (simp_all add: unat_of_nat del: of_nat_Suc)
    have "of_nat (Suc j) \<noteq> (0 :: u64)" "unat (of_nat (Suc j) :: u64) \<le> 4080"
      using u(2) j by (auto simp: word_unat_eq_iff simp del: of_nat_Suc)
    then show "runs_to (?P j) (?body ([1..<513] ! j)) (?P (Suc j))" unfolding u(1,3) by (rule aligned_step)
  next
    show "runs_to (?P (length [1..<513])) Returns (leaves room k)"
      by (intro runs_room_left runs_end) simp
  qed
  then show "runs_to (stands os room (512 + k) [0, 0, 0, 0, 0, 0, 0, 0] 0 {#}) (for_each [1..<513] ?body Returns) (leaves room k)"
    by (rule runs_weak) (simp add: room_leftI)
qed

lemma passes_calloc_zeroes_memory: "passes_test os 1 (test_calloc_zeroes_memory os)"
  unfolding test_calloc_zeroes_memory_def
  by (rule passes_testI, rule runs_calloc [where i = 2], simp, simp, simp, rule runs_checks, simp,
      rule runs_ints, simp, simp, simp, rule runs_forget, rule runs_end, simp)

lemma passes_realloc_larger_bucket_copies_data:
  "passes_test os 2 (test_realloc_larger_bucket_copies_data os)"
  unfolding test_realloc_larger_bucket_copies_data_def
  by (rule passes_testI, rule runs_malloc [where i = 0], simp, simp, rule runs_fill, simp, simp,
      rule runs_move [where i = 0 and j = 2], simp, simp, simp, simp, simp, simp, rule runs_checks,
      simp, rule runs_chars, simp, simp, simp, rule runs_forget, rule runs_end, simp)

lemma passes_realloc_smaller_bucket_copies_data:
  "passes_test os 2 (test_realloc_smaller_bucket_copies_data os)"
  unfolding test_realloc_smaller_bucket_copies_data_def
  by (rule passes_testI, rule runs_malloc [where i = 3], simp, simp, rule runs_fill, simp, simp,
      rule runs_move [where i = 3 and j = 0], simp, simp, simp, simp, simp, simp, rule runs_checks,
      simp, rule runs_chars, simp, simp, simp, rule runs_forget, rule runs_end, simp)

lemma passes_freelist_reuse_avoids_new_page:
  "passes_test os 1 (test_freelist_reuse_avoids_new_page os)"
  unfolding test_freelist_reuse_avoids_new_page_def
proof (rule passes_testI)
  fix room k
  let ?K = "\<lambda>ptrs. reads claimed (\<lambda>before.
     for_each [0..<128] (\<lambda>i. does (p2free (ptrs ! i)) Returns)
     (for_each [0..<128] (\<lambda>i. calls (p2malloc os 12) (\<lambda>p. checks (TEST_ASSERT_NOT_NULL p 186) Returns))
     (reads claimed (\<lambda>n. checks (ASSERT_SZ_EQ before n 187) Returns))))"
  have first: "malloc_array os 128 12 [] ?K = calls (p2malloc os 12) (\<lambda>p. malloc_array os 127 12 [p] ?K)"
    using malloc_array.simps(2) [of os 127 12 "[]"] by simp
  have full: "runs_to (stands os room k [0, 0, 0, 0, 0, 0, 0, 0] 4096 (held_blocks 12 ps)) (?K ps) (leaves room k)"
    if "length ps = 128" for ps
    by (rule runs_claimed,
        rule runs_frees [where i = 0], simp, simp, simp add: that,
        rule runs_mallocs_free [where i = 0], simp, simp, simp,
        rule runs_check_only, simp,
        rule runs_claimed, rule runs_checks, simp, rule runs_end, simp)
  have "runs_to (stands os room k [127, 0, 0, 0, 0, 0, 0, 0] 4096 (held_blocks 12 [p]))
      (malloc_array os 127 12 [p] ?K) (leaves room k)" for p
  proof (rule runs_malloc_array [where i = 0])
    fix ps :: "addr list" assume "length ps = length [p] + 127"
    with full [of ps] show "runs_to (stands os room k ([127, 0, 0, 0, 0, 0, 0, 0][0 := [127, 0, 0, 0, 0, 0, 0, 0] ! 0 - 127])
        4096 (held_blocks 12 ps)) (?K ps) (leaves room k)" by simp
  qed simp_all
  then show "runs_to (stands os room (1 + k) [0, 0, 0, 0, 0, 0, 0, 0] 0 {#}) (malloc_array os 128 12 [] ?K) (leaves room k)"
    unfolding first by (intro runs_malloc [where i = 0]) simp_all
qed

section \<open>The suite\<close>

text \<open>What each test needs of the kernel, in the order of \<open>unit_tests\<close>.\<close>

definition needs :: "nat list" where
  "needs = [0, 0, 0, 0, 1, 1, 1, 3, 1, 1, 2, 2, 1, 512, 1, 0, 1, 2, 1, 1, 1, 2, 2, 2, 1, 1, 1, 1,
     1, 1, 0, 0, 0, 1, 1, 1, 2, 2]"

lemma sum_needs: "sum_list needs = 551"
  by (simp add: needs_def)

lemmas passes_each =
  passes_malloc_zero_returns_null passes_malloc_negative_size_is_zero_returns_null
  passes_initial_allocated_is_zero passes_initial_totmem_is_zero
  passes_malloc_returns_nonnull passes_malloc_tracks_allocated
  passes_malloc_multiple_accumulates_allocated passes_malloc_mixed_sizes_tracks_allocated
  passes_first_alloc_claims_one_page passes_same_bucket_allocs_share_page
  passes_overflow_claims_second_page passes_different_buckets_use_separate_pages
  passes_allocs_return_distinct_pointers passes_returned_pointer_is_aligned
  passes_large_alloc_is_aligned passes_free_null_is_noop
  passes_free_decrements_allocated passes_free_all_returns_allocated_to_zero
  passes_free_zeroes_first_word_of_payload passes_free_does_not_shrink_totmem
  passes_freelist_reuse_avoids_new_page passes_idx0_holds_128_blocks_per_page
  passes_idx1_holds_64_blocks_per_page passes_idx7_holds_1_block_per_page
  passes_large_alloc_succeeds passes_large_alloc_tracks_allocated
  passes_large_alloc_free_recovers_allocated_and_totmem passes_large_alloc_is_readable_and_writable
  passes_calloc_returns_nonnull passes_calloc_zeroes_memory
  passes_calloc_zero_count_returns_null passes_calloc_zero_size_returns_null
  passes_calloc_overflow_returns_null passes_realloc_null_ptr_acts_as_malloc
  passes_realloc_zero_size_acts_as_free passes_realloc_same_bucket_returns_same_ptr
  passes_realloc_larger_bucket_copies_data passes_realloc_smaller_bucket_copies_data

lemma unit_tests_each: "list_all2 (passes_test os) needs (map fst (unit_tests os))"
  unfolding needs_def unit_tests_def list.map fst_conv
  by (intro list_all2_Cons[THEN iffD2] conjI list_all2_Nil[THEN iffD2] TrueI refl passes_each)

text \<open>What the framework does for a test that passes, and what it prints.\<close>

definition after_pass :: "string \<Rightarrow> u32 \<Rightarrow> unity \<Rightarrow> unity" where
  "after_pass name line u = UnityConcludeTest (UNITY_CLR_DETAILS (u\<lparr>CurrentTestName := Some name,
     CurrentTestLineNumber := scast line, NumberOfTests := NumberOfTests u + 1\<rparr>))"

definition pass_line :: "string option \<Rightarrow> string \<times> u32 \<Rightarrow> string" where
  "pass_line file t = begin_text file (scast (snd t)) (Some (fst t)) @ ''PASS'' @ [CHR 0x0A]"

lemma print_summary:
  "UnityPrintS UnityStrPass u = emit ''PASS'' u" "UnityPrintS UnityStrOk u = emit ''OK'' u"
  "UnityPrintS UnityStrBreaker u = emit ''-----------------------'' u"
  "UnityPrintS UnityStrResultsTests u = emit '' Tests '' u"
  "UnityPrintS UnityStrResultsFailures u = emit '' Failures '' u"
  "UnityPrintS UnityStrResultsIgnored u = emit '' Ignored '' u"
  by (simp_all add: UnityStrPass_def UnityStrOk_def UnityStrBreaker_def UnityStrResultsTests_def UnityStrResultsFailures_def
      UnityStrResultsIgnored_def print_plain plain_def)

lemma after_pass_facts:
  assumes "idle u"
  shows "idle (after_pass name line u)" and "TestFile (after_pass name line u) = TestFile u"
    and "NumberOfTests (after_pass name line u) = NumberOfTests u + 1"
    and "TestFailures (after_pass name line u) = TestFailures u"
    and "TestIgnores (after_pass name line u) = TestIgnores u"
    and "outchars (after_pass name line u) = outchars u @ pass_line (TestFile u) (name, line)"
  using assms by (simp_all add: after_pass_def UnityConcludeTest_def idle_def print_summary emits
      UNITY_CLR_DETAILS_def pass_line_def)

lemma run_passing:
  assumes pass: "passes_test os n f" and s: "serves os room" and inv: "p2_inv st g"
    and room: "room (n + k) (regions (mem st))" and u: "idle u"
  obtains st' g' where "UnityDefaultTestRun setUp tearDown f name line (st, u) = Some (st', after_pass name line u)"
    and "p2_inv st' g'" and "room k (regions (mem st'))"
proof -
  let ?u = "UNITY_CLR_DETAILS (u\<lparr>CurrentTestName := Some name,
     CurrentTestLineNumber := scast line, NumberOfTests := NumberOfTests u + 1\<rparr>)"
  obtain st1 where st1: "p2reset st = Some st1" "p2_rel st1 a_empty" "regions (mem st1) = regions (mem st)"
    using p2reset_spec [OF inv] by blast
  have "stands os room (n + k) [0, 0, 0, 0, 0, 0, 0, 0] 0 {#} st1"
    using s st1(2,3) room by (auto simp: stands_def eval_nat_numeral intro!: exI [of _ a_empty])
  moreover have "idle ?u" using u by (simp add: idle_def UNITY_CLR_DETAILS_def)
  ultimately obtain st' where st': "f (st1, ?u) = Returns (st', ?u)" "leaves room k st'"
    using pass runs_toD unfolding passes_test_def by blast
  have "UnityDefaultTestRun setUp tearDown f name line (st, u) = Some (st', after_pass name line u)"
    using st1(1) st'(1) by (simp add: UnityDefaultTestRun_def setUp_def tearDown_def does_def
        TEST_PROTECT_def after_pass_def Let_def)
  then show ?thesis using that st'(2) by (auto simp: leaves_def)
qed

lemma run_passing_tests:
  assumes s: "serves os room"
  shows "list_all2 (passes_test os) ns (map fst ts) \<Longrightarrow> p2_inv st g \<Longrightarrow>
    room (sum_list ns + k) (regions (mem st)) \<Longrightarrow> idle u \<Longrightarrow>
    \<exists>st' u'. run_tests setUp tearDown ts (st, u) = Some (st', u') \<and> TestFile u' = TestFile u
      \<and> NumberOfTests u' = NumberOfTests u + of_nat (length ts) \<and> TestFailures u' = TestFailures u
      \<and> TestIgnores u' = TestIgnores u
      \<and> outchars u' = outchars u @ concat (map (pass_line (TestFile u)) (map snd ts))"
proof (induction ts arbitrary: ns st g u)
  case Nil
  then show ?case by simp
next
  case (Cons t ts)
  obtain f name line where t: "t = (f, name, line)" by (cases t)
  obtain n ns' where ns: "ns = n # ns'" "passes_test os n f" "list_all2 (passes_test os) ns' (map fst ts)"
    using Cons.prems(1) by (auto simp: t list_all2_Cons2)
  have "room (n + (sum_list ns' + k)) (regions (mem st))" using Cons.prems(3) by (simp add: ns add.assoc)
  then obtain st1 g1 where 1: "UnityDefaultTestRun setUp tearDown f name line (st, u) = Some (st1, after_pass name line u)"
      "p2_inv st1 g1" "room (sum_list ns' + k) (regions (mem st1))"
    using run_passing [OF ns(2) s Cons.prems(2) _ Cons.prems(4)] by blast
  note ap = after_pass_facts [OF Cons.prems(4), of name line]
  from Cons.IH [OF ns(3) 1(2,3) ap(1)] show ?case
    using 1(1) ap(2-6) by (auto simp: t add.assoc)
qed

definition summary_text :: string where
  "summary_text = [CHR 0x0A] @ ''-----------------------'' @ [CHR 0x0A]
     @ ''38 Tests 0 Failures 0 Ignored '' @ [CHR 0x0A] @ ''OK'' @ [CHR 0x0A]"

lemma end_of_suite:
  assumes "NumberOfTests u = 38" and "TestFailures u = 0" and "TestIgnores u = 0"
  shows "UnityEnd u = (0, emit summary_text u)"
proof -
  have "show_int (sint (38 :: u64)) = ''38''" and "show_int (sint (0 :: u64)) = ''0''" by code_simp+
  then show ?thesis
    using assms by (simp add: UnityEnd_def emits Let_def print_summary summary_text_def)
qed

lemma length_unit_tests: "length (unit_tests os) = 38"
  by (simp add: unit_tests_def)

text \<open>C14. On a kernel that keeps the promises of \<open>mmap\<close> and has room for 551 mappings of at most two
  megabytes, the unit tests of test_p2malloc.c, run by the framework on the allocator, all end and all
  pass: the program prints a line with \<open>PASS\<close> for each, reports 38 tests without a failure and exits
  with status 0.\<close>

theorem unit_tests_pass:
  assumes "serves os room" and "p2_boot st" and "room 551 (regions (mem st))"
  shows "\<exists>st' u'. test_main os file (st, u) = Some (0, st', u')
    \<and> outchars u' = outchars u @ concat (map (pass_line file) (map snd (unit_tests os))) @ summary_text"
proof -
  let ?u = "UnityBegin file u"
  have u: "idle ?u" "TestFile ?u = file" "NumberOfTests ?u = 0" "TestFailures ?u = 0"
      "TestIgnores ?u = 0" "outchars ?u = outchars u"
    by (simp_all add: UnityBegin_def UNITY_CLR_DETAILS_def idle_def)
  have inv: "p2_inv st a_empty" using assms(2) by (simp add: p2_inv_def)
  have room: "room (sum_list needs + 0) (regions (mem st))" using assms(3) by (simp add: sum_needs)
  obtain st' u' where r: "run_tests setUp tearDown (unit_tests os) (st, ?u) = Some (st', u')"
      "NumberOfTests u' = 38" "TestFailures u' = 0" "TestIgnores u' = 0"
      "outchars u' = outchars u @ concat (map (pass_line file) (map snd (unit_tests os)))"
    using run_passing_tests [OF assms(1) unit_tests_each inv room u(1)] u(2-6)
    by (auto simp: length_unit_tests)
  then show ?thesis using end_of_suite [OF r(2-4)] by (simp add: test_main_def emit_def)
qed

lemma region_top_remove1: "region_top (remove1 r rs) \<le> region_top rs"
  by (rule region_top_le [OF region_top_ge]) (meson notin_set_remove1 region_top_bound)

lemma bump_serves: "serves bump_kernel (bump_room 2101248)"
  using kernel_ok_bump bump_grants [of 2097152]
  by (auto simp: serves_def bump_room_def intro: le_less_trans [OF add_right_mono [OF region_top_remove1]])

theorem unit_tests_pass_witness:
  "\<exists>st' u'. test_main bump_kernel (Some ''test_p2malloc.c'') (boot static_heads, fresh_unity) = Some (0, st', u')"
  using unit_tests_pass [OF bump_serves p2_boot_static boot_room [of 551 2101248]] by fastforce

end
