(* ===== verification/P2_Counters.thy ===== *)
theory P2_Counters
  imports P2_Client
begin

text \<open>
  The two counters along the runs of a client: \<open>p2totmem\<close> moves with the mappings of the process,
  call by call, and \<open>p2allocated\<close> is the sum of the sizes the client holds.  \<open>p2reset\<close> drops its pages
  without giving them back, so the runs carry the number of bytes that were mapped when \<open>p2totmem\<close>
  was last zero.
\<close>

section \<open>Mapped memory\<close>

definition mapped_bytes :: "cmem \<Rightarrow> nat" where
  "mapped_bytes m = sum_list (map snd (regions m))"

lemma mapped_bytes_regions: "regions m' = regions m \<Longrightarrow> mapped_bytes m' = mapped_bytes m"
  by (simp add: mapped_bytes_def)

lemma mapped_bytes_remove1:
  "(h, n) \<in> set (regions m) \<Longrightarrow> regions m' = remove1 (h, n) (regions m) \<Longrightarrow>
     mapped_bytes m = n + mapped_bytes m'"
  using sum_list_map_remove1 [of "(h, n)" "regions m" snd] by (simp add: mapped_bytes_def)

text \<open>What is mapped and \<open>p2totmem\<close> move together.\<close>

definition balanced :: "p2state \<Rightarrow> p2state \<Rightarrow> bool" where
  "balanced st st' \<longleftrightarrow>
     mapped_bytes (mem st') + unat (p2totmem st) = mapped_bytes (mem st) + unat (p2totmem st')"

lemma counters_of_inv:
  assumes "p2_inv st g"
  shows "unat (p2allocated st) = requested (a_live g)" and "unat (p2totmem st) = total (owned g)"
proof -
  have "requested (a_live g) < 2 ^ 64" and "total (owned g) < 2 ^ 64"
    using owned_bound [OF assms] requested_le_owned [OF assms] by simp_all
  then show "unat (p2allocated st) = requested (a_live g)" and "unat (p2totmem st) = total (owned g)"
    using inv_counters [OF assms]
    by (simp_all add: p2allocated_def p2totmem_def unsigned_of_nat take_bit_nat_eq_self_iff)
qed

lemma balancedI:
  assumes "p2_inv st g" and "p2_inv st' g'"
    and "mapped_bytes (mem st') + total (owned g) = mapped_bytes (mem st) + total (owned g')"
  shows "balanced st st'"
  using assms counters_of_inv(2) by (simp add: balanced_def)

section \<open>Each operation is balanced\<close>

lemma answers_nonzero: "kernel_ok os \<Longrightarrow> answers os st n = Some p \<Longrightarrow> n \<noteq> 0"
  unfolding answers_def kernel_ok_def mmap_ok_def by (auto split: bind_splits)

lemma a_malloc_owned:
  assumes len: "length (a_free g) = 8" and ans: "\<And>n p. ans n = Some p \<Longrightarrow> n \<noteq> 0"
  shows "total (owned (snd (a_malloc ans sz g)))
    = total (owned g) + sum_list (map snd (a_mappings ans sz g))"
proof -
  consider "sz = 0 \<or> SIZE_MAX - 16 < sz" | "\<not> (sz = 0 \<or> SIZE_MAX - 16 < sz)" "4080 < sz"
    | "\<not> (sz = 0 \<or> SIZE_MAX - 16 < sz)" "sz \<le> 4080" by fastforce
  then show ?thesis
  proof cases
    case 1
    then have "a_malloc ans sz g = (NULL, g)" unfolding a_malloc_def by (rule if_P)
    moreover have "a_mappings ans sz g = []"
      using 1 unfolding a_mappings_def Let_def by (intro if_P) blast
    ultimately show ?thesis by simp
  next
    case 2
    then show ?thesis
      using ans [of "page_align (16 + sz)"]
      by (auto simp: a_malloc_def a_mappings_def Let_def live_len_def split: option.split)
  next
    case 3
    then have "unat sz \<le> 4080" by (simp add: word_le_nat_alt)
    then obtain i where i: "get_freelist_idx sz = int i" "i < 8" using idx_slab by blast
    have small: "\<not> 4080 < sz" using 3(2) by simp
    show ?thesis
    proof (cases "a_free g ! i")
      case Nil
      have refill: "total (owned (a_refill g i p)) = total (owned g) + 4096" for p
        using extents_refill(2) [OF i(2) len Nil, of p] i(2) by (simp add: blocks_per_page page_blocks_def)
      have take: "owned (a_take (a_refill g i p) i sz) = owned (a_refill g i p)" for p
        using i len by (intro extents_take(2)) (simp_all add: page_not_empty)
      show ?thesis
        using 3 i Nil refill take
        by (auto simp: a_malloc_def a_malloc_slab_def a_mappings_def Let_def not_less split: option.split)
    next
      case (Cons x xs)
      then have "owned (a_take g i sz) = owned g" using i len by (intro extents_take(2)) simp_all
      then show ?thesis
        using 3 i Cons small by (simp add: a_malloc_def a_malloc_slab_def a_mappings_def Let_def)
    qed
  qed
qed

lemma malloc_owned:
  assumes "p2_inv st g" and "kernel_ok os"
    and "regions m = a_mappings (answers os st) sz g @ regions (mem st)"
  shows "mapped_bytes m + total (owned g)
    = mapped_bytes (mem st) + total (owned (snd (a_malloc (answers os st) sz g)))"
  using a_malloc_owned [OF a_free_length [OF assms(1)] answers_nonzero [OF assms(2)], where sz = sz]
  by (simp add: mapped_bytes_def assms(3))

lemma malloc_balanced:
  assumes "p2_inv st g" and "kernel_ok os" and "p2malloc os sz st = Some (r, st')"
  shows "balanced st st'"
  using p2malloc_spec [OF assms(1,2), of sz] assms(3)
  by (intro balancedI [OF assms(1) _ malloc_owned [OF assms(1,2)]]) auto

lemma calloc_balanced:
  assumes "p2_inv st g" and "kernel_ok os" and "p2calloc os n sz st = Some (r, st')"
  shows "balanced st st'"
proof (cases "n \<noteq> 0 \<and> sz \<noteq> 0 \<and> unat n * unat sz < 2 ^ 64")
  case False
  then have "p2calloc os n sz st = Some (NULL, st)"
    using calloc_overflow_iff [of sz n] by (auto simp: p2calloc_def)
  then have "st' = st" using assms(3) by simp
  then show ?thesis by (simp add: balanced_def)
next
  case True
  then show ?thesis
    using p2calloc_spec [OF assms(1,2), of n sz] assms(3)
    by (intro balancedI [OF assms(1) _ malloc_owned [OF assms(1,2)]]) auto
qed

lemma release_owned:
  assumes "p2_rel st g" and "(h, sz, al) \<in># a_live g"
  shows "total (owned g) = (if al = 0 then 0 else unat al) + total (owned (a_release g (h, sz, al)))"
proof (cases "al = 0")
  case True
  have "unat sz \<le> 4080" using live_ptr(6) [OF assms] True by (simp add: valid_live_def)
  then obtain i where i: "get_freelist_idx sz = int i" "i < 8" using idx_slab by blast
  have "length (a_free g) = 8" using a_free_length assms(1) by (auto simp: p2_inv_def)
  then show ?thesis using extents_give(2) [OF i(2) _ _ i(1)] assms(2) True i by (simp add: a_release_def)
next
  case False
  then show ?thesis using total_owned_unmap [OF assms(2)] by (simp add: a_release_def)
qed

lemma release_regions:
  assumes "p2_rel st g" and "(h, sz, al) \<in># a_live g"
    and "regions m' = (if al = 0 then regions (mem st) else remove1 (h, unat al) (regions (mem st)))"
  shows "mapped_bytes (mem st) = (if al = 0 then 0 else unat al) + mapped_bytes m'"
proof (cases "al = 0")
  case False
  have "(h, unat al) \<in> set (regions (mem st))"
    by (rule large_region [OF p2_memD(3) [OF p2_relD(2) [OF assms(1)] assms(2)] False])
  then show ?thesis using mapped_bytes_remove1 assms(3) False by simp
next
  case True
  then have "regions m' = regions (mem st)" using assms(3) by simp
  then have "mapped_bytes m' = mapped_bytes (mem st)" by (rule mapped_bytes_regions)
  then show ?thesis using True by simp
qed

lemma free_balanced:
  assumes "p2_rel st g" and "(h, sz, al) \<in># a_live g" and "p2free (h + 16) st = Some st'"
  shows "balanced st st'"
proof -
  have 1: "p2_rel st' (a_release g (h, sz, al))"
    "regions (mem st') = (if al = 0 then regions (mem st) else remove1 (h, unat al) (regions (mem st)))"
  proof -
    obtain st2 where st2: "p2free (h + 16) st = Some st2" "p2_rel st2 (a_release g (h, sz, al))"
      "regions (mem st2) = (if al = 0 then regions (mem st) else remove1 (h, unat al) (regions (mem st)))"
      using p2free_spec [OF assms(1,2)] by blast
    have "st2 = st'" using st2(1) assms(3) by simp
    then show "p2_rel st' (a_release g (h, sz, al))"
      "regions (mem st') = (if al = 0 then regions (mem st) else remove1 (h, unat al) (regions (mem st)))"
      using st2(2,3) by simp_all
  qed
  show ?thesis
    using release_owned [OF assms(1,2)] release_regions [OF assms(1,2) 1(2)] assms(1) 1(1)
    by (intro balancedI [of _ g _ "a_release g (h, sz, al)"]) (simp_all add: p2_inv_def)
qed

lemma realloc_balanced:
  assumes rel: "p2_rel st g" and l: "(h, old, al) \<in># a_live g" and ok: "kernel_ok os"
    and sz: "unat sz + 16 < 2 ^ 64" and run: "p2realloc os (h + 16) sz st = Some (r, st')"
  shows "balanced st st'"
proof -
  have inv: "p2_inv st g" using rel by (simp add: p2_inv_def)
  consider "sz = 0" | "sz \<noteq> 0" "al = 0" "get_freelist_idx sz = get_freelist_idx old"
    | "sz \<noteq> 0" "\<not> (al = 0 \<and> get_freelist_idx sz = get_freelist_idx old)" by blast
  then show ?thesis
  proof cases
    case 1
    then have "p2free (h + 16) st = Some st'"
      using run live_ptr(1) [OF rel l] by (auto simp: p2realloc_def split: bind_splits)
    then show ?thesis by (rule free_balanced [OF rel l])
  next
    case 2
    obtain m where "st' = st\<lparr>mem := m, allocated := allocated st - old + sz\<rparr>" "changes (span_of h 8) (mem st) m"
      using realloc_in_place [where os = os, OF rel l [unfolded 2(2)] 2(1) sz 2(3)] run by auto
    then show ?thesis
      using mapped_bytes_regions [OF changes_regions] by (simp add: balanced_def p2totmem_def)
  next
    case 3
    let ?am = "a_malloc (answers os st) sz g" and ?l = "(h, old, al)"
    let ?rs = "a_mappings (answers os st) sz g @ regions (mem st)"
    have 4: "p2_rel st' (if fst ?am = NULL then g else a_release (snd ?am) ?l)"
      "fst ?am = NULL \<longrightarrow> snd ?am = g"
      "regions (mem st') = (if fst ?am \<noteq> NULL \<and> al \<noteq> 0 then remove1 (h, unat al) else id) ?rs"
      using realloc_move [OF rel l ok 3] run by auto
    obtain st1 where st1: "p2malloc os sz st = Some (fst ?am, st1)" "p2_inv st1 (snd ?am)"
        "regions (mem st1) = ?rs"
      using p2malloc_spec [OF inv ok, of sz] by blast
    note b = malloc_owned [OF inv ok st1(3)]
    show ?thesis
    proof (cases "fst ?am = NULL")
      case True
      then have "mapped_bytes (mem st') = mapped_bytes (mem st1)"
        using 4(3) st1(3) by (intro mapped_bytes_regions) simp
      then show ?thesis using b 4(1,2) True by (intro balancedI [OF inv, of _ g]) (simp_all add: p2_inv_def)
    next
      case False
      have l1: "?l \<in># a_live (snd ?am)"
        using l by (cases rule: a_malloc_cases [OF a_free_length [OF inv], of "answers os st" sz]) auto
      have rel1: "p2_rel st1 (snd ?am)" by (rule live_not_boot [OF st1(2) l1])
      have "regions (mem st') = (if al = 0 then regions (mem st1) else remove1 (h, unat al) (regions (mem st1)))"
        using 4(3) st1(3) False by simp
      from release_regions [OF rel1 l1 this] show ?thesis
        using release_owned [OF rel1 l1] b 4(1) False
        by (intro balancedI [OF inv, of _ "a_release (snd ?am) ?l"]) (simp_all add: p2_inv_def)
    qed
  qed
qed

section \<open>Runs with a base\<close>

text \<open>A call, with the number of bytes that were mapped at the start or at the last \<open>p2reset\<close>.\<close>

definition counted_call :: "os \<Rightarrow> nat \<times> p2state \<Rightarrow> call \<Rightarrow> (u64 \<times> nat \<times> p2state) option" where
  "counted_call os = (\<lambda>(base, st) c. do {
     (r, st') \<leftarrow> run_call os c st;
     Some (r, if c = Reset then mapped_bytes (mem st') else base, st')
   })"

definition counted_rel :: "os \<Rightarrow> nat \<times> p2state \<Rightarrow> heap \<Rightarrow> bool" where
  "counted_rel os = (\<lambda>(base, st) H. client_rel (os, st) H
     \<and> mapped_bytes (mem st) = base + unat (p2totmem st))"

lemma run_call_balanced:
  assumes rel: "client_rel (os, st) H" and pre: "call_ok H c" and run: "run_call os c st = Some (r, st')"
    and c: "c \<noteq> Reset"
  shows "balanced st st'"
proof -
  obtain g where ok: "kernel_ok os" and inv: "p2_inv st g" and sh: "shows_heap (mem st) (a_live g) H"
    using rel by (auto simp: client_rel_def)
  have held: "\<exists>h sz al. (h, sz, al) \<in># a_live g \<and> p = h + 16 \<and> p2_rel st g" if "H p \<noteq> None" for p
  proof -
    from that have "\<exists>bs. H p = Some bs" by auto
    then obtain bs where "H p = Some bs" ..
    then obtain h sz al where "(h, sz, al) \<in># a_live g" "p = h + 16" using shows_heapD [OF sh] by metis
    then show ?thesis using live_not_boot [OF inv] by blast
  qed
  show ?thesis
  proof (cases c)
    case (Malloc sz)
    then show ?thesis using malloc_balanced [OF inv ok] run by simp
  next
    case (Calloc n sz)
    then show ?thesis using calloc_balanced [OF inv ok] run by simp
  next
    case (Realloc p sz)
    show ?thesis
    proof (cases "p = NULL")
      case True
      then show ?thesis using malloc_balanced [OF inv ok, of sz] run Realloc by (simp add: p2realloc_def)
    next
      case False
      with pre Realloc held [of p] obtain h old al where l: "(h, old, al) \<in># a_live g" "p = h + 16" "p2_rel st g"
        by auto
      have "p2realloc os (h + 16) sz st = Some (r, st')" "unat sz + 16 < 2 ^ 64"
        using run pre Realloc l(2) by simp_all
      then show ?thesis by (intro realloc_balanced [OF l(3,1) ok])
    qed
  next
    case (Free p)
    show ?thesis
    proof (cases "p = NULL")
      case True
      then have "st' = st" using run Free by (simp add: p2free_def)
      then show ?thesis by (simp add: balanced_def)
    next
      case False
      with pre Free held [of p] obtain h sz al where l: "(h, sz, al) \<in># a_live g" "p = h + 16" "p2_rel st g"
        by auto
      then show ?thesis using free_balanced [OF l(3,1)] run Free by (auto split: bind_splits)
    qed
  next
    case (Write p k v)
    then obtain m where "st' = st\<lparr>mem := m\<rparr>" "store8 (mem st) (p + of_nat k) v = Some m"
      using run by (auto split: bind_splits)
    moreover from this(2) have "regions m = regions (mem st)" by (auto simp: store8_def split: if_splits)
    moreover from this have "mapped_bytes m = mapped_bytes (mem st)" by (intro mapped_bytes_regions)
    ultimately show ?thesis by (simp add: balanced_def p2totmem_def)
  next
    case (Read p k)
    then have "st' = st" using run by (auto split: bind_splits)
    then show ?thesis by (simp add: balanced_def)
  next
    case Reset
    with c show ?thesis by simp
  qed
qed

interpretation counted: simulation "counted_call os" heap_step call_ok "counted_rel os" for os
proof unfold_locales
  fix s H c assume cr: "counted_rel os s H" and pre: "call_ok H c"
  obtain base st where s: "s = (base, st)" by (cases s)
  have rel: "client_rel (os, st) H" and bal: "mapped_bytes (mem st) = base + unat (p2totmem st)"
    using cr by (simp_all add: s counted_rel_def)
  obtain r st' H' where call: "run_call os c st = Some (r, st')" "heap_step H c r H'" "client_rel (os, st') H'"
    using run_call_sim [OF rel pre] by blast
  let ?base = "if c = Reset then mapped_bytes (mem st') else base"
  have "mapped_bytes (mem st') = ?base + unat (p2totmem st')"
  proof (cases "c = Reset")
    case True
    then have "p2totmem st' = 0"
      using call(1) by (auto simp: p2reset_def p2totmem_def split: bind_splits)
    then show ?thesis using True by simp
  next
    case False
    then show ?thesis using run_call_balanced [OF rel pre call(1)] bal by (simp add: balanced_def)
  qed
  then show "\<exists>r s' H'. counted_call os s c = Some (r, s') \<and> heap_step H c r H' \<and> counted_rel os s' H'"
    using call by (auto simp: s counted_call_def counted_rel_def)
qed

lemma counted_boot: "p2_boot st \<Longrightarrow> kernel_ok os \<Longrightarrow> counted_rel os (mapped_bytes (mem st), st) (\<lambda>_. None)"
  by (simp add: counted_rel_def client_rel_boot p2_boot_def p2totmem_def)

section \<open>The sizes a client holds\<close>

lemma held_sizes:
  assumes inv: "p2_inv st g" and sh: "shows_heap (mem st) (a_live g) H"
  shows "finite (dom H)" and "requested (a_live g) = (\<Sum>p \<in> dom H. length (the (H p)))"
    and "size (a_live g) = card (dom H)"
proof -
  let ?A = "set_mset (a_live g)" and ?p = "\<lambda>l. fst l + 16"
  have one: "fst l' \<noteq> fst l" if "l \<in># a_live g" "l' \<in># a_live g - {#l#}" for l l'
    using live_unique [OF live_not_boot [OF inv that(1)] that] .
  have inj: "inj_on ?p ?A"
  proof (rule inj_onI)
    fix l l' assume "l \<in> ?A" "l' \<in> ?A" "fst l + 16 = fst l' + (16 :: u64)"
    then show "l = l'" using one [of l l'] by (cases "l' = l") (auto simp: in_diff_count)
  qed
  have "count (a_live g) l = 1" if "l \<in># a_live g" for l
  proof (rule ccontr)
    assume "count (a_live g) l \<noteq> 1"
    moreover have "0 < count (a_live g) l" using that by simp
    ultimately have "1 < count (a_live g) l" by linarith
    then have "l \<in># a_live g - {#l#}" by (simp add: in_diff_count)
    then show False using one [OF that] by blast
  qed
  then have set: "a_live g = mset_set ?A" by (intro multiset_eqI) (auto simp: count_mset_set' not_in_iff)
  have dom: "dom H = ?p ` ?A"
  proof -
    have "p \<in> dom H \<longleftrightarrow> (\<exists>h sz al. (h, sz, al) \<in># a_live g \<and> p = h + 16)" for p
      using sh unfolding shows_heap_def dom_def by auto
    then have "p \<in> dom H \<longleftrightarrow> p \<in> ?p ` ?A" for p by (simp add: image_iff Bex_def)
    then show ?thesis by (rule set_eqI)
  qed
  have len: "length (the (H (?p l))) = unat (fst (snd l))" if "l \<in> ?A" for l
    using shows_heapI [OF sh, of "fst l" "fst (snd l)" "snd (snd l)"] that by simp
  show "finite (dom H)" by (simp add: dom)
  have "requested (a_live g) = (\<Sum>l \<in> ?A. unat (fst (snd l)))"
    by (subst set) (simp add: requested_def sum_unfold_sum_mset case_prod_unfold)
  also have "\<dots> = (\<Sum>p \<in> dom H. length (the (H p)))"
    using inj len by (simp add: dom sum.reindex)
  finally show "requested (a_live g) = (\<Sum>p \<in> dom H. length (the (H p)))" .
  have "size (a_live g) = card ?A" by (subst set) simp
  then show "size (a_live g) = card (dom H)" using inj by (simp add: dom card_image)
qed

lemma client_counters:
  assumes "client_rel (os, st) H"
  shows "finite (dom H)" and "unat (p2allocated st) = (\<Sum>p \<in> dom H. length (the (H p)))"
    and "unat (p2allocated st) + 16 * card (dom H) \<le> unat (p2totmem st)"
proof -
  obtain g where inv: "p2_inv st g" and sh: "shows_heap (mem st) (a_live g) H"
    using assms by (auto simp: client_rel_def)
  note held = held_sizes [OF inv sh] and cnt = counters_of_inv [OF inv]
  show "finite (dom H)" "unat (p2allocated st) = (\<Sum>p \<in> dom H. length (the (H p)))"
    using held cnt by simp_all
  show "unat (p2allocated st) + 16 * card (dom H) \<le> unat (p2totmem st)"
    using requested_le_owned [OF inv] held(3) cnt by simp
qed

end
