(* ===== verification/Unity_Variants.thy ===== *)
theory Unity_Variants
  imports Unity_Macros_Correct Unity_Details "HOL-Library.Signed_Division"
begin

text \<open>
  What the framework does under the build options the repository leaves off: coloured output
  (\<open>UNITY_OUTPUT_COLOR\<close>), execution times (\<open>UNITY_INCLUDE_EXEC_TIME\<close>), the report formats of three
  development environments, and the assertions of excluded types.
\<close>

section \<open>Colours\<close>

definition UnityStrOk_color :: string where
  "UnityStrOk_color = CHR 0x1B # ''[42mOK'' @ CHR 0x1B # ''[0m''"

definition UnityStrPass_color :: string where
  "UnityStrPass_color = CHR 0x1B # ''[42mPASS'' @ CHR 0x1B # ''[0m''"

definition UnityStrFail_color :: string where
  "UnityStrFail_color = CHR 0x1B # ''[41mFAIL'' @ CHR 0x1B # ''[0m''"

definition UnityStrIgnore_color :: string where
  "UnityStrIgnore_color = CHR 0x1B # ''[43mIGNORE'' @ CHR 0x1B # ''[0m''"

text \<open>
  With colours \<open>UnityPrint\<close> looks behind the character it is at, so the object a string lies in counts:
  \<open>buf\<close> are the characters of the object, a pointer is an index, and reading behind the end is \<open>None\<close>.
\<close>

definition char_in :: "string \<Rightarrow> nat \<Rightarrow> char option" where
  "char_in buf i = (if i < length buf then Some (buf ! i) else None)"

lemma char_in_simps [simp]:
  "char_in [] i = None" "char_in (c # buf) 0 = Some c" "char_in (c # buf) (Suc i) = char_in buf i"
  by (simp_all add: char_in_def)

text \<open>The result is the number of characters printed, and the framework.\<close>

function UnityPrintAnsiEscape_loop :: "string \<Rightarrow> nat \<Rightarrow> nat \<Rightarrow> unity \<Rightarrow> (nat \<times> unity) option" where
  "UnityPrintAnsiEscape_loop buf pch cnt u =
     (case char_in buf pch of
        None \<Rightarrow> None
      | Some c \<Rightarrow>
          if c \<noteq> CHR 0x00 \<and> c \<noteq> CHR ''m''
          then UnityPrintAnsiEscape_loop buf (pch + 1) (cnt + 1) (UNITY_OUTPUT_CHAR c u)
          else Some (cnt, u))"
  by pat_completeness auto
termination
  by (relation "measure (\<lambda>(buf, pch, cnt, u). length buf - pch)") (auto simp: char_in_def split: if_splits)

declare UnityPrintAnsiEscape_loop.simps [simp del]

definition UnityPrintAnsiEscapeString :: "string \<Rightarrow> nat \<Rightarrow> unity \<Rightarrow> (nat \<times> unity) option" where
  "UnityPrintAnsiEscapeString buf string u = do {
     (cnt, u) \<leftarrow> UnityPrintAnsiEscape_loop buf string 0 u;
     let u = UNITY_OUTPUT_CHAR (CHR ''m'') u;
     Some (cnt + 1, u)
   }"

lemma ansi_count: "UnityPrintAnsiEscapeString buf i u = Some (n, u') \<Longrightarrow> 0 < n"
  by (auto simp: UnityPrintAnsiEscapeString_def split: bind_splits)

function UnityPrint_color_loop :: "string \<Rightarrow> nat \<Rightarrow> unity \<Rightarrow> unity option" where
  "UnityPrint_color_loop buf pch u =
     (case char_in buf pch of
        None \<Rightarrow> None
      | Some c \<Rightarrow>
          if c = CHR 0x00 then Some u
          else if c = CHR 0x1B then
            (case char_in buf (pch + 1) of
               None \<Rightarrow> None
             | Some d \<Rightarrow>
                 if d = CHR ''['' then
                   (case UnityPrintAnsiEscapeString buf pch u of
                      None \<Rightarrow> None
                    | Some (n, u) \<Rightarrow> UnityPrint_color_loop buf (pch + n) u)
                 else UnityPrint_color_loop buf (pch + 1) (UnityPrintChar c u))
          else UnityPrint_color_loop buf (pch + 1) (UnityPrintChar c u))"
  by pat_completeness auto
termination
  by (relation "measure (\<lambda>(buf, pch, u). length buf - pch)")
    (auto simp: char_in_def split: if_splits dest!: ansi_count)

declare UnityPrint_color_loop.simps [simp del]

definition UnityPrint_color :: "string option \<Rightarrow> unity \<Rightarrow> unity option" where
  "UnityPrint_color string u =
     (case string of None \<Rightarrow> Some u | Some buf \<Rightarrow> UnityPrint_color_loop buf 0 u)"

section \<open>Execution times\<close>

text \<open>With a millisecond clock of the user, on Windows with \<open>clock\<close>, elsewhere with \<open>clock_gettime\<close>.\<close>

definition UNITY_PRINT_EXEC_TIME_ms :: "u64 \<Rightarrow> u64 \<Rightarrow> unity \<Rightarrow> unity" where
  "UNITY_PRINT_EXEC_TIME_ms start stop u =
     (let execTimeMs = stop - start;
          u = UnityPrintS '' ('' u;
          u = UnityPrintNumberUnsigned execTimeMs u
      in UnityPrintS '' ms)'' u)"

definition UNITY_GET_TIME_clock :: "int \<Rightarrow> int \<Rightarrow> int" where
  "UNITY_GET_TIME_clock CLOCKS_PER_SEC c = (c * 1000) sdiv CLOCKS_PER_SEC"

record timespec =
  tv_sec :: int
  tv_nsec :: int

definition exec_time_ms :: "timespec \<Rightarrow> timespec \<Rightarrow> u64" where
  "exec_time_ms start stop =
     (let execTimeMs = of_int ((tv_sec stop - tv_sec start) * 1000)
      in execTimeMs + of_int ((tv_nsec stop - tv_nsec start) sdiv 1000000))"

definition UNITY_PRINT_EXEC_TIME :: "timespec \<Rightarrow> timespec \<Rightarrow> unity \<Rightarrow> unity" where
  "UNITY_PRINT_EXEC_TIME start stop u =
     (let u = UnityPrintS '' ('' u;
          u = UnityPrintNumberUnsigned (exec_time_ms start stop) u
      in UnityPrintS '' ms)'' u)"

section \<open>Report formats\<close>

definition UnityTestResultsBegin_eclipse :: "string option \<Rightarrow> u64 \<Rightarrow> unity \<Rightarrow> unity" where
  "UnityTestResultsBegin_eclipse file line u =
     (let u = UNITY_OUTPUT_CHAR (CHR ''('') u;
          u = UnityPrint file u;
          u = UNITY_OUTPUT_CHAR (CHR '':'') u;
          u = UnityPrintNumber line u;
          u = UNITY_OUTPUT_CHAR (CHR '')'') u;
          u = UNITY_OUTPUT_CHAR (CHR '' '') u;
          u = UnityPrint (CurrentTestName u) u
      in UNITY_OUTPUT_CHAR (CHR '':'') u)"

definition UnityTestResultsBegin_iar :: "string option \<Rightarrow> u64 \<Rightarrow> unity \<Rightarrow> unity" where
  "UnityTestResultsBegin_iar file line u =
     (let u = UnityPrintS ''<SRCREF line='' u;
          u = UnityPrintNumber line u;
          u = UnityPrintS ('' file='' @ [CHR 0x22]) u;
          u = UnityPrint file u;
          u = UNITY_OUTPUT_CHAR (CHR 0x22) u;
          u = UNITY_OUTPUT_CHAR (CHR ''>'') u;
          u = UnityPrint (CurrentTestName u) u
      in UnityPrintS ''</SRCREF> '' u)"

definition UnityTestResultsBegin_qt :: "string option \<Rightarrow> u64 \<Rightarrow> unity \<Rightarrow> unity" where
  "UnityTestResultsBegin_qt file line u =
     (let u = UnityPrintS ''file://'' u;
          u = UnityPrint file u;
          u = UNITY_OUTPUT_CHAR (CHR '':'') u;
          u = UnityPrintNumber line u;
          u = UNITY_OUTPUT_CHAR (CHR '' '') u;
          u = UnityPrint (CurrentTestName u) u
      in UNITY_OUTPUT_CHAR (CHR '':'') u)"

text \<open>The last line of a run with \<open>UNITY_DIFFERENTIATE_FINAL_FAIL\<close>.\<close>

definition final_verdict_differentiated :: "unity \<Rightarrow> unity" where
  "final_verdict_differentiated u =
     (if TestFailures u = 0 then UnityPrintS UnityStrOk u
      else let u = UnityPrintS UnityStrFail u;
               u = UNITY_OUTPUT_CHAR (CHR ''E'') u
           in UNITY_OUTPUT_CHAR (CHR ''D'') u)"

section \<open>Excluded types and the meanings of the shorthand\<close>

definition UnityStrErr64 :: string where
  "UnityStrErr64 = ''Unity 64-bit Support Disabled''"

definition UnityStrErrShorthand :: string where
  "UnityStrErrShorthand = ''Unity Shorthand Support Disabled''"

text \<open>Without 64-bit support the 24 assertions on 64-bit integers expand to a failure.\<close>

definition INT64_DISABLED :: "u64 \<Rightarrow> unity \<Rightarrow> unity outcome" where
  "INT64_DISABLED line = UNITY_TEST_FAIL line (Some UnityStrErr64)"

definition TEST_ASSERT_EQUAL_as_int :: "u64 \<Rightarrow> u64 \<Rightarrow> u64 \<Rightarrow> unity \<Rightarrow> unity outcome" where
  "TEST_ASSERT_EQUAL_as_int expected actual line = UNITY_TEST_ASSERT_EQUAL_INT expected actual line None"

definition TEST_ASSERT_NOT_EQUAL_as_int :: "u64 \<Rightarrow> u64 \<Rightarrow> u64 \<Rightarrow> unity \<Rightarrow> unity outcome" where
  "TEST_ASSERT_NOT_EQUAL_as_int expected actual line = UNITY_TEST_FAIL line (Some UnityStrErrShorthand)"

definition TEST_ASSERT_EQUAL_as_mem ::
    "cmem \<Rightarrow> addr \<Rightarrow> addr \<Rightarrow> u64 \<Rightarrow> u64 \<Rightarrow> unity \<Rightarrow> unity outcome" where
  "TEST_ASSERT_EQUAL_as_mem m expected actual sizeof_expected line =
     UNITY_TEST_ASSERT_EQUAL_MEMORY m expected actual sizeof_expected line None"

definition TEST_ASSERT_EQUAL_as_raw :: "u64 \<Rightarrow> u64 \<Rightarrow> u64 \<Rightarrow> unity \<Rightarrow> unity outcome" where
  "TEST_ASSERT_EQUAL_as_raw expected actual line =
     UNITY_TEST_ASSERT (expected = actual) line (Some '' Expected Equal'')"

definition TEST_ASSERT_NOT_EQUAL_as_raw :: "u64 \<Rightarrow> u64 \<Rightarrow> u64 \<Rightarrow> unity \<Rightarrow> unity outcome" where
  "TEST_ASSERT_NOT_EQUAL_as_raw expected actual line =
     UNITY_TEST_ASSERT (expected \<noteq> actual) line (Some '' Expected Not-Equal'')"

definition TEST_ASSERT_EQUAL_as_none :: "u64 \<Rightarrow> u64 \<Rightarrow> u64 \<Rightarrow> unity \<Rightarrow> unity outcome" where
  "TEST_ASSERT_EQUAL_as_none expected actual line = UNITY_TEST_FAIL line (Some UnityStrErrShorthand)"

definition TEST_ASSERT_EQUAL_MESSAGE_as_mem ::
    "cmem \<Rightarrow> addr \<Rightarrow> addr \<Rightarrow> u64 \<Rightarrow> string option \<Rightarrow> u64 \<Rightarrow> unity \<Rightarrow> unity outcome" where
  "TEST_ASSERT_EQUAL_MESSAGE_as_mem m expected actual sizeof_expected message line =
     UNITY_TEST_ASSERT_EQUAL_MEMORY m expected actual sizeof_expected line message"

definition TEST_ASSERT_EQUAL_MESSAGE_as_raw ::
    "u64 \<Rightarrow> u64 \<Rightarrow> string option \<Rightarrow> u64 \<Rightarrow> unity \<Rightarrow> unity outcome" where
  "TEST_ASSERT_EQUAL_MESSAGE_as_raw expected actual message line =
     UNITY_TEST_ASSERT (expected = actual) line message"

definition TEST_ASSERT_NOT_EQUAL_MESSAGE_as_raw ::
    "u64 \<Rightarrow> u64 \<Rightarrow> string option \<Rightarrow> u64 \<Rightarrow> unity \<Rightarrow> unity outcome" where
  "TEST_ASSERT_NOT_EQUAL_MESSAGE_as_raw expected actual message line =
     UNITY_TEST_ASSERT (expected \<noteq> actual) line message"

definition TEST_ASSERT_EQUAL_MESSAGE_as_none ::
    "u64 \<Rightarrow> u64 \<Rightarrow> string option \<Rightarrow> u64 \<Rightarrow> unity \<Rightarrow> unity outcome" where
  "TEST_ASSERT_EQUAL_MESSAGE_as_none expected actual message line =
     UNITY_TEST_FAIL line (Some UnityStrErrShorthand)"

text \<open>Reading and starting a test from a hand-written runner.\<close>

definition TEST_LINE_NUM :: "unity \<Rightarrow> u64" where
  "TEST_LINE_NUM u = CurrentTestLineNumber u"

definition TEST_IS_IGNORED :: "unity \<Rightarrow> bool" where
  "TEST_IS_IGNORED u \<longleftrightarrow> CurrentTestIgnored u \<noteq> 0"

definition UNITY_NEW_TEST :: "string option \<Rightarrow> u64 \<Rightarrow> unity \<Rightarrow> unity" where
  "UNITY_NEW_TEST a line u =
     u\<lparr>CurrentTestName := a, CurrentTestLineNumber := line, NumberOfTests := NumberOfTests u + 1\<rparr>"

section \<open>The text in colours\<close>

text \<open>
  Escape sequences from \<open>ESC [\<close> to the next \<open>m\<close> are printed as they are, other characters as without
  colours.  There is no text for a sequence that does not end.
\<close>

function color_text :: "string \<Rightarrow> string option" where
  "color_text [] = Some []"
| "color_text (c # s) =
     (if c = CHR 0x1B \<and> s \<noteq> [] \<and> hd s = CHR ''['' then
        (if CHR ''m'' \<in> set s
         then map_option ((@) (c # takeWhile (\<lambda>d. d \<noteq> CHR ''m'') s @ ''m''))
           (color_text (tl (dropWhile (\<lambda>d. d \<noteq> CHR ''m'') s)))
         else None)
      else map_option ((@) (esc_char c)) (color_text s))"
  by pat_completeness auto
termination
  by (relation "measure length")
    (auto simp: less_Suc_eq_le intro: le_trans [OF diff_le_self length_dropWhile_le])

lemma char_in_append: "char_in (pre @ c # s) (length pre) = Some c"
  by (simp add: char_in_def)

lemma ansi_loop_text:
  assumes "CHR 0x00 \<notin> set s"
  shows "UnityPrintAnsiEscape_loop (pre @ s @ [CHR 0x00]) (length pre) n u =
    Some (n + length (takeWhile (\<lambda>d. d \<noteq> CHR ''m'') s), emit (takeWhile (\<lambda>d. d \<noteq> CHR ''m'') s) u)"
  using assms
proof (induction s arbitrary: pre n u)
  case Nil
  then show ?case by (subst UnityPrintAnsiEscape_loop.simps) (simp add: char_in_append)
next
  case (Cons c s)
  have "CHR 0x00 \<notin> set s" and "c \<noteq> CHR 0x00" using Cons.prems by auto
  then show ?case using Cons.IH [of "pre @ [c]"]
    by (subst UnityPrintAnsiEscape_loop.simps) (simp add: char_in_append emits)
qed

lemma ansi_text:
  assumes "CHR 0x00 \<notin> set s"
  shows "UnityPrintAnsiEscapeString (pre @ s @ [CHR 0x00]) (length pre) u =
    (let t = takeWhile (\<lambda>d. d \<noteq> CHR ''m'') s in Some (Suc (length t), emit (t @ ''m'') u))"
  by (simp add: UnityPrintAnsiEscapeString_def ansi_loop_text [OF assms] emits Let_def)

lemma split_first: "c \<in> set s \<Longrightarrow> s = takeWhile (\<lambda>d. d \<noteq> c) s @ c # tl (dropWhile (\<lambda>d. d \<noteq> c) s)"
  by (induction s) auto

lemma color_loop_plain:
  assumes "char_in buf i = Some c" "c \<noteq> CHR 0x00"
    and "char_in buf (i + 1) = Some d" "\<not> (c = CHR 0x1B \<and> d = CHR ''['')"
  shows "UnityPrint_color_loop buf i u = UnityPrint_color_loop buf (i + 1) (UnityPrintChar c u)"
  using assms by (subst UnityPrint_color_loop.simps) auto

lemma color_loop_text:
  assumes "CHR 0x00 \<notin> set s"
  shows "UnityPrint_color_loop (pre @ s @ [CHR 0x00]) (length pre) u =
    map_option (\<lambda>t. emit t u) (color_text s)"
  using assms
proof (induction s arbitrary: pre u rule: color_text.induct)
  case 1
  then show ?case by (subst UnityPrint_color_loop.simps) (simp add: char_in_append)
next
  case (2 c s)
  let ?buf = "pre @ (c # s) @ [CHR 0x00]" and ?t = "takeWhile (\<lambda>d. d \<noteq> CHR ''m'') s"
  have c: "c \<noteq> CHR 0x00" and s: "CHR 0x00 \<notin> set s" using "2.prems" by auto
  have next1: "UnityPrint_color_loop ?buf (length pre + 1) u' =
      UnityPrint_color_loop ((pre @ [c]) @ s @ [CHR 0x00]) (length (pre @ [c])) u'" for u' by simp
  have snd: "char_in ?buf (length pre + 1) = Some (if s = [] then CHR 0x00 else hd s)"
    using char_in_append [of "pre @ [c]"] by (cases s) simp_all
  show ?case
  proof (cases "c = CHR 0x1B \<and> s \<noteq> [] \<and> hd s = CHR ''[''")
    case False
    have "UnityPrint_color_loop ?buf (length pre) u =
        UnityPrint_color_loop ?buf (length pre + 1) (UnityPrintChar c u)"
      by (rule color_loop_plain [OF _ c, where d = "if s = [] then CHR 0x00 else hd s"])
        (use False snd in \<open>auto simp: char_in_append\<close>)
    then show ?thesis
      unfolding next1 using "2.IH"(2) [OF False s, of "pre @ [c]"] False
      by (auto simp: emits option.map_comp o_def)
  next
    case True
    have esc: "UnityPrintAnsiEscapeString ?buf (length pre) u = Some (Suc (Suc (length ?t)), emit (c # ?t @ ''m'') u)"
      using ansi_text [of "c # s" pre u] c s True by (simp add: Let_def)
    have run: "UnityPrint_color_loop ?buf (length pre) u =
        UnityPrint_color_loop ?buf (length pre + Suc (Suc (length ?t))) (emit (c # ?t @ ''m'') u)"
      using True snd esc by (subst UnityPrint_color_loop.simps) (simp add: char_in_append)
    show ?thesis
    proof (cases "CHR ''m'' \<in> set s")
      case False
      then have "?t = s" by (auto simp: takeWhile_eq_all_conv)
      then have "length ?t = length s" by (rule arg_cong)
      then have "char_in ?buf (length pre + Suc (Suc (length ?t))) = None" by (simp add: char_in_def)
      then have "UnityPrint_color_loop ?buf (length pre + Suc (Suc (length ?t))) (emit (c # ?t @ ''m'') u) = None"
        by (subst UnityPrint_color_loop.simps) simp
      then show ?thesis using run True False by simp
    next
      case m: True
      let ?r = "tl (dropWhile (\<lambda>d. d \<noteq> CHR ''m'') s)"
      have "s = ?t @ CHR ''m'' # ?r"
        by (rule split_first [OF m])
      then have buf: "?buf = (pre @ c # ?t @ ''m'') @ ?r @ [CHR 0x00]" by simp
      have "set ?r \<subseteq> set s" by (subst (2) \<open>s = _\<close>) auto
      then have r: "CHR 0x00 \<notin> set ?r" using s by blast
      have "UnityPrint_color_loop ?buf (length pre + Suc (Suc (length ?t))) u' =
          UnityPrint_color_loop ((pre @ c # ?t @ ''m'') @ ?r @ [CHR 0x00]) (length (pre @ c # ?t @ ''m'')) u'" for u'
        by (simp only: buf) simp
      then show ?thesis using run "2.IH"(1) [OF True m r, of "pre @ c # ?t @ ''m''"] True m
        by (simp add: option.map_comp o_def emits)
    qed
  qed
qed

section \<open>The execution time\<close>

definition elapsed_ns :: "timespec \<Rightarrow> timespec \<Rightarrow> int" where
  "elapsed_ns start stop = (tv_sec stop - tv_sec start) * 1000000000 + (tv_nsec stop - tv_nsec start)"

lemma sdiv_near: "\<bar>a - (a sdiv b) * b\<bar> < \<bar>b\<bar>" if "b \<noteq> 0" for a b :: int
  using that by (simp add: minus_sdiv_mult_eq_smod smod_int_alt_def abs_mult abs_sgn_eq)

lemma uint_u64: "0 \<le> m \<Longrightarrow> m < 2 ^ 64 \<Longrightarrow> uint (word_of_int m :: u64) = m"
  by (simp add: uint_word_of_int)

lemma ms_range:
  fixes m e :: int
  assumes "\<bar>m * 1000000 - e\<bar> < 1000000" "0 \<le> e" "e < 2 ^ 64 * 1000000 - 1000000"
  shows "0 \<le> m" "m < 2 ^ 64"
  using assms by (simp_all add: abs_less_iff)

text \<open>
  The milliseconds reported are less than one off the time between the readings, also where the
  nanoseconds of the second reading are the smaller ones.
\<close>

lemma exec_time_near:
  assumes "0 \<le> elapsed_ns start stop" "elapsed_ns start stop < 2 ^ 64 * 1000000 - 1000000"
  shows "\<bar>uint (exec_time_ms start stop) * 1000000 - elapsed_ns start stop\<bar> < 1000000"
proof -
  let ?n = "tv_nsec stop - tv_nsec start"
  let ?m = "(tv_sec stop - tv_sec start) * 1000 + ?n sdiv 1000000"
  have "?m * 1000000 - elapsed_ns start stop = (?n sdiv 1000000) * 1000000 - ?n"
    by (simp add: elapsed_ns_def algebra_simps)
  then have near: "\<bar>?m * 1000000 - elapsed_ns start stop\<bar> < 1000000"
    using sdiv_near [of 1000000 ?n] by (simp add: abs_minus_commute)
  have "0 \<le> ?m" "?m < 2 ^ 64" by (rule ms_range [OF near assms])+
  moreover have "exec_time_ms start stop = word_of_int ?m"
    by (simp add: exec_time_ms_def)
  ultimately have "uint (exec_time_ms start stop) = ?m" by (simp only: uint_u64)
  then show ?thesis using near by simp
qed

text \<open>C35.  With colours \<open>UnityPrint\<close>, on the string an object holds up to its last byte, appends what
  \<open>color_text\<close> says: escape sequences as they are, everything else as without colours.  It fails exactly
  for a string with a sequence that does not end in \<open>m\<close>: the \<open>m\<close> that is counted without having been
  seen takes it behind the terminator, and it reads behind the object.\<close>

theorem unity_color_text:
  "UnityPrint_color (Some (c_string s @ [CHR 0x00])) u =
    map_option (\<lambda>t. emit t u) (color_text (c_string s))"
proof -
  have "CHR 0x00 \<notin> set (c_string s)" by (auto dest: set_takeWhileD)
  from color_loop_text [OF this, of "[]" u] show ?thesis by (simp add: UnityPrint_color_def)
qed

end
