(* ===== verification/Spec2Isabelle.thy ===== *)
theory Spec2Isabelle
  imports Unity_Float_Properties P2_Main_Correct P2_Threads_Properties Unity_Properties
    Unity_Macros_Correct Unity_Options_Correct Unity_Printf_Correct Unity_Details_Correct
    P2_Tests_Correct P2_Counters Unity_Variants
begin

text \<open>
  A verification of the power-of-2 slab allocator (\<open>src/p2malloc.c\<close>, \<open>src/p2malloc.h\<close>,
  \<open>src/ps_list.h\<close>), of its integration program (\<open>src/main.c\<close>) and of the part of the Unity test
  framework (\<open>src/unity\<close>) that the tests of the repository run on.

  \<^bold>\<open>The program.\<close>  \<open>p2malloc\<close> serves requests up to 4080 bytes from eight free lists of blocks of 32
  to 4096 bytes, cut from pages of 4096 bytes, and larger ones with a mapping of their own.  Each
  block starts with a 16-byte header (size, and \<open>alloc_size\<close>, 0 for a slab block); the pointer handed
  out is behind it.  A free slab block holds the links of an intrusive circular list whose head is a
  static variable.  Lists are guarded by a mutex each, two counters and the initialisation flag are
  atomic.  \<open>main\<close> exercises the API in five levels; Unity runs test functions and counts failures.

  \<^bold>\<open>The theories of the allocator.\<close>
  \<^item> \<open>P2_Prelude\<close>: type names, fact collections, lemmas on words, options and lists.
  \<^item> \<open>C_Memory\<close>: byte-addressed little-endian memory with its mappings; loads and stores of 1 to 8
    bytes, \<open>memset\<close>, \<open>memcpy\<close>; an access outside one mapping is \<open>None\<close>.  \<open>changes\<close> and \<open>keeps\<close> say
    which bytes an operation may write.
  \<^item> \<open>Extents\<close>: multisets of disjoint address ranges.
  \<^item> \<open>Ps_List\<close>: the functions and macros of \<open>ps_list.h\<close> under their names.  The locale \<open>field_store\<close>
    states what reading and writing the two link fields promises; ring lemmas are proved in it and
    interpreted for the memory.  \<open>dll m h xs\<close>: the ring of \<open>h\<close> holds the nodes \<open>xs\<close> in order.
    \<open>Ps_List_Correct\<close> has the properties of adding, removing and the two iteration macros.
  \<^item> \<open>Size_Class\<close>: \<open>page_align\<close> and \<open>get_freelist_idx\<close> on 64-bit words; locale \<open>size_classes\<close>.
  \<^item> \<open>Freelist\<close>: platform layer (\<open>os_alloc\<close>, \<open>os_free\<close>, mutexes), header access, the static variables
    as the record \<open>p2state\<close>, \<open>freelists_init\<close>, \<open>ensure_init\<close>, \<open>p2orderedinsert\<close>, page carving;
    \<open>Freelist_Correct\<close> proves insertion and carving correct and total.
  \<^item> \<open>P2malloc\<close>: \<open>p2malloc\<close>, \<open>p2free\<close>, \<open>p2calloc\<close>, \<open>p2realloc\<close>, \<open>p2reset\<close>, \<open>p2allocated\<close>,
    \<open>p2totmem\<close>, each a function from the state to an optional result and state.
  \<^item> \<open>P2_Inv\<close>, \<open>P2_Blocks\<close>, \<open>P2_Correct\<close>, \<open>P2_Api\<close>: the abstract allocator \<open>astate\<close> (eight lists of
    free blocks, a multiset of live ones), the relation \<open>p2_rel\<close> to the memory (every byte has one
    owner, rings and headers in place, counters exact) and the refinement of each operation.
  \<^item> \<open>P2_Kernel\<close>: a concrete kernel and layout of the static variables, on which every property is
    shown to apply.
  \<^item> \<open>P2_Client\<close>: clients that choose each call from the answers so far, against a client-level heap
    that maps pointers to sizes and contents; locale \<open>simulation\<close>, interpreted as \<open>p2\<close>.
  \<^item> \<open>P2_Counters\<close>: such runs with the number of bytes that were mapped at the start or at the last
    \<open>p2reset\<close>; every other call moves \<open>p2totmem\<close> with the mappings (\<open>balanced\<close>), and \<open>simulation\<close> is
    interpreted as \<open>counted\<close>.
  \<^item> \<open>P2_Main\<close>, \<open>P2_Main_Correct\<close>: the five levels of \<open>main\<close> and that they end with status 0.
  \<^item> \<open>P2_Tests\<close>, \<open>P2_Tests_Steps\<close>, \<open>P2_Tests_Correct\<close>: the 38 unit tests of \<open>test_p2malloc.c\<close>, as test
    functions of the modelled framework over the state of the allocator; rules for their statements
    (\<open>runs_to\<close>: an assertion of total correctness), and that each test, and the program, passes.
  \<^item> \<open>P2_Part\<close>, \<open>P2_Threads\<close>, \<open>P2_Threads_Inv\<close>, \<open>P2_Threads_Calls\<close>, \<open>P2_Threads_Correct\<close>,
    \<open>P2_Threads_Alone\<close>, \<open>P2_Threads_Properties\<close>: \<open>p2malloc\<close>, \<open>p2calloc\<close>, \<open>p2realloc\<close> and \<open>p2free\<close> by
    any number of threads.  A thread is a program point with its live locals (\<open>pc\<close>), around that of
    the function it has called; \<open>thread_step\<close> is one atomic action of it, \<open>threads\<close> the step relation
    of the whole with calls, returns and writes of clients to their blocks.  \<open>threads_inv\<close> is kept by
    every step: blocks in the hands of a thread (\<open>raw\<close>) are taken out of \<open>p2_rel\<close>, a lock is held
    exactly when one thread is in its section, the counters are off by what is under way.  A caller
    counts as a thread of its own that holds on to a block (\<open>frames\<close>).  \<open>returns\<close> is the run of one
    thread to its return, the call of the sequential function.

  \<^bold>\<open>The theories of the test framework.\<close>
  \<^item> \<open>Unity_Output\<close>, \<open>Unity_Output_Correct\<close>: \<open>UNITY_STORAGE_T\<close>, display styles, the functions that print
    characters, strings and numbers; each appends a text, and texts of numbers read back.
  \<^item> \<open>Unity_Assert\<close>, \<open>Unity_Contract\<close>: assertions on integers; \<open>longjmp\<close> is the outcome \<open>Jumps\<close>.  The
    locale \<open>unity_assertion\<close> is what each assertion promises: leave a test that has failed, return
    unchanged when the condition holds, else report, set the flag and leave.
  \<^item> \<open>Unity_Arrays\<close>, \<open>Unity_Elements\<close>, \<open>Unity_Arrays_Correct\<close>: arrays, strings, memory.
  \<^item> \<open>Unity_Control\<close>: begin, end, conclude, fail, ignore, message, \<open>UnityDefaultTestRun\<close> with \<open>setjmp\<close>,
    and the macros the tests use.  \<open>Unity_Properties\<close> has the properties.
  \<^item> \<open>Unity_Macros\<close>, \<open>Unity_Test_Macros\<close>, \<open>Unity_Macros_Correct\<close>: the assertion macros of
    \<open>unity_internals.h\<close> and \<open>unity.h\<close> with their casts.
  \<^item> \<open>Unity_Options\<close>, \<open>Unity_Options_Correct\<close>: the command line and the test filter.
  \<^item> \<open>Unity_Printf\<close>, \<open>Unity_Printf_Correct\<close>: formatted printing over a typed argument list, and a type
    system for format strings that says exactly which calls are defined and what they print, floating
    point included.
  \<^item> \<open>Unity_Details\<close>, \<open>Unity_Details_Correct\<close>: the detail stack that can take the place of the two detail
    slots, refined to a list of entries; a report is undefined when a value that is printed as a string
    points to none.
  \<^item> \<open>C_Float\<close>, \<open>C_Float_Correct\<close>: IEEE 754 numbers of both formats as rational numbers, infinities and
    NaN; operations round to the nearest, to even in the middle.  Rounding is monotone, keeps what is
    \<open>representable\<close> and errs by half a unit of the last place; \<open>rounded\<close> counts roundings.
  \<^item> \<open>Unity_Float\<close>, \<open>Unity_Float_Macros\<close>: \<open>UnityPrintFloat\<close>, the comparison within a delta, the assertions
    on \<open>float\<close> and \<open>double\<close> and their macros.  \<open>Unity_Float_Scale\<close>: each scaling loop ends, after as
    many roundings as \<open>max_roundings\<close> says.  \<open>Unity_Float_Text\<close>: the text reads back as digits and
    exponent, with a relative error of at most \<open>10 ^ -6\<close> or \<open>10 ^ -8\<close>.  \<open>Unity_Float_Correct\<close>: the contract of the assertions; \<open>Unity_Float_Properties\<close>.
  \<^item> \<open>Unity_Variants\<close>: what build options that the repository leaves off change: coloured output,
    execution times, report formats, the build without 64-bit integers, meanings of the shorthand.

  \<^bold>\<open>Parameters and hypotheses.\<close>  The kernel \<open>os\<close> answers \<open>mmap\<close>; \<open>kernel_ok\<close> says what its documentation
  says: a mapping is of the requested length, page-aligned, not null, does not wrap and overlaps no
  live mapping.  It may refuse any request.  \<open>p2_boot\<close> is the state at program start: eight disjoint
  list heads in mapped static storage, everything else zero.

  \<^bold>\<open>Undefined outcomes and loops.\<close>  \<open>None\<close> stands for an access outside mapped memory, a failed
  \<open>assert\<close>, a lock that one thread can never get, and a loop that does not end (ring walks, insertion
  and carving are \<open>partial_function\<close>, so that \<open>Some\<close> includes termination; other loops have a
  measure).  There is no fuel.  \<open>main_exits_zero\<close> assumes room for 2588 mappings, counted from the
  levels of \<open>main\<close>, and \<open>unit_tests_pass\<close> for 551, counted from the tests (\<open>needs\<close>).  For threads, \<open>to_go\<close> bounds the steps a call still has to do.

  \<^bold>\<open>Not modelled.\<close>  The Windows branch of the platform layer: the same interface, each function one
  call of the Windows API, which is not part of the program.  What \<open>printf\<close> prints in \<open>main\<close>; memory orders weaker than the sequentially
  consistent default, and the failure of \<open>munmap\<close> and of mutex operations, which the code ignores;
  \<open>p2reset\<close> under threads, which its header forbids.  Of Unity: the build without the text of
  floating-point numbers, and the selection of integer widths and output functions by the
  preprocessor, which is fixed to LP64 and \<open>putchar\<close>.  The build files hold no logic of their own.
\<close>

section \<open>The allocator as a component\<close>

text \<open>C1. Whatever a client does that only frees, resizes and accesses blocks it holds, choosing each
  call from the answers so far, on any kernel that keeps the promises of \<open>mmap\<close>: no call gets stuck
  or touches memory it must not, and the answers are those of the client-level heap, in which blocks
  are disjoint and keep what was written to them until they are freed.\<close>

theorem client_runs_refine:
  assumes "kernel_ok os" and "p2_boot st"
    and "well_behaved heap_step call_ok client n [] (\<lambda>_. None)"
  shows "\<exists>hist st' H. exec machine_call client n [] (os, st) = Some (hist, st')
    \<and> spec_run heap_step client n [] (\<lambda>_. None) hist H \<and> client_rel st' H"
  using p2.runs [OF client_rel_boot [OF assms(2,1)] assms(3)] by blast

text \<open>A client that writes a byte to a block, resizes it and reads the byte back.\<close>

definition demo_client :: "u64 list \<Rightarrow> call" where
  "demo_client hist =
     (case hist of
        [] \<Rightarrow> Malloc 24
      | p # rs \<Rightarrow> if p = 0 then Malloc 1
          else if rs = [] then Write p 3 7
          else if length rs = 1 then Realloc p 5000
          else if rs ! 1 = 0 then Read p 3
          else Read (rs ! 1) 3)"

lemma demo_null: "well_behaved heap_step call_ok demo_client n (0 # rs) H"
  by (induction n arbitrary: rs H) (simp_all add: demo_client_def)

lemma demo_realloc:
  assumes "p \<noteq> 0" and "H p = Some bs" and "length bs = 24"
  shows "well_behaved heap_step call_ok demo_client (Suc (Suc 0)) [p, r] H"
  using assms by (auto simp: demo_client_def fresh_block_def)

lemma demo_write:
  assumes "p \<noteq> 0" and "H p = Some bs" and "length bs = 24"
  shows "well_behaved heap_step call_ok demo_client (Suc (Suc (Suc 0))) [p] H"
proof -
  have "demo_client [p] = Write p 3 7" using assms(1) by (simp add: demo_client_def)
  then show ?thesis using assms demo_realloc by (simp del: well_behaved.simps add: well_behaved.simps(2) [of _ _ _ "Suc (Suc 0)"])
qed

lemma demo_well_behaved: "well_behaved heap_step call_ok demo_client 4 [] (\<lambda>_. None)"
proof -
  have "well_behaved heap_step call_ok demo_client (Suc (Suc (Suc 0))) [r] H'"
    if "malloc_step (\<lambda>_. None) 24 r H'" for r H'
    using that demo_null [of "Suc (Suc (Suc 0))" "[]"] demo_write [of r H'] by (auto simp: malloc_step_def fresh_block_def simp del: well_behaved.simps)
  moreover have "demo_client [] = Malloc 24" by (simp add: demo_client_def)
  ultimately have "well_behaved heap_step call_ok demo_client (Suc (Suc (Suc (Suc 0)))) [] (\<lambda>_. None)"
    by (simp del: well_behaved.simps add: well_behaved.simps(2) [of _ _ _ "Suc (Suc (Suc 0))"])
  moreover have "Suc (Suc (Suc (Suc 0))) = 4" by simp
  ultimately show ?thesis by (simp only:)
qed

theorem client_runs_refine_witness:
  "\<exists>hist st' H. exec machine_call demo_client 4 [] (bump_kernel, boot static_heads) = Some (hist, st')
     \<and> spec_run heap_step demo_client 4 [] (\<lambda>_. None) hist H"
  using client_runs_refine [OF kernel_ok_bump p2_boot_static demo_well_behaved] by blast

text \<open>C2. \<open>p2malloc\<close> returns, with the pointer the abstract allocator gives, in a state that is the
  abstract result, and keeps every byte of every live block.\<close>

theorem p2malloc_refines:
  assumes "p2_inv st g" and "kernel_ok os"
  shows "\<exists>st'. p2malloc os sz st = Some (fst (a_malloc (answers os st) sz g), st')
    \<and> p2_inv st' (snd (a_malloc (answers os st) sz g))
    \<and> keeps (eset (live_extents (a_live g))) (mem st) (mem st')"
  using p2malloc_spec [OF assms, of sz] by blast

theorem p2malloc_refines_witness:
  "\<exists>st'. p2malloc bump_kernel 5000 (boot static_heads) = Some (8208, st')
     \<and> p2_inv st' (a_map a_empty (8192, 5000, 8192))"
proof -
  have an: "answers bump_kernel (boot static_heads) 8192 = Some 8192"
  proof -
    obtain st where st: "ensure_init (boot static_heads) = Some st"
        "regions (mem st) = regions (mem (boot static_heads))"
      using ensure_init_spec [OF p2_inv_boot] by metis
    have "region_top (regions (mem (boot static_heads))) = 4568"
      by (simp add: boot_def static_heads_simps) (simp add: region_top_def)
    then show ?thesis by (simp add: answers_def st bump_kernel_def)
  qed
  have "page_align 5016 = 8192" by (simp add: page_align_def)
  then have "a_malloc (answers bump_kernel (boot static_heads)) 5000 a_empty
      = (8208, a_map a_empty (8192, 5000, 8192))"
    by (simp add: a_malloc_def an)
  with p2malloc_refines [OF p2_inv_boot kernel_ok_bump, of 5000] show ?thesis by auto
qed

text \<open>C3. A pointer from \<open>p2malloc\<close> is aligned to 16 bytes; the block and its header lie in mapped
  memory that wraps nowhere, and in bytes that no live block and no list head has; and every live
  block has the contents it had before.\<close>

theorem p2malloc_block:
  assumes "p2_inv st g" and "kernel_ok os"
    and "p2malloc os sz st = Some (p, st')" and "p \<noteq> NULL"
  shows "16 dvd unat p \<and> unat p + unat sz < 2 ^ 64 \<and> mapped (mem st') (p - 16) (unat sz + 16)
    \<and> hdr_size (mem st') (p - 16) = Some sz
    \<and> span_of (p - 16) (unat sz + 16) \<inter> eset (live_extents (a_live g)) = {}
    \<and> (\<forall>h \<in> set (heads st). span_of (p - 16) (unat sz + 16) \<inter> span_of h 16 = {})
    \<and> (\<forall>(h, s, al) \<in># a_live g. payload (mem st') (h + 16) (unat s) = payload (mem st) (h + 16) (unat s))"
proof -
  let ?am = "a_malloc (answers os st) sz g"
  obtain st1 where st1: "p2malloc os sz st = Some (fst ?am, st1)" "p2_inv st1 (snd ?am)"
      "keeps (eset (live_extents (a_live g))) (mem st) (mem st1)" "heads st1 = heads st"
    using p2malloc_spec [OF assms(1,2), of sz] by blast
  then have am: "fst ?am = p" and st': "st1 = st'" using assms(3) by simp_all
  obtain h where h: "p = h + 16"
      and L: "a_live (snd ?am) = add_mset (h, sz, alloc_size_of sz) (a_live g)"
    using assms(4) am by (cases rule: a_malloc_cases [OF a_free_length [OF assms(1)], of "answers os st" sz]) auto
  let ?l = "(h, sz, alloc_size_of sz)"
  have l: "?l \<in># a_live (snd ?am)" by (simp add: L)
  have rel: "p2_rel st' (snd ?am)" using live_not_boot [OF st1(2) l] by (simp add: st')
  note lp = live_ptr [OF rel l] and geom = p2_memD(1) [OF p2_relD(2) [OF rel]]
  have len: "unat sz + 16 \<le> live_len sz (alloc_size_of sz)" by (rule live_len_ge [OF lp(6)])
  then have sub: "span_of h (unat sz + 16) \<subseteq> espan (live_extent ?l)" by (simp add: span_of_mono)
  have "mapped (mem st') h (unat sz + 16)"
    using live_no_wrap(2) [OF geom l] len by (auto intro: mapped_sub)
  moreover have "span_of h (unat sz + 16) \<inter> eset (live_extents (a_live g)) = {}"
    using sub live_block_apart(1) [OF rel L] by blast
  moreover have "\<forall>h' \<in> set (heads st). span_of h (unat sz + 16) \<inter> span_of h' 16 = {}"
  proof
    fix h' assume "h' \<in> set (heads st)"
    then have "h' \<in> set (heads st')" using st1(4) by (simp add: st')
    from live_block_apart(2) [OF rel L this] sub show "span_of h (unat sz + 16) \<inter> span_of h' 16 = {}" by blast
  qed
  moreover have "\<forall>(h', s, al) \<in># a_live g.
      payload (mem st') (h' + 16) (unat s) = payload (mem st) (h' + 16) (unat s)"
    using payload_keeps [OF assms(1) _ _ st1(3)] unfolding st' by blast
  ultimately show ?thesis using lp(4,8,9) unfolding h by simp
qed

theorem p2malloc_block_witness:
  "\<exists>st. p2malloc bump_kernel 24 (boot static_heads) = Some (12240, st)
     \<and> hdr_size (mem st) 12224 = Some 24 \<and> mapped (mem st) 12224 40"
proof -
  obtain st g where st: "p2malloc bump_kernel 24 (boot static_heads) = Some (12240, st)"
    by (rule boot_malloc)
  from p2malloc_block [OF p2_inv_boot kernel_ok_bump st] st show ?thesis by auto
qed

text \<open>C4. \<open>p2malloc\<close> fails exactly for size 0, for sizes that do not leave room for the header, and
  when the operating system refuses the page or the mapping that is needed; failing, it changes
  neither the live blocks nor the counters.\<close>

theorem p2malloc_null_iff:
  assumes "p2_inv st g" and "kernel_ok os" and "p2malloc os sz st = Some (p, st')"
  shows "(p = NULL \<longleftrightarrow> sz = 0 \<or> 2 ^ 64 \<le> unat sz + 16
      \<or> (if unat sz \<le> 4080 then a_free g ! nat (get_freelist_idx sz) = [] \<and> answers os st 4096 = None
         else answers os st (page_align (16 + sz)) = None))
    \<and> (p = NULL \<longrightarrow> p2allocated st' = p2allocated st \<and> p2totmem st' = p2totmem st \<and> p2_inv st' g)"
proof -
  let ?am = "a_malloc (answers os st) sz g"
  have guard: "SIZE_MAX - 16 < sz \<longleftrightarrow> 2 ^ 64 \<le> unat sz + 16" by (auto simp: word_less_nat_alt)
  have small: "4080 < sz \<longleftrightarrow> \<not> unat sz \<le> 4080" by (auto simp: word_less_nat_alt)
  have am: "fst ?am = p" and inv': "p2_inv st' (snd ?am)"
    using p2malloc_spec [OF assms(1,2), of sz] assms(3) by auto
  have null: "p = NULL \<longleftrightarrow> ?am = (NULL, g)"
    using a_malloc_nonnull [OF assms(1) inv'] am by auto
  have "?am = (NULL, g) \<longleftrightarrow> sz = 0 \<or> 2 ^ 64 \<le> unat sz + 16
      \<or> (if unat sz \<le> 4080 then a_free g ! nat (get_freelist_idx sz) = [] \<and> answers os st 4096 = None
         else answers os st (page_align (16 + sz)) = None)"
    unfolding a_malloc_fail_iff guard small by simp
  moreover have "p2allocated st' = p2allocated st \<and> p2totmem st' = p2totmem st \<and> p2_inv st' g"
    if "p = NULL"
    using that null inv' inv_counters [OF assms(1)] inv_counters [OF inv']
    by (simp add: p2allocated_def p2totmem_def)
  ultimately show ?thesis using null by blast
qed

theorem p2malloc_null_iff_witness:
  "\<exists>st. p2malloc (\<lambda>_ _. None) 24 (boot static_heads) = Some (NULL, st) \<and> p2totmem st = 0"
proof -
  let ?os = "\<lambda>_ _. None" and ?st = "boot static_heads"
  have ok: "kernel_ok ?os" by (simp add: kernel_ok_def mmap_ok_def)
  obtain p st where st: "p2malloc ?os 24 ?st = Some (p, st)"
    using p2malloc_spec [OF p2_inv_boot ok, of 24] by blast
  have "answers ?os ?st 4096 = None" by (cases "ensure_init ?st") (simp_all add: answers_def)
  moreover have "nat (get_freelist_idx 24) < 8" by (simp add: get_freelist_idx_nat)
  ultimately have "p = NULL \<and> p2totmem st = p2totmem ?st"
    using p2malloc_null_iff [OF p2_inv_boot ok st] by simp
  with st show ?thesis by (simp add: p2totmem_def boot_def)
qed

text \<open>C5. \<open>p2free\<close> of a live pointer returns; the block is out of the live blocks and, by its header,
  on the free list of its class or unmapped; every other live block keeps its contents; and the
  first word of a slab block reads 0 afterwards.\<close>

theorem p2free_refines:
  assumes "p2_inv st g" and "(h, sz, al) \<in># a_live g"
  shows "\<exists>st'. p2free (h + 16) st = Some st' \<and> p2_inv st' (a_release g (h, sz, al))
    \<and> keeps (eset (live_extents (a_live g - {#(h, sz, al)#}))) (mem st) (mem st')
    \<and> (al = 0 \<longrightarrow> load64 (mem st') (h + 16) = Some 0)
    \<and> (al \<noteq> 0 \<longrightarrow> regions (mem st') = remove1 (h, unat al) (regions (mem st)))"
  using p2free_spec [OF live_not_boot [OF assms] assms(2)] by (fastforce simp: p2_inv_def)

theorem p2free_refines_witness:
  "\<exists>st st'. p2malloc bump_kernel 24 (boot static_heads) = Some (12240, st)
     \<and> p2free 12240 st = Some st' \<and> load64 (mem st') 12240 = Some 0"
proof -
  obtain st g where st: "p2malloc bump_kernel 24 (boot static_heads) = Some (12240, st)"
    "p2_rel st g" "a_live g = {#(12224, 24, 0)#}" by (rule boot_malloc)
  have "p2_inv st g" using st(2) by (simp add: p2_inv_def)
  from p2free_refines [OF this, of 12224 24 0] st(1,3) show ?thesis by auto
qed

text \<open>C16. \<open>p2calloc\<close> behaves as \<open>p2malloc\<close> of the product on requests whose product fits a
  \<open>size_t\<close>, gives \<open>NULL\<close> on the others, and the block it returns holds zeros only.\<close>

theorem p2calloc_refines:
  assumes "p2_inv st g" and "kernel_ok os"
  shows "\<exists>p g' st'. a_calloc (answers os st) n sz g = (p, g')
    \<and> p2calloc os n sz st = Some (p, st') \<and> p2_inv st' g'
    \<and> keeps (eset (live_extents (a_live g))) (mem st) (mem st')
    \<and> (p \<noteq> NULL \<longrightarrow> (\<forall>b. unat b \<in> span_of p (unat n * unat sz) \<longrightarrow> bytes (mem st') b = 0))"
proof (cases "n = 0 \<or> sz = 0 \<or> 2 ^ 64 \<le> unat n * unat sz")
  case True
  then show ?thesis using p2calloc_refuses [OF True] assms(1) by (simp add: a_calloc_def)
next
  case False
  then have c: "n \<noteq> 0" "sz \<noteq> 0" "unat n * unat sz < 2 ^ 64" by simp_all
  obtain p g' where am: "a_malloc (answers os st) (n * sz) g = (p, g')" by fastforce
  have "a_calloc (answers os st) n sz g = (p, g')" using False am by (simp add: a_calloc_def)
  then show ?thesis using p2calloc_spec [OF assms c] unfolding am fst_conv snd_conv by blast
qed

theorem p2calloc_refines_witness:
  "\<exists>p st. p2calloc bump_kernel 3 8 (boot static_heads) = Some (p, st)
     \<and> (p \<noteq> NULL \<longrightarrow> (\<forall>b. unat b \<in> span_of p 24 \<longrightarrow> bytes (mem st) b = 0))"
  using p2calloc_refines [OF p2_inv_boot kernel_ok_bump, of 3 8] by (auto simp del: mem_span_of)

text \<open>When the product of the two arguments of \<open>p2calloc\<close> does not fit a \<open>size_t\<close> the guard
  catches it before it can wrap: the answer is \<open>NULL\<close> and nothing is touched, on any kernel and
  in any state.\<close>

lemma p2calloc_overflow_guard:
  assumes "2 ^ 64 \<le> unat n * unat sz"
  shows "p2calloc os n sz st = Some (NULL, st)"
  using assms by (intro p2calloc_refuses) blast


text \<open>C6. \<open>p2realloc\<close> of a live pointer to a size that does not wrap with its header behaves as the
  abstract resize: in place within the size class, by moving otherwise, as a release for size 0.  The
  bytes common to the old and the new size are preserved; when it fails the old block is still
  live with its contents; every other live block keeps its contents.\<close>

theorem p2realloc_refines:
  assumes "p2_inv st g" and "(h, old, al) \<in># a_live g" and "kernel_ok os" and "unat sz + 16 < 2 ^ 64"
  shows "\<exists>p g' st'. a_realloc (answers os st) (h, old, al) sz g = (p, g')
    \<and> p2realloc os (h + 16) sz st = Some (p, st') \<and> p2_inv st' g'
    \<and> keeps (eset (live_extents (a_live g - {#(h, old, al)#}))) (mem st) (mem st')
    \<and> (p = NULL \<longrightarrow> sz \<noteq> 0 \<longrightarrow> g' = g \<and> keeps (eset (live_extents (a_live g))) (mem st) (mem st'))
    \<and> (p \<noteq> NULL \<longrightarrow> (\<forall>k < min (unat old) (unat sz).
         bytes (mem st') (p + of_nat k) = bytes (mem st) (h + 16 + of_nat k)))"
proof -
  obtain p g' where ar: "a_realloc (answers os st) (h, old, al) sz g = (p, g')" by fastforce
  show ?thesis using p2realloc_spec [OF live_not_boot [OF assms(1,2)] assms(2-4)]
    unfolding ar fst_conv snd_conv p2_inv_def by blast
qed

theorem p2realloc_refines_witness:
  "\<exists>st st' p. p2malloc bump_kernel 24 (boot static_heads) = Some (12240, st)
     \<and> p2realloc bump_kernel 12240 5000 st = Some (p, st')
     \<and> (p \<noteq> NULL \<longrightarrow> (\<forall>k < 24. bytes (mem st') (p + of_nat k) = bytes (mem st) (12240 + of_nat k)))"
proof -
  obtain st g where st: "p2malloc bump_kernel 24 (boot static_heads) = Some (12240, st)"
    "p2_rel st g" "a_live g = {#(12224, 24, 0)#}" by (rule boot_malloc)
  have inv: "p2_inv st g" using st(2) by (simp add: p2_inv_def)
  have l: "(12224, 24, 0) \<in># a_live g" by (simp add: st(3))
  show ?thesis using p2realloc_refines [OF inv l kernel_ok_bump, of 5000] st(1) by auto
qed

text \<open>C15. The counters are exact after every run of a client from program start, resets included: \<open>p2allocated\<close>
  is the sum of the sizes of the blocks the client holds; \<open>p2totmem\<close> is the number of bytes that are
  mapped beyond those mapped at the start, or at the last \<open>p2reset\<close>, which forgets its pages without
  giving them back; neither wraps, and the second exceeds the first by at least a header per block.\<close>

theorem counters_exact:
  assumes "kernel_ok os" and "p2_boot st"
    and "well_behaved heap_step call_ok client n [] (\<lambda>_. None)"
  shows "\<exists>hist base st' H.
      exec (counted_call os) client n [] (mapped_bytes (mem st), st) = Some (hist, base, st')
    \<and> spec_run heap_step client n [] (\<lambda>_. None) hist H
    \<and> finite (dom H) \<and> unat (p2allocated st') = (\<Sum>p \<in> dom H. length (the (H p)))
    \<and> mapped_bytes (mem st') = base + unat (p2totmem st')
    \<and> unat (p2allocated st') + 16 * card (dom H) \<le> unat (p2totmem st')"
proof -
  obtain hist base st' H where run:
      "exec (counted_call os) client n [] (mapped_bytes (mem st), st) = Some (hist, base, st')"
      "spec_run heap_step client n [] (\<lambda>_. None) hist H" "counted_rel os (base, st') H"
    using counted.runs [OF counted_boot [OF assms(2,1)] assms(3)] by (metis prod.collapse)
  then have "client_rel (os, st') H" "mapped_bytes (mem st') = base + unat (p2totmem st')"
    by (simp_all add: counted_rel_def)
  with run(1,2) client_counters [OF this(1)] show ?thesis by blast
qed

theorem counters_exact_witness:
  "\<exists>hist base st'. exec (counted_call bump_kernel) demo_client 4 []
      (mapped_bytes (mem (boot static_heads)), boot static_heads) = Some (hist, base, st')
    \<and> mapped_bytes (mem st') = base + unat (p2totmem st')"
  using counters_exact [OF kernel_ok_bump p2_boot_static demo_well_behaved] by blast

text \<open>C17. Allocating and releasing again gives back both the counter of requested bytes and the live
  blocks, and for a large block the mappings too: its memory is returned to the operating system.\<close>

theorem malloc_free_roundtrip:
  assumes "p2_inv st g" and "kernel_ok os" and "p2malloc os sz st = Some (p, st1)" and "p \<noteq> NULL"
  shows "\<exists>st2 g2. p2free p st1 = Some st2 \<and> p2_inv st2 g2 \<and> a_live g2 = a_live g
    \<and> p2allocated st2 = p2allocated st
    \<and> (4080 < unat sz \<longrightarrow> p2totmem st2 = p2totmem st \<and> regions (mem st2) = regions (mem st))"
proof -
  let ?am = "a_malloc (answers os st) sz g"
  have am: "fst ?am = p" and inv1: "p2_inv st1 (snd ?am)"
    using p2malloc_spec [OF assms(1,2), of sz] assms(3) by auto
  obtain h where h: "p = h + 16"
      and L: "a_live (snd ?am) = add_mset (h, sz, alloc_size_of sz) (a_live g)"
    using assms(4) am by (cases rule: a_malloc_cases [OF a_free_length [OF assms(1)], of "answers os st" sz]) auto
  let ?l = "(h, sz, alloc_size_of sz)" and ?g2 = "a_release (snd ?am) (h, sz, alloc_size_of sz)"
  have l: "?l \<in># a_live (snd ?am)" by (simp add: L)
  note rel1 = live_not_boot [OF inv1 l]
  obtain st2 where st2: "p2free p st1 = Some st2" "p2_rel st2 ?g2"
    "regions (mem st2) = (if alloc_size_of sz = 0 then regions (mem st1)
       else remove1 (h, unat (alloc_size_of sz)) (regions (mem st1)))"
    using p2free_spec [OF rel1 l] h by auto
  have inv2: "p2_inv st2 ?g2" using st2(2) by (simp add: p2_inv_def)
  have live: "a_live ?g2 = a_live g" by (simp add: L)
  have "p2allocated st2 = p2allocated st"
    using inv_counters(1) [OF inv2] inv_counters(1) [OF assms(1)] live by (simp add: p2allocated_def)
  moreover have "p2totmem st2 = p2totmem st \<and> regions (mem st2) = regions (mem st)" if large: "4080 < unat sz"
  proof -
    have big: "4080 < sz" using large by (simp add: word_less_nat_alt)
    have "?am \<noteq> (NULL, g)" using am assms(4) by auto
    with big obtain h' where h': "?am = (h' + 16, a_map g (h', sz, page_align (16 + sz)))"
      "a_mappings (answers os st) sz g = [(h', unat (page_align (16 + sz)))]" by (rule a_malloc_large)
    have same: "h' = h" using am h h'(1) by simp
    have al: "alloc_size_of sz = page_align (16 + sz)" "page_align (16 + sz) \<noteq> 0"
      using big large live_ptr(6) [OF rel1 l] by (auto simp: alloc_size_of_def valid_live_def)
    have "owned ?g2 = owned g" using owned_map_unmap [OF al(2)] by (simp add: h'(1) same al(1))
    then have "p2totmem st2 = p2totmem st"
      using inv_counters(2) [OF inv2] inv_counters(2) [OF assms(1)] by (simp add: p2totmem_def)
    moreover have "regions (mem st1) = (h, unat (page_align (16 + sz))) # regions (mem st)"
      using p2malloc_spec [OF assms(1,2), of sz] assms(3) by (simp add: h'(2) same)
    ultimately show ?thesis using st2(3) al by simp
  qed
  ultimately show ?thesis using st2(1) inv2 live by blast
qed

theorem malloc_free_roundtrip_witness:
  "\<exists>st1 st2. p2malloc bump_kernel 24 (boot static_heads) = Some (12240, st1)
     \<and> p2free 12240 st1 = Some st2 \<and> p2allocated st2 = 0"
proof -
  obtain st g where st: "p2malloc bump_kernel 24 (boot static_heads) = Some (12240, st)"
    by (rule boot_malloc)
  moreover have "p2allocated (boot static_heads) = 0" by (simp add: p2allocated_def boot_def)
  ultimately show ?thesis using malloc_free_roundtrip [OF p2_inv_boot kernel_ok_bump st] by auto
qed

text \<open>C18. After a slab block is released, a request of the same size class succeeds without the
  operating system, whatever it would answer: no memory is mapped and \<open>p2totmem\<close> stays.\<close>

theorem free_then_malloc_reuses:
  assumes "p2_inv st g" and "(h, sz, 0) \<in># a_live g" and "p2free (h + 16) st = Some st1"
    and "kernel_ok os" and "sz' \<noteq> 0" and "unat sz' \<le> 4080" and "get_freelist_idx sz' = get_freelist_idx sz"
  shows "\<exists>p st2. p2malloc os sz' st1 = Some (p, st2) \<and> p \<noteq> NULL
    \<and> regions (mem st2) = regions (mem st) \<and> p2totmem st2 = p2totmem st"
proof -
  let ?l = "(h, sz, 0)"
  note rel = live_not_boot [OF assms(1,2)]
  obtain i where i: "get_freelist_idx sz' = int i" "i < 8" using idx_slab [OF assms(6)] .
  then have idx: "get_freelist_idx sz = int i" using assms(7) by simp
  let ?g1 = "a_give g i ?l"
  have len: "length (a_free g) = 8" by (rule a_free_length [OF assms(1)])
  have st1: "p2_rel st1 ?g1" "regions (mem st1) = regions (mem st)"
    using p2free_spec [OF rel assms(2)] assms(3) idx by (auto simp: a_release_def)
  have inv1: "p2_inv st1 ?g1" using st1(1) by (simp add: p2_inv_def)
  have "h \<in> set (a_free ?g1 ! i)" using i(2) len by simp
  then have ne: "a_free ?g1 ! i \<noteq> []" by auto
  have small: "\<not> 4080 < sz'" "\<not> SIZE_MAX - 16 < sz'" "sz' \<le> 4080"
    using assms(6) by (auto simp: word_less_nat_alt word_le_nat_alt)
  let ?am = "a_malloc (answers os st1) sz' ?g1"
  obtain st2 where st2: "p2malloc os sz' st1 = Some (fst ?am, st2)" "p2_inv st2 (snd ?am)"
    "regions (mem st2) = a_mappings (answers os st1) sz' ?g1 @ regions (mem st1)"
    using p2malloc_spec [OF inv1 assms(4), of sz'] by blast
  have maps: "a_mappings (answers os st1) sz' ?g1 = []"
    using ne i(1) small(3) by (simp add: a_mappings_def Let_def)
  have "?am \<noteq> (NULL, ?g1)" using ne i(1) small assms(5) by (simp add: a_malloc_fail_iff)
  then have nz: "fst ?am \<noteq> NULL" by (rule a_malloc_nonnull [OF inv1 st2(2)])
  have "snd ?am = a_take ?g1 i sz'" using ne i(1) small assms(5) by (simp add: a_malloc_def a_malloc_slab_def)
  then have "owned (snd ?am) = owned g"
    using extents_take(2) [OF i(2) _ ne i(1)] extents_give(2) [OF i(2) len assms(2) idx] len by simp
  then have "p2totmem st2 = p2totmem st"
    using inv_counters(2) [OF st2(2)] inv_counters(2) [OF assms(1)] by (simp add: p2totmem_def)
  then show ?thesis using st2(1,3) st1(2) maps nz by auto
qed

theorem free_then_malloc_reuses_witness:
  "\<exists>st st1 p st2. p2malloc bump_kernel 24 (boot static_heads) = Some (12240, st)
     \<and> p2free 12240 st = Some st1 \<and> p2malloc (\<lambda>_ _. None) 30 st1 = Some (p, st2) \<and> p \<noteq> NULL"
proof -
  obtain st g where st: "p2malloc bump_kernel 24 (boot static_heads) = Some (12240, st)"
    "p2_rel st g" "a_live g = {#(12224, 24, 0)#}" by (rule boot_malloc)
  have inv: "p2_inv st g" using st(2) by (simp add: p2_inv_def)
  have l: "(12224, 24, 0) \<in># a_live g" by (simp add: st(3))
  obtain st1 where free: "p2free (12224 + 16) st = Some st1"
    using p2free_spec [OF st(2) l] by blast
  have "kernel_ok (\<lambda>_ _. None)" by (simp add: kernel_ok_def mmap_ok_def)
  moreover have "get_freelist_idx 30 = get_freelist_idx 24" by (simp add: get_freelist_idx_nat)
  ultimately show ?thesis
    using free_then_malloc_reuses [OF inv l free, of "\<lambda>_ _. None" 30] free st(1) by auto
qed

text \<open>C19. The overflow guard of \<open>p2malloc\<close> is missing in \<open>p2realloc\<close>: for a block of the smallest
  class and a size that wraps together with the header, the size class computed is that of the block,
  and the call hands back the 32-byte block as one of nearly \<open>SIZE_MAX\<close> bytes, where \<open>p2malloc\<close>
  refuses the size.  The counter of requested bytes moves by the whole size.\<close>

theorem p2realloc_accepts_wrapping_size:
  assumes "p2_inv st g" and "(h, old, 0) \<in># a_live g" and "unat old \<le> 16"
    and "2 ^ 64 \<le> unat sz + 16"
  shows "p2malloc os sz st = Some (NULL, st)
    \<and> (\<exists>st'. p2realloc os (h + 16) sz st = Some (h + 16, st') \<and> hdr_size (mem st') h = Some sz
        \<and> p2allocated st' = p2allocated st - old + sz \<and> regions (mem st') = regions (mem st))
    \<and> live_len old 0 = 32"
proof -
  note rel = live_not_boot [OF assms(1,2)]
  note lp = live_ptr [OF rel assms(2)] and pm = p2_relD(2) [OF rel]
  have nz: "sz \<noteq> 0" using assms(4) by auto
  have big: "SIZE_MAX - 16 < sz" using assms(4) by (simp add: word_less_nat_alt)
  have idx: "get_freelist_idx old = 0" using assms(3) by (simp add: get_freelist_idx_nat)
  have mp: "mapped (mem st) h 32" and nw: "unat h + 32 < 2 ^ 64"
    using live_no_wrap [OF p2_memD(1) [OF pm] assms(2)] idx by (simp_all add: live_len_def)
  have "mapped (mem st) h 8" by (rule mapped_sub [OF mp]) simp_all
  then obtain m where m: "store64 (mem st) h sz = Some m" "changes (span_of h 8) (mem st) m" "load64 m h = Some sz"
    using store64_mapped [of "mem st" h] nw by auto
  let ?st = "st\<lparr>mem := m, allocated := allocated st - old + sz\<rparr>"
  have "p2realloc os (h + 16) sz st = Some (h + 16, ?st)"
    using lp(1,4,5) nz idx idx_wraps [OF assms(4)] m(1)
    by (simp add: p2realloc_def IS_LARGE_def set_hdr_size_def)
  moreover have "p2malloc os sz st = Some (NULL, st)" using big by (simp add: p2malloc_def)
  ultimately show ?thesis using m(3) changes_regions [OF m(2)] idx
    by (simp add: hdr_size_def p2allocated_def live_len_def)
qed

text \<open>A program that holds a block of one byte.\<close>

lemma boot_malloc_1:
  obtains st g h al where "p2malloc bump_kernel 1 (boot static_heads) = Some (h + 16, st)"
    and "p2_inv st g" and "(h, 1, al) \<in># a_live g" and "al = 0"
proof -
  let ?am = "a_malloc (answers bump_kernel (boot static_heads)) 1 a_empty"
  obtain st where st: "p2malloc bump_kernel 1 (boot static_heads) = Some (fst ?am, st)"
      "p2_inv st (snd ?am)" using p2malloc_spec [OF p2_inv_boot kernel_ok_bump, of 1] by blast
  have "?am \<noteq> (NULL, a_empty)" using bump_first_page by (simp add: a_malloc_fail_iff)
  then show ?thesis using that st
    by (rule_tac a_malloc_cases [OF a_free_length [OF p2_inv_boot], of "answers bump_kernel (boot static_heads)" 1])
      (auto simp: alloc_size_of_def)
qed

theorem p2realloc_accepts_wrapping_size_witness:
  "\<exists>st p st'. p2malloc bump_kernel 1 (boot static_heads) = Some (p, st)
     \<and> p2realloc bump_kernel p SIZE_MAX st = Some (p, st') \<and> hdr_size (mem st') (p - 16) = Some SIZE_MAX"
proof -
  obtain st g h al where st: "p2malloc bump_kernel 1 (boot static_heads) = Some (h + 16, st)"
    "p2_inv st g" "(h, 1, al) \<in># a_live g" "al = 0" by (rule boot_malloc_1)
  have "\<exists>st'. p2realloc bump_kernel (h + 16) SIZE_MAX st = Some (h + 16, st')
      \<and> hdr_size (mem st') h = Some SIZE_MAX"
    using p2realloc_accepts_wrapping_size [OF st(2) st(3) [unfolded st(4)], of SIZE_MAX bump_kernel] by auto
  with st(1) show ?thesis by fastforce
qed

text \<open>\<open>p2reset\<close> is defined in every state of the allocator, leaves the state of a program that has
  not allocated, with both counters 0, and gives no memory back: the pages it forgets stay mapped.\<close>

lemma p2reset_forgets:
  assumes "p2_inv st g"
  shows "\<exists>st'. p2reset st = Some st' \<and> p2_inv st' a_empty \<and> p2allocated st' = 0 \<and> p2totmem st' = 0
    \<and> regions (mem st') = regions (mem st)"
proof -
  obtain st' where st': "p2reset st = Some st'" "p2_rel st' a_empty" "regions (mem st') = regions (mem st)"
    using p2reset_spec [OF assms] by blast
  then have "p2_inv st' a_empty" by (simp add: p2_inv_def)
  with st' inv_counters [OF this] show ?thesis by (auto simp: p2allocated_def p2totmem_def)
qed

text \<open>The first initialisation leaves eight empty rings with the block sizes 32 to 4096 and free
  mutexes, and happens once: from then on \<open>ensure_init\<close> changes nothing.\<close>

lemma ensure_init_once:
  assumes "p2_boot st"
  shows "\<exists>st'. ensure_init st = Some st' \<and> ensure_init st' = Some st' \<and> p2_inv st' a_empty
    \<and> (\<forall>i < 8. ps_list_head_empty (mem st') (heads st ! i) = Some True
         \<and> pow2 (freelists st' ! i) = push_bit (i + 5) 1 \<and> lock (freelists st' ! i) = Unlocked)"
proof -
  have "p2_inv st a_empty" using assms by (simp add: p2_inv_def)
  then obtain st' where st': "ensure_init st = Some st'" "p2_rel st' a_empty" "heads st' = heads st"
    by (rule ensure_init_spec)
  have "ensure_init st' = Some st'" using p2_relD(1) [OF st'(2)] by (simp add: ensure_init_def)
  moreover have "ps_list_head_empty (mem st') (heads st ! i) = Some True" if "i < 8" for i
    using rel_ring(1) [OF p2_relD(2) [OF st'(2)] that] st'(3) that by simp
  ultimately show ?thesis using st' p2_relD(3) [OF st'(2)]
    by (simp add: p2_inv_def p2_fls_def BASE_SHIFT_def)
qed

end
